(* ===== verification/Prelude.thy ===== *)
theory Prelude
  imports Complex_Main "HOL-Library.Finite_Map"
begin

text \<open>
  Shared vocabulary of the development: JSON values and Python dictionaries as the code
  stores them, the exceptions of the job subsystem as one error type, the result type of
  fallible operations, and the generic facts the component theories rewrite with.

  \<^item> A Python dictionary is a finite map, so two dictionaries are equal when they hold the
    same entries, whatever their insertion order, as in Python.
  \<^item> Python floats are exact rationals.
  \<^item> An exception is a value: a fallible operation returns \<open>Inl\<close> of the error or
    \<open>Inr\<close> of its result. Messages are not modelled, the exception class is.
\<close>

section \<open>Results\<close>

datatype py_error =
    KeyError string
  | ValueError
  | TypeError
  | IntegrityError
  | InvalidActorError
  | TerminalJobError string
  | CommittedJobError string
  | CommittedStateIntegrityError "string list"
  | InvalidTransitionError string
  | StaleProposalError string
  | StaleExecutionError string
  | ConcurrentJobModificationError string
  | ExecutionTokenError string
  | ReleaseTokenError string
  | ExecutionIntegrityError string
  | EvidenceValidationError
  | OverflowError
  | InvalidSlaPolicyError
  | ObligationIntegrityError string
  | NoBlockProposalError string
  | PersonError
  | AssignmentError string
  | ScopeError string
  | DirectoryError string
  | AuthorizationDenied string string
  | AuthenticationContextError string
  | PolicyConfigurationError
  | InvalidHorizonMinutesError
  | CollectionScanLimitError
  | IndexError
  | IdempotencyKeyError
  | IdempotencyKeyConflictError
  | FieldLocationError
  | LocationInputConflictError
  | JobResourceResolutionError
  | AssetAssociationError
  | AssetReferenceError
  | SectionValidationError
  | UnknownSectionError
  | ChainageResolutionError
  | NoEligibleJobsError
  | PossessionDataUnavailableError
  | TimetableConversionError
  | UnknownStationError
  | SectionTopologyError
  | SectionResolutionError
  | TimetableCoverageError
  | TimetableCoverageGapError
  | MalformedEncodingError
  | TrustedKeyError
  | KeySetUnavailable
  | AssertionVerificationError string
  | SessionError string
  | ConfigError
  | DirectoryFileError string string

type_synonym 'a res = "py_error + 'a"

definition bind_res :: "'a res \<Rightarrow> ('a \<Rightarrow> 'b res) \<Rightarrow> 'b res" where
  "bind_res r k = (case r of Inl e \<Rightarrow> Inl e | Inr x \<Rightarrow> k x)"

lemma bind_res_simps [simp]:
  "bind_res (Inl e) k = Inl e"
  "bind_res (Inr x) k = k x"
  by (simp_all add: bind_res_def)

lemma bind_res_Inr_iff: "bind_res r k = Inr y \<longleftrightarrow> (\<exists>x. r = Inr x \<and> k x = Inr y)"
  by (cases r) simp_all

lemma bind_res_Inl_iff:
  "bind_res r k = Inl e \<longleftrightarrow> r = Inl e \<or> (\<exists>x. r = Inr x \<and> k x = Inl e)"
  by (cases r) auto

lemma bind_res_assoc: "bind_res (bind_res r f) g = bind_res r (\<lambda>x. bind_res (f x) g)"
  by (cases r) simp_all

text \<open>A \<^verbatim>\<open>for\<close> loop whose body may raise: the first exception leaves the loop.\<close>

fun each_res :: "('a \<Rightarrow> unit res) \<Rightarrow> 'a list \<Rightarrow> unit res" where
  "each_res f [] = Inr ()"
| "each_res f (x # xs) = bind_res (f x) (\<lambda>_. each_res f xs)"

lemma each_res_Inr_iff: "each_res f xs = Inr () \<longleftrightarrow> (\<forall>x \<in> set xs. f x = Inr ())"
  by (induction xs) (auto simp: bind_res_Inr_iff)

lemma each_res_Inl: "each_res f xs = Inl e \<Longrightarrow> \<exists>x \<in> set xs. f x = Inl e"
  by (induction xs) (auto simp: bind_res_Inl_iff)

text \<open>A comprehension whose element expression may raise.\<close>

fun map_res :: "('a \<Rightarrow> 'b res) \<Rightarrow> 'a list \<Rightarrow> 'b list res" where
  "map_res f [] = Inr []"
| "map_res f (x # xs) = bind_res (f x) (\<lambda>y. bind_res (map_res f xs) (\<lambda>ys. Inr (y # ys)))"

lemma map_res_Inr_iff: "map_res f xs = Inr ys \<longleftrightarrow> list_all2 (\<lambda>x y. f x = Inr y) xs ys"
proof (induction xs arbitrary: ys)
  case Nil
  then show ?case by auto
next
  case (Cons x xs)
  then show ?case
    by (cases ys) (auto simp: bind_res_Inr_iff)
qed

section \<open>JSON values and dictionaries\<close>

datatype json =
    JNull
  | JBool bool
  | JInt int
  | JFloat rat
  | JStr string
  | JArr "json list"
  | JObj "(string, json) fmap"

type_synonym dict = "(string, json) fmap"

text \<open>\<^verbatim>\<open>d.get(k)\<close>: \<^verbatim>\<open>None\<close> for an absent key and for a stored \<^verbatim>\<open>None\<close> alike.\<close>

definition dget :: "dict \<Rightarrow> string \<Rightarrow> json" where
  "dget d k = (case fmlookup d k of None \<Rightarrow> JNull | Some v \<Rightarrow> v)"

text \<open>\<^verbatim>\<open>k in d\<close>.\<close>

definition dhas :: "dict \<Rightarrow> string \<Rightarrow> bool" where
  "dhas d k \<longleftrightarrow> fmlookup d k \<noteq> None"

fun truthy :: "json \<Rightarrow> bool" where
  "truthy JNull = False"
| "truthy (JBool b) = b"
| "truthy (JInt i) = (i \<noteq> 0)"
| "truthy (JFloat r) = (r \<noteq> 0)"
| "truthy (JStr s) = (s \<noteq> [])"
| "truthy (JArr xs) = (xs \<noteq> [])"
| "truthy (JObj m) = (m \<noteq> fmempty)"

text \<open>
  Python's \<^verbatim>\<open>==\<close> on JSON values: \<^verbatim>\<open>True == 1 == 1.0\<close>, everything else is equal only to a
  value of its own kind. Both sides are brought to one spelling of a number.
\<close>

definition norm_rat :: "rat \<Rightarrow> json" where
  "norm_rat r = (if of_int (floor r) = r then JInt (floor r) else JFloat r)"

primrec norm_json :: "json \<Rightarrow> json" where
  "norm_json JNull = JNull"
| "norm_json (JBool b) = JInt (if b then 1 else 0)"
| "norm_json (JInt i) = JInt i"
| "norm_json (JFloat r) = norm_rat r"
| "norm_json (JStr s) = JStr s"
| "norm_json (JArr xs) = JArr (map norm_json xs)"
| "norm_json (JObj m) = JObj (fmmap norm_json m)"

definition py_eq :: "json \<Rightarrow> json \<Rightarrow> bool" where
  "py_eq a b \<longleftrightarrow> norm_json a = norm_json b"

lemma norm_json_eq_JStr [simp]: "norm_json v = JStr s \<longleftrightarrow> v = JStr s"
  by (cases v) (auto simp: norm_rat_def)

lemma norm_json_eq_JNull [simp]: "norm_json v = JNull \<longleftrightarrow> v = JNull"
  by (cases v) (auto simp: norm_rat_def)

lemma py_eq_refl [simp]: "py_eq v v"
  by (simp add: py_eq_def)

lemma py_eq_sym: "py_eq a b \<longleftrightarrow> py_eq b a"
  by (auto simp: py_eq_def)

lemma py_eq_trans: "py_eq a b \<Longrightarrow> py_eq b c \<Longrightarrow> py_eq a c"
  by (simp add: py_eq_def)

lemma py_eq_JStr [simp]: "py_eq (JStr s) v \<longleftrightarrow> v = JStr s" "py_eq v (JStr s) \<longleftrightarrow> v = JStr s"
  by (auto simp: py_eq_def dest: sym)

lemma py_eq_JNull [simp]: "py_eq JNull v \<longleftrightarrow> v = JNull" "py_eq v JNull \<longleftrightarrow> v = JNull"
  by (auto simp: py_eq_def dest: sym)

lemma fmmap_eq_fmempty: "fmmap f m = fmempty \<longleftrightarrow> m = fmempty"
proof
  assume h: "fmmap f m = fmempty"
  have "fmlookup m k = None" for k
    using arg_cong [OF h, of "\<lambda>x. fmlookup x k"] by simp
  then show "m = fmempty" by (intro fmap_ext) simp
qed simp

lemma truthy_norm_json: "truthy (norm_json v) = truthy v"
proof (cases v)
  case (JFloat r)
  show ?thesis
  proof (cases "of_int (floor r) = r")
    case True
    then have "floor r = 0 \<longleftrightarrow> r = 0" by (metis of_int_0 floor_zero)
    with True JFloat show ?thesis by (simp add: norm_rat_def)
  qed (use JFloat in \<open>auto simp: norm_rat_def\<close>)
qed (auto simp: fmmap_eq_fmempty)

lemma py_eq_truthy: "py_eq a b \<Longrightarrow> truthy a = truthy b"
  by (metis py_eq_def truthy_norm_json)

lemma dget_fmupd [simp]: "dget (fmupd k v d) k' = (if k' = k then v else dget d k')"
  by (simp add: dget_def)

lemma dget_fmdrop [simp]: "dget (fmdrop k d) k' = (if k' = k then JNull else dget d k')"
  by (simp add: dget_def)

lemma dget_fmempty [simp]: "dget fmempty k = JNull"
  by (simp add: dget_def)

lemma dhas_fmupd [simp]: "dhas (fmupd k v d) k' \<longleftrightarrow> k' = k \<or> dhas d k'"
  by (simp add: dhas_def)

lemma dhas_fmdrop [simp]: "dhas (fmdrop k d) k' \<longleftrightarrow> k' \<noteq> k \<and> dhas d k'"
  by (simp add: dhas_def)

lemma dhas_fmempty [simp]: "\<not> dhas fmempty k"
  by (simp add: dhas_def)

lemma dget_not_dhas: "\<not> dhas d k \<Longrightarrow> dget d k = JNull"
  by (simp add: dget_def dhas_def)

text \<open>\<^verbatim>\<open>{**d, **e}\<close>: the entries of the second dictionary win.\<close>

definition dmerge :: "dict \<Rightarrow> dict \<Rightarrow> dict" where
  "dmerge d e = d ++\<^sub>f e"

lemma dget_dmerge: "dget (dmerge d e) k = (if dhas e k then dget e k else dget d k)"
  by (auto simp: dmerge_def dget_def dhas_def fmdom'_notI fmlookup_dom'_iff split: option.splits)

text \<open>A dictionary display, later entries winning as in Python.\<close>

definition dict_of :: "(string \<times> json) list \<Rightarrow> dict" where
  "dict_of kvs = fold (\<lambda>(k, v) d. fmupd k v d) kvs fmempty"

definition json_of_int :: "int option \<Rightarrow> json" where
  "json_of_int v = (case v of None \<Rightarrow> JNull | Some i \<Rightarrow> JInt i)"

definition json_of_str :: "string option \<Rightarrow> json" where
  "json_of_str v = (case v of None \<Rightarrow> JNull | Some s \<Rightarrow> JStr s)"

lemma json_of_str_simps [simp]: "json_of_str None = JNull" "json_of_str (Some s) = JStr s"
  by (simp_all add: json_of_str_def)

lemma json_of_int_simps [simp]: "json_of_int None = JNull" "json_of_int (Some i) = JInt i"
  by (simp_all add: json_of_int_def)

text \<open>\<^verbatim>\<open>d.get(k, v)\<close>\<close>

definition dget_default :: "dict \<Rightarrow> string \<Rightarrow> json \<Rightarrow> json" where
  "dget_default d k v = (if dhas d k then dget d k else v)"

text \<open>\<^verbatim>\<open>int(x)\<close> of a stored value. A numeric string, which Python would parse, is never stored
  where the code reads an integer.\<close>

fun int_of_json :: "json \<Rightarrow> int res" where
  "int_of_json (JInt i) = Inr i"
| "int_of_json (JBool b) = Inr (if b then 1 else 0)"
| "int_of_json (JFloat r) = Inr (if 0 \<le> r then floor r else ceiling r)"
| "int_of_json (JStr s) = Inl ValueError"
| "int_of_json _ = Inl TypeError"

text \<open>\<^verbatim>\<open>float(x)\<close> of a stored value, numeric text refused likewise.\<close>

fun float_of_json :: "json \<Rightarrow> rat res" where
  "float_of_json (JInt i) = Inr (of_int i)"
| "float_of_json (JBool b) = Inr (if b then 1 else 0)"
| "float_of_json (JFloat r) = Inr r"
| "float_of_json (JStr s) = Inl ValueError"
| "float_of_json _ = Inl TypeError"

section \<open>Rounding\<close>

text \<open>Python's \<^verbatim>\<open>round\<close>: to the nearest integer, ties to the even one.\<close>

definition py_round :: "rat \<Rightarrow> int" where
  "py_round r =
    (let f = floor r; d = r - of_int f in
     if d < 1 / 2 then f else if 1 / 2 < d then f + 1 else if even f then f else f + 1)"

lemma py_round_of_int [simp]: "py_round (of_int i) = i"
  by (simp add: py_round_def)

lemma py_round_mono:
  assumes "a \<le> b"
  shows "py_round a \<le> py_round b"
proof (cases "floor a = floor b")
  case True
  with assms have "a - of_int (floor a) \<le> b - of_int (floor b)" by simp
  with True show ?thesis by (auto simp: py_round_def Let_def)
next
  case False
  with floor_mono [OF assms] have "floor a + 1 \<le> floor b" by simp
  moreover have "py_round a \<le> floor a + 1" "floor b \<le> py_round b" by (simp_all add: py_round_def Let_def)
  ultimately show ?thesis by linarith
qed

lemma py_round_near: "\<bar>of_int (py_round r) - r\<bar> \<le> 1 / 2"
proof -
  have "of_int (floor r) \<le> r" "r < of_int (floor r) + 1" by linarith+
  then show ?thesis unfolding py_round_def Let_def abs_if by (simp only: of_int_add of_int_1 split: if_split) linarith
qed

text \<open>\<^verbatim>\<open>round(x, n)\<close>\<close>

definition round_digits :: "nat \<Rightarrow> rat \<Rightarrow> rat" where
  "round_digits n r = of_int (py_round (10 ^ n * r)) / 10 ^ n"

lemma round_digits_near: "\<bar>round_digits n r - r\<bar> \<le> 1 / (2 * 10 ^ n)"
proof -
  have "\<bar>round_digits n r - r\<bar> = \<bar>of_int (py_round (10 ^ n * r)) - 10 ^ n * r\<bar> / 10 ^ n"
    by (simp add: round_digits_def abs_if field_simps)
  also have "\<dots> \<le> (1 / 2) / 10 ^ n" by (intro divide_right_mono py_round_near) simp
  finally show ?thesis by simp
qed

lemma round_digits_mono: "a \<le> b \<Longrightarrow> round_digits n a \<le> round_digits n b"
  by (simp add: round_digits_def divide_right_mono py_round_mono)

section \<open>Strings\<close>

definition starts_with :: "string \<Rightarrow> string \<Rightarrow> bool" where
  "starts_with p s \<longleftrightarrow> take (length p) s = p"

text \<open>Python's \<^verbatim>\<open>str.isspace\<close> on the ASCII range, and \<^verbatim>\<open>str.strip\<close> built on it.\<close>

definition is_space :: "char \<Rightarrow> bool" where
  "is_space c \<longleftrightarrow> (let n = (of_char c :: nat) in (9 \<le> n \<and> n \<le> 13) \<or> (28 \<le> n \<and> n \<le> 32))"

definition strip :: "string \<Rightarrow> string" where
  "strip s = rev (dropWhile is_space (rev (dropWhile is_space s)))"

definition is_digit :: "char \<Rightarrow> bool" where
  "is_digit c \<longleftrightarrow> (let n = (of_char c :: nat) in 48 \<le> n \<and> n \<le> 57)"

definition is_upper :: "char \<Rightarrow> bool" where
  "is_upper c \<longleftrightarrow> (let n = (of_char c :: nat) in 65 \<le> n \<and> n \<le> 90)"

definition is_lower :: "char \<Rightarrow> bool" where
  "is_lower c \<longleftrightarrow> (let n = (of_char c :: nat) in 97 \<le> n \<and> n \<le> 122)"

definition to_lower :: "char \<Rightarrow> char" where
  "to_lower c = (if is_upper c then char_of ((of_char c :: nat) + 32) else c)"

text \<open>\<^verbatim>\<open>p in s\<close> on strings.\<close>

fun contains :: "string \<Rightarrow> string \<Rightarrow> bool" where
  "contains p [] \<longleftrightarrow> p = []"
| "contains p (c # s) \<longleftrightarrow> starts_with p (c # s) \<or> contains p s"

definition newline :: char where
  "newline = CHR 0x0A"

text \<open>
  \<^verbatim>\<open>re.compile("^...$").match(s)\<close>: in Python \<^verbatim>\<open>$\<close> also matches just before one final
  newline, so a pattern anchored this way accepts its strings with or without it.
\<close>

definition anchored :: "(string \<Rightarrow> bool) \<Rightarrow> string \<Rightarrow> bool" where
  "anchored p s \<longleftrightarrow> p s \<or> (s \<noteq> [] \<and> last s = newline \<and> p (butlast s))"

section \<open>Lists\<close>

lemma find_Some_in: "find P xs = Some x \<Longrightarrow> x \<in> set xs \<and> P x"
  by (auto simp: find_Some_iff)

lemma distinct_map_inj:
  "distinct (map f xs) \<Longrightarrow> x \<in> set xs \<Longrightarrow> y \<in> set xs \<Longrightarrow> f x = f y \<Longrightarrow> x = y"
  by (auto simp: distinct_map inj_on_def)

text \<open>\<^verbatim>\<open>s.split(c)\<close>\<close>

fun split_on :: "char \<Rightarrow> string \<Rightarrow> string list" where
  "split_on c [] = [[]]"
| "split_on c (x # s) =
    (if x = c then [] # split_on c s
     else case split_on c s of [] \<Rightarrow> [[x]] | p # ps \<Rightarrow> (x # p) # ps)"

end
