(* ===== verification/Job_Model.thy ===== *)
theory Job_Model
  imports Prelude
begin

text \<open>
  The stored job: the statuses of \<^verbatim>\<open>backend/app/jobs/models.py\<close>, the block statuses of
  \<^verbatim>\<open>contracts/schemas.py\<close>, one row of \<^verbatim>\<open>maintenance_jobs\<close> as a record, and the reads of
  its \<^verbatim>\<open>block_candidate\<close> dictionary that the lifecycle rules are written with.

  A status column is free text in the database, so a status is a string here too, and the
  rules meet unknown statuses. \<^verbatim>\<open>block_candidate\<close> is a dictionary with an optional
  \<^verbatim>\<open>metadata\<close> dictionary inside; a \<^verbatim>\<open>metadata\<close> that is neither a dictionary nor falsy makes
  the Python raise \<^verbatim>\<open>AttributeError\<close>, which no writer of the code produces and which is
  read as an empty dictionary here.
\<close>

section \<open>Statuses\<close>

definition REPORTED :: string where "REPORTED = ''reported''"
definition SCHEDULED :: string where "SCHEDULED = ''scheduled''"
definition NOTIFIED :: string where "NOTIFIED = ''notified''"
definition IN_PROGRESS :: string where "IN_PROGRESS = ''in_progress''"
definition COMPLETED :: string where "COMPLETED = ''completed''"

lemmas status_defs = REPORTED_def SCHEDULED_def NOTIFIED_def IN_PROGRESS_def COMPLETED_def

lemma status_distinct [simp]:
  "REPORTED \<noteq> SCHEDULED" "REPORTED \<noteq> NOTIFIED" "REPORTED \<noteq> IN_PROGRESS" "REPORTED \<noteq> COMPLETED"
  "SCHEDULED \<noteq> REPORTED" "SCHEDULED \<noteq> NOTIFIED" "SCHEDULED \<noteq> IN_PROGRESS" "SCHEDULED \<noteq> COMPLETED"
  "NOTIFIED \<noteq> REPORTED" "NOTIFIED \<noteq> SCHEDULED" "NOTIFIED \<noteq> IN_PROGRESS" "NOTIFIED \<noteq> COMPLETED"
  "IN_PROGRESS \<noteq> REPORTED" "IN_PROGRESS \<noteq> SCHEDULED" "IN_PROGRESS \<noteq> NOTIFIED" "IN_PROGRESS \<noteq> COMPLETED"
  "COMPLETED \<noteq> REPORTED" "COMPLETED \<noteq> SCHEDULED" "COMPLETED \<noteq> NOTIFIED" "COMPLETED \<noteq> IN_PROGRESS"
  by (simp_all add: status_defs)

definition TERMINAL_STATUSES :: "string list" where
  "TERMINAL_STATUSES = [COMPLETED]"

definition COMMITTED_STATUSES :: "string list" where
  "COMMITTED_STATUSES = [NOTIFIED, IN_PROGRESS]"

lemma in_TERMINAL_STATUSES [simp]: "s \<in> set TERMINAL_STATUSES \<longleftrightarrow> s = COMPLETED"
  by (simp add: TERMINAL_STATUSES_def)

lemma in_COMMITTED_STATUSES [simp]:
  "s \<in> set COMMITTED_STATUSES \<longleftrightarrow> s = NOTIFIED \<or> s = IN_PROGRESS"
  by (auto simp: COMMITTED_STATUSES_def)

text \<open>\<^verbatim>\<open>BlockStatus\<close> values.\<close>

definition PLANNED_BLOCK :: string where "PLANNED_BLOCK = ''PLANNED''"
definition SCHEDULED_BLOCK :: string where "SCHEDULED_BLOCK = ''SCHEDULED''"
definition COMMITTED_BLOCK :: string where "COMMITTED_BLOCK = ''COMMITTED''"

lemmas block_status_defs = PLANNED_BLOCK_def SCHEDULED_BLOCK_def COMMITTED_BLOCK_def

lemma block_status_distinct [simp]:
  "PLANNED_BLOCK \<noteq> SCHEDULED_BLOCK" "PLANNED_BLOCK \<noteq> COMMITTED_BLOCK"
  "SCHEDULED_BLOCK \<noteq> PLANNED_BLOCK" "SCHEDULED_BLOCK \<noteq> COMMITTED_BLOCK"
  "COMMITTED_BLOCK \<noteq> PLANNED_BLOCK" "COMMITTED_BLOCK \<noteq> SCHEDULED_BLOCK"
  by (simp_all add: block_status_defs)

text \<open>Metadata keys.\<close>

definition PROPOSAL_RUN_ID_KEY :: string where "PROPOSAL_RUN_ID_KEY = ''proposal_run_id''"
definition COMMITTED_START_KEY :: string where "COMMITTED_START_KEY = ''committed_start_minute''"
definition COMMITTED_END_KEY :: string where "COMMITTED_END_KEY = ''committed_end_minute''"
definition EXECUTION_ID_KEY :: string where "EXECUTION_ID_KEY = ''execution_id''"
definition RELEASED_RUN_ID_KEY :: string where "RELEASED_RUN_ID_KEY = ''released_proposal_run_id''"

lemmas key_defs = PROPOSAL_RUN_ID_KEY_def COMMITTED_START_KEY_def COMMITTED_END_KEY_def
  EXECUTION_ID_KEY_def RELEASED_RUN_ID_KEY_def

lemma key_distinct [simp]:
  "PROPOSAL_RUN_ID_KEY \<noteq> COMMITTED_START_KEY" "PROPOSAL_RUN_ID_KEY \<noteq> COMMITTED_END_KEY"
  "PROPOSAL_RUN_ID_KEY \<noteq> EXECUTION_ID_KEY" "COMMITTED_START_KEY \<noteq> PROPOSAL_RUN_ID_KEY"
  "COMMITTED_START_KEY \<noteq> COMMITTED_END_KEY" "COMMITTED_START_KEY \<noteq> EXECUTION_ID_KEY"
  "COMMITTED_END_KEY \<noteq> PROPOSAL_RUN_ID_KEY" "COMMITTED_END_KEY \<noteq> COMMITTED_START_KEY"
  "COMMITTED_END_KEY \<noteq> EXECUTION_ID_KEY" "EXECUTION_ID_KEY \<noteq> PROPOSAL_RUN_ID_KEY"
  "EXECUTION_ID_KEY \<noteq> COMMITTED_START_KEY" "EXECUTION_ID_KEY \<noteq> COMMITTED_END_KEY"
  by (simp_all add: key_defs)

section \<open>A row of maintenance_jobs\<close>

record job =
  job_id :: string
  job_track_id :: string
  job_work_type :: string
  job_distance_start :: rat
  job_distance_end :: rat
  job_workers_min :: int
  job_workers_max :: int
  job_description :: string
  job_status :: string
  job_priority_score :: rat
  job_risk_score :: rat
  job_start :: "int option"
  job_end :: "int option"
  job_created_at :: string
  job_updated_at :: "string option"
  job_last_solver_status :: "string option"
  job_last_refusal_reason :: "string option"
  job_block :: dict

type_synonym window = "int option \<times> int option"

definition job_window :: "job \<Rightarrow> window" where
  "job_window j = (job_start j, job_end j)"

text \<open>\<^verbatim>\<open>block.get("metadata") or {}\<close>\<close>

definition metadata_of :: "dict \<Rightarrow> dict" where
  "metadata_of block = (case dget block ''metadata'' of JObj m \<Rightarrow> m | _ \<Rightarrow> fmempty)"

definition proposal_run_id_of :: "job \<Rightarrow> json" where
  "proposal_run_id_of j = dget (metadata_of (job_block j)) PROPOSAL_RUN_ID_KEY"

definition execution_id_of :: "job \<Rightarrow> json" where
  "execution_id_of j = dget (metadata_of (job_block j)) EXECUTION_ID_KEY"

lemma metadata_of_upd [simp]:
  "metadata_of (fmupd ''metadata'' (JObj m) b) = m"
  "k \<noteq> ''metadata'' \<Longrightarrow> metadata_of (fmupd k v b) = metadata_of b"
  by (simp_all add: metadata_of_def)

text \<open>A window that is really there: both ends stored, and the end after the start.\<close>

fun valid_window :: "window \<Rightarrow> bool" where
  "valid_window (Some s, Some e) \<longleftrightarrow> s < e"
| "valid_window _ \<longleftrightarrow> False"

lemma valid_window_iff: "valid_window w \<longleftrightarrow> (\<exists>s e. w = (Some s, Some e) \<and> s < e)"
  by (cases w rule: valid_window.cases) auto

end
