(* ===== verification/Actors.thy ===== *)
theory Actors
  imports Prelude
begin

text \<open>
  Who performed an action: \<^verbatim>\<open>backend/app/identity/actor.py\<close> and
  \<^verbatim>\<open>recorded_actor.py\<close>. An \<open>actor\<close> is validated at construction; \<open>make_actor\<close> is
  that validation, with \<open>capability\<close> telling whether the caller holds the module-private
  authentication capability. A stored authenticated identity is rebuilt as a
  \<open>recorded_actor\<close>, a different type that no live operation accepts.
\<close>

section \<open>Roles and assurance\<close>

datatype actor_kind = HUMAN | SYSTEM_KIND

datatype actor_role = WORKER | ENGINEER | AUTHORITY | ADMIN | SYSTEM | UNIDENTIFIED

datatype assurance = SYSTEM_INTERNAL | DECLARED_UNVERIFIED | NO_ASSURANCE | AUTHENTICATED

definition HUMAN_ROLES :: "actor_role list" where
  "HUMAN_ROLES = [WORKER, ENGINEER, AUTHORITY, ADMIN]"

fun role_value :: "actor_role \<Rightarrow> string" where
  "role_value WORKER = ''WORKER''"
| "role_value ENGINEER = ''ENGINEER''"
| "role_value AUTHORITY = ''AUTHORITY''"
| "role_value ADMIN = ''ADMIN''"
| "role_value SYSTEM = ''SYSTEM''"
| "role_value UNIDENTIFIED = ''UNIDENTIFIED''"

fun assurance_value :: "assurance \<Rightarrow> string" where
  "assurance_value SYSTEM_INTERNAL = ''SYSTEM_INTERNAL''"
| "assurance_value DECLARED_UNVERIFIED = ''DECLARED_UNVERIFIED''"
| "assurance_value NO_ASSURANCE = ''NONE''"
| "assurance_value AUTHENTICATED = ''AUTHENTICATED''"

fun kind_value :: "actor_kind \<Rightarrow> string" where
  "kind_value HUMAN = ''HUMAN''"
| "kind_value SYSTEM_KIND = ''SYSTEM''"

text \<open>\<^verbatim>\<open>ActorRole(value)\<close> and its kin: the member with that value, or no member.\<close>

definition role_of :: "string \<Rightarrow> actor_role option" where
  "role_of s = find (\<lambda>r. role_value r = s)
     [WORKER, ENGINEER, AUTHORITY, ADMIN, SYSTEM, UNIDENTIFIED]"

definition assurance_of :: "string \<Rightarrow> assurance option" where
  "assurance_of s = find (\<lambda>a. assurance_value a = s)
     [SYSTEM_INTERNAL, DECLARED_UNVERIFIED, NO_ASSURANCE, AUTHENTICATED]"

definition kind_of :: "string \<Rightarrow> actor_kind option" where
  "kind_of s = find (\<lambda>k. kind_value k = s) [HUMAN, SYSTEM_KIND]"

lemma role_of_value [simp]: "role_of (role_value r) = Some r"
  by (cases r) (simp_all add: role_of_def)

lemma assurance_of_value [simp]: "assurance_of (assurance_value a) = Some a"
  by (cases a) (simp_all add: assurance_of_def)

lemma kind_of_value [simp]: "kind_of (kind_value k) = Some k"
  by (cases k) (simp_all add: kind_of_def)

text \<open>A member found by its value has that value.\<close>

lemma assurance_of_Some: "assurance_of s = Some a \<Longrightarrow> s = assurance_value a"
  unfolding assurance_of_def by (drule find_Some_in) simp

lemma role_of_Some: "role_of s = Some r \<Longrightarrow> s = role_value r"
  unfolding role_of_def by (drule find_Some_in) simp

section \<open>Actors\<close>

record actor =
  actor_id :: string
  actor_role :: actor_role
  actor_assurance :: assurance

definition SYSTEM_ACTOR_ID_PREFIX :: string where
  "SYSTEM_ACTOR_ID_PREFIX = ''SYSTEM''"

definition UNIDENTIFIED_ACTOR_ID :: string where
  "UNIDENTIFIED_ACTOR_ID = ''UNIDENTIFIED''"

text \<open>\<^verbatim>\<open>^[A-Za-z0-9][A-Za-z0-9._:-]{0,63}$\<close>\<close>

definition is_alnum :: "char \<Rightarrow> bool" where
  "is_alnum c \<longleftrightarrow> is_upper c \<or> is_lower c \<or> is_digit c"

fun actor_id_body :: "string \<Rightarrow> bool" where
  "actor_id_body [] = False"
| "actor_id_body (c # cs) \<longleftrightarrow>
     is_alnum c \<and> length cs \<le> 63 \<and> list_all (\<lambda>d. is_alnum d \<or> d \<in> set ''._:-'') cs"

definition matches_actor_id :: "string \<Rightarrow> bool" where
  "matches_actor_id s \<longleftrightarrow> anchored actor_id_body s"

definition to_upper :: "char \<Rightarrow> char" where
  "to_upper c = (if is_lower c then char_of ((of_char c :: nat) - 32) else c)"

definition looks_like_system :: "string \<Rightarrow> bool" where
  "looks_like_system s \<longleftrightarrow> starts_with SYSTEM_ACTOR_ID_PREFIX (map to_upper s)"

text \<open>\<^verbatim>\<open>Actor.__post_init__\<close>: the enum coercions, then the checks in the order of the code.\<close>

definition check_actor :: "bool \<Rightarrow> actor \<Rightarrow> actor res" where
  "check_actor capability a =
    (if \<not> matches_actor_id (actor_id a) then Inl InvalidActorError
     else if actor_role a = SYSTEM then
       (if actor_assurance a \<noteq> SYSTEM_INTERNAL then Inl InvalidActorError
        else if \<not> looks_like_system (actor_id a) then Inl InvalidActorError
        else Inr a)
     else if looks_like_system (actor_id a) then Inl InvalidActorError
     else if actor_role a = UNIDENTIFIED then
       (if actor_assurance a \<noteq> NO_ASSURANCE then Inl InvalidActorError else Inr a)
     else if actor_assurance a = AUTHENTICATED then
       (if \<not> capability then Inl InvalidActorError else Inr a)
     else if actor_assurance a \<noteq> DECLARED_UNVERIFIED then Inl InvalidActorError
     else Inr a)"

definition make_actor :: "bool \<Rightarrow> string \<Rightarrow> string \<Rightarrow> string \<Rightarrow> actor res" where
  "make_actor capability aid r a =
    (case role_of r of
       None \<Rightarrow> Inl InvalidActorError
     | Some role \<Rightarrow>
        (case assurance_of a of
           None \<Rightarrow> Inl InvalidActorError
         | Some asr \<Rightarrow>
             check_actor capability
               \<lparr>actor_id = aid, actor_role = role, actor_assurance = asr\<rparr>))"

definition kind_of_role :: "actor_role \<Rightarrow> actor_kind" where
  "kind_of_role r = (if r = SYSTEM then SYSTEM_KIND else HUMAN)"

definition actor_kind :: "actor \<Rightarrow> actor_kind" where
  "actor_kind a = kind_of_role (actor_role a)"

definition actor_to_dict :: "actor \<Rightarrow> dict" where
  "actor_to_dict a = dict_of
     [(''actor_id'', JStr (actor_id a)),
      (''role'', JStr (role_value (actor_role a))),
      (''kind'', JStr (kind_value (actor_kind a))),
      (''assurance'', JStr (assurance_value (actor_assurance a)))]"

definition human_actor :: "string \<Rightarrow> string \<Rightarrow> actor res" where
  "human_actor aid r =
    (case role_of r of
       None \<Rightarrow> Inl InvalidActorError
     | Some role \<Rightarrow>
        if role \<notin> set HUMAN_ROLES then Inl InvalidActorError
        else make_actor False aid (role_value role) (assurance_value DECLARED_UNVERIFIED))"

definition system_actor :: "string option \<Rightarrow> actor res" where
  "system_actor component = make_actor False
     (case component of
        None \<Rightarrow> SYSTEM_ACTOR_ID_PREFIX
      | Some c \<Rightarrow> if c = [] then SYSTEM_ACTOR_ID_PREFIX else SYSTEM_ACTOR_ID_PREFIX @ '':'' @ c)
     (role_value SYSTEM) (assurance_value SYSTEM_INTERNAL)"

definition unidentified_actor :: actor where
  "unidentified_actor =
     \<lparr>actor_id = UNIDENTIFIED_ACTOR_ID, actor_role = UNIDENTIFIED, actor_assurance = NO_ASSURANCE\<rparr>"

definition OPTIMIZER :: actor where
  "OPTIMIZER =
     \<lparr>actor_id = ''SYSTEM:OPTIMIZER'', actor_role = SYSTEM, actor_assurance = SYSTEM_INTERNAL\<rparr>"

definition SCORER :: actor where
  "SCORER =
     \<lparr>actor_id = ''SYSTEM:SCORER'', actor_role = SYSTEM, actor_assurance = SYSTEM_INTERNAL\<rparr>"

section \<open>Recorded actors\<close>

record recorded_actor =
  rec_actor_id :: string
  rec_role :: actor_role
  rec_assurance :: assurance

definition make_recorded_actor :: "string \<Rightarrow> string \<Rightarrow> string \<Rightarrow> recorded_actor res" where
  "make_recorded_actor aid r a =
    (case role_of r of
       None \<Rightarrow> Inl InvalidActorError
     | Some role \<Rightarrow>
        (case assurance_of a of
           None \<Rightarrow> Inl InvalidActorError
         | Some asr \<Rightarrow>
            if asr \<noteq> AUTHENTICATED then Inl InvalidActorError
            else bind_res (human_actor aid (role_value role)) (\<lambda>_.
              Inr \<lparr>rec_actor_id = aid, rec_role = role, rec_assurance = asr\<rparr>)))"

datatype event_actor = Live actor | Recorded recorded_actor

definition rehydrate_actor :: "string \<Rightarrow> string \<Rightarrow> string \<Rightarrow> event_actor res" where
  "rehydrate_actor aid r a =
    (case assurance_of a of
       None \<Rightarrow> Inl InvalidActorError
     | Some asr \<Rightarrow>
        if asr = AUTHENTICATED
        then bind_res (make_recorded_actor aid r (assurance_value asr)) (\<lambda>x. Inr (Recorded x))
        else bind_res (make_actor False aid r (assurance_value asr)) (\<lambda>x. Inr (Live x)))"

fun event_actor_kind :: "event_actor \<Rightarrow> actor_kind" where
  "event_actor_kind (Live a) = actor_kind a"
| "event_actor_kind (Recorded a) = kind_of_role (rec_role a)"

fun event_actor_to_dict :: "event_actor \<Rightarrow> dict" where
  "event_actor_to_dict (Live a) = actor_to_dict a"
| "event_actor_to_dict (Recorded a) = dict_of
     [(''actor_id'', JStr (rec_actor_id a)),
      (''role'', JStr (role_value (rec_role a))),
      (''kind'', JStr (kind_value (kind_of_role (rec_role a)))),
      (''assurance'', JStr (assurance_value (rec_assurance a)))]"

section \<open>What construction guarantees\<close>

text \<open>The shape every constructed actor has; \<open>capability\<close> as in \<open>make_actor\<close>.\<close>

definition actor_ok :: "bool \<Rightarrow> actor \<Rightarrow> bool" where
  "actor_ok capability a \<longleftrightarrow>
     matches_actor_id (actor_id a) \<and>
     (actor_role a = SYSTEM \<longleftrightarrow> actor_assurance a = SYSTEM_INTERNAL) \<and>
     (actor_role a = SYSTEM \<longleftrightarrow> looks_like_system (actor_id a)) \<and>
     (actor_role a = UNIDENTIFIED \<longleftrightarrow> actor_assurance a = NO_ASSURANCE) \<and>
     (actor_assurance a = AUTHENTICATED \<longrightarrow> capability)"

lemma check_actor_iff: "check_actor c a = Inr b \<longleftrightarrow> b = a \<and> actor_ok c a"
  by (cases "actor_role a"; cases "actor_assurance a")
    (auto simp: check_actor_def actor_ok_def)

lemma check_actor_error: "check_actor c a = Inl e \<Longrightarrow> e = InvalidActorError"
  by (auto simp: check_actor_def split: if_splits)

lemma make_actor_iff:
  "make_actor c aid r s = Inr a \<longleftrightarrow>
     actor_id a = aid \<and> role_of r = Some (actor_role a) \<and>
     assurance_of s = Some (actor_assurance a) \<and> actor_ok c a"
  by (cases a) (auto simp: make_actor_def check_actor_iff split: option.splits)

lemma human_actor_iff:
  "human_actor aid r = Inr a \<longleftrightarrow>
     actor_id a = aid \<and> role_of r = Some (actor_role a) \<and>
     actor_role a \<in> set HUMAN_ROLES \<and> actor_assurance a = DECLARED_UNVERIFIED \<and>
     actor_ok False a"
  by (cases a)
    (auto simp: human_actor_def make_actor_iff simp del: assurance_value.simps split: option.splits)

lemma builtin_actors_ok [simp]:
  "actor_ok False unidentified_actor" "actor_ok False OPTIMIZER" "actor_ok False SCORER"
  by (simp_all add: actor_ok_def unidentified_actor_def OPTIMIZER_def SCORER_def
      UNIDENTIFIED_ACTOR_ID_def SYSTEM_ACTOR_ID_PREFIX_def matches_actor_id_def anchored_def
      is_alnum_def is_upper_def is_lower_def is_digit_def looks_like_system_def
      starts_with_def to_upper_def of_char_def)

end
