(* ===== verification/Job_Events.thy ===== *)
theory Job_Events
  imports Job_Model Actors
begin

text \<open>
  Job lifecycle events, \<^verbatim>\<open>backend/app/jobs/events.py\<close>: the event types, the state
  snapshot an event carries, the event record with the checks of its construction, and the
  dictionary form it is stored in. What the code draws from outside (fresh identifiers, the
  current time) is the \<open>ambient\<close> argument: \<open>fresh k\<close> is the \<open>k\<close>-th identifier minted by one
  operation, \<open>clock\<close> the current moment in event format.

  \<^verbatim>\<open>canonical_bytes\<close> (the text of the JSON) is not modelled: a dictionary stands for its own
  canonical JSON.
\<close>

section \<open>Event types\<close>

datatype job_event_type =
    JOB_CREATED | JOB_SCORED | OPTIMIZATION_REQUESTED | OPTIMIZATION_COMPLETED
  | OPTIMIZATION_FAILED | BLOCK_PROPOSED | BLOCK_REPROPOSED | OPTIMIZATION_REFUSED
  | PROPOSAL_INVALIDATED | COMMITTED_BLOCK_PRESERVED | COMMITTED_BLOCK_CONFLICT
  | SCHEDULE_ASSIGNED | BLOCK_COMMITTED | JOB_COMPLETED | PROPOSAL_REJECTED
  | PROPOSAL_POSTPONED | TRANSITION_REJECTED | EXECUTION_STARTED | EXECUTION_COMPLETED
  | EXECUTION_NOT_COMPLETED | BLOCK_RELEASED

fun event_type_value :: "job_event_type \<Rightarrow> string" where
  "event_type_value JOB_CREATED = ''JOB_CREATED''"
| "event_type_value JOB_SCORED = ''JOB_SCORED''"
| "event_type_value OPTIMIZATION_REQUESTED = ''OPTIMIZATION_REQUESTED''"
| "event_type_value OPTIMIZATION_COMPLETED = ''OPTIMIZATION_COMPLETED''"
| "event_type_value OPTIMIZATION_FAILED = ''OPTIMIZATION_FAILED''"
| "event_type_value BLOCK_PROPOSED = ''BLOCK_PROPOSED''"
| "event_type_value BLOCK_REPROPOSED = ''BLOCK_REPROPOSED''"
| "event_type_value OPTIMIZATION_REFUSED = ''OPTIMIZATION_REFUSED''"
| "event_type_value PROPOSAL_INVALIDATED = ''PROPOSAL_INVALIDATED''"
| "event_type_value COMMITTED_BLOCK_PRESERVED = ''COMMITTED_BLOCK_PRESERVED''"
| "event_type_value COMMITTED_BLOCK_CONFLICT = ''COMMITTED_BLOCK_CONFLICT''"
| "event_type_value SCHEDULE_ASSIGNED = ''SCHEDULE_ASSIGNED''"
| "event_type_value BLOCK_COMMITTED = ''BLOCK_COMMITTED''"
| "event_type_value JOB_COMPLETED = ''JOB_COMPLETED''"
| "event_type_value PROPOSAL_REJECTED = ''PROPOSAL_REJECTED''"
| "event_type_value PROPOSAL_POSTPONED = ''PROPOSAL_POSTPONED''"
| "event_type_value TRANSITION_REJECTED = ''TRANSITION_REJECTED''"
| "event_type_value EXECUTION_STARTED = ''EXECUTION_STARTED''"
| "event_type_value EXECUTION_COMPLETED = ''EXECUTION_COMPLETED''"
| "event_type_value EXECUTION_NOT_COMPLETED = ''EXECUTION_NOT_COMPLETED''"
| "event_type_value BLOCK_RELEASED = ''BLOCK_RELEASED''"

definition all_event_types :: "job_event_type list" where
  "all_event_types =
     [JOB_CREATED, JOB_SCORED, OPTIMIZATION_REQUESTED, OPTIMIZATION_COMPLETED,
      OPTIMIZATION_FAILED, BLOCK_PROPOSED, BLOCK_REPROPOSED, OPTIMIZATION_REFUSED,
      PROPOSAL_INVALIDATED, COMMITTED_BLOCK_PRESERVED, COMMITTED_BLOCK_CONFLICT,
      SCHEDULE_ASSIGNED, BLOCK_COMMITTED, JOB_COMPLETED, PROPOSAL_REJECTED,
      PROPOSAL_POSTPONED, TRANSITION_REJECTED, EXECUTION_STARTED, EXECUTION_COMPLETED,
      EXECUTION_NOT_COMPLETED, BLOCK_RELEASED]"

definition event_type_of :: "string \<Rightarrow> job_event_type option" where
  "event_type_of s = find (\<lambda>t. event_type_value t = s) all_event_types"

lemma event_type_of_value [simp]: "event_type_of (event_type_value t) = Some t"
  by (cases t) (simp_all add: event_type_of_def all_event_types_def)

section \<open>Snapshots\<close>

record snapshot =
  snap_status :: string
  snap_block_status :: json
  snap_is_committed :: bool
  snap_start :: "int option"
  snap_end :: "int option"
  snap_run_id :: json

text \<open>\<^verbatim>\<open>str(block.get("status", ""))\<close>: block statuses are strings, on which \<^verbatim>\<open>str\<close> is the identity.\<close>

definition snapshot_of :: "job \<Rightarrow> snapshot" where
  "snapshot_of j =
     (let block = job_block j; metadata = metadata_of block in
      \<lparr>snap_status = job_status j,
       snap_block_status =
         (if dhas block ''status'' then dget block ''status'' else JStr ''''),
       snap_is_committed = truthy (dget block ''is_committed''),
       snap_start = job_start j,
       snap_end = job_end j,
       snap_run_id = dget metadata ''proposal_run_id''\<rparr>)"

definition snapshot_to_dict :: "snapshot \<Rightarrow> dict" where
  "snapshot_to_dict s = dict_of
     [(''status'', JStr (snap_status s)),
      (''block_status'', snap_block_status s),
      (''is_committed'', JBool (snap_is_committed s)),
      (''schedule_start_minute'', json_of_int (snap_start s)),
      (''schedule_end_minute'', json_of_int (snap_end s)),
      (''proposal_run_id'', snap_run_id s)]"

text \<open>\<^verbatim>\<open>d[k]\<close>, and the reads of a value that the field's declared type expects.\<close>

definition need :: "dict \<Rightarrow> string \<Rightarrow> json res" where
  "need d k = (case fmlookup d k of None \<Rightarrow> Inl (KeyError k) | Some v \<Rightarrow> Inr v)"

fun as_str :: "json \<Rightarrow> string res" where
  "as_str (JStr s) = Inr s"
| "as_str _ = Inl TypeError"

fun as_int_option :: "json \<Rightarrow> int option res" where
  "as_int_option JNull = Inr None"
| "as_int_option (JInt i) = Inr (Some i)"
| "as_int_option _ = Inl TypeError"

fun as_str_option :: "json \<Rightarrow> string option res" where
  "as_str_option JNull = Inr None"
| "as_str_option (JStr s) = Inr (Some s)"
| "as_str_option _ = Inl TypeError"

definition snapshot_from_dict :: "dict \<Rightarrow> snapshot res" where
  "snapshot_from_dict d =
     bind_res (bind_res (need d ''status'') as_str) (\<lambda>st.
     bind_res (need d ''block_status'') (\<lambda>bs.
     bind_res (need d ''is_committed'') (\<lambda>ic.
     bind_res (bind_res (need d ''schedule_start_minute'') as_int_option) (\<lambda>s.
     bind_res (bind_res (need d ''schedule_end_minute'') as_int_option) (\<lambda>e.
     bind_res (need d ''proposal_run_id'') (\<lambda>r.
     Inr \<lparr>snap_status = st, snap_block_status = bs, snap_is_committed = truthy ic,
          snap_start = s, snap_end = e, snap_run_id = r\<rparr>))))))"

section \<open>Events\<close>

definition EVENT_SCHEMA_VERSION :: int where "EVENT_SCHEMA_VERSION = 1"

record job_event =
  ev_id :: string
  ev_job_id :: string
  ev_type :: job_event_type
  ev_occurred_at :: string
  ev_actor :: event_actor
  ev_reason :: "string option"
  ev_run_id :: json
  ev_before :: "snapshot option"
  ev_after :: "snapshot option"
  ev_metadata :: dict
  ev_schema_version :: int

text \<open>
  \<^verbatim>\<open>^\d{4}-\d{2}-\d{2}T\d{2}:\d{2}:\d{2}\.\d{6}\+00:00$\<close>: a template in which the letter
  \<open>d\<close> stands for a digit and every other character for itself.
\<close>

definition matches_template :: "string \<Rightarrow> string \<Rightarrow> bool" where
  "matches_template t s \<longleftrightarrow> list_all2 (\<lambda>p c. if p = CHR ''d'' then is_digit c else c = p) t s"

definition matches_event_timestamp :: "string \<Rightarrow> bool" where
  "matches_event_timestamp s \<longleftrightarrow>
     anchored (matches_template ''dddd-dd-ddTdd:dd:dd.dddddd+00:00'') s"

text \<open>\<^verbatim>\<open>JobEvent.__post_init__\<close>; \<open>rehydrating\<close> is possession of the module-private token.\<close>

definition check_event :: "bool \<Rightarrow> job_event \<Rightarrow> job_event res" where
  "check_event rehydrating e =
    (if ev_id e = [] \<or> ev_job_id e = [] then Inl ValueError
     else if \<not> matches_event_timestamp (ev_occurred_at e) then Inl ValueError
     else case ev_actor e of
       Recorded _ \<Rightarrow> if \<not> rehydrating then Inl TypeError else Inr e
     | Live _ \<Rightarrow> Inr e)"

record ambient =
  fresh :: "nat \<Rightarrow> string"
  clock :: string

definition make_event ::
  "ambient \<Rightarrow> nat \<Rightarrow> string option \<Rightarrow> string \<Rightarrow> job_event_type \<Rightarrow> event_actor \<Rightarrow> string \<Rightarrow>
   string option \<Rightarrow> json \<Rightarrow> snapshot option \<Rightarrow> snapshot option \<Rightarrow> dict \<Rightarrow> job_event res" where
  "make_event env k event_id jid typ act occurred_at reason run_id prior after md =
     check_event False
       \<lparr>ev_id = (case event_id of
                   Some i \<Rightarrow> if i = [] then fresh env k else i
                 | None \<Rightarrow> fresh env k),
        ev_job_id = jid,
        ev_type = typ,
        ev_occurred_at = (if occurred_at = [] then clock env else occurred_at),
        ev_actor = act,
        ev_reason = reason,
        ev_run_id = run_id,
        ev_before = prior,
        ev_after = after,
        ev_metadata = md,
        ev_schema_version = EVENT_SCHEMA_VERSION\<rparr>"

definition json_of_snapshot :: "snapshot option \<Rightarrow> json" where
  "json_of_snapshot s = (case s of None \<Rightarrow> JNull | Some x \<Rightarrow> JObj (snapshot_to_dict x))"

definition event_to_dict :: "job_event \<Rightarrow> dict" where
  "event_to_dict e = dict_of
     [(''schema_version'', JInt (ev_schema_version e)),
      (''event_id'', JStr (ev_id e)),
      (''entity_type'', JStr ''maintenance_job''),
      (''job_id'', JStr (ev_job_id e)),
      (''event_type'', JStr (event_type_value (ev_type e))),
      (''occurred_at'', JStr (ev_occurred_at e)),
      (''actor'', JObj (event_actor_to_dict (ev_actor e))),
      (''reason'', json_of_str (ev_reason e)),
      (''optimization_run_id'', ev_run_id e),
      (''before_state'', json_of_snapshot (ev_before e)),
      (''after_state'', json_of_snapshot (ev_after e)),
      (''metadata'', JObj (ev_metadata e))]"

fun as_dict :: "json \<Rightarrow> dict res" where
  "as_dict (JObj d) = Inr d"
| "as_dict _ = Inl TypeError"

text \<open>\<^verbatim>\<open>None if x is None else JobStateSnapshot.from_dict(x)\<close>\<close>

fun snapshot_of_json :: "json \<Rightarrow> snapshot option res" where
  "snapshot_of_json JNull = Inr None"
| "snapshot_of_json (JObj d) = bind_res (snapshot_from_dict d) (\<lambda>s. Inr (Some s))"
| "snapshot_of_json _ = Inl TypeError"

text \<open>The check of a stored actor kind against the role it must be derived from.\<close>

definition check_stored_kind :: "json \<Rightarrow> actor_kind \<Rightarrow> unit res" where
  "check_stored_kind stored k =
    (case stored of
       JNull \<Rightarrow> Inr ()
     | JStr s \<Rightarrow> (case kind_of s of
                   None \<Rightarrow> Inl ValueError
                 | Some k' \<Rightarrow> if k' \<noteq> k then Inl ValueError else Inr ())
     | _ \<Rightarrow> Inl ValueError)"

definition event_from_dict :: "dict \<Rightarrow> job_event res" where
  "event_from_dict d =
     bind_res (bind_res (need d ''actor'') as_dict) (\<lambda>a.
     bind_res (bind_res (need d ''event_id'') as_str) (\<lambda>eid.
     bind_res (bind_res (need d ''job_id'') as_str) (\<lambda>jid.
     bind_res (bind_res (need d ''event_type'') as_str) (\<lambda>ts.
     case event_type_of ts of None \<Rightarrow> Inl ValueError | Some typ \<Rightarrow>
     bind_res (bind_res (need d ''occurred_at'') as_str) (\<lambda>moment.
     bind_res (bind_res (need a ''actor_id'') as_str) (\<lambda>aid.
     bind_res (bind_res (need a ''role'') as_str) (\<lambda>role.
     bind_res (bind_res (need a ''assurance'') as_str) (\<lambda>asr.
     bind_res (rehydrate_actor aid role asr) (\<lambda>act.
     bind_res (as_str_option (dget d ''reason'')) (\<lambda>reason.
     bind_res (snapshot_of_json (dget d ''before_state'')) (\<lambda>prior.
     bind_res (snapshot_of_json (dget d ''after_state'')) (\<lambda>after.
     bind_res (check_event True
        \<lparr>ev_id = eid, ev_job_id = jid, ev_type = typ, ev_occurred_at = moment, ev_actor = act,
         ev_reason = reason, ev_run_id = dget d ''optimization_run_id'',
         ev_before = prior, ev_after = after, ev_metadata = metadata_of d,
         ev_schema_version =
           (case dget d ''schema_version'' of JInt v \<Rightarrow> v | _ \<Rightarrow> EVENT_SCHEMA_VERSION)\<rparr>) (\<lambda>e.
     bind_res (check_stored_kind (dget a ''kind'') (event_actor_kind act)) (\<lambda>_.
     Inr e))))))))))))))"

section \<open>What construction and storage guarantee\<close>

text \<open>An event as construction leaves it.\<close>

definition event_ok :: "job_event \<Rightarrow> bool" where
  "event_ok e \<longleftrightarrow> ev_id e \<noteq> [] \<and> ev_job_id e \<noteq> [] \<and> matches_event_timestamp (ev_occurred_at e)"

lemma check_event_iff:
  "check_event r e = Inr x \<longleftrightarrow>
     x = e \<and> event_ok e \<and> (r \<or> (\<exists>a. ev_actor e = Live a))"
  by (auto simp: check_event_def event_ok_def split: event_actor.splits if_splits)

text \<open>
  The facts about a made event every plan lemma uses: which event it is, and that its actor
  is a live one.
\<close>

lemma make_event_Inr:
  assumes "make_event env k eid jid typ act moment reason run b a md = Inr e"
  shows "ev_job_id e = jid" "ev_type e = typ" "ev_actor e = act" "ev_reason e = reason"
    "ev_run_id e = run" "ev_before e = b" "ev_after e = a" "ev_metadata e = md"
    "\<exists>x. act = Live x" "event_ok e"
  using assms by (auto simp: make_event_def check_event_iff)

lemma timestamp_nonempty: "matches_event_timestamp m \<Longrightarrow> m \<noteq> []"
  by (auto simp: matches_event_timestamp_def anchored_def matches_template_def)

lemma make_event_succeeds:
  assumes "matches_event_timestamp moment" "jid \<noteq> []" "fresh env k \<noteq> []"
  shows "\<exists>e. make_event env k None jid typ (Live x) moment reason run b a md = Inr e"
  using assms timestamp_nonempty [of moment] by (auto simp: make_event_def check_event_def)

end
