(* ===== verification/Lifecycle.thy ===== *)
theory Lifecycle
  imports Job_Events "HOL-Library.AList"
begin

text \<open>
  The guards of \<^verbatim>\<open>backend/app/jobs/lifecycle.py\<close>: the tokens that permit the protected
  moves, the mutation record, the checks every write path makes
  (\<open>protect_committed_and_terminal_state\<close>, \<open>validate_mutation\<close>), the checks that tie tokens
  to events (\<open>validate_execution_events\<close>, \<open>validate_release_events\<close>), and the block edits the
  plans are built from. The plans themselves are in \<open>Lifecycle_Plans\<close> and
  \<open>Execution_Plans\<close>.
\<close>

section \<open>Tokens and mutations\<close>

definition ALLOWED_TRANSITIONS :: "string \<Rightarrow> string list option" where
  "ALLOWED_TRANSITIONS s =
    (if s = REPORTED then Some [REPORTED, SCHEDULED]
     else if s = SCHEDULED then Some [SCHEDULED, REPORTED, NOTIFIED]
     else if s = NOTIFIED then Some [NOTIFIED, IN_PROGRESS, REPORTED]
     else if s = IN_PROGRESS then Some [IN_PROGRESS, COMPLETED, REPORTED]
     else if s = COMPLETED then Some []
     else None)"

definition COMMITTED_TARGETS :: "string \<Rightarrow> string list" where
  "COMMITTED_TARGETS s =
    (if s = NOTIFIED then [NOTIFIED, IN_PROGRESS, REPORTED]
     else if s = IN_PROGRESS then [IN_PROGRESS, COMPLETED, REPORTED]
     else [])"

datatype execution_kind = EX_START | EX_COMPLETE | EX_NOT_COMPLETED

record execution_transition =
  ex_kind :: execution_kind
  ex_id :: string

definition nonblank :: "string \<Rightarrow> bool" where
  "nonblank s \<longleftrightarrow> strip s \<noteq> []"

definition make_execution_transition :: "execution_kind \<Rightarrow> string \<Rightarrow> execution_transition res" where
  "make_execution_transition k x =
     (if \<not> nonblank x then Inl ValueError else Inr \<lparr>ex_kind = k, ex_id = x\<rparr>)"

record authority_release =
  rel_run_id :: string

definition make_authority_release :: "json \<Rightarrow> authority_release res" where
  "make_authority_release r =
    (case r of
       JStr s \<Rightarrow> if \<not> nonblank s then Inl ValueError else Inr \<lparr>rel_run_id = s\<rparr>
     | _ \<Rightarrow> Inl ValueError)"

fun EXECUTION_EVENT_TYPES :: "execution_kind \<Rightarrow> job_event_type" where
  "EXECUTION_EVENT_TYPES EX_START = EXECUTION_STARTED"
| "EXECUTION_EVENT_TYPES EX_COMPLETE = EXECUTION_COMPLETED"
| "EXECUTION_EVENT_TYPES EX_NOT_COMPLETED = EXECUTION_NOT_COMPLETED"

definition is_execution_event :: "job_event \<Rightarrow> bool" where
  "is_execution_event e \<longleftrightarrow>
     ev_type e \<in> {EXECUTION_STARTED, EXECUTION_COMPLETED, EXECUTION_NOT_COMPLETED}"

record job_mutation =
  mut_job_id :: string
  mut_status :: string
  mut_start :: "int option"
  mut_end :: "int option"
  mut_updated_at :: "string option"
  mut_last_solver_status :: "string option"
  mut_last_refusal_reason :: "string option"
  mut_block :: dict
  mut_execution :: "execution_transition option"
  mut_release :: "authority_release option"

definition unchanged :: "job \<Rightarrow> job_mutation" where
  "unchanged j =
     \<lparr>mut_job_id = job_id j, mut_status = job_status j, mut_start = job_start j,
      mut_end = job_end j, mut_updated_at = job_updated_at j,
      mut_last_solver_status = job_last_solver_status j,
      mut_last_refusal_reason = job_last_refusal_reason j, mut_block = job_block j,
      mut_execution = None, mut_release = None\<rparr>"

definition as_job :: "job_mutation \<Rightarrow> job \<Rightarrow> job" where
  "as_job m j = j\<lparr>job_status := mut_status m, job_start := mut_start m, job_end := mut_end m,
     job_updated_at := mut_updated_at m, job_last_solver_status := mut_last_solver_status m,
     job_last_refusal_reason := mut_last_refusal_reason m, job_block := mut_block m\<rparr>"

definition mut_window :: "job_mutation \<Rightarrow> window" where
  "mut_window m = (mut_start m, mut_end m)"

lemma as_job_simps [simp]:
  "job_id (as_job m j) = job_id j" "job_status (as_job m j) = mut_status m"
  "job_start (as_job m j) = mut_start m" "job_end (as_job m j) = mut_end m"
  "job_block (as_job m j) = mut_block m" "job_track_id (as_job m j) = job_track_id j"
  "job_work_type (as_job m j) = job_work_type j"
  "job_created_at (as_job m j) = job_created_at j"
  "job_last_refusal_reason (as_job m j) = mut_last_refusal_reason m"
  "job_window (as_job m j) = mut_window m"
  by (simp_all add: as_job_def job_window_def mut_window_def)

section \<open>Committed state\<close>

datatype problem =
    Missing_execution_id
  | Unexpected_execution_id
  | Block_status_not_committed
  | Block_not_is_committed
  | Invalid_placement

definition committed_state_problems :: "string \<Rightarrow> dict \<Rightarrow> window \<Rightarrow> problem list" where
  "committed_state_problems status block w =
    (if status \<notin> set COMMITTED_STATUSES then []
     else let metadata = metadata_of block in
       (if status = IN_PROGRESS \<and> \<not> truthy (dget metadata EXECUTION_ID_KEY)
        then [Missing_execution_id] else []) @
       (if status = NOTIFIED \<and> dhas metadata EXECUTION_ID_KEY
        then [Unexpected_execution_id] else []) @
       (if dget block ''status'' \<noteq> JStr COMMITTED_BLOCK
        then [Block_status_not_committed] else []) @
       (if dget block ''is_committed'' \<noteq> JBool True
        then [Block_not_is_committed] else []) @
       (if \<not> valid_window w then [Invalid_placement] else []))"

definition job_problems :: "job \<Rightarrow> problem list" where
  "job_problems j = committed_state_problems (job_status j) (job_block j) (job_window j)"

definition assert_committed_state_consistent :: "job list \<Rightarrow> unit res" where
  "assert_committed_state_consistent jobs =
    (let findings = filter (\<lambda>j. job_problems j \<noteq> []) jobs in
     if findings \<noteq> [] then Inl (CommittedStateIntegrityError (map job_id findings)) else Inr ())"

section \<open>The execution and release gates\<close>

definition gate_release_transition ::
  "job \<Rightarrow> string \<Rightarrow> authority_release option \<Rightarrow> unit res" where
  "gate_release_transition cur new_status release =
    (let is_release = (job_status cur = NOTIFIED \<and> new_status = REPORTED) in
     if \<not> is_release then
       (if release \<noteq> None then Inl (ReleaseTokenError (job_id cur)) else Inr ())
     else case release of
       None \<Rightarrow> Inl (ReleaseTokenError (job_id cur))
     | Some r \<Rightarrow>
        if proposal_run_id_of cur \<noteq> JStr (rel_run_id r)
        then Inl (ReleaseTokenError (job_id cur)) else Inr ())"

text \<open>The token kind a move requires, if it is an execution move at all.\<close>

definition required_kind :: "string \<Rightarrow> string \<Rightarrow> execution_kind option" where
  "required_kind status new_status =
    (if new_status = IN_PROGRESS \<and> status \<noteq> IN_PROGRESS then Some EX_START
     else if new_status = COMPLETED then Some EX_COMPLETE
     else if new_status = REPORTED \<and> status = IN_PROGRESS then Some EX_NOT_COMPLETED
     else None)"

definition gate_execution_transition ::
  "job \<Rightarrow> string \<Rightarrow> dict \<Rightarrow> execution_transition option \<Rightarrow> authority_release option \<Rightarrow> unit res" where
  "gate_execution_transition cur new_status new_block execution release =
    (let status = job_status cur; err = Inl (ExecutionTokenError (job_id cur)) in
     if execution \<noteq> None \<and> release \<noteq> None then Inl (ReleaseTokenError (job_id cur))
     else bind_res (gate_release_transition cur new_status release) (\<lambda>_.
       case required_kind status new_status of
         None \<Rightarrow> if execution \<noteq> None then err else Inr ()
       | Some required \<Rightarrow>
          (case execution of
             None \<Rightarrow> err
           | Some x \<Rightarrow>
              if ex_kind x \<noteq> required then err
              else if required = EX_START \<and> status \<noteq> NOTIFIED then err
              else if required = EX_COMPLETE \<and> status \<noteq> IN_PROGRESS then err
              else let named =
                     (if required = EX_START
                      then dget (metadata_of new_block) EXECUTION_ID_KEY
                      else execution_id_of cur)
                   in if named \<noteq> JStr (ex_id x) then err else Inr ())))"

section \<open>Protected state\<close>

definition release_leftovers :: "dict \<Rightarrow> string list" where
  "release_leftovers metadata = filter (dhas metadata)
     [COMMITTED_START_KEY, COMMITTED_END_KEY, PROPOSAL_RUN_ID_KEY, EXECUTION_ID_KEY]"

definition preserved_keys :: "string \<Rightarrow> string list" where
  "preserved_keys status =
     [COMMITTED_START_KEY, COMMITTED_END_KEY, PROPOSAL_RUN_ID_KEY] @
     (if status = IN_PROGRESS then [EXECUTION_ID_KEY] else [])"

text \<open>Check 6: what a committed job's own row still demands of the write.\<close>

definition protect_committed :: "job \<Rightarrow> string \<Rightarrow> dict \<Rightarrow> window \<Rightarrow> unit res" where
  "protect_committed cur new_status new_block w =
    (let status = job_status cur; err = Inl (CommittedJobError (job_id cur));
         cur_md = metadata_of (job_block cur); new_md = metadata_of new_block in
     if new_status \<notin> set (COMMITTED_TARGETS status) then err
     else if new_status = REPORTED then
       (if dget new_block ''status'' \<noteq> JStr PLANNED_BLOCK
           \<or> dget new_block ''is_committed'' \<noteq> JBool False
           \<or> w \<noteq> (None, None)
           \<or> release_leftovers new_md \<noteq> []
        then err else Inr ())
     else if dget new_block ''status'' \<noteq> JStr COMMITTED_BLOCK
           \<or> dget new_block ''is_committed'' \<noteq> JBool True
     then err
     else if w \<noteq> job_window cur then err
     else if list_ex (\<lambda>k. \<not> py_eq (dget cur_md k) (dget new_md k)) (preserved_keys status)
     then err
     else Inr ())"

definition protect_committed_and_terminal_state ::
  "job \<Rightarrow> string \<Rightarrow> dict \<Rightarrow> window \<Rightarrow> execution_transition option \<Rightarrow> authority_release option \<Rightarrow>
   unit res" where
  "protect_committed_and_terminal_state cur new_status new_block w execution release =
    (if job_status cur \<in> set TERMINAL_STATUSES then Inl (TerminalJobError (job_id cur))
     else bind_res (assert_committed_state_consistent [cur]) (\<lambda>_.
       if committed_state_problems new_status new_block w \<noteq> []
       then Inl (CommittedJobError (job_id cur))
       else bind_res (gate_execution_transition cur new_status new_block execution release) (\<lambda>_.
         if job_status cur \<notin> set COMMITTED_STATUSES then Inr ()
         else protect_committed cur new_status new_block w)))"

definition assert_placement_invariants ::
  "string \<Rightarrow> string \<Rightarrow> int option \<Rightarrow> int option \<Rightarrow> unit res" where
  "assert_placement_invariants jid status s e =
    (if status = REPORTED \<and> (s \<noteq> None \<or> e \<noteq> None) then Inl (InvalidTransitionError jid)
     else if status \<in> set (SCHEDULED # COMMITTED_STATUSES) \<and> \<not> valid_window (s, e)
     then Inl (InvalidTransitionError jid)
     else Inr ())"

definition validate_mutation :: "job \<Rightarrow> job_mutation \<Rightarrow> unit res" where
  "validate_mutation cur m =
     bind_res (protect_committed_and_terminal_state cur (mut_status m) (mut_block m)
                 (mut_window m) (mut_execution m) (mut_release m)) (\<lambda>_.
       if (case ALLOWED_TRANSITIONS (job_status cur) of
             None \<Rightarrow> True
           | Some allowed \<Rightarrow> mut_status m \<notin> set allowed)
       then Inl (InvalidTransitionError (job_id cur))
       else assert_placement_invariants (job_id cur) (mut_status m) (mut_start m) (mut_end m))"

section \<open>Tokens against events\<close>

definition execution_tokens :: "job_mutation list \<Rightarrow> (string \<times> execution_transition) list" where
  "execution_tokens muts =
     fold (\<lambda>m d. case mut_execution m of None \<Rightarrow> d | Some t \<Rightarrow> AList.update (mut_job_id m) t d)
       muts []"

definition names_execution :: "job_event \<Rightarrow> execution_transition \<Rightarrow> bool" where
  "names_execution e t \<longleftrightarrow>
     ev_type e = EXECUTION_EVENT_TYPES (ex_kind t)
     \<and> dget (ev_metadata e) EXECUTION_ID_KEY = JStr (ex_id t)"

definition validate_execution_events :: "job_mutation list \<Rightarrow> job_event list \<Rightarrow> unit res" where
  "validate_execution_events muts events =
    (let tokens = execution_tokens muts in
     bind_res (each_res (\<lambda>e. if ev_type e = JOB_COMPLETED
         then Inl (ExecutionTokenError (ev_job_id e)) else Inr ()) events) (\<lambda>_.
     bind_res (each_res (\<lambda>(jid, t).
         if length (filter (\<lambda>e. ev_job_id e = jid \<and> names_execution e t) events) \<noteq> 1
         then Inl (ExecutionTokenError jid) else Inr ()) tokens) (\<lambda>_.
     each_res (\<lambda>e.
         if \<not> is_execution_event e then Inr ()
         else case map_of tokens (ev_job_id e) of
           None \<Rightarrow> Inl (ExecutionTokenError (ev_job_id e))
         | Some t \<Rightarrow>
            if \<not> names_execution e t then Inl (ExecutionTokenError (ev_job_id e))
            else if ev_type e = EXECUTION_COMPLETED
                    \<and> \<not> truthy (dget (ev_metadata e) ''after_work_evidence'')
            then Inl (ExecutionTokenError (ev_job_id e))
            else Inr ()) events)))"

definition release_tokens :: "job_mutation list \<Rightarrow> (string \<times> authority_release) list" where
  "release_tokens muts =
     fold (\<lambda>m d. case mut_release m of None \<Rightarrow> d | Some t \<Rightarrow> AList.update (mut_job_id m) t d)
       muts []"

definition names_release :: "job_event \<Rightarrow> authority_release \<Rightarrow> bool" where
  "names_release e t \<longleftrightarrow> dget (ev_metadata e) RELEASED_RUN_ID_KEY = JStr (rel_run_id t)"

definition validate_release_events :: "job_mutation list \<Rightarrow> job_event list \<Rightarrow> unit res" where
  "validate_release_events muts events =
    (let tokens = release_tokens muts in
     bind_res (each_res (\<lambda>(jid, t).
         if length (filter (\<lambda>e. ev_job_id e = jid \<and> ev_type e = BLOCK_RELEASED
                               \<and> names_release e t) events) \<noteq> 1
         then Inl (ReleaseTokenError jid) else Inr ()) tokens) (\<lambda>_.
     each_res (\<lambda>e.
         if ev_type e \<noteq> BLOCK_RELEASED then Inr ()
         else case map_of tokens (ev_job_id e) of
           None \<Rightarrow> Inl (ReleaseTokenError (ev_job_id e))
         | Some t \<Rightarrow> if \<not> names_release e t then Inl (ReleaseTokenError (ev_job_id e))
                     else Inr ()) events))"

section \<open>Block edits\<close>

definition with_placement :: "dict \<Rightarrow> int \<Rightarrow> int \<Rightarrow> json \<Rightarrow> dict" where
  "with_placement block s e run =
    (let m0 = metadata_of block;
         m1 = fmupd COMMITTED_START_KEY (JInt s) m0;
         m2 = fmupd COMMITTED_END_KEY (JInt e) m1;
         m3 = (if run = JNull then fmdrop PROPOSAL_RUN_ID_KEY m2
               else fmupd PROPOSAL_RUN_ID_KEY run m2)
     in fmupd ''is_committed'' (JBool False)
          (fmupd ''status'' (JStr SCHEDULED_BLOCK) (fmupd ''metadata'' (JObj m3) block)))"

definition without_placement :: "dict \<Rightarrow> dict" where
  "without_placement block =
    (let m = fold fmdrop
               [COMMITTED_START_KEY, COMMITTED_END_KEY, PROPOSAL_RUN_ID_KEY, EXECUTION_ID_KEY]
               (metadata_of block)
     in fmupd ''is_committed'' (JBool False)
          (fmupd ''status'' (JStr PLANNED_BLOCK) (fmupd ''metadata'' (JObj m) block)))"

definition committed_edit :: "dict \<Rightarrow> dict" where
  "committed_edit block =
     fmupd ''is_committed'' (JBool True) (fmupd ''status'' (JStr COMMITTED_BLOCK) block)"

definition withdrawn :: "job_mutation \<Rightarrow> job \<Rightarrow> string \<Rightarrow> job_mutation" where
  "withdrawn base j reason = base\<lparr>mut_status := REPORTED, mut_start := None, mut_end := None,
     mut_last_refusal_reason := Some reason, mut_block := without_placement (job_block j)\<rparr>"

definition withdrawn_metadata :: "job \<Rightarrow> (string \<times> json) list" where
  "withdrawn_metadata j =
     [(''withdrawn_start_minute'', json_of_int (job_start j)),
      (''withdrawn_end_minute'', json_of_int (job_end j)),
      (''withdrawn_proposal_run_id'', proposal_run_id_of j)]"

text \<open>The replanning window: (new block, earliest start, original latest end, widened latest end).\<close>

definition raise_not_before :: "dict \<Rightarrow> int \<Rightarrow> int \<Rightarrow> bool \<Rightarrow> (dict \<times> int \<times> int \<times> int) res" where
  "raise_not_before block not_before horizon never_lower =
     bind_res (if never_lower
               then bind_res (int_of_json (dget_default block ''earliest_start_minute'' (JInt 0)))
                      (\<lambda>stored. Inr (max stored not_before))
               else Inr not_before) (\<lambda>earliest.
     let b1 = fmupd ''earliest_start_minute'' (JInt earliest) block in
     bind_res (int_of_json (dget_default b1 ''latest_end_minute'' (JInt 1440))) (\<lambda>original.
     let widened = max original horizon in
     Inr (fmupd ''latest_end_minute'' (JInt widened) b1, earliest, original, widened)))"

end
