(* ===== verification/Lifecycle_Guards.thy ===== *)
theory Lifecycle_Guards
  imports Lifecycle
begin

text \<open>
  What the guards of \<open>Lifecycle\<close> promise. \<open>phase\<close> is the abstract lifecycle of one job and
  \<open>phase_step\<close> its permitted moves, each with the token it needs; \<open>phase_of\<close> reads the phase
  off a stored row. The main facts: an accepted mutation is a permitted move of the phases
  (\<open>validate_mutation_step\<close>), and it leaves a well-formed row (\<open>validate_mutation_row_ok\<close>).
\<close>

section \<open>The abstract lifecycle\<close>

datatype phase =
    Idle
  | Proposed window
  | Pinned window json
  | Executing window json json
  | Done window json json

text \<open>Metadata values are compared as Python compares them, so a phase carries their normal form.\<close>

definition phase_of :: "job \<Rightarrow> phase option" where
  "phase_of j =
    (let w = job_window j; run = norm_json (proposal_run_id_of j);
         x = norm_json (execution_id_of j) in
     if job_status j = REPORTED then Some Idle
     else if job_status j = SCHEDULED then Some (Proposed w)
     else if job_status j = NOTIFIED then Some (Pinned w run)
     else if job_status j = IN_PROGRESS then Some (Executing w run x)
     else if job_status j = COMPLETED then Some (Done w run x)
     else None)"

inductive phase_step ::
  "execution_transition option \<Rightarrow> authority_release option \<Rightarrow> phase \<Rightarrow> phase \<Rightarrow> bool" where
  idle: "phase_step None None Idle Idle"
| propose: "valid_window w \<Longrightarrow> phase_step None None Idle (Proposed w)"
| repropose: "valid_window w' \<Longrightarrow> phase_step None None (Proposed w) (Proposed w')"
| withdraw: "phase_step None None (Proposed w) Idle"
| commit: "valid_window w' \<Longrightarrow> phase_step None None (Proposed w) (Pinned w' run)"
| hold: "phase_step None None (Pinned w run) (Pinned w run)"
| busy: "phase_step None None (Executing w run x) (Executing w run x)"
| start: "ex_kind t = EX_START \<Longrightarrow>
    phase_step (Some t) None (Pinned w run) (Executing w run (JStr (ex_id t)))"
| finish: "ex_kind t = EX_COMPLETE \<Longrightarrow>
    phase_step (Some t) None (Executing w run (JStr (ex_id t))) (Done w run (JStr (ex_id t)))"
| abort: "ex_kind t = EX_NOT_COMPLETED \<Longrightarrow>
    phase_step (Some t) None (Executing w run (JStr (ex_id t))) Idle"
| release: "phase_step None (Some r) (Pinned w (JStr (rel_run_id r))) Idle"

inductive_cases step_from_done: "phase_step x r (Done w run i) q"
inductive_cases step_from_pinned: "phase_step x r (Pinned w run) q"
inductive_cases step_from_executing: "phase_step x r (Executing w run i) q"
inductive_cases step_to_done: "phase_step x r p (Done w run i)"
inductive_cases step_to_executing: "phase_step x r p (Executing w run i)"

inductive_simps phase_step_from_done [simp]: "phase_step x r (Done w run i) q"
inductive_simps phase_step_from_pinned: "phase_step x r (Pinned w run) q"
inductive_simps phase_step_from_executing: "phase_step x r (Executing w run i) q"

lemmas phase_step_simps = phase_step_from_pinned phase_step_from_executing

section \<open>Characterising the checks\<close>

lemma assert_consistent_iff:
  "assert_committed_state_consistent js = Inr () \<longleftrightarrow> (\<forall>j \<in> set js. job_problems j = [])"
  by (auto simp: assert_committed_state_consistent_def filter_empty_conv)

lemma assert_consistent_Inl:
  "assert_committed_state_consistent js = Inl e \<longleftrightarrow>
     (\<exists>j \<in> set js. job_problems j \<noteq> []) \<and>
     e = CommittedStateIntegrityError (map job_id (filter (\<lambda>j. job_problems j \<noteq> []) js))"
  by (auto simp: assert_committed_state_consistent_def filter_empty_conv)

text \<open>A block that is committed, at a real placement.\<close>

definition committed_block :: "dict \<Rightarrow> window \<Rightarrow> bool" where
  "committed_block block w \<longleftrightarrow>
     dget block ''status'' = JStr COMMITTED_BLOCK \<and> dget block ''is_committed'' = JBool True
     \<and> valid_window w"

lemma committed_state_problems_Nil_iff:
  "committed_state_problems st block w = [] \<longleftrightarrow>
     (st = NOTIFIED \<longrightarrow> committed_block block w \<and> \<not> dhas (metadata_of block) EXECUTION_ID_KEY)
     \<and> (st = IN_PROGRESS \<longrightarrow>
          committed_block block w \<and> truthy (dget (metadata_of block) EXECUTION_ID_KEY))"
  by (auto simp: committed_state_problems_def committed_block_def Let_def)

definition released_block :: "dict \<Rightarrow> window \<Rightarrow> bool" where
  "released_block block w \<longleftrightarrow>
     dget block ''status'' = JStr PLANNED_BLOCK \<and> dget block ''is_committed'' = JBool False
     \<and> w = (None, None) \<and> release_leftovers (metadata_of block) = []"

lemma gate_release_iff:
  "gate_release_transition cur ns r = Inr () \<longleftrightarrow>
     (if job_status cur = NOTIFIED \<and> ns = REPORTED
      then \<exists>t. r = Some t \<and> proposal_run_id_of cur = JStr (rel_run_id t)
      else r = None)"
  by (auto simp: gate_release_transition_def split: option.splits)

lemma gate_execution_iff:
  "gate_execution_transition cur ns nb x r = Inr () \<longleftrightarrow>
     (x = None \<or> r = None) \<and> gate_release_transition cur ns r = Inr () \<and>
     (case required_kind (job_status cur) ns of
        None \<Rightarrow> x = None
      | Some k \<Rightarrow> \<exists>t. x = Some t \<and> ex_kind t = k \<and>
          (k = EX_START \<longrightarrow> job_status cur = NOTIFIED
             \<and> dget (metadata_of nb) EXECUTION_ID_KEY = JStr (ex_id t)) \<and>
          (k = EX_COMPLETE \<longrightarrow> job_status cur = IN_PROGRESS) \<and>
          (k \<noteq> EX_START \<longrightarrow> execution_id_of cur = JStr (ex_id t)))"
  by (auto simp: gate_execution_transition_def Let_def bind_res_Inr_iff split: option.splits)

lemma protect_committed_iff:
  "protect_committed cur ns nb w = Inr () \<longleftrightarrow>
     ns \<in> set (COMMITTED_TARGETS (job_status cur)) \<and>
     (if ns = REPORTED then released_block nb w
      else dget nb ''status'' = JStr COMMITTED_BLOCK \<and> dget nb ''is_committed'' = JBool True
        \<and> w = job_window cur
        \<and> (\<forall>k \<in> set (preserved_keys (job_status cur)).
             py_eq (dget (metadata_of (job_block cur)) k) (dget (metadata_of nb) k)))"
  by (auto simp: protect_committed_def Let_def released_block_def list_ex_iff)

lemma protect_iff:
  "protect_committed_and_terminal_state cur ns nb w x r = Inr () \<longleftrightarrow>
     job_status cur \<noteq> COMPLETED \<and> job_problems cur = [] \<and>
     committed_state_problems ns nb w = [] \<and>
     gate_execution_transition cur ns nb x r = Inr () \<and>
     (job_status cur \<in> set COMMITTED_STATUSES \<longrightarrow> protect_committed cur ns nb w = Inr ())"
  by (auto simp: protect_committed_and_terminal_state_def bind_res_Inr_iff assert_consistent_iff)

lemma assert_placement_iff:
  "assert_placement_invariants jid st s e = Inr () \<longleftrightarrow>
     (st = REPORTED \<longrightarrow> s = None \<and> e = None) \<and>
     (st = SCHEDULED \<or> st = NOTIFIED \<or> st = IN_PROGRESS \<longrightarrow> valid_window (s, e))"
  by (auto simp: assert_placement_invariants_def)

lemma validate_mutation_iff:
  "validate_mutation cur m = Inr () \<longleftrightarrow>
     protect_committed_and_terminal_state cur (mut_status m) (mut_block m) (mut_window m)
       (mut_execution m) (mut_release m) = Inr () \<and>
     (\<exists>allowed. ALLOWED_TRANSITIONS (job_status cur) = Some allowed \<and> mut_status m \<in> set allowed) \<and>
     assert_placement_invariants (job_id cur) (mut_status m) (mut_start m) (mut_end m) = Inr ()"
  by (auto simp: validate_mutation_def bind_res_Inr_iff split: option.splits)

lemma allowed_iff:
  "(\<exists>allowed. ALLOWED_TRANSITIONS st = Some allowed \<and> ns \<in> set allowed) \<longleftrightarrow>
     (st = REPORTED \<and> ns \<in> {REPORTED, SCHEDULED}) \<or>
     (st = SCHEDULED \<and> ns \<in> {SCHEDULED, REPORTED, NOTIFIED}) \<or>
     (st = NOTIFIED \<and> ns \<in> {NOTIFIED, IN_PROGRESS, REPORTED}) \<or>
     (st = IN_PROGRESS \<and> ns \<in> {IN_PROGRESS, COMPLETED, REPORTED})"
  by (auto simp: ALLOWED_TRANSITIONS_def)

lemma required_kind_eqs:
  "required_kind st ns = None \<longleftrightarrow>
     (ns = IN_PROGRESS \<longrightarrow> st = IN_PROGRESS) \<and> ns \<noteq> COMPLETED \<and>
     (ns = REPORTED \<longrightarrow> st \<noteq> IN_PROGRESS)"
  by (auto simp: required_kind_def)

section \<open>Accepted mutations\<close>

definition row_ok :: "job \<Rightarrow> bool" where
  "row_ok j \<longleftrightarrow>
     job_status j \<in> {REPORTED, SCHEDULED, NOTIFIED, IN_PROGRESS, COMPLETED} \<and>
     job_problems j = [] \<and>
     (job_status j = REPORTED \<longrightarrow> job_window j = (None, None)) \<and>
     (job_status j = SCHEDULED \<longrightarrow> valid_window (job_window j)) \<and>
     (job_status j = COMPLETED \<longrightarrow>
        committed_block (job_block j) (job_window j) \<and> truthy (execution_id_of j))"

text \<open>The bundle a proof about an accepted mutation unfolds.\<close>

lemmas accepted_simps = validate_mutation_iff protect_iff gate_execution_iff gate_release_iff
  protect_committed_iff committed_state_problems_Nil_iff assert_placement_iff allowed_iff

lemma accepted_cases:
  assumes "validate_mutation cur m = Inr ()"
  obtains
    (idle) "job_status cur = REPORTED" "mut_status m \<in> {REPORTED, SCHEDULED}"
  | (proposed) "job_status cur = SCHEDULED" "mut_status m \<in> {SCHEDULED, REPORTED, NOTIFIED}"
  | (pinned) "job_status cur = NOTIFIED" "mut_status m \<in> {NOTIFIED, IN_PROGRESS, REPORTED}"
  | (executing) "job_status cur = IN_PROGRESS" "mut_status m \<in> {IN_PROGRESS, COMPLETED, REPORTED}"
  using assms by (auto simp: validate_mutation_iff allowed_iff)


lemma preserved_norm:
  assumes "protect_committed cur ns nb w = Inr ()" "ns \<noteq> REPORTED" "mut_block m = nb"
  shows "norm_json (proposal_run_id_of (as_job m cur)) = norm_json (proposal_run_id_of cur)"
    and "job_status cur = IN_PROGRESS \<Longrightarrow>
      norm_json (execution_id_of (as_job m cur)) = norm_json (execution_id_of cur)"
  using assms
  by (auto simp: protect_committed_iff preserved_keys_def py_eq_def proposal_run_id_of_def
      execution_id_of_def)

lemma step_from_reported:
  assumes "validate_mutation cur m = Inr ()" "job_status cur = REPORTED"
  shows "\<exists>q. phase_of (as_job m cur) = Some q \<and>
    phase_step (mut_execution m) (mut_release m) Idle q"
  using assms
  by (auto simp: accepted_simps required_kind_def phase_of_def Let_def mut_window_def
      intro: phase_step.intros)

lemma step_from_scheduled:
  assumes "validate_mutation cur m = Inr ()" "job_status cur = SCHEDULED"
  shows "\<exists>q. phase_of (as_job m cur) = Some q \<and>
    phase_step (mut_execution m) (mut_release m) (Proposed (job_window cur)) q"
  using assms
  by (auto simp: accepted_simps required_kind_def phase_of_def Let_def mut_window_def
      intro: phase_step.intros)

lemma step_from_notified:
  assumes ok: "validate_mutation cur m = Inr ()" and st: "job_status cur = NOTIFIED"
  shows "\<exists>q. phase_of (as_job m cur) = Some q \<and>
    phase_step (mut_execution m) (mut_release m)
      (Pinned (job_window cur) (norm_json (proposal_run_id_of cur))) q"
proof (cases "mut_status m = REPORTED")
  case True
  with ok st show ?thesis
    by (auto simp: accepted_simps required_kind_def phase_of_def Let_def phase_step_simps)
next
  case False
  with ok st have "protect_committed cur (mut_status m) (mut_block m) (mut_window m) = Inr ()"
    by (simp add: validate_mutation_iff protect_iff)
  from preserved_norm(1) [OF this False refl] ok st False show ?thesis
    by (auto simp: accepted_simps required_kind_def phase_of_def Let_def execution_id_of_def phase_step_simps)
qed

lemma step_from_in_progress:
  assumes ok: "validate_mutation cur m = Inr ()" and st: "job_status cur = IN_PROGRESS"
  shows "\<exists>q. phase_of (as_job m cur) = Some q \<and>
    phase_step (mut_execution m) (mut_release m)
      (Executing (job_window cur) (norm_json (proposal_run_id_of cur))
        (norm_json (execution_id_of cur))) q"
proof (cases "mut_status m = REPORTED")
  case True
  with ok st show ?thesis
    by (auto simp: accepted_simps required_kind_def phase_of_def Let_def phase_step_simps)
next
  case False
  with ok st have "protect_committed cur (mut_status m) (mut_block m) (mut_window m) = Inr ()"
    by (simp add: validate_mutation_iff protect_iff)
  from preserved_norm [OF this False refl] ok st False show ?thesis
    by (auto simp: accepted_simps required_kind_def phase_of_def Let_def phase_step_simps)
qed

text \<open>The guard implements the abstract lifecycle.\<close>

lemma validate_mutation_step:
  assumes "validate_mutation cur m = Inr ()"
  shows "\<exists>p q. phase_of cur = Some p \<and> phase_of (as_job m cur) = Some q \<and>
    phase_step (mut_execution m) (mut_release m) p q"
  using assms
proof (cases rule: accepted_cases)
  case idle
  with step_from_reported [OF assms] show ?thesis by (simp add: phase_of_def Let_def)
next
  case proposed
  with step_from_scheduled [OF assms] show ?thesis by (simp add: phase_of_def Let_def)
next
  case pinned
  with step_from_notified [OF assms] show ?thesis by (simp add: phase_of_def Let_def)
next
  case executing
  with step_from_in_progress [OF assms] show ?thesis by (simp add: phase_of_def Let_def)
qed

text \<open>Completion keeps the committed block and the execution it completes.\<close>

lemma completed_keeps:
  assumes ok: "validate_mutation cur m = Inr ()" and st: "mut_status m = COMPLETED"
  shows "committed_block (mut_block m) (mut_window m) \<and> truthy (execution_id_of (as_job m cur))"
proof -
  from ok st have cur: "job_status cur = IN_PROGRESS" and "job_problems cur = []"
    and kept: "protect_committed cur COMPLETED (mut_block m) (mut_window m) = Inr ()"
    by (auto simp: validate_mutation_iff allowed_iff protect_iff)
  then have "committed_block (job_block cur) (job_window cur)" "truthy (execution_id_of cur)"
    by (simp_all add: job_problems_def committed_state_problems_Nil_iff execution_id_of_def)
  moreover from kept cur have "py_eq (execution_id_of cur) (execution_id_of (as_job m cur))"
    by (simp add: protect_committed_iff preserved_keys_def execution_id_of_def)
  ultimately show ?thesis
    using kept by (simp add: protect_committed_iff committed_block_def py_eq_truthy)
qed

lemma validate_mutation_row_ok:
  assumes ok: "validate_mutation cur m = Inr ()"
  shows "row_ok (as_job m cur)"
proof -
  from ok have "job_problems (as_job m cur) = []"
    and "mut_status m \<in> {REPORTED, SCHEDULED, NOTIFIED, IN_PROGRESS, COMPLETED}"
    and "assert_placement_invariants (job_id cur) (mut_status m) (mut_start m) (mut_end m) = Inr ()"
    by (auto simp: validate_mutation_iff allowed_iff protect_iff job_problems_def)
  with completed_keeps [OF ok] show ?thesis
    by (simp add: row_ok_def assert_placement_iff mut_window_def)
qed

text \<open>A terminal row accepts no mutation at all, whatever token it carries.\<close>

lemma terminal_refused:
  "job_status cur = COMPLETED \<Longrightarrow> validate_mutation cur m = Inl (TerminalJobError (job_id cur))"
  by (simp add: validate_mutation_def protect_committed_and_terminal_state_def)

text \<open>A committed row keeps its window unless the mutation releases it.\<close>

lemma committed_window_kept:
  assumes "validate_mutation cur m = Inr ()" "job_status cur \<in> {NOTIFIED, IN_PROGRESS}"
    "mut_status m \<noteq> REPORTED"
  shows "job_window (as_job m cur) = job_window cur"
  using assms by (auto simp: validate_mutation_iff protect_iff protect_committed_iff)

end
