(* ===== verification/Moments.thy ===== *)
theory Moments
  imports Prelude
begin

text \<open>
  Moments in time as the code uses them: Python's \<^verbatim>\<open>datetime\<close> with a fixed offset, the
  canonical event timestamp (\<^verbatim>\<open>event_timestamp\<close> of \<^verbatim>\<open>backend/app/jobs/events.py\<close>) and the
  conversion to minutes of the planning horizon (\<^verbatim>\<open>backend/app/data/horizon_anchor.py\<close>).

  A \<^verbatim>\<open>datetime\<close> is its local microsecond count since 0001-01-01T00:00 and its offset from UTC,
  if it has one. \<open>fromisoformat\<close> reads calendar dates in the extended and the basic spelling
  with every time and offset spelling of Python 3.11; ISO week dates, which the code neither
  writes nor documents, are refused.
\<close>

section \<open>Calendar\<close>

definition is_leap :: "int \<Rightarrow> bool" where
  "is_leap y \<longleftrightarrow> 4 dvd y \<and> (\<not> 100 dvd y \<or> 400 dvd y)"

text \<open>Days before the first of January of year \<open>y\<close>, counted from 0001-01-01.\<close>

definition days_before_year :: "int \<Rightarrow> int" where
  "days_before_year y = (let k = y - 1 in 365 * k + k div 4 - k div 100 + k div 400)"

definition days_before_month :: "bool \<Rightarrow> int \<Rightarrow> int" where
  "days_before_month leap m =
    (if m \<le> 1 then 0 else if m = 2 then 31
     else [59, 90, 120, 151, 181, 212, 243, 273, 304, 334] ! nat (m - 3) + (if leap then 1 else 0))"

definition days_in_month :: "bool \<Rightarrow> int \<Rightarrow> int" where
  "days_in_month leap m =
    (if m = 2 then (if leap then 29 else 28) else if m \<in> {4, 6, 9, 11} then 30 else 31)"

type_synonym ymd = "int \<times> int \<times> int"

definition valid_ymd :: "ymd \<Rightarrow> bool" where
  "valid_ymd = (\<lambda>(y, m, d). 1 \<le> y \<and> y \<le> 9999 \<and> 1 \<le> m \<and> m \<le> 12 \<and> 1 \<le> d \<and>
     d \<le> days_in_month (is_leap y) m)"

definition day_of_ymd :: "ymd \<Rightarrow> int" where
  "day_of_ymd = (\<lambda>(y, m, d). days_before_year y + days_before_month (is_leap y) m + d - 1)"

definition year_of_day :: "int \<Rightarrow> int" where
  "year_of_day n =
    (let y = 400 * n div 146097 + 1 in
     if n < days_before_year y then y - 1
     else if days_before_year (y + 1) \<le> n then y + 1 else y)"

definition month_of :: "bool \<Rightarrow> int \<Rightarrow> int" where
  "month_of leap r =
    (case find (\<lambda>m. days_before_month leap m \<le> r) [12, 11, 10, 9, 8, 7, 6, 5, 4, 3, 2] of
       None \<Rightarrow> 1 | Some m \<Rightarrow> m)"

definition ymd_of_day :: "int \<Rightarrow> ymd" where
  "ymd_of_day n =
    (let y = year_of_day n; r = n - days_before_year y; m = month_of (is_leap y) r
     in (y, m, r - days_before_month (is_leap y) m + 1))"

lemma div_bounds: "0 < c \<Longrightarrow> c * (k div c) \<le> k \<and> k < c * (k div c) + c" for k c :: int
  using mult_div_mod_eq [of c k] pos_mod_bound [of c k] pos_mod_sign [of c k] by linarith

lemma div_step: "y div c = (y - 1) div c + (if c dvd y then 1 else 0)" if "0 < c" for y c :: int
proof (cases "(y - 1) mod c = c - 1")
  case True
  then have y: "y = c * ((y - 1) div c + 1)"
    using mult_div_mod_eq [of c "y - 1"] by (simp add: distrib_left)
  then have "c dvd y" by (metis dvd_triv_left)
  moreover from y that have "y div c = (y - 1) div c + 1"
    by (metis nonzero_mult_div_cancel_left less_irrefl)
  ultimately show ?thesis by simp
next
  case False
  define r where "r = (y - 1) mod c + 1"
  have r: "0 \<le> r" "r < c" "r \<noteq> 0"
    using False pos_mod_bound [OF that, of "y - 1"] pos_mod_sign [OF that, of "y - 1"]
    by (simp_all add: r_def)
  have y: "y = c * ((y - 1) div c) + r"
    using mult_div_mod_eq [of c "y - 1"] by (simp add: r_def)
  have "y div c = (y - 1) div c" using int_div_pos_eq [OF y r(1,2)] .
  moreover have "y mod c = r" using int_mod_pos_eq [OF y r(1,2)] .
  ultimately show ?thesis using r(3) by (simp add: dvd_eq_mod_eq_0)
qed

lemma leap_sum:
  fixes y a b c :: int
  assumes "R \<Longrightarrow> Q" "Q \<Longrightarrow> P"
  shows "365 * y + (a + (if P then 1 else 0)) - (b + (if Q then 1 else 0)) + (c + (if R then 1 else 0))
    = 365 * (y - 1) + a - b + c + (if P \<and> (\<not> Q \<or> R) then 366 else 365)"
  using assms by (cases P; cases Q; cases R) simp_all

lemma year_step: "days_before_year (y + 1) = days_before_year y + (if is_leap y then 366 else 365)"
proof -
  have d: "y div 4 = (y - 1) div 4 + (if 4 dvd y then 1 else 0)"
    "y div 100 = (y - 1) div 100 + (if 100 dvd y then 1 else 0)"
    "y div 400 = (y - 1) div 400 + (if 400 dvd y then 1 else 0)"
    by (rule div_step, simp)+
  have "y + 1 - 1 = y" by (rule add_diff_cancel_right')
  then have "days_before_year (y + 1) = 365 * y + y div 4 - y div 100 + y div 400"
    by (simp only: days_before_year_def Let_def)
  also have "\<dots> = 365 * y + ((y - 1) div 4 + (if 4 dvd y then 1 else 0))
      - ((y - 1) div 100 + (if 100 dvd y then 1 else 0))
      + ((y - 1) div 400 + (if 400 dvd y then 1 else 0))"
    by (simp only: d)
  also have "\<dots> = days_before_year y + (if is_leap y then 366 else 365)"
    unfolding days_before_year_def Let_def is_leap_def
    by (rule leap_sum) (erule dvd_trans [rotated], simp)+
  finally show ?thesis .
qed

lemma year_of_day_bounds:
  "days_before_year (year_of_day n) \<le> n \<and> n < days_before_year (year_of_day n + 1)"
proof -
  define k where "k = 400 * n div 146097"
  have k: "146097 * k \<le> 400 * n" "400 * n < 146097 * k + 146097"
    using div_bounds [of 146097 "400 * n"] by (simp_all add: k_def)
  have lo: "days_before_year k \<le> n"
    using k div_bounds [of 4 "k - 1"] div_bounds [of 100 "k - 1"] div_bounds [of 400 "k - 1"]
    by (simp add: days_before_year_def Let_def)
  have hi: "n < days_before_year (k + 3)"
    using k div_bounds [of 4 "k + 2"] div_bounds [of 100 "k + 2"] div_bounds [of 400 "k + 2"]
    by (simp add: days_before_year_def Let_def)
  have "year_of_day n = (if n < days_before_year (k + 1) then k
      else if days_before_year (k + 2) \<le> n then k + 2 else k + 1)"
    by (simp add: year_of_day_def Let_def k_def add.commute add.left_commute)
  with lo hi show ?thesis by (auto simp: add.commute)
qed

lemma month_of_bounds:
  assumes "0 \<le> r" "r < (if leap then 366 else 365)"
  shows "1 \<le> month_of leap r \<and> month_of leap r \<le> 12 \<and>
    days_before_month leap (month_of leap r) \<le> r \<and>
    r < days_before_month leap (month_of leap r) + days_in_month leap (month_of leap r)"
  using assms
  by (auto simp: month_of_def days_before_month_def days_in_month_def split: if_splits)

lemma days_before_year_mono: "y \<le> z \<Longrightarrow> days_before_year y \<le> days_before_year z"
proof (induction z rule: int_ge_induct)
  case (step z)
  then show ?case by (simp add: year_step split: if_splits)
qed simp

definition LAST_DAY :: int where "LAST_DAY = 3652059"

lemma LAST_DAY_eq: "LAST_DAY = days_before_year 10000"
  by (simp add: LAST_DAY_def days_before_year_def)

lemma ymd_of_day_valid:
  assumes "0 \<le> n" "n < LAST_DAY"
  shows "valid_ymd (ymd_of_day n)" "day_of_ymd (ymd_of_day n) = n"
proof -
  define y where "y = year_of_day n"
  define r where "r = n - days_before_year y"
  have b: "days_before_year y \<le> n" "n < days_before_year (y + 1)"
    using year_of_day_bounds [of n] by (simp_all add: y_def)
  then have r: "0 \<le> r" "r < (if is_leap y then 366 else 365)"
    by (auto simp: r_def year_step split: if_splits)
  have "days_before_year 1 = 0" by (simp add: days_before_year_def)
  then have "1 \<le> y" using b(2) assms(1) days_before_year_mono [of "y + 1" 1] by (smt (verit))
  moreover have "y \<le> 9999"
    using b(1) assms(2) days_before_year_mono [of 10000 y] by (smt (verit) LAST_DAY_eq)
  ultimately show "valid_ymd (ymd_of_day n)"
    using month_of_bounds [OF r] by (simp add: ymd_of_day_def valid_ymd_def Let_def y_def r_def)
  show "day_of_ymd (ymd_of_day n) = n"
    by (simp add: ymd_of_day_def day_of_ymd_def Let_def)
qed

section \<open>Numbers in text\<close>

definition digit_char :: "int \<Rightarrow> char" where
  "digit_char i = char_of (48 + nat i)"

definition digit_value :: "char \<Rightarrow> int" where
  "digit_value c = int (of_char c) - 48"

fun pad :: "nat \<Rightarrow> int \<Rightarrow> string" where
  "pad 0 i = []"
| "pad (Suc k) i = pad k (i div 10) @ [digit_char (i mod 10)]"

definition digits_value :: "string \<Rightarrow> int" where
  "digits_value s = foldl (\<lambda>a c. 10 * a + digit_value c) 0 s"

text \<open>Exactly \<open>k\<close> digits, and what follows them.\<close>

definition number :: "nat \<Rightarrow> string \<Rightarrow> (int \<times> string) option" where
  "number k s =
    (let d = take k s in
     if length d = k \<and> list_all is_digit d then Some (digits_value d, drop k s) else None)"

lemma digit_char_digit:
  assumes "0 \<le> i" "i < 10"
  shows "is_digit (digit_char i)" "digit_value (digit_char i) = i"
proof -
  from assms have "(48 + nat i) mod 256 = 48 + nat i" by simp
  with assms show "is_digit (digit_char i)" "digit_value (digit_char i) = i"
    by (simp_all add: digit_char_def is_digit_def digit_value_def Let_def)
qed

lemma length_pad [simp]: "length (pad k i) = k"
  by (induction k arbitrary: i) simp_all

lemma pad_digits: "0 \<le> i \<Longrightarrow> list_all is_digit (pad k i)"
  by (induction k arbitrary: i) (simp_all add: digit_char_digit)

lemma pad_value: "0 \<le> i \<Longrightarrow> i < 10 ^ k \<Longrightarrow> digits_value (pad k i) = i"
proof (induction k arbitrary: i)
  case (Suc k)
  then have "digits_value (pad k (i div 10)) = i div 10" by simp
  then show ?case by (simp add: digits_value_def digit_char_digit)
qed (simp add: digits_value_def)

lemma number_pad [simp]: "0 \<le> i \<Longrightarrow> i < 10 ^ k \<Longrightarrow> number k (pad k i @ r) = Some (i, r)"
  by (simp add: number_def pad_digits pad_value Let_def)

section \<open>datetime\<close>

record datetime =
  dt_local :: int
  dt_offset :: "int option"

abbreviation micros_per_second :: int where "micros_per_second \<equiv> 1000000"
abbreviation micros_per_minute :: int where "micros_per_minute \<equiv> 60000000"
abbreviation micros_per_day :: int where "micros_per_day \<equiv> 86400000000"

definition in_range :: "int \<Rightarrow> bool" where
  "in_range l \<longleftrightarrow> 0 \<le> l \<and> l < LAST_DAY * micros_per_day"

text \<open>The instant of an aware moment, in microseconds of UTC.\<close>

definition instant :: "datetime \<Rightarrow> int" where
  "instant d = dt_local d - (case dt_offset d of None \<Rightarrow> 0 | Some f \<Rightarrow> f)"

type_synonym hms = "int \<times> int \<times> int \<times> int"

text \<open>\<^verbatim>\<open>HH[:MM[:SS[.ffffff]]]\<close>, with or without the colons.\<close>

definition parse_fraction :: "string \<Rightarrow> int option" where
  "parse_fraction s =
    (case s of
       [] \<Rightarrow> Some 0
     | c # ds \<Rightarrow>
        if c \<notin> set ''.,'' \<or> ds = [] \<or> \<not> list_all is_digit ds then None
        else Some (digits_value (take 6 ds) * 10 ^ (6 - min 6 (length ds))))"

definition parse_hms :: "string \<Rightarrow> hms option" where
  "parse_hms s =
    (case number 2 s of None \<Rightarrow> None
     | Some (h, r) \<Rightarrow>
        if r = [] then Some (h, 0, 0, 0)
        else let sep = (hd r = CHR '':'') in
        (case number 2 (if sep then tl r else r) of None \<Rightarrow> None
         | Some (mi, r2) \<Rightarrow>
            if r2 = [] then Some (h, mi, 0, 0)
            else if sep \<and> hd r2 \<noteq> CHR '':'' then None
            else (case number 2 (if sep then tl r2 else r2) of None \<Rightarrow> None
             | Some (se, r3) \<Rightarrow>
                (case parse_fraction r3 of None \<Rightarrow> None
                 | Some us \<Rightarrow> Some (h, mi, se, us)))))"

definition hms_micros :: "hms \<Rightarrow> int" where
  "hms_micros = (\<lambda>(h, mi, se, us). ((h * 60 + mi) * 60 + se) * micros_per_second + us)"

definition parse_offset :: "string \<Rightarrow> int option option" where
  "parse_offset s =
    (case s of
       [] \<Rightarrow> Some None
     | c # r \<Rightarrow>
        if c = CHR ''Z'' then (if r = [] then Some (Some 0) else None)
        else (case parse_hms r of None \<Rightarrow> None
         | Some t \<Rightarrow>
            let f = (if c = CHR ''-'' then - hms_micros t else hms_micros t)
            in if - micros_per_day < f \<and> f < micros_per_day then Some (Some f) else None))"

definition parse_date :: "string \<Rightarrow> (ymd \<times> string) option" where
  "parse_date s =
    (case number 4 s of None \<Rightarrow> None
     | Some (y, r) \<Rightarrow>
        let sep = (r \<noteq> [] \<and> hd r = CHR ''-'') in
        (case number 2 (if sep then tl r else r) of None \<Rightarrow> None
         | Some (m, r2) \<Rightarrow>
            if (r2 \<noteq> [] \<and> hd r2 = CHR ''-'') \<noteq> sep then None
            else (case number 2 (if sep then tl r2 else r2) of None \<Rightarrow> None
             | Some (d, r3) \<Rightarrow> if valid_ymd (y, m, d) then Some ((y, m, d), r3) else None)))"

definition valid_hms :: "hms \<Rightarrow> bool" where
  "valid_hms = (\<lambda>(h, mi, se, us). h < 24 \<and> mi < 60 \<and> se < 60)"

definition offset_mark :: "char \<Rightarrow> bool" where
  "offset_mark c \<longleftrightarrow> c \<in> set ''+-Z''"

definition fromisoformat :: "string \<Rightarrow> datetime res" where
  "fromisoformat s =
    (case parse_date s of None \<Rightarrow> Inl ValueError
     | Some (date, r) \<Rightarrow>
        let t = tl r; midnight = day_of_ymd date * micros_per_day in
        if t = [] then Inr \<lparr>dt_local = midnight, dt_offset = None\<rparr>
        else (case parse_hms (takeWhile (\<lambda>c. \<not> offset_mark c) t) of None \<Rightarrow> Inl ValueError
         | Some time \<Rightarrow>
            if \<not> valid_hms time then Inl ValueError
            else (case parse_offset (dropWhile (\<lambda>c. \<not> offset_mark c) t) of None \<Rightarrow> Inl ValueError
             | Some f \<Rightarrow> Inr \<lparr>dt_local = midnight + hms_micros time, dt_offset = f\<rparr>)))"

text \<open>\<^verbatim>\<open>moment.astimezone(tz)\<close> for a fixed offset.\<close>

definition astimezone :: "datetime \<Rightarrow> int \<Rightarrow> datetime res" where
  "astimezone d f =
    (let u = instant d in
     if \<not> in_range u \<or> \<not> in_range (u + f) then Inl OverflowError
     else Inr \<lparr>dt_local = u + f, dt_offset = Some f\<rparr>)"

text \<open>\<^verbatim>\<open>isoformat(timespec="microseconds")\<close> of a UTC moment.\<close>

definition isoformat_utc :: "int \<Rightarrow> string" where
  "isoformat_utc u =
    (case ymd_of_day (u div micros_per_day) of (y, m, d) \<Rightarrow>
     let t = u mod micros_per_day; se = t div micros_per_second in
     pad 4 y @ ''-'' @ pad 2 m @ ''-'' @ pad 2 d @ ''T'' @
     pad 2 (se div 3600) @ '':'' @ pad 2 (se div 60 mod 60) @ '':'' @ pad 2 (se mod 60) @
     ''.'' @ pad 6 (t mod micros_per_second) @ ''+00:00'')"

definition event_timestamp :: "datetime \<Rightarrow> string res" where
  "event_timestamp d =
    (if dt_offset d = None then Inl ValueError
     else bind_res (astimezone d 0) (\<lambda>u. Inr (isoformat_utc (dt_local u))))"

text \<open>What is written is read back as the same instant.\<close>

lemma takeWhile_pad:
  "0 \<le> i \<Longrightarrow> takeWhile (\<lambda>c. \<not> offset_mark c) (pad k i @ r) = pad k i @ takeWhile (\<lambda>c. \<not> offset_mark c) r"
  "0 \<le> i \<Longrightarrow> dropWhile (\<lambda>c. \<not> offset_mark c) (pad k i @ r) = dropWhile (\<lambda>c. \<not> offset_mark c) r"
proof -
  assume "0 \<le> i"
  then have "list_all is_digit (pad k i)" by (rule pad_digits)
  then have "\<forall>c \<in> set (pad k i). \<not> offset_mark c"
    by (auto simp: list_all_iff offset_mark_def is_digit_def Let_def)
  then show "takeWhile (\<lambda>c. \<not> offset_mark c) (pad k i @ r) = pad k i @ takeWhile (\<lambda>c. \<not> offset_mark c) r"
    "dropWhile (\<lambda>c. \<not> offset_mark c) (pad k i @ r) = dropWhile (\<lambda>c. \<not> offset_mark c) r"
    by (auto intro: takeWhile_append2 dropWhile_append2)
qed

lemma pad_Nil_iff [simp]: "pad k i = [] \<longleftrightarrow> k = 0"
  by (metis length_0_conv length_pad)

lemma hms_of_seconds:
  "(s div 3600 * 60 + s div 60 mod 60) * 60 + s mod 60 = s" for s :: int
proof -
  have "s div 3600 = s div 60 div 60" by (simp add: zdiv_zmult2_eq [symmetric])
  moreover have "s div 60 div 60 * 60 + s div 60 mod 60 = s div 60" "s div 60 * 60 + s mod 60 = s"
    by (rule div_mult_mod_eq)+
  ultimately show ?thesis by (simp only:)
qed

definition hms_text :: "hms \<Rightarrow> string" where
  "hms_text = (\<lambda>(h, mi, se, us).
     pad 2 h @ '':'' @ pad 2 mi @ '':'' @ pad 2 se @ ''.'' @ pad 6 us)"

definition hms_ok :: "hms \<Rightarrow> bool" where
  "hms_ok = (\<lambda>(h, mi, se, us). 0 \<le> h \<and> h < 24 \<and> 0 \<le> mi \<and> mi < 60 \<and> 0 \<le> se \<and> se < 60 \<and>
     0 \<le> us \<and> us < micros_per_second)"

lemma parse_fraction_pad: "0 \<le> us \<Longrightarrow> us < 1000000 \<Longrightarrow> parse_fraction (CHR ''.'' # pad 6 us) = Some us"
  using pad_value [of us 6] pad_digits [of us 6] by (simp add: parse_fraction_def del: pad.simps)

lemma parse_hms_text: "hms_ok t \<Longrightarrow> parse_hms (hms_text t) = Some t"
  by (cases t)
    (simp add: hms_ok_def hms_text_def parse_hms_def Let_def parse_fraction_pad del: pad.simps)

lemma hms_text_span:
  "hms_ok t \<Longrightarrow> takeWhile (\<lambda>c. \<not> offset_mark c) (hms_text t @ ''+00:00'') = hms_text t"
  "hms_ok t \<Longrightarrow> dropWhile (\<lambda>c. \<not> offset_mark c) (hms_text t @ ''+00:00'') = ''+00:00''"
  by (cases t; simp add: hms_ok_def hms_text_def takeWhile_pad del: pad.simps;
      simp add: offset_mark_def)+

definition hms_of_micros :: "int \<Rightarrow> hms" where
  "hms_of_micros t = (let se = t div micros_per_second in
     (se div 3600, se div 60 mod 60, se mod 60, t mod micros_per_second))"

lemma hms_of_micros_ok:
  assumes "0 \<le> t" "t < micros_per_day"
  shows "hms_ok (hms_of_micros t)"
proof -
  have se: "0 \<le> t div micros_per_second" "t div micros_per_second < 86400"
    using assms by auto
  then have "0 \<le> t div micros_per_second div 3600" "t div micros_per_second div 3600 < 24"
    by auto
  then show ?thesis by (simp add: hms_of_micros_def hms_ok_def Let_def)
qed

lemma hms_micros_of_micros [simp]: "hms_micros (hms_of_micros t) = t"
  by (simp only: hms_of_micros_def hms_micros_def Let_def prod.case hms_of_seconds div_mult_mod_eq)

lemma isoformat_utc_text:
  "isoformat_utc u = (case ymd_of_day (u div micros_per_day) of (y, m, d) \<Rightarrow>
     pad 4 y @ ''-'' @ pad 2 m @ ''-'' @ pad 2 d @ ''T'' @
     hms_text (hms_of_micros (u mod micros_per_day)) @ ''+00:00'')"
  by (simp add: isoformat_utc_def hms_text_def hms_of_micros_def Let_def split: prod.split)

lemma parse_date_text:
  assumes "valid_ymd (y, m, d)"
  shows "parse_date (pad 4 y @ ''-'' @ pad 2 m @ ''-'' @ pad 2 d @ r) = Some ((y, m, d), r)"
proof -
  have "0 \<le> d \<and> d < 10 ^ 2" using assms
    by (auto simp: valid_ymd_def days_in_month_def split: if_splits)
  moreover have "0 \<le> y \<and> y < 10 ^ 4" "0 \<le> m \<and> m < 10 ^ 2" using assms
    by (auto simp: valid_ymd_def)
  ultimately show ?thesis
    using assms by (simp add: parse_date_def Let_def del: pad.simps)
qed

lemma parse_utc_offset: "parse_offset ''+00:00'' = Some (Some 0)"
  by (simp add: parse_offset_def parse_hms_def number_def digits_value_def digit_value_def
      is_digit_def hms_micros_def Let_def)

lemma in_range_day:
  assumes "in_range u"
  shows "0 \<le> u div micros_per_day" "u div micros_per_day < LAST_DAY"
    "0 \<le> u mod micros_per_day" "u mod micros_per_day < micros_per_day"
  using assms by (auto simp: in_range_def LAST_DAY_def)

lemma fromisoformat_isoformat:
  assumes "in_range u"
  shows "fromisoformat (isoformat_utc u) = Inr \<lparr>dt_local = u, dt_offset = Some 0\<rparr>"
proof -
  obtain y m d where ymd: "ymd_of_day (u div micros_per_day) = (y, m, d)" by (metis prod_cases3)
  have v: "valid_ymd (y, m, d)" "day_of_ymd (y, m, d) = u div micros_per_day"
    using ymd_of_day_valid [OF in_range_day(1,2) [OF assms]] ymd by simp_all
  have ok: "hms_ok (hms_of_micros (u mod micros_per_day))"
    by (rule hms_of_micros_ok [OF in_range_day(3,4) [OF assms]])
  then have "valid_hms (hms_of_micros (u mod micros_per_day))"
    by (auto simp: hms_ok_def valid_hms_def split: prod.splits)
  moreover define rest where "rest = hms_text (hms_of_micros (u mod micros_per_day)) @ ''+00:00''"
  moreover have "isoformat_utc u = pad 4 y @ ''-'' @ pad 2 m @ ''-'' @ pad 2 d @ ''T'' @ rest"
    by (simp add: isoformat_utc_text ymd rest_def)
  ultimately have "fromisoformat (isoformat_utc u) =
      Inr \<lparr>dt_local = day_of_ymd (y, m, d) * micros_per_day
        + hms_micros (hms_of_micros (u mod micros_per_day)), dt_offset = Some 0\<rparr>"
    using ok parse_date_text [OF v(1), of "''T'' @ rest"]
    by (simp add: fromisoformat_def parse_hms_text hms_text_span parse_utc_offset Let_def
        del: pad.simps)
  then show ?thesis by (simp only: v(2) hms_micros_of_micros div_mult_mod_eq)
qed

section \<open>The planning horizon\<close>

text \<open>An argument that may be a text, a \<^verbatim>\<open>datetime\<close> or neither; a service date likewise.\<close>

datatype moment_ref = As_text string | As_datetime datetime | As_other

datatype date_ref = Date_text string | Date_day int | Date_datetime datetime

definition MINUTES_PER_DAY :: int where "MINUTES_PER_DAY = 1440"

definition parse_horizon_start :: "string \<Rightarrow> datetime res" where
  "parse_horizon_start h =
     bind_res (fromisoformat h) (\<lambda>d. if dt_offset d = None then Inl ValueError else Inr d)"

definition resolve_horizon_start :: "moment_ref \<Rightarrow> datetime res" where
  "resolve_horizon_start r =
    (case r of
       As_datetime d \<Rightarrow> if dt_offset d = None then Inl ValueError else Inr d
     | As_text h \<Rightarrow> parse_horizon_start h
     | As_other \<Rightarrow> Inl ValueError)"

definition parse_service_date :: "date_ref \<Rightarrow> int res" where
  "parse_service_date r =
    (case r of
       Date_datetime _ \<Rightarrow> Inl ValueError
     | Date_day n \<Rightarrow> Inr n
     | Date_text s \<Rightarrow>
        (case parse_date s of
           Some (date, []) \<Rightarrow> Inr (day_of_ymd date)
         | _ \<Rightarrow> Inl ValueError))"

definition horizon_relative_minutes :: "date_ref \<Rightarrow> int \<Rightarrow> int \<Rightarrow> moment_ref \<Rightarrow> int res" where
  "horizon_relative_minutes service_date clock_minutes day_offset horizon_start =
     bind_res (parse_service_date service_date) (\<lambda>day.
     bind_res (resolve_horizon_start horizon_start) (\<lambda>anchor.
     if \<not> (0 \<le> clock_minutes \<and> clock_minutes < MINUTES_PER_DAY) then Inl ValueError
     else
       let event = day * micros_per_day
                   + (clock_minutes + day_offset * MINUTES_PER_DAY) * micros_per_minute
       in if \<not> in_range event then Inl OverflowError
          else let delta = event - dt_local anchor in
            if delta mod micros_per_minute \<noteq> 0 then Inl ValueError
            else Inr (delta div micros_per_minute)))"

lemma parse_horizon_start_aware: "parse_horizon_start h = Inr a \<Longrightarrow> \<exists>f. dt_offset a = Some f"
  by (auto simp: parse_horizon_start_def bind_res_Inr_iff split: if_splits)

text \<open>The minute of a date and a clock time, when the anchor lies on a whole minute.\<close>

lemma horizon_relative_minutes_whole:
  assumes "parse_service_date s = Inr day" "resolve_horizon_start h = Inr a"
    and "0 \<le> c" "c < MINUTES_PER_DAY"
    and "in_range (day * micros_per_day + (c + k * MINUTES_PER_DAY) * micros_per_minute)"
    and whole: "dt_local a mod micros_per_minute = 0"
  shows "horizon_relative_minutes s c k h =
    Inr (day * MINUTES_PER_DAY + c + k * MINUTES_PER_DAY - dt_local a div micros_per_minute)"
proof -
  define q where "q = dt_local a div micros_per_minute"
  have a: "dt_local a = micros_per_minute * q"
    using mult_div_mod_eq [of micros_per_minute "dt_local a"] whole by (simp add: q_def)
  define event where
    "event = day * micros_per_day + (c + k * MINUTES_PER_DAY) * micros_per_minute"
  have d: "event - dt_local a =
    micros_per_minute * (day * MINUTES_PER_DAY + c + k * MINUTES_PER_DAY - q)"
    by (simp add: a event_def MINUTES_PER_DAY_def algebra_simps)
  have "(event - dt_local a) mod micros_per_minute = 0"
    "(event - dt_local a) div micros_per_minute = day * MINUTES_PER_DAY + c + k * MINUTES_PER_DAY - q"
    unfolding d by simp_all
  then show ?thesis
    using assms(3-5)
    by (simp only: horizon_relative_minutes_def assms(1,2) bind_res_simps Let_def
        event_def [symmetric] q_def simp_thms if_True if_False)
qed

text \<open>An anchor off the minute leaves no whole number of minutes, whatever the inputs.\<close>

lemma horizon_relative_minutes_off:
  assumes "resolve_horizon_start h = Inr a" "dt_local a mod micros_per_minute \<noteq> 0"
  shows "\<exists>e. horizon_relative_minutes s c k h = Inl e"
proof -
  have "(day * micros_per_day + (c + k * MINUTES_PER_DAY) * micros_per_minute - dt_local a)
      mod micros_per_minute \<noteq> 0" for day
  proof -
    have "day * micros_per_day + (c + k * MINUTES_PER_DAY) * micros_per_minute - dt_local a
        = micros_per_minute * (day * 1440 + c + k * MINUTES_PER_DAY) - dt_local a"
      by (simp add: algebra_simps)
    then show ?thesis using assms(2) by (simp add: mod_eq_0_iff_dvd dvd_diff_right_iff)
  qed
  with assms(1) show ?thesis
    by (cases "parse_service_date s") (auto simp: horizon_relative_minutes_def Let_def)
qed

end
