(* ===== verification/Execution.thy ===== *)
theory Execution
  imports Job_Events Moments
begin

text \<open>
  Field execution and its evidence, \<^verbatim>\<open>backend/app/jobs/execution.py\<close>: observed moments,
  evidence items and the rules on a set of them, the stored form of evidence, the digest of a
  committed block, and the execution records derived from a job's history by
  \<open>build_execution_records\<close>, which checks the history and never repairs it.

  Two things come from outside: \<open>sha\<close>, the SHA-256 hex of a dictionary's canonical JSON, and
  \<open>hex\<close>, the 32 hexadecimal digits of the \<open>k\<close>-th UUID an operation draws.
\<close>

section \<open>Identifiers\<close>

definition is_hex_upper :: "char \<Rightarrow> bool" where
  "is_hex_upper c \<longleftrightarrow> is_digit c \<or> c \<in> set ''ABCDEF''"

definition hex32 :: "string \<Rightarrow> bool" where
  "hex32 s \<longleftrightarrow> length s = 32 \<and> list_all is_hex_upper s"

definition id_with_prefix :: "string \<Rightarrow> string \<Rightarrow> bool" where
  "id_with_prefix p s \<longleftrightarrow> starts_with p s \<and> hex32 (drop (length p) s)"

definition is_execution_id :: "string \<Rightarrow> bool" where
  "is_execution_id s \<longleftrightarrow> anchored (id_with_prefix ''EXE-'') s"

definition is_evidence_id :: "string \<Rightarrow> bool" where
  "is_evidence_id s \<longleftrightarrow> anchored (id_with_prefix ''EVD-'') s"

definition new_evidence_id :: "(nat \<Rightarrow> string) \<Rightarrow> nat \<Rightarrow> string" where
  "new_evidence_id hex k = ''EVD-'' @ hex k"

definition proposal_id_for :: "string \<Rightarrow> string \<Rightarrow> string" where
  "proposal_id_for run jid = ''PROP-'' @ run @ ''-'' @ jid"

section \<open>Digest\<close>

definition block_identity_digest ::
  "(dict \<Rightarrow> string) \<Rightarrow> string \<Rightarrow> string \<Rightarrow> string \<Rightarrow> string \<Rightarrow> string \<Rightarrow> json \<Rightarrow> int \<Rightarrow> int \<Rightarrow> int \<Rightarrow>
   string \<Rightarrow> string" where
  "block_identity_digest sha proposal jid run corridor track section_id s e duration work =
     sha (dict_of
       [(''proposal_id'', JStr proposal), (''job_id'', JStr jid),
        (''optimization_run_id'', JStr run), (''corridor_id'', JStr corridor),
        (''track_id'', JStr track), (''section_id'', section_id), (''start_minute'', JInt s),
        (''end_minute'', JInt e), (''duration_minutes'', JInt duration),
        (''work_type'', JStr work)])"

text \<open>\<^verbatim>\<open>int(job["schedule_end_minute"])\<close>\<close>

definition int_of_column :: "int option \<Rightarrow> int res" where
  "int_of_column v = (case v of None \<Rightarrow> Inl TypeError | Some i \<Rightarrow> Inr i)"

definition committed_block_digest :: "(dict \<Rightarrow> string) \<Rightarrow> job \<Rightarrow> string \<Rightarrow> string \<Rightarrow> string res" where
  "committed_block_digest sha j corridor run =
     bind_res (int_of_column (job_start j)) (\<lambda>s.
     bind_res (int_of_column (job_end j)) (\<lambda>e.
     Inr (block_identity_digest sha (proposal_id_for run (job_id j)) (job_id j) run corridor
            (job_track_id j) (dget (job_block j) ''section_id'') s e (e - s) (job_work_type j))))"

section \<open>Observed time\<close>

definition parse_observed_at :: "moment_ref \<Rightarrow> datetime res" where
  "parse_observed_at value =
     bind_res
       (case value of
          As_datetime d \<Rightarrow> Inr d
        | As_text s \<Rightarrow>
           (case fromisoformat (strip s) of Inl _ \<Rightarrow> Inl EvidenceValidationError | Inr d \<Rightarrow> Inr d)
        | As_other \<Rightarrow> Inl EvidenceValidationError)
       (\<lambda>d. if dt_offset d = None then Inl EvidenceValidationError else Inr d)"

definition canonical_observed_at :: "datetime \<Rightarrow> string res" where
  "canonical_observed_at d = event_timestamp d"

definition MAX_OBSERVATION_FUTURE_SKEW :: int where
  "MAX_OBSERVATION_FUTURE_SKEW = 5 * micros_per_minute"

text \<open>The refusal quotes both moments, so formatting them can overflow first.\<close>

definition require_not_in_future :: "datetime \<Rightarrow> datetime \<Rightarrow> unit res" where
  "require_not_in_future moment now =
    (if \<not> in_range (dt_local now + MAX_OBSERVATION_FUTURE_SKEW) then Inl OverflowError
     else if instant moment > instant now + MAX_OBSERVATION_FUTURE_SKEW then
       bind_res (canonical_observed_at moment) (\<lambda>_.
       bind_res (canonical_observed_at now) (\<lambda>_. Inl EvidenceValidationError))
     else Inr ())"

definition observed_minute :: "datetime \<Rightarrow> string \<Rightarrow> bool \<Rightarrow> int res" where
  "observed_minute moment horizon_start ceil =
     bind_res (parse_horizon_start horizon_start) (\<lambda>anchor.
     bind_res (astimezone moment (case dt_offset anchor of None \<Rightarrow> 0 | Some f \<Rightarrow> f)) (\<lambda>local.
     let day = dt_local local div micros_per_day; t = dt_local local mod micros_per_day;
         clock = t div micros_per_minute; rest = t mod micros_per_minute in
     bind_res (horizon_relative_minutes (Date_day day) clock 0 (As_datetime anchor)) (\<lambda>minute.
     Inr (if ceil \<and> rest \<noteq> 0 then minute + 1 else minute))))"

section \<open>Evidence\<close>

datatype evidence_kind = PHOTO | VIDEO | DOCUMENT | MEASUREMENT

datatype evidence_phase = BEFORE_WORK | AFTER_WORK | NOT_COMPLETED_PHASE

fun evidence_kind_value :: "evidence_kind \<Rightarrow> string" where
  "evidence_kind_value PHOTO = ''PHOTO''"
| "evidence_kind_value VIDEO = ''VIDEO''"
| "evidence_kind_value DOCUMENT = ''DOCUMENT''"
| "evidence_kind_value MEASUREMENT = ''MEASUREMENT''"

fun evidence_phase_value :: "evidence_phase \<Rightarrow> string" where
  "evidence_phase_value BEFORE_WORK = ''BEFORE_WORK''"
| "evidence_phase_value AFTER_WORK = ''AFTER_WORK''"
| "evidence_phase_value NOT_COMPLETED_PHASE = ''NOT_COMPLETED''"

definition evidence_kind_of :: "json \<Rightarrow> evidence_kind option" where
  "evidence_kind_of v =
     find (\<lambda>k. v = JStr (evidence_kind_value k)) [PHOTO, VIDEO, DOCUMENT, MEASUREMENT]"

definition evidence_phase_of :: "json \<Rightarrow> evidence_phase option" where
  "evidence_phase_of v =
     find (\<lambda>p. v = JStr (evidence_phase_value p)) [BEFORE_WORK, AFTER_WORK, NOT_COMPLETED_PHASE]"

lemma evidence_kind_of_value [simp]: "evidence_kind_of (JStr (evidence_kind_value k)) = Some k"
  by (cases k) (simp_all add: evidence_kind_of_def)

lemma evidence_phase_of_value [simp]: "evidence_phase_of (JStr (evidence_phase_value p)) = Some p"
  by (cases p) (simp_all add: evidence_phase_of_def)

definition MAX_EVIDENCE_ITEMS :: nat where "MAX_EVIDENCE_ITEMS = 10"
definition MAX_EVIDENCE_REFERENCE_LENGTH :: nat where "MAX_EVIDENCE_REFERENCE_LENGTH = 200"
definition MAX_EVIDENCE_NOTE_LENGTH :: nat where "MAX_EVIDENCE_NOTE_LENGTH = 500"

record evidence_item =
  evi_reference :: string
  evi_kind :: evidence_kind
  evi_captured_at :: string
  evi_latitude :: "rat option"
  evi_longitude :: "rat option"
  evi_note :: "string option"

text \<open>JSON numbers are finite, so the \<^verbatim>\<open>isfinite\<close> half of the bound check has no case here.\<close>

definition optional_coordinate :: "json \<Rightarrow> rat \<Rightarrow> rat option res" where
  "optional_coordinate v bound =
    (let bounded_by = (\<lambda>r. if - bound \<le> r \<and> r \<le> bound then Inr (Some r)
                       else Inl EvidenceValidationError) in
     case v of
       JNull \<Rightarrow> Inr None
     | JInt i \<Rightarrow> bounded_by (of_int i)
     | JFloat r \<Rightarrow> bounded_by r
     | _ \<Rightarrow> Inl EvidenceValidationError)"

definition check_note :: "json \<Rightarrow> string option res" where
  "check_note v =
    (case v of
       JNull \<Rightarrow> Inr None
     | JStr s \<Rightarrow> if MAX_EVIDENCE_NOTE_LENGTH < length s then Inl EvidenceValidationError
                 else Inr (Some s)
     | _ \<Rightarrow> Inl EvidenceValidationError)"

definition check_reference :: "json \<Rightarrow> string res" where
  "check_reference v =
    (case v of
       JStr s \<Rightarrow>
        (let r = strip s in
         if r = [] \<or> MAX_EVIDENCE_REFERENCE_LENGTH < length r then Inl EvidenceValidationError
         else Inr r)
     | _ \<Rightarrow> Inl EvidenceValidationError)"

definition make_evidence_item ::
  "json \<Rightarrow> json \<Rightarrow> moment_ref \<Rightarrow> json \<Rightarrow> json \<Rightarrow> json \<Rightarrow> evidence_item res" where
  "make_evidence_item reference kind captured latitude longitude note =
     bind_res (check_reference reference) (\<lambda>r.
     case evidence_kind_of kind of None \<Rightarrow> Inl EvidenceValidationError | Some k \<Rightarrow>
     bind_res (parse_observed_at captured) (\<lambda>moment.
     bind_res (canonical_observed_at moment) (\<lambda>at_text.
     bind_res (optional_coordinate latitude 90) (\<lambda>la.
     bind_res (optional_coordinate longitude 180) (\<lambda>lo.
     if (la = None) \<noteq> (lo = None) then Inl EvidenceValidationError
     else bind_res (check_note note) (\<lambda>n.
       Inr \<lparr>evi_reference = r, evi_kind = k, evi_captured_at = at_text,
            evi_latitude = la, evi_longitude = lo, evi_note = n\<rparr>))))))"

text \<open>\<^verbatim>\<open>captured_moment\<close>: the stored text read back.\<close>

definition captured_moment :: "evidence_item \<Rightarrow> datetime res" where
  "captured_moment i = fromisoformat (evi_captured_at i)"

record recorded_evidence =
  rev_id :: string
  rev_phase :: evidence_phase
  rev_item :: evidence_item

definition json_of_rat :: "rat option \<Rightarrow> json" where
  "json_of_rat v = (case v of None \<Rightarrow> JNull | Some r \<Rightarrow> JFloat r)"

definition recorded_to_dict :: "recorded_evidence \<Rightarrow> dict" where
  "recorded_to_dict r = dict_of
     [(''evidence_id'', JStr (rev_id r)),
      (''phase'', JStr (evidence_phase_value (rev_phase r))),
      (''evidence_reference'', JStr (evi_reference (rev_item r))),
      (''evidence_kind'', JStr (evidence_kind_value (evi_kind (rev_item r)))),
      (''captured_at'', JStr (evi_captured_at (rev_item r))),
      (''latitude'', json_of_rat (evi_latitude (rev_item r))),
      (''longitude'', json_of_rat (evi_longitude (rev_item r))),
      (''note'', json_of_str (evi_note (rev_item r)))]"

definition evidence_keys :: "string list" where
  "evidence_keys = [''evidence_id'', ''phase'', ''evidence_reference'', ''evidence_kind'',
     ''captured_at'', ''latitude'', ''longitude'', ''note'']"

fun moment_of_json :: "json \<Rightarrow> moment_ref" where
  "moment_of_json (JStr s) = As_text s"
| "moment_of_json _ = As_other"

definition recorded_from_dict :: "json \<Rightarrow> recorded_evidence res" where
  "recorded_from_dict v =
    (case v of
       JObj d \<Rightarrow>
        if fmdom d \<noteq> fset_of_list evidence_keys then Inl EvidenceValidationError
        else (case dget d ''evidence_id'' of
           JStr i \<Rightarrow>
            if \<not> is_evidence_id i then Inl EvidenceValidationError
            else (case evidence_phase_of (dget d ''phase'') of
               None \<Rightarrow> Inl EvidenceValidationError
             | Some p \<Rightarrow>
                bind_res (make_evidence_item (dget d ''evidence_reference'')
                   (dget d ''evidence_kind'') (moment_of_json (dget d ''captured_at''))
                   (dget d ''latitude'') (dget d ''longitude'') (dget d ''note'')) (\<lambda>item.
                let r = \<lparr>rev_id = i, rev_phase = p, rev_item = item\<rparr> in
                if \<not> py_eq (JObj (recorded_to_dict r)) (JObj d) then Inl EvidenceValidationError
                else Inr r))
         | _ \<Rightarrow> Inl EvidenceValidationError)
     | _ \<Rightarrow> Inl EvidenceValidationError)"

record evidence_rules =
  evr_minimum :: nat
  evr_not_after :: "datetime option"
  evr_not_before :: "datetime option"
  evr_forbidden :: "string list"

text \<open>The refusals of the two bounds quote the bound, so formatting it can overflow first.\<close>

definition check_captured :: "datetime \<Rightarrow> evidence_rules \<Rightarrow> evidence_item \<Rightarrow> unit res" where
  "check_captured now rules item =
     bind_res (captured_moment item) (\<lambda>captured.
     bind_res (require_not_in_future captured now) (\<lambda>_.
     bind_res (case evr_not_after rules of
         Some b \<Rightarrow> if instant captured > instant b
                   then bind_res (canonical_observed_at b) (\<lambda>_. Inl EvidenceValidationError)
                   else Inr ()
       | None \<Rightarrow> Inr ()) (\<lambda>_.
     case evr_not_before rules of
         Some b \<Rightarrow> if instant captured < instant b
                   then bind_res (canonical_observed_at b) (\<lambda>_. Inl EvidenceValidationError)
                   else Inr ()
       | None \<Rightarrow> Inr ())))"

definition validate_evidence_set ::
  "evidence_item list \<Rightarrow> datetime \<Rightarrow> evidence_rules \<Rightarrow> evidence_item list res" where
  "validate_evidence_set items now rules =
    (let references = map evi_reference items in
     if \<not> (evr_minimum rules \<le> length items \<and> length items \<le> MAX_EVIDENCE_ITEMS)
     then Inl EvidenceValidationError
     else if \<not> distinct references then Inl EvidenceValidationError
     else if list_ex (\<lambda>r. r \<in> set (evr_forbidden rules)) references
     then Inl EvidenceValidationError
     else bind_res (each_res (check_captured now rules) items) (\<lambda>_. Inr items))"

fun record_evidence ::
  "(nat \<Rightarrow> string) \<Rightarrow> nat \<Rightarrow> evidence_item list \<Rightarrow> evidence_phase \<Rightarrow> recorded_evidence list" where
  "record_evidence hex k [] phase = []"
| "record_evidence hex k (i # is) phase =
     \<lparr>rev_id = new_evidence_id hex k, rev_phase = phase, rev_item = i\<rparr>
       # record_evidence hex (k + 1) is phase"

definition json_of_evidence :: "recorded_evidence list \<Rightarrow> json" where
  "json_of_evidence rs = JArr (map (\<lambda>r. JObj (recorded_to_dict r)) rs)"

end
