(* ===== verification/Lifecycle_Plans.thy ===== *)
theory Lifecycle_Plans
  imports Lifecycle_Guards Execution
begin

text \<open>
  The plans of \<^verbatim>\<open>backend/app/jobs/lifecycle.py\<close> that do not execute field work: the outcome
  and the failure of an optimization attempt, commit, reject, postpone, release, direct
  schedule assignment, and the events of creation and of a refused transition. A plan takes
  the rows read in the transaction and returns the mutations to write and the events that
  describe them. Where the Python builds a plan by a function that may itself raise, before
  any row is read, the definition returns \<open>plan res\<close>.
\<close>

type_synonym rows = "string \<rightharpoonup> job"
type_synonym plan = "rows \<Rightarrow> (job_mutation list \<times> job_event list) res"

definition need_row :: "rows \<Rightarrow> string \<Rightarrow> job res" where
  "need_row rows jid = (case rows jid of None \<Rightarrow> Inl (KeyError jid) | Some j \<Rightarrow> Inr j)"

section \<open>Optimization outcome\<close>

record attempt =
  at_corridor_id :: string
  at_requester :: "actor option"
  at_requested_at :: string
  at_run_id :: "string option"
  at_horizon_start :: string
  at_trigger :: string

abbreviation attempt_run :: "attempt \<Rightarrow> json" where
  "attempt_run a \<equiv> json_of_str (at_run_id a)"

definition requested_event :: "ambient \<Rightarrow> nat \<Rightarrow> job \<Rightarrow> attempt \<Rightarrow> job_event res" where
  "requested_event env k j a =
    (case at_requester a of
       None \<Rightarrow> Inl TypeError
     | Some who \<Rightarrow>
        make_event env k None (job_id j) OPTIMIZATION_REQUESTED (Live who) (at_requested_at a)
          None (attempt_run a) (Some (snapshot_of j)) (Some (snapshot_of j))
          (dict_of [(''corridor_id'', JStr (at_corridor_id a)),
                    (''trigger'', JStr (at_trigger a))]))"

text \<open>What a planned outcome still needs: an event index and the state after the write.\<close>

type_synonym outcome = "nat \<Rightarrow> snapshot \<Rightarrow> job_event res"

definition plan_placement ::
  "ambient \<Rightarrow> job \<Rightarrow> job_mutation \<Rightarrow> dict \<Rightarrow> attempt \<Rightarrow> string \<Rightarrow> string \<Rightarrow> dict option \<Rightarrow>
   (job_mutation \<times> outcome) res" where
  "plan_placement env j base placement a completed_at solver_status explanation =
     bind_res (bind_res (need placement ''start_minute'') int_of_json) (\<lambda>s.
     bind_res (bind_res (need placement ''end_minute'') int_of_json) (\<lambda>e.
     let jid = job_id j; status = job_status j; prior = snapshot_of j;
         location = dmerge
           (dict_of [(''track_id'', dget placement ''track_id''),
                     (''section_id'', dget (job_block j) ''section_id''),
                     (''start_minute'', JInt s),
                     (''end_minute'', JInt e),
                     (''horizon_start'', JStr (at_horizon_start a)),
                     (''solver_status'', JStr solver_status)])
           (case explanation of None \<Rightarrow> fmempty | Some d \<Rightarrow> d);
         emit = (\<lambda>typ md k after. make_event env k None jid typ (Live OPTIMIZER) completed_at
                   None (attempt_run a) (Some prior) (Some after) md)
     in if status \<in> set COMMITTED_STATUSES then
          (if (Some s, Some e) \<noteq> job_window j then Inl (CommittedJobError jid)
           else Inr (base\<lparr>mut_last_refusal_reason := None\<rparr>,
                     emit COMMITTED_BLOCK_PRESERVED location))
        else
          let m = base\<lparr>mut_status := SCHEDULED, mut_start := Some s, mut_end := Some e,
                       mut_last_refusal_reason := None,
                       mut_block := with_placement (job_block j) s e (attempt_run a)\<rparr>
          in if status = SCHEDULED then
               Inr (m, emit BLOCK_REPROPOSED (dmerge location (dict_of
                 [(''previous_start_minute'', json_of_int (job_start j)),
                  (''previous_end_minute'', json_of_int (job_end j)),
                  (''previous_proposal_run_id'', proposal_run_id_of j),
                  (''placement_changed'', JBool (job_window j \<noteq> (Some s, Some e)))])))
             else Inr (m, emit BLOCK_PROPOSED location)))"

definition plan_refusal ::
  "ambient \<Rightarrow> job \<Rightarrow> job_mutation \<Rightarrow> string \<Rightarrow> attempt \<Rightarrow> string \<Rightarrow> string \<Rightarrow>
   job_mutation \<times> outcome" where
  "plan_refusal env j base reason a completed_at solver_status =
    (let jid = job_id j; status = job_status j; prior = snapshot_of j;
         emit = (\<lambda>typ md k after. make_event env k None jid typ (Live OPTIMIZER) completed_at
                   (Some reason) (attempt_run a) (Some prior) (Some after)
                   (dict_of ((''solver_status'', JStr solver_status) # md)))
     in if status \<in> set COMMITTED_STATUSES then
          (base\<lparr>mut_last_refusal_reason := Some reason\<rparr>,
           emit COMMITTED_BLOCK_CONFLICT [(''commitment_preserved'', JBool True)])
        else if status = SCHEDULED then
          (withdrawn base j reason, emit PROPOSAL_INVALIDATED (withdrawn_metadata j))
        else
          (base\<lparr>mut_last_refusal_reason := Some reason\<rparr>, emit OPTIMIZATION_REFUSED []))"

record outcome_request =
  or_attempt :: attempt
  or_completed_at :: string
  or_solver_status :: string
  or_placements :: "(string, dict) fmap"
  or_refusals :: "(string, string) fmap"
  or_expected :: "(string, string) fmap option"
  or_record_history :: bool
  or_explanations :: "(string, dict) fmap"

definition dlen :: "('a, 'b) fmap \<Rightarrow> int" where
  "dlen m = int (fcard (fmdom m))"

text \<open>
  The body of the loop for one job: what is decided for it, the events that record the
  decision, and the two together.
\<close>

definition outcome_choice ::
  "ambient \<Rightarrow> outcome_request \<Rightarrow> job \<Rightarrow> job_mutation \<Rightarrow> (job_mutation \<times> outcome) res" where
  "outcome_choice env r j base =
    (let jid = job_id j; a = or_attempt r; completed_at = or_completed_at r;
         solver_status = or_solver_status r in
     case fmlookup (or_placements r) jid of
       Some p \<Rightarrow> plan_placement env j base p a completed_at solver_status
                    (fmlookup (or_explanations r) jid)
     | None \<Rightarrow>
        (case fmlookup (or_refusals r) jid of
           Some reason \<Rightarrow> Inr (plan_refusal env j base reason a completed_at solver_status)
         | None \<Rightarrow> Inl ValueError))"

definition outcome_events ::
  "ambient \<Rightarrow> outcome_request \<Rightarrow> int \<Rightarrow> nat \<Rightarrow> job \<Rightarrow> job_mutation \<Rightarrow> outcome \<Rightarrow> job_event list res"
  where
  "outcome_events env r considered k j m outcome =
    (if \<not> or_record_history r then Inr []
     else
       let a = or_attempt r; prior = snapshot_of j in
       bind_res (requested_event env k j a) (\<lambda>e1.
       bind_res (make_event env (k + 1) None (job_id j) OPTIMIZATION_COMPLETED (Live OPTIMIZER)
                   (or_completed_at r) None (attempt_run a) (Some prior) (Some prior)
                   (dict_of [(''solver_status'', JStr (or_solver_status r)),
                             (''considered'', JInt considered),
                             (''scheduled'', JInt (dlen (or_placements r))),
                             (''unscheduled'', JInt (dlen (or_refusals r)))])) (\<lambda>e2.
       bind_res (outcome (k + 2) (snapshot_of (as_job m j))) (\<lambda>e3.
       Inr [e1, e2, e3]))))"

definition outcome_step ::
  "ambient \<Rightarrow> outcome_request \<Rightarrow> int \<Rightarrow> rows \<Rightarrow> nat \<Rightarrow> string \<Rightarrow>
   (job_mutation \<times> job_event list) res" where
  "outcome_step env r considered rows k jid =
     bind_res (need_row rows jid) (\<lambda>j.
     let base = (unchanged j)\<lparr>mut_updated_at := Some (or_completed_at r),
                              mut_last_solver_status := Some (or_solver_status r)\<rparr>
     in if (case or_expected r of None \<Rightarrow> False
            | Some ex \<Rightarrow> fmlookup ex jid \<noteq> Some (job_status j))
        then Inl (ConcurrentJobModificationError jid)
        else bind_res (outcome_choice env r j base) (\<lambda>(m, outcome).
             bind_res (outcome_events env r considered k j m outcome) (\<lambda>es. Inr (m, es))))"

fun outcome_loop ::
  "(nat \<Rightarrow> string \<Rightarrow> (job_mutation \<times> job_event list) res) \<Rightarrow> nat \<Rightarrow> string list \<Rightarrow>
   (job_mutation list \<times> job_event list) res" where
  "outcome_loop step k [] = Inr ([], [])"
| "outcome_loop step k (jid # jids) =
     bind_res (step k jid) (\<lambda>(m, es).
     bind_res (outcome_loop step (k + 3) jids) (\<lambda>(ms, es').
     Inr (m # ms, es @ es')))"

definition plan_optimization_outcome ::
  "ambient \<Rightarrow> string list \<Rightarrow> outcome_request \<Rightarrow> plan res" where
  "plan_optimization_outcome env job_ids r =
    (if or_record_history r \<and> at_requester (or_attempt r) = None then Inl ValueError
     else Inr (\<lambda>rows.
       outcome_loop (outcome_step env r (int (length job_ids)) rows) 0 job_ids))"

section \<open>Optimization failure\<close>

definition failure_step ::
  "ambient \<Rightarrow> attempt \<Rightarrow> string \<Rightarrow> string \<Rightarrow> string \<Rightarrow> rows \<Rightarrow> nat \<Rightarrow> string \<Rightarrow>
   (job_mutation list \<times> job_event list) res" where
  "failure_step env a failed_at reason outcome_label rows k jid =
     bind_res (need_row rows jid) (\<lambda>j.
     let status = job_status j in
     if status \<in> set TERMINAL_STATUSES then Inr ([], [])
     else
       let prior = snapshot_of j;
           base = (unchanged j)\<lparr>mut_updated_at := Some failed_at,
                                mut_last_solver_status := Some outcome_label,
                                mut_last_refusal_reason := Some reason\<rparr>;
           m = (if status = SCHEDULED then withdrawn base j reason else base);
           after = snapshot_of (as_job m j)
       in bind_res (requested_event env k j a) (\<lambda>e1.
          bind_res (make_event env (k + 1) None jid OPTIMIZATION_FAILED (Live OPTIMIZER) failed_at
                      (Some reason) (attempt_run a) (Some prior) (Some prior)
                      (dict_of [(''outcome'', JStr outcome_label),
                                (''commitment_preserved'',
                                 JBool (status \<in> set COMMITTED_STATUSES))])) (\<lambda>e2.
          if status = SCHEDULED then
            bind_res (make_event env (k + 2) None jid PROPOSAL_INVALIDATED (Live OPTIMIZER)
                        failed_at (Some reason) (attempt_run a) (Some prior) (Some after)
                        (dict_of ((''outcome'', JStr outcome_label) # withdrawn_metadata j)))
              (\<lambda>e3. Inr ([m], [e1, e2, e3]))
          else Inr ([m], [e1, e2]))))"

fun failure_loop ::
  "(nat \<Rightarrow> string \<Rightarrow> (job_mutation list \<times> job_event list) res) \<Rightarrow> nat \<Rightarrow> string list \<Rightarrow>
   (job_mutation list \<times> job_event list) res" where
  "failure_loop step k [] = Inr ([], [])"
| "failure_loop step k (jid # jids) =
     bind_res (step k jid) (\<lambda>(ms, es).
     bind_res (failure_loop step (k + 3) jids) (\<lambda>(ms', es').
     Inr (ms @ ms', es @ es')))"

definition plan_optimization_failure ::
  "ambient \<Rightarrow> string list \<Rightarrow> attempt \<Rightarrow> string \<Rightarrow> string \<Rightarrow> string \<Rightarrow> plan" where
  "plan_optimization_failure env job_ids a failed_at reason outcome_label = (\<lambda>rows.
     failure_loop (failure_step env a failed_at reason outcome_label rows) 0 job_ids)"

section \<open>Human-initiated transitions\<close>

definition require_identified_human :: "actor \<Rightarrow> string \<Rightarrow> unit res" where
  "require_identified_human who jid =
    (if actor_kind who \<noteq> HUMAN \<or> actor_role who = UNIDENTIFIED
     then Inl (InvalidTransitionError jid) else Inr ())"

definition require_nonblank :: "string \<Rightarrow> unit res" where
  "require_nonblank s = (if s = [] \<or> \<not> nonblank s then Inl (InvalidTransitionError []) else Inr ())"

definition plan_commit ::
  "ambient \<Rightarrow> string \<Rightarrow> actor \<Rightarrow> string \<Rightarrow> string option \<Rightarrow> plan" where
  "plan_commit env jid who now expected = (\<lambda>rows.
     bind_res (need_row rows jid) (\<lambda>j.
     if job_status j \<noteq> SCHEDULED then Inl (InvalidTransitionError jid)
     else bind_res (require_identified_human who jid) (\<lambda>_.
     if job_start j = None \<or> job_end j = None then Inl (InvalidTransitionError jid)
     else
       let run = proposal_run_id_of j in
       if expected \<noteq> None \<and> json_of_str expected \<noteq> run then Inl (StaleProposalError jid)
       else
         let m = (unchanged j)\<lparr>mut_status := NOTIFIED, mut_updated_at := Some now,
                               mut_block := committed_edit (job_block j)\<rparr>
         in bind_res (make_event env 0 None jid BLOCK_COMMITTED (Live who) now None run
                        (Some (snapshot_of j)) (Some (snapshot_of (as_job m j)))
                        (dict_of [(''transition'', JStr ''notify''),
                                  (''start_minute'', json_of_int (job_start j)),
                                  (''end_minute'', json_of_int (job_end j)),
                                  (''expected_proposal_run_id'', json_of_str expected)]))
              (\<lambda>e. Inr ([m], [e])))))"

text \<open>
  The checks reject and postpone share: a current, uncommitted proposal, an identified
  person, and the very proposal that was reviewed.
\<close>

definition review_checks :: "job \<Rightarrow> actor \<Rightarrow> string \<Rightarrow> unit res" where
  "review_checks j who expected =
    (if job_status j \<noteq> SCHEDULED then Inl (InvalidTransitionError (job_id j))
     else bind_res (require_identified_human who (job_id j)) (\<lambda>_.
     if job_start j = None \<or> job_end j = None then Inl (InvalidTransitionError (job_id j))
     else if JStr expected \<noteq> proposal_run_id_of j then Inl (StaleProposalError (job_id j))
     else Inr ()))"

definition plan_reject ::
  "ambient \<Rightarrow> string \<Rightarrow> actor \<Rightarrow> string \<Rightarrow> string \<Rightarrow> string \<Rightarrow> plan res" where
  "plan_reject env jid who now reason expected =
     bind_res (require_nonblank expected) (\<lambda>_.
     bind_res (require_nonblank reason) (\<lambda>_. Inr (\<lambda>rows.
       bind_res (need_row rows jid) (\<lambda>j.
       bind_res (review_checks j who expected) (\<lambda>_.
       let m = withdrawn ((unchanged j)\<lparr>mut_updated_at := Some now\<rparr>) j reason in
       bind_res (make_event env 0 None jid PROPOSAL_REJECTED (Live who) now (Some reason)
                   (proposal_run_id_of j)
                   (Some (snapshot_of j)) (Some (snapshot_of (as_job m j)))
                   (dict_of [(''transition'', JStr ''reject''),
                             (''rejected_start_minute'', json_of_int (job_start j)),
                             (''rejected_end_minute'', json_of_int (job_end j)),
                             (''expected_proposal_run_id'', JStr expected)]))
         (\<lambda>e. Inr ([m], [e])))))))"

record postpone_request =
  pp_reason :: string
  pp_selected_date :: string
  pp_not_before :: int
  pp_horizon :: int
  pp_expected :: string
  pp_digest :: "string option"

definition plan_postpone ::
  "ambient \<Rightarrow> string \<Rightarrow> actor \<Rightarrow> string \<Rightarrow> postpone_request \<Rightarrow> plan res" where
  "plan_postpone env jid who now r =
     bind_res (require_nonblank (pp_expected r)) (\<lambda>_.
     bind_res (require_nonblank (pp_reason r)) (\<lambda>_. Inr (\<lambda>rows.
       bind_res (need_row rows jid) (\<lambda>j.
       bind_res (review_checks j who (pp_expected r)) (\<lambda>_.
       if pp_not_before r < 0 \<or> pp_horizon r \<le> pp_not_before r
       then Inl (InvalidTransitionError jid)
       else
         let w = withdrawn ((unchanged j)\<lparr>mut_updated_at := Some now\<rparr>) j (pp_reason r) in
         bind_res (raise_not_before (mut_block w) (pp_not_before r) (pp_horizon r) False)
           (\<lambda>(block, _, original, widened).
         let m = w\<lparr>mut_block := block\<rparr> in
         bind_res (make_event env 0 None jid PROPOSAL_POSTPONED (Live who) now
                     (Some (pp_reason r)) (proposal_run_id_of j)
                     (Some (snapshot_of j)) (Some (snapshot_of (as_job m j)))
                     (dict_of [(''transition'', JStr ''postpone''),
                               (''selected_date'', JStr (pp_selected_date r)),
                               (''not_before_minute'', JInt (pp_not_before r)),
                               (''original_proposal_run_id'', proposal_run_id_of j),
                               (''original_start_minute'', json_of_int (job_start j)),
                               (''original_end_minute'', json_of_int (job_end j)),
                               (''expected_proposal_run_id'', JStr (pp_expected r)),
                               (''proposal_digest'', json_of_str (pp_digest r)),
                               (''original_latest_end_minute'', JInt original),
                               (''widened_latest_end_minute'', JInt widened)]))
           (\<lambda>e. Inr ([m], [e]))))))))"

section \<open>Authority release\<close>

definition release_metadata :: "job \<Rightarrow> string \<Rightarrow> int \<Rightarrow> int \<Rightarrow> int \<Rightarrow> int \<Rightarrow> dict" where
  "release_metadata j expected previous not_before original widened = dict_of
     [(''transition'', JStr ''release''),
      (''optimization_run_id'', proposal_run_id_of j),
      (''proposal_id'', JStr (proposal_id_for expected (job_id j))),
      (''expected_proposal_run_id'', JStr expected),
      (RELEASED_RUN_ID_KEY, proposal_run_id_of j),
      (''released_start_minute'', json_of_int (job_start j)),
      (''released_end_minute'', json_of_int (job_end j)),
      (''track_id'', JStr (job_track_id j)),
      (''section_id'', dget (job_block j) ''section_id''),
      (''previous_earliest_start_minute'', JInt previous),
      (''not_before_minute'', JInt not_before),
      (''original_latest_end_minute'', JInt original),
      (''widened_latest_end_minute'', JInt widened)]"

definition plan_release ::
  "ambient \<Rightarrow> string \<Rightarrow> actor \<Rightarrow> string \<Rightarrow> string \<Rightarrow> string \<Rightarrow> int \<Rightarrow> plan res" where
  "plan_release env jid who now reason expected horizon =
     bind_res (require_nonblank expected) (\<lambda>_.
     bind_res (require_nonblank reason) (\<lambda>_. Inr (\<lambda>rows.
       bind_res (need_row rows jid) (\<lambda>j.
       bind_res (assert_committed_state_consistent [j]) (\<lambda>_.
       if job_status j \<noteq> NOTIFIED then Inl (InvalidTransitionError jid)
       else bind_res (require_identified_human who jid) (\<lambda>_.
       if JStr expected \<noteq> proposal_run_id_of j then Inl (StaleProposalError jid)
       else
         bind_res (int_of_json (dget_default (job_block j) ''earliest_start_minute'' (JInt 0)))
           (\<lambda>previous.
         let w = withdrawn ((unchanged j)\<lparr>mut_updated_at := Some now\<rparr>) j reason in
         bind_res (int_of_column (job_end j)) (\<lambda>released_end.
         bind_res (raise_not_before (mut_block w) released_end horizon True)
           (\<lambda>(block, not_before, original, widened).
         bind_res (make_authority_release (proposal_run_id_of j)) (\<lambda>token.
         let m = w\<lparr>mut_block := block, mut_release := Some token\<rparr> in
         bind_res (make_event env 0 None jid BLOCK_RELEASED (Live who) now (Some reason)
                     (proposal_run_id_of j)
                     (Some (snapshot_of j)) (Some (snapshot_of (as_job m j)))
                     (release_metadata j expected previous not_before original widened))
           (\<lambda>e. Inr ([m], [e]))))))))))))"

section \<open>Direct assignment, refusals, creation\<close>

definition plan_schedule_assignment ::
  "ambient \<Rightarrow> string \<Rightarrow> int \<Rightarrow> int \<Rightarrow> actor \<Rightarrow> string \<Rightarrow> plan" where
  "plan_schedule_assignment env jid s e who now = (\<lambda>rows.
     bind_res (need_row rows jid) (\<lambda>j.
     if job_status j \<in> set TERMINAL_STATUSES then Inl (TerminalJobError jid)
     else if job_status j \<in> set COMMITTED_STATUSES then Inl (CommittedJobError jid)
     else
       let m = (unchanged j)\<lparr>mut_status := SCHEDULED, mut_start := Some s, mut_end := Some e,
                             mut_updated_at := Some now, mut_last_refusal_reason := None,
                             mut_block := with_placement (job_block j) s e JNull\<rparr>
       in bind_res (make_event env 0 None jid SCHEDULE_ASSIGNED (Live who) now None JNull
                      (Some (snapshot_of j)) (Some (snapshot_of (as_job m j)))
                      (dict_of [(''source'', JStr ''direct_assignment''),
                                (''start_minute'', JInt s),
                                (''end_minute'', JInt e)]))
            (\<lambda>ev. Inr ([m], [ev]))))"

text \<open>\<open>error_type\<close> is \<^verbatim>\<open>type(error).__name__\<close> and \<open>message\<close> is \<^verbatim>\<open>str(error)\<close>.\<close>

definition rejected_transition_event ::
  "ambient \<Rightarrow> job \<Rightarrow> actor \<Rightarrow> string \<Rightarrow> string \<Rightarrow> string \<Rightarrow> string \<Rightarrow> job_event res" where
  "rejected_transition_event env j who attempted error_type message now =
     make_event env 0 None (job_id j) TRANSITION_REJECTED (Live who) now (Some message) JNull
       (Some (snapshot_of j)) (Some (snapshot_of j))
       (dict_of [(''attempted_transition'', JStr attempted), (''error_type'', JStr error_type)])"

definition creation_events ::
  "ambient \<Rightarrow> job \<Rightarrow> actor \<Rightarrow> actor \<Rightarrow> string \<Rightarrow> string option \<Rightarrow> job_event list res" where
  "creation_events env j reporter scorer now created_event_id =
    (let block = job_block j; metadata = metadata_of block; state = snapshot_of j;
         slice8 = dict_of (map (\<lambda>k. (k, dget metadata k))
           (filter (\<lambda>k. dget metadata k \<noteq> JNull)
             [''asset_association'', ''location_source'', ''field_location'',
              ''duplicate_detection'', ''idempotency'']))
     in
     bind_res (make_event env 0 created_event_id (job_id j) JOB_CREATED (Live reporter) now
                 None JNull None (Some state)
                 (dmerge slice8 (dict_of
                   [(''track_id'', JStr (job_track_id j)),
                    (''section_id'', dget block ''section_id''),
                    (''work_type'', JStr (job_work_type j)),
                    (''distance_start'', JFloat (job_distance_start j)),
                    (''distance_end'', JFloat (job_distance_end j)),
                    (''workers_min'', JInt (job_workers_min j)),
                    (''workers_max'', JInt (job_workers_max j)),
                    (''description'', JStr (job_description j)),
                    (''duration_minutes'', dget block ''duration_minutes''),
                    (''asset_id'', dget block ''asset_id'')]))) (\<lambda>created.
     bind_res (make_event env 1 None (job_id j) JOB_SCORED (Live scorer) now
                 None JNull (Some state) (Some state)
                 (dict_of
                   [(''priority_score'', JFloat (job_priority_score j)),
                    (''risk_score'', JFloat (job_risk_score j)),
                    (''scoring_explanation'',
                     dget_default metadata ''scoring_explanation'' (JArr [])),
                    (''scoring_features'',
                     dget_default metadata ''scoring_features'' (JObj fmempty)),
                    (''scorer'', JStr ''backend.app.ml.scorer.score_block''),
                    (''scoring_model_type'', dget metadata ''scoring_model_type''),
                    (''scoring_model_version'', dget metadata ''scoring_model_version''),
                    (''reported_severity'', dget metadata ''reported_severity'')])) (\<lambda>scored.
     Inr [created, scored])))"

end
