(* ===== verification/Stores.thy ===== *)
theory Stores
  imports Prelude
begin

text \<open>
  The interfaces the repository is proved against. \<open>row_store\<close> is a keyed table whose writes
  replace every mutable column of one row; \<open>step_log\<close> is a transition system that carries a
  log no step rewrites. The clients' facts are proved here once, from the laws alone; the
  interpretations on the job table and its history are in \<open>Repository\<close>.
\<close>

section \<open>Last write wins\<close>

text \<open>The last element of a list with a given key.\<close>

definition last_for :: "('m \<Rightarrow> 'k) \<Rightarrow> 'k \<Rightarrow> 'm list \<Rightarrow> 'm option" where
  "last_for key k ms = find (\<lambda>m. key m = k) (rev ms)"

lemma last_for_Nil [simp]: "last_for key k [] = None"
  by (simp add: last_for_def)

lemma last_for_snoc [simp]:
  "last_for key k (ms @ [m]) = (if key m = k then Some m else last_for key k ms)"
  by (simp add: last_for_def)

lemma last_for_SomeD: "last_for key k ms = Some m \<Longrightarrow> m \<in> set ms \<and> key m = k"
  by (auto simp: last_for_def dest: find_Some_in)

lemma last_for_None_iff: "last_for key k ms = None \<longleftrightarrow> (\<forall>m \<in> set ms. key m \<noteq> k)"
  by (auto simp: last_for_def find_None_iff)

locale row_store =
  fixes lookup :: "'s \<Rightarrow> 'k \<Rightarrow> 'r option"
    and put :: "'m \<Rightarrow> 's \<Rightarrow> 's"
    and key :: "'m \<Rightarrow> 'k"
    and overwrite :: "'m \<Rightarrow> 'r \<Rightarrow> 'r"
  assumes lookup_write:
      "lookup (put m s) k =
        (if key m = k then map_option (overwrite m) (lookup s k) else lookup s k)"
    and overwrite_total: "overwrite m (overwrite m' r) = overwrite m r"
begin

lemma lookup_writes:
  "lookup (fold put ms s) k =
    (case last_for key k ms of
       None \<Rightarrow> lookup s k
     | Some m \<Rightarrow> map_option (overwrite m) (lookup s k))"
proof (induction ms rule: rev_induct)
  case Nil
  then show ?case by simp
next
  case (snoc m ms)
  then show ?case
    by (auto simp: lookup_write option.map_comp comp_def overwrite_total split: option.splits)
qed

lemma lookup_writes_None: "lookup (fold put ms s) k = None \<longleftrightarrow> lookup s k = None"
  by (simp add: lookup_writes split: option.splits)

end

section \<open>Logs no step rewrites\<close>

locale step_log =
  fixes step :: "'s \<Rightarrow> 's \<Rightarrow> bool"
    and log :: "'s \<Rightarrow> 'e list"
  assumes step_extends: "step s t \<Longrightarrow> \<exists>es. log t = log s @ es"
begin

lemma run_extends: "step\<^sup>*\<^sup>* s t \<Longrightarrow> \<exists>es. log t = log s @ es"
proof (induction rule: rtranclp_induct)
  case base
  show ?case by simp
next
  case (step t u)
  then show ?case by (metis append.assoc step_extends)
qed

lemma entries_kept: "step\<^sup>*\<^sup>* s t \<Longrightarrow> set (log s) \<subseteq> set (log t)"
  using run_extends by fastforce

lemma positions_kept:
  assumes "step\<^sup>*\<^sup>* s t" "i < length (log s)"
  shows "i < length (log t) \<and> log t ! i = log s ! i"
  using run_extends [OF assms(1)] assms(2) by (auto simp: nth_append)

end

section \<open>Invariants of a transition system\<close>

locale step_invariant =
  fixes step :: "'s \<Rightarrow> 's \<Rightarrow> bool"
    and keeps :: "'s \<Rightarrow> bool"
  assumes step_keeps: "keeps s \<Longrightarrow> step s t \<Longrightarrow> keeps t"
begin

lemma run_keeps: "step\<^sup>*\<^sup>* s t \<Longrightarrow> keeps s \<Longrightarrow> keeps t"
  by (induction rule: rtranclp_induct) (auto intro: step_keeps)

end

end
