(* ===== verification/Repository.thy ===== *)
theory Repository
  imports Lifecycle_Plans Stores "HOL-Library.Char_ord" "HOL-Library.List_Lexorder"
    "HOL-Library.Product_Lexorder"
begin

text \<open>
  The job repository, \<^verbatim>\<open>backend/app/jobs/repository.py\<close>, with the event table of
  \<^verbatim>\<open>backend/app/jobs/history.py\<close>. A database is the rows of \<^verbatim>\<open>maintenance_jobs\<close> in
  insertion order and the events of \<^verbatim>\<open>job_events\<close> in commit order (an event's storage
  sequence is its position). Every operation is one write-locked transaction
  (\<^verbatim>\<open>BEGIN IMMEDIATE\<close>): it returns the new database or an error, and an error leaves the
  database as it was (\<open>commit_or_rollback\<close>).
\<close>

section \<open>The database\<close>

record db =
  db_rows :: "job list"
  db_events :: "job_event list"

definition get_row :: "job list \<Rightarrow> string \<Rightarrow> job option" where
  "get_row rows jid = find (\<lambda>j. job_id j = jid) rows"

definition get :: "db \<Rightarrow> string \<Rightarrow> job option" where
  "get d jid = get_row (db_rows d) jid"

definition commit_or_rollback :: "db \<Rightarrow> db res \<Rightarrow> db" where
  "commit_or_rollback d r = (case r of Inl _ \<Rightarrow> d | Inr d' \<Rightarrow> d')"

text \<open>\<^verbatim>\<open>append_events\<close>: the actor check on the whole batch, then one plain INSERT per event.\<close>

fun insert_events :: "job_event list \<Rightarrow> job_event list \<Rightarrow> job_event list res" where
  "insert_events history [] = Inr history"
| "insert_events history (e # es) =
     (if ev_id e \<in> ev_id ` set history then Inl IntegrityError
      else insert_events (history @ [e]) es)"

definition append_events :: "job_event list \<Rightarrow> job_event list \<Rightarrow> job_event list res" where
  "append_events history events =
     bind_res (each_res (\<lambda>e. case ev_actor e of Live _ \<Rightarrow> Inr () | Recorded _ \<Rightarrow> Inl TypeError) events)
       (\<lambda>_. insert_events history events)"

section \<open>Writes\<close>

definition create :: "db \<Rightarrow> job \<Rightarrow> job_event list \<Rightarrow> db res" where
  "create d j events =
    (if get d (job_id j) \<noteq> None then Inl IntegrityError
     else
       let row = j\<lparr>job_updated_at :=
                     (case job_updated_at j of None \<Rightarrow> Some (job_created_at j) | Some u \<Rightarrow> Some u),
                   job_last_solver_status := None, job_last_refusal_reason := None\<rparr>
       in bind_res (append_events (db_events d) events) (\<lambda>history.
          Inr (d\<lparr>db_rows := db_rows d @ [row], db_events := history\<rparr>)))"

text \<open>The rows a plan sees: exactly those named by the call, and every one of them must exist.\<close>

definition read_rows :: "db \<Rightarrow> string list \<Rightarrow> rows res" where
  "read_rows d ids =
     bind_res (each_res (\<lambda>i. if get d i = None then Inl (KeyError i) else Inr ()) ids)
       (\<lambda>_. Inr (\<lambda>i. if i \<in> set ids then get d i else None))"

definition update_row :: "job_mutation \<Rightarrow> job list \<Rightarrow> job list" where
  "update_row m rows = map (\<lambda>j. if job_id j = mut_job_id m then as_job m j else j) rows"

fun write_mutations :: "rows \<Rightarrow> job_mutation list \<Rightarrow> job list \<Rightarrow> job list res" where
  "write_mutations rows [] table = Inr table"
| "write_mutations rows (m # ms) table =
     (case rows (mut_job_id m) of
        None \<Rightarrow> Inl (KeyError (mut_job_id m))
      | Some cur \<Rightarrow>
         bind_res (validate_mutation cur m) (\<lambda>_. write_mutations rows ms (update_row m table)))"

definition mutate_jobs :: "db \<Rightarrow> string list \<Rightarrow> plan \<Rightarrow> bool \<Rightarrow> db res" where
  "mutate_jobs d ids plan reject_terminal =
     bind_res (read_rows d ids) (\<lambda>rows.
     bind_res (if reject_terminal
               then each_res (\<lambda>i. case rows i of
                      Some j \<Rightarrow> if job_status j \<in> set TERMINAL_STATUSES
                                then Inl (TerminalJobError i) else Inr ()
                    | None \<Rightarrow> Inr ()) ids
               else Inr ()) (\<lambda>_.
     bind_res (plan rows) (\<lambda>(muts, events).
     bind_res (write_mutations rows muts (db_rows d)) (\<lambda>table.
     bind_res (validate_execution_events muts events) (\<lambda>_.
     bind_res (validate_release_events muts events) (\<lambda>_.
     bind_res (append_events (db_events d) events) (\<lambda>history.
     Inr (d\<lparr>db_rows := table, db_events := history\<rparr>))))))))"

definition append_events_tx :: "db \<Rightarrow> job_event list \<Rightarrow> db res" where
  "append_events_tx d events =
     bind_res (append_events (db_events d) events) (\<lambda>h. Inr (d\<lparr>db_events := h\<rparr>))"

section \<open>Primitives that write no history\<close>

definition set_row :: "job \<Rightarrow> db \<Rightarrow> db" where
  "set_row j d = d\<lparr>db_rows := map (\<lambda>r. if job_id r = job_id j then j else r) (db_rows d)\<rparr>"

definition update_status ::
  "db \<Rightarrow> string \<Rightarrow> string \<Rightarrow> string option \<Rightarrow> string option \<Rightarrow> bool option \<Rightarrow> db res" where
  "update_status d jid status updated_at block_status is_committed =
    (case get d jid of
       None \<Rightarrow> Inr d
     | Some cur \<Rightarrow>
        let b0 = job_block cur;
            b1 = (case block_status of None \<Rightarrow> b0 | Some s \<Rightarrow> fmupd ''status'' (JStr s) b0);
            b2 = (case is_committed of None \<Rightarrow> b1 | Some c \<Rightarrow> fmupd ''is_committed'' (JBool c) b1)
        in bind_res (protect_committed_and_terminal_state cur status b2 (job_window cur) None None)
             (\<lambda>_.
           bind_res (assert_placement_invariants jid status (job_start cur) (job_end cur)) (\<lambda>_.
           Inr (set_row (cur\<lparr>job_status := status,
                 job_updated_at := (case updated_at of None \<Rightarrow> job_updated_at cur | Some u \<Rightarrow> Some u),
                 job_block := b2\<rparr>) d))))"

definition update_schedule ::
  "db \<Rightarrow> string \<Rightarrow> int \<Rightarrow> int \<Rightarrow> string \<Rightarrow> string option \<Rightarrow> db res" where
  "update_schedule d jid s e updated_at solver_status =
    (case get d jid of
       None \<Rightarrow> Inr d
     | Some cur \<Rightarrow>
        let md = fmupd COMMITTED_END_KEY (JInt e)
                   (fmupd COMMITTED_START_KEY (JInt s) (metadata_of (job_block cur)));
            block = fmupd ''status'' (JStr SCHEDULED_BLOCK)
                      (fmupd ''metadata'' (JObj md) (job_block cur))
        in bind_res (protect_committed_and_terminal_state cur SCHEDULED block (Some s, Some e)
                       None None) (\<lambda>_.
           Inr (set_row (cur\<lparr>job_start := Some s, job_end := Some e, job_status := SCHEDULED,
                 job_updated_at := Some updated_at, job_last_solver_status := solver_status,
                 job_last_refusal_reason := None, job_block := block\<rparr>) d)))"

definition record_refusal ::
  "db \<Rightarrow> string \<Rightarrow> string \<Rightarrow> string \<Rightarrow> string option \<Rightarrow> db res" where
  "record_refusal d jid reason updated_at solver_status =
    (case get d jid of
       None \<Rightarrow> Inr d
     | Some cur \<Rightarrow>
        if job_status cur \<in> set TERMINAL_STATUSES then Inl (TerminalJobError jid)
        else if job_status cur \<in> set COMMITTED_STATUSES then Inl (CommittedJobError jid)
        else Inr (set_row (cur\<lparr>job_updated_at := Some updated_at,
               job_last_solver_status := solver_status,
               job_last_refusal_reason := Some reason\<rparr>) d))"

text \<open>\<^verbatim>\<open>{entry["job_id"]: f(entry) for entry in entries}\<close>, each entry given with its id.\<close>

definition by_job_id :: "(string \<times> 'a) list \<Rightarrow> (string, 'a) fmap" where
  "by_job_id entries = fold (\<lambda>(i, v) m. fmupd i v m) entries fmempty"

definition apply_optimization_outcome ::
  "ambient \<Rightarrow> db \<Rightarrow> (string \<times> dict) list \<Rightarrow> (string \<times> string) list \<Rightarrow> string \<Rightarrow> string \<Rightarrow>
   db res" where
  "apply_optimization_outcome env d scheduled refused updated_at solver_status =
    (let ids = map fst scheduled @ map fst refused in
     bind_res (plan_optimization_outcome env ids
       \<lparr>or_attempt = \<lparr>at_corridor_id = '''', at_requester = None, at_requested_at = updated_at,
                      at_run_id = None, at_horizon_start = '''', at_trigger = ''jobs_optimize''\<rparr>,
        or_completed_at = updated_at, or_solver_status = solver_status,
        or_placements = by_job_id scheduled, or_refusals = by_job_id refused,
        or_expected = None, or_record_history = False, or_explanations = fmempty\<rparr>) (\<lambda>plan.
     mutate_jobs d ids plan True))"

section \<open>Reads\<close>

text \<open>
  SQLite's text order is the byte order, the lexicographic order on strings. Rows that tie in
  an \<^verbatim>\<open>ORDER BY created_at\<close> keep their insertion order here; \<open>list_page\<close>, whose order breaks
  ties by the primary key, leaves no tie.
\<close>

definition list_newest :: "db \<Rightarrow> job list" where
  "list_newest d = rev (sort_key job_created_at (rev (db_rows d)))"

definition list_active :: "db \<Rightarrow> job list" where
  "list_active d =
     sort_key job_created_at (filter (\<lambda>j. job_status j \<notin> set TERMINAL_STATUSES) (db_rows d))"

definition list_by_status :: "db \<Rightarrow> string \<Rightarrow> job list" where
  "list_by_status d s = filter (\<lambda>j. job_status j = s) (list_newest d)"

definition page_key :: "job \<Rightarrow> string \<times> string" where
  "page_key j = (job_created_at j, job_id j)"

definition list_page ::
  "db \<Rightarrow> nat \<Rightarrow> string option \<Rightarrow> string list option \<Rightarrow> (string \<times> string) option \<Rightarrow> job list res" where
  "list_page d limit status statuses after =
    (if status \<noteq> None \<and> statuses \<noteq> None then Inl ValueError
     else if statuses = Some [] then Inr []
     else
       let keep = (\<lambda>j.
             (case status of None \<Rightarrow> True | Some s \<Rightarrow> job_status j = s) \<and>
             (case statuses of None \<Rightarrow> True | Some ss \<Rightarrow> job_status j \<in> set ss) \<and>
             (case after of None \<Rightarrow> True
              | Some (c, i) \<Rightarrow> job_created_at j < c \<or> (job_created_at j = c \<and> job_id j < i)))
       in Inr (take limit (rev (sort_key page_key (filter keep (db_rows d))))))"

end
