(* ===== verification/Repository_Facts.thy ===== *)
theory Repository_Facts
  imports Repository
begin

text \<open>
  The facts about the repository that its properties rest on: the job table is a
  \<open>row_store\<close>, an accepted \<open>mutate_jobs\<close> in terms of the last mutation of each job, the token
  of that mutation in terms of the events appended with it, and the step relation of the
  service path with its invariants.
\<close>

section \<open>The job table\<close>

lemma as_job_as_job [simp]: "as_job m (as_job m' j) = as_job m j"
  by (cases j) (simp add: as_job_def)

lemma get_row_Some: "get_row rows jid = Some j \<Longrightarrow> job_id j = jid \<and> j \<in> set rows"
  by (auto simp: get_row_def dest: find_Some_in)

lemma get_Some: "get d jid = Some j \<Longrightarrow> job_id j = jid \<and> j \<in> set (db_rows d)"
  by (auto simp: get_def dest: get_row_Some)

lemma get_row_snoc: "get_row (rows @ [j]) jid =
    (case get_row rows jid of Some r \<Rightarrow> Some r | None \<Rightarrow> if job_id j = jid then Some j else None)"
  by (induction rows) (auto simp: get_row_def)

lemma get_row_update_row:
  "get_row (update_row m rows) jid =
    (if mut_job_id m = jid then map_option (as_job m) (get_row rows jid) else get_row rows jid)"
  by (induction rows) (auto simp: get_row_def update_row_def)

interpretation job_table: row_store get_row update_row mut_job_id as_job
  by unfold_locales (simp_all add: get_row_update_row)

lemma write_mutations_iff:
  "write_mutations rows ms table = Inr t \<longleftrightarrow>
     (\<forall>m \<in> set ms. \<exists>cur. rows (mut_job_id m) = Some cur \<and> validate_mutation cur m = Inr ()) \<and>
     t = fold update_row ms table"
  by (induction ms arbitrary: table) (auto simp: bind_res_Inr_iff split: option.splits)

lemma update_row_ids [simp]: "map job_id (update_row m rows) = map job_id rows"
  by (auto simp: update_row_def)

lemma fold_update_row_ids [simp]: "map job_id (fold update_row ms rows) = map job_id rows"
  by (induction ms arbitrary: rows) simp_all

section \<open>History\<close>

lemma insert_events_Inr: "insert_events h es = Inr h' \<Longrightarrow> h' = h @ es"
  by (induction h es rule: insert_events.induct) (auto split: if_splits)

lemma insert_events_distinct:
  "insert_events h es = Inr h' \<Longrightarrow> distinct (map ev_id h) \<Longrightarrow> distinct (map ev_id h')"
  by (induction h es rule: insert_events.induct) (auto split: if_splits)

lemma append_events_Inr:
  assumes "append_events h es = Inr h'"
  shows "h' = h @ es" "distinct (map ev_id h) \<Longrightarrow> distinct (map ev_id h')"
    "\<forall>e \<in> set es. \<exists>a. ev_actor e = Live a"
proof -
  from assms have ins: "insert_events h es = Inr h'"
    and live: "\<forall>e \<in> set es. (case ev_actor e of Live _ \<Rightarrow> Inr () | Recorded _ \<Rightarrow> Inl TypeError) = Inr ()"
    by (auto simp: append_events_def bind_res_Inr_iff each_res_Inr_iff)
  from ins show "h' = h @ es" by (rule insert_events_Inr)
  from ins show "distinct (map ev_id h) \<Longrightarrow> distinct (map ev_id h')"
    by (rule insert_events_distinct)
  from live show "\<forall>e \<in> set es. \<exists>a. ev_actor e = Live a"
    by (metis event_actor.exhaust event_actor.simps(6) sum.distinct(1))
qed

section \<open>Tokens\<close>

lemma execution_tokens_snoc:
  "execution_tokens (ms @ [m]) =
    (case mut_execution m of None \<Rightarrow> execution_tokens ms
     | Some t \<Rightarrow> AList.update (mut_job_id m) t (execution_tokens ms))"
  by (simp add: execution_tokens_def split: option.split)

lemma release_tokens_snoc:
  "release_tokens (ms @ [m]) =
    (case mut_release m of None \<Rightarrow> release_tokens ms
     | Some t \<Rightarrow> AList.update (mut_job_id m) t (release_tokens ms))"
  by (simp add: release_tokens_def split: option.split)

lemma execution_token_of_last:
  "last_for mut_job_id jid ms = Some m \<Longrightarrow> mut_execution m = Some t \<Longrightarrow>
     map_of (execution_tokens ms) jid = Some t"
  by (induction ms rule: rev_induct)
    (auto simp: execution_tokens_snoc update_conv' split: if_splits option.splits)

lemma release_token_of_last:
  "last_for mut_job_id jid ms = Some m \<Longrightarrow> mut_release m = Some t \<Longrightarrow>
     map_of (release_tokens ms) jid = Some t"
  by (induction ms rule: rev_induct)
    (auto simp: release_tokens_snoc update_conv' split: if_splits option.splits)

text \<open>An accepted token has its one event, and a completion has its evidence.\<close>

lemma filter_length_1: "length (filter P xs) = 1 \<Longrightarrow> \<exists>x \<in> set xs. P x"
  by (metis filter_False length_0_conv One_nat_def zero_neq_one list.size(3))

lemma validated_execution_event:
  assumes ok: "validate_execution_events ms es = Inr ()"
    and tok: "map_of (execution_tokens ms) jid = Some t"
  shows "\<exists>e \<in> set es. ev_job_id e = jid \<and> names_execution e t \<and>
    (ex_kind t = EX_COMPLETE \<longrightarrow> truthy (dget (ev_metadata e) ''after_work_evidence''))"
proof -
  from tok have "(jid, t) \<in> set (execution_tokens ms)" by (rule map_of_SomeD)
  with ok have "length (filter (\<lambda>e. ev_job_id e = jid \<and> names_execution e t) es) = 1"
    by (auto simp: validate_execution_events_def Let_def bind_res_Inr_iff each_res_Inr_iff
        split: if_splits)
  from filter_length_1 [OF this]
  obtain e where e: "e \<in> set es" "ev_job_id e = jid" "names_execution e t" by blast
  then have x: "is_execution_event e"
    by (cases "ex_kind t") (simp_all add: names_execution_def is_execution_event_def)
  from ok e(1) have "(if \<not> is_execution_event e then Inr ()
         else case map_of (execution_tokens ms) (ev_job_id e) of
           None \<Rightarrow> Inl (ExecutionTokenError (ev_job_id e))
         | Some t \<Rightarrow>
            if \<not> names_execution e t then Inl (ExecutionTokenError (ev_job_id e))
            else if ev_type e = EXECUTION_COMPLETED
                    \<and> \<not> truthy (dget (ev_metadata e) ''after_work_evidence'')
            then Inl (ExecutionTokenError (ev_job_id e))
            else Inr ()) = Inr ()"
    by (simp add: validate_execution_events_def Let_def bind_res_Inr_iff each_res_Inr_iff)
  with x e tok have "ev_type e = EXECUTION_COMPLETED \<longrightarrow>
      truthy (dget (ev_metadata e) ''after_work_evidence'')"
    by (auto split: if_splits)
  with e show ?thesis by (auto simp: names_execution_def)
qed

lemma validated_release_event:
  assumes ok: "validate_release_events ms es = Inr ()"
    and tok: "map_of (release_tokens ms) jid = Some t"
  shows "\<exists>e \<in> set es. ev_job_id e = jid \<and> ev_type e = BLOCK_RELEASED \<and> names_release e t"
proof -
  from tok have "(jid, t) \<in> set (release_tokens ms)" by (rule map_of_SomeD)
  with ok have "length (filter (\<lambda>e. ev_job_id e = jid \<and> ev_type e = BLOCK_RELEASED
      \<and> names_release e t) es) = 1"
    by (auto simp: validate_release_events_def Let_def bind_res_Inr_iff each_res_Inr_iff
        split: if_splits)
  from filter_length_1 [OF this] show ?thesis by blast
qed

section \<open>One accepted mutate_jobs\<close>

lemma read_rows_Inr:
  "read_rows d ids = Inr rows \<longleftrightarrow>
     (\<forall>i \<in> set ids. get d i \<noteq> None) \<and> rows = (\<lambda>i. if i \<in> set ids then get d i else None)"
  by (auto simp: read_rows_def bind_res_Inr_iff each_res_Inr_iff)

lemma mutate_jobs_Inr:
  assumes "mutate_jobs d ids plan rt = Inr d'"
  obtains rows muts events where
    "read_rows d ids = Inr rows" "plan rows = Inr (muts, events)"
    "\<forall>m \<in> set muts. \<exists>cur. rows (mut_job_id m) = Some cur \<and> validate_mutation cur m = Inr ()"
    "db_rows d' = fold update_row muts (db_rows d)"
    "validate_execution_events muts events = Inr ()"
    "validate_release_events muts events = Inr ()"
    "append_events (db_events d) events = Inr (db_events d')"
    "db_events d' = db_events d @ events"
  using assms
  by (auto simp: mutate_jobs_def bind_res_Inr_iff write_mutations_iff append_events_Inr(1)
      split: prod.splits)

text \<open>What one job's row becomes, and what backs it in the history.\<close>

definition backed_by :: "job_event list \<Rightarrow> string \<Rightarrow> job_mutation \<Rightarrow> bool" where
  "backed_by es jid m \<longleftrightarrow>
     (\<forall>t. mut_execution m = Some t \<longrightarrow>
        (\<exists>e \<in> set es. ev_job_id e = jid \<and> names_execution e t \<and>
          (ex_kind t = EX_COMPLETE \<longrightarrow> truthy (dget (ev_metadata e) ''after_work_evidence'')))) \<and>
     (\<forall>t. mut_release m = Some t \<longrightarrow>
        (\<exists>e \<in> set es. ev_job_id e = jid \<and> ev_type e = BLOCK_RELEASED \<and> names_release e t))"

lemma mutate_jobs_row:
  assumes "mutate_jobs d ids plan rt = Inr d'" "get d jid = Some j"
  shows "(\<exists>es. db_events d' = db_events d @ es \<and>
    (get d' jid = Some j \<or>
     (\<exists>m. get d' jid = Some (as_job m j) \<and> validate_mutation j m = Inr () \<and> backed_by es jid m)))"
proof -
  from assms(1) obtain rows muts events where
    rd: "read_rows d ids = Inr rows" and
    val: "\<forall>m \<in> set muts. \<exists>cur. rows (mut_job_id m) = Some cur \<and> validate_mutation cur m = Inr ()" and
    tab: "db_rows d' = fold update_row muts (db_rows d)" and
    vx: "validate_execution_events muts events = Inr ()" and
    vr: "validate_release_events muts events = Inr ()" and
    ev: "db_events d' = db_events d @ events"
    by (rule mutate_jobs_Inr)
  have row: "get d' jid = (case last_for mut_job_id jid muts of None \<Rightarrow> Some j | Some m \<Rightarrow> Some (as_job m j))"
    using assms(2) by (simp add: get_def tab job_table.lookup_writes split: option.splits)
  show ?thesis
  proof (cases "last_for mut_job_id jid muts")
    case None
    with row ev show ?thesis by auto
  next
    case (Some m)
    then have "m \<in> set muts" "mut_job_id m = jid" by (auto dest: last_for_SomeD)
    with val rd assms(2) have "validate_mutation j m = Inr ()"
      by (force simp: read_rows_Inr split: if_splits)
    moreover have "backed_by events jid m"
      unfolding backed_by_def
      using execution_token_of_last [OF Some] release_token_of_last [OF Some]
        validated_execution_event [OF vx] validated_release_event [OF vr] by blast
    ultimately show ?thesis using row ev Some by auto
  qed
qed

lemma mutate_jobs_new_row:
  assumes "mutate_jobs d ids plan rt = Inr d'"
  shows "get d' jid = None \<longleftrightarrow> get d jid = None"
  using assms
  by (elim mutate_jobs_Inr) (simp add: get_def job_table.lookup_writes_None)

end
