(* ===== verification/Service_Path.thy ===== *)
theory Service_Path
  imports Repository_Facts
begin

text \<open>
  The transactions the service layer runs, as a step relation on databases. \<open>JobService\<close> and
  \<open>JobOptimizationCoordinator\<close> reach the job table through exactly three calls:
  \<open>create\<close> (of a job that is \<open>reported\<close> and unplaced), \<open>mutate_jobs\<close> (under ANY plan, so the
  invariants below do not depend on the plans being right) and \<open>append_events\<close>. The relation
  has one rule per call. A refused transaction rolls back and is no step.
\<close>

section \<open>Steps\<close>

definition new_job :: "job \<Rightarrow> bool" where
  "new_job j \<longleftrightarrow> job_status j = REPORTED \<and> job_window j = (None, None)"

inductive db_step :: "db \<Rightarrow> db \<Rightarrow> bool" where
  creates: "new_job j \<Longrightarrow> create d j es = Inr d' \<Longrightarrow> db_step d d'"
| mutates: "mutate_jobs d ids plan rt = Inr d' \<Longrightarrow> db_step d d'"
| records: "append_events_tx d es = Inr d' \<Longrightarrow> db_step d d'"

definition empty_db :: db where
  "empty_db = \<lparr>db_rows = [], db_events = []\<rparr>"

section \<open>Creation and event-only writes\<close>

lemma create_Inr:
  assumes "create d j es = Inr d'"
  obtains row where "get d (job_id j) = None" "db_rows d' = db_rows d @ [row]"
    "append_events (db_events d) es = Inr (db_events d')"
    "job_id row = job_id j" "job_status row = job_status j" "job_window row = job_window j"
    "job_block row = job_block j"
  using assms
  by (auto simp: create_def Let_def bind_res_Inr_iff job_window_def split: if_splits)

lemma append_events_tx_Inr:
  "append_events_tx d es = Inr d' \<longleftrightarrow>
     db_rows d' = db_rows d \<and> append_events (db_events d) es = Inr (db_events d')"
  by (cases d; cases d') (auto simp: append_events_tx_def bind_res_Inr_iff)

lemma db_step_extends: "db_step d d' \<Longrightarrow> \<exists>es. db_events d' = db_events d @ es"
  by (induction rule: db_step.induct)
    (auto elim!: create_Inr mutate_jobs_Inr simp: append_events_tx_Inr dest: append_events_Inr(1))

interpretation job_history: step_log db_step db_events
  by unfold_locales (rule db_step_extends)

text \<open>What one step does to one existing row.\<close>

lemma db_step_row:
  assumes "db_step d d'" "get d jid = Some j"
  obtains (kept) "get d' jid = Some j"
  | (mutated) m es where "get d' jid = Some (as_job m j)" "validate_mutation j m = Inr ()"
      "db_events d' = db_events d @ es" "backed_by es jid m"
  using assms
proof (cases rule: db_step.cases)
  case (creates k es)
  from creates(2) obtain row where "db_rows d' = db_rows d @ [row]" by (rule create_Inr)
  with assms(2) kept show thesis by (simp add: get_def get_row_snoc)
next
  case (mutates ids plan rt)
  from mutate_jobs_row [OF mutates assms(2)] kept mutated show thesis by blast
next
  case (records es)
  with assms(2) kept show thesis by (simp add: append_events_tx_Inr get_def)
qed

text \<open>Where a row of the next database comes from.\<close>

lemma db_step_origin:
  assumes "db_step d d'" "get d' jid = Some j'"
  shows "(\<exists>j. get d jid = Some j) \<or> new_job j'"
  using assms
proof (cases rule: db_step.cases)
  case (creates k es)
  from creates(2) obtain row where
    "db_rows d' = db_rows d @ [row]" "job_status row = job_status k" "job_window row = job_window k"
    by (rule create_Inr)
  with assms(2) creates(1) show ?thesis
    by (auto simp: get_def get_row_snoc new_job_def split: option.splits if_splits)
next
  case (mutates ids plan rt)
  with assms(2) show ?thesis
    using mutate_jobs_new_row [OF mutates, of jid] by auto
next
  case (records es)
  with assms(2) show ?thesis by (simp add: append_events_tx_Inr get_def)
qed

section \<open>Row-wise invariants\<close>

text \<open>
  A property of a row and the history holds of every database of a run when new rows have it,
  appending events keeps it, and accepted mutations whose events are appended keep it.
\<close>

definition all_rows :: "(job \<Rightarrow> job_event list \<Rightarrow> bool) \<Rightarrow> db \<Rightarrow> bool" where
  "all_rows P d \<longleftrightarrow> (\<forall>jid j. get d jid = Some j \<longrightarrow> P j (db_events d))"

lemma all_rows_step:
  assumes step: "db_step d d'" and inv: "all_rows P d"
    and new: "\<And>j h. new_job j \<Longrightarrow> P j h"
    and mono: "\<And>j h es. P j h \<Longrightarrow> P j (h @ es)"
    and mut: "\<And>j h es m. P j h \<Longrightarrow> validate_mutation j m = Inr () \<Longrightarrow>
      backed_by es (job_id j) m \<Longrightarrow> P (as_job m j) (h @ es)"
  shows "all_rows P d'"
  unfolding all_rows_def
proof (intro allI impI)
  fix jid j' assume g': "get d' jid = Some j'"
  from db_step_origin [OF step g'] show "P j' (db_events d')"
  proof
    assume "\<exists>j. get d jid = Some j"
    then obtain j where g: "get d jid = Some j" by blast
    with inv have P: "P j (db_events d)" by (simp add: all_rows_def)
    from step g show ?thesis
    proof (cases rule: db_step_row)
      case kept
      with g' P db_step_extends [OF step] mono show ?thesis by auto
    next
      case (mutated m es)
      with g' P mut [of j "db_events d" m es] get_Some [OF g] show ?thesis by auto
    qed
  qed (rule new)
qed

lemma all_rows_empty [simp]: "all_rows P empty_db"
  by (simp add: all_rows_def empty_db_def get_def get_row_def)

section \<open>Well-formed rows\<close>

lemma new_job_row_ok: "new_job j \<Longrightarrow> row_ok j"
  by (simp add: new_job_def row_ok_def job_problems_def committed_state_problems_def)

interpretation rows_ok: step_invariant db_step "all_rows (\<lambda>j h. row_ok j)"
proof
  fix d d' assume inv: "all_rows (\<lambda>j h. row_ok j) d" and step: "db_step d d'"
  show "all_rows (\<lambda>j h. row_ok j) d'"
    by (rule all_rows_step [OF step inv]) (simp_all add: new_job_row_ok validate_mutation_row_ok)
qed

section \<open>Accountability\<close>

text \<open>
  A job in progress names an execution that the history has on record as started; a completed
  job one that is on record as completed too, with evidence of the work.
\<close>

definition on_record :: "execution_kind \<Rightarrow> string \<Rightarrow> string \<Rightarrow> job_event list \<Rightarrow> bool" where
  "on_record k jid x h \<longleftrightarrow>
     (\<exists>e \<in> set h. ev_job_id e = jid \<and> ev_type e = EXECUTION_EVENT_TYPES k \<and>
        dget (ev_metadata e) EXECUTION_ID_KEY = JStr x \<and>
        (k = EX_COMPLETE \<longrightarrow> truthy (dget (ev_metadata e) ''after_work_evidence'')))"

definition accounted :: "job \<Rightarrow> job_event list \<Rightarrow> bool" where
  "accounted j h \<longleftrightarrow>
     (job_status j \<in> {IN_PROGRESS, COMPLETED} \<longrightarrow>
        (\<exists>x. execution_id_of j = JStr x \<and> on_record EX_START (job_id j) x h \<and>
          (job_status j = COMPLETED \<longrightarrow> on_record EX_COMPLETE (job_id j) x h)))"

lemma on_record_mono: "on_record k jid x h \<Longrightarrow> on_record k jid x (h @ es)"
  by (auto simp: on_record_def)

lemma backed_by_on_record:
  "backed_by es jid m \<Longrightarrow> mut_execution m = Some t \<Longrightarrow> on_record (ex_kind t) jid (ex_id t) (h @ es)"
  by (auto simp: backed_by_def on_record_def names_execution_def)

lemma accepted_execution_move:
  assumes ok: "validate_mutation j m = Inr ()" and st: "mut_status m \<in> {IN_PROGRESS, COMPLETED}"
  shows "(job_status j = IN_PROGRESS \<and> py_eq (execution_id_of j) (execution_id_of (as_job m j)) \<and>
       (mut_status m = COMPLETED \<longrightarrow> (\<exists>t. mut_execution m = Some t \<and> ex_kind t = EX_COMPLETE \<and>
          execution_id_of j = JStr (ex_id t)))) \<or>
     (job_status j = NOTIFIED \<and> mut_status m = IN_PROGRESS \<and>
       (\<exists>t. mut_execution m = Some t \<and> ex_kind t = EX_START \<and>
          execution_id_of (as_job m j) = JStr (ex_id t)))"
  using assms
  by (auto simp: accepted_simps required_kind_def execution_id_of_def preserved_keys_def
      split: if_splits)

lemma accounted_mutation:
  assumes acc: "accounted j h" and ok: "validate_mutation j m = Inr ()"
    and bk: "backed_by es (job_id j) m"
  shows "accounted (as_job m j) (h @ es)"
proof (cases "mut_status m \<in> {IN_PROGRESS, COMPLETED}")
  case True
  from accepted_execution_move [OF ok True] show ?thesis
  proof
    assume running: "job_status j = IN_PROGRESS \<and>
      py_eq (execution_id_of j) (execution_id_of (as_job m j)) \<and>
      (mut_status m = COMPLETED \<longrightarrow> (\<exists>t. mut_execution m = Some t \<and> ex_kind t = EX_COMPLETE \<and>
          execution_id_of j = JStr (ex_id t)))"
    with acc obtain x where x: "execution_id_of j = JStr x" "on_record EX_START (job_id j) x h"
      by (auto simp: accounted_def)
    with running have "execution_id_of (as_job m j) = JStr x" by simp
    moreover have "mut_status m = COMPLETED \<Longrightarrow> on_record EX_COMPLETE (job_id j) x (h @ es)"
      using running x(1) backed_by_on_record [OF bk] by fastforce
    ultimately show ?thesis using x(2) by (auto simp: accounted_def intro: on_record_mono)
  next
    assume "job_status j = NOTIFIED \<and> mut_status m = IN_PROGRESS \<and>
      (\<exists>t. mut_execution m = Some t \<and> ex_kind t = EX_START \<and>
         execution_id_of (as_job m j) = JStr (ex_id t))"
    with backed_by_on_record [OF bk] show ?thesis by (fastforce simp: accounted_def)
  qed
qed (simp add: accounted_def)

lemma accounted_new: "new_job j \<Longrightarrow> accounted j h"
  by (simp add: new_job_def accounted_def)

lemma accounted_mono: "accounted j h \<Longrightarrow> accounted j (h @ es)"
  by (auto simp: accounted_def intro: on_record_mono)

interpretation rows_accounted: step_invariant db_step "all_rows accounted"
proof
  fix d d' assume inv: "all_rows accounted d" and step: "db_step d d'"
  show "all_rows accounted d'"
    by (rule all_rows_step [OF step inv])
      (simp_all add: accounted_new accounted_mono accounted_mutation)
qed

section \<open>Distinct identifiers\<close>

definition ids_distinct :: "db \<Rightarrow> bool" where
  "ids_distinct d \<longleftrightarrow> distinct (map job_id (db_rows d)) \<and> distinct (map ev_id (db_events d))"

lemma get_None_iff: "get d jid = None \<longleftrightarrow> jid \<notin> job_id ` set (db_rows d)"
  by (auto simp: get_def get_row_def find_None_iff)

interpretation ids: step_invariant db_step ids_distinct
proof
  fix d d' assume inv: "ids_distinct d" and "db_step d d'"
  from this(2) show "ids_distinct d'"
  proof (cases rule: db_step.cases)
    case (creates j es)
    from creates(2) obtain row where "get d (job_id j) = None" "db_rows d' = db_rows d @ [row]"
      "job_id row = job_id j" "append_events (db_events d) es = Inr (db_events d')"
      by (rule create_Inr)
    with inv show ?thesis by (simp add: ids_distinct_def get_None_iff append_events_Inr(2))
  next
    case (mutates idl plan rt)
    then obtain muts events where "db_rows d' = fold update_row muts (db_rows d)"
      "append_events (db_events d) events = Inr (db_events d')"
      by (rule mutate_jobs_Inr)
    with inv show ?thesis by (simp add: ids_distinct_def append_events_Inr(2))
  next
    case (records es)
    then have "db_rows d' = db_rows d" "append_events (db_events d) es = Inr (db_events d')"
      by (simp_all add: append_events_tx_Inr)
    with inv show ?thesis by (simp add: ids_distinct_def append_events_Inr(2))
  qed
qed

section \<open>Completed jobs\<close>

lemma completed_row_kept:
  assumes "db_step d d'" "get d jid = Some j" "job_status j = COMPLETED"
  shows "get d' jid = Some j"
  using assms(1,2) by (cases rule: db_step_row) (use assms(3) terminal_refused in auto)

interpretation frozen: step_invariant db_step
  "\<lambda>d. get d jid = Some j \<and> job_status j = COMPLETED" for jid j
  by unfold_locales (auto intro: completed_row_kept)

end
