(* ===== verification/Execution_Records.thy ===== *)
theory Execution_Records
  imports Execution
begin

text \<open>
  Execution records, the second half of \<^verbatim>\<open>backend/app/jobs/execution.py\<close>: the typed reader of
  an event's metadata, the states built while a history is read, and
  \<open>build_execution_records\<close>. The Python keeps a dictionary \<open>by_id\<close> and the list \<open>order\<close> of its
  keys in the order they were added; here one list of records in that order is both.
\<close>

section \<open>Records\<close>

datatype execution_status = Exec_Started | Exec_Completed | Exec_Not_Completed

record execution_record =
  xr_execution_id :: string
  xr_job_id :: string
  xr_attempt_number :: int
  xr_run_id :: string
  xr_proposal_id :: string
  xr_track_id :: string
  xr_section_id :: "string option"
  xr_planned_start :: int
  xr_planned_end :: int
  xr_digest :: string
  xr_status :: execution_status
  xr_started_by :: dict
  xr_started_recorded_at :: string
  xr_actual_start_at :: string
  xr_actual_start_minute :: int
  xr_before_work :: "recorded_evidence list"
  xr_ended_by :: "dict option"
  xr_ended_recorded_at :: "string option"
  xr_actual_end_at :: "string option"
  xr_actual_end_minute :: "int option"
  xr_after_work :: "recorded_evidence list"
  xr_not_completed_reason :: "string option"
  xr_failure :: "recorded_evidence list"
  xr_started_before_planned :: bool
  xr_ended_after_planned :: "bool option"

definition is_open :: "execution_record \<Rightarrow> bool" where
  "is_open r \<longleftrightarrow> xr_status r = Exec_Started"

section \<open>The reader\<close>

text \<open>\<open>reader\<close> is the job the history is read for and one of its events.\<close>

type_synonym reader = "string \<times> job_event"

definition rd_fail :: "reader \<Rightarrow> 'a res" where
  "rd_fail rd = Inl (ExecutionIntegrityError (fst rd))"

definition rd_get :: "reader \<Rightarrow> string \<Rightarrow> json res" where
  "rd_get rd k =
    (case fmlookup (ev_metadata (snd rd)) k of None \<Rightarrow> rd_fail rd | Some v \<Rightarrow> Inr v)"

definition rd_str :: "reader \<Rightarrow> string \<Rightarrow> string res" where
  "rd_str rd k = bind_res (rd_get rd k) (\<lambda>v.
     case v of JStr s \<Rightarrow> if s = [] then rd_fail rd else Inr s | _ \<Rightarrow> rd_fail rd)"

definition rd_str_option :: "reader \<Rightarrow> string \<Rightarrow> string option res" where
  "rd_str_option rd k = bind_res (rd_get rd k) (\<lambda>v.
     case v of JNull \<Rightarrow> Inr None
     | JStr s \<Rightarrow> if s = [] then rd_fail rd else Inr (Some s) | _ \<Rightarrow> rd_fail rd)"

definition rd_int :: "reader \<Rightarrow> string \<Rightarrow> int res" where
  "rd_int rd k = bind_res (rd_get rd k) (\<lambda>v. case v of JInt i \<Rightarrow> Inr i | _ \<Rightarrow> rd_fail rd)"

text \<open>\<^verbatim>\<open>except EvidenceValidationError: raise self.fail(...)\<close>\<close>

definition or_fail :: "reader \<Rightarrow> 'a res \<Rightarrow> 'a res" where
  "or_fail rd r = (case r of Inl EvidenceValidationError \<Rightarrow> rd_fail rd | _ \<Rightarrow> r)"

definition rd_timestamp :: "reader \<Rightarrow> string \<Rightarrow> string res" where
  "rd_timestamp rd k =
     bind_res (rd_str rd k) (\<lambda>value.
     bind_res (or_fail rd (parse_observed_at (As_text value))) (\<lambda>moment.
     bind_res (canonical_observed_at moment) (\<lambda>canonical.
     if canonical \<noteq> value then rd_fail rd else Inr value)))"

definition rd_evidence :: "reader \<Rightarrow> string \<Rightarrow> evidence_phase \<Rightarrow> recorded_evidence list res" where
  "rd_evidence rd k phase =
     bind_res (rd_get rd k) (\<lambda>raw.
     case raw of
       JArr entries \<Rightarrow>
         bind_res (or_fail rd (map_res recorded_from_dict entries)) (\<lambda>items.
         if list_ex (\<lambda>i. rev_phase i \<noteq> phase) items then rd_fail rd else Inr items)
     | _ \<Rightarrow> rd_fail rd)"

definition rd_deviation :: "reader \<Rightarrow> string \<Rightarrow> bool res" where
  "rd_deviation rd k =
    (case dget (ev_metadata (snd rd)) ''deviations'' of
       JObj d \<Rightarrow> (case fmlookup d k of Some (JBool b) \<Rightarrow> Inr b | _ \<Rightarrow> rd_fail rd)
     | _ \<Rightarrow> rd_fail rd)"

section \<open>Starts\<close>

text \<open>What an earlier execution must not be when another one starts.\<close>

definition blocks_start :: "string \<Rightarrow> execution_record \<Rightarrow> bool" where
  "blocks_start run r \<longleftrightarrow>
     xr_status r = Exec_Started \<or> xr_status r = Exec_Completed \<or> xr_run_id r = run"

definition started :: "reader \<Rightarrow> string \<Rightarrow> string \<Rightarrow> execution_record list \<Rightarrow> execution_record res" where
  "started rd x run records =
    (if x \<in> xr_execution_id ` set records then rd_fail rd
     else if list_ex (blocks_start run) records then rd_fail rd
     else
       bind_res (rd_int rd ''attempt_number'') (\<lambda>attempt.
       if attempt \<noteq> int (length records) + 1 then rd_fail rd
       else
       bind_res (rd_int rd ''planned_start_minute'') (\<lambda>s.
       bind_res (rd_int rd ''planned_end_minute'') (\<lambda>e.
       if e \<le> s then rd_fail rd
       else
       bind_res (rd_str rd ''committed_block_digest'') (\<lambda>digest.
       bind_res (rd_timestamp rd ''actual_start_at'') (\<lambda>start_at.
       bind_res (rd_int rd ''actual_start_minute'') (\<lambda>start_minute.
       bind_res (rd_evidence rd ''before_work_evidence'' BEFORE_WORK) (\<lambda>prior.
       if prior = [] then rd_fail rd
       else
       bind_res (rd_str rd ''proposal_id'') (\<lambda>proposal.
       bind_res (rd_str rd ''track_id'') (\<lambda>track.
       bind_res (rd_str_option rd ''section_id'') (\<lambda>section_id.
       bind_res (rd_deviation rd ''started_before_planned_start'') (\<lambda>early.
       Inr \<lparr>xr_execution_id = x, xr_job_id = fst rd, xr_attempt_number = attempt,
            xr_run_id = run, xr_proposal_id = proposal, xr_track_id = track,
            xr_section_id = section_id, xr_planned_start = s, xr_planned_end = e,
            xr_digest = digest, xr_status = Exec_Started,
            xr_started_by = event_actor_to_dict (ev_actor (snd rd)),
            xr_started_recorded_at = ev_occurred_at (snd rd),
            xr_actual_start_at = start_at, xr_actual_start_minute = start_minute,
            xr_before_work = prior, xr_ended_by = None, xr_ended_recorded_at = None,
            xr_actual_end_at = None, xr_actual_end_minute = None, xr_after_work = [],
            xr_not_completed_reason = None, xr_failure = [],
            xr_started_before_planned = early, xr_ended_after_planned = None\<rparr>))))))))))))"

section \<open>Outcomes\<close>

definition end_observed :: "reader \<Rightarrow> execution_record \<Rightarrow> execution_record res" where
  "end_observed rd r =
     bind_res (rd_str rd ''committed_block_digest'') (\<lambda>digest.
     if digest \<noteq> xr_digest r then rd_fail rd
     else
     bind_res (rd_timestamp rd ''actual_end_at'') (\<lambda>end_at.
     bind_res (fromisoformat end_at) (\<lambda>end_moment.
     bind_res (fromisoformat (xr_actual_start_at r)) (\<lambda>start_moment.
     if instant end_moment < instant start_moment then rd_fail rd
     else
     bind_res (rd_int rd ''actual_end_minute'') (\<lambda>end_minute.
     bind_res (rd_deviation rd ''ended_after_planned_end'') (\<lambda>late.
     Inr (r\<lparr>xr_actual_end_at := Some end_at, xr_actual_end_minute := Some end_minute,
            xr_ended_by := Some (event_actor_to_dict (ev_actor (snd rd))),
            xr_ended_recorded_at := Some (ev_occurred_at (snd rd)),
            xr_ended_after_planned := Some late\<rparr>)))))))"

definition ended :: "reader \<Rightarrow> execution_record \<Rightarrow> execution_record res" where
  "ended rd r =
     bind_res (end_observed rd r) (\<lambda>r'.
     if ev_type (snd rd) = EXECUTION_COMPLETED then
       bind_res (rd_evidence rd ''after_work_evidence'' AFTER_WORK) (\<lambda>after.
       if after = [] then rd_fail rd
       else Inr (r'\<lparr>xr_after_work := after, xr_status := Exec_Completed\<rparr>))
     else
       (case ev_reason (snd rd) of
          None \<Rightarrow> rd_fail rd
        | Some reason \<Rightarrow>
           if strip reason = [] then rd_fail rd
           else bind_res (rd_evidence rd ''failure_evidence'' NOT_COMPLETED_PHASE) (\<lambda>failure.
             Inr (r'\<lparr>xr_not_completed_reason := Some reason, xr_failure := failure,
                     xr_status := Exec_Not_Completed\<rparr>))))"

section \<open>One event, one history\<close>

definition find_execution :: "execution_record list \<Rightarrow> string \<Rightarrow> execution_record option" where
  "find_execution records x = find (\<lambda>r. xr_execution_id r = x) records"

definition put_execution :: "execution_record \<Rightarrow> execution_record list \<Rightarrow> execution_record list" where
  "put_execution r records =
     map (\<lambda>q. if xr_execution_id q = xr_execution_id r then r else q) records"

definition record_types :: "job_event_type list" where
  "record_types = [EXECUTION_STARTED, EXECUTION_COMPLETED, EXECUTION_NOT_COMPLETED]"

definition read_event ::
  "string \<Rightarrow> job_event \<Rightarrow> execution_record list \<Rightarrow> execution_record list res" where
  "read_event jid e records =
    (if ev_type e \<notin> set record_types then Inr records
     else let rd = (jid, e) in
       if ev_job_id e \<noteq> jid then rd_fail rd
       else
       bind_res (rd_str rd EXECUTION_ID_KEY) (\<lambda>x.
       if \<not> is_execution_id x then rd_fail rd
       else if \<not> truthy (ev_run_id e) then rd_fail rd
       else
       bind_res (rd_str rd ''optimization_run_id'') (\<lambda>run.
       if JStr run \<noteq> ev_run_id e then rd_fail rd
       else
       bind_res (rd_str rd ''proposal_id'') (\<lambda>proposal.
       if proposal \<noteq> proposal_id_for run jid then rd_fail rd
       else if ev_type e = EXECUTION_STARTED then
         bind_res (started rd x run records) (\<lambda>r. Inr (records @ [r]))
       else
         (case find_execution records x of
            None \<Rightarrow> rd_fail rd
          | Some r \<Rightarrow>
             if xr_status r \<noteq> Exec_Started then rd_fail rd
             else if run \<noteq> xr_run_id r then rd_fail rd
             else bind_res (ended rd r) (\<lambda>r'. Inr (put_execution r' records)))))))"

fun read_events ::
  "string \<Rightarrow> job_event list \<Rightarrow> execution_record list \<Rightarrow> execution_record list res" where
  "read_events jid [] records = Inr records"
| "read_events jid (e # es) records =
     bind_res (read_event jid e records) (read_events jid es)"

definition check_open :: "job \<Rightarrow> execution_record list \<Rightarrow> unit res" where
  "check_open j records =
    (let opened = filter is_open records; err = Inl (ExecutionIntegrityError (job_id j)) in
     if job_status j = IN_PROGRESS then
       (case opened of
          [r] \<Rightarrow> if JStr (xr_execution_id r) \<noteq> execution_id_of j then err else Inr ()
        | _ \<Rightarrow> err)
     else if opened \<noteq> [] then err else Inr ())"

definition build_execution_records :: "job \<Rightarrow> job_event list \<Rightarrow> execution_record list res" where
  "build_execution_records j events =
     bind_res (read_events (job_id j) events []) (\<lambda>records.
     bind_res (check_open j records) (\<lambda>_. Inr records))"

lemma read_events_append:
  "read_events jid (es @ fs) rs = bind_res (read_events jid es rs) (read_events jid fs)"
proof (induction es arbitrary: rs)
  case (Cons e es)
  then show ?case by (cases "read_event jid e rs") simp_all
qed simp

section \<open>What an accepted history looks like\<close>

text \<open>One record on its own, and the sequence of a job's records.\<close>

definition record_ok :: "string \<Rightarrow> execution_record \<Rightarrow> bool" where
  "record_ok jid r \<longleftrightarrow>
     xr_job_id r = jid \<and> is_execution_id (xr_execution_id r) \<and> xr_run_id r \<noteq> [] \<and>
     xr_proposal_id r = proposal_id_for (xr_run_id r) jid \<and>
     xr_planned_start r < xr_planned_end r \<and> xr_before_work r \<noteq> [] \<and>
     (xr_status r = Exec_Completed \<longrightarrow> xr_after_work r \<noteq> []) \<and>
     (xr_status r = Exec_Not_Completed \<longrightarrow>
        (\<exists>reason. xr_not_completed_reason r = Some reason \<and> strip reason \<noteq> [])) \<and>
     (xr_status r = Exec_Started \<longleftrightarrow> xr_actual_end_at r = None) \<and>
     (\<forall>t. xr_actual_end_at r = Some t \<longrightarrow>
        (\<exists>a b. fromisoformat (xr_actual_start_at r) = Inr a \<and> fromisoformat t = Inr b \<and>
           instant a \<le> instant b))"

definition records_ok :: "string \<Rightarrow> execution_record list \<Rightarrow> bool" where
  "records_ok jid rs \<longleftrightarrow>
     (\<forall>r \<in> set rs. record_ok jid r) \<and>
     map xr_attempt_number rs = map (\<lambda>i. int i + 1) [0 ..< length rs] \<and>
     distinct (map xr_execution_id rs) \<and> distinct (map xr_run_id rs) \<and>
     (\<forall>r \<in> set (butlast rs). xr_status r = Exec_Not_Completed)"

lemma rd_fail_neq [simp]: "rd_fail rd \<noteq> Inr x"
  by (simp add: rd_fail_def)

lemmas reader_simps = bind_res_Inr_iff rd_fail_def

lemma started_Inr:
  assumes "started rd x run records = Inr r"
  shows "xr_execution_id r = x" "xr_run_id r = run" "xr_job_id r = fst rd"
    "xr_status r = Exec_Started" "xr_attempt_number r = int (length records) + 1"
    "xr_planned_start r < xr_planned_end r" "xr_before_work r \<noteq> []" "xr_actual_end_at r = None"
    "x \<notin> xr_execution_id ` set records" "\<forall>q \<in> set records. \<not> blocks_start run q"
    "rd_str rd ''proposal_id'' = Inr (xr_proposal_id r)"
  using assms
  by (auto simp: started_def reader_simps list_ex_iff split: if_splits)

text \<open>The outcome fields of a record; everything else an outcome keeps.\<close>

definition start_facts where
  "start_facts r = (xr_execution_id r, xr_job_id r, xr_attempt_number r, xr_run_id r,
     xr_proposal_id r, xr_planned_start r, xr_planned_end r, xr_digest r,
     xr_actual_start_at r, xr_before_work r)"

lemma start_facts_eq:
  "start_facts q = start_facts r \<Longrightarrow>
     xr_execution_id q = xr_execution_id r \<and> xr_job_id q = xr_job_id r \<and>
     xr_attempt_number q = xr_attempt_number r \<and> xr_run_id q = xr_run_id r \<and>
     xr_proposal_id q = xr_proposal_id r \<and> xr_planned_start q = xr_planned_start r \<and>
     xr_planned_end q = xr_planned_end r \<and> xr_actual_start_at q = xr_actual_start_at r \<and>
     xr_before_work q = xr_before_work r"
  by (simp add: start_facts_def)

text \<open>What an accepted outcome writes.\<close>

definition outcome_of :: "execution_record \<Rightarrow> execution_record \<Rightarrow> bool" where
  "outcome_of r r' \<longleftrightarrow>
     start_facts r' = start_facts r \<and>
     (\<exists>t a b. xr_actual_end_at r' = Some t \<and> fromisoformat (xr_actual_start_at r) = Inr a \<and>
        fromisoformat t = Inr b \<and> instant a \<le> instant b) \<and>
     (xr_status r' = Exec_Completed \<and> xr_after_work r' \<noteq> [] \<or>
      xr_status r' = Exec_Not_Completed \<and>
        (\<exists>reason. xr_not_completed_reason r' = Some reason \<and> strip reason \<noteq> []))"

lemma end_observed_Inr:
  assumes "end_observed rd r = Inr r'"
  shows "start_facts r' = start_facts r"
    "\<exists>t a b. xr_actual_end_at r' = Some t \<and> fromisoformat (xr_actual_start_at r) = Inr a \<and>
        fromisoformat t = Inr b \<and> instant a \<le> instant b"
  using assms
  by (auto simp: end_observed_def bind_res_Inr_iff start_facts_def split: if_split_asm)

lemma ended_Inr:
  assumes "ended rd r = Inr r'"
  shows "outcome_of r r'"
proof -
  from assms obtain q where q: "end_observed rd r = Inr q"
    unfolding ended_def bind_res_Inr_iff by blast
  note f = end_observed_Inr [OF q]
  show ?thesis
  proof (cases "ev_type (snd rd) = EXECUTION_COMPLETED")
    case True
    with assms q obtain after where
      "after \<noteq> []" "r' = q\<lparr>xr_after_work := after, xr_status := Exec_Completed\<rparr>"
      by (auto simp: ended_def bind_res_Inr_iff simp del: execution_record.update_convs
          split: if_split_asm)
    with f show ?thesis by (simp add: outcome_of_def start_facts_def)
  next
    case False
    with assms q obtain reason failure where "strip reason \<noteq> []"
      "r' = q\<lparr>xr_not_completed_reason := Some reason, xr_failure := failure,
              xr_status := Exec_Not_Completed\<rparr>"
      by (auto simp: ended_def bind_res_Inr_iff simp del: execution_record.update_convs
          split: if_split_asm option.split_asm)
    with f show ?thesis by (simp add: outcome_of_def start_facts_def)
  qed
qed

lemma ended_record_ok:
  assumes "ended rd r = Inr r'" "record_ok jid r"
  shows "record_ok jid r'"
proof -
  from ended_Inr [OF assms(1)] have f: "outcome_of r r'" .
  then have s: "start_facts r' = start_facts r" by (simp add: outcome_of_def)
  note s = start_facts_eq [OF s]
  from assms(2) s have "xr_job_id r' = jid" "is_execution_id (xr_execution_id r')"
    "xr_run_id r' \<noteq> []" "xr_proposal_id r' = proposal_id_for (xr_run_id r') jid"
    "xr_planned_start r' < xr_planned_end r'" "xr_before_work r' \<noteq> []"
    by (simp_all add: record_ok_def)
  moreover have "xr_status r' = Exec_Started \<longleftrightarrow> xr_actual_end_at r' = None"
    using f by (auto simp: outcome_of_def)
  moreover have "\<forall>t. xr_actual_end_at r' = Some t \<longrightarrow>
      (\<exists>a b. fromisoformat (xr_actual_start_at r') = Inr a \<and> fromisoformat t = Inr b \<and>
         instant a \<le> instant b)"
    using f s by (auto simp: outcome_of_def)
  ultimately show ?thesis
    using f by (auto simp: record_ok_def outcome_of_def)
qed

lemma put_execution_last:
  assumes "distinct (map xr_execution_id (rs @ [r]))" "xr_execution_id r' = xr_execution_id r"
  shows "put_execution r' (rs @ [r]) = rs @ [r']"
proof -
  have "map (\<lambda>q. if xr_execution_id q = xr_execution_id r' then r' else q) rs = rs"
    using assms by (intro map_idI) (auto dest: image_eqI [OF sym])
  with assms(2) show ?thesis by (simp add: put_execution_def)
qed

text \<open>An open record of an accepted sequence is its last one.\<close>

lemma open_is_last:
  assumes "records_ok jid rs" "r \<in> set rs" "xr_status r \<noteq> Exec_Not_Completed"
  shows "rs = butlast rs @ [r]"
proof -
  from assms(2) have "rs \<noteq> []" by auto
  then have rs: "rs = butlast rs @ [last rs]" by simp
  with assms(2) have "r \<in> set (butlast rs) \<or> r = last rs"
    by (metis Un_iff empty_iff insert_iff list.set set_append)
  with assms(1,3) rs show ?thesis by (auto simp: records_ok_def)
qed

lemma read_event_ok:
  assumes ok: "records_ok jid rs" and rd: "read_event jid e rs = Inr rs'"
  shows "records_ok jid rs'"
proof (cases "ev_type e \<in> set record_types")
  case False
  with ok rd show ?thesis by (simp add: read_event_def)
next
  case True
  with rd obtain x run where
    x: "rd_str (jid, e) EXECUTION_ID_KEY = Inr x" "is_execution_id x"
    and ne: "run \<noteq> []"
    and run: "rd_str (jid, e) ''proposal_id'' = Inr (proposal_id_for run jid)"
    and rest: "(ev_type e = EXECUTION_STARTED \<and>
        (\<exists>r. started (jid, e) x run rs = Inr r \<and> rs' = rs @ [r])) \<or>
      (\<exists>r r'. find_execution rs x = Some r \<and> xr_status r = Exec_Started \<and>
        ended (jid, e) r = Inr r' \<and> rs' = put_execution r' rs)"
    by (auto simp: read_event_def reader_simps Let_def split: if_splits option.splits)
      (metis truthy.simps(5))+
  from rest show ?thesis
  proof
    assume "ev_type e = EXECUTION_STARTED \<and>
      (\<exists>r. started (jid, e) x run rs = Inr r \<and> rs' = rs @ [r])"
    then obtain r where st: "started (jid, e) x run rs = Inr r" and rs': "rs' = rs @ [r]" by blast
    note r = started_Inr [OF st]
    from r x run ne have "record_ok jid r" by (simp add: record_ok_def)
    moreover have "\<forall>q \<in> set rs. xr_status q = Exec_Not_Completed \<and> xr_run_id q \<noteq> run"
      using r(10) by (auto simp: blocks_start_def intro: execution_status.exhaust)
    moreover have "map (\<lambda>i. int i + 1) [0 ..< length rs'] =
        map (\<lambda>i. int i + 1) [0 ..< length rs] @ [int (length rs) + 1]"
      by (simp add: rs')
    ultimately show ?thesis
      using ok r(1,2,5,9) by (auto simp: records_ok_def rs')
  next
    assume "\<exists>r r'. find_execution rs x = Some r \<and> xr_status r = Exec_Started \<and>
      ended (jid, e) r = Inr r' \<and> rs' = put_execution r' rs"
    then obtain r r' where r: "r \<in> set rs" "xr_status r = Exec_Started"
      and en: "ended (jid, e) r = Inr r'" and rs': "rs' = put_execution r' rs"
      by (auto simp: find_execution_def dest: find_Some_in)
    from ended_Inr [OF en] have "start_facts r' = start_facts r" by (simp add: outcome_of_def)
    note facts = start_facts_eq [OF this]
    from open_is_last [OF ok r(1)] r(2) obtain qs where qs: "rs = qs @ [r]" by auto
    with ok facts have "rs' = qs @ [r']"
      unfolding rs' qs by (intro put_execution_last) (auto simp: records_ok_def)
    moreover from ok qs have "record_ok jid r" by (simp add: records_ok_def)
    ultimately show ?thesis
      using ok facts ended_record_ok [OF en] by (auto simp: records_ok_def qs)
  qed
qed

lemma read_events_ok: "read_events jid es rs = Inr rs' \<Longrightarrow> records_ok jid rs \<Longrightarrow> records_ok jid rs'"
  by (induction es arbitrary: rs) (auto simp: bind_res_Inr_iff intro: read_event_ok)

lemma check_open_iff:
  "check_open j rs = Inr () \<longleftrightarrow>
     (if job_status j = IN_PROGRESS
      then \<exists>r. filter is_open rs = [r] \<and> execution_id_of j = JStr (xr_execution_id r)
      else filter is_open rs = [])"
  by (auto simp: check_open_def Let_def split: list.splits)

lemma build_execution_records_ok:
  assumes "build_execution_records j es = Inr rs"
  shows "records_ok (job_id j) rs" "check_open j rs = Inr ()"
  using assms read_events_ok [of "job_id j" es "[]" rs]
  by (auto simp: build_execution_records_def bind_res_Inr_iff records_ok_def)

end
