(* ===== verification/Execution_Plans.thy ===== *)
theory Execution_Plans
  imports Lifecycle_Plans Execution_Records
begin

text \<open>
  The field-execution plans of \<^verbatim>\<open>backend/app/jobs/lifecycle.py\<close>: start, completion and
  not-completed report. \<open>sha\<close> and \<open>hex\<close> are as in \<open>Execution\<close>; the evidence identifiers of
  one plan are \<open>hex 0\<close>, \<open>hex 1\<close>, ... in the order of its evidence.
\<close>

section \<open>Shared checks\<close>

definition recording_moment :: "string \<Rightarrow> datetime res" where
  "recording_moment now = parse_observed_at (As_text now)"

definition observations :: "'a res \<Rightarrow> 'a res" where
  "observations r =
    (case r of Inl EvidenceValidationError \<Rightarrow> Inl (InvalidTransitionError []) | _ \<Rightarrow> r)"

text \<open>Whether a derived record is the open execution of the row as it stands.\<close>

definition describes_open :: "job \<Rightarrow> string \<Rightarrow> execution_record \<Rightarrow> bool" where
  "describes_open j x r \<longleftrightarrow>
     xr_job_id r = job_id j \<and> xr_execution_id r = x \<and> xr_status r = Exec_Started \<and>
     JStr (xr_run_id r) = proposal_run_id_of j \<and>
     xr_proposal_id r = proposal_id_for (xr_run_id r) (job_id j) \<and>
     (Some (xr_planned_start r), Some (xr_planned_end r)) = job_window j"

definition open_execution_checks ::
  "(dict \<Rightarrow> string) \<Rightarrow> job \<Rightarrow> string \<Rightarrow> execution_record \<Rightarrow> string \<Rightarrow> string res" where
  "open_execution_checks sha j x r corridor =
     bind_res (assert_committed_state_consistent [j]) (\<lambda>_.
     if job_status j \<noteq> IN_PROGRESS then Inl (InvalidTransitionError (job_id j))
     else if JStr x \<noteq> execution_id_of j then Inl (StaleExecutionError (job_id j))
     else if \<not> describes_open j x r then Inl (ExecutionIntegrityError (job_id j))
     else bind_res (committed_block_digest sha j corridor (xr_run_id r)) (\<lambda>digest.
       if digest \<noteq> xr_digest r then Inl (CommittedStateIntegrityError [job_id j])
       else Inr digest))"

section \<open>Start\<close>

record start_request =
  xs_execution_id :: string
  xs_expected :: string
  xs_actual_start :: moment_ref
  xs_evidence :: "evidence_item list"
  xs_corridor :: string
  xs_previous :: "execution_record list"
  xs_horizon_start :: string

definition observe_start :: "start_request \<Rightarrow> datetime \<Rightarrow> (datetime \<times> evidence_item list) res" where
  "observe_start r now =
     bind_res (parse_observed_at (xs_actual_start r)) (\<lambda>started.
     bind_res (require_not_in_future started now) (\<lambda>_.
     bind_res (validate_evidence_set (xs_evidence r) now
        \<lparr>evr_minimum = 1, evr_not_after = Some started, evr_not_before = None,
         evr_forbidden = []\<rparr>) (\<lambda>evidence.
     Inr (started, evidence))))"

definition previous_conflict :: "string \<Rightarrow> start_request \<Rightarrow> json \<Rightarrow> execution_record \<Rightarrow> bool" where
  "previous_conflict jid r run q \<longleftrightarrow>
     xr_job_id q \<noteq> jid \<or> is_open q \<or> xr_execution_id q = xs_execution_id r \<or>
     JStr (xr_run_id q) = run"

definition start_checks :: "job \<Rightarrow> actor \<Rightarrow> start_request \<Rightarrow> unit res" where
  "start_checks j who r =
     bind_res (assert_committed_state_consistent [j]) (\<lambda>_.
     if job_status j \<noteq> NOTIFIED then Inl (InvalidTransitionError (job_id j))
     else bind_res (require_identified_human who (job_id j)) (\<lambda>_.
     bind_res (require_nonblank (xs_expected r)) (\<lambda>_.
     if JStr (xs_expected r) \<noteq> proposal_run_id_of j then Inl (StaleProposalError (job_id j))
     else if \<not> is_execution_id (xs_execution_id r) then Inl (InvalidTransitionError (job_id j))
     else if list_ex (previous_conflict (job_id j) r (proposal_run_id_of j)) (xs_previous r)
     then Inl (ExecutionIntegrityError (job_id j))
     else Inr ())))"

definition start_metadata ::
  "job \<Rightarrow> start_request \<Rightarrow> int \<Rightarrow> int \<Rightarrow> string \<Rightarrow> string \<Rightarrow> int \<Rightarrow> recorded_evidence list \<Rightarrow> dict" where
  "start_metadata j r s e digest start_at minute evidence = dict_of
     [(''transition'', JStr ''execution_start''),
      (EXECUTION_ID_KEY, JStr (xs_execution_id r)),
      (''attempt_number'', JInt (int (length (xs_previous r)) + 1)),
      (''optimization_run_id'', proposal_run_id_of j),
      (''proposal_id'', JStr (proposal_id_for (xs_expected r) (job_id j))),
      (''expected_proposal_run_id'', JStr (xs_expected r)),
      (''corridor_id'', JStr (xs_corridor r)),
      (''track_id'', JStr (job_track_id j)),
      (''section_id'', dget (job_block j) ''section_id''),
      (''planned_start_minute'', JInt s),
      (''planned_end_minute'', JInt e),
      (''committed_block_digest'', JStr digest),
      (''horizon_start'', JStr (xs_horizon_start r)),
      (''actual_start_at'', JStr start_at),
      (''actual_start_minute'', JInt minute),
      (''before_work_evidence'', json_of_evidence evidence),
      (''deviations'', JObj (dict_of [(''started_before_planned_start'', JBool (minute < s))]))]"

definition started_mutation :: "job \<Rightarrow> string \<Rightarrow> execution_transition \<Rightarrow> string \<Rightarrow> job_mutation" where
  "started_mutation j x token now = (unchanged j)\<lparr>mut_status := IN_PROGRESS,
     mut_updated_at := Some now,
     mut_block := fmupd ''metadata''
       (JObj (fmupd EXECUTION_ID_KEY (JStr x) (metadata_of (job_block j)))) (job_block j),
     mut_execution := Some token\<rparr>"

definition plan_execution_start ::
  "ambient \<Rightarrow> (dict \<Rightarrow> string) \<Rightarrow> (nat \<Rightarrow> string) \<Rightarrow> string \<Rightarrow> actor \<Rightarrow> string \<Rightarrow> start_request \<Rightarrow>
   plan" where
  "plan_execution_start env sha hex jid who now r = (\<lambda>rows.
     bind_res (need_row rows jid) (\<lambda>j.
     bind_res (start_checks j who r) (\<lambda>_.
     bind_res (recording_moment now) (\<lambda>now_moment.
     bind_res (observations (observe_start r now_moment)) (\<lambda>(started, evidence).
     bind_res (observations (observed_minute started (xs_horizon_start r) False)) (\<lambda>minute.
     bind_res (make_execution_transition EX_START (xs_execution_id r)) (\<lambda>token.
     bind_res (int_of_column (job_start j)) (\<lambda>s.
     bind_res (int_of_column (job_end j)) (\<lambda>e.
     bind_res (committed_block_digest sha j (xs_corridor r) (xs_expected r)) (\<lambda>digest.
     bind_res (canonical_observed_at started) (\<lambda>start_at.
     let m = started_mutation j (xs_execution_id r) token now in
     bind_res (make_event env 0 None jid EXECUTION_STARTED (Live who) now None
                 (proposal_run_id_of j) (Some (snapshot_of j)) (Some (snapshot_of (as_job m j)))
                 (start_metadata j r s e digest start_at minute
                    (record_evidence hex 0 evidence BEFORE_WORK)))
       (\<lambda>ev. Inr ([m], [ev])))))))))))))"

section \<open>Outcomes\<close>

record end_request =
  xe_execution_id :: string
  xe_actual_end :: moment_ref
  xe_evidence :: "evidence_item list"
  xe_execution :: execution_record
  xe_corridor :: string
  xe_horizon_start :: string

text \<open>\<^verbatim>\<open>execution.actual_start_moment\<close>\<close>

definition actual_start_moment :: "execution_record \<Rightarrow> datetime res" where
  "actual_start_moment r = fromisoformat (xr_actual_start_at r)"

definition observe_end :: "end_request \<Rightarrow> datetime \<Rightarrow> (datetime \<times> int) res" where
  "observe_end r now =
     bind_res (parse_observed_at (xe_actual_end r)) (\<lambda>ended.
     bind_res (require_not_in_future ended now) (\<lambda>_.
     bind_res (actual_start_moment (xe_execution r)) (\<lambda>start.
     if instant ended < instant start
     then bind_res (canonical_observed_at ended) (\<lambda>_. Inl EvidenceValidationError)
     else bind_res (observed_minute ended (xe_horizon_start r) True) (\<lambda>minute.
       Inr (ended, minute)))))"

definition end_metadata ::
  "string \<Rightarrow> end_request \<Rightarrow> json \<Rightarrow> string \<Rightarrow> string \<Rightarrow> int \<Rightarrow> (string \<times> json) list" where
  "end_metadata transition r run digest end_at minute =
     [(''transition'', JStr transition),
      (EXECUTION_ID_KEY, JStr (xe_execution_id r)),
      (''optimization_run_id'', run),
      (''proposal_id'', JStr (xr_proposal_id (xe_execution r))),
      (''committed_block_digest'', JStr digest),
      (''actual_end_at'', JStr end_at),
      (''actual_end_minute'', JInt minute),
      (''deviations'', JObj (dict_of
         [(''started_before_planned_start'',
           JBool (xr_started_before_planned (xe_execution r))),
          (''ended_after_planned_end'',
           JBool (xr_planned_end (xe_execution r) < minute))]))]"

definition observe_completion ::
  "end_request \<Rightarrow> datetime \<Rightarrow> (datetime \<times> int \<times> evidence_item list) res" where
  "observe_completion r now =
     bind_res (observe_end r now) (\<lambda>(ended, minute).
     bind_res (actual_start_moment (xe_execution r)) (\<lambda>start.
     bind_res (validate_evidence_set (xe_evidence r) now
        \<lparr>evr_minimum = 1, evr_not_after = None, evr_not_before = Some start,
         evr_forbidden = map (\<lambda>i. evi_reference (rev_item i)) (xr_before_work (xe_execution r))\<rparr>)
       (\<lambda>evidence. Inr (ended, minute, evidence))))"

definition plan_execution_complete ::
  "ambient \<Rightarrow> (dict \<Rightarrow> string) \<Rightarrow> (nat \<Rightarrow> string) \<Rightarrow> string \<Rightarrow> actor \<Rightarrow> string \<Rightarrow> end_request \<Rightarrow>
   plan" where
  "plan_execution_complete env sha hex jid who now r = (\<lambda>rows.
     bind_res (need_row rows jid) (\<lambda>j.
     bind_res (open_execution_checks sha j (xe_execution_id r) (xe_execution r) (xe_corridor r))
       (\<lambda>digest.
     bind_res (require_identified_human who jid) (\<lambda>_.
     bind_res (recording_moment now) (\<lambda>now_moment.
     bind_res (observations (observe_completion r now_moment)) (\<lambda>(ended, minute, evidence).
     bind_res (make_execution_transition EX_COMPLETE (xe_execution_id r)) (\<lambda>token.
     bind_res (canonical_observed_at ended) (\<lambda>end_at.
     let m = (unchanged j)\<lparr>mut_status := COMPLETED, mut_updated_at := Some now,
                           mut_execution := Some token\<rparr>;
         run = JStr (xr_run_id (xe_execution r))
     in bind_res (make_event env 0 None jid EXECUTION_COMPLETED (Live who) now None run
                    (Some (snapshot_of j)) (Some (snapshot_of (as_job m j)))
                    (dict_of (end_metadata ''execution_complete'' r run digest end_at minute @
                      [(''after_work_evidence'',
                        json_of_evidence (record_evidence hex 0 evidence AFTER_WORK))])))
          (\<lambda>ev. Inr ([m], [ev]))))))))))"

definition observe_failure ::
  "end_request \<Rightarrow> datetime \<Rightarrow> (datetime \<times> int \<times> evidence_item list) res" where
  "observe_failure r now =
     bind_res (observe_end r now) (\<lambda>(ended, minute).
     bind_res (validate_evidence_set (xe_evidence r) now
        \<lparr>evr_minimum = 0, evr_not_after = None, evr_not_before = None, evr_forbidden = []\<rparr>)
       (\<lambda>evidence. Inr (ended, minute, evidence)))"

definition plan_execution_not_completed ::
  "ambient \<Rightarrow> (dict \<Rightarrow> string) \<Rightarrow> (nat \<Rightarrow> string) \<Rightarrow> string \<Rightarrow> actor \<Rightarrow> string \<Rightarrow> string \<Rightarrow> int \<Rightarrow>
   end_request \<Rightarrow> plan res" where
  "plan_execution_not_completed env sha hex jid who now reason horizon r =
     bind_res (require_nonblank reason) (\<lambda>_. Inr (\<lambda>rows.
     bind_res (need_row rows jid) (\<lambda>j.
     bind_res (open_execution_checks sha j (xe_execution_id r) (xe_execution r) (xe_corridor r))
       (\<lambda>digest.
     bind_res (require_identified_human who jid) (\<lambda>_.
     bind_res (recording_moment now) (\<lambda>now_moment.
     bind_res (observations (observe_failure r now_moment)) (\<lambda>(ended, minute, evidence).
     bind_res (int_of_json (dget_default (job_block j) ''earliest_start_minute'' (JInt 0)))
       (\<lambda>previous.
     let w = withdrawn ((unchanged j)\<lparr>mut_updated_at := Some now\<rparr>) j reason in
     bind_res (int_of_column (job_end j)) (\<lambda>released_end.
     bind_res (raise_not_before (mut_block w) (max released_end minute) horizon True)
       (\<lambda>(block, not_before, original, widened).
     bind_res (make_execution_transition EX_NOT_COMPLETED (xe_execution_id r)) (\<lambda>token.
     bind_res (canonical_observed_at ended) (\<lambda>end_at.
     let m = w\<lparr>mut_block := block, mut_execution := Some token\<rparr>;
         run = proposal_run_id_of j
     in bind_res (make_event env 0 None jid EXECUTION_NOT_COMPLETED (Live who) now (Some reason)
                    run (Some (snapshot_of j)) (Some (snapshot_of (as_job m j)))
                    (dict_of (end_metadata ''execution_not_completed'' r run digest end_at minute @
                      [(''failure_evidence'',
                        json_of_evidence (record_evidence hex 0 evidence NOT_COMPLETED_PHASE)),
                       (''released_start_minute'', json_of_int (job_start j)),
                       (''released_end_minute'', JInt released_end),
                       (''released_proposal_run_id'', run),
                       (''previous_earliest_start_minute'', JInt previous),
                       (''not_before_minute'', JInt not_before),
                       (''original_latest_end_minute'', JInt original),
                       (''widened_latest_end_minute'', JInt widened)])))
          (\<lambda>ev. Inr ([m], [ev]))))))))))))))"

end
