(* ===== verification/Execution_Facts.thy ===== *)
theory Execution_Facts
  imports Execution_Records
begin

text \<open>
  Reading back what was written: canonical timestamps, stored evidence and the typed reader
  on a metadata dictionary. The facts here are what the properties of the execution plans
  rest on.
\<close>

section \<open>Stripping\<close>

definition trimmed :: "string \<Rightarrow> bool" where
  "trimmed s \<longleftrightarrow> s = [] \<or> (\<not> is_space (hd s) \<and> \<not> is_space (last s))"

lemma strip_trimmed: "trimmed s \<Longrightarrow> strip s = s"
proof (cases "s = []")
  case False
  assume "trimmed s"
  with False have "\<not> is_space (hd s)" "\<not> is_space (last s)" by (simp_all add: trimmed_def)
  then have "dropWhile is_space s = s" "dropWhile is_space (rev s) = rev s"
    using False by (auto simp: dropWhile_eq_self_iff hd_rev)
  then show ?thesis by (simp add: strip_def)
qed (simp add: strip_def)

lemma trimmed_strip: "trimmed (strip s)"
proof (cases "strip s = []")
  case False
  define t where "t = dropWhile is_space s"
  define v where "v = dropWhile is_space (rev t)"
  have s: "strip s = rev v" by (simp add: strip_def t_def v_def)
  with False have v: "v \<noteq> []" by simp
  then have "\<not> is_space (hd v)" unfolding v_def by (rule hd_dropWhile)
  moreover have "rev t = takeWhile is_space (rev t) @ v" by (simp add: v_def)
  then have t: "t = rev v @ rev (takeWhile is_space (rev t))" by (metis rev_append rev_rev_ident)
  with v have "t \<noteq> []" by auto
  then have "\<not> is_space (hd t)" unfolding t_def by (rule hd_dropWhile)
  moreover from t v have "hd t = hd (rev v)" by (metis hd_append2 rev_is_Nil_conv)
  ultimately show ?thesis using v by (simp add: s trimmed_def last_rev)
qed (simp add: trimmed_def)

lemma strip_strip [simp]: "strip (strip s) = strip s"
  by (rule strip_trimmed [OF trimmed_strip])

section \<open>Canonical timestamps\<close>

definition canonical :: "string \<Rightarrow> datetime \<Rightarrow> bool" where
  "canonical s d \<longleftrightarrow> in_range (dt_local d) \<and> dt_offset d = Some 0 \<and> s = isoformat_utc (dt_local d)"

lemma event_timestamp_canonical:
  "event_timestamp d = Inr s \<Longrightarrow> canonical s \<lparr>dt_local = instant d, dt_offset = Some 0\<rparr>"
  by (auto simp: event_timestamp_def canonical_def bind_res_Inr_iff astimezone_def Let_def
      split: if_splits)

lemma canonical_fromisoformat: "canonical s d \<Longrightarrow> fromisoformat s = Inr d"
  by (cases d) (simp add: canonical_def fromisoformat_isoformat)

lemma canonical_event_timestamp: "canonical s d \<Longrightarrow> event_timestamp d = Inr s"
  by (cases d) (simp add: canonical_def event_timestamp_def astimezone_def instant_def Let_def)

lemma digit_not_space: "is_digit c \<Longrightarrow> \<not> is_space c"
  by (auto simp: is_digit_def is_space_def Let_def)

lemma isoformat_trimmed:
  assumes "in_range u"
  shows "trimmed (isoformat_utc u)"
proof -
  obtain y m d where ymd: "ymd_of_day (u div micros_per_day) = (y, m, d)" by (metis prod_cases3)
  have "valid_ymd (y, m, d)"
    using ymd_of_day_valid(1) [OF in_range_day(1,2) [OF assms]] ymd by simp
  then have "list_all is_digit (pad 4 y)" by (intro pad_digits) (simp add: valid_ymd_def)
  moreover have "pad 4 y \<noteq> []" by simp
  ultimately have "is_digit (hd (pad 4 y))" by (metis list_all_iff hd_in_set)
  then have "\<not> is_space (hd (isoformat_utc u))"
    using \<open>pad 4 y \<noteq> []\<close>
    by (simp only: isoformat_utc_text ymd prod.case hd_append2 digit_not_space simp_thms)
  moreover have "last (isoformat_utc u) = CHR ''0''"
    by (simp add: isoformat_utc_text ymd)
  ultimately show ?thesis by (simp add: trimmed_def is_space_def Let_def)
qed

lemma canonical_parse: "canonical s d \<Longrightarrow> parse_observed_at (As_text s) = Inr d"
  using strip_trimmed [OF isoformat_trimmed] canonical_fromisoformat [of s d]
  by (auto simp: canonical_def parse_observed_at_def)

lemma parse_observed_at_aware: "parse_observed_at v = Inr d \<Longrightarrow> \<exists>f. dt_offset d = Some f"
  by (auto simp: parse_observed_at_def bind_res_Inr_iff split: if_splits)

text \<open>Formatting a moment and reading it back gives the same instant.\<close>

lemma canonical_observed_at_canonical:
  "canonical_observed_at d = Inr s \<Longrightarrow> canonical s \<lparr>dt_local = instant d, dt_offset = Some 0\<rparr>"
  by (simp add: canonical_observed_at_def event_timestamp_canonical)

lemma instant_utc [simp]: "instant \<lparr>dt_local = u, dt_offset = Some 0\<rparr> = u"
  by (simp add: instant_def)

section \<open>Evidence\<close>

text \<open>An item as its construction leaves it.\<close>

definition item_ok :: "evidence_item \<Rightarrow> bool" where
  "item_ok i \<longleftrightarrow>
     evi_reference i \<noteq> [] \<and> trimmed (evi_reference i) \<and>
     length (evi_reference i) \<le> MAX_EVIDENCE_REFERENCE_LENGTH \<and>
     (\<exists>d. canonical (evi_captured_at i) d) \<and>
     (\<forall>r. evi_latitude i = Some r \<longrightarrow> - 90 \<le> r \<and> r \<le> 90) \<and>
     (\<forall>r. evi_longitude i = Some r \<longrightarrow> - 180 \<le> r \<and> r \<le> 180) \<and>
     (evi_latitude i = None \<longleftrightarrow> evi_longitude i = None) \<and>
     (\<forall>n. evi_note i = Some n \<longrightarrow> length n \<le> MAX_EVIDENCE_NOTE_LENGTH)"

lemma optional_coordinate_Inr:
  "optional_coordinate v b = Inr x \<Longrightarrow> (\<forall>r. x = Some r \<longrightarrow> - b \<le> r \<and> r \<le> b)"
  by (auto simp: optional_coordinate_def Let_def split: json.splits if_splits)

lemma check_note_Inr: "check_note v = Inr x \<Longrightarrow> (\<forall>n. x = Some n \<longrightarrow> length n \<le> MAX_EVIDENCE_NOTE_LENGTH)"
  by (auto simp: check_note_def split: json.splits if_splits)

lemma check_reference_Inr:
  "check_reference v = Inr r \<Longrightarrow> r \<noteq> [] \<and> trimmed r \<and> length r \<le> MAX_EVIDENCE_REFERENCE_LENGTH"
  using trimmed_strip by (auto simp: check_reference_def Let_def split: json.splits if_splits)

lemma make_evidence_item_ok:
  assumes "make_evidence_item a k c la lo n = Inr i"
  shows "item_ok i"
  using assms
  by (auto simp: make_evidence_item_def bind_res_Inr_iff item_ok_def
      split: option.splits if_split_asm
      dest!: check_reference_Inr optional_coordinate_Inr check_note_Inr
        canonical_observed_at_canonical)

lemma item_ok_remake:
  assumes "item_ok i"
  shows "make_evidence_item (JStr (evi_reference i)) (JStr (evidence_kind_value (evi_kind i)))
    (As_text (evi_captured_at i)) (json_of_rat (evi_latitude i)) (json_of_rat (evi_longitude i))
    (json_of_str (evi_note i)) = Inr i"
proof -
  from assms obtain d where d: "canonical (evi_captured_at i) d" by (auto simp: item_ok_def)
  have "check_reference (JStr (evi_reference i)) = Inr (evi_reference i)"
    using assms strip_trimmed by (auto simp: item_ok_def check_reference_def Let_def)
  moreover have "optional_coordinate (json_of_rat (evi_latitude i)) 90 = Inr (evi_latitude i)"
    using assms
    by (cases "evi_latitude i") (auto simp: item_ok_def json_of_rat_def optional_coordinate_def)
  moreover have "optional_coordinate (json_of_rat (evi_longitude i)) 180 = Inr (evi_longitude i)"
    using assms
    by (cases "evi_longitude i") (auto simp: item_ok_def json_of_rat_def optional_coordinate_def)
  moreover have "check_note (json_of_str (evi_note i)) = Inr (evi_note i)"
    using assms by (cases "evi_note i") (auto simp: item_ok_def check_note_def)
  moreover have "evi_latitude i = None \<longleftrightarrow> evi_longitude i = None"
    using assms by (simp add: item_ok_def)
  ultimately show ?thesis
    by (simp add: make_evidence_item_def canonical_parse [OF d] canonical_observed_at_def
        canonical_event_timestamp [OF d])
qed

lemma dom_recorded_to_dict: "fmdom (recorded_to_dict r) = fset_of_list evidence_keys"
  by (auto simp: recorded_to_dict_def dict_of_def evidence_keys_def)

lemma recorded_roundtrip:
  assumes "item_ok (rev_item r)" "is_evidence_id (rev_id r)"
  shows "recorded_from_dict (JObj (recorded_to_dict r)) = Inr r"
  using item_ok_remake [OF assms(1)] assms(2)
  by (simp add: recorded_from_dict_def dom_recorded_to_dict Let_def)
    (simp add: recorded_to_dict_def dict_of_def)

lemma recorded_list_roundtrip:
  assumes "\<forall>r \<in> set rs. item_ok (rev_item r) \<and> is_evidence_id (rev_id r)"
  shows "map_res recorded_from_dict (map (\<lambda>r. JObj (recorded_to_dict r)) rs) = Inr rs"
  using assms by (induction rs) (simp_all add: recorded_roundtrip)

lemma new_evidence_id_ok: "hex32 (hex k) \<Longrightarrow> is_evidence_id (new_evidence_id hex k)"
  by (simp add: is_evidence_id_def anchored_def id_with_prefix_def new_evidence_id_def
      starts_with_def)

lemma record_evidence_ok:
  assumes "\<forall>i \<in> set is. item_ok i" "\<forall>k. hex32 (hex k)"
  shows "\<forall>r \<in> set (record_evidence hex k is p).
    item_ok (rev_item r) \<and> is_evidence_id (rev_id r) \<and> rev_phase r = p"
  using assms by (induction "is" arbitrary: k) (auto simp: new_evidence_id_ok)

lemma record_evidence_items [simp]: "map rev_item (record_evidence hex k is p) = is"
  by (induction "is" arbitrary: k) simp_all

lemma record_evidence_Nil [simp]: "record_evidence hex k is p = [] \<longleftrightarrow> is = []"
  by (cases "is") simp_all

section \<open>The reader on written metadata\<close>

lemma rd_get_dget:
  "dget (ev_metadata e) k = v \<Longrightarrow> v \<noteq> JNull \<Longrightarrow> rd_get (jid, e) k = Inr v"
  by (auto simp: rd_get_def dget_def split: option.splits)

lemma rd_str_dget:
  "dget (ev_metadata e) k = JStr s \<Longrightarrow> s \<noteq> [] \<Longrightarrow> rd_str (jid, e) k = Inr s"
  by (simp add: rd_str_def rd_get_dget)

lemma rd_int_dget: "dget (ev_metadata e) k = JInt i \<Longrightarrow> rd_int (jid, e) k = Inr i"
  by (simp add: rd_int_def rd_get_dget)

lemma rd_timestamp_dget:
  assumes "dget (ev_metadata e) k = JStr s" "canonical s d"
  shows "rd_timestamp (jid, e) k = Inr s"
proof -
  from assms(2) have "s \<noteq> []" using canonical_fromisoformat [of s d]
    by (auto simp: fromisoformat_def parse_date_def number_def)
  with assms show ?thesis
    by (simp add: rd_timestamp_def rd_str_dget canonical_parse or_fail_def
        canonical_observed_at_def canonical_event_timestamp)
qed

lemma rd_evidence_dget:
  assumes "dget (ev_metadata e) k = json_of_evidence rs"
    and "\<forall>r \<in> set rs. item_ok (rev_item r) \<and> is_evidence_id (rev_id r) \<and> rev_phase r = p"
  shows "rd_evidence (jid, e) k p = Inr rs"
proof -
  have "map_res recorded_from_dict (map (\<lambda>r. JObj (recorded_to_dict r)) rs) = Inr rs"
    using assms(2) by (intro recorded_list_roundtrip) blast
  moreover have "\<not> list_ex (\<lambda>i. rev_phase i \<noteq> p) rs" using assms(2) by (simp add: list_ex_iff)
  moreover have "rd_get (jid, e) k = Inr (json_of_evidence rs)"
    using assms(1) by (simp add: rd_get_dget json_of_evidence_def)
  ultimately show ?thesis by (simp add: rd_evidence_def json_of_evidence_def or_fail_def)
qed

lemma rd_deviation_dget:
  assumes "dget (ev_metadata e) ''deviations'' = JObj d" "fmlookup d k = Some (JBool b)"
  shows "rd_deviation (jid, e) k = Inr b"
  using assms by (simp add: rd_deviation_def)

end
