(* ===== verification/Plan_Facts.thy ===== *)
theory Plan_Facts
  imports Lifecycle_Plans Repository_Facts
begin

text \<open>
  What the plans of \<open>Lifecycle_Plans\<close> produce. For every plan: the mutation it returns passes
  \<open>validate_mutation\<close> on the row it was computed from, the events it returns pass the token
  checks of \<open>mutate_jobs\<close>, and the row it leads to is the one the transition is meant to reach.
\<close>

section \<open>Small readers\<close>

lemma need_row_Inr [simp]: "need_row rows jid = Inr j \<longleftrightarrow> rows jid = Some j"
  by (auto simp: need_row_def split: option.splits)

lemma int_of_column_Inr [simp]: "int_of_column c = Inr i \<longleftrightarrow> c = Some i"
  by (auto simp: int_of_column_def split: option.splits)

lemma require_human_Inr [simp]:
  "require_identified_human who jid = Inr u \<longleftrightarrow>
     actor_kind who = HUMAN \<and> actor_role who \<noteq> UNIDENTIFIED"
  by (auto simp: require_identified_human_def)

lemma require_nonblank_Inr [simp]: "require_nonblank s = Inr u \<longleftrightarrow> nonblank s"
  by (auto simp: require_nonblank_def nonblank_def strip_def)

lemma made_event:
  "make_event env k eid jid typ act moment reason run b a md = Inr e \<Longrightarrow>
     ev_job_id e = jid \<and> ev_type e = typ \<and> ev_actor e = act \<and> ev_reason e = reason \<and>
     ev_run_id e = run \<and> ev_metadata e = md \<and> event_ok e"
  by (simp add: make_event_Inr)

text \<open>The mutations of a plan that carry no token, and events that need none.\<close>

definition tokenless :: "job_mutation list \<Rightarrow> job_event list \<Rightarrow> bool" where
  "tokenless ms es \<longleftrightarrow>
     (\<forall>m \<in> set ms. mut_execution m = None \<and> mut_release m = None) \<and>
     (\<forall>e \<in> set es. \<not> is_execution_event e \<and> ev_type e \<noteq> JOB_COMPLETED \<and> ev_type e \<noteq> BLOCK_RELEASED)"

lemma no_tokens:
  "\<forall>m \<in> set ms. mut_execution m = None \<Longrightarrow> execution_tokens ms = []"
  "\<forall>m \<in> set ms. mut_release m = None \<Longrightarrow> release_tokens ms = []"
  by (induction ms rule: rev_induct) (simp_all add: execution_tokens_def release_tokens_def)

lemma tokenless_events_ok:
  "tokenless ms es \<Longrightarrow> validate_execution_events ms es = Inr ()"
  "tokenless ms es \<Longrightarrow> validate_release_events ms es = Inr ()"
  by (auto simp: tokenless_def validate_execution_events_def validate_release_events_def
      no_tokens Let_def bind_res_Inr_iff each_res_Inr_iff)

section \<open>Block edits\<close>

lemma metadata_of_placement [simp]:
  "metadata_of (with_placement b s e run) =
     (let m = fmupd COMMITTED_END_KEY (JInt e) (fmupd COMMITTED_START_KEY (JInt s) (metadata_of b))
      in if run = JNull then fmdrop PROPOSAL_RUN_ID_KEY m else fmupd PROPOSAL_RUN_ID_KEY run m)"
  by (simp add: with_placement_def Let_def)

lemma metadata_of_committed_edit [simp]: "metadata_of (committed_edit b) = metadata_of b"
  by (simp add: committed_edit_def)

lemma metadata_of_without_placement:
  "metadata_of (without_placement b) = fold fmdrop
     [COMMITTED_START_KEY, COMMITTED_END_KEY, PROPOSAL_RUN_ID_KEY, EXECUTION_ID_KEY] (metadata_of b)"
  by (simp add: without_placement_def Let_def)

lemma without_placement_released: "released_block (without_placement b) (None, None)"
  by (simp add: released_block_def release_leftovers_def metadata_of_without_placement)
    (simp add: without_placement_def)

lemma raise_not_before_Inr:
  assumes "raise_not_before b nb h never_lower = Inr (b', earliest, original, widened)"
  shows "nb \<le> earliest" "\<not> never_lower \<Longrightarrow> earliest = nb"
    "never_lower \<Longrightarrow> \<exists>stored. int_of_json (dget_default b ''earliest_start_minute'' (JInt 0)) = Inr stored
        \<and> earliest = max stored nb"
    "dget b' ''earliest_start_minute'' = JInt earliest"
    "dget b' ''latest_end_minute'' = JInt widened" "original \<le> widened" "h \<le> widened"
    "k \<noteq> ''earliest_start_minute'' \<Longrightarrow> k \<noteq> ''latest_end_minute'' \<Longrightarrow> dget b' k = dget b k"
    "metadata_of b' = metadata_of b"
  using assms
  by (auto simp: raise_not_before_def Let_def bind_res_Inr_iff split: if_split_asm)

lemma raise_not_before_released:
  assumes "raise_not_before b nb h nl = Inr (b', x)" "released_block b w"
  shows "released_block b' w"
proof -
  obtain earliest original widened where x: "x = (earliest, original, widened)"
    by (metis prod_cases3)
  note f = raise_not_before_Inr [OF assms(1) [unfolded x]]
  from assms(2) show ?thesis by (simp add: released_block_def f(8,9))
qed

section \<open>Returning a job to reported\<close>

text \<open>Every withdrawal writes this: no placement, a released block, and a reason.\<close>

definition returned :: "job \<Rightarrow> job_mutation \<Rightarrow> bool" where
  "returned j m \<longleftrightarrow>
     mut_job_id m = job_id j \<and> mut_status m = REPORTED \<and> mut_window m = (None, None) \<and>
     released_block (mut_block m) (None, None)"

lemma withdrawn_returned: "mut_job_id base = job_id j \<Longrightarrow> returned j (withdrawn base j reason)"
  by (simp add: returned_def withdrawn_def mut_window_def without_placement_released)

lemma returned_block:
  "returned j m \<Longrightarrow> raise_not_before (mut_block m) nb h nl = Inr (b', x) \<Longrightarrow>
     returned j (m\<lparr>mut_block := b'\<rparr>)"
  using raise_not_before_released by (auto simp: returned_def mut_window_def)

lemma returned_update [simp]:
  "returned j (m\<lparr>mut_execution := t\<rparr>) \<longleftrightarrow> returned j m"
  "returned j (m\<lparr>mut_release := u\<rparr>) \<longleftrightarrow> returned j m"
  by (simp_all add: returned_def mut_window_def)

lemma returned_idle: "returned j m \<Longrightarrow> phase_of (as_job m j) = Some Idle"
  by (simp add: returned_def phase_of_def Let_def)

lemma returned_from_scheduled:
  assumes "returned j m" "job_status j = SCHEDULED" "mut_execution m = None" "mut_release m = None"
  shows "validate_mutation j m = Inr ()"
  using assms
  by (simp add: accepted_simps required_kind_def returned_def mut_window_def job_problems_def)

lemma returned_from_notified:
  assumes "returned j m" "job_status j = NOTIFIED" "job_problems j = []" "mut_execution m = None"
    "mut_release m = Some \<lparr>rel_run_id = run\<rparr>" "proposal_run_id_of j = JStr run"
  shows "validate_mutation j m = Inr ()"
  using assms
  by (simp add: accepted_simps required_kind_def returned_def mut_window_def COMMITTED_TARGETS_def)

lemma returned_from_in_progress:
  assumes "returned j m" "job_status j = IN_PROGRESS" "job_problems j = []"
    "mut_execution m = Some \<lparr>ex_kind = EX_NOT_COMPLETED, ex_id = x\<rparr>" "mut_release m = None"
    "execution_id_of j = JStr x"
  shows "validate_mutation j m = Inr ()"
  using assms
  by (simp add: accepted_simps required_kind_def returned_def mut_window_def COMMITTED_TARGETS_def)

section \<open>Single-job plans\<close>

lemma commit_accepted:
  assumes plan: "plan_commit env (job_id j) who now expected rows = Inr (ms, es)"
    and row: "rows (job_id j) = Some j" "row_ok j"
    and clean: "\<not> dhas (metadata_of (job_block j)) EXECUTION_ID_KEY"
  shows "\<exists>m e. ms = [m] \<and> es = [e] \<and> validate_mutation j m = Inr () \<and> tokenless ms es \<and>
    phase_of (as_job m j) = Some (Pinned (job_window j) (norm_json (proposal_run_id_of j))) \<and>
    ev_type e = BLOCK_COMMITTED \<and> ev_actor e = Live who \<and>
    (\<forall>x. expected = Some x \<longrightarrow> proposal_run_id_of j = JStr x)"
proof -
  let ?m = "(unchanged j)\<lparr>mut_status := NOTIFIED, mut_updated_at := Some now,
              mut_block := committed_edit (job_block j)\<rparr>"
  from plan row(1) obtain e where e: "ms = [?m]" "es = [e]" "ev_type e = BLOCK_COMMITTED"
    "ev_actor e = Live who" and st: "job_status j = SCHEDULED"
    and x: "expected \<noteq> None \<longrightarrow> json_of_str expected = proposal_run_id_of j"
    by (auto simp: plan_commit_def bind_res_Inr_iff Let_def split: if_split_asm dest!: made_event)
  have "valid_window (job_window j)" using row(2) st by (simp add: row_ok_def)
  then have "validate_mutation j ?m = Inr ()"
    using st clean
    by (simp add: accepted_simps required_kind_def unchanged_def job_problems_def
        committed_block_def mut_window_def job_window_def committed_edit_def)
  moreover have "phase_of (as_job ?m j) =
      Some (Pinned (job_window j) (norm_json (proposal_run_id_of j)))"
    by (simp add: phase_of_def Let_def unchanged_def mut_window_def job_window_def
        proposal_run_id_of_def)
  moreover have "tokenless [?m] [e]"
    using e by (simp add: tokenless_def unchanged_def is_execution_event_def)
  moreover have "\<forall>x. expected = Some x \<longrightarrow> proposal_run_id_of j = JStr x" using x by auto
  ultimately show ?thesis using e by blast
qed

lemma reject_accepted:
  assumes plan: "plan_reject env (job_id j) who now reason expected = Inr p"
      "p rows = Inr (ms, es)"
    and row: "rows (job_id j) = Some j"
  shows "\<exists>m e. ms = [m] \<and> es = [e] \<and> validate_mutation j m = Inr () \<and> tokenless ms es \<and>
    returned j m \<and> mut_last_refusal_reason m = Some reason \<and>
    ev_type e = PROPOSAL_REJECTED \<and> ev_reason e = Some reason \<and> ev_actor e = Live who \<and>
    proposal_run_id_of j = JStr expected"
proof -
  let ?m = "withdrawn ((unchanged j)\<lparr>mut_updated_at := Some now\<rparr>) j reason"
  from plan row obtain e where e: "ms = [?m]" "es = [e]" "ev_type e = PROPOSAL_REJECTED"
    "ev_actor e = Live who" "ev_reason e = Some reason" and st: "job_status j = SCHEDULED"
    and x: "proposal_run_id_of j = JStr expected"
    by (auto simp: plan_reject_def review_checks_def bind_res_Inr_iff Let_def
        split: if_split_asm dest!: made_event)
  have r: "returned j ?m" by (simp add: withdrawn_returned unchanged_def)
  then have "validate_mutation j ?m = Inr ()"
    using st by (rule returned_from_scheduled) (simp_all add: withdrawn_def unchanged_def)
  moreover have "tokenless [?m] [e]"
    using e by (simp add: tokenless_def unchanged_def withdrawn_def is_execution_event_def)
  ultimately show ?thesis using e x r by (simp add: withdrawn_def)
qed

lemma postpone_accepted:
  assumes plan: "plan_postpone env (job_id j) who now q = Inr p" "p rows = Inr (ms, es)"
    and row: "rows (job_id j) = Some j"
  shows "\<exists>m e widened. ms = [m] \<and> es = [e] \<and> validate_mutation j m = Inr () \<and>
    tokenless ms es \<and> returned j m \<and>
    dget (mut_block m) ''earliest_start_minute'' = JInt (pp_not_before q) \<and>
    dget (mut_block m) ''latest_end_minute'' = JInt widened \<and>
    pp_not_before q < pp_horizon q \<and> pp_horizon q \<le> widened \<and>
    ev_type e = PROPOSAL_POSTPONED \<and> proposal_run_id_of j = JStr (pp_expected q) \<and>
    ev_actor e = Live who \<and> mut_last_refusal_reason m = Some (pp_reason q)"
proof -
  let ?w = "withdrawn ((unchanged j)\<lparr>mut_updated_at := Some now\<rparr>) j (pp_reason q)"
  from plan row obtain e block earliest original widened where
    e: "ms = [?w\<lparr>mut_block := block\<rparr>]" "es = [e]" "ev_type e = PROPOSAL_POSTPONED"
      "ev_actor e = Live who"
    and st: "job_status j = SCHEDULED" and x: "proposal_run_id_of j = JStr (pp_expected q)"
    and raised: "raise_not_before (mut_block ?w) (pp_not_before q) (pp_horizon q) False =
      Inr (block, earliest, original, widened)"
    and lt: "pp_not_before q < pp_horizon q"
    by (auto simp: plan_postpone_def review_checks_def bind_res_Inr_iff Let_def not_le
        split: if_split_asm prod.split_asm dest!: made_event)
  note f = raise_not_before_Inr [OF raised]
  let ?m = "?w\<lparr>mut_block := block\<rparr>"
  have r: "returned j ?m"
    by (rule returned_block [OF _ raised]) (simp add: withdrawn_returned unchanged_def)
  then have "validate_mutation j ?m = Inr ()"
    using st by (rule returned_from_scheduled) (simp_all add: withdrawn_def unchanged_def)
  moreover have "tokenless [?m] [e]"
    using e by (simp add: tokenless_def unchanged_def withdrawn_def is_execution_event_def)
  moreover have "mut_last_refusal_reason ?m = Some (pp_reason q)" by (simp add: withdrawn_def)
  ultimately show ?thesis using e x r f lt by auto
qed

lemma release_accepted:
  assumes plan: "plan_release env (job_id j) who now reason expected horizon = Inr p"
      "p rows = Inr (ms, es)"
    and row: "rows (job_id j) = Some j"
  shows "\<exists>m e earliest s w. ms = [m] \<and> es = [e] \<and> validate_mutation j m = Inr () \<and>
    validate_execution_events ms es = Inr () \<and> validate_release_events ms es = Inr () \<and>
    returned j m \<and> job_window j = (Some s, Some w) \<and> w \<le> earliest \<and>
    dget (mut_block m) ''earliest_start_minute'' = JInt earliest \<and>
    (\<forall>stored. int_of_json (dget_default (job_block j) ''earliest_start_minute'' (JInt 0)) = Inr stored
       \<longrightarrow> stored \<le> earliest) \<and>
    ev_type e = BLOCK_RELEASED \<and> proposal_run_id_of j = JStr expected \<and>
    ev_actor e = Live who \<and> mut_last_refusal_reason m = Some reason"
proof -
  let ?w = "withdrawn ((unchanged j)\<lparr>mut_updated_at := Some now\<rparr>) j reason"
  let ?t = "\<lparr>rel_run_id = expected\<rparr>"
  from plan row obtain e block earliest original widened released_end previous token where
    e0: "ms = [?w\<lparr>mut_block := block, mut_release := Some token\<rparr>]" "es = [e]"
    and made: "ev_type e = BLOCK_RELEASED" "ev_job_id e = job_id j"
      "ev_actor e = Live who"
      "ev_metadata e = release_metadata j expected previous earliest original widened"
    and st: "job_status j = NOTIFIED" "job_problems j = []"
    and x0: "JStr expected = proposal_run_id_of j" and fin: "job_end j = Some released_end"
    and token: "make_authority_release (proposal_run_id_of j) = Inr token"
    and raised: "raise_not_before (mut_block ?w) released_end horizon True =
      Inr (block, earliest, original, widened)"
    by (auto simp: plan_release_def bind_res_Inr_iff Let_def assert_consistent_iff
        split: if_split_asm prod.split_asm dest!: made_event)
  note x = x0 [symmetric]
  from token x have "token = ?t" by (simp add: make_authority_release_def split: if_split_asm)
  with e0 have e: "ms = [?w\<lparr>mut_block := block, mut_release := Some ?t\<rparr>]" "es = [e]" by simp_all
  have named: "dget (ev_metadata e) RELEASED_RUN_ID_KEY = JStr expected"
    using x by (simp add: made(4) release_metadata_def dict_of_def RELEASED_RUN_ID_KEY_def)
  note f = raise_not_before_Inr [OF raised]
  let ?m = "?w\<lparr>mut_block := block, mut_release := Some ?t\<rparr>"
  have r: "returned j ?m"
    by (simp, rule returned_block [OF _ raised]) (simp add: withdrawn_returned unchanged_def)
  then have ok: "validate_mutation j ?m = Inr ()"
    using st by (rule returned_from_notified) (simp_all add: withdrawn_def unchanged_def x)
  have "valid_window (job_window j)"
    using st by (simp add: job_problems_def committed_state_problems_Nil_iff committed_block_def)
  then obtain s where s: "job_window j = (Some s, Some released_end)"
    using fin by (auto simp: valid_window_iff job_window_def)
  have "dget_default (mut_block ?w) ''earliest_start_minute'' (JInt 0) =
      dget_default (job_block j) ''earliest_start_minute'' (JInt 0)"
    by (simp add: withdrawn_def without_placement_def dget_default_def Let_def)
  with f(3) have keep: "int_of_json (dget_default (job_block j) ''earliest_start_minute'' (JInt 0)) =
      Inr stored \<Longrightarrow> stored \<le> earliest" for stored
    by auto
  have "validate_release_events [?m] [e] = Inr ()"
    using made named by (simp add: validate_release_events_def release_tokens_def Let_def
        names_release_def withdrawn_def unchanged_def)
  moreover have "validate_execution_events [?m] [e] = Inr ()"
    using made by (simp add: validate_execution_events_def execution_tokens_def Let_def
        withdrawn_def unchanged_def is_execution_event_def)
  ultimately show ?thesis
    using e made(1,3) x r ok s keep f(1,4)
    by (intro exI [of _ ?m] exI [of _ e] exI [of _ earliest] exI [of _ s] exI [of _ released_end])
      (simp add: withdrawn_def)
qed

section \<open>Batch plans\<close>

text \<open>A mutation that changes neither status, placement nor block.\<close>

definition untouched :: "job \<Rightarrow> job_mutation \<Rightarrow> bool" where
  "untouched j m \<longleftrightarrow>
     mut_job_id m = job_id j \<and> mut_status m = job_status j \<and> mut_window m = job_window j \<and>
     mut_block m = job_block j \<and> mut_execution m = None \<and> mut_release m = None"

lemma untouched_accepted:
  assumes "untouched j m" "row_ok j" "job_status j \<noteq> COMPLETED"
  shows "validate_mutation j m = Inr ()"
  using assms
  by (auto simp: accepted_simps required_kind_def untouched_def row_ok_def job_problems_def
      committed_block_def mut_window_def job_window_def COMMITTED_TARGETS_def)

text \<open>What the optimizer may do to a job: leave it, propose a placement, or withdraw one.\<close>

definition proposes :: "job \<Rightarrow> job_mutation \<Rightarrow> bool" where
  "proposes j m \<longleftrightarrow>
     mut_job_id m = job_id j \<and> mut_status m = SCHEDULED \<and> valid_window (mut_window m) \<and>
     mut_execution m = None \<and> mut_release m = None \<and>
     job_status j \<in> {REPORTED, SCHEDULED}"

lemma proposes_accepted: "proposes j m \<Longrightarrow> validate_mutation j m = Inr ()"
  by (auto simp: accepted_simps required_kind_def proposes_def job_problems_def mut_window_def)

definition planned :: "job \<Rightarrow> job_mutation \<Rightarrow> bool" where
  "planned j m \<longleftrightarrow>
     untouched j m \<or> proposes j m \<or>
     (job_status j = SCHEDULED \<and> returned j m \<and> mut_execution m = None \<and> mut_release m = None)"

lemma planned_accepted:
  "planned j m \<Longrightarrow> row_ok j \<Longrightarrow> job_status j \<noteq> COMPLETED \<Longrightarrow> validate_mutation j m = Inr ()"
  using untouched_accepted proposes_accepted returned_from_scheduled by (auto simp: planned_def)

lemma planned_committed:
  "planned j m \<Longrightarrow> job_status j \<in> {NOTIFIED, IN_PROGRESS} \<Longrightarrow> untouched j m"
  by (auto simp: planned_def proposes_def)

lemma planned_tokens: "planned j m \<Longrightarrow> mut_execution m = None \<and> mut_release m = None"
  by (auto simp: planned_def proposes_def untouched_def)

lemma planned_id: "planned j m \<Longrightarrow> mut_job_id m = job_id j"
  by (auto simp: planned_def proposes_def untouched_def returned_def)

text \<open>Placements as the solver returns them: the end after the start.\<close>

definition sound_placement :: "dict \<Rightarrow> bool" where
  "sound_placement p \<longleftrightarrow>
     (\<forall>s e. int_of_json (dget p ''start_minute'') = Inr s \<longrightarrow>
        int_of_json (dget p ''end_minute'') = Inr e \<longrightarrow> s < e)"

lemma need_dget: "need d k = Inr v \<Longrightarrow> dget d k = v"
  by (auto simp: need_def dget_def split: option.splits)

definition quiet :: "outcome \<Rightarrow> bool" where
  "quiet f \<longleftrightarrow> (\<forall>k a e. f k a = Inr e \<longrightarrow>
     \<not> is_execution_event e \<and> ev_type e \<noteq> JOB_COMPLETED \<and> ev_type e \<noteq> BLOCK_RELEASED)"

lemma quiet_make_event:
  "typ \<notin> {EXECUTION_STARTED, EXECUTION_COMPLETED, EXECUTION_NOT_COMPLETED, JOB_COMPLETED, BLOCK_RELEASED}
   \<Longrightarrow> quiet (\<lambda>k a. make_event env k i jid typ act moment reason run b (Some a) md)"
  by (auto simp: quiet_def is_execution_event_def dest!: made_event)

lemma unchanged_base:
  "untouched j ((unchanged j)\<lparr>mut_updated_at := a, mut_last_solver_status := b\<rparr>)"
  by (simp add: untouched_def unchanged_def mut_window_def job_window_def)

lemma untouched_reason [simp]:
  "untouched j (m\<lparr>mut_last_refusal_reason := x\<rparr>) = untouched j m"
  by (simp add: untouched_def mut_window_def)

lemma plan_placement_planned:
  assumes "plan_placement env j base p a t st ex = Inr (m, f)" "untouched j base"
    "sound_placement p" "row_ok j" "job_status j \<noteq> COMPLETED"
  shows "planned j m \<and> quiet f"
proof -
  from assms(1) obtain s e where
    needed: "bind_res (need p ''start_minute'') int_of_json = Inr s"
      "bind_res (need p ''end_minute'') int_of_json = Inr e"
    by (cases "bind_res (need p ''start_minute'') int_of_json";
        cases "bind_res (need p ''end_minute'') int_of_json") (simp_all add: plan_placement_def)
  then have "int_of_json (dget p ''start_minute'') = Inr s"
    "int_of_json (dget p ''end_minute'') = Inr e"
    by (auto simp: bind_res_Inr_iff dest: need_dget)
  with assms(3) have lt: "s < e" by (simp add: sound_placement_def)
  show ?thesis
  proof (cases "job_status j \<in> set COMMITTED_STATUSES")
    case True
    with assms(1) needed have "m = base\<lparr>mut_last_refusal_reason := None\<rparr>" "quiet f"
      by (auto simp: plan_placement_def Let_def split: if_split_asm intro!: quiet_make_event)
    with assms(2) show ?thesis by (simp add: planned_def)
  next
    case False
    with assms(1) needed have "m = base\<lparr>mut_status := SCHEDULED, mut_start := Some s,
        mut_end := Some e, mut_last_refusal_reason := None,
        mut_block := with_placement (job_block j) s e (attempt_run a)\<rparr>" "quiet f"
      by (auto simp: plan_placement_def Let_def split: if_split_asm intro!: quiet_make_event)
    moreover have "job_status j \<in> {REPORTED, SCHEDULED}"
      using False assms(4,5) by (auto simp: row_ok_def)
    ultimately show ?thesis
      using assms(2) lt by (simp add: planned_def proposes_def untouched_def mut_window_def)
  qed
qed

lemma plan_refusal_planned:
  assumes "plan_refusal env j base reason a t st = (m, f)" "untouched j base"
  shows "planned j m \<and> quiet f"
  using assms withdrawn_returned [of base j reason]
  by (auto simp: plan_refusal_def Let_def planned_def untouched_def withdrawn_def mut_window_def
      split: if_split_asm intro!: quiet_make_event)

lemma outcome_step_planned:
  assumes step: "outcome_step env r n rows k jid = Inr (m, es)" and row: "rows jid = Some j"
    and ok: "row_ok j" "job_status j \<noteq> COMPLETED" "job_id j = jid"
    and sound: "\<forall>p. fmlookup (or_placements r) jid = Some p \<longrightarrow> sound_placement p"
  shows "planned j m \<and> tokenless [m] es"
proof -
  let ?base = "(unchanged j)\<lparr>mut_updated_at := Some (or_completed_at r),
                              mut_last_solver_status := Some (or_solver_status r)\<rparr>"
  from step row obtain f where choice: "outcome_choice env r j ?base = Inr (m, f)"
    and ev: "outcome_events env r n k j m f = Inr es"
    by (auto simp: outcome_step_def bind_res_Inr_iff Let_def split: if_split_asm)
  from choice sound ok have q: "planned j m \<and> quiet f"
    using plan_placement_planned [OF _ unchanged_base] plan_refusal_planned [OF _ unchanged_base]
    by (auto simp: outcome_choice_def Let_def split: option.split_asm)
  from ev have "es = [] \<or> (\<exists>e1 e2 e3 a. es = [e1, e2, e3] \<and> ev_type e1 = OPTIMIZATION_REQUESTED \<and>
        ev_type e2 = OPTIMIZATION_COMPLETED \<and> f (k + 2) a = Inr e3)"
    by (auto simp: outcome_events_def bind_res_Inr_iff Let_def requested_event_def
        split: if_split_asm option.split_asm dest!: made_event)
  with q have "tokenless [m] es"
    using planned_tokens [of j m] by (auto simp: tokenless_def quiet_def is_execution_event_def)
  with q show ?thesis by blast
qed

lemma tokenless_append:
  "tokenless (ms @ ms') (es @ es') \<longleftrightarrow> tokenless ms es \<and> tokenless ms' es'"
  by (auto simp: tokenless_def)

lemma tokenless_Cons: "tokenless [m] es \<Longrightarrow> tokenless ms es' \<Longrightarrow> tokenless (m # ms) (es @ es')"
  by (auto simp: tokenless_def)

lemma outcome_loop_planned:
  assumes "outcome_loop (outcome_step env r n rows) k jids = Inr (ms, es)"
    and "\<forall>jid \<in> set jids. \<forall>j. rows jid = Some j \<longrightarrow>
      row_ok j \<and> job_status j \<noteq> COMPLETED \<and> job_id j = jid"
    and "\<forall>jid \<in> set jids. \<forall>p. fmlookup (or_placements r) jid = Some p \<longrightarrow> sound_placement p"
  shows "tokenless ms es \<and> list_all2 (\<lambda>jid m. \<exists>j. rows jid = Some j \<and> planned j m) jids ms"
  using assms
proof (induction jids arbitrary: k ms es)
  case Nil
  then show ?case by (simp add: tokenless_def)
next
  case (Cons jid jids)
  from Cons.prems(1) obtain m es1 ms' es' where
    st: "outcome_step env r n rows k jid = Inr (m, es1)"
    and lp: "outcome_loop (outcome_step env r n rows) (k + 3) jids = Inr (ms', es')"
    and ms: "ms = m # ms'" "es = es1 @ es'"
    by (auto simp: bind_res_Inr_iff split: prod.splits)
  from st obtain j where row: "rows jid = Some j" by (auto simp: outcome_step_def bind_res_Inr_iff)
  with Cons.prems(2,3) have "planned j m \<and> tokenless [m] es1"
    by (intro outcome_step_planned [OF st row]) simp_all
  moreover from Cons.IH [OF lp] Cons.prems(2,3) have
    "tokenless ms' es' \<and> list_all2 (\<lambda>jid m. \<exists>j. rows jid = Some j \<and> planned j m) jids ms'"
    by simp
  ultimately show ?case using row by (simp add: ms tokenless_Cons)
qed

lemma failure_step_planned:
  assumes "failure_step env a t reason lbl rows k jid = Inr (ms, es)" "rows jid = Some j"
  shows "tokenless ms es \<and> (if job_status j = COMPLETED then ms = [] else
    \<exists>m. ms = [m] \<and> planned j m \<and> mut_status m \<noteq> SCHEDULED \<and> mut_last_refusal_reason m = Some reason)"
proof -
  let ?b = "(unchanged j)\<lparr>mut_updated_at := Some t, mut_last_solver_status := Some lbl,
      mut_last_refusal_reason := Some reason\<rparr>"
  have b: "untouched j ?b" "returned j (withdrawn ?b j reason)"
    by (simp_all add: unchanged_base) (simp add: withdrawn_returned unchanged_def)
  from assms have "(job_status j = COMPLETED \<and> ms = [] \<and> es = []) \<or>
    (job_status j \<noteq> COMPLETED \<and> ms = [if job_status j = SCHEDULED then withdrawn ?b j reason else ?b] \<and>
      (\<forall>e \<in> set es. ev_type e \<in> {OPTIMIZATION_REQUESTED, OPTIMIZATION_FAILED, PROPOSAL_INVALIDATED}))"
    by (auto simp: failure_step_def bind_res_Inr_iff Let_def requested_event_def
        split: if_split_asm option.split_asm dest!: made_event)
  then show ?thesis
  proof
    assume h: "job_status j \<noteq> COMPLETED \<and>
      ms = [if job_status j = SCHEDULED then withdrawn ?b j reason else ?b] \<and>
      (\<forall>e \<in> set es. ev_type e \<in> {OPTIMIZATION_REQUESTED, OPTIMIZATION_FAILED, PROPOSAL_INVALIDATED})"
    have "mut_execution (withdrawn ?b j reason) = None" "mut_release (withdrawn ?b j reason) = None"
      "mut_execution ?b = None" "mut_release ?b = None"
      by (simp_all add: withdrawn_def unchanged_def)
    with h b show ?thesis
      by (auto simp: tokenless_def is_execution_event_def planned_def withdrawn_def unchanged_def)
  qed (simp add: tokenless_def)
qed

end
