(* ===== verification/Execution_Plan_Facts.thy ===== *)
theory Execution_Plan_Facts
  imports Execution_Plans Execution_Facts Plan_Facts
begin

text \<open>
  What the execution plans produce: the mutation passes the guards, the event passes the
  token checks of \<open>mutate_jobs\<close>, and reading the history with that event appended gives the
  records the plan was given, extended or closed by exactly the execution the plan describes.
\<close>

section \<open>Dictionary displays\<close>

lemma dget_dict_of_Nil [simp]: "dget (dict_of []) k = JNull"
  by (simp add: dict_of_def)

lemma dict_of_snoc: "dict_of (kvs @ [(k, v)]) = fmupd k v (dict_of kvs)"
  by (simp add: dict_of_def)

section \<open>The start plan, taken apart\<close>

lemma start_checks_Inr:
  assumes "start_checks j who r = Inr ()"
  shows "job_problems j = []" "job_status j = NOTIFIED" "actor_kind who = HUMAN"
    "actor_role who \<noteq> UNIDENTIFIED" "nonblank (xs_expected r)" "xs_expected r \<noteq> []"
    "proposal_run_id_of j = JStr (xs_expected r)" "is_execution_id (xs_execution_id r)"
    "\<forall>q \<in> set (xs_previous r). \<not> previous_conflict (job_id j) r (JStr (xs_expected r)) q"
  using assms
  by (auto simp: start_checks_def bind_res_Inr_iff assert_consistent_iff
      require_identified_human_def require_nonblank_def list_ex_iff split: if_split_asm)

lemma observe_start_Inr:
  assumes "observe_start r now = Inr (t, ev)"
  shows "parse_observed_at (xs_actual_start r) = Inr t \<and> ev = xs_evidence r \<and> ev \<noteq> []"
  using assms
  by (auto simp: observe_start_def validate_evidence_set_def Let_def bind_res_Inr_iff
      split: if_split_asm)

lemma observations_Inr [simp]: "observations r = Inr x \<longleftrightarrow> r = Inr x"
  by (auto simp: observations_def split: sum.splits py_error.splits)

lemma make_execution_transition_Inr [simp]:
  "make_execution_transition k x = Inr t \<longleftrightarrow> nonblank x \<and> t = \<lparr>ex_kind = k, ex_id = x\<rparr>"
  by (auto simp: make_execution_transition_def)

lemma plan_execution_start_Inr:
  assumes "plan_execution_start env sha hex jid who now r rows = Inr (ms, es)"
  obtains j t minute s e digest start_at ev where
    "rows jid = Some j" "start_checks j who r = Inr ()"
    "parse_observed_at (xs_actual_start r) = Inr t" "xs_evidence r \<noteq> []"
    "observed_minute t (xs_horizon_start r) False = Inr minute"
    "job_start j = Some s" "job_end j = Some e"
    "committed_block_digest sha j (xs_corridor r) (xs_expected r) = Inr digest"
    "canonical_observed_at t = Inr start_at"
    "ms = [started_mutation j (xs_execution_id r)
       \<lparr>ex_kind = EX_START, ex_id = xs_execution_id r\<rparr> now]" "es = [ev]"
    "ev_job_id ev = jid" "ev_type ev = EXECUTION_STARTED" "ev_actor ev = Live who"
    "ev_run_id ev = proposal_run_id_of j"
    "ev_metadata ev = start_metadata j r s e digest start_at minute
       (record_evidence hex 0 (xs_evidence r) BEFORE_WORK)"
  using assms
  unfolding plan_execution_start_def
  by (auto simp: bind_res_Inr_iff Let_def split: prod.splits
      dest!: made_event observe_start_Inr)

section \<open>The start event is read back\<close>

text \<open>A section identifier the reader takes: absent or a text that says something.\<close>

definition readable_section :: "json \<Rightarrow> bool" where
  "readable_section v \<longleftrightarrow> v = JNull \<or> (\<exists>s. v = JStr s \<and> s \<noteq> [])"

fun section_of :: "json \<Rightarrow> string option" where
  "section_of (JStr s) = Some s"
| "section_of _ = None"

lemma rd_str_option_has:
  assumes "dhas (ev_metadata e) k" "dget (ev_metadata e) k = v" "readable_section v"
  shows "rd_str_option (jid, e) k = Inr (section_of v)"
  using assms
  by (auto simp: rd_str_option_def rd_get_def dget_def dhas_def readable_section_def
      split: option.splits)

lemma start_metadata_reads:
  assumes md_def: "md = start_metadata j r s e digest start_at minute evidence"
  shows "dget md EXECUTION_ID_KEY = JStr (xs_execution_id r)"
    "dget md ''attempt_number'' = JInt (int (length (xs_previous r)) + 1)"
    "dget md ''optimization_run_id'' = proposal_run_id_of j"
    "dget md ''proposal_id'' = JStr (proposal_id_for (xs_expected r) (job_id j))"
    "dget md ''track_id'' = JStr (job_track_id j)"
    "dhas md ''section_id''" "dget md ''section_id'' = dget (job_block j) ''section_id''"
    "dget md ''planned_start_minute'' = JInt s" "dget md ''planned_end_minute'' = JInt e"
    "dget md ''committed_block_digest'' = JStr digest"
    "dget md ''actual_start_at'' = JStr start_at"
    "dget md ''actual_start_minute'' = JInt minute"
    "dget md ''before_work_evidence'' = json_of_evidence evidence"
    "dget md ''deviations'' = JObj (dict_of [(''started_before_planned_start'', JBool (minute < s))])"
  by (simp_all add: md_def start_metadata_def dict_of_def EXECUTION_ID_KEY_def)

lemma proposal_id_for_Nil [simp]: "proposal_id_for a b \<noteq> []"
  by (simp add: proposal_id_for_def)

lemma is_execution_id_Nil [simp]: "is_execution_id x \<Longrightarrow> x \<noteq> []"
  by (auto simp: is_execution_id_def anchored_def id_with_prefix_def hex32_def)

definition opened_record ::
  "job \<Rightarrow> start_request \<Rightarrow> actor \<Rightarrow> string \<Rightarrow> int \<Rightarrow> int \<Rightarrow> string \<Rightarrow> string \<Rightarrow> int \<Rightarrow>
   recorded_evidence list \<Rightarrow> execution_record" where
  "opened_record j r who now s e digest start_at minute evidence =
     \<lparr>xr_execution_id = xs_execution_id r, xr_job_id = job_id j,
      xr_attempt_number = int (length (xs_previous r)) + 1, xr_run_id = xs_expected r,
      xr_proposal_id = proposal_id_for (xs_expected r) (job_id j),
      xr_track_id = job_track_id j, xr_section_id = section_of (dget (job_block j) ''section_id''),
      xr_planned_start = s, xr_planned_end = e, xr_digest = digest,
      xr_status = Exec_Started, xr_started_by = event_actor_to_dict (Live who),
      xr_started_recorded_at = now, xr_actual_start_at = start_at,
      xr_actual_start_minute = minute, xr_before_work = evidence, xr_ended_by = None,
      xr_ended_recorded_at = None, xr_actual_end_at = None, xr_actual_end_minute = None,
      xr_after_work = [], xr_not_completed_reason = None, xr_failure = [],
      xr_started_before_planned = (minute < s), xr_ended_after_planned = None\<rparr>"

lemma started_reads:
  assumes md: "ev_metadata ev = start_metadata j r s e digest start_at minute evidence"
    and act: "ev_actor ev = Live who"
    and evd: "\<forall>x \<in> set evidence. item_ok (rev_item x) \<and> is_evidence_id (rev_id x) \<and>
      rev_phase x = BEFORE_WORK" "evidence \<noteq> []"
    and canon: "canonical start_at d"
    and win: "s < e" and digest: "digest \<noteq> []" and track: "job_track_id j \<noteq> []"
    and sect: "readable_section (dget (job_block j) ''section_id'')"
    and fresh_id: "xs_execution_id r \<notin> xr_execution_id ` set (xs_previous r)"
    and free: "\<forall>q \<in> set (xs_previous r). \<not> blocks_start (xs_expected r) q"
  shows "started (job_id j, ev) (xs_execution_id r) (xs_expected r) (xs_previous r) =
    Inr (opened_record j r who (ev_occurred_at ev) s e digest start_at minute evidence)"
proof -
  note reads = start_metadata_reads [OF md]
  have "rd_deviation (job_id j, ev) ''started_before_planned_start'' = Inr (minute < s)"
    by (rule rd_deviation_dget [OF reads(14)]) (simp add: dict_of_def)
  moreover have "rd_evidence (job_id j, ev) ''before_work_evidence'' BEFORE_WORK = Inr evidence"
    by (rule rd_evidence_dget [OF reads(13) evd(1)])
  moreover have "\<not> list_ex (blocks_start (xs_expected r)) (xs_previous r)"
    using free by (simp add: list_ex_iff)
  ultimately show ?thesis
    using fresh_id evd(2) win track digest act
    by (simp add: started_def opened_record_def rd_int_dget reads rd_str_dget
        rd_str_option_has [OF reads(6,7) sect] rd_timestamp_dget [OF reads(11) canon])
qed

lemma read_started_event:
  assumes st: "started (job_id j, ev) x run rs = Inr q"
    and ev: "ev_type ev = EXECUTION_STARTED" "ev_job_id ev = job_id j" "ev_run_id ev = JStr run"
      "run \<noteq> []" "is_execution_id x"
    and md: "dget (ev_metadata ev) EXECUTION_ID_KEY = JStr x"
      "dget (ev_metadata ev) ''optimization_run_id'' = JStr run"
      "dget (ev_metadata ev) ''proposal_id'' = JStr (proposal_id_for run (job_id j))"
  shows "read_event (job_id j) ev rs = Inr (rs @ [q])"
  using assms
  by (simp add: read_event_def record_types_def Let_def rd_str_dget)

section \<open>Guards\<close>

lemma metadata_of_job_problems:
  "job_problems j = [] \<Longrightarrow> job_status j = NOTIFIED \<Longrightarrow>
     committed_block (job_block j) (job_window j) \<and> \<not> dhas (metadata_of (job_block j)) EXECUTION_ID_KEY"
  by (simp add: job_problems_def committed_state_problems_Nil_iff)

lemma started_accepted:
  assumes "job_problems j = []" "job_status j = NOTIFIED" "x \<noteq> []"
  shows "validate_mutation j (started_mutation j x \<lparr>ex_kind = EX_START, ex_id = x\<rparr> now) = Inr ()"
  using assms metadata_of_job_problems [OF assms(1,2)]
  by (simp add: accepted_simps required_kind_def started_mutation_def unchanged_def
      committed_block_def preserved_keys_def mut_window_def job_window_def COMMITTED_TARGETS_def)

text \<open>One mutation with a token and the one event that names it.\<close>

lemma validate_execution_events_single:
  assumes "mut_execution m = Some t" "ev_job_id e = mut_job_id m" "names_execution e t"
    "ev_type e = EXECUTION_COMPLETED \<longrightarrow> truthy (dget (ev_metadata e) ''after_work_evidence'')"
  shows "validate_execution_events [m] [e] = Inr ()"
proof -
  have "ev_type e \<noteq> JOB_COMPLETED"
    using assms(3) by (cases "ex_kind t") (simp_all add: names_execution_def)
  with assms show ?thesis
    by (auto simp: validate_execution_events_def execution_tokens_def Let_def)
qed

lemma validate_release_events_none:
  "mut_release m = None \<Longrightarrow> ev_type e \<noteq> BLOCK_RELEASED \<Longrightarrow> validate_release_events [m] [e] = Inr ()"
  by (simp add: validate_release_events_def release_tokens_def Let_def)

lemma committed_block_digest_nonempty:
  "committed_block_digest sha j c run = Inr digest \<Longrightarrow> \<forall>d. sha d \<noteq> [] \<Longrightarrow> digest \<noteq> []"
  by (auto simp: committed_block_digest_def block_identity_digest_def bind_res_Inr_iff)

lemma execution_id_after_start:
  "execution_id_of (as_job (started_mutation j x t now) j) = JStr x"
  by (simp add: execution_id_of_def started_mutation_def)

lemma build_append:
  assumes "build_execution_records j h = Inr rs" "job_id j' = job_id j"
    "read_event (job_id j) e rs = Inr rs'" "check_open j' rs' = Inr ()"
  shows "build_execution_records j' (h @ [e]) = Inr rs'"
  using assms by (auto simp: build_execution_records_def bind_res_Inr_iff read_events_append)

lemma start_event_read:
  assumes chk: "start_checks j who r = Inr ()"
    and undone: "\<forall>q \<in> set (xs_previous r). xr_status q \<noteq> Exec_Completed"
    and ev: "ev_job_id ev = job_id j" "ev_type ev = EXECUTION_STARTED" "ev_actor ev = Live who"
      "ev_run_id ev = proposal_run_id_of j"
    and md: "ev_metadata ev = start_metadata j r s e digest start_at minute evidence"
    and evd: "\<forall>x \<in> set evidence. item_ok (rev_item x) \<and> is_evidence_id (rev_id x) \<and>
      rev_phase x = BEFORE_WORK" "evidence \<noteq> []"
    and rest: "canonical start_at d" "s < e" "digest \<noteq> []" "job_track_id j \<noteq> []"
      "readable_section (dget (job_block j) ''section_id'')"
  shows "read_event (job_id j) ev (xs_previous r) = Inr (xs_previous r @
    [opened_record j r who (ev_occurred_at ev) s e digest start_at minute evidence])"
proof -
  note c = start_checks_Inr [OF chk]
  note reads = start_metadata_reads [OF md]
  have "xs_execution_id r \<notin> xr_execution_id ` set (xs_previous r)"
    using c(9) by (auto simp: previous_conflict_def)
  moreover have "\<forall>q \<in> set (xs_previous r). \<not> blocks_start (xs_expected r) q"
    using c(9) undone by (auto simp: previous_conflict_def blocks_start_def is_open_def)
  ultimately have "started (job_id j, ev) (xs_execution_id r) (xs_expected r) (xs_previous r) =
    Inr (opened_record j r who (ev_occurred_at ev) s e digest start_at minute evidence)"
    by (rule started_reads [OF md ev(3) evd rest])
  then show ?thesis
    using ev c(6,7,8) reads by (intro read_started_event) simp_all
qed

lemma start_guarded:
  assumes chk: "start_checks j who r = Inr ()"
    and ev: "ev_job_id ev = job_id j" "ev_type ev = EXECUTION_STARTED"
      "dget (ev_metadata ev) EXECUTION_ID_KEY = JStr (xs_execution_id r)"
    and m: "m = started_mutation j (xs_execution_id r)
      \<lparr>ex_kind = EX_START, ex_id = xs_execution_id r\<rparr> now"
  shows "validate_mutation j m = Inr ()" "validate_execution_events [m] [ev] = Inr ()"
    "validate_release_events [m] [ev] = Inr ()"
proof -
  note c = start_checks_Inr [OF chk]
  show "validate_mutation j m = Inr ()"
    using c(8) unfolding m by (intro started_accepted [OF c(1,2)]) simp
  show "validate_execution_events [m] [ev] = Inr ()"
    using ev by (intro validate_execution_events_single
        [where t = "\<lparr>ex_kind = EX_START, ex_id = xs_execution_id r\<rparr>"])
      (simp_all add: m started_mutation_def unchanged_def names_execution_def)
  show "validate_release_events [m] [ev] = Inr ()"
    using ev by (intro validate_release_events_none)
      (simp_all add: m started_mutation_def unchanged_def)
qed

lemma check_open_started:
  assumes "start_checks j who r = Inr ()" "is_open q" "xr_execution_id q = xs_execution_id r"
  shows "check_open (as_job (started_mutation j (xs_execution_id r) t now) j)
    (xs_previous r @ [q]) = Inr ()"
proof -
  have "filter is_open (xs_previous r) = []"
    using start_checks_Inr(9) [OF assms(1)] by (auto simp: filter_empty_conv previous_conflict_def)
  then show ?thesis
    using assms(2,3) by (simp add: check_open_iff execution_id_after_start)
      (simp add: started_mutation_def)
qed

text \<open>
  What the history says of an execution once it has been started: the earlier executions, and
  this one, open, at the approved window, with the evidence that was submitted.
\<close>

definition start_recorded :: "job \<Rightarrow> start_request \<Rightarrow> execution_record list \<Rightarrow> bool" where
  "start_recorded j r rs \<longleftrightarrow>
     (\<exists>q. rs = xs_previous r @ [q] \<and> xr_execution_id q = xs_execution_id r \<and> is_open q \<and>
        map rev_item (xr_before_work q) = xs_evidence r \<and>
        job_window j = (Some (xr_planned_start q), Some (xr_planned_end q)))"

lemma execution_start_recorded:
  assumes plan: "plan_execution_start env sha hex (job_id j) who now r rows = Inr (ms, es)"
    and row: "rows (job_id j) = Some j"
    and hist: "build_execution_records j h = Inr (xs_previous r)"
    and undone: "\<forall>q \<in> set (xs_previous r). xr_status q \<noteq> Exec_Completed"
    and items: "\<forall>i \<in> set (xs_evidence r). item_ok i"
    and uuid: "\<forall>k. hex32 (hex k)" and sha: "\<forall>d. sha d \<noteq> []"
    and readable: "job_track_id j \<noteq> []" "readable_section (dget (job_block j) ''section_id'')"
  shows "\<exists>m rs. ms = [m] \<and> validate_mutation j m = Inr () \<and>
    validate_execution_events ms es = Inr () \<and> validate_release_events ms es = Inr () \<and>
    build_execution_records (as_job m j) (h @ es) = Inr rs \<and> start_recorded j r rs"
  using plan
proof (rule plan_execution_start_Inr)
  fix j0 t minute s e digest start_at ev
  assume "rows (job_id j) = Some j0" and chk0: "start_checks j0 who r = Inr ()"
    and evid: "xs_evidence r \<noteq> []"
    and se0: "job_start j0 = Some s" "job_end j0 = Some e"
    and digest: "committed_block_digest sha j0 (xs_corridor r) (xs_expected r) = Inr digest"
    and canon: "canonical_observed_at t = Inr start_at"
    and ms0: "ms = [started_mutation j0 (xs_execution_id r)
       \<lparr>ex_kind = EX_START, ex_id = xs_execution_id r\<rparr> now]" and es: "es = [ev]"
    and ev: "ev_job_id ev = job_id j" "ev_type ev = EXECUTION_STARTED" "ev_actor ev = Live who"
    and run0: "ev_run_id ev = proposal_run_id_of j0"
    and md0: "ev_metadata ev = start_metadata j0 r s e digest start_at minute
       (record_evidence hex 0 (xs_evidence r) BEFORE_WORK)"
  from \<open>rows (job_id j) = Some j0\<close> row have "j0 = j" by simp
  note chk = chk0 [unfolded this] and se = se0 [unfolded this] and ms = ms0 [unfolded this]
    and run = run0 [unfolded this] and md = md0 [unfolded this]
  let ?evd = "record_evidence hex 0 (xs_evidence r) BEFORE_WORK"
  let ?q = "opened_record j r who (ev_occurred_at ev) s e digest start_at minute ?evd"
  let ?m = "started_mutation j (xs_execution_id r) \<lparr>ex_kind = EX_START, ex_id = xs_execution_id r\<rparr> now"
  have "valid_window (job_window j)"
    using metadata_of_job_problems start_checks_Inr(1,2) [OF chk] by (simp add: committed_block_def)
  then have win: "s < e" using se by (simp add: job_window_def)
  have "read_event (job_id j) ev (xs_previous r) = Inr (xs_previous r @ [?q])"
    using evid win readable
    by (intro start_event_read [OF chk undone ev run md record_evidence_ok [OF items uuid] _
          canonical_observed_at_canonical [OF canon] _ committed_block_digest_nonempty [OF digest sha]])
      simp_all
  moreover have "check_open (as_job ?m j) (xs_previous r @ [?q]) = Inr ()"
    by (rule check_open_started [OF chk]) (simp_all add: opened_record_def is_open_def)
  ultimately have "build_execution_records (as_job ?m j) (h @ es) = Inr (xs_previous r @ [?q])"
    unfolding es by (intro build_append [OF hist]) simp_all
  moreover have "start_recorded j r (xs_previous r @ [?q])"
    using se by (simp add: start_recorded_def opened_record_def is_open_def job_window_def)
  moreover note start_guarded [OF chk ev(1,2) start_metadata_reads(1) [OF md] refl, of now]
  ultimately show ?thesis using ms es by auto
qed

section \<open>Outcomes are read back\<close>

lemma open_execution_checks_Inr:
  assumes "open_execution_checks sha j x q corridor = Inr digest"
  shows "job_problems j = [] \<and> job_status j = IN_PROGRESS \<and> execution_id_of j = JStr x \<and>
    describes_open j x q \<and> digest = xr_digest q \<and>
    committed_block_digest sha j corridor (xr_run_id q) = Inr digest"
  using assms
  by (auto simp: open_execution_checks_def bind_res_Inr_iff assert_consistent_iff
      split: if_split_asm)

lemma observe_end_Inr:
  assumes "observe_end r now = Inr (t, minute)"
  shows "\<exists>a. fromisoformat (xr_actual_start_at (xe_execution r)) = Inr a \<and> instant a \<le> instant t"
  using assms
  by (auto simp: observe_end_def actual_start_moment_def bind_res_Inr_iff not_less
      split: if_split_asm)

text \<open>The facts every outcome event carries.\<close>

definition outcome_reads :: "dict \<Rightarrow> execution_record \<Rightarrow> string \<Rightarrow> int \<Rightarrow> bool" where
  "outcome_reads md q end_at minute \<longleftrightarrow>
     dget md EXECUTION_ID_KEY = JStr (xr_execution_id q) \<and>
     dget md ''optimization_run_id'' = JStr (xr_run_id q) \<and>
     dget md ''proposal_id'' = JStr (xr_proposal_id q) \<and>
     dget md ''committed_block_digest'' = JStr (xr_digest q) \<and>
     dget md ''actual_end_at'' = JStr end_at \<and> dget md ''actual_end_minute'' = JInt minute \<and>
     (\<exists>dev. dget md ''deviations'' = JObj dev \<and>
        fmlookup dev ''ended_after_planned_end'' = Some (JBool (xr_planned_end q < minute)))"

definition closed_with :: "execution_record \<Rightarrow> job_event \<Rightarrow> string \<Rightarrow> int \<Rightarrow> execution_record" where
  "closed_with q ev end_at minute = q\<lparr>xr_actual_end_at := Some end_at,
     xr_actual_end_minute := Some minute,
     xr_ended_by := Some (event_actor_to_dict (ev_actor ev)),
     xr_ended_recorded_at := Some (ev_occurred_at ev),
     xr_ended_after_planned := Some (xr_planned_end q < minute)\<rparr>"

lemma end_observed_reads:
  assumes reads: "outcome_reads (ev_metadata ev) q end_at minute"
    and "xr_digest q \<noteq> []" "canonical end_at d"
    and "fromisoformat (xr_actual_start_at q) = Inr a" "instant a \<le> instant d"
  shows "end_observed (jid, ev) q = Inr (closed_with q ev end_at minute)"
proof -
  from reads obtain dev where dev: "dget (ev_metadata ev) ''deviations'' = JObj dev"
    "fmlookup dev ''ended_after_planned_end'' = Some (JBool (xr_planned_end q < minute))"
    by (auto simp: outcome_reads_def)
  from reads have r: "dget (ev_metadata ev) ''committed_block_digest'' = JStr (xr_digest q)"
    "dget (ev_metadata ev) ''actual_end_at'' = JStr end_at"
    "dget (ev_metadata ev) ''actual_end_minute'' = JInt minute"
    by (simp_all add: outcome_reads_def)
  show ?thesis
    using assms(2,4,5)
    by (simp add: end_observed_def closed_with_def rd_str_dget [OF r(1)] rd_int_dget [OF r(3)]
        rd_timestamp_dget [OF r(2) assms(3)] canonical_fromisoformat [OF assms(3)]
        rd_deviation_dget [OF dev])
qed

lemma ended_completed:
  assumes "end_observed (jid, ev) q = Inr q'" "ev_type ev = EXECUTION_COMPLETED"
    and "dget (ev_metadata ev) ''after_work_evidence'' = json_of_evidence evidence"
    and "\<forall>x \<in> set evidence. item_ok (rev_item x) \<and> is_evidence_id (rev_id x) \<and>
      rev_phase x = AFTER_WORK" "evidence \<noteq> []"
  shows "ended (jid, ev) q = Inr (q'\<lparr>xr_after_work := evidence, xr_status := Exec_Completed\<rparr>)"
  using assms by (simp add: ended_def rd_evidence_dget [OF assms(3,4)])

lemma ended_not_completed:
  assumes "end_observed (jid, ev) q = Inr q'" "ev_type ev = EXECUTION_NOT_COMPLETED"
    and "dget (ev_metadata ev) ''failure_evidence'' = json_of_evidence evidence"
    and "\<forall>x \<in> set evidence. item_ok (rev_item x) \<and> is_evidence_id (rev_id x) \<and>
      rev_phase x = NOT_COMPLETED_PHASE"
    and "ev_reason ev = Some reason" "nonblank reason"
  shows "ended (jid, ev) q = Inr (q'\<lparr>xr_not_completed_reason := Some reason,
    xr_failure := evidence, xr_status := Exec_Not_Completed\<rparr>)"
  using assms by (simp add: ended_def rd_evidence_dget [OF assms(3,4)] nonblank_def)

lemma find_distinct: "distinct (map f xs) \<Longrightarrow> x \<in> set xs \<Longrightarrow> find (\<lambda>y. f y = f x) xs = Some x"
  by (induction xs) (auto intro: image_eqI [OF sym])

text \<open>An open record of a job's history is its last one, and reading an outcome replaces it.\<close>

lemma read_ended_event:
  assumes hist: "build_execution_records j h = Inr rs" and q: "q \<in> set rs" "is_open q"
    and reads: "outcome_reads (ev_metadata ev) q end_at minute"
    and ev: "ev_type ev \<in> {EXECUTION_COMPLETED, EXECUTION_NOT_COMPLETED}"
      "ev_job_id ev = job_id j" "ev_run_id ev = JStr (xr_run_id q)"
    and en: "ended (job_id j, ev) q = Inr q'"
  shows "read_event (job_id j) ev rs = Inr (butlast rs @ [q']) \<and> rs = butlast rs @ [q]"
proof -
  note ok = build_execution_records_ok(1) [OF hist]
  have st: "xr_status q = Exec_Started" using q(2) by (simp add: is_open_def)
  have rs: "rs = butlast rs @ [q]" by (rule open_is_last [OF ok q(1)]) (simp add: st)
  from ok q(1) have rok: "record_ok (job_id j) q" by (simp add: records_ok_def)
  have d: "distinct (map xr_execution_id (butlast rs @ [q]))"
    using ok rs unfolding records_ok_def by metis
  have find: "find_execution rs (xr_execution_id q) = Some q"
    using ok q(1) unfolding find_execution_def records_ok_def by (intro find_distinct) simp_all
  have "xr_execution_id q' = xr_execution_id q"
    using ended_Inr [OF en] start_facts_eq by (auto simp: outcome_of_def)
  from put_execution_last [OF d this] rs have put: "put_execution q' rs = butlast rs @ [q']" by metis
  have "read_event (job_id j) ev rs = Inr (put_execution q' rs)"
    using ev reads rok st find en
    by (auto simp: read_event_def record_types_def Let_def rd_str_dget outcome_reads_def record_ok_def)
  with put rs show ?thesis by simp
qed

lemma nothing_else_open:
  assumes "build_execution_records j h = Inr rs" "rs = butlast rs @ [q]" "is_open q"
    and "\<not> is_open q'" "job_status j' \<noteq> IN_PROGRESS"
  shows "check_open j' (butlast rs @ [q']) = Inr ()"
proof -
  note ok = build_execution_records_ok(1) [OF assms(1)]
  then have "filter is_open (butlast rs) = []"
    by (auto simp: records_ok_def is_open_def filter_empty_conv)
  with assms(4,5) show ?thesis by (simp add: check_open_iff)
qed

section \<open>Completion\<close>

lemma describes_open_facts:
  "describes_open j x q \<Longrightarrow> xr_execution_id q = x \<and> is_open q \<and>
     proposal_run_id_of j = JStr (xr_run_id q)"
  by (auto simp: describes_open_def is_open_def)

lemma end_metadata_reads:
  assumes "xe_execution r = q" "xr_execution_id q = xe_execution_id r"
    and "md = dict_of (end_metadata tr r (JStr (xr_run_id q)) (xr_digest q) end_at minute @ extra)"
    and "\<forall>k \<in> fst ` set extra. k \<notin> {EXECUTION_ID_KEY, ''optimization_run_id'', ''proposal_id'',
      ''committed_block_digest'', ''actual_end_at'', ''actual_end_minute'', ''deviations''}"
  shows "outcome_reads md q end_at minute"
proof -
  have keep: "dget (dict_of (kvs @ extra)) k = dget (dict_of kvs) k"
    if "k \<notin> fst ` set extra" for k kvs
    using that
  proof (induction extra rule: rev_induct)
    case (snoc kv extra)
    then show ?case
      by (cases kv) (simp add: append_assoc [symmetric] dict_of_snoc del: append_assoc)
  qed simp
  define base where
    "base = dict_of (end_metadata tr r (JStr (xr_run_id q)) (xr_digest q) end_at minute)"
  have "outcome_reads base q end_at minute"
    using assms(1,2)
    by (simp add: outcome_reads_def base_def end_metadata_def dict_of_def EXECUTION_ID_KEY_def)
  moreover have "dget md k = dget base k" if "k \<in> {EXECUTION_ID_KEY, ''optimization_run_id'',
      ''proposal_id'', ''committed_block_digest'', ''actual_end_at'', ''actual_end_minute'',
      ''deviations''}" for k
    unfolding assms(3) base_def by (rule keep) (use that assms(4) in blast)
  ultimately show ?thesis unfolding outcome_reads_def by simp
qed

lemma completed_accepted:
  assumes "job_problems j = []" "job_status j = IN_PROGRESS" "execution_id_of j = JStr x"
    and "m = (unchanged j)\<lparr>mut_status := COMPLETED, mut_updated_at := Some now,
      mut_execution := Some \<lparr>ex_kind = EX_COMPLETE, ex_id = x\<rparr>\<rparr>"
  shows "validate_mutation j m = Inr ()"
  using assms
  by (simp add: accepted_simps required_kind_def unchanged_def job_problems_def
      committed_block_def mut_window_def job_window_def COMMITTED_TARGETS_def)

lemma observe_completion_Inr:
  assumes "observe_completion r now = Inr (t, minute, evidence)"
  shows "observe_end r now = Inr (t, minute) \<and> evidence = xe_evidence r \<and> evidence \<noteq> [] \<and>
    distinct (map evi_reference evidence) \<and>
    (\<forall>i \<in> set evidence. \<forall>b \<in> set (xr_before_work (xe_execution r)).
       evi_reference i \<noteq> evi_reference (rev_item b))"
  using assms
  by (auto simp: observe_completion_def validate_evidence_set_def bind_res_Inr_iff Let_def
      list_ex_iff split: if_split_asm)

lemma plan_execution_complete_Inr:
  assumes "plan_execution_complete env sha hex (job_id j) who now r rows = Inr (ms, es)"
    and row: "rows (job_id j) = Some j"
  obtains t minute evidence now_moment digest end_at ev where
    "open_execution_checks sha j (xe_execution_id r) (xe_execution r) (xe_corridor r) = Inr digest"
    "observe_completion r now_moment = Inr (t, minute, evidence)"
    "canonical_observed_at t = Inr end_at"
    "ms = [(unchanged j)\<lparr>mut_status := COMPLETED, mut_updated_at := Some now,
      mut_execution := Some \<lparr>ex_kind = EX_COMPLETE, ex_id = xe_execution_id r\<rparr>\<rparr>]" "es = [ev]"
    "ev_job_id ev = job_id j" "ev_type ev = EXECUTION_COMPLETED"
    "ev_run_id ev = JStr (xr_run_id (xe_execution r))"
    "ev_metadata ev = dict_of (end_metadata ''execution_complete'' r
        (JStr (xr_run_id (xe_execution r))) digest end_at minute @
      [(''after_work_evidence'',
        json_of_evidence (record_evidence hex 0 evidence AFTER_WORK))])"
  using assms
  unfolding plan_execution_complete_def
  by (auto simp: bind_res_Inr_iff Let_def split: prod.splits dest!: made_event)

text \<open>
  What the history says of a completed execution: the same start facts, closed, with the
  after-work evidence that was submitted.
\<close>

definition completion_recorded :: "end_request \<Rightarrow> execution_record list \<Rightarrow> execution_record list \<Rightarrow> bool"
  where
  "completion_recorded r rs rs' \<longleftrightarrow>
     (\<exists>q. rs = butlast rs @ [xe_execution r] \<and> rs' = butlast rs @ [q] \<and>
        start_facts q = start_facts (xe_execution r) \<and> xr_status q = Exec_Completed \<and>
        map rev_item (xr_after_work q) = xe_evidence r)"

lemma execution_completion_recorded:
  assumes plan: "plan_execution_complete env sha hex (job_id j) who now r rows = Inr (ms, es)"
    and row: "rows (job_id j) = Some j"
    and hist: "build_execution_records j h = Inr rs" "xe_execution r \<in> set rs"
    and items: "\<forall>i \<in> set (xe_evidence r). item_ok i"
    and uuid: "\<forall>k. hex32 (hex k)" and sha: "\<forall>d. sha d \<noteq> []"
  shows "\<exists>m rs'. ms = [m] \<and> validate_mutation j m = Inr () \<and> mut_status m = COMPLETED \<and>
    validate_execution_events ms es = Inr () \<and> validate_release_events ms es = Inr () \<and>
    build_execution_records (as_job m j) (h @ es) = Inr rs' \<and> completion_recorded r rs rs'"
  using plan row
proof (rule plan_execution_complete_Inr)
  fix t minute evidence now_moment digest end_at ev
  let ?m = "(unchanged j)\<lparr>mut_status := COMPLETED, mut_updated_at := Some now,
      mut_execution := Some \<lparr>ex_kind = EX_COMPLETE, ex_id = xe_execution_id r\<rparr>\<rparr>"
  let ?q = "xe_execution r"
  let ?evd = "record_evidence hex 0 evidence AFTER_WORK"
  assume chk: "open_execution_checks sha j (xe_execution_id r) ?q (xe_corridor r) = Inr digest"
    and obs: "observe_completion r now_moment = Inr (t, minute, evidence)"
    and canon: "canonical_observed_at t = Inr end_at" and ms: "ms = [?m]" and es: "es = [ev]"
    and ev: "ev_job_id ev = job_id j" "ev_type ev = EXECUTION_COMPLETED"
      "ev_run_id ev = JStr (xr_run_id ?q)"
    and md: "ev_metadata ev = dict_of (end_metadata ''execution_complete'' r (JStr (xr_run_id ?q))
        digest end_at minute @ [(''after_work_evidence'', json_of_evidence ?evd)])"
  from open_execution_checks_Inr [OF chk] have c: "job_problems j = []"
    "job_status j = IN_PROGRESS" "execution_id_of j = JStr (xe_execution_id r)"
    "describes_open j (xe_execution_id r) ?q" "digest = xr_digest ?q"
    "committed_block_digest sha j (xe_corridor r) (xr_run_id ?q) = Inr digest" by simp_all
  note q = describes_open_facts [OF c(4)] and o = observe_completion_Inr [OF obs]
  have reads: "outcome_reads (ev_metadata ev) ?q end_at minute"
    by (rule end_metadata_reads [OF refl _ md [unfolded c(5)]]) (use q in \<open>auto simp: EXECUTION_ID_KEY_def\<close>)
  have after: "dget (ev_metadata ev) ''after_work_evidence'' = json_of_evidence ?evd"
    by (simp add: md dict_of_snoc)
  from observe_end_Inr o obtain a where a: "fromisoformat (xr_actual_start_at ?q) = Inr a"
    "instant a \<le> instant t" by blast
  have eo: "end_observed (job_id j, ev) ?q = Inr (closed_with ?q ev end_at minute)"
    using c(5) committed_block_digest_nonempty [OF c(6) sha] a
    by (intro end_observed_reads [OF reads _ canonical_observed_at_canonical [OF canon] a(1)]) simp_all
  from o items have items': "\<forall>i \<in> set evidence. item_ok i" by simp
  have "?evd \<noteq> []" using o by auto
  from ended_completed [OF eo ev(2) after record_evidence_ok [OF items' uuid] this] obtain q'
    where q': "ended (job_id j, ev) ?q = Inr q'" "xr_after_work q' = ?evd" "xr_status q' = Exec_Completed"
    by simp
  from read_ended_event [OF hist _ reads _ ev(1,3) q'(1)] q ev(2)
  have re: "read_event (job_id j) ev rs = Inr (butlast rs @ [q'])" "rs = butlast rs @ [?q]" by auto
  have "check_open (as_job ?m j) (butlast rs @ [q']) = Inr ()"
    using q q'(3) by (intro nothing_else_open [OF hist(1) re(2)]) (simp_all add: is_open_def)
  from build_append [OF hist(1) _ re(1) this]
  have "build_execution_records (as_job ?m j) (h @ es) = Inr (butlast rs @ [q'])" by (simp add: es)
  moreover have "completion_recorded r rs (butlast rs @ [q'])"
    using re(2) q'(2,3) o ended_Inr [OF q'(1)] by (auto simp: completion_recorded_def outcome_of_def)
  moreover have "validate_mutation j ?m = Inr ()" by (rule completed_accepted [OF c(1-3) refl])
  moreover have "validate_execution_events [?m] [ev] = Inr ()"
    using ev reads q o after
    by (intro validate_execution_events_single [where t =
        "\<lparr>ex_kind = EX_COMPLETE, ex_id = xe_execution_id r\<rparr>"])
      (auto simp: unchanged_def names_execution_def outcome_reads_def json_of_evidence_def)
  moreover have "validate_release_events [?m] [ev] = Inr ()"
    using ev by (intro validate_release_events_none) (simp_all add: unchanged_def)
  ultimately show ?thesis using ms es by auto
qed

section \<open>Not completed\<close>

lemma observe_failure_Inr:
  assumes "observe_failure r now = Inr (t, minute, evidence)"
  shows "observe_end r now = Inr (t, minute) \<and> evidence = xe_evidence r"
  using assms
  by (auto simp: observe_failure_def validate_evidence_set_def bind_res_Inr_iff Let_def
      split: if_split_asm)

lemma plan_execution_not_completed_Inr:
  assumes "plan_execution_not_completed env sha hex (job_id j) who now reason horizon r = Inr p"
    and "p rows = Inr (ms, es)" and "rows (job_id j) = Some j"
  obtains t minute evidence now_moment digest end_at ev w released_end block earliest original
      widened extra where
    "nonblank reason"
    "open_execution_checks sha j (xe_execution_id r) (xe_execution r) (xe_corridor r) = Inr digest"
    "observe_failure r now_moment = Inr (t, minute, evidence)"
    "canonical_observed_at t = Inr end_at"
    "w = withdrawn ((unchanged j)\<lparr>mut_updated_at := Some now\<rparr>) j reason"
    "job_end j = Some released_end"
    "raise_not_before (mut_block w) (max released_end minute) horizon True =
       Inr (block, earliest, original, widened)"
    "ms = [w\<lparr>mut_block := block,
       mut_execution := Some \<lparr>ex_kind = EX_NOT_COMPLETED, ex_id = xe_execution_id r\<rparr>\<rparr>]" "es = [ev]"
    "ev_job_id ev = job_id j" "ev_type ev = EXECUTION_NOT_COMPLETED"
    "ev_run_id ev = proposal_run_id_of j" "ev_reason ev = Some reason"
    "ev_metadata ev = dict_of (end_metadata ''execution_not_completed'' r (proposal_run_id_of j)
        digest end_at minute @
      [(''failure_evidence'', json_of_evidence (record_evidence hex 0 evidence NOT_COMPLETED_PHASE))]
      @ extra)"
    "map fst extra = [''released_start_minute'', ''released_end_minute'', ''released_proposal_run_id'',
       ''previous_earliest_start_minute'', ''not_before_minute'', ''original_latest_end_minute'',
       ''widened_latest_end_minute'']"
  using assms
  unfolding plan_execution_not_completed_def
  by (auto simp: bind_res_Inr_iff Let_def split: prod.splits dest!: made_event)

text \<open>
  What the history says of an execution reported as not completed: the same start facts,
  closed, with the reason and the evidence that were submitted.
\<close>

definition failure_recorded ::
  "end_request \<Rightarrow> string \<Rightarrow> execution_record list \<Rightarrow> execution_record list \<Rightarrow> bool" where
  "failure_recorded r reason rs rs' \<longleftrightarrow>
     (\<exists>q. rs = butlast rs @ [xe_execution r] \<and> rs' = butlast rs @ [q] \<and>
        start_facts q = start_facts (xe_execution r) \<and> xr_status q = Exec_Not_Completed \<and>
        xr_not_completed_reason q = Some reason \<and> map rev_item (xr_failure q) = xe_evidence r)"

lemma execution_failure_recorded:
  assumes plan: "plan_execution_not_completed env sha hex (job_id j) who now reason horizon r = Inr p"
      "p rows = Inr (ms, es)"
    and row: "rows (job_id j) = Some j"
    and hist: "build_execution_records j h = Inr rs" "xe_execution r \<in> set rs"
    and items: "\<forall>i \<in> set (xe_evidence r). item_ok i"
    and uuid: "\<forall>k. hex32 (hex k)" and sha: "\<forall>d. sha d \<noteq> []"
  shows "\<exists>m rs' s e earliest. ms = [m] \<and> validate_mutation j m = Inr () \<and> returned j m \<and>
    validate_execution_events ms es = Inr () \<and> validate_release_events ms es = Inr () \<and>
    build_execution_records (as_job m j) (h @ es) = Inr rs' \<and> failure_recorded r reason rs rs' \<and>
    job_window j = (Some s, Some e) \<and> e \<le> earliest \<and>
    dget (mut_block m) ''earliest_start_minute'' = JInt earliest"
  using plan row
proof (rule plan_execution_not_completed_Inr)
  fix t minute evidence now_moment digest end_at ev released_end block earliest original widened extra
    and w :: job_mutation
  let ?m = "w\<lparr>mut_block := block,
       mut_execution := Some \<lparr>ex_kind = EX_NOT_COMPLETED, ex_id = xe_execution_id r\<rparr>\<rparr>"
  let ?q = "xe_execution r"
  let ?evd = "record_evidence hex 0 evidence NOT_COMPLETED_PHASE"
  assume nb: "nonblank reason"
    and chk: "open_execution_checks sha j (xe_execution_id r) ?q (xe_corridor r) = Inr digest"
    and obs: "observe_failure r now_moment = Inr (t, minute, evidence)"
    and canon: "canonical_observed_at t = Inr end_at"
    and w: "w = withdrawn ((unchanged j)\<lparr>mut_updated_at := Some now\<rparr>) j reason"
    and fin: "job_end j = Some released_end"
    and raised: "raise_not_before (mut_block w) (max released_end minute) horizon True =
       Inr (block, earliest, original, widened)"
    and ms: "ms = [?m]" and es: "es = [ev]"
    and ev: "ev_job_id ev = job_id j" "ev_type ev = EXECUTION_NOT_COMPLETED"
      "ev_run_id ev = proposal_run_id_of j" "ev_reason ev = Some reason"
    and md: "ev_metadata ev = dict_of (end_metadata ''execution_not_completed'' r
        (proposal_run_id_of j) digest end_at minute @
        [(''failure_evidence'', json_of_evidence ?evd)] @ extra)"
    and extra: "map fst extra = [''released_start_minute'', ''released_end_minute'',
       ''released_proposal_run_id'', ''previous_earliest_start_minute'', ''not_before_minute'',
       ''original_latest_end_minute'', ''widened_latest_end_minute'']"
  from open_execution_checks_Inr [OF chk] have c: "job_problems j = []"
    "job_status j = IN_PROGRESS" "execution_id_of j = JStr (xe_execution_id r)"
    "describes_open j (xe_execution_id r) ?q" "digest = xr_digest ?q"
    "committed_block_digest sha j (xe_corridor r) (xr_run_id ?q) = Inr digest" by simp_all
  note q = describes_open_facts [OF c(4)] and o = observe_failure_Inr [OF obs]
    and f = raise_not_before_Inr [OF raised]
  have keys: "fst ` set extra = set (map fst extra)" by simp
  have reads: "outcome_reads (ev_metadata ev) ?q end_at minute"
    by (rule end_metadata_reads [OF refl _ md [unfolded c(5) conjunct2 [OF conjunct2 [OF q]]]])
      (use q in \<open>auto simp: EXECUTION_ID_KEY_def keys extra simp del: set_map\<close>)
  have failure: "dget (ev_metadata ev) ''failure_evidence'' = json_of_evidence ?evd"
    using extra unfolding md
    by (auto simp: map_eq_Cons_conv dict_of_def)
  from observe_end_Inr o obtain a where a: "fromisoformat (xr_actual_start_at ?q) = Inr a"
    "instant a \<le> instant t" by blast
  have eo: "end_observed (job_id j, ev) ?q = Inr (closed_with ?q ev end_at minute)"
    using c(5) committed_block_digest_nonempty [OF c(6) sha] a
    by (intro end_observed_reads [OF reads _ canonical_observed_at_canonical [OF canon] a(1)]) simp_all
  from o items have items': "\<forall>i \<in> set evidence. item_ok i" by simp
  from ended_not_completed [OF eo ev(2) failure record_evidence_ok [OF items' uuid] ev(4) nb]
  obtain q' where q': "ended (job_id j, ev) ?q = Inr q'" "xr_failure q' = ?evd"
    "xr_status q' = Exec_Not_Completed" "xr_not_completed_reason q' = Some reason"
    by simp
  from read_ended_event [OF hist _ reads _ ev(1) _ q'(1)] q ev(2,3)
  have re: "read_event (job_id j) ev rs = Inr (butlast rs @ [q'])" "rs = butlast rs @ [?q]" by auto
  have ret: "returned j ?m"
    by (simp, rule returned_block [OF _ raised]) (simp add: w withdrawn_returned unchanged_def)
  have "check_open (as_job ?m j) (butlast rs @ [q']) = Inr ()"
    using q q'(3) ret by (intro nothing_else_open [OF hist(1) re(2)]) (simp_all add: is_open_def returned_def)
  from build_append [OF hist(1) _ re(1) this]
  have "build_execution_records (as_job ?m j) (h @ es) = Inr (butlast rs @ [q'])" by (simp add: es)
  moreover have "failure_recorded r reason rs (butlast rs @ [q'])"
    using re(2) q'(2-4) o ended_Inr [OF q'(1)] by (auto simp: failure_recorded_def outcome_of_def)
  moreover have "validate_mutation j ?m = Inr ()"
    by (rule returned_from_in_progress [OF ret c(2,1) _ _ c(3)])
      (simp_all add: w withdrawn_def unchanged_def)
  moreover have "validate_execution_events [?m] [ev] = Inr ()"
    using ev reads q
    by (intro validate_execution_events_single [where t =
        "\<lparr>ex_kind = EX_NOT_COMPLETED, ex_id = xe_execution_id r\<rparr>"])
      (auto simp: w withdrawn_def unchanged_def names_execution_def outcome_reads_def)
  moreover have "validate_release_events [?m] [ev] = Inr ()"
    using ev by (intro validate_release_events_none) (simp_all add: w withdrawn_def unchanged_def)
  moreover have "valid_window (job_window j)"
    using c(1,2) by (simp add: job_problems_def committed_state_problems_Nil_iff committed_block_def)
  then obtain s where "job_window j = (Some s, Some released_end)"
    using fin by (auto simp: valid_window_iff job_window_def)
  moreover have "released_end \<le> earliest" using f(1) by simp
  ultimately show ?thesis using ms es ret f(4) by auto
qed

end
