(* ===== verification/Transactions.thy ===== *)
theory Transactions
  imports Repository_Facts Plan_Facts
begin

text \<open>
  Transactions that succeed. A plan for one job whose mutation the guards accept, and whose
  events are new, commits; and in a batch outcome of the optimizer, jobs that are already
  committed keep their placement, whatever the batch decided.
\<close>

section \<open>One job\<close>

lemma insert_events_fresh:
  assumes "\<forall>e \<in> set es. ev_id e \<notin> ev_id ` set h" "distinct (map ev_id es)"
  shows "insert_events h es = Inr (h @ es)"
  using assms
proof (induction es arbitrary: h)
  case (Cons e es)
  then have "insert_events (h @ [e]) es = Inr ((h @ [e]) @ es)"
    by (intro Cons.IH) (auto simp: image_iff)
  with Cons.prems show ?case by simp
qed simp

lemma append_events_fresh:
  assumes "\<forall>e \<in> set es. \<exists>a. ev_actor e = Live a" "\<forall>e \<in> set es. ev_id e \<notin> ev_id ` set h"
    and "distinct (map ev_id es)"
  shows "append_events h es = Inr (h @ es)"
proof -
  have "each_res (\<lambda>e. case ev_actor e of Live _ \<Rightarrow> Inr () | Recorded _ \<Rightarrow> Inl TypeError) es = Inr ()"
    using assms(1) by (auto simp: each_res_Inr_iff)
  with assms(2,3) show ?thesis by (simp add: append_events_def insert_events_fresh)
qed

definition rows_of :: "db \<Rightarrow> string \<Rightarrow> rows" where
  "rows_of d jid = (\<lambda>i. if i = jid then get d jid else None)"

lemma rows_of_self [simp]: "rows_of d jid jid = get d jid"
  by (simp add: rows_of_def)

lemma mutate_one:
  assumes row: "get d jid = Some j" and plan: "plan (rows_of d jid) = Inr ([m], es)"
    and m: "mut_job_id m = jid" "validate_mutation j m = Inr ()"
    and ev: "validate_execution_events [m] es = Inr ()" "validate_release_events [m] es = Inr ()"
    and app: "append_events (db_events d) es = Inr h"
  shows "\<exists>d'. mutate_jobs d [jid] plan rt = Inr d' \<and> get d' jid = Some (as_job m j) \<and> db_events d' = h"
proof -
  have "(\<lambda>i. if i \<in> set [jid] then get d i else None) = rows_of d jid"
    by (auto simp: rows_of_def fun_eq_iff)
  then have rd: "read_rows d [jid] = Inr (rows_of d jid)"
    using row by (simp add: read_rows_Inr)
  have "job_status j \<noteq> COMPLETED" using m(2) terminal_refused [of j m] by auto
  then have "mutate_jobs d [jid] plan rt =
      Inr (d\<lparr>db_rows := update_row m (db_rows d), db_events := h\<rparr>)"
    using row m ev app rd plan by (simp add: mutate_jobs_def)
  moreover have "get_row (update_row m (db_rows d)) jid = Some (as_job m j)"
    using row m(1) by (simp add: get_row_update_row get_def)
  ultimately show ?thesis by (simp add: get_def)
qed

text \<open>The same for a plan with one event of a live actor, as every human transition has.\<close>

lemma mutate_one_event:
  assumes "get d jid = Some j" "plan (rows_of d jid) = Inr ([m], [e])"
    and "mut_job_id m = jid" "validate_mutation j m = Inr ()"
    and "validate_execution_events [m] [e] = Inr ()" "validate_release_events [m] [e] = Inr ()"
    and "ev_actor e = Live who" "ev_id e \<notin> ev_id ` set (db_events d)"
  shows "\<exists>d'. mutate_jobs d [jid] plan rt = Inr d' \<and> get d' jid = Some (as_job m j) \<and>
    db_events d' = db_events d @ [e]"
proof (rule mutate_one [where plan = plan and m = m and es = "[e]", OF assms(1-6)])
  show "append_events (db_events d) [e] = Inr (db_events d @ [e])"
    by (rule append_events_fresh) (use assms(7,8) in simp_all)
qed

section \<open>Batches\<close>

definition keeps_commitments :: "rows \<Rightarrow> job_mutation list \<Rightarrow> bool" where
  "keeps_commitments rows ms \<longleftrightarrow>
     (\<forall>m \<in> set ms. \<forall>j. rows (mut_job_id m) = Some j \<longrightarrow> job_status j \<in> {NOTIFIED, IN_PROGRESS} \<longrightarrow>
        untouched j m)"

lemma unchanged_untouched: "untouched j (unchanged j)"
  by (simp add: untouched_def unchanged_def mut_window_def job_window_def)

lemma untouched_time [simp]:
  "untouched j (m\<lparr>mut_updated_at := a\<rparr>) = untouched j m"
  "untouched j (m\<lparr>mut_last_solver_status := b\<rparr>) = untouched j m"
  by (simp_all add: untouched_def mut_window_def)

lemma withdrawn_id [simp]: "mut_job_id (withdrawn b j reason) = mut_job_id b"
  by (simp add: withdrawn_def)

lemma plan_placement_committed:
  assumes "plan_placement env j base p a t st ex = Inr (m, f)"
  shows "mut_job_id m = mut_job_id base"
    "job_status j \<in> {NOTIFIED, IN_PROGRESS} \<Longrightarrow> m = base\<lparr>mut_last_refusal_reason := None\<rparr>"
  using assms unfolding plan_placement_def Let_def
  by (auto simp: bind_res_Inr_iff simp del: fmlookup_dom_iff split: if_split_asm)

lemma plan_refusal_committed:
  assumes "plan_refusal env j base reason a t st = (m, f)"
  shows "mut_job_id m = mut_job_id base"
    "job_status j \<in> {NOTIFIED, IN_PROGRESS} \<Longrightarrow> m = base\<lparr>mut_last_refusal_reason := Some reason\<rparr>"
  using assms by (auto simp: plan_refusal_def Let_def split: if_split_asm)

lemma outcome_step_committed:
  assumes "outcome_step env r n rows k jid = Inr (m, es)" "rows jid = Some j" "job_id j = jid"
  shows "mut_job_id m = jid \<and> (job_status j \<in> {NOTIFIED, IN_PROGRESS} \<longrightarrow> untouched j m)"
proof -
  let ?base = "(unchanged j)\<lparr>mut_updated_at := Some (or_completed_at r),
                              mut_last_solver_status := Some (or_solver_status r)\<rparr>"
  have b: "untouched j ?base" "mut_job_id ?base = jid"
    by (rule unchanged_base) (simp add: unchanged_def assms(3))
  from assms(1,2) obtain f where "outcome_choice env r j ?base = Inr (m, f)"
    by (auto simp: outcome_step_def bind_res_Inr_iff Let_def split: if_split_asm)
  then have "(\<exists>p a t st ex. plan_placement env j ?base p a t st ex = Inr (m, f)) \<or>
      (\<exists>reason a t st. plan_refusal env j ?base reason a t st = (m, f))"
    by (auto simp: outcome_choice_def Let_def split: option.split_asm)
  then show ?thesis
  proof (elim disjE exE)
    fix p a t st ex assume "plan_placement env j ?base p a t st ex = Inr (m, f)"
    from plan_placement_committed [OF this] b show ?thesis by auto
  next
    fix reason a t st assume "plan_refusal env j ?base reason a t st = (m, f)"
    from plan_refusal_committed [OF this] b show ?thesis by auto
  qed
qed

lemma outcome_loop_committed:
  assumes "outcome_loop (outcome_step env r n rows) k jids = Inr (ms, es)"
    and "\<forall>i j. rows i = Some j \<longrightarrow> job_id j = i"
  shows "keeps_commitments rows ms"
  using assms(1)
proof (induction jids arbitrary: k ms es)
  case Nil
  then show ?case by (simp add: keeps_commitments_def)
next
  case (Cons jid jids)
  from Cons.prems obtain m es1 ms' es' where
    st: "outcome_step env r n rows k jid = Inr (m, es1)"
    and lp: "outcome_loop (outcome_step env r n rows) (k + 3) jids = Inr (ms', es')"
    and ms: "ms = m # ms'"
    by (auto simp: bind_res_Inr_iff)
  from st obtain j where row: "rows jid = Some j" by (auto simp: outcome_step_def bind_res_Inr_iff)
  with outcome_step_committed [OF st row] assms(2) Cons.IH [OF lp] show ?case
    by (auto simp: ms keeps_commitments_def)
qed

lemma failure_step_committed:
  assumes "failure_step env a t reason lbl rows k jid = Inr (ms, es)" "rows jid = Some j" "job_id j = jid"
  shows "\<forall>m \<in> set ms. mut_job_id m = jid \<and> (job_status j \<in> {NOTIFIED, IN_PROGRESS} \<longrightarrow> untouched j m)"
proof -
  have "mut_job_id (unchanged j) = jid" using assms(3) by (simp add: unchanged_def)
  with assms show ?thesis
    by (auto simp: failure_step_def bind_res_Inr_iff Let_def unchanged_untouched
        split: if_split_asm)
qed

lemma failure_loop_member:
  assumes "failure_loop f k jids = Inr (ms, es)" "jid \<in> set jids"
  shows "\<exists>k' ms' es'. f k' jid = Inr (ms', es') \<and> set ms' \<subseteq> set ms"
  using assms
proof (induction jids arbitrary: k ms es)
  case (Cons x jids)
  from Cons.prems(1) obtain m1 e1 m2 e2 where y: "f k x = Inr (m1, e1)"
    "failure_loop f (k + 3) jids = Inr (m2, e2)" "ms = m1 @ m2"
    by (auto simp: bind_res_Inr_iff)
  show ?case
  proof (cases "jid = x")
    case True
    with y show ?thesis by auto
  next
    case False
    with Cons.IH [OF y(2)] Cons.prems(2) y(3) show ?thesis by fastforce
  qed
qed simp

lemma failure_loop_all:
  assumes "failure_loop f k jids = Inr (ms, es)"
    and "\<And>k jid ms es. jid \<in> set jids \<Longrightarrow> f k jid = Inr (ms, es) \<Longrightarrow> \<forall>m \<in> set ms. P m"
  shows "\<forall>m \<in> set ms. P m"
  using assms
proof (induction jids arbitrary: k ms es)
  case (Cons jid jids)
  from Cons.prems(1) obtain m1 e1 m2 e2 where y: "f k jid = Inr (m1, e1)"
    "failure_loop f (k + 3) jids = Inr (m2, e2)" "ms = m1 @ m2"
    by (auto simp: bind_res_Inr_iff)
  with Cons.IH [OF y(2)] Cons.prems(2) show ?case by (auto, blast+)
qed simp

lemma failure_loop_committed:
  assumes "failure_loop (failure_step env a t reason lbl rows) k jids = Inr (ms, es)"
    and "\<forall>i j. rows i = Some j \<longrightarrow> job_id j = i"
  shows "keeps_commitments rows ms"
proof -
  have "\<forall>m \<in> set ms. \<forall>j. rows (mut_job_id m) = Some j \<longrightarrow>
      job_status j \<in> {NOTIFIED, IN_PROGRESS} \<longrightarrow> untouched j m"
  proof (rule failure_loop_all [OF assms(1)])
    fix k jid ms' es'
    assume st: "failure_step env a t reason lbl rows k jid = Inr (ms', es')"
    then obtain j where row: "rows jid = Some j" by (auto simp: failure_step_def bind_res_Inr_iff)
    from failure_step_committed [OF st row] assms(2) row
    show "\<forall>m \<in> set ms'. \<forall>j. rows (mut_job_id m) = Some j \<longrightarrow>
        job_status j \<in> {NOTIFIED, IN_PROGRESS} \<longrightarrow> untouched j m" by auto
  qed
  then show ?thesis by (simp add: keeps_commitments_def)
qed

text \<open>What a batch that keeps commitments leaves of a committed row.\<close>

lemma commitment_row_kept:
  assumes mut: "mutate_jobs d ids plan rt = Inr d'" and row: "get d jid = Some j"
    and st: "job_status j \<in> {NOTIFIED, IN_PROGRESS}"
    and keeps: "\<And>rows ms es. plan rows = Inr (ms, es) \<Longrightarrow> \<forall>i j. rows i = Some j \<longrightarrow> job_id j = i \<Longrightarrow>
      keeps_commitments rows ms"
  shows "\<exists>j'. get d' jid = Some j' \<and> job_status j' = job_status j \<and> job_window j' = job_window j \<and>
    job_block j' = job_block j"
proof -
  from mut obtain rows ms es where rd: "read_rows d ids = Inr rows" and pl: "plan rows = Inr (ms, es)"
    and val: "\<forall>m \<in> set ms. \<exists>cur. rows (mut_job_id m) = Some cur \<and> validate_mutation cur m = Inr ()"
    and tab: "db_rows d' = fold update_row ms (db_rows d)"
    by (rule mutate_jobs_Inr)
  have ids: "\<forall>i j. rows i = Some j \<longrightarrow> job_id j = i"
    using rd by (auto simp: read_rows_Inr dest!: get_Some split: if_split_asm)
  have r: "get d' jid = (case last_for mut_job_id jid ms of None \<Rightarrow> Some j | Some m \<Rightarrow> Some (as_job m j))"
    using row by (simp add: get_def tab job_table.lookup_writes split: option.splits)
  show ?thesis
  proof (cases "last_for mut_job_id jid ms")
    case None
    with r show ?thesis by simp
  next
    case (Some m)
    then have m: "m \<in> set ms" "mut_job_id m = jid" by (auto dest: last_for_SomeD)
    with val rd row have "rows jid = Some j" by (force simp: read_rows_Inr split: if_splits)
    with keeps [OF pl ids] m st have "untouched j m" by (auto simp: keeps_commitments_def)
    with r Some show ?thesis
      by (auto simp: untouched_def mut_window_def job_window_def)
  qed
qed

end
