(* ===== verification/Example_Run.thy ===== *)
theory Example_Run
  imports Service_Path Execution_Plan_Facts Transactions
begin

text \<open>
  One job followed through its life, evaluated by the definitions themselves: reported,
  proposed, committed, executed to completion, with the two other ways a commitment ends
  (released by an authority, reported as not completed). The witnesses of the lifecycle
  properties read their inputs off this run.
\<close>

definition run_block :: dict where
  "run_block = dict_of
     [(''block_id'', JStr ''J1''), (''status'', JStr PLANNED_BLOCK), (''is_committed'', JBool False),
      (''section_id'', JStr ''NDLS-NZM''), (''duration_minutes'', JInt 60),
      (''earliest_start_minute'', JInt 0), (''latest_end_minute'', JInt 1440),
      (''metadata'', JObj fmempty)]"

definition run_job :: job where
  "run_job = \<lparr>job_id = ''J1'', job_track_id = ''UP-1'', job_work_type = ''BALLAST_TAMPING'',
     job_distance_start = 0, job_distance_end = 1, job_workers_min = 2, job_workers_max = 4,
     job_description = ''tamping'', job_status = REPORTED, job_priority_score = 1 / 2,
     job_risk_score = 1 / 2, job_start = None, job_end = None,
     job_created_at = ''2026-09-09T18:30:00.000000+00:00'', job_updated_at = None,
     job_last_solver_status = None, job_last_refusal_reason = None, job_block = run_block\<rparr>"

definition run_env :: "string \<Rightarrow> ambient" where
  "run_env tag = \<lparr>fresh = (\<lambda>k. tag @ replicate (Suc k) CHR ''x''),
     clock = ''2026-09-10T03:00:00.000000+00:00''\<rparr>"

definition run_now :: string where "run_now = ''2026-09-10T03:00:00.000000+00:00''"

definition run_worker :: actor where
  "run_worker = \<lparr>actor_id = ''w-1'', actor_role = WORKER, actor_assurance = DECLARED_UNVERIFIED\<rparr>"

definition run_authority :: actor where
  "run_authority = \<lparr>actor_id = ''a-1'', actor_role = AUTHORITY, actor_assurance = DECLARED_UNVERIFIED\<rparr>"

definition run_outcome :: outcome_request where
  "run_outcome = \<lparr>or_attempt = \<lparr>at_corridor_id = ''A'', at_requester = Some run_worker,
       at_requested_at = run_now, at_run_id = Some ''RUN-1'',
       at_horizon_start = ''2026-09-10T00:00:00+05:30'', at_trigger = ''jobs_optimize''\<rparr>,
     or_completed_at = run_now, or_solver_status = ''OPTIMAL'',
     or_placements = fmupd ''J1'' (dict_of [(''start_minute'', JInt 60), (''end_minute'', JInt 120),
       (''track_id'', JStr ''UP-1'')]) fmempty,
     or_refusals = fmempty, or_expected = None, or_record_history = True,
     or_explanations = fmempty\<rparr>"

definition run_hex :: "nat \<Rightarrow> string" where "run_hex k = replicate 32 CHR ''A''"

definition run_sha :: "dict \<Rightarrow> string" where "run_sha d = ''digest''"

definition run_execution :: string where "run_execution = ''EXE-'' @ replicate 32 CHR ''0''"

definition photo :: "string \<Rightarrow> string \<Rightarrow> evidence_item" where
  "photo ref captured = \<lparr>evi_reference = ref, evi_kind = PHOTO, evi_captured_at = captured,
     evi_latitude = None, evi_longitude = None, evi_note = None\<rparr>"

definition run_start :: start_request where
  "run_start = \<lparr>xs_execution_id = run_execution, xs_expected = ''RUN-1'',
     xs_actual_start = As_text ''2026-09-10T01:05:00+05:30'',
     xs_evidence = [photo ''before.jpg'' ''2026-09-09T19:30:00.000000+00:00''],
     xs_corridor = ''A'', xs_previous = [], xs_horizon_start = ''2026-09-10T00:00:00+05:30''\<rparr>"

section \<open>The run\<close>

definition run_1 :: db where "run_1 = projr (create empty_db run_job [])"

definition run_2 :: db where
  "run_2 = projr (mutate_jobs run_1 [''J1'']
     (projr (plan_optimization_outcome (run_env ''O'') [''J1''] run_outcome)) True)"

definition run_3 :: db where
  "run_3 = projr (mutate_jobs run_2 [''J1'']
     (plan_commit (run_env ''C'') ''J1'' run_authority run_now (Some ''RUN-1'')) True)"

definition run_row :: "db \<Rightarrow> job" where "run_row d = the (get d ''J1'')"

lemma run_1_ok: "create empty_db run_job [] = Inr run_1"
  unfolding run_1_def by code_simp

lemma run_2_ok: "mutate_jobs run_1 [''J1'']
     (projr (plan_optimization_outcome (run_env ''O'') [''J1''] run_outcome)) True = Inr run_2"
  unfolding run_2_def by code_simp

lemma run_3_ok: "mutate_jobs run_2 [''J1'']
     (plan_commit (run_env ''C'') ''J1'' run_authority run_now (Some ''RUN-1'')) True = Inr run_3"
  unfolding run_3_def by code_simp

section \<open>From the proposal on, evaluated on the stored row\<close>

definition notified_job :: job where
  "notified_job = run_job\<lparr>job_status := NOTIFIED, job_start := Some 60, job_end := Some 120,
     job_block := dict_of
     [(''block_id'', JStr ''J1''), (''status'', JStr COMMITTED_BLOCK), (''is_committed'', JBool True),
      (''section_id'', JStr ''NDLS-NZM''), (''duration_minutes'', JInt 60),
      (''earliest_start_minute'', JInt 0), (''latest_end_minute'', JInt 1440),
      (''metadata'', JObj (dict_of [(COMMITTED_START_KEY, JInt 60), (COMMITTED_END_KEY, JInt 120),
         (PROPOSAL_RUN_ID_KEY, JStr ''RUN-1'')]))]\<rparr>"

definition only_row :: "job \<Rightarrow> rows" where
  "only_row j i = (if i = job_id j then Some j else None)"

definition utc :: "int \<Rightarrow> int \<Rightarrow> int \<Rightarrow> datetime" where
  "utc day hours minutes = \<lparr>dt_local = day * micros_per_day + (hours * 60 + minutes) * micros_per_minute,
     dt_offset = Some 0\<rparr>"

definition run_day :: int where "run_day = day_of_ymd (2026, 9, 9)"

lemma run_day_value: "run_day = 739867"
  by code_simp

definition run_moment :: datetime where
  "run_moment = utc (run_day + 1) 3 0"

definition run_started_at :: datetime where
  "run_started_at = (utc (run_day + 1) 1 5)\<lparr>dt_offset := Some (330 * micros_per_minute)\<rparr>"

definition run_started_event :: job_event where
  "run_started_event =
    (let m = started_mutation notified_job run_execution
               \<lparr>ex_kind = EX_START, ex_id = run_execution\<rparr> run_now in
     \<lparr>ev_id = ''Sx'', ev_job_id = ''J1'', ev_type = EXECUTION_STARTED, ev_occurred_at = run_now,
      ev_actor = Live run_worker, ev_reason = None, ev_run_id = JStr ''RUN-1'',
      ev_before = Some (snapshot_of notified_job), ev_after = Some (snapshot_of (as_job m notified_job)),
      ev_metadata = start_metadata notified_job run_start 60 120 ''digest''
        ''2026-09-09T19:35:00.000000+00:00'' 65
        (record_evidence run_hex 0 (xs_evidence run_start) BEFORE_WORK),
      ev_schema_version = EVENT_SCHEMA_VERSION\<rparr>)"

lemma start_step_0: "start_checks notified_job run_worker run_start = Inr ()"
  by code_simp+

lemma start_step_1: "recording_moment run_now = Inr run_moment"
  by code_simp+

lemma observe_start_steps:
  "parse_observed_at (xs_actual_start run_start) = Inr run_started_at"
  "require_not_in_future run_started_at run_moment = Inr ()"
  "each_res (check_captured run_moment \<lparr>evr_minimum = 1, evr_not_after = Some run_started_at,
     evr_not_before = None, evr_forbidden = []\<rparr>) (xs_evidence run_start) = Inr ()"
  by code_simp+

lemma start_step_2: "observe_start run_start run_moment = Inr (run_started_at, xs_evidence run_start)"
proof -
  have "length (xs_evidence run_start) = 1" "distinct (map evi_reference (xs_evidence run_start))"
    by (simp_all add: run_start_def)
  then show ?thesis
    by (simp add: observe_start_def observe_start_steps [simplified] validate_evidence_set_def
        MAX_EVIDENCE_ITEMS_def list_ex_iff)
qed

definition run_anchor :: datetime where
  "run_anchor = (utc (run_day + 1) 0 0)\<lparr>dt_offset := Some (330 * micros_per_minute)\<rparr>"

lemma observed_step_0: "parse_horizon_start (xs_horizon_start run_start) = Inr run_anchor"
  by code_simp

lemma observed_step_1: "dt_offset run_anchor = Some (330 * micros_per_minute)"
  by code_simp

lemma observed_step_2: "astimezone run_started_at (330 * micros_per_minute) = Inr run_started_at"
  by code_simp

lemma observed_step_3: "dt_local run_started_at div micros_per_day = run_day + 1"
  by code_simp

lemma observed_step_4: "dt_local run_started_at mod micros_per_day div micros_per_minute = 65"
  by code_simp

lemma observed_step_5: "dt_local run_started_at mod micros_per_day mod micros_per_minute = 0"
  by code_simp

lemma observed_step_6: "horizon_relative_minutes (Date_day (run_day + 1)) 65 0 (As_datetime run_anchor) = Inr 65"
  by code_simp

lemmas observed_steps = observed_step_0 observed_step_1 observed_step_2 observed_step_3 observed_step_4 observed_step_5 observed_step_6

lemma start_step_3: "observed_minute run_started_at (xs_horizon_start run_start) False = Inr 65"
  unfolding observed_minute_def observed_steps bind_res_simps Let_def option.case by simp

lemma isoformat_steps:
  "ymd_of_day 739867 = (2026, 9, 9)" "pad 4 2026 = ''2026''" "pad 2 9 = ''09''" "pad 2 0 = ''00''"
  "pad 2 19 = ''19''" "pad 2 30 = ''30''" "pad 2 35 = ''35''" "pad 2 20 = ''20''" "pad 2 40 = ''40''" "pad 6 0 = ''000000''"
  by code_simp+

lemma start_step_4: "canonical_observed_at run_started_at = Inr ''2026-09-09T19:35:00.000000+00:00''"
proof -
  have "astimezone run_started_at 0 = Inr (utc run_day 19 35)" by code_simp
  moreover have "dt_offset run_started_at \<noteq> None" by (simp add: run_started_at_def)
  moreover have "isoformat_utc (dt_local (utc run_day 19 35)) = ''2026-09-09T19:35:00.000000+00:00''"
    by (simp add: isoformat_utc_def utc_def run_day_value isoformat_steps Let_def)
  ultimately show ?thesis by (simp add: canonical_observed_at_def event_timestamp_def)
qed

lemma start_step_5: "committed_block_digest run_sha notified_job (xs_corridor run_start) (xs_expected run_start) = Inr ''digest''"
  by code_simp+

lemma start_step_6: "make_execution_transition EX_START run_execution =
     Inr \<lparr>ex_kind = EX_START, ex_id = run_execution\<rparr>"
  by code_simp+

lemma start_step_7: "matches_event_timestamp run_now" "run_now \<noteq> []" "proposal_run_id_of notified_job = JStr ''RUN-1''"
  "xs_execution_id run_start = run_execution"
  by code_simp+

lemmas start_steps = start_step_0 start_step_1 start_step_2 start_step_3 start_step_4 start_step_5 start_step_6 start_step_7

lemma run_start_plan:
  "plan_execution_start (run_env ''S'') run_sha run_hex ''J1'' run_worker run_now run_start
     (only_row notified_job) =
   Inr ([started_mutation notified_job run_execution \<lparr>ex_kind = EX_START, ex_id = run_execution\<rparr> run_now],
        [run_started_event])"
proof -
  have j: "job_id notified_job = ''J1''" "job_start notified_job = Some 60" "job_end notified_job = Some 120"
    by (simp_all add: notified_job_def run_job_def)
  show ?thesis
    by (simp add: plan_execution_start_def need_row_def only_row_def j start_steps observations_def
        int_of_column_def make_event_def check_event_def run_started_event_def Let_def run_env_def)
qed

definition run_start_mutation :: job_mutation where
  "run_start_mutation = started_mutation notified_job run_execution
     \<lparr>ex_kind = EX_START, ex_id = run_execution\<rparr> run_now"

definition executing_job :: job where
  "executing_job = as_job run_start_mutation notified_job"

definition run_open :: execution_record where
  "run_open = opened_record notified_job run_start run_worker run_now 60 120 ''digest''
     ''2026-09-09T19:35:00.000000+00:00'' 65
     (record_evidence run_hex 0 (xs_evidence run_start) BEFORE_WORK)"

lemma run_facts:
  "job_id notified_job = ''J1''" "job_start notified_job = Some 60" "job_end notified_job = Some 120"
  "job_status notified_job = NOTIFIED" "job_track_id notified_job = ''UP-1''"
  "dget (job_block notified_job) ''section_id'' = JStr ''NDLS-NZM''"
  by (simp_all add: notified_job_def run_job_def dict_of_def)

lemma run_hex_ok: "\<forall>k. hex32 (run_hex k)"
  by (simp add: run_hex_def hex32_def is_hex_upper_def is_digit_def list_all_iff)

lemma run_sha_ok: "\<forall>d. run_sha d \<noteq> []"
  by (simp add: run_sha_def)

lemma photo_ok: "canonical captured d \<Longrightarrow> ref \<noteq> [] \<Longrightarrow> trimmed ref \<Longrightarrow>
    length ref \<le> MAX_EVIDENCE_REFERENCE_LENGTH \<Longrightarrow> item_ok (photo ref captured)"
  by (auto simp: item_ok_def photo_def)

lemma run_captured:
  "canonical ''2026-09-09T19:30:00.000000+00:00'' (utc run_day 19 30)"
  "canonical ''2026-09-09T20:30:00.000000+00:00'' (utc run_day 20 30)"
  by (simp_all add: canonical_def isoformat_utc_def utc_def run_day_value isoformat_steps Let_def
      in_range_def LAST_DAY_def)

lemma run_items_ok: "\<forall>i \<in> set (xs_evidence run_start). item_ok i"
  "item_ok (photo ''after.jpg'' ''2026-09-09T20:30:00.000000+00:00'')"
  by (auto simp: run_start_def trimmed_def is_space_def MAX_EVIDENCE_REFERENCE_LENGTH_def
      intro!: photo_ok run_captured)

lemma run_records:
  "build_execution_records executing_job [run_started_event] = Inr [run_open]"
proof -
  have h: "build_execution_records notified_job [] = Inr (xs_previous run_start)"
    by (simp add: build_execution_records_def check_open_def run_facts run_start_def)
  have p: "xs_previous run_start = []" "xs_evidence run_start \<noteq> []" by (simp_all add: run_start_def)
  have "read_event (job_id notified_job) run_started_event (xs_previous run_start) =
    Inr (xs_previous run_start @ [run_open])"
    unfolding run_open_def
    using start_event_read [OF start_step_0, of run_started_event 60 120 "''digest''" _ 65
        "record_evidence run_hex 0 (xs_evidence run_start) BEFORE_WORK"]
      canonical_observed_at_canonical [OF start_step_4] record_evidence_ok [OF run_items_ok(1) run_hex_ok]
    by (simp add: p run_started_event_def Let_def run_facts start_step_7 readable_section_def)
  moreover have "check_open executing_job (xs_previous run_start @ [run_open]) = Inr ()"
    using check_open_started [OF start_step_0, of run_open] start_step_7(4)
    by (simp add: executing_job_def run_start_mutation_def run_open_def opened_record_def is_open_def)
  ultimately have "build_execution_records executing_job ([] @ [run_started_event]) =
    Inr (xs_previous run_start @ [run_open])"
    by (intro build_append [OF h]) (simp_all add: executing_job_def run_start_mutation_def
        started_mutation_def)
  then show ?thesis by (simp add: p)
qed

section \<open>The two outcomes\<close>

definition run_end :: end_request where
  "run_end = \<lparr>xe_execution_id = run_execution,
     xe_actual_end = As_text ''2026-09-10T02:10:00+05:30'',
     xe_evidence = [photo ''after.jpg'' ''2026-09-09T20:30:00.000000+00:00''],
     xe_execution = run_open, xe_corridor = ''A'',
     xe_horizon_start = ''2026-09-10T00:00:00+05:30''\<rparr>"

definition run_ended_at :: datetime where
  "run_ended_at = (utc (run_day + 1) 2 10)\<lparr>dt_offset := Some (330 * micros_per_minute)\<rparr>"

lemma end_step_1:
  "parse_observed_at (xe_actual_end run_end) = Inr run_ended_at"
  "require_not_in_future run_ended_at run_moment = Inr ()"
  "fromisoformat ''2026-09-09T19:35:00.000000+00:00'' = Inr (utc run_day 19 35)"
  by code_simp+

lemma end_step_2:
  "parse_horizon_start (xe_horizon_start run_end) = Inr run_anchor"
  "astimezone run_ended_at (330 * micros_per_minute) = Inr run_ended_at"
  "dt_local run_ended_at div micros_per_day = run_day + 1"
  "dt_local run_ended_at mod micros_per_day div micros_per_minute = 130"
  "dt_local run_ended_at mod micros_per_day mod micros_per_minute = 0"
  "horizon_relative_minutes (Date_day (run_day + 1)) 130 0 (As_datetime run_anchor) = Inr 130"
  by code_simp+

lemma end_step_3: "observed_minute run_ended_at (xe_horizon_start run_end) True = Inr 130"
  unfolding observed_minute_def end_step_2 observed_steps bind_res_simps Let_def option.case by simp

lemma end_step_4:
  "each_res (check_captured run_moment \<lparr>evr_minimum = 1, evr_not_after = None,
     evr_not_before = Some (utc run_day 19 35), evr_forbidden = [''before.jpg'']\<rparr>)
     (xe_evidence run_end) = Inr ()"
  "each_res (check_captured run_moment \<lparr>evr_minimum = 0, evr_not_after = None,
     evr_not_before = None, evr_forbidden = []\<rparr>) (xe_evidence run_end) = Inr ()"
  by code_simp+

lemma end_step_5: "canonical_observed_at run_ended_at = Inr ''2026-09-09T20:40:00.000000+00:00''"
proof -
  have "astimezone run_ended_at 0 = Inr (utc run_day 20 40)" by code_simp
  moreover have "dt_offset run_ended_at \<noteq> None" by (simp add: run_ended_at_def)
  moreover have "isoformat_utc (dt_local (utc run_day 20 40)) = ''2026-09-09T20:40:00.000000+00:00''"
    by (simp add: isoformat_utc_def utc_def run_day_value isoformat_steps Let_def)
  ultimately show ?thesis by (simp add: canonical_observed_at_def event_timestamp_def)
qed

lemma end_step_6: "open_execution_checks run_sha executing_job run_execution run_open ''A'' = Inr ''digest''"
  by code_simp

lemma run_open_fields:
  "xe_execution run_end = run_open" "xr_actual_start_at run_open = ''2026-09-09T19:35:00.000000+00:00''"
  "map (\<lambda>i. evi_reference (rev_item i)) (xr_before_work run_open) = [''before.jpg'']"
  "xe_execution_id run_end = run_execution" "xe_corridor run_end = ''A''" "xr_run_id run_open = ''RUN-1''"
  by (simp_all add: run_end_def run_open_def opened_record_def run_start_def photo_def)

lemma end_observed: "observe_end run_end run_moment = Inr (run_ended_at, 130)"
proof -
  have "\<not> instant run_ended_at < instant (utc run_day 19 35)" by code_simp
  then show ?thesis
    by (simp add: observe_end_def end_step_1 end_step_3 run_open_fields actual_start_moment_def)
qed

lemma completion_observed:
  "observe_completion run_end run_moment = Inr (run_ended_at, 130, xe_evidence run_end)"
proof -
  have "map evi_reference (xe_evidence run_end) = [''after.jpg'']" "length (xe_evidence run_end) = 1"
    by (simp_all add: run_end_def photo_def)
  then show ?thesis
    by (simp add: observe_completion_def end_observed end_step_1 end_step_4 [simplified]
        run_open_fields actual_start_moment_def validate_evidence_set_def MAX_EVIDENCE_ITEMS_def)
qed

lemma failure_observed:
  "observe_failure run_end run_moment = Inr (run_ended_at, 130, xe_evidence run_end)"
proof -
  have "map evi_reference (xe_evidence run_end) = [''after.jpg'']" "length (xe_evidence run_end) = 1"
    by (simp_all add: run_end_def photo_def)
  then show ?thesis
    by (simp add: observe_failure_def end_observed end_step_4 validate_evidence_set_def
        MAX_EVIDENCE_ITEMS_def)
qed

lemma executing_facts:
  "job_id executing_job = ''J1''" "job_start executing_job = Some 60" "job_end executing_job = Some 120"
  "proposal_run_id_of executing_job = JStr ''RUN-1''"
  "dget_default (job_block executing_job) ''earliest_start_minute'' (JInt 0) = JInt 0"
  by code_simp+

lemma run_completion_plan:
  "\<exists>ms es. plan_execution_complete (run_env ''E'') run_sha run_hex ''J1'' run_worker run_now run_end
     (only_row executing_job) = Inr (ms, es)"
proof -
  have t: "make_execution_transition EX_COMPLETE run_execution =
      Inr \<lparr>ex_kind = EX_COMPLETE, ex_id = run_execution\<rparr>" by code_simp
  show ?thesis
    by (simp add: t plan_execution_complete_def need_row_def only_row_def executing_facts
        run_open_fields end_step_6 start_steps completion_observed end_step_5 observations_def
        make_event_def check_event_def Let_def run_env_def run_worker_def
        require_identified_human_def actor_kind_def kind_of_role_def)
qed

lemma run_failure_plan:
  "\<exists>p ms es. plan_execution_not_completed (run_env ''F'') run_sha run_hex ''J1'' run_worker run_now
      ''rail broken'' 1440 run_end = Inr p \<and> p (only_row executing_job) = Inr (ms, es)"
proof -
  have t: "make_execution_transition EX_NOT_COMPLETED run_execution =
      Inr \<lparr>ex_kind = EX_NOT_COMPLETED, ex_id = run_execution\<rparr>" by code_simp
  have n: "require_nonblank ''rail broken'' = Inr ()" by code_simp
  have "case raise_not_before (mut_block (withdrawn ((unchanged executing_job)
        \<lparr>mut_updated_at := Some run_now\<rparr>) executing_job ''rail broken'')) 130 1440 True of
      Inl _ \<Rightarrow> False | Inr _ \<Rightarrow> True"
    by code_simp
  then have r: "\<exists>b x y z. raise_not_before (mut_block (withdrawn ((unchanged executing_job)
        \<lparr>mut_updated_at := Some run_now\<rparr>) executing_job ''rail broken'')) 130 1440 True =
      Inr (b, x, y, z)"
    by (auto split: sum.split_asm)
  show ?thesis
    using r
    by (auto simp: plan_execution_not_completed_def int_of_column_def need_row_def only_row_def executing_facts n t
        run_open_fields end_step_6 start_steps failure_observed end_step_5 observations_def
        make_event_def check_event_def Let_def run_env_def run_worker_def
        require_identified_human_def actor_kind_def kind_of_role_def)
qed

section \<open>Release and review\<close>

definition scheduled_job :: job where
  "scheduled_job = notified_job\<lparr>job_status := SCHEDULED, job_block := dict_of
     [(''status'', JStr SCHEDULED_BLOCK), (''is_committed'', JBool False),
      (''earliest_start_minute'', JInt 0), (''latest_end_minute'', JInt 1440),
      (''metadata'', JObj (dict_of [(COMMITTED_START_KEY, JInt 60), (COMMITTED_END_KEY, JInt 120),
         (PROPOSAL_RUN_ID_KEY, JStr ''RUN-1'')]))]\<rparr>"

definition plan_ok :: "plan res \<Rightarrow> rows \<Rightarrow> bool" where
  "plan_ok p rows = (case p of Inl _ \<Rightarrow> False | Inr f \<Rightarrow> (case f rows of Inl _ \<Rightarrow> False | Inr _ \<Rightarrow> True))"

lemma plan_okD: "plan_ok p rows \<Longrightarrow> \<exists>f ms es. p = Inr f \<and> f rows = Inr (ms, es)"
  by (auto simp: plan_ok_def split: sum.split_asm)

definition run_postpone :: postpone_request where
  "run_postpone = \<lparr>pp_reason = ''festival'', pp_selected_date = ''2026-09-11'', pp_not_before = 1440,
     pp_horizon = 2880, pp_expected = ''RUN-1'', pp_digest = None\<rparr>"

lemma run_release_plan:
  "plan_ok (plan_release (run_env ''L'') ''J1'' run_authority run_now ''train path'' ''RUN-1'' 1440)
     (only_row notified_job)"
  by code_simp

lemma run_reject_plan:
  "plan_ok (plan_reject (run_env ''R'') ''J1'' run_authority run_now ''no crew'' ''RUN-1'')
     (only_row scheduled_job)"
  by code_simp

lemma run_postpone_plan:
  "plan_ok (plan_postpone (run_env ''P'') ''J1'' run_authority run_now run_postpone)
     (only_row scheduled_job)"
  by code_simp

lemma run_commit_plan:
  "plan_ok (Inr (plan_commit (run_env ''C'') ''J1'' run_authority run_now (Some ''RUN-1'')))
     (only_row scheduled_job)"
  by code_simp

section \<open>The run as reachable databases\<close>

text \<open>A step that writes one row as given, for the moves whose plans need no evaluation here.\<close>

lemma write_row:
  assumes "db_step\<^sup>*\<^sup>* empty_db d" "get d ''J1'' = Some j" "validate_mutation j (unchanged j') = Inr ()"
    and "job_id j' = ''J1''" "as_job (unchanged j') j = j'"
  shows "\<exists>d'. db_step\<^sup>*\<^sup>* empty_db d' \<and> get d' ''J1'' = Some j' \<and> db_events d' = db_events d"
proof -
  have "mut_execution (unchanged j') = None" "mut_release (unchanged j') = None"
    by (simp_all add: unchanged_def)
  then have "tokenless [unchanged j'] []" by (simp add: tokenless_def)
  note t = tokenless_events_ok [OF this]
  have "\<exists>d'. mutate_jobs d [''J1''] (\<lambda>_. Inr ([unchanged j'], [])) False = Inr d' \<and>
      get d' ''J1'' = Some (as_job (unchanged j') j) \<and> db_events d' = db_events d"
    by (rule mutate_one [OF assms(2)])
      (use assms(3,4) t append_events_fresh [of "[]" "db_events d"] in \<open>simp_all add: unchanged_def\<close>)
  with assms(1,5) show ?thesis
    by (metis db_step.mutates rtranclp.rtrancl_into_rtrancl)
qed

lemma run_1_reachable: "db_step\<^sup>*\<^sup>* empty_db run_1"
proof -
  have "new_job run_job" by (simp add: new_job_def run_job_def job_window_def)
  from db_step.creates [OF this run_1_ok] show ?thesis by auto
qed

definition reported_job :: job where
  "reported_job = run_job\<lparr>job_updated_at := Some (job_created_at run_job)\<rparr>"

lemma run_1_row: "get run_1 ''J1'' = Some reported_job"
  by (simp add: run_1_def create_def empty_db_def get_def get_row_def append_events_def
      reported_job_def run_job_def)

lemma run_1_events: "db_events run_1 = []"
  by (simp add: run_1_def create_def empty_db_def get_def get_row_def append_events_def run_job_def)

lemma run_rows_accepted:
  "validate_mutation reported_job (unchanged scheduled_job) = Inr ()"
  "validate_mutation scheduled_job (unchanged notified_job) = Inr ()"
  by code_simp+

lemma run_notified:
  "\<exists>d. db_step\<^sup>*\<^sup>* empty_db d \<and> get d ''J1'' = Some notified_job \<and> db_events d = []"
proof -
  have "as_job (unchanged scheduled_job) reported_job = scheduled_job" "job_id scheduled_job = ''J1''"
    by (simp_all add: as_job_def unchanged_def scheduled_job_def notified_job_def reported_job_def run_job_def)
  from write_row [OF run_1_reachable run_1_row run_rows_accepted(1) this(2,1)]
  obtain d where d: "db_step\<^sup>*\<^sup>* empty_db d" "get d ''J1'' = Some scheduled_job" "db_events d = []"
    by (auto simp: run_1_events)
  have "as_job (unchanged notified_job) scheduled_job = notified_job" "job_id notified_job = ''J1''"
    by (simp_all add: as_job_def unchanged_def scheduled_job_def notified_job_def run_job_def)
  from write_row [OF d(1,2) run_rows_accepted(2) this(2,1)] d(3) show ?thesis by auto
qed

lemma run_start_step:
  "\<exists>d d'. db_step\<^sup>*\<^sup>* empty_db d \<and> get d ''J1'' = Some notified_job \<and> db_step d d' \<and>
     get d' ''J1'' = Some executing_job \<and> db_events d' = [run_started_event]"
proof -
  from run_notified obtain d where d: "db_step\<^sup>*\<^sup>* empty_db d" "get d ''J1'' = Some notified_job"
    "db_events d = []" by blast
  have rows: "rows_of d ''J1'' = only_row notified_job"
    using d(2) by (auto simp: rows_of_def only_row_def run_facts fun_eq_iff)
  have e: "ev_job_id run_started_event = job_id notified_job" "ev_type run_started_event = EXECUTION_STARTED"
    "dget (ev_metadata run_started_event) EXECUTION_ID_KEY = JStr (xs_execution_id run_start)"
    "ev_actor run_started_event = Live run_worker"
    using start_step_7(4)
    by (simp_all add: run_started_event_def Let_def run_facts)
      (simp add: start_metadata_def EXECUTION_ID_KEY_def dict_of_def)
  note g = start_guarded [OF start_step_0 e(1-3) refl, of run_now, unfolded start_step_7(4)]
  have "\<exists>d'. mutate_jobs d [''J1''] (plan_execution_start (run_env ''S'') run_sha run_hex ''J1''
        run_worker run_now run_start) True = Inr d' \<and>
      get d' ''J1'' = Some (as_job run_start_mutation notified_job) \<and>
      db_events d' = db_events d @ [run_started_event]"
    by (rule mutate_one_event [where m = run_start_mutation and e = run_started_event, OF d(2)])
      (use g e(4) d(3) run_start_plan rows in
        \<open>simp_all add: run_start_mutation_def started_mutation_def unchanged_def run_facts\<close>)
  with d show ?thesis by (metis db_step.mutates executing_job_def append_Nil)
qed

lemma run_executing:
  "\<exists>d. db_step\<^sup>*\<^sup>* empty_db d \<and> get d ''J1'' = Some executing_job \<and> db_events d = [run_started_event]"
  using run_start_step by (meson rtranclp.rtrancl_into_rtrancl)

end
