(* ===== verification/Lifecycle_Properties.thy ===== *)
theory Lifecycle_Properties
  imports Example_Run
begin

text \<open>
  What the job lifecycle guarantees of the stored rows and their history: every committed
  transaction moves a job along the abstract lifecycle and leaves the event that justifies the
  move, every reachable row is well formed and accounted for, committed and completed work is
  protected, and the human transitions do what they promise.
\<close>

section \<open>Refinement and invariants\<close>

text \<open>C1: A transaction of the service path refines the abstract lifecycle: each row either stays as
  it was or makes one permitted move, and a move that starts, ends or releases field work leaves
  in the history of the same transaction the event that names it.\<close>

theorem transaction_refines_lifecycle:
  assumes "mutate_jobs d ids plan rt = Inr d'" "get d jid = Some j"
  shows "\<exists>j' es. get d' jid = Some j' \<and> db_events d' = db_events d @ es \<and>
    (j' = j \<or> (\<exists>x r p q. phase_of j = Some p \<and> phase_of j' = Some q \<and> phase_step x r p q \<and>
       (\<forall>t. x = Some t \<longrightarrow> (\<exists>e \<in> set es. ev_job_id e = jid \<and> names_execution e t)) \<and>
       (\<forall>t. r = Some t \<longrightarrow> (\<exists>e \<in> set es. ev_job_id e = jid \<and> ev_type e = BLOCK_RELEASED \<and>
          names_release e t))))"
proof -
  from mutate_jobs_row [OF assms] obtain es where es: "db_events d' = db_events d @ es"
    and cases: "get d' jid = Some j \<or> (\<exists>m. get d' jid = Some (as_job m j) \<and>
      validate_mutation j m = Inr () \<and> backed_by es jid m)" by blast
  from cases show ?thesis
  proof (elim disjE exE conjE)
    fix m assume m: "get d' jid = Some (as_job m j)" "validate_mutation j m = Inr ()" "backed_by es jid m"
    from validate_mutation_step [OF m(2)] obtain p q where
      "phase_of j = Some p" "phase_of (as_job m j) = Some q"
      "phase_step (mut_execution m) (mut_release m) p q" by blast
    with m es show ?thesis unfolding backed_by_def by metis
  qed (use es in auto)
qed

lemma transaction_refines_lifecycle_witness:
  "\<exists>j'. get run_3 ''J1'' = Some j' \<and> phase_of j' \<noteq> None"
proof -
  have row: "get run_2 ''J1'' = Some (run_row run_2)" "phase_of (run_row run_2) \<noteq> None" by code_simp+
  from transaction_refines_lifecycle [OF run_3_ok row(1)] row(2) show ?thesis by auto
qed

text \<open>C29: Every job of every database the service can reach is well formed: a known status, no
  placement when reported, a valid window when scheduled or committed, and a committed block
  that agrees with its status.\<close>

theorem reachable_rows_well_formed:
  assumes "db_step\<^sup>*\<^sup>* empty_db d" "get d jid = Some j"
  shows "row_ok j"
  using rows_ok.run_keeps [OF assms(1)] assms(2) by (auto simp: all_rows_def empty_db_def get_def get_row_def)

lemma reachable_rows_well_formed_witness: "row_ok executing_job"
  using run_executing reachable_rows_well_formed by blast

text \<open>C27: Field work is always on record: a job in progress names the execution of a start event in
  its history, and a completed job names one that also has a completion event with evidence
  captured after the work.\<close>

theorem field_work_on_record:
  assumes "db_step\<^sup>*\<^sup>* empty_db d" "get d jid = Some j" "job_status j \<in> {IN_PROGRESS, COMPLETED}"
  shows "\<exists>x. execution_id_of j = JStr x \<and> on_record EX_START jid x (db_events d) \<and>
    (job_status j = COMPLETED \<longrightarrow> on_record EX_COMPLETE jid x (db_events d))"
proof -
  have "all_rows accounted d" by (rule rows_accounted.run_keeps [OF assms(1)]) simp
  with assms(2,3) get_Some [OF assms(2)] show ?thesis by (auto simp: all_rows_def accounted_def)
qed

lemma field_work_on_record_witness:
  "\<exists>x. execution_id_of executing_job = JStr x \<and> on_record EX_START ''J1'' x [run_started_event]"
proof -
  have "job_status executing_job \<in> {IN_PROGRESS, COMPLETED}"
    by (simp add: executing_job_def run_start_mutation_def started_mutation_def)
  with run_executing field_work_on_record show ?thesis by metis
qed

text \<open>A completed job is never changed again, by any sequence of service operations.\<close>

theorem completed_work_frozen:
  assumes "db_step\<^sup>*\<^sup>* d d'" "get d jid = Some j" "job_status j = COMPLETED"
  shows "get d' jid = Some j"
  using frozen.run_keeps [OF assms(1), of jid j] assms(2,3) by simp

definition completed_job :: job where
  "completed_job = executing_job\<lparr>job_status := COMPLETED\<rparr>"

lemma completed_work_frozen_witness:
  "\<exists>d'. db_step\<^sup>*\<^sup>* \<lparr>db_rows = [completed_job], db_events = []\<rparr> d' \<and> db_events d' = [run_started_event] \<and>
     get d' ''J1'' = Some completed_job"
proof -
  let ?d = "\<lparr>db_rows = [completed_job], db_events = []\<rparr>"
  have "append_events_tx ?d [run_started_event] = Inr (?d\<lparr>db_events := [run_started_event]\<rparr>)"
    by (simp add: append_events_tx_def append_events_def run_started_event_def Let_def)
  from db_step.records [OF this] have s: "db_step\<^sup>*\<^sup>* ?d (?d\<lparr>db_events := [run_started_event]\<rparr>)" by auto
  have "get ?d ''J1'' = Some completed_job" "job_status completed_job = COMPLETED"
    using executing_facts(1) by (simp_all add: get_def get_row_def completed_job_def)
  from completed_work_frozen [OF s this] s show ?thesis by auto
qed

text \<open>C28: A commitment is kept or ended on the record: one service operation leaves the window of a
  notified or in-progress job exactly as it was and only moves it forward, or it returns the job
  to the reported state together with a release or a not-completed event for that job.\<close>

theorem commitment_kept_or_ended:
  assumes "db_step d d'" "get d jid = Some j" "job_status j \<in> {NOTIFIED, IN_PROGRESS}"
  shows "\<exists>j' es. get d' jid = Some j' \<and> db_events d' = db_events d @ es \<and>
    (job_window j' = job_window j \<and> job_status j' \<in> {NOTIFIED, IN_PROGRESS, COMPLETED} \<and>
       (job_status j = IN_PROGRESS \<longrightarrow> job_status j' \<noteq> NOTIFIED) \<or>
     job_status j' = REPORTED \<and> (\<exists>e \<in> set es. ev_job_id e = jid \<and>
       ev_type e \<in> {BLOCK_RELEASED, EXECUTION_NOT_COMPLETED}))"
  using assms(1,2)
proof (cases rule: db_step_row)
  case kept
  moreover obtain es where "db_events d' = db_events d @ es" using db_step_extends [OF assms(1)] by blast
  ultimately show ?thesis using assms(3) by auto
next
  case (mutated m es)
  have st: "job_status (as_job m j) = mut_status m" by simp
  have nx: "mut_status m = REPORTED \<Longrightarrow> \<exists>e \<in> set es. ev_job_id e = jid \<and>
      ev_type e \<in> {BLOCK_RELEASED, EXECUTION_NOT_COMPLETED}"
    using mutated(2,4) assms(3)
    by (auto simp: accepted_simps required_kind_def backed_by_def names_execution_def) (blast | force)+
  from mutated(2) assms(3) have t: "mut_status m \<in> {NOTIFIED, IN_PROGRESS, COMPLETED, REPORTED}"
    "job_status j = IN_PROGRESS \<longrightarrow> mut_status m \<noteq> NOTIFIED"
    by (auto simp: validate_mutation_iff allowed_iff)
  show ?thesis
  proof (cases "mut_status m = REPORTED")
    case True
    with nx st mutated(1,3) show ?thesis by (intro exI [of _ "as_job m j"] exI [of _ es]) simp
  next
    case False
    with committed_window_kept [OF mutated(2) assms(3) False] t st mutated(1,3) show ?thesis
      by (intro exI [of _ "as_job m j"] exI [of _ es]) auto
  qed
qed

lemma commitment_kept_or_ended_witness:
  "\<exists>d d' j'. get d ''J1'' = Some notified_job \<and> db_step d d' \<and> get d' ''J1'' = Some j' \<and>
     job_status j' = IN_PROGRESS \<and> job_window j' = (Some 60, Some 120)"
proof -
  from run_start_step obtain d d' where d: "get d ''J1'' = Some notified_job" "db_step d d'"
    "get d' ''J1'' = Some executing_job" by blast
  have st: "job_status executing_job = IN_PROGRESS"
    by (simp add: executing_job_def run_start_mutation_def started_mutation_def)
  have "job_status notified_job \<in> {NOTIFIED, IN_PROGRESS}" by (simp add: run_facts)
  from commitment_kept_or_ended [OF d(2,1) this] d st run_facts show ?thesis
    by (auto simp: job_window_def)
qed

text \<open>C38: History is append-only and ids stay unique: no sequence of service operations removes or
  rewrites an event, and job ids and event ids never repeat.\<close>

theorem history_append_only:
  assumes "db_step\<^sup>*\<^sup>* empty_db d" "db_step\<^sup>*\<^sup>* d d'"
  shows "(\<exists>es. db_events d' = db_events d @ es) \<and> distinct (map job_id (db_rows d')) \<and>
    distinct (map ev_id (db_events d'))"
proof -
  have "ids_distinct empty_db" by (simp add: ids_distinct_def empty_db_def)
  with assms have "ids_distinct d'" by (metis ids.run_keeps rtranclp_trans)
  with job_history.run_extends [OF assms(2)] show ?thesis by (simp add: ids_distinct_def)
qed

lemma history_append_only_witness: "\<exists>es. db_events run_1 = db_events empty_db @ es"
  using history_append_only [OF rtranclp.rtrancl_refl run_1_reachable] by blast

section \<open>Human decisions\<close>

text \<open>C36: Approval is available: an identified person who names the current proposal (or names none)
  always succeeds in committing a well-formed scheduled job, the window and the proposal stay
  exactly what was reviewed, and one commit event by that person is recorded.\<close>

theorem approval_commits:
  assumes row: "get d jid = Some j" "jid \<noteq> []" "job_status j = SCHEDULED" "row_ok j"
      "\<not> dhas (metadata_of (job_block j)) EXECUTION_ID_KEY"
    and who: "actor_kind who = HUMAN" "actor_role who \<noteq> UNIDENTIFIED"
    and reviewed: "expected = None \<or> json_of_str expected = proposal_run_id_of j"
    and event: "matches_event_timestamp now" "now \<noteq> []" "fresh env 0 \<noteq> []"
      "fresh env 0 \<notin> ev_id ` set (db_events d)"
  shows "\<exists>d' j' e. mutate_jobs d [jid] (plan_commit env jid who now expected) True = Inr d' \<and>
    get d' jid = Some j' \<and> job_status j' = NOTIFIED \<and> job_window j' = job_window j \<and>
    proposal_run_id_of j' = proposal_run_id_of j \<and> db_events d' = db_events d @ [e] \<and>
    ev_type e = BLOCK_COMMITTED \<and> ev_actor e = Live who"
proof -
  have jid: "job_id j = jid" using get_Some [OF row(1)] by simp
  have w: "job_start j \<noteq> None" "job_end j \<noteq> None"
    using row(3,4) by (auto simp: row_ok_def valid_window_iff job_window_def)
  obtain m e where plan: "plan_commit env jid who now expected (rows_of d jid) = Inr ([m], [e])"
    and m: "m = (unchanged j)\<lparr>mut_status := NOTIFIED, mut_updated_at := Some now,
      mut_block := committed_edit (job_block j)\<rparr>" and e: "ev_id e = fresh env 0"
    using row who reviewed event w
    by (auto simp: plan_commit_def need_row_def require_identified_human_def make_event_def
        check_event_def Let_def)
  from commit_accepted [OF plan [folded jid] _ row(4,5)] row(1) jid
  have ok: "validate_mutation j m = Inr ()" "tokenless [m] [e]" "ev_type e = BLOCK_COMMITTED"
    "ev_actor e = Live who" by auto
  have id: "mut_job_id m = jid" by (simp add: m unchanged_def jid)
  from mutate_one_event [where plan = "plan_commit env jid who now expected" and rt = True,
      OF row(1) plan id ok(1) tokenless_events_ok [OF ok(2)] ok(4)] e event(4)
  obtain d' where "mutate_jobs d [jid] (plan_commit env jid who now expected) True = Inr d'"
    "get d' jid = Some (as_job m j)" "db_events d' = db_events d @ [e]" by auto
  moreover have "job_window (as_job m j) = job_window j" "job_status (as_job m j) = NOTIFIED"
    "proposal_run_id_of (as_job m j) = proposal_run_id_of j"
    by (simp_all add: m unchanged_def job_window_def proposal_run_id_of_def)
  ultimately show ?thesis using ok(3,4) by blast
qed

definition scheduled_db :: db where
  "scheduled_db = \<lparr>db_rows = [scheduled_job], db_events = []\<rparr>"

lemma scheduled_row: "get scheduled_db ''J1'' = Some scheduled_job"
  by (simp add: scheduled_db_def get_def get_row_def scheduled_job_def run_facts)

lemma scheduled_facts:
  "job_status scheduled_job = SCHEDULED" "job_window scheduled_job = (Some 60, Some 120)"
  "proposal_run_id_of scheduled_job = JStr ''RUN-1''" "row_ok scheduled_job"
  "\<not> dhas (metadata_of (job_block scheduled_job)) EXECUTION_ID_KEY"
  by code_simp+

lemma approval_commits_witness:
  "\<exists>d' j'. mutate_jobs scheduled_db [''J1'']
       (plan_commit (run_env ''C'') ''J1'' run_authority run_now (Some ''RUN-1'')) True = Inr d' \<and>
     get d' ''J1'' = Some j' \<and> job_status j' = NOTIFIED \<and> job_window j' = (Some 60, Some 120)"
proof -
  have "actor_kind run_authority = HUMAN" "actor_role run_authority \<noteq> UNIDENTIFIED"
    by (simp_all add: run_authority_def actor_kind_def kind_of_role_def)
  from approval_commits [OF scheduled_row _ scheduled_facts(1,4,5) this, of "Some ''RUN-1''" run_now
      "run_env ''C''"] start_step_7
  show ?thesis by (auto simp: scheduled_facts scheduled_db_def run_env_def)
qed

lemma review_checks_Inr:
  "review_checks j who x = Inr u \<longleftrightarrow> job_status j = SCHEDULED \<and> actor_kind who = HUMAN \<and>
     actor_role who \<noteq> UNIDENTIFIED \<and> job_start j \<noteq> None \<and> job_end j \<noteq> None \<and>
     proposal_run_id_of j = JStr x"
  by (auto simp: review_checks_def bind_res_Inr_iff)

text \<open>What each accepted decision found and recorded.\<close>

lemma commit_decides:
  assumes "plan_commit env jid who now expected rows = Inr (ms, es)" "rows jid = Some j"
  shows "job_status j = SCHEDULED \<and> job_start j \<noteq> None \<and> job_end j \<noteq> None \<and> actor_kind who = HUMAN \<and>
    actor_role who \<noteq> UNIDENTIFIED \<and> (\<forall>run. expected = Some run \<longrightarrow> proposal_run_id_of j = JStr run) \<and>
    (\<exists>ev. es = [ev] \<and> ev_type ev = BLOCK_COMMITTED \<and> ev_actor ev = Live who \<and> ev_run_id ev = proposal_run_id_of j)"
  using assms by (auto simp: plan_commit_def bind_res_Inr_iff Let_def split: if_split_asm dest!: made_event)

lemma reject_decides:
  assumes "plan_reject env jid who now reason run = Inr p" "p rows = Inr (ms, es)" "rows jid = Some j"
  shows "job_status j = SCHEDULED \<and> job_start j \<noteq> None \<and> job_end j \<noteq> None \<and> actor_kind who = HUMAN \<and>
    actor_role who \<noteq> UNIDENTIFIED \<and> proposal_run_id_of j = JStr run \<and>
    (\<exists>ev. es = [ev] \<and> ev_type ev = PROPOSAL_REJECTED \<and> ev_actor ev = Live who \<and> ev_run_id ev = JStr run)"
  using assms by (auto simp: plan_reject_def bind_res_Inr_iff review_checks_Inr Let_def dest!: made_event)

lemma postpone_decides:
  assumes "plan_postpone env jid who now q = Inr p" "p rows = Inr (ms, es)" "rows jid = Some j"
  shows "job_status j = SCHEDULED \<and> job_start j \<noteq> None \<and> job_end j \<noteq> None \<and> actor_kind who = HUMAN \<and>
    actor_role who \<noteq> UNIDENTIFIED \<and> proposal_run_id_of j = JStr (pp_expected q) \<and>
    (\<exists>ev. es = [ev] \<and> ev_type ev = PROPOSAL_POSTPONED \<and> ev_actor ev = Live who \<and> ev_run_id ev = JStr (pp_expected q))"
  using assms
  by (auto simp: plan_postpone_def bind_res_Inr_iff review_checks_Inr Let_def split: if_split_asm dest!: made_event)

lemma release_decides:
  assumes "plan_release env jid who now reason run horizon = Inr p" "p rows = Inr (ms, es)" "rows jid = Some j"
  shows "job_status j = NOTIFIED \<and> actor_kind who = HUMAN \<and> actor_role who \<noteq> UNIDENTIFIED \<and>
    proposal_run_id_of j = JStr run \<and>
    (\<exists>ev. es = [ev] \<and> ev_type ev = BLOCK_RELEASED \<and> ev_actor ev = Live who \<and> ev_run_id ev = JStr run)"
  using assms by (auto simp: plan_release_def bind_res_Inr_iff Let_def split: if_split_asm dest!: made_event)

text \<open>C37: A decision binds to what was reviewed. Commit, reject and postpone go through only on a scheduled job
  with a window, release only on a committed job whose work has not started; each only for an identified
  person, and only when the run it names is the run of the current proposal. A commit may name no run, and
  then decides on the current proposal. What is recorded is one event of that decision, by that person, about
  that run.\<close>

theorem decisions_bind_to_reviewed_proposal:
  assumes "rows jid = Some j"
  shows "(\<forall>expected ms es. plan_commit env jid who now expected rows = Inr (ms, es) \<longrightarrow>
      job_status j = SCHEDULED \<and> job_start j \<noteq> None \<and> job_end j \<noteq> None \<and>
      actor_kind who = HUMAN \<and> actor_role who \<noteq> UNIDENTIFIED \<and>
      (\<forall>run. expected = Some run \<longrightarrow> proposal_run_id_of j = JStr run) \<and>
      (\<exists>ev. es = [ev] \<and> ev_type ev = BLOCK_COMMITTED \<and> ev_actor ev = Live who \<and> ev_run_id ev = proposal_run_id_of j)) \<and>
    (\<forall>reason run p ms es. plan_reject env jid who now reason run = Inr p \<and> p rows = Inr (ms, es) \<longrightarrow>
      job_status j = SCHEDULED \<and> job_start j \<noteq> None \<and> job_end j \<noteq> None \<and>
      actor_kind who = HUMAN \<and> actor_role who \<noteq> UNIDENTIFIED \<and> proposal_run_id_of j = JStr run \<and>
      (\<exists>ev. es = [ev] \<and> ev_type ev = PROPOSAL_REJECTED \<and> ev_actor ev = Live who \<and> ev_run_id ev = JStr run)) \<and>
    (\<forall>q p ms es. plan_postpone env jid who now q = Inr p \<and> p rows = Inr (ms, es) \<longrightarrow>
      job_status j = SCHEDULED \<and> job_start j \<noteq> None \<and> job_end j \<noteq> None \<and>
      actor_kind who = HUMAN \<and> actor_role who \<noteq> UNIDENTIFIED \<and> proposal_run_id_of j = JStr (pp_expected q) \<and>
      (\<exists>ev. es = [ev] \<and> ev_type ev = PROPOSAL_POSTPONED \<and> ev_actor ev = Live who \<and> ev_run_id ev = JStr (pp_expected q))) \<and>
    (\<forall>reason run horizon p ms es. plan_release env jid who now reason run horizon = Inr p \<and> p rows = Inr (ms, es) \<longrightarrow>
      job_status j = NOTIFIED \<and>
      actor_kind who = HUMAN \<and> actor_role who \<noteq> UNIDENTIFIED \<and> proposal_run_id_of j = JStr run \<and>
      (\<exists>ev. es = [ev] \<and> ev_type ev = BLOCK_RELEASED \<and> ev_actor ev = Live who \<and> ev_run_id ev = JStr run))"
proof (intro conjI allI impI)
  fix expected ms es
  assume commit: "plan_commit env jid who now expected rows = Inr (ms, es)"
  note c = commit_decides [OF commit assms]
  from c show "job_status j = SCHEDULED" "job_start j \<noteq> None" "job_end j \<noteq> None"
    "actor_kind who = HUMAN" "actor_role who \<noteq> UNIDENTIFIED"
    "\<exists>ev. es = [ev] \<and> ev_type ev = BLOCK_COMMITTED \<and> ev_actor ev = Live who \<and> ev_run_id ev = proposal_run_id_of j"
    by blast+
  fix run assume "expected = Some run"
  with c show "proposal_run_id_of j = JStr run" by blast
next
  fix reason run p ms es
  assume "plan_reject env jid who now reason run = Inr p \<and> p rows = Inr (ms, es)"
  then have p: "plan_reject env jid who now reason run = Inr p" "p rows = Inr (ms, es)" by simp_all
  from reject_decides [OF p assms] show "job_status j = SCHEDULED" "job_start j \<noteq> None" "job_end j \<noteq> None"
    "actor_kind who = HUMAN" "actor_role who \<noteq> UNIDENTIFIED" "proposal_run_id_of j = JStr run"
    "\<exists>ev. es = [ev] \<and> ev_type ev = PROPOSAL_REJECTED \<and> ev_actor ev = Live who \<and> ev_run_id ev = JStr run"
    by blast+
next
  fix q p ms es
  assume "plan_postpone env jid who now q = Inr p \<and> p rows = Inr (ms, es)"
  then have p: "plan_postpone env jid who now q = Inr p" "p rows = Inr (ms, es)" by simp_all
  from postpone_decides [OF p assms] show "job_status j = SCHEDULED" "job_start j \<noteq> None" "job_end j \<noteq> None"
    "actor_kind who = HUMAN" "actor_role who \<noteq> UNIDENTIFIED" "proposal_run_id_of j = JStr (pp_expected q)"
    "\<exists>ev. es = [ev] \<and> ev_type ev = PROPOSAL_POSTPONED \<and> ev_actor ev = Live who \<and> ev_run_id ev = JStr (pp_expected q)"
    by blast+
next
  fix reason run horizon p ms es
  assume "plan_release env jid who now reason run horizon = Inr p \<and> p rows = Inr (ms, es)"
  then have p: "plan_release env jid who now reason run horizon = Inr p" "p rows = Inr (ms, es)" by simp_all
  from release_decides [OF p assms] show "job_status j = NOTIFIED"
    "actor_kind who = HUMAN" "actor_role who \<noteq> UNIDENTIFIED" "proposal_run_id_of j = JStr run"
    "\<exists>ev. es = [ev] \<and> ev_type ev = BLOCK_RELEASED \<and> ev_actor ev = Live who \<and> ev_run_id ev = JStr run"
    by blast+
qed

lemma decisions_bind_to_reviewed_proposal_witness:
  "proposal_run_id_of notified_job = JStr ''RUN-1'' \<and> job_status notified_job = NOTIFIED \<and> actor_kind run_authority = HUMAN"
proof -
  have row: "only_row notified_job ''J1'' = Some notified_job" by (simp add: only_row_def run_facts)
  from plan_okD [OF run_release_plan] obtain p ms es where
    "plan_release (run_env ''L'') ''J1'' run_authority run_now ''train path'' ''RUN-1'' 1440 = Inr p"
    "p (only_row notified_job) = Inr (ms, es)" by auto
  with decisions_bind_to_reviewed_proposal [where rows = "only_row notified_job" and jid = "''J1''" and
      env = "run_env ''L''" and who = run_authority and now = run_now, OF row]
  show ?thesis by blast
qed

text \<open>A rejected or postponed proposal is fully withdrawn: the transaction commits, the job is
  reported again without window, proposal or pinned metadata, and it carries the reason.\<close>

theorem review_withdraws_proposal:
  assumes row: "get d jid = Some j"
    and plan: "plan_reject env jid who now reason run = Inr p \<or>
      (plan_postpone env jid who now q = Inr p \<and> reason = pp_reason q)"
      "p (rows_of d jid) = Inr (ms, es)"
    and new: "\<forall>e \<in> set es. ev_id e \<notin> ev_id ` set (db_events d)"
  shows "\<exists>d' j'. mutate_jobs d [jid] p rt = Inr d' \<and> get d' jid = Some j' \<and>
    job_status j' = REPORTED \<and> released_block (job_block j') (job_window j') \<and>
    job_last_refusal_reason j' = Some reason"
proof -
  have jid: "job_id j = jid" "rows_of d jid (job_id j) = Some j" using get_Some [OF row] row by simp_all
  obtain m e where m: "ms = [m]" "es = [e]" "validate_mutation j m = Inr ()" "tokenless ms es"
    "returned j m" "mut_last_refusal_reason m = Some reason" "ev_actor e = Live who"
    using plan(1)
  proof
    assume "plan_reject env jid who now reason run = Inr p"
    from reject_accepted [OF this [folded jid(1)] plan(2) jid(2)] that show thesis by blast
  next
    assume "plan_postpone env jid who now q = Inr p \<and> reason = pp_reason q"
    with postpone_accepted [of env j who now q p _ ms es, OF _ plan(2) jid(2)] jid(1) that
    show thesis by blast
  qed
  have id: "mut_job_id m = jid" using m(5) jid(1) by (simp add: returned_def)
  from mutate_one_event [where plan = p and rt = rt, OF row plan(2) [unfolded m(1,2)] id m(3)
      tokenless_events_ok [OF m(4) [unfolded m(1,2)]] m(7)] new m(2)
  obtain d' where "mutate_jobs d [jid] p rt = Inr d'" "get d' jid = Some (as_job m j)" by auto
  then show ?thesis
    using m(5,6) by (intro exI [of _ d'] exI [of _ "as_job m j"])
      (auto simp: returned_def mut_window_def job_window_def)
qed

lemma scheduled_rows: "rows_of scheduled_db ''J1'' = only_row scheduled_job"
  using scheduled_row by (auto simp: rows_of_def only_row_def scheduled_job_def run_facts fun_eq_iff)

lemma review_withdraws_proposal_witness:
  "\<exists>p d' j'. mutate_jobs scheduled_db [''J1''] p True = Inr d' \<and> get d' ''J1'' = Some j' \<and>
     job_status j' = REPORTED \<and> job_last_refusal_reason j' = Some ''no crew''"
proof -
  from plan_okD [OF run_reject_plan] obtain p ms es where
    p: "plan_reject (run_env ''R'') ''J1'' run_authority run_now ''no crew'' ''RUN-1'' = Inr p"
    "p (rows_of scheduled_db ''J1'') = Inr (ms, es)"
    unfolding scheduled_rows by blast
  from review_withdraws_proposal [OF scheduled_row disjI1 [OF p(1)] p(2), of True] show ?thesis
    by (auto simp: scheduled_db_def)
qed

text \<open>An authority release always goes through once its plan is accepted: the commitment is
  returned to the reported state with its reason, and the job may not be planned again before
  the end of the window that was released.\<close>

theorem release_returns_block:
  assumes row: "get d jid = Some j"
    and plan: "plan_release env jid who now reason run horizon = Inr p" "p (rows_of d jid) = Inr (ms, es)"
    and new: "\<forall>e \<in> set es. ev_id e \<notin> ev_id ` set (db_events d)"
  shows "\<exists>d' j' s w earliest. mutate_jobs d [jid] p rt = Inr d' \<and> get d' jid = Some j' \<and>
    job_status j' = REPORTED \<and> released_block (job_block j') (job_window j') \<and>
    job_last_refusal_reason j' = Some reason \<and> job_window j = (Some s, Some w) \<and> w \<le> earliest \<and>
    dget (job_block j') ''earliest_start_minute'' = JInt earliest"
proof -
  have jid: "job_id j = jid" "rows_of d jid (job_id j) = Some j" using get_Some [OF row] row by simp_all
  from release_accepted [OF plan(1) [folded jid(1)] plan(2) jid(2)] obtain m e earliest s w where
    m: "ms = [m]" "es = [e]" "validate_mutation j m = Inr ()" "validate_execution_events ms es = Inr ()"
      "validate_release_events ms es = Inr ()" "returned j m" "ev_actor e = Live who"
      "mut_last_refusal_reason m = Some reason"
    and w: "job_window j = (Some s, Some w)" "w \<le> earliest"
      "dget (mut_block m) ''earliest_start_minute'' = JInt earliest" by blast
  have id: "mut_job_id m = jid" using m(6) jid(1) by (simp add: returned_def)
  from mutate_one_event [where plan = p and rt = rt, OF row plan(2) [unfolded m(1,2)] id m(3)
      m(4,5) [unfolded m(1,2)] m(7)] new m(2)
  obtain d' where "mutate_jobs d [jid] p rt = Inr d'" "get d' jid = Some (as_job m j)" by auto
  then show ?thesis
    using m(6,8) w by (intro exI [of _ d'] exI [of _ "as_job m j"] exI [of _ s] exI [of _ w]
        exI [of _ earliest]) (auto simp: returned_def mut_window_def job_window_def)
qed

lemma release_returns_block_witness:
  "\<exists>d p d' j'. get d ''J1'' = Some notified_job \<and> mutate_jobs d [''J1''] p True = Inr d' \<and>
     get d' ''J1'' = Some j' \<and> job_status j' = REPORTED"
proof -
  from run_notified obtain d where d: "get d ''J1'' = Some notified_job" "db_events d = []" by blast
  then have rows: "rows_of d ''J1'' = only_row notified_job"
    by (auto simp: rows_of_def only_row_def run_facts fun_eq_iff)
  from plan_okD [OF run_release_plan] obtain p ms es where
    p: "plan_release (run_env ''L'') ''J1'' run_authority run_now ''train path'' ''RUN-1'' 1440 = Inr p"
    "p (rows_of d ''J1'') = Inr (ms, es)"
    unfolding rows by blast
  from release_returns_block [OF d(1) p, of True] d show ?thesis by auto
qed

section \<open>Batches of the optimizer\<close>

text \<open>No optimization attempt touches a commitment: whatever the outcome of a batch, or its
  failure, a notified or in-progress job keeps its status, its window and its block.\<close>

theorem optimization_keeps_commitments:
  assumes "get d jid = Some j" "job_status j \<in> {NOTIFIED, IN_PROGRESS}"
    and "(\<exists>p. plan_optimization_outcome env ids q = Inr p \<and> mutate_jobs d ids p rt = Inr d') \<or>
      mutate_jobs d ids (plan_optimization_failure env ids a t reason lbl) rt = Inr d'"
  shows "\<exists>j'. get d' jid = Some j' \<and> job_status j' = job_status j \<and>
    job_window j' = job_window j \<and> job_block j' = job_block j"
  using assms(3)
proof
  assume "\<exists>p. plan_optimization_outcome env ids q = Inr p \<and> mutate_jobs d ids p rt = Inr d'"
  then obtain p where p: "plan_optimization_outcome env ids q = Inr p" "mutate_jobs d ids p rt = Inr d'"
    by blast
  show ?thesis
    by (rule commitment_row_kept [OF p(2) assms(1,2)])
      (use p(1) in \<open>auto simp: plan_optimization_outcome_def intro: outcome_loop_committed
        split: if_split_asm\<close>)
next
  assume "mutate_jobs d ids (plan_optimization_failure env ids a t reason lbl) rt = Inr d'"
  then show ?thesis
    by (rule commitment_row_kept [OF _ assms(1,2)])
      (auto simp: plan_optimization_failure_def intro: failure_loop_committed)
qed

text \<open>A failed attempt leaves no stale proposal: every scheduled job it was asked to plan is
  reported again, without window or proposal, and carries the failure as its reason.\<close>

theorem failure_withdraws_proposals:
  assumes "mutate_jobs d ids (plan_optimization_failure env ids a t reason lbl) rt = Inr d'"
    and "jid \<in> set ids" "get d jid = Some j" "job_status j = SCHEDULED"
  shows "\<exists>j'. get d' jid = Some j' \<and> job_status j' = REPORTED \<and>
    released_block (job_block j') (job_window j') \<and> job_last_refusal_reason j' = Some reason"
proof -
  from assms(1) obtain rows ms es where rd: "read_rows d ids = Inr rows"
    and lp: "failure_loop (failure_step env a t reason lbl rows) 0 ids = Inr (ms, es)"
    and tab: "db_rows d' = fold update_row ms (db_rows d)"
    by (rule mutate_jobs_Inr) (auto simp: plan_optimization_failure_def)
  have rows: "rows jid = Some j" and ids: "\<And>i k. rows i = Some k \<Longrightarrow> job_id k = i"
    using rd assms(2,3) by (auto simp: read_rows_Inr dest!: get_Some split: if_split_asm)
  have step: "\<forall>m \<in> set ms. mut_job_id m = jid \<longrightarrow> returned j m \<and> mut_last_refusal_reason m = Some reason"
  proof (rule failure_loop_all [OF lp])
    fix k i ms' es' assume st: "failure_step env a t reason lbl rows k i = Inr (ms', es')"
    then obtain j0 where j0: "rows i = Some j0" by (auto simp: failure_step_def bind_res_Inr_iff)
    from failure_step_committed [OF st j0] ids [OF j0] have "\<forall>m \<in> set ms'. mut_job_id m = i" by simp
    moreover have "i = jid \<Longrightarrow> \<forall>m \<in> set ms'. returned j m \<and> mut_last_refusal_reason m = Some reason"
      using failure_step_planned [OF st j0] j0 rows assms(4)
      by (auto simp: planned_def untouched_def proposes_def)
    ultimately show "\<forall>m \<in> set ms'. mut_job_id m = jid \<longrightarrow> returned j m \<and>
        mut_last_refusal_reason m = Some reason" by auto
  qed
  from failure_loop_member [OF lp assms(2)] obtain k ms' es' where
    m: "failure_step env a t reason lbl rows k jid = Inr (ms', es')" "set ms' \<subseteq> set ms" by blast
  from failure_step_planned [OF m(1) rows] failure_step_committed [OF m(1) rows ids [OF rows]] assms(4) m(2)
  have "last_for mut_job_id jid ms \<noteq> None" by (auto simp: last_for_None_iff)
  then obtain m where m: "last_for mut_job_id jid ms = Some m" by blast
  from last_for_SomeD [OF m] step have "returned j m" "mut_last_refusal_reason m = Some reason" by auto
  moreover have "get d' jid = Some (as_job m j)"
    using assms(3) m by (simp add: get_def tab job_table.lookup_writes)
  ultimately show ?thesis by (auto simp: returned_def mut_window_def job_window_def)
qed

definition res_ok :: "'a res \<Rightarrow> bool" where
  "res_ok r = (case r of Inl _ \<Rightarrow> False | Inr _ \<Rightarrow> True)"

lemma res_okD: "res_ok r \<Longrightarrow> \<exists>x. r = Inr x"
  by (auto simp: res_ok_def split: sum.split_asm)

definition notified_db :: db where
  "notified_db = \<lparr>db_rows = [notified_job], db_events = []\<rparr>"

lemma notified_row: "get notified_db ''J1'' = Some notified_job"
  by (simp add: notified_db_def get_def get_row_def run_facts)

lemma failure_runs:
  "res_ok (mutate_jobs notified_db [''J1''] (plan_optimization_failure (run_env ''X'') [''J1'']
     (or_attempt run_outcome) run_now ''solver crashed'' ''ERROR'') True)"
  "res_ok (mutate_jobs scheduled_db [''J1''] (plan_optimization_failure (run_env ''X'') [''J1'']
     (or_attempt run_outcome) run_now ''solver crashed'' ''ERROR'') True)"
  by code_simp+

lemma optimization_keeps_commitments_witness:
  "\<exists>d' j'. mutate_jobs notified_db [''J1''] (plan_optimization_failure (run_env ''X'') [''J1'']
      (or_attempt run_outcome) run_now ''solver crashed'' ''ERROR'') True = Inr d' \<and>
    get d' ''J1'' = Some j' \<and> job_status j' = NOTIFIED \<and> job_window j' = (Some 60, Some 120)"
proof -
  from res_okD [OF failure_runs(1)] obtain d' where d': "mutate_jobs notified_db [''J1'']
      (plan_optimization_failure (run_env ''X'') [''J1''] (or_attempt run_outcome) run_now
        ''solver crashed'' ''ERROR'') True = Inr d'" ..
  have "job_status notified_job \<in> {NOTIFIED, IN_PROGRESS}" by (simp add: run_facts)
  from optimization_keeps_commitments [OF notified_row this disjI2 [OF d']] d' run_facts show ?thesis
    by (auto simp: job_window_def)
qed

lemma failure_withdraws_proposals_witness:
  "\<exists>d' j'. mutate_jobs scheduled_db [''J1''] (plan_optimization_failure (run_env ''X'') [''J1'']
      (or_attempt run_outcome) run_now ''solver crashed'' ''ERROR'') True = Inr d' \<and>
    get d' ''J1'' = Some j' \<and> job_status j' = REPORTED"
proof -
  from res_okD [OF failure_runs(2)] obtain d' where d': "mutate_jobs scheduled_db [''J1'']
      (plan_optimization_failure (run_env ''X'') [''J1''] (or_attempt run_outcome) run_now
        ''solver crashed'' ''ERROR'') True = Inr d'" ..
  from failure_withdraws_proposals [OF d' _ scheduled_row scheduled_facts(1)] d' show ?thesis by auto
qed

section \<open>The primitives without history\<close>

lemma get_set_row:
  assumes "get d jid = Some cur" "job_id j = jid"
  shows "get (set_row j d) i = (if i = jid then Some j else get d i)"
proof -
  let ?set = "map (\<lambda>r. if job_id r = job_id j then j else r)"
  have "find (\<lambda>r. job_id r = i) (?set rows) = find (\<lambda>r. job_id r = i) rows" if "i \<noteq> jid" for rows
    using that assms(2) by (induction rows) auto
  moreover have "find (\<lambda>r. job_id r = jid) (?set rows) = Some j"
    if "find (\<lambda>r. job_id r = jid) rows = Some cur" for rows
    using that assms(2) by (induction rows) (auto split: if_split_asm)
  ultimately show ?thesis using assms(1) by (auto simp: get_def get_row_def set_row_def)
qed

text \<open>The primitive that schedules a job without history checks no window: on any reported or
  scheduled well-formed job it stores every pair of minutes as given, even one that ends before
  it starts, and it keeps the proposal run of the placement it replaces.\<close>

theorem schedule_primitive_unchecked:
  assumes "get d jid = Some j" "row_ok j" "job_status j \<in> {REPORTED, SCHEDULED}"
  shows "\<exists>d' j'. update_schedule d jid s e at' st = Inr d' \<and> get d' jid = Some j' \<and>
    job_status j' = SCHEDULED \<and> job_window j' = (Some s, Some e) \<and>
    proposal_run_id_of j' = proposal_run_id_of j \<and> (e \<le> s \<longrightarrow> \<not> row_ok j')"
proof -
  let ?md = "fmupd COMMITTED_END_KEY (JInt e) (fmupd COMMITTED_START_KEY (JInt s) (metadata_of (job_block j)))"
  let ?b = "fmupd ''status'' (JStr SCHEDULED_BLOCK) (fmupd ''metadata'' (JObj ?md) (job_block j))"
  let ?j = "j\<lparr>job_start := Some s, job_end := Some e, job_status := SCHEDULED, job_updated_at := Some at',
    job_last_solver_status := st, job_last_refusal_reason := None, job_block := ?b\<rparr>"
  have "protect_committed_and_terminal_state j SCHEDULED ?b (Some s, Some e) None None = Inr ()"
    using assms(2,3) by (auto simp: protect_iff row_ok_def committed_state_problems_Nil_iff
        gate_execution_iff gate_release_iff required_kind_def)
  then have "update_schedule d jid s e at' st = Inr (set_row ?j d)"
    using assms(1) by (simp add: update_schedule_def Let_def)
  moreover have "get (set_row ?j d) jid = Some ?j"
    using get_Some [OF assms(1)] by (simp add: get_set_row [OF assms(1)])
  ultimately show ?thesis
    by (intro exI [of _ "set_row ?j d"] exI [of _ ?j])
      (simp add: job_window_def proposal_run_id_of_def row_ok_def)
qed

lemma schedule_primitive_unchecked_witness:
  "\<exists>d' j'. update_schedule scheduled_db ''J1'' 120 60 run_now None = Inr d' \<and> get d' ''J1'' = Some j' \<and>
     job_window j' = (Some 120, Some 60) \<and> proposal_run_id_of j' = JStr ''RUN-1''"
  using schedule_primitive_unchecked [OF scheduled_row scheduled_facts(4), of 120 60 run_now None]
  by (auto simp: scheduled_facts)

text \<open>What a primitive changes: nothing, or one row, checked by the committed-state rules.\<close>

definition primitive :: "db \<Rightarrow> string \<Rightarrow> db \<Rightarrow> bool" where
  "primitive d jid d' \<longleftrightarrow>
     (\<exists>st t bs c. update_status d jid st t bs c = Inr d') \<or>
     (\<exists>s e t st. update_schedule d jid s e t st = Inr d') \<or>
     (\<exists>reason t st. record_refusal d jid reason t st = Inr d')"

lemma primitive_effect:
  assumes "primitive d jid d'"
  obtains "d' = d"
  | cur j where "get d jid = Some cur" "d' = set_row j d" "job_id j = jid"
      "protect_committed_and_terminal_state cur (job_status j) (job_block j) (job_window j) None None = Inr ()"
  | cur j where "get d jid = Some cur" "d' = set_row j d" "job_id j = jid"
      "job_status j = job_status cur" "job_status cur \<notin> {NOTIFIED, IN_PROGRESS, COMPLETED}"
proof -
  from assms consider (a) st t bs c where "update_status d jid st t bs c = Inr d'"
    | (b) s e t st where "update_schedule d jid s e t st = Inr d'"
    | (c) reason t st where "record_refusal d jid reason t st = Inr d'"
    unfolding primitive_def by blast
  then show thesis
  proof cases
    case a
    then show ?thesis
      using that(1,2) by (auto simp: update_status_def Let_def bind_res_Inr_iff job_window_def
          dest: get_Some split: option.split_asm)
  next
    case b
    then show ?thesis
      using that(1,2) by (auto simp: update_schedule_def Let_def bind_res_Inr_iff job_window_def
          dest: get_Some split: option.split_asm)
  next
    case c
    then show ?thesis
      using that(1,3) by (auto simp: record_refusal_def dest: get_Some split: option.split_asm if_split_asm)
  qed
qed

text \<open>The primitives without history cannot execute or release work: a job is in progress or
  completed after one only if it was before, and a committed job keeps its status and window.\<close>

theorem primitives_cannot_execute:
  assumes "primitive d jid d'" "get d' i = Some j'"
  shows "\<exists>j. get d i = Some j \<and>
    (job_status j' \<in> {IN_PROGRESS, COMPLETED} \<longrightarrow> job_status j = job_status j') \<and>
    (job_status j \<in> {NOTIFIED, IN_PROGRESS} \<longrightarrow>
       job_status j' = job_status j \<and> job_window j' = job_window j)"
  using assms(1)
proof (cases rule: primitive_effect)
  case 1
  with assms(2) show ?thesis by auto
next
  case (2 cur j)
  then show ?thesis
    using assms(2) get_set_row [OF 2(1,3), of i]
    by (auto simp: protect_iff gate_execution_iff gate_release_iff required_kind_def protect_committed_iff
        COMMITTED_TARGETS_def split: if_split_asm)
next
  case (3 cur j)
  then show ?thesis
    using assms(2) get_set_row [OF 3(1,3), of i] by (auto split: if_split_asm)
qed

lemma primitives_cannot_execute_witness:
  "primitive notified_db ''J1'' (notified_db\<lparr>db_rows := [notified_job\<lparr>job_updated_at := Some run_now\<rparr>]\<rparr>) \<and>
   (\<exists>j. get notified_db ''J1'' = Some j \<and> job_status j = NOTIFIED)"
proof -
  have "update_status notified_db ''J1'' NOTIFIED (Some run_now) None None =
      Inr (notified_db\<lparr>db_rows := [notified_job\<lparr>job_updated_at := Some run_now\<rparr>]\<rparr>)" by code_simp
  then have "primitive notified_db ''J1''
      (notified_db\<lparr>db_rows := [notified_job\<lparr>job_updated_at := Some run_now\<rparr>]\<rparr>)"
    unfolding primitive_def by blast
  from this primitives_cannot_execute [OF this, of "''J1''"] notified_row show ?thesis
    by (auto simp: get_def get_row_def run_facts)
qed

end
