(* ===== verification/Contracts.thy ===== *)
theory Contracts
  imports Job_Events Moments
begin

text \<open>
  The shared contracts of \<^verbatim>\<open>contracts/schemas.py\<close> that the optimizer and the simulation work
  on: possession windows, block candidates, scheduled blocks, optimization requests and
  disruption events, each with its \<^verbatim>\<open>to_dict\<close> and \<^verbatim>\<open>from_dict\<close>. Fields hold values of their
  declared types, so a dictionary whose value has another type is refused where the Python
  would store it untyped. Numeric text, which \<^verbatim>\<open>int()\<close> and \<^verbatim>\<open>float()\<close> would parse, is refused.
\<close>

section \<open>Typed reads\<close>

fun str_list_value :: "json \<Rightarrow> string list res" where
  "str_list_value (JArr xs) = map_res as_str xs"
| "str_list_value _ = Inl TypeError"

fun dict_list_value :: "json \<Rightarrow> dict list res" where
  "dict_list_value (JArr xs) = map_res as_dict xs"
| "dict_list_value _ = Inl TypeError"

definition DEFAULT_HORIZON_START :: string where
  "DEFAULT_HORIZON_START = ''2026-09-10T00:00:00+05:30''"

text \<open>\<^verbatim>\<open>_validate_horizon_start\<close>\<close>

definition validate_horizon_start :: "string \<Rightarrow> string res" where
  "validate_horizon_start h =
     bind_res (fromisoformat h) (\<lambda>d. if dt_offset d = None then Inl ValueError else Inr h)"

section \<open>Possession windows\<close>

record possession_window =
  pw_id :: string
  pw_track :: string
  pw_start :: int
  pw_end :: int
  pw_section :: "string option"
  pw_type :: string

definition window_to_dict :: "possession_window \<Rightarrow> dict" where
  "window_to_dict w = dict_of
     [(''window_id'', JStr (pw_id w)), (''track_id'', JStr (pw_track w)),
      (''start_minute'', JInt (pw_start w)), (''end_minute'', JInt (pw_end w)),
      (''section_id'', json_of_str (pw_section w)), (''window_type'', JStr (pw_type w))]"

definition window_from_dict :: "dict \<Rightarrow> possession_window res" where
  "window_from_dict d =
     bind_res (bind_res (need d ''window_id'') as_str) (\<lambda>i.
     bind_res (bind_res (need d ''track_id'') as_str) (\<lambda>t.
     bind_res (bind_res (need d ''start_minute'') int_of_json) (\<lambda>s.
     bind_res (bind_res (need d ''end_minute'') int_of_json) (\<lambda>e.
     bind_res (as_str_option (dget d ''section_id'')) (\<lambda>sec.
     bind_res (as_str (dget_default d ''window_type'' (JStr ''MAINTENANCE_POSSESSION''))) (\<lambda>ty.
     Inr \<lparr>pw_id = i, pw_track = t, pw_start = s, pw_end = e, pw_section = sec,
          pw_type = ty\<rparr>))))))"

section \<open>Block candidates\<close>

record block_candidate =
  bc_id :: string
  bc_asset :: string
  bc_track :: string
  bc_work_type :: string
  bc_duration :: int
  bc_section :: "string option"
  bc_earliest :: int
  bc_latest_end :: int
  bc_priority :: rat
  bc_risk :: rat
  bc_dependencies :: "string list"
  bc_mutex :: "string option"
  bc_committed :: bool
  bc_status :: string
  bc_metadata :: dict

definition candidate_to_dict :: "block_candidate \<Rightarrow> dict" where
  "candidate_to_dict b = dict_of
     [(''block_id'', JStr (bc_id b)), (''asset_id'', JStr (bc_asset b)),
      (''track_id'', JStr (bc_track b)), (''work_type'', JStr (bc_work_type b)),
      (''duration_minutes'', JInt (bc_duration b)),
      (''section_id'', json_of_str (bc_section b)),
      (''earliest_start_minute'', JInt (bc_earliest b)),
      (''latest_end_minute'', JInt (bc_latest_end b)),
      (''priority_score'', JFloat (bc_priority b)), (''risk_score'', JFloat (bc_risk b)),
      (''dependencies'', JArr (map JStr (bc_dependencies b))),
      (''mutual_exclusion_group'', json_of_str (bc_mutex b)),
      (''is_committed'', JBool (bc_committed b)), (''status'', JStr (bc_status b)),
      (''metadata'', JObj (bc_metadata b))]"

definition candidate_from_dict :: "dict \<Rightarrow> block_candidate res" where
  "candidate_from_dict d =
     bind_res (bind_res (need d ''block_id'') as_str) (\<lambda>i.
     bind_res (bind_res (need d ''asset_id'') as_str) (\<lambda>a.
     bind_res (bind_res (need d ''track_id'') as_str) (\<lambda>t.
     bind_res (bind_res (need d ''work_type'') as_str) (\<lambda>wt.
     bind_res (bind_res (need d ''duration_minutes'') int_of_json) (\<lambda>du.
     bind_res (as_str_option (dget d ''section_id'')) (\<lambda>sec.
     bind_res (int_of_json (dget_default d ''earliest_start_minute'' (JInt 0))) (\<lambda>es.
     bind_res (int_of_json (dget_default d ''latest_end_minute'' (JInt 1440))) (\<lambda>le.
     bind_res (float_of_json (dget_default d ''priority_score'' (JFloat (1/2)))) (\<lambda>pr.
     bind_res (float_of_json (dget_default d ''risk_score'' (JFloat (1/2)))) (\<lambda>ri.
     bind_res (str_list_value (dget_default d ''dependencies'' (JArr []))) (\<lambda>de.
     bind_res (as_str_option (dget d ''mutual_exclusion_group'')) (\<lambda>mu.
     bind_res (as_str (dget_default d ''status'' (JStr PLANNED_BLOCK))) (\<lambda>st.
     bind_res (as_dict (dget_default d ''metadata'' (JObj fmempty))) (\<lambda>md.
     Inr \<lparr>bc_id = i, bc_asset = a, bc_track = t, bc_work_type = wt, bc_duration = du,
          bc_section = sec, bc_earliest = es, bc_latest_end = le, bc_priority = pr,
          bc_risk = ri, bc_dependencies = de, bc_mutex = mu,
          bc_committed = truthy (dget_default d ''is_committed'' (JBool False)),
          bc_status = st, bc_metadata = md\<rparr>))))))))))))))"

section \<open>Scheduled blocks\<close>

record scheduled_block =
  sb_id :: string
  sb_track :: string
  sb_start :: int
  sb_end :: int
  sb_work_type :: string
  sb_section :: "string option"
  sb_priority :: rat
  sb_risk :: rat
  sb_committed :: bool
  sb_status :: string

definition scheduled_to_dict :: "scheduled_block \<Rightarrow> dict" where
  "scheduled_to_dict b = dict_of
     [(''block_id'', JStr (sb_id b)), (''track_id'', JStr (sb_track b)),
      (''start_minute'', JInt (sb_start b)), (''end_minute'', JInt (sb_end b)),
      (''work_type'', JStr (sb_work_type b)), (''section_id'', json_of_str (sb_section b)),
      (''priority_score'', JFloat (sb_priority b)), (''risk_score'', JFloat (sb_risk b)),
      (''is_committed'', JBool (sb_committed b)), (''status'', JStr (sb_status b))]"

definition scheduled_from_dict :: "dict \<Rightarrow> scheduled_block res" where
  "scheduled_from_dict d =
     bind_res (bind_res (need d ''block_id'') as_str) (\<lambda>i.
     bind_res (bind_res (need d ''track_id'') as_str) (\<lambda>t.
     bind_res (bind_res (need d ''start_minute'') int_of_json) (\<lambda>s.
     bind_res (bind_res (need d ''end_minute'') int_of_json) (\<lambda>e.
     bind_res (as_str (dget_default d ''work_type'' (JStr ''UNKNOWN''))) (\<lambda>wt.
     bind_res (as_str_option (dget d ''section_id'')) (\<lambda>sec.
     bind_res (float_of_json (dget_default d ''priority_score'' (JFloat (1/2)))) (\<lambda>pr.
     bind_res (float_of_json (dget_default d ''risk_score'' (JFloat (1/2)))) (\<lambda>ri.
     bind_res (as_str (dget_default d ''status'' (JStr SCHEDULED_BLOCK))) (\<lambda>st.
     Inr \<lparr>sb_id = i, sb_track = t, sb_start = s, sb_end = e, sb_work_type = wt,
          sb_section = sec, sb_priority = pr, sb_risk = ri,
          sb_committed = truthy (dget_default d ''is_committed'' (JBool False)),
          sb_status = st\<rparr>)))))))))"

section \<open>Requests\<close>

record optimization_request =
  oq_corridor :: string
  oq_horizon_minutes :: int
  oq_tracks :: "string list"
  oq_candidates :: "block_candidate list"
  oq_windows :: "possession_window list"
  oq_committed :: "block_candidate list"
  oq_headway :: int
  oq_timetable :: "dict list"
  oq_horizon_start :: string

text \<open>\<^verbatim>\<open>OptimizationRequest(...)\<close>: the constructor with its \<^verbatim>\<open>__post_init__\<close> check.\<close>

definition make_request :: "optimization_request \<Rightarrow> optimization_request res" where
  "make_request q =
     bind_res (validate_horizon_start (oq_horizon_start q)) (\<lambda>h. Inr (q\<lparr>oq_horizon_start := h\<rparr>))"

definition request_to_dict :: "optimization_request \<Rightarrow> dict" where
  "request_to_dict q = dict_of
     [(''corridor_id'', JStr (oq_corridor q)), (''horizon_start'', JStr (oq_horizon_start q)),
      (''horizon_minutes'', JInt (oq_horizon_minutes q)),
      (''tracks'', JArr (map JStr (oq_tracks q))),
      (''candidates'', JArr (map (\<lambda>c. JObj (candidate_to_dict c)) (oq_candidates q))),
      (''possession_windows'', JArr (map (\<lambda>w. JObj (window_to_dict w)) (oq_windows q))),
      (''existing_committed_blocks'',
       JArr (map (\<lambda>c. JObj (candidate_to_dict c)) (oq_committed q))),
      (''min_headway_minutes'', JInt (oq_headway q)),
      (''train_timetable'', JArr (map JObj (oq_timetable q)))]"

definition request_from_dict :: "dict \<Rightarrow> optimization_request res" where
  "request_from_dict d =
     bind_res (bind_res (need d ''corridor_id'') as_str) (\<lambda>co.
     bind_res (as_str (dget_default d ''horizon_start'' (JStr DEFAULT_HORIZON_START))) (\<lambda>hs.
     bind_res (int_of_json (dget_default d ''horizon_minutes'' (JInt 1440))) (\<lambda>hm.
     bind_res (str_list_value (dget_default d ''tracks'' (JArr []))) (\<lambda>tr.
     bind_res (bind_res (dict_list_value (dget_default d ''candidates'' (JArr [])))
                 (map_res candidate_from_dict)) (\<lambda>cs.
     bind_res (bind_res (dict_list_value (dget_default d ''possession_windows'' (JArr [])))
                 (map_res window_from_dict)) (\<lambda>ws.
     bind_res (bind_res (dict_list_value (dget_default d ''existing_committed_blocks'' (JArr [])))
                 (map_res candidate_from_dict)) (\<lambda>bs.
     bind_res (int_of_json (dget_default d ''min_headway_minutes'' (JInt 15))) (\<lambda>he.
     bind_res (dict_list_value (dget_default d ''train_timetable'' (JArr []))) (\<lambda>ti.
     make_request \<lparr>oq_corridor = co, oq_horizon_minutes = hm, oq_tracks = tr,
       oq_candidates = cs, oq_windows = ws, oq_committed = bs, oq_headway = he,
       oq_timetable = ti, oq_horizon_start = hs\<rparr>)))))))))"

section \<open>Disruptions\<close>

record disruption_event =
  de_id :: string
  de_type :: string
  de_corridor :: string
  de_track :: "string option"
  de_start :: int
  de_end :: int
  de_asset :: "string option"
  de_candidate :: "block_candidate option"
  de_description :: string

definition disruption_to_dict :: "disruption_event \<Rightarrow> dict" where
  "disruption_to_dict e = dict_of
     [(''disruption_id'', JStr (de_id e)), (''disruption_type'', JStr (de_type e)),
      (''corridor_id'', JStr (de_corridor e)), (''track_id'', json_of_str (de_track e)),
      (''start_minute'', JInt (de_start e)), (''end_minute'', JInt (de_end e)),
      (''affected_asset_id'', json_of_str (de_asset e)),
      (''new_candidate'', case de_candidate e of None \<Rightarrow> JNull
         | Some c \<Rightarrow> JObj (candidate_to_dict c)),
      (''description'', JStr (de_description e))]"

definition disruption_from_dict :: "dict \<Rightarrow> disruption_event res" where
  "disruption_from_dict d =
     bind_res (if truthy (dget d ''new_candidate'')
               then bind_res (bind_res (as_dict (dget d ''new_candidate'')) candidate_from_dict)
                      (\<lambda>c. Inr (Some c))
               else Inr None) (\<lambda>nc.
     bind_res (bind_res (need d ''disruption_id'') as_str) (\<lambda>i.
     bind_res (bind_res (need d ''disruption_type'') as_str) (\<lambda>ty.
     bind_res (bind_res (need d ''corridor_id'') as_str) (\<lambda>co.
     bind_res (as_str_option (dget d ''track_id'')) (\<lambda>tr.
     bind_res (int_of_json (dget_default d ''start_minute'' (JInt 0))) (\<lambda>s.
     bind_res (int_of_json (dget_default d ''end_minute'' (JInt 1440))) (\<lambda>e.
     bind_res (as_str_option (dget d ''affected_asset_id'')) (\<lambda>as.
     bind_res (as_str (dget_default d ''description'' (JStr ''''))) (\<lambda>de.
     Inr \<lparr>de_id = i, de_type = ty, de_corridor = co, de_track = tr, de_start = s, de_end = e,
          de_asset = as, de_candidate = nc, de_description = de\<rparr>)))))))))"

section \<open>Round trips\<close>

lemma as_str_option_of [simp]: "as_str_option (json_of_str s) = Inr s"
  by (cases s) simp_all

lemma map_as_str [simp]: "map_res as_str (map JStr xs) = Inr xs"
  by (induction xs) simp_all

lemma map_as_dict [simp]: "map_res as_dict (map JObj ds) = Inr ds"
  by (induction ds) simp_all

lemma map_as_dict_of [simp]: "map_res as_dict (map (\<lambda>x. JObj (f x)) xs) = Inr (map f xs)"
  by (induction xs) simp_all

lemma map_res_map:
  assumes "\<And>x. g (f x) = Inr x"
  shows "map_res g (map f xs) = Inr xs"
  by (induction xs) (simp_all add: assms)

lemmas dict_reads = dict_of_def need_def dget_default_def dhas_def dget_def

lemma window_roundtrip: "window_from_dict (window_to_dict w) = Inr w"
  by (cases w) (simp add: window_from_dict_def window_to_dict_def dict_reads)

lemma candidate_roundtrip: "candidate_from_dict (candidate_to_dict b) = Inr b"
  by (cases b) (simp add: candidate_from_dict_def candidate_to_dict_def dict_reads)

lemma scheduled_roundtrip: "scheduled_from_dict (scheduled_to_dict b) = Inr b"
  by (cases b) (simp add: scheduled_from_dict_def scheduled_to_dict_def dict_reads)

lemma request_roundtrip:
  assumes "make_request q = Inr q"
  shows "request_from_dict (request_to_dict q) = Inr q"
  using assms
  by (cases q) (simp add: request_from_dict_def request_to_dict_def dict_reads
      map_res_map candidate_roundtrip window_roundtrip)

lemma candidate_dict_nonempty: "candidate_to_dict b \<noteq> fmempty"
proof
  assume "candidate_to_dict b = fmempty"
  then have "fmlookup (candidate_to_dict b) ''block_id'' = None" by simp
  then show False by (simp add: candidate_to_dict_def dict_of_def)
qed

lemma disruption_roundtrip: "disruption_from_dict (disruption_to_dict e) = Inr e"
  by (cases e; cases "de_candidate e")
    (simp_all add: disruption_from_dict_def disruption_to_dict_def dict_reads
      candidate_roundtrip candidate_dict_nonempty)

end
