(* ===== verification/Record_Properties.thy ===== *)
theory Record_Properties
  imports Example_Run Contracts
begin

text \<open>
  What the records of the service guarantee: identities never gain assurance by being stored,
  events survive their dictionary form, observed moments and evidence are kept exactly, and the
  execution records read back from a history are sound and agree with the operations that wrote
  it.
\<close>

section \<open>Identities and events\<close>

text \<open>C39: Storing never promotes an identity. A stored identity comes back with the id, role and assurance it was
  stored with, and as a live actor exactly when that assurance is not the authenticated one: a stored
  authenticated identity comes back as a mere record, of a human role, and a system identity comes back
  live only with its reserved id and internal assurance.\<close>

theorem rehydration_never_authenticates:
  assumes "rehydrate_actor aid role asr = Inr x"
  shows "case x of
      Live a \<Rightarrow> actor_id a = aid \<and> role_value (actor_role a) = role \<and>
        assurance_value (actor_assurance a) = asr \<and> asr \<noteq> ''AUTHENTICATED'' \<and> actor_assurance a \<noteq> AUTHENTICATED \<and>
        (actor_role a = SYSTEM \<longleftrightarrow> looks_like_system aid) \<and>
        (actor_role a = SYSTEM \<longrightarrow> actor_assurance a = SYSTEM_INTERNAL)
    | Recorded r \<Rightarrow> rec_actor_id r = aid \<and> role_value (rec_role r) = role \<and>
        asr = ''AUTHENTICATED'' \<and> rec_assurance r = AUTHENTICATED \<and> rec_role r \<in> set HUMAN_ROLES \<and>
        \<not> looks_like_system aid"
  using assms
proof (cases x)
  case (Live a)
  with assms have a: "actor_id a = aid" "actor_assurance a \<noteq> AUTHENTICATED"
      "actor_role a = SYSTEM \<longleftrightarrow> looks_like_system aid" "actor_role a = SYSTEM \<longrightarrow> actor_assurance a = SYSTEM_INTERNAL"
    and v: "role_of role = Some (actor_role a)" "assurance_of asr = Some (actor_assurance a)"
    by (auto simp: rehydrate_actor_def make_actor_iff actor_ok_def bind_res_Inr_iff
        split: option.split_asm if_split_asm)
  have "asr \<noteq> ''AUTHENTICATED''" using a(2) assurance_of_Some [OF v(2)] by (cases "actor_assurance a") auto
  with a role_of_Some [OF v(1)] assurance_of_Some [OF v(2)] Live show ?thesis by simp
next
  case (Recorded r)
  with assms have asr: "assurance_of asr = Some AUTHENTICATED"
    and "make_recorded_actor aid role (assurance_value AUTHENTICATED) = Inr r"
    by (auto simp: rehydrate_actor_def bind_res_Inr_iff simp del: assurance_value.simps
        split: option.split_asm if_split_asm)
  then obtain a where a: "human_actor aid (role_value (rec_role r)) = Inr a" "rec_actor_id r = aid"
      "role_of role = Some (rec_role r)" "rec_assurance r = AUTHENTICATED"
    by (auto simp: make_recorded_actor_def bind_res_Inr_iff simp del: assurance_value.simps
        split: option.split_asm)
  have "actor_role a = rec_role r" "actor_role a \<in> set HUMAN_ROLES" "actor_ok False a" "actor_id a = aid"
    using a(1) by (auto simp: human_actor_iff simp del: role_value.simps)
  moreover have "\<not> looks_like_system aid"
    using calculation by (auto simp: actor_ok_def HUMAN_ROLES_def)
  ultimately show ?thesis
    using Recorded a(2,4) role_of_Some [OF a(3)] assurance_of_Some [OF asr] by simp
qed

lemma rehydration_never_authenticates_witness:
  "\<exists>r. rehydrate_actor ''a-1'' ''AUTHORITY'' ''AUTHENTICATED'' = Inr (Recorded r) \<and>
     rec_role r \<in> set HUMAN_ROLES"
proof -
  have "rehydrate_actor ''a-1'' ''AUTHORITY'' ''AUTHENTICATED'' = Inr (Recorded
      \<lparr>rec_actor_id = ''a-1'', rec_role = AUTHORITY, rec_assurance = AUTHENTICATED\<rparr>)"
    by code_simp
  from rehydration_never_authenticates [OF this] this show ?thesis by auto
qed

text \<open>What an event is after it has been stored: an authenticated actor has become a record.\<close>

definition stored_actor :: "event_actor \<Rightarrow> event_actor" where
  "stored_actor x = (case x of
     Live a \<Rightarrow> if actor_assurance a = AUTHENTICATED
       then Recorded \<lparr>rec_actor_id = actor_id a, rec_role = actor_role a, rec_assurance = AUTHENTICATED\<rparr>
       else x
   | Recorded _ \<Rightarrow> x)"

definition stored_event :: "job_event \<Rightarrow> job_event" where
  "stored_event e = e\<lparr>ev_actor := stored_actor (ev_actor e)\<rparr>"

lemma snapshot_roundtrip: "snapshot_from_dict (snapshot_to_dict s) = Inr s"
proof -
  have "as_int_option (json_of_int i) = Inr i" for i by (cases i) (simp_all add: json_of_int_def)
  then show ?thesis
    by (cases s) (simp add: snapshot_from_dict_def snapshot_to_dict_def dict_reads)
qed

lemma snapshot_option_roundtrip: "snapshot_of_json (json_of_snapshot s) = Inr s"
  by (cases s) (simp_all add: json_of_snapshot_def snapshot_roundtrip)

lemma human_role_iff: "r \<in> set HUMAN_ROLES \<longleftrightarrow> r \<noteq> SYSTEM \<and> r \<noteq> UNIDENTIFIED"
  by (cases r) (simp_all add: HUMAN_ROLES_def)

lemma live_actor_rehydrates:
  assumes "actor_ok c a"
  shows "rehydrate_actor (actor_id a) (role_value (actor_role a)) (assurance_value (actor_assurance a)) =
    Inr (stored_actor (Live a))"
proof (cases "actor_assurance a = AUTHENTICATED")
  case True
  have "human_actor (actor_id a) (role_value (actor_role a)) =
      Inr (a\<lparr>actor_assurance := DECLARED_UNVERIFIED\<rparr>)"
    unfolding human_actor_iff using assms True by (auto simp: actor_ok_def human_role_iff)
  with True show ?thesis
    by (simp add: rehydrate_actor_def make_recorded_actor_def stored_actor_def
        del: assurance_value.simps role_value.simps)
next
  case False
  have "make_actor False (actor_id a) (role_value (actor_role a)) (assurance_value (actor_assurance a)) = Inr a"
    unfolding make_actor_iff actor_ok_def using assms [unfolded actor_ok_def] False
    by (simp del: role_value.simps assurance_value.simps) blast
  with False show ?thesis
    by (simp add: rehydrate_actor_def stored_actor_def del: assurance_value.simps role_value.simps)
qed

lemma event_stored:
  assumes "event_ok e" "ev_actor e = Live a" "actor_ok c a"
  shows "event_from_dict (event_to_dict e) = Inr (stored_event e)"
proof -
  have k: "event_actor_kind (stored_actor (Live a)) = actor_kind a"
    by (simp add: stored_actor_def actor_kind_def)
  have s: "as_str_option (json_of_str r) = Inr r" for r by (cases r) (simp_all add: json_of_str_def)
  have "check_event True (stored_event e) = Inr (stored_event e)"
    using assms(1) by (simp add: check_event_iff event_ok_def stored_event_def)
  moreover have "stored_event e = \<lparr>ev_id = ev_id e, ev_job_id = ev_job_id e, ev_type = ev_type e,
      ev_occurred_at = ev_occurred_at e, ev_actor = stored_actor (Live a), ev_reason = ev_reason e,
      ev_run_id = ev_run_id e, ev_before = ev_before e, ev_after = ev_after e,
      ev_metadata = ev_metadata e, ev_schema_version = ev_schema_version e\<rparr>"
    by (simp add: stored_event_def assms(2))
  ultimately show ?thesis
    using live_actor_rehydrates [OF assms(3)]
    by (simp add: event_from_dict_def event_to_dict_def dict_reads actor_to_dict_def assms(2) s
        snapshot_option_roundtrip check_stored_kind_def k metadata_of_def
        del: role_value.simps assurance_value.simps kind_value.simps event_type_value.simps)
qed

text \<open>C40: An event survives its dictionary form: reading back what was written gives the same event,
  with the one difference that an authenticated actor is now a record of itself.\<close>

theorem event_dict_roundtrip:
  assumes "event_ok e" "ev_actor e = Live a" "actor_ok c a"
  shows "event_from_dict (event_to_dict e) = Inr (stored_event e)"
  by (rule event_stored [OF assms])

lemma event_dict_roundtrip_witness:
  "event_from_dict (event_to_dict run_started_event) = Inr run_started_event"
proof -
  have "event_ok run_started_event"
    using start_step_7(1) by (simp add: event_ok_def run_started_event_def Let_def)
  moreover have "ev_actor run_started_event = Live run_worker"
    by (simp add: run_started_event_def Let_def)
  moreover have "actor_ok False run_worker" by code_simp
  ultimately show ?thesis
    using event_dict_roundtrip [of run_started_event run_worker False]
    by (simp add: stored_event_def stored_actor_def run_worker_def)
qed

section \<open>Moments\<close>

lemma template_append:
  "matches_template t s \<Longrightarrow> matches_template t' s' \<Longrightarrow> matches_template (t @ t') (s @ s')"
  by (simp add: matches_template_def list_all2_appendI)

lemma template_pad: "0 \<le> i \<Longrightarrow> matches_template (replicate k CHR ''d'') (pad k i)"
  using pad_digits [of i k]
  by (auto simp: matches_template_def list_all2_conv_all_nth list_all_length simp del: pad.simps)

lemma template_self: "CHR ''d'' \<notin> set s \<Longrightarrow> matches_template s s"
  by (induction s) (auto simp: matches_template_def)

lemma isoformat_template:
  assumes "in_range u"
  shows "matches_event_timestamp (isoformat_utc u)"
proof -
  obtain y m d where ymd: "ymd_of_day (u div micros_per_day) = (y, m, d)" by (metis prod_cases3)
  have v: "valid_ymd (y, m, d)"
    using ymd_of_day_valid [OF in_range_day(1,2) [OF assms]] ymd by simp
  obtain h mi se us where t: "hms_of_micros (u mod micros_per_day) = (h, mi, se, us)" by (metis prod_cases4)
  have ok: "hms_ok (h, mi, se, us)"
    using hms_of_micros_ok [OF in_range_day(3,4) [OF assms]] t by simp
  let ?d = "\<lambda>k. replicate k CHR ''d''"
  have "matches_template (?d 4 @ ''-'' @ ?d 2 @ ''-'' @ ?d 2 @ ''T'' @ (?d 2 @ '':'' @ ?d 2 @ '':'' @ ?d 2
      @ ''.'' @ ?d 6) @ ''+00:00'') (isoformat_utc u)"
    unfolding isoformat_utc_text ymd prod.case t hms_text_def
    using v ok
    by (intro template_append template_pad template_self) (auto simp: valid_ymd_def hms_ok_def)
  then show ?thesis
    by (simp add: matches_event_timestamp_def anchored_def numeral_eq_Suc)
qed

text \<open>The canonical timestamp is exact: every aware moment that can be written is written in the
  one accepted form, and reading it back gives the same instant in UTC.\<close>

theorem timestamp_roundtrip:
  assumes "event_timestamp d = Inr s"
  shows "matches_event_timestamp s \<and>
    fromisoformat s = Inr \<lparr>dt_local = instant d, dt_offset = Some 0\<rparr>"
proof -
  have c: "canonical s \<lparr>dt_local = instant d, dt_offset = Some 0\<rparr>"
    by (rule event_timestamp_canonical [OF assms])
  with isoformat_template [of "instant d"] canonical_fromisoformat [OF c] show ?thesis
    by (simp add: canonical_def)
qed

lemma timestamp_roundtrip_witness:
  "fromisoformat ''2026-09-09T19:35:00.000000+00:00'' =
     Inr \<lparr>dt_local = instant run_started_at, dt_offset = Some 0\<rparr>"
  using timestamp_roundtrip [OF start_step_4 [unfolded canonical_observed_at_def]] by simp

lemma floor_and_ceiling:
  fixes x M q r :: int
  assumes "x = M * q + r" "0 \<le> r" "r < M"
  shows "x div M = q" "- (- x div M) = (if r = 0 then q else q + 1)"
proof -
  show "x div M = q" using assms by (simp add: int_div_pos_eq)
  show "- (- x div M) = (if r = 0 then q else q + 1)"
  proof (cases "r = 0")
    case True
    then have "- x = M * (- q)" using assms(1) by simp
    then have "- x div M = - q" using assms(2,3) by (intro int_div_pos_eq [where r = 0]) auto
    with True show ?thesis by simp
  next
    case False
    have "- x = M * (- q - 1) + (M - r)" using assms(1) by (simp add: algebra_simps)
    then have "- x div M = - q - 1" using assms(2,3) False by (intro int_div_pos_eq [where r = "M - r"]) auto
    with False show ?thesis by simp
  qed
qed

text \<open>An observed minute is exact: a start is the last whole minute of the planning horizon at or
  before the moment, an end the first at or after it, whatever the offsets of the two clocks.\<close>

theorem observed_minute_exact:
  assumes "parse_horizon_start h = Inr a" "observed_minute moment h ceil = Inr k"
  shows "k = (if ceil then - ((instant a - instant moment) div micros_per_minute)
              else (instant moment - instant a) div micros_per_minute)"
proof -
  obtain f where f: "dt_offset a = Some f" using parse_horizon_start_aware [OF assms(1)] by blast
  define l where "l = instant moment + f"
  define day where "day = l div micros_per_day"
  define t where "t = l mod micros_per_day"
  define rest where "rest = t mod micros_per_minute"
  define clock where "clock = t div micros_per_minute"
  from assms f obtain minute where
    hr: "horizon_relative_minutes (Date_day day) clock 0 (As_datetime a) = Inr minute"
    and k: "k = (if ceil \<and> rest \<noteq> 0 then minute + 1 else minute)"
    by (auto simp: observed_minute_def bind_res_Inr_iff astimezone_def Let_def day_def clock_def
        rest_def t_def l_def split: if_split_asm)
  define delta where "delta = day * micros_per_day + clock * micros_per_minute - dt_local a"
  from hr f have "delta mod micros_per_minute = 0" "minute = delta div micros_per_minute"
    by (auto simp: horizon_relative_minutes_def parse_service_date_def resolve_horizon_start_def
        Let_def delta_def split: if_split_asm)
  then have "delta = micros_per_minute * minute"
    using mult_div_mod_eq [of micros_per_minute delta] by simp
  moreover have "l = day * micros_per_day + t" "t = clock * micros_per_minute + rest"
    unfolding day_def t_def clock_def rest_def by (simp_all only: div_mult_mod_eq)
  moreover have "instant a = dt_local a - f" using f by (simp add: instant_def)
  ultimately have x: "instant moment - instant a = micros_per_minute * minute + rest"
    by (simp only: delta_def l_def)
  have r: "0 \<le> rest" "rest < micros_per_minute"
    unfolding rest_def by (simp_all only: pos_mod_sign pos_mod_bound zero_less_numeral)
  note fc = floor_and_ceiling [OF x r]
  have "instant a - instant moment = - (instant moment - instant a)" by simp
  with fc k show ?thesis by (cases ceil; cases "rest = 0"; simp only: simp_thms if_True if_False)
qed

lemma observed_minute_exact_witness:
  "(65::int) = (instant run_started_at - instant run_anchor) div micros_per_minute"
  using observed_minute_exact [OF observed_step_0 start_step_3] by simp

text \<open>A planning horizon that does not start on a whole minute is accepted as a horizon and then
  refuses every conversion: no service date, clock time or observed moment can be placed on it.\<close>

theorem horizon_off_the_minute_unusable:
  assumes "fromisoformat h = Inr a" "dt_offset a \<noteq> None" "dt_local a mod micros_per_minute \<noteq> 0"
  shows "validate_horizon_start h = Inr h \<and>
    (\<exists>e. horizon_relative_minutes date minutes days (As_text h) = Inl e) \<and>
    (\<exists>e. observed_minute moment h ceil = Inl e)"
proof -
  have p: "parse_horizon_start h = Inr a" using assms(1,2) by (simp add: parse_horizon_start_def)
  then have r: "resolve_horizon_start (As_text h) = Inr a" by (simp add: resolve_horizon_start_def)
  have "resolve_horizon_start (As_datetime a) = Inr a"
    using assms(2) by (auto simp: resolve_horizon_start_def)
  note off = horizon_relative_minutes_off [OF this assms(3)]
  have "\<exists>e. observed_minute moment h ceil = Inl e"
  proof (cases "observed_minute moment h ceil")
    case (Inr k)
    then obtain day c where "\<exists>m. horizon_relative_minutes (Date_day day) c 0 (As_datetime a) = Inr m"
      by (auto simp: observed_minute_def p bind_res_Inr_iff Let_def)
    with off show ?thesis by (metis sum.distinct(1))
  qed auto
  with assms(1,2) horizon_relative_minutes_off [OF r assms(3)] show ?thesis
    by (auto simp: validate_horizon_start_def)
qed

lemma horizon_off_the_minute_unusable_witness:
  "validate_horizon_start ''2026-09-10T00:00:30+05:30'' = Inr ''2026-09-10T00:00:30+05:30'' \<and>
   (\<exists>e. horizon_relative_minutes (Date_text ''2026-09-10'') 60 0 (As_text ''2026-09-10T00:00:30+05:30'') = Inl e)"
proof -
  have "fromisoformat ''2026-09-10T00:00:30+05:30'' =
      Inr \<lparr>dt_local = (run_day + 1) * micros_per_day + 30 * micros_per_second, dt_offset = Some (330 * micros_per_minute)\<rparr>"
    by code_simp
  from horizon_off_the_minute_unusable [OF this] show ?thesis
    by (simp add: run_day_value)
qed

section \<open>Evidence and executions\<close>

text \<open>Accepted evidence is kept exactly: an item that construction accepted is stored under its
  evidence id and phase and read back as the same item.\<close>

theorem evidence_roundtrip:
  assumes "make_evidence_item reference kind captured latitude longitude note = Inr i"
    and "is_evidence_id x"
  shows "recorded_from_dict (JObj (recorded_to_dict \<lparr>rev_id = x, rev_phase = p, rev_item = i\<rparr>)) =
    Inr \<lparr>rev_id = x, rev_phase = p, rev_item = i\<rparr>"
  by (rule recorded_roundtrip) (use assms make_evidence_item_ok [OF assms(1)] in simp_all)

lemma evidence_roundtrip_witness:
  "\<exists>i. make_evidence_item (JStr ''after.jpg'') (JStr ''PHOTO'')
       (As_text ''2026-09-09T20:30:00.000000+00:00'') JNull JNull JNull = Inr i \<and>
     recorded_from_dict (JObj (recorded_to_dict \<lparr>rev_id = new_evidence_id run_hex 0,
       rev_phase = AFTER_WORK, rev_item = i\<rparr>)) =
     Inr \<lparr>rev_id = new_evidence_id run_hex 0, rev_phase = AFTER_WORK, rev_item = i\<rparr>"
proof -
  have i: "make_evidence_item (JStr ''after.jpg'') (JStr ''PHOTO'')
      (As_text ''2026-09-09T20:30:00.000000+00:00'') JNull JNull JNull =
    Inr (photo ''after.jpg'' ''2026-09-09T20:30:00.000000+00:00'')"
    using item_ok_remake [OF run_items_ok(2)] by (simp add: photo_def json_of_rat_def json_of_str_def)
  have "is_evidence_id (new_evidence_id run_hex 0)" using run_hex_ok by (simp add: new_evidence_id_ok)
  from evidence_roundtrip [OF i this] i show ?thesis by blast
qed

text \<open>C30: Execution records read from a history are sound: attempts are numbered from one without gaps,
  ids and runs never repeat, every attempt but the last ended without completing the work, an end
  never precedes its start, and an execution is open exactly when the job is in progress, and then
  it is the last one and the one the job names.\<close>

theorem execution_history_sound:
  assumes "build_execution_records j h = Inr rs"
  shows "records_ok (job_id j) rs \<and>
    (if job_status j = IN_PROGRESS
     then \<exists>r. rs = butlast rs @ [r] \<and> is_open r \<and> execution_id_of j = JStr (xr_execution_id r) \<and>
       (\<forall>q \<in> set (butlast rs). \<not> is_open q)
     else \<forall>r \<in> set rs. \<not> is_open r)"
proof -
  note ok = build_execution_records_ok [OF assms]
  have closed: "\<forall>q \<in> set (butlast rs). \<not> is_open q"
    using ok(1) by (auto simp: records_ok_def is_open_def)
  show ?thesis
  proof (cases "job_status j = IN_PROGRESS")
    case True
    with ok(2) obtain r where r: "filter is_open rs = [r]" "execution_id_of j = JStr (xr_execution_id r)"
      by (auto simp: check_open_iff)
    then have "r \<in> set rs" "is_open r" by (auto dest!: arg_cong [where f = set])
    with open_is_last [OF ok(1)] have "rs = butlast rs @ [r]" by (simp add: is_open_def)
    with r closed ok(1) True \<open>is_open r\<close> show ?thesis by auto
  next
    case False
    with ok show ?thesis by (auto simp: check_open_iff filter_empty_conv)
  qed
qed

lemma execution_history_sound_witness:
  "records_ok ''J1'' [run_open] \<and> is_open run_open \<and>
   execution_id_of executing_job = JStr (xr_execution_id run_open)"
proof -
  have "job_status executing_job = IN_PROGRESS"
    by (simp add: executing_job_def run_start_mutation_def started_mutation_def)
  with execution_history_sound [OF run_records] executing_facts(1) show ?thesis by auto
qed

text \<open>Starting field work always ends in a consistent store: an accepted start is one mutation the
  guards accept, with the one event that names it, and the history that includes the event reads
  back as the earlier executions and a new open one with the submitted evidence and the committed
  window.\<close>

theorem start_is_recorded:
  assumes "plan_execution_start env sha hex (job_id j) who now r rows = Inr (ms, es)"
    and "rows (job_id j) = Some j" "build_execution_records j h = Inr (xs_previous r)"
    and "\<forall>q \<in> set (xs_previous r). xr_status q \<noteq> Exec_Completed"
    and "\<forall>i \<in> set (xs_evidence r). item_ok i" "\<forall>k. hex32 (hex k)" "\<forall>d. sha d \<noteq> []"
    and "job_track_id j \<noteq> []" "readable_section (dget (job_block j) ''section_id'')"
  shows "\<exists>m rs. ms = [m] \<and> validate_mutation j m = Inr () \<and>
    validate_execution_events ms es = Inr () \<and> validate_release_events ms es = Inr () \<and>
    build_execution_records (as_job m j) (h @ es) = Inr rs \<and> start_recorded j r rs"
  by (rule execution_start_recorded [OF assms])

lemma start_is_recorded_witness:
  "\<exists>rs. build_execution_records executing_job ([] @ [run_started_event]) = Inr rs \<and>
     start_recorded notified_job run_start rs"
proof -
  have h: "build_execution_records notified_job [] = Inr (xs_previous run_start)"
    by (simp add: build_execution_records_def check_open_def run_facts run_start_def)
  have p: "plan_execution_start (run_env ''S'') run_sha run_hex (job_id notified_job) run_worker run_now
      run_start (only_row notified_job) = Inr ([run_start_mutation], [run_started_event])"
    using run_start_plan by (simp add: run_facts run_start_mutation_def)
  have "only_row notified_job (job_id notified_job) = Some notified_job"
    "\<forall>q \<in> set (xs_previous run_start). xr_status q \<noteq> Exec_Completed" "job_track_id notified_job \<noteq> []"
    "readable_section (dget (job_block notified_job) ''section_id'')"
    by (simp_all add: only_row_def run_facts readable_section_def) (simp add: run_start_def)
  from start_is_recorded [OF p this(1) h this(2) run_items_ok(1) run_hex_ok run_sha_ok this(3,4)]
  show ?thesis by (auto simp: executing_job_def)
qed

text \<open>Completing field work always ends in a consistent store: an accepted completion moves the job
  to completed under the guards, with the one event that names the execution, and the history then
  reads back with the open execution closed as completed and exactly the submitted evidence.\<close>

theorem completion_is_recorded:
  assumes "plan_execution_complete env sha hex (job_id j) who now r rows = Inr (ms, es)"
    and "rows (job_id j) = Some j" "build_execution_records j h = Inr rs" "xe_execution r \<in> set rs"
    and "\<forall>i \<in> set (xe_evidence r). item_ok i" "\<forall>k. hex32 (hex k)" "\<forall>d. sha d \<noteq> []"
  shows "\<exists>m rs'. ms = [m] \<and> validate_mutation j m = Inr () \<and> mut_status m = COMPLETED \<and>
    validate_execution_events ms es = Inr () \<and> validate_release_events ms es = Inr () \<and>
    build_execution_records (as_job m j) (h @ es) = Inr rs' \<and> completion_recorded r rs rs'"
  by (rule execution_completion_recorded [OF assms])

lemma run_end_in: "xe_execution run_end \<in> set [run_open]" "\<forall>i \<in> set (xe_evidence run_end). item_ok i"
  using run_items_ok(2) by (simp_all add: run_end_def)

lemma completion_is_recorded_witness:
  "\<exists>m es rs'. build_execution_records (as_job m executing_job) ([run_started_event] @ es) = Inr rs' \<and>
     mut_status m = COMPLETED \<and> completion_recorded run_end [run_open] rs'"
proof -
  from run_completion_plan obtain ms es where "plan_execution_complete (run_env ''E'') run_sha run_hex
      (job_id executing_job) run_worker run_now run_end (only_row executing_job) = Inr (ms, es)"
    by (auto simp: executing_facts)
  moreover have "only_row executing_job (job_id executing_job) = Some executing_job"
    by (simp add: only_row_def)
  ultimately show ?thesis
    using completion_is_recorded [OF _ _ run_records run_end_in run_hex_ok run_sha_ok] by blast
qed

text \<open>Reporting work as not completed always ends in a consistent store: the job is returned without
  window or proposal and may not be planned before the end of its old window, and the history reads
  back with the open execution closed as not completed, with the reason and the evidence.\<close>

theorem failure_is_recorded:
  assumes "plan_execution_not_completed env sha hex (job_id j) who now reason horizon r = Inr p"
    and "p rows = Inr (ms, es)" "rows (job_id j) = Some j"
    and "build_execution_records j h = Inr rs" "xe_execution r \<in> set rs"
    and "\<forall>i \<in> set (xe_evidence r). item_ok i" "\<forall>k. hex32 (hex k)" "\<forall>d. sha d \<noteq> []"
  shows "\<exists>m rs' s e earliest. ms = [m] \<and> validate_mutation j m = Inr () \<and> returned j m \<and>
    validate_execution_events ms es = Inr () \<and> validate_release_events ms es = Inr () \<and>
    build_execution_records (as_job m j) (h @ es) = Inr rs' \<and> failure_recorded r reason rs rs' \<and>
    job_window j = (Some s, Some e) \<and> e \<le> earliest \<and>
    dget (mut_block m) ''earliest_start_minute'' = JInt earliest"
  by (rule execution_failure_recorded [OF assms])

lemma failure_is_recorded_witness:
  "\<exists>m es rs'. build_execution_records (as_job m executing_job) ([run_started_event] @ es) = Inr rs' \<and>
     returned executing_job m \<and> failure_recorded run_end ''rail broken'' [run_open] rs'"
proof -
  from run_failure_plan obtain p ms es where "plan_execution_not_completed (run_env ''F'') run_sha run_hex
      (job_id executing_job) run_worker run_now ''rail broken'' 1440 run_end = Inr p"
    "p (only_row executing_job) = Inr (ms, es)"
    by (auto simp: executing_facts)
  moreover have "only_row executing_job (job_id executing_job) = Some executing_job"
    by (simp add: only_row_def)
  ultimately show ?thesis
    using failure_is_recorded [OF _ _ _ run_records run_end_in run_hex_ok run_sha_ok] by blast
qed

end
