(* ===== verification/Optimizer.thy ===== *)
theory Optimizer
  imports Contracts
begin

text \<open>
  The block scheduling engine, \<^verbatim>\<open>backend/app/optimizer/solver.py\<close>. \<open>build_model\<close> is the
  constraint model that \<^verbatim>\<open>solve\<close> posts, as a list of constraints in the order they are
  posted; \<open>solve\<close> hands it to the CP-SAT solver and reads the result off the assignment.

  CP-SAT is not part of the repository: it is the argument \<open>cp\<close>, a function from a model and
  an objective to a status and an assignment. What the properties assume of it is its
  documented contract (\<open>cp_sound\<close> in \<open>Optimizer_Facts\<close>). Python iterates the set of
  scheduled ids in an order of its own: the argument \<open>arrange\<close>.

  The Python keeps its variables in dictionaries keyed by block id, so a later block with the
  same id takes the entry over. A variable is indexed here by the position of the block it was
  created for, and an id stands for the last block that has it (\<open>slot\<close>).
\<close>

section \<open>Variables, constraints, assignments\<close>

datatype var =
    Presence nat
  | Start nat
  | End nat
  | Selection nat nat
  | Buffered nat

type_synonym assignment = "var \<Rightarrow> int"

text \<open>An optional interval: start, size, end, presence.\<close>

type_synonym interval = "var \<times> int \<times> var \<times> var"

datatype constr =
    Domain var int int
  | Var_eq var int
  | Var_eq_plus var var int
  | Var_le var var
  | Ge_const_if var int var
  | Le_const_if var int var
  | Ge_var_if var var var
  | Sum_eq "var list" var
  | No_overlap "interval list"

definition interval_ok :: "assignment \<Rightarrow> interval \<Rightarrow> bool" where
  "interval_ok a = (\<lambda>(s, n, e, p). a p = 1 \<longrightarrow> a s + n = a e)"

definition disjoint_intervals :: "assignment \<Rightarrow> interval \<Rightarrow> interval \<Rightarrow> bool" where
  "disjoint_intervals a = (\<lambda>(s, _, e, p) (s', _, e', p').
     a p = 1 \<longrightarrow> a p' = 1 \<longrightarrow> a e \<le> a s' \<or> a e' \<le> a s)"

fun pairwise_list :: "('a \<Rightarrow> 'a \<Rightarrow> bool) \<Rightarrow> 'a list \<Rightarrow> bool" where
  "pairwise_list R [] = True"
| "pairwise_list R (x # xs) \<longleftrightarrow> list_all (R x) xs \<and> pairwise_list R xs"

fun holds :: "assignment \<Rightarrow> constr \<Rightarrow> bool" where
  "holds a (Domain v lo hi) \<longleftrightarrow> lo \<le> a v \<and> a v \<le> hi"
| "holds a (Var_eq v c) \<longleftrightarrow> a v = c"
| "holds a (Var_eq_plus v u c) \<longleftrightarrow> a v = a u + c"
| "holds a (Var_le v u) \<longleftrightarrow> a v \<le> a u"
| "holds a (Ge_const_if v c b) \<longleftrightarrow> (a b = 1 \<longrightarrow> c \<le> a v)"
| "holds a (Le_const_if v c b) \<longleftrightarrow> (a b = 1 \<longrightarrow> a v \<le> c)"
| "holds a (Ge_var_if v u b) \<longleftrightarrow> (a b = 1 \<longrightarrow> a u \<le> a v)"
| "holds a (Sum_eq vs v) \<longleftrightarrow> sum_list (map a vs) = a v"
| "holds a (No_overlap is) \<longleftrightarrow>
     list_all (interval_ok a) is \<and> pairwise_list (disjoint_intervals a) is"

definition satisfies :: "assignment \<Rightarrow> constr list \<Rightarrow> bool" where
  "satisfies a cs \<longleftrightarrow> list_all (holds a) cs"

datatype cp_status = OPTIMAL | FEASIBLE | INFEASIBLE | MODEL_INVALID | UNKNOWN

record cp_result =
  cp_status :: cp_status
  cp_value :: assignment
  cp_wall :: rat

type_synonym objective = "(int \<times> var) list"

type_synonym cp_solver = "constr list \<Rightarrow> objective \<Rightarrow> cp_result"

section \<open>Blocks and windows\<close>

type_synonym resource = "string \<times> string option"

definition resource_key :: "block_candidate \<Rightarrow> resource" where
  "resource_key b = (bc_track b, bc_section b)"

definition window_covers :: "possession_window \<Rightarrow> block_candidate \<Rightarrow> bool" where
  "window_covers w b =
    (if pw_track w \<noteq> bc_track b then False
     else if bc_section b = None then True
     else pw_section w = bc_section b)"

definition covered :: "optimization_request \<Rightarrow> block_candidate \<Rightarrow> bool" where
  "covered q b \<longleftrightarrow> list_ex (\<lambda>w. window_covers w b) (oq_windows q)"

text \<open>\<^verbatim>\<open>d.setdefault(k, []).append(v)\<close> on an insertion-ordered dictionary.\<close>

fun append_to :: "'k \<Rightarrow> 'v \<Rightarrow> ('k \<times> 'v list) list \<Rightarrow> ('k \<times> 'v list) list" where
  "append_to k v [] = [(k, [v])]"
| "append_to k v ((k', vs) # rest) =
     (if k' = k then (k', vs @ [v]) # rest else (k', vs) # append_to k v rest)"

definition uncovered_possession_tracks ::
  "optimization_request \<Rightarrow> (string \<times> string list) list" where
  "uncovered_possession_tracks q =
    (if oq_windows q = [] then []
     else fold (\<lambda>b d. if covered q b then d else append_to (bc_track b) (bc_id b) d)
            (oq_candidates q) [])"

definition objective_score :: "block_candidate \<Rightarrow> rat" where
  "objective_score b = bc_risk b + bc_priority b"

text \<open>(earliest start, latest end, latest start)\<close>

definition clamp_window :: "block_candidate \<Rightarrow> int \<Rightarrow> int \<times> int \<times> int" where
  "clamp_window b horizon =
    (let earliest = max 0 (bc_earliest b);
         latest_end = min horizon (bc_latest_end b);
         latest_start = latest_end - bc_duration b
     in (earliest, latest_end, latest_start))"

definition horizon_of :: "optimization_request \<Rightarrow> int" where
  "horizon_of q = max 0 (oq_horizon_minutes q)"

definition headway_of :: "optimization_request \<Rightarrow> int" where
  "headway_of q = max 0 (oq_headway q)"

definition window_unfit :: "optimization_request \<Rightarrow> block_candidate \<Rightarrow> bool" where
  "window_unfit q b =
    (case clamp_window b (horizon_of q) of (earliest, _, latest_start) \<Rightarrow> latest_start < earliest)"

text \<open>Membership of an id in \<^verbatim>\<open>window_infeasible\<close> and in \<^verbatim>\<open>possession_uncovered\<close>.\<close>

definition unfit_id :: "optimization_request \<Rightarrow> string \<Rightarrow> bool" where
  "unfit_id q i \<longleftrightarrow> list_ex (\<lambda>b. bc_id b = i \<and> window_unfit q b) (oq_candidates q)"

definition uncovered_id :: "optimization_request \<Rightarrow> string \<Rightarrow> bool" where
  "uncovered_id q i \<longleftrightarrow>
     oq_windows q \<noteq> [] \<and> list_ex (\<lambda>b. bc_id b = i \<and> \<not> covered q b) (oq_candidates q)"

text \<open>The block an id stands for, and its position: the last one that has it.\<close>

definition slot :: "block_candidate list \<Rightarrow> string \<Rightarrow> nat option" where
  "slot bs i =
     map_option fst (find (\<lambda>(k, b). bc_id b = i) (rev (enumerate 0 bs)))"

definition slot_of :: "block_candidate list \<Rightarrow> string \<Rightarrow> nat" where
  "slot_of bs i = (case slot bs i of None \<Rightarrow> 0 | Some k \<Rightarrow> k)"

definition block_at :: "block_candidate list \<Rightarrow> string \<Rightarrow> block_candidate" where
  "block_at bs i = bs ! slot_of bs i"

definition committed_for :: "optimization_request \<Rightarrow> string \<Rightarrow> block_candidate option" where
  "committed_for q i = find (\<lambda>c. bc_id c = i) (rev (oq_committed q))"

section \<open>The constraint model\<close>

definition committed_placement :: "block_candidate \<Rightarrow> (int \<times> int) res" where
  "committed_placement c =
     bind_res (if dhas (bc_metadata c) COMMITTED_START_KEY
               then int_of_json (dget (bc_metadata c) COMMITTED_START_KEY)
               else Inr (bc_earliest c)) (\<lambda>s.
     bind_res (if dhas (bc_metadata c) COMMITTED_END_KEY
               then int_of_json (dget (bc_metadata c) COMMITTED_END_KEY)
               else Inr (s + bc_duration c)) (\<lambda>e.
     Inr (s, e)))"

definition block_vars :: "optimization_request \<Rightarrow> nat \<Rightarrow> block_candidate \<Rightarrow> constr list" where
  "block_vars q k b =
    (case clamp_window b (horizon_of q) of (earliest, latest_end, latest_start) \<Rightarrow>
     Domain (Presence k) 0 1 #
     (if latest_start < earliest
      then [Var_eq (Presence k) 0, Domain (Start k) earliest earliest,
            Domain (End k) earliest earliest]
      else [Domain (Start k) earliest latest_start, Domain (End k) earliest latest_end,
            Var_eq_plus (End k) (Start k) (bc_duration b)]))"

definition pinning :: "optimization_request \<Rightarrow> nat \<Rightarrow> block_candidate \<Rightarrow> constr list res" where
  "pinning q k b =
    (case (if uncovered_id q (bc_id b) then None else committed_for q (bc_id b)) of
       None \<Rightarrow> Inr []
     | Some c \<Rightarrow> bind_res (committed_placement c) (\<lambda>(s, e).
         Inr [Var_eq (Presence k) 1, Var_eq (Start k) s, Var_eq (End k) e]))"

definition matching_windows :: "optimization_request \<Rightarrow> block_candidate \<Rightarrow> possession_window list" where
  "matching_windows q b = filter (\<lambda>w. window_covers w b) (oq_windows q)"

definition clipped :: "optimization_request \<Rightarrow> possession_window \<Rightarrow> int \<times> int" where
  "clipped q w = (max 0 (pw_start w), min (horizon_of q) (pw_end w))"

text \<open>Matching windows that are not empty within the horizon, each with its index.\<close>

definition eligible_windows ::
  "optimization_request \<Rightarrow> block_candidate \<Rightarrow> (nat \<times> possession_window) list" where
  "eligible_windows q b =
     filter (\<lambda>(n, w). fst (clipped q w) < snd (clipped q w)) (enumerate 0 (matching_windows q b))"

definition window_constraints ::
  "optimization_request \<Rightarrow> nat \<Rightarrow> nat \<Rightarrow> nat \<times> possession_window \<Rightarrow> constr list" where
  "window_constraints q k p = (\<lambda>(n, w).
     [Domain (Selection k n) 0 1,
      Ge_const_if (Start p) (fst (clipped q w)) (Selection k n),
      Le_const_if (End p) (snd (clipped q w)) (Selection k n),
      Var_le (Selection k n) (Presence p)])"

definition possession_constraints ::
  "optimization_request \<Rightarrow> nat \<Rightarrow> block_candidate \<Rightarrow> constr list" where
  "possession_constraints q k b =
    (let p = slot_of (oq_candidates q) (bc_id b) in
     if unfit_id q (bc_id b) then []
     else if matching_windows q b = [] then
       (if oq_windows q = [] then [] else [Var_eq (Presence p) 0])
     else
       let eligible = eligible_windows q b in
       concat (map (window_constraints q k p) eligible) @
       (if eligible = [] then [Var_eq (Presence p) 0]
        else [Sum_eq (map (\<lambda>(n, _). Selection k n) eligible) (Presence p)]))"

text \<open>The groups of a dictionary built with \<^verbatim>\<open>setdefault\<close>: positions with their ids.\<close>

definition group_by ::
  "(block_candidate \<Rightarrow> 'k option) \<Rightarrow> block_candidate list \<Rightarrow> ('k \<times> (nat \<times> string) list) list" where
  "group_by key bs =
     fold (\<lambda>(k, b) d. case key b of None \<Rightarrow> d | Some g \<Rightarrow> append_to g (k, bc_id b) d)
       (enumerate 0 bs) []"

definition buffered_size :: "optimization_request \<Rightarrow> string \<Rightarrow> int" where
  "buffered_size q i = bc_duration (block_at (oq_candidates q) i) + headway_of q"

definition resource_constraints ::
  "optimization_request \<Rightarrow> (nat \<times> string) list \<Rightarrow> constr list" where
  "resource_constraints q members =
    (let bs = oq_candidates q; live = filter (\<lambda>(k, i). \<not> unfit_id q i) members in
     concat (map (\<lambda>(k, i).
       [Domain (Buffered k) 0 (horizon_of q + buffered_size q i),
        Var_eq_plus (Buffered k) (Start (slot_of bs i)) (buffered_size q i)]) live) @
     [No_overlap (map (\<lambda>(k, i).
        (Start (slot_of bs i), buffered_size q i, Buffered k, Presence (slot_of bs i))) live)])"

definition dependency_constraints :: "optimization_request \<Rightarrow> block_candidate \<Rightarrow> constr list" where
  "dependency_constraints q b =
    (let bs = oq_candidates q; p = slot_of bs (bc_id b) in
     concat (map (\<lambda>d.
       if slot bs d = None then []
       else [Var_le (Presence p) (Presence (slot_of bs d)),
             Ge_var_if (Start p) (End (slot_of bs d)) (Presence p)]) (bc_dependencies b)))"

definition mutex_key :: "block_candidate \<Rightarrow> string option" where
  "mutex_key b =
    (case bc_mutex b of None \<Rightarrow> None | Some g \<Rightarrow> if g = [] then None else Some g)"

definition mutex_constraints ::
  "optimization_request \<Rightarrow> (nat \<times> string) list \<Rightarrow> constr list" where
  "mutex_constraints q members =
    (let bs = oq_candidates q in
     [No_overlap (map (\<lambda>(_, i).
        (Start (slot_of bs i), bc_duration (block_at bs i), End (slot_of bs i),
         Presence (slot_of bs i))) members)])"

definition resource_groups :: "optimization_request \<Rightarrow> (resource \<times> (nat \<times> string) list) list" where
  "resource_groups q = group_by (\<lambda>b. Some (resource_key b)) (oq_candidates q)"

definition mutex_groups :: "optimization_request \<Rightarrow> (string \<times> (nat \<times> string) list) list" where
  "mutex_groups q = group_by mutex_key (oq_candidates q)"

definition build_model :: "optimization_request \<Rightarrow> constr list res" where
  "build_model q =
    (let bs = enumerate 0 (oq_candidates q) in
     bind_res (map_res (\<lambda>(k, b). bind_res (pinning q k b) (\<lambda>pins.
                 Inr (block_vars q k b @ pins))) bs) (\<lambda>vars.
     Inr (concat vars
          @ concat (map (\<lambda>(k, b). possession_constraints q k b) bs)
          @ concat (map (\<lambda>(_, members). resource_constraints q members) (resource_groups q))
          @ concat (map (dependency_constraints q) (oq_candidates q))
          @ concat (map (\<lambda>(_, members). mutex_constraints q members) (mutex_groups q)))))"

definition SCORE_SCALE :: rat where "SCORE_SCALE = 1000"

definition build_objective :: "optimization_request \<Rightarrow> objective" where
  "build_objective q =
     map (\<lambda>b. (py_round (SCORE_SCALE * objective_score b),
               Presence (slot_of (oq_candidates q) (bc_id b)))) (oq_candidates q)"

section \<open>The result\<close>

datatype reason =
    No_feasible_solution
  | Window_unfit
  | Possession_uncovered string
  | Dependency_unscheduled string
  | Mutex_conflict string
  | Lower_objective string
  | Trade_off

fun reason_text :: "reason \<Rightarrow> string" where
  "reason_text No_feasible_solution = ''solver found no feasible solution''"
| "reason_text Window_unfit =
     ''duration does not fit within earliest_start_minute/latest_end_minute window''"
| "reason_text (Possession_uncovered t) =
     ''refused for safety: no possession window covers track '' @ [CHR 0x27] @ t @ [CHR 0x27]
     @ '' in a request that declares possession windows''"
| "reason_text (Dependency_unscheduled d) = ''dependency not scheduled: '' @ d"
| "reason_text (Mutex_conflict i) = ''mutual exclusion group conflict with scheduled block: '' @ i"
| "reason_text (Lower_objective i) = ''lower objective value than scheduled competing block: '' @ i"
| "reason_text Trade_off = ''excluded by optimizer: capacity/priority trade-off''"

record optimization_result =
  os_corridor :: string
  os_status :: string
  os_scheduled :: "scheduled_block list"
  os_unscheduled :: "block_candidate list"
  os_total_priority :: rat
  os_total_risk :: rat
  os_solve_time :: rat
  os_infeasibility :: "string list"
  os_rejections :: "(string \<times> reason) list"

fun status_value :: "cp_status \<Rightarrow> string" where
  "status_value OPTIMAL = ''OPTIMAL''"
| "status_value FEASIBLE = ''FEASIBLE''"
| "status_value INFEASIBLE = ''INFEASIBLE''"
| "status_value UNKNOWN = ''NO_SOLUTION''"
| "status_value MODEL_INVALID = ''NO_SOLUTION''"

definition scheduled_entry ::
  "optimization_request \<Rightarrow> assignment \<Rightarrow> block_candidate \<Rightarrow> scheduled_block" where
  "scheduled_entry q a b =
    (let p = slot_of (oq_candidates q) (bc_id b);
         committed = (bc_committed b \<or> committed_for q (bc_id b) \<noteq> None) in
     \<lparr>sb_id = bc_id b, sb_track = bc_track b, sb_start = a (Start p), sb_end = a (End p),
      sb_work_type = bc_work_type b, sb_section = bc_section b, sb_priority = bc_priority b,
      sb_risk = bc_risk b, sb_committed = committed,
      sb_status = (if committed then COMMITTED_BLOCK else SCHEDULED_BLOCK)\<rparr>)"

definition is_present :: "optimization_request \<Rightarrow> assignment \<Rightarrow> block_candidate \<Rightarrow> bool" where
  "is_present q a b \<longleftrightarrow> a (Presence (slot_of (oq_candidates q) (bc_id b))) \<noteq> 0"

text \<open>\<open>ids\<close> is the set of scheduled ids in the order Python iterates it.\<close>

definition rejection_reason ::
  "optimization_request \<Rightarrow> string list \<Rightarrow> block_candidate \<Rightarrow> reason" where
  "rejection_reason q ids b =
    (let bs = oq_candidates q in
     if unfit_id q (bc_id b) then Window_unfit
     else if uncovered_id q (bc_id b) then Possession_uncovered (bc_track b)
     else case find (\<lambda>d. slot bs d \<noteq> None \<and> d \<notin> set ids) (bc_dependencies b) of
       Some d \<Rightarrow> Dependency_unscheduled d
     | None \<Rightarrow>
        (case (if mutex_key b = None then None
               else find (\<lambda>i. bc_mutex (block_at bs i) = bc_mutex b) ids) of
           Some i \<Rightarrow> Mutex_conflict i
         | None \<Rightarrow>
            (case find (\<lambda>i. resource_key (block_at bs i) = resource_key b) ids of
               Some i \<Rightarrow> if objective_score b < objective_score (block_at bs i)
                         then Lower_objective i else Trade_off
             | None \<Rightarrow> Trade_off)))"

definition round3 :: "rat \<Rightarrow> rat" where
  "round3 r = of_int (py_round (1000 * r)) / 1000"

definition solve ::
  "cp_solver \<Rightarrow> (string list \<Rightarrow> string list) \<Rightarrow> optimization_request \<Rightarrow> optimization_result res"
  where
  "solve cp arrange q =
     bind_res (build_model q) (\<lambda>model.
     let outcome = cp model (build_objective q); blocks = oq_candidates q;
         a = cp_value outcome in
     if cp_status outcome \<notin> {OPTIMAL, FEASIBLE} then
       Inr \<lparr>os_corridor = oq_corridor q, os_status = status_value (cp_status outcome),
            os_scheduled = [], os_unscheduled = blocks, os_total_priority = 0,
            os_total_risk = 0, os_solve_time = cp_wall outcome,
            os_infeasibility = [reason_text No_feasible_solution],
            os_rejections = map (\<lambda>b. (bc_id b, No_feasible_solution)) blocks\<rparr>
     else
       let present = filter (is_present q a) blocks;
           scheduled_ids = map bc_id present;
           rest = filter (\<lambda>b. bc_id b \<notin> set scheduled_ids) blocks;
           counted = filter (\<lambda>b. bc_id b \<in> set scheduled_ids) blocks
       in Inr \<lparr>os_corridor = oq_corridor q, os_status = status_value (cp_status outcome),
               os_scheduled = map (scheduled_entry q a) present,
               os_unscheduled = rest,
               os_total_priority = round3 (sum_list (map bc_priority counted)),
               os_total_risk = round3 (sum_list (map bc_risk counted)),
               os_solve_time = cp_wall outcome,
               os_infeasibility = [],
               os_rejections =
                 map (\<lambda>b. (bc_id b, rejection_reason q (arrange scheduled_ids) b)) rest\<rparr>)"

end
