(* ===== verification/Optimizer_Facts.thy ===== *)
theory Optimizer_Facts
  imports Optimizer
begin

text \<open>
  What an assignment that satisfies the posted model means for the blocks. The interface
  \<open>exclusive_groups\<close> is what the solver relies on when it groups blocks by resource and by
  mutual-exclusion group: every two blocks with the same key end up in one group, and so under
  one no-overlap constraint.
\<close>

section \<open>Grouping\<close>

lemma pairwise_list_nth:
  "pairwise_list R xs \<longleftrightarrow> (\<forall>i j. i < j \<longrightarrow> j < length xs \<longrightarrow> R (xs ! i) (xs ! j))"
proof (induction xs)
  case (Cons x xs)
  show ?case
  proof
    assume h: "pairwise_list R (x # xs)"
    show "\<forall>i j. i < j \<longrightarrow> j < length (x # xs) \<longrightarrow> R ((x # xs) ! i) ((x # xs) ! j)"
    proof (intro allI impI)
      fix i j assume "i < j" "j < length (x # xs)"
      with h Cons.IH show "R ((x # xs) ! i) ((x # xs) ! j)"
        by (cases i; cases j) (auto simp: list_all_length)
    qed
  next
    assume h: "\<forall>i j. i < j \<longrightarrow> j < length (x # xs) \<longrightarrow> R ((x # xs) ! i) ((x # xs) ! j)"
    then have "R x (xs ! j)" if "j < length xs" for j
      using that h [rule_format, of 0 "Suc j"] by simp
    moreover have "R (xs ! i) (xs ! j)" if "i < j" "j < length xs" for i j
      using that h [rule_format, of "Suc i" "Suc j"] by simp
    ultimately show "pairwise_list R (x # xs)" by (simp add: Cons.IH list_all_length)
  qed
qed simp

lemma pairwise_list_in:
  assumes "pairwise_list R xs" "\<And>x y. R x y \<Longrightarrow> R y x" "x \<in> set xs" "y \<in> set xs" "x \<noteq> y"
  shows "R x y"
proof -
  from assms(3,4) obtain i j where "i < length xs" "xs ! i = x" "j < length xs" "xs ! j = y"
    by (metis in_set_conv_nth)
  with assms show ?thesis unfolding pairwise_list_nth by (metis linorder_neqE_nat)
qed

locale exclusive_groups =
  fixes key :: "'b \<Rightarrow> 'k option"
    and name :: "'b \<Rightarrow> string"
    and groups :: "'b list \<Rightarrow> ('k \<times> (nat \<times> string) list) list"
  assumes one_group:
    "k < length bs \<Longrightarrow> l < length bs \<Longrightarrow> key (bs ! k) = Some g \<Longrightarrow> key (bs ! l) = Some g \<Longrightarrow>
       \<exists>ms. (g, ms) \<in> set (groups bs) \<and> (k, name (bs ! k)) \<in> set ms \<and> (l, name (bs ! l)) \<in> set ms"
    and members: "(g, ms) \<in> set (groups bs) \<Longrightarrow> (k, i) \<in> set ms \<Longrightarrow> k < length bs \<and> i = name (bs ! k)"
begin

text \<open>What holds pairwise in every group holds of any two blocks with the same key.\<close>

lemma pairwise_members:
  assumes "\<And>g ms. (g, ms) \<in> set (groups bs) \<Longrightarrow> pairwise_list R (map f (filter P ms))"
    and "\<And>x y. R x y \<Longrightarrow> R y x"
    and "k < length bs" "l < length bs" "k \<noteq> l"
    and "key (bs ! k) = Some g" "key (bs ! l) = Some g"
    and "P (k, name (bs ! k))" "P (l, name (bs ! l))"
    and "f (k, name (bs ! k)) \<noteq> f (l, name (bs ! l))"
  shows "R (f (k, name (bs ! k))) (f (l, name (bs ! l)))"
proof -
  from one_group [OF assms(3,4,6,7)] obtain ms where ms: "(g, ms) \<in> set (groups bs)"
    "(k, name (bs ! k)) \<in> set ms" "(l, name (bs ! l)) \<in> set ms" by blast
  show ?thesis
    by (rule pairwise_list_in [OF assms(1) [OF ms(1)] assms(2)])
      (use ms assms in auto)
qed

end

lemma map_of_append_to:
  "map_of (append_to k v d) =
     (map_of d)(k \<mapsto> (case map_of d k of None \<Rightarrow> [v] | Some vs \<Rightarrow> vs @ [v]))"
  by (induction k v d rule: append_to.induct) (auto simp: fun_eq_iff)

lemma append_to_key_set: "fst ` set (append_to k v d) = insert k (fst ` set d)"
  by (induction k v d rule: append_to.induct) auto

lemma append_to_keys: "distinct (map fst d) \<Longrightarrow> distinct (map fst (append_to k v d))"
  by (induction k v d rule: append_to.induct) (auto simp: append_to_key_set)

text \<open>The entry of a key: the blocks that have it, in the order of the request.\<close>

definition member_list ::
  "(block_candidate \<Rightarrow> 'k option) \<Rightarrow> (nat \<times> block_candidate) list \<Rightarrow> 'k \<Rightarrow> (nat \<times> string) list" where
  "member_list key kbs g = map (\<lambda>(k, b). (k, bc_id b)) (filter (\<lambda>(k, b). key b = Some g) kbs)"

definition group_fold ::
  "(block_candidate \<Rightarrow> 'k option) \<Rightarrow> (nat \<times> block_candidate) list \<Rightarrow> ('k \<times> (nat \<times> string) list) list"
  where
  "group_fold key kbs =
     fold (\<lambda>(k, b) d. case key b of None \<Rightarrow> d | Some g \<Rightarrow> append_to g (k, bc_id b) d) kbs []"

lemma group_fold_entries:
  "map_of (group_fold key kbs) g =
     (if member_list key kbs g = [] then None else Some (member_list key kbs g)) \<and>
   distinct (map fst (group_fold key kbs))"
proof (induction kbs rule: rev_induct)
  case Nil
  then show ?case by (simp add: group_fold_def member_list_def)
next
  case (snoc kb kbs)
  obtain k b where kb: "kb = (k, b)" by force
  let ?d = "group_fold key kbs"
  have fold: "group_fold key (kbs @ [kb]) =
      (case key b of None \<Rightarrow> ?d | Some h \<Rightarrow> append_to h (k, bc_id b) ?d)"
    by (cases "key b") (simp_all add: group_fold_def kb)
  have ml: "member_list key (kbs @ [kb]) g =
      member_list key kbs g @ (if key b = Some g then [(k, bc_id b)] else [])"
    by (simp add: member_list_def kb)
  show ?case
  proof (cases "key b")
    case None
    then show ?thesis using snoc by (simp add: fold ml)
  next
    case (Some h)
    have "map_of (append_to h (k, bc_id b) ?d) g =
        (if member_list key (kbs @ [kb]) g = [] then None
         else Some (member_list key (kbs @ [kb]) g))"
      using snoc Some by (cases "h = g") (simp_all only: map_of_append_to ml, simp_all)
    with Some snoc show ?thesis by (simp only: fold option.case append_to_keys simp_thms)
  qed
qed

lemma group_by_entry:
  "(g, ms) \<in> set (group_by key bs) \<longleftrightarrow>
     ms = member_list key (enumerate 0 bs) g \<and> ms \<noteq> []"
proof -
  have e: "group_by key bs = group_fold key (enumerate 0 bs)"
    by (simp add: group_by_def group_fold_def)
  note f = group_fold_entries [of key "enumerate 0 bs" g]
  have "(g, ms) \<in> set (group_by key bs) \<longleftrightarrow> map_of (group_by key bs) g = Some ms"
    unfolding e using f map_of_eq_Some_iff by metis
  then show ?thesis using f unfolding e by auto
qed

lemma in_member_list:
  "(k, i) \<in> set (member_list key (enumerate 0 bs) g) \<longleftrightarrow>
     k < length bs \<and> key (bs ! k) = Some g \<and> i = bc_id (bs ! k)"
  by (auto simp: member_list_def in_set_enumerate_eq)

lemma group_by_exclusive:
  assumes "k < length bs" "l < length bs" "key (bs ! k) = Some g" "key (bs ! l) = Some g"
  shows "\<exists>ms. (g, ms) \<in> set (group_by key bs) \<and> (k, bc_id (bs ! k)) \<in> set ms \<and>
    (l, bc_id (bs ! l)) \<in> set ms"
proof (intro exI conjI)
  show m: "(k, bc_id (bs ! k)) \<in> set (member_list key (enumerate 0 bs) g)"
    "(l, bc_id (bs ! l)) \<in> set (member_list key (enumerate 0 bs) g)"
    using assms by (simp_all add: in_member_list)
  then have "member_list key (enumerate 0 bs) g \<noteq> []" by auto
  then show "(g, member_list key (enumerate 0 bs) g) \<in> set (group_by key bs)"
    by (simp add: group_by_entry)
qed

interpretation resources: exclusive_groups "\<lambda>b. Some (resource_key b)" bc_id
  "group_by (\<lambda>b. Some (resource_key b))"
  by unfold_locales (rule group_by_exclusive, assumption+, auto simp: group_by_entry in_member_list)

interpretation mutexes: exclusive_groups mutex_key bc_id "group_by mutex_key"
  by unfold_locales (rule group_by_exclusive, assumption+, auto simp: group_by_entry in_member_list)

section \<open>Slots\<close>

lemma find_rev_enumerate:
  assumes "distinct (map f bs)" "k < length bs"
  shows "find (\<lambda>(n, b). f b = f (bs ! k)) (rev (enumerate 0 bs)) = Some (k, bs ! k)"
proof -
  have "(k, bs ! k) \<in> set (rev (enumerate 0 bs))" using assms(2) by (simp add: in_set_enumerate_eq)
  then obtain i where i: "i < length (rev (enumerate 0 bs))" "rev (enumerate 0 bs) ! i = (k, bs ! k)"
    by (metis in_set_conv_nth)
  have "f (snd (rev (enumerate 0 bs) ! n)) \<noteq> f (bs ! k)" if "n < i" for n
  proof
    assume eq: "f (snd (rev (enumerate 0 bs) ! n)) = f (bs ! k)"
    have "map (f \<circ> snd) (rev (enumerate 0 bs)) = rev (map f bs)"
      by (metis map_snd_enumerate list.map_comp rev_map)
    then have "distinct (map (f \<circ> snd) (rev (enumerate 0 bs)))" using assms(1) by simp
    moreover have "n < length (rev (enumerate 0 bs))" using that i(1) by simp
    moreover have "(f \<circ> snd) (rev (enumerate 0 bs) ! n) = (f \<circ> snd) (rev (enumerate 0 bs) ! i)"
      using eq i by simp
    ultimately show False using that i(1)
      by (metis length_map less_irrefl nth_eq_iff_index_eq nth_map)
  qed
  with i show ?thesis by (auto simp: find_Some_iff case_prod_beta intro!: exI [of _ i])
qed

lemma slot_nth:
  assumes "distinct (map bc_id bs)" "k < length bs"
  shows "slot bs (bc_id (bs ! k)) = Some k" "slot_of bs (bc_id (bs ! k)) = k"
    "block_at bs (bc_id (bs ! k)) = bs ! k"
  using find_rev_enumerate [OF assms] by (simp_all add: slot_def slot_of_def block_at_def)

lemma slot_None_iff: "slot bs i = None \<longleftrightarrow> i \<notin> bc_id ` set bs"
proof -
  have "slot bs i = None \<longleftrightarrow> (\<forall>kb \<in> set (enumerate 0 bs). bc_id (snd kb) \<noteq> i)"
    by (auto simp: slot_def find_None_iff) blast
  also have "\<dots> \<longleftrightarrow> (\<forall>b \<in> snd ` set (enumerate 0 bs). bc_id b \<noteq> i)" by blast
  also have "snd ` set (enumerate 0 bs) = set bs" by (metis list.set_map map_snd_enumerate)
  finally show ?thesis by auto
qed

lemma unfit_id_nth:
  assumes "distinct (map bc_id (oq_candidates q))" "k < length (oq_candidates q)"
  shows "unfit_id q (bc_id (oq_candidates q ! k)) = window_unfit q (oq_candidates q ! k)"
    "uncovered_id q (bc_id (oq_candidates q ! k)) \<longleftrightarrow>
       oq_windows q \<noteq> [] \<and> \<not> covered q (oq_candidates q ! k)"
  using assms distinct_map_inj [OF assms(1)]
  by (auto simp: unfit_id_def uncovered_id_def list_ex_iff) (metis nth_mem)+

section \<open>A satisfied model, constraint by constraint\<close>

definition distinct_ids :: "optimization_request \<Rightarrow> bool" where
  "distinct_ids q \<longleftrightarrow> distinct (map bc_id (oq_candidates q))"

definition solved :: "optimization_request \<Rightarrow> assignment \<Rightarrow> bool" where
  "solved q a \<longleftrightarrow> distinct_ids q \<and> (\<exists>cs. build_model q = Inr cs \<and> satisfies a cs)"

abbreviation cand :: "optimization_request \<Rightarrow> nat \<Rightarrow> block_candidate" where
  "cand q k \<equiv> oq_candidates q ! k"

abbreviation size_of :: "optimization_request \<Rightarrow> nat" where
  "size_of q \<equiv> length (oq_candidates q)"

lemma satisfies_append [simp]: "satisfies a (cs @ ds) \<longleftrightarrow> satisfies a cs \<and> satisfies a ds"
  by (simp add: satisfies_def)

lemma satisfies_Cons [simp]: "satisfies a (c # cs) \<longleftrightarrow> holds a c \<and> satisfies a cs"
  by (simp add: satisfies_def)

lemma satisfies_Nil [simp]: "satisfies a []"
  by (simp add: satisfies_def)

lemma satisfies_concat: "satisfies a (concat css) \<longleftrightarrow> (\<forall>cs \<in> set css. satisfies a cs)"
  by (induction css) auto

lemma map_res_in: "map_res f xs = Inr ys \<Longrightarrow> x \<in> set xs \<Longrightarrow> \<exists>y \<in> set ys. f x = Inr y"
  by (induction xs arbitrary: ys) (auto simp: bind_res_Inr_iff)

lemma solved_parts:
  assumes "solved q a"
  shows "k < size_of q \<Longrightarrow> \<exists>pins. pinning q k (cand q k) = Inr pins \<and>
      satisfies a (block_vars q k (cand q k)) \<and> satisfies a pins"
    and "k < size_of q \<Longrightarrow> satisfies a (possession_constraints q k (cand q k))"
    and "(g, ms) \<in> set (resource_groups q) \<Longrightarrow> satisfies a (resource_constraints q ms)"
    and "k < size_of q \<Longrightarrow> satisfies a (dependency_constraints q (cand q k))"
    and "(h, ms') \<in> set (mutex_groups q) \<Longrightarrow> satisfies a (mutex_constraints q ms')"
proof -
  let ?bs = "enumerate 0 (oq_candidates q)"
  let ?var = "\<lambda>(k, b). bind_res (pinning q k b) (\<lambda>pins. Inr (block_vars q k b @ pins))"
  from assms obtain vars where vars: "map_res ?var ?bs = Inr vars"
    and sat: "satisfies a (concat vars)"
      "satisfies a (concat (map (\<lambda>(k, b). possession_constraints q k b) ?bs))"
      "satisfies a (concat (map (\<lambda>(_, members). resource_constraints q members) (resource_groups q)))"
      "satisfies a (concat (map (dependency_constraints q) (oq_candidates q)))"
      "satisfies a (concat (map (\<lambda>(_, members). mutex_constraints q members) (mutex_groups q)))"
    by (auto simp: solved_def build_model_def bind_res_Inr_iff Let_def)
  show "\<exists>pins. pinning q k (cand q k) = Inr pins \<and> satisfies a (block_vars q k (cand q k)) \<and>
      satisfies a pins" if "k < size_of q"
  proof -
    from that have "(k, cand q k) \<in> set ?bs" by (simp add: in_set_enumerate_eq)
    from map_res_in [OF vars this] sat(1) show ?thesis
      by (auto simp: bind_res_Inr_iff satisfies_concat)
  qed
  show "satisfies a (possession_constraints q k (cand q k))" if "k < size_of q"
  proof -
    from that have "(k, cand q k) \<in> set ?bs" by (simp add: in_set_enumerate_eq)
    with sat(2) show ?thesis by (force simp: satisfies_concat)
  qed
  show "satisfies a (resource_constraints q ms)" if "(g, ms) \<in> set (resource_groups q)"
    using that sat(3) by (force simp: satisfies_concat)
  show "satisfies a (dependency_constraints q (cand q k))" if "k < size_of q"
    using that sat(4) by (auto simp: satisfies_concat)
  show "satisfies a (mutex_constraints q ms')" if "(h, ms') \<in> set (mutex_groups q)"
    using that sat(5) by (force simp: satisfies_concat)
qed

lemma solved_slot:
  assumes "solved q a" "k < size_of q"
  shows "slot (oq_candidates q) (bc_id (cand q k)) = Some k"
    "slot_of (oq_candidates q) (bc_id (cand q k)) = k"
    "block_at (oq_candidates q) (bc_id (cand q k)) = cand q k"
    "unfit_id q (bc_id (cand q k)) = window_unfit q (cand q k)"
    "uncovered_id q (bc_id (cand q k)) \<longleftrightarrow> oq_windows q \<noteq> [] \<and> \<not> covered q (cand q k)"
  using slot_nth [of "oq_candidates q" k] unfit_id_nth [of q k] assms
  by (simp_all add: solved_def distinct_ids_def)

section \<open>What each constraint says of a present block\<close>

definition here :: "assignment \<Rightarrow> nat \<Rightarrow> bool" where
  "here a k \<longleftrightarrow> a (Presence k) \<noteq> 0"

lemma presence_01:
  assumes "solved q a" "k < size_of q"
  shows "here a k \<longleftrightarrow> a (Presence k) = 1"
  using solved_parts(1) [OF assms]
  by (auto simp: block_vars_def here_def split: prod.splits)

lemma present_window:
  assumes "solved q a" "k < size_of q" "here a k"
  shows "\<not> window_unfit q (cand q k) \<and> max 0 (bc_earliest (cand q k)) \<le> a (Start k) \<and>
    a (End k) = a (Start k) + bc_duration (cand q k) \<and>
    a (End k) \<le> min (horizon_of q) (bc_latest_end (cand q k))"
  using solved_parts(1) [OF assms(1,2)] assms(3)
  by (auto simp: block_vars_def here_def window_unfit_def clamp_window_def Let_def
      split: if_split_asm)

lemma sum_list_nonzero: "sum_list (map f xs) \<noteq> (0::int) \<Longrightarrow> \<exists>x \<in> set xs. f x \<noteq> 0"
  by (induction xs) auto

lemma possession_constraints_eligible:
  assumes s: "solved q a" and k: "k < size_of q" and fit: "\<not> window_unfit q (cand q k)"
    and ne: "matching_windows q (cand q k) \<noteq> []"
  shows "possession_constraints q k (cand q k) =
    concat (map (window_constraints q k k) (eligible_windows q (cand q k))) @
    (if eligible_windows q (cand q k) = [] then [Var_eq (Presence k) 0]
     else [Sum_eq (map (\<lambda>(n, _). Selection k n) (eligible_windows q (cand q k))) (Presence k)])"
  using assms solved_slot [OF s k] by (simp add: possession_constraints_def Let_def)

lemma present_possession:
  assumes s: "solved q a" and k: "k < size_of q" "here a k" and pw: "oq_windows q \<noteq> []"
  shows "\<exists>w \<in> set (oq_windows q). window_covers w (cand q k) \<and>
    max 0 (pw_start w) \<le> a (Start k) \<and> a (End k) \<le> min (horizon_of q) (pw_end w)"
proof -
  let ?b = "cand q k"
  have one: "a (Presence k) = 1" using presence_01 [OF s k(1)] k(2) by simp
  have fit: "\<not> window_unfit q ?b" using present_window [OF s k] by simp
  note sat = solved_parts(2) [OF s k(1)] and slots = solved_slot [OF s k(1)]
  have ne: "matching_windows q ?b \<noteq> []"
    using sat one fit pw slots by (auto simp: possession_constraints_def Let_def)
  note pc = possession_constraints_eligible [OF s k(1) fit ne]
  let ?el = "eligible_windows q ?b"
  from sat one have each: "\<forall>e \<in> set ?el. satisfies a (window_constraints q k k e)"
    and "?el \<noteq> []"
    unfolding pc by (auto simp: satisfies_concat split: if_split_asm)
  moreover from sat one this(2) have "sum_list (map (\<lambda>e. a (Selection k (fst e))) ?el) = 1"
    unfolding pc by (simp add: case_prod_beta comp_def)
  ultimately obtain n w where e: "(n, w) \<in> set ?el" "a (Selection k n) \<noteq> 0"
    using sum_list_nonzero [of "\<lambda>e. a (Selection k (fst e))" ?el] by force
  with each have "satisfies a (window_constraints q k k (n, w))" by blast
  then have "a (Selection k n) = 1"
    using e(2) by (simp add: window_constraints_def)
  with \<open>satisfies a (window_constraints q k k (n, w))\<close>
  have "fst (clipped q w) \<le> a (Start k)" "a (End k) \<le> snd (clipped q w)"
    by (simp_all add: window_constraints_def)
  moreover have "w \<in> set (matching_windows q ?b)"
    using e(1) by (auto simp: eligible_windows_def in_set_enumerate_eq)
  ultimately show ?thesis by (auto simp: matching_windows_def clipped_def)
qed

lemma disjoint_sym: "disjoint_intervals a x y \<Longrightarrow> disjoint_intervals a y x"
  by (auto simp: disjoint_intervals_def split: prod.splits)

lemma present_resource:
  assumes s: "solved q a" and k: "k < size_of q" "here a k" and l: "l < size_of q" "here a l"
    and "k \<noteq> l" and same: "resource_key (cand q k) = resource_key (cand q l)"
  shows "a (End k) + headway_of q \<le> a (Start l) \<or> a (End l) + headway_of q \<le> a (Start k)"
proof -
  let ?bs = "oq_candidates q"
  define iv where "iv = (\<lambda>(n, i). (Start (slot_of ?bs i), buffered_size q i, Buffered n,
      Presence (slot_of ?bs i)))"
  let ?P = "\<lambda>(n::nat, i). \<not> unfit_id q i"
  have sat: "satisfies a (resource_constraints q ms)"
    if "(g, ms) \<in> set (group_by (\<lambda>b. Some (resource_key b)) ?bs)" for g ms
    using solved_parts(3) [OF s] that by (simp add: resource_groups_def)
  have "disjoint_intervals a (iv (k, bc_id (cand q k))) (iv (l, bc_id (cand q l)))"
  proof (rule resources.pairwise_members [where P = ?P and g = "resource_key (cand q k)"
        and R = "disjoint_intervals a" and bs = ?bs and f = iv and k = k and l = l])
    fix g ms assume "(g, ms) \<in> set (group_by (\<lambda>b. Some (resource_key b)) ?bs)"
    from sat [OF this] show "pairwise_list (disjoint_intervals a) (map iv (filter ?P ms))"
      by (simp add: resource_constraints_def Let_def iv_def)
  qed (use k l assms(6) same present_window [OF s] solved_slot [OF s] disjoint_sym
      in \<open>auto simp: iv_def\<close>)
  moreover have "a (Buffered n) = a (Start n) + bc_duration (cand q n) + headway_of q"
    if "n < size_of q" "here a n" for n
  proof -
    from resources.one_group [OF that(1) that(1) refl refl] obtain ms where
      ms: "(resource_key (cand q n), ms) \<in> set (group_by (\<lambda>b. Some (resource_key b)) ?bs)"
        "(n, bc_id (cand q n)) \<in> set ms" by blast
    with sat [OF ms(1)] present_window [OF s that] solved_slot [OF s that(1)] show ?thesis
      by (force simp: resource_constraints_def Let_def satisfies_concat buffered_size_def)
  qed
  ultimately show ?thesis
    using k l presence_01 [OF s] solved_slot [OF s] present_window [OF s]
    by (auto simp: iv_def disjoint_intervals_def)
qed

lemma present_mutex:
  assumes s: "solved q a" and k: "k < size_of q" "here a k" and l: "l < size_of q" "here a l"
    and "k \<noteq> l" and g: "mutex_key (cand q k) = Some g" "mutex_key (cand q l) = Some g"
  shows "a (End k) \<le> a (Start l) \<or> a (End l) \<le> a (Start k)"
proof -
  let ?bs = "oq_candidates q"
  define iv where "iv = (\<lambda>(n::nat, i). (Start (slot_of ?bs i), bc_duration (block_at ?bs i),
      End (slot_of ?bs i), Presence (slot_of ?bs i)))"
  have "disjoint_intervals a (iv (k, bc_id (cand q k))) (iv (l, bc_id (cand q l)))"
  proof (rule mutexes.pairwise_members [where P = "\<lambda>_. True" and g = g
        and R = "disjoint_intervals a" and bs = ?bs and f = iv and k = k and l = l])
    fix h ms assume "(h, ms) \<in> set (group_by mutex_key ?bs)"
    with solved_parts(5) [OF s]
    show "pairwise_list (disjoint_intervals a) (map iv (filter (\<lambda>_. True) ms))"
      by (auto simp: mutex_groups_def mutex_constraints_def Let_def iv_def)
  qed (use k l assms(6) g solved_slot [OF s] disjoint_sym in \<open>auto simp: iv_def\<close>)
  then show ?thesis
    using k l presence_01 [OF s] solved_slot [OF s] by (auto simp: iv_def disjoint_intervals_def)
qed

lemma present_dependency:
  assumes s: "solved q a" and k: "k < size_of q" "here a k"
    and d: "d \<in> set (bc_dependencies (cand q k))" "l < size_of q" "bc_id (cand q l) = d"
  shows "here a l \<and> a (End l) \<le> a (Start k)"
proof -
  let ?bs = "oq_candidates q"
  have "satisfies a (if slot ?bs d = None then []
      else [Var_le (Presence k) (Presence (slot_of ?bs d)),
            Ge_var_if (Start k) (End (slot_of ?bs d)) (Presence k)])"
    using solved_parts(4) [OF s k(1)] d(1) solved_slot(2) [OF s k(1)]
    by (auto simp only: dependency_constraints_def Let_def satisfies_concat set_map ball_simps)
  with solved_slot(1,2) [OF s d(2)] d(3)
  have "a (Presence k) \<le> a (Presence l)" "a (Presence k) = 1 \<longrightarrow> a (End l) \<le> a (Start k)"
    by simp_all
  then show ?thesis
    using presence_01 [OF s k(1)] k(2) by (auto simp: here_def)
qed

lemma present_pinned:
  assumes s: "solved q a" and k: "k < size_of q"
    and c: "committed_for q (bc_id (cand q k)) = Some c"
    and cov: "oq_windows q = [] \<or> covered q (cand q k)"
  shows "\<exists>x y. committed_placement c = Inr (x, y) \<and> here a k \<and> a (Start k) = x \<and> a (End k) = y"
proof -
  from solved_parts(1) [OF s k] obtain pins where "pinning q k (cand q k) = Inr pins"
    "satisfies a pins" by blast
  with c cov solved_slot [OF s k] show ?thesis
    by (auto simp: pinning_def bind_res_Inr_iff here_def split: if_split_asm)
qed

section \<open>The solver's contract\<close>

text \<open>
  What CP-SAT documents: with status OPTIMAL or FEASIBLE the assignment satisfies the model,
  and a model that has a satisfying assignment is not reported INFEASIBLE or MODEL_INVALID.
\<close>

definition cp_sound :: "cp_solver \<Rightarrow> bool" where
  "cp_sound cp \<longleftrightarrow> (\<forall>m obj. cp_status (cp m obj) \<in> {OPTIMAL, FEASIBLE} \<longrightarrow>
     satisfies (cp_value (cp m obj)) m)"

definition cp_complete :: "cp_solver \<Rightarrow> bool" where
  "cp_complete cp \<longleftrightarrow> (\<forall>m obj a. satisfies a m \<longrightarrow>
     cp_status (cp m obj) \<notin> {INFEASIBLE, MODEL_INVALID})"

text \<open>A solver that knows one assignment and offers it whenever it satisfies the model.\<close>

definition offering :: "assignment \<Rightarrow> cp_solver" where
  "offering a m obj =
     \<lparr>cp_status = (if satisfies a m then OPTIMAL else UNKNOWN), cp_value = a, cp_wall = 0\<rparr>"

lemma offering_sound: "cp_sound (offering a)"
  by (simp add: cp_sound_def offering_def)

lemma offering_complete: "cp_complete (offering a)"
  by (simp add: cp_complete_def offering_def)

section \<open>The result\<close>

lemma solve_scheduled:
  assumes "solve cp arrange q = Inr r" "cp_sound cp" "distinct_ids q"
  obtains (nothing) "os_status r \<notin> {''OPTIMAL'', ''FEASIBLE''}" "os_scheduled r = []"
      "os_unscheduled r = oq_candidates q"
      "os_rejections r = map (\<lambda>b. (bc_id b, No_feasible_solution)) (oq_candidates q)"
  | (plan) a where "solved q a" "os_status r \<in> {''OPTIMAL'', ''FEASIBLE''}"
      "os_scheduled r = map (scheduled_entry q a) (filter (is_present q a) (oq_candidates q))"
      "os_unscheduled r = filter (\<lambda>b. \<not> is_present q a b) (oq_candidates q)"
      "os_rejections r = map (\<lambda>b. (bc_id b, rejection_reason q
         (arrange (map bc_id (filter (is_present q a) (oq_candidates q)))) b)) (os_unscheduled r)"
proof -
  from assms(1) obtain m where m: "build_model q = Inr m"
    by (auto simp: solve_def bind_res_Inr_iff)
  define o' where "o' = cp m (build_objective q)"
  show thesis
  proof (cases "cp_status o' \<in> {OPTIMAL, FEASIBLE}")
    case False
    then have "status_value (cp_status o') \<notin> {''OPTIMAL'', ''FEASIBLE''}"
      by (cases "cp_status o'") auto
    with False assms(1) m that(1) show thesis by (auto simp: solve_def Let_def o'_def)
  next
    case True
    then have "solved q (cp_value o')"
      using assms(2,3) m by (auto simp: solved_def cp_sound_def o'_def)
    moreover have "bc_id b \<in> bc_id ` {x \<in> set (oq_candidates q). is_present q (cp_value o') x}
        \<longleftrightarrow> is_present q (cp_value o') b" if "b \<in> set (oq_candidates q)" for b
      using that by (auto simp: is_present_def)
    then have "filter (\<lambda>b. bc_id b \<notin> bc_id ` {x \<in> set (oq_candidates q). is_present q (cp_value o') x})
        (oq_candidates q) = filter (\<lambda>b. \<not> is_present q (cp_value o') b) (oq_candidates q)"
      by (intro filter_cong) auto
    ultimately show thesis
      using assms(1) m True that(2) [of "cp_value o'"] by (auto simp: solve_def Let_def o'_def)
  qed
qed

lemma scheduled_index:
  assumes "solved q a" "s \<in> set (map (scheduled_entry q a) (filter (is_present q a) (oq_candidates q)))"
  obtains k where "k < size_of q" "here a k" "s = scheduled_entry q a (cand q k)"
    "sb_id s = bc_id (cand q k)" "sb_start s = a (Start k)" "sb_end s = a (End k)"
    "sb_track s = bc_track (cand q k)" "sb_section s = bc_section (cand q k)"
proof -
  from assms(2) obtain k where "k < size_of q" "is_present q a (cand q k)"
    "s = scheduled_entry q a (cand q k)"
    by (auto simp: in_set_conv_nth)
  with solved_slot [OF assms(1), of k] that [of k] show thesis
    by (simp add: is_present_def here_def scheduled_entry_def Let_def)
qed

section \<open>A model without pins is satisfiable\<close>

definition idle :: "optimization_request \<Rightarrow> assignment" where
  "idle q v =
    (case v of
       Presence _ \<Rightarrow> 0
     | Start k \<Rightarrow> max 0 (bc_earliest (cand q k))
     | End k \<Rightarrow> max 0 (bc_earliest (cand q k)) +
         (if window_unfit q (cand q k) then 0 else bc_duration (cand q k))
     | Selection _ _ \<Rightarrow> 0
     | Buffered k \<Rightarrow> max 0 (bc_earliest (cand q k)) + bc_duration (cand q k) + headway_of q)"

definition unpinned :: "optimization_request \<Rightarrow> bool" where
  "unpinned q \<longleftrightarrow> (\<forall>b \<in> set (oq_candidates q).
     committed_for q (bc_id b) = None \<or> (oq_windows q \<noteq> [] \<and> \<not> covered q b))"

lemma idle_no_overlap:
  assumes "\<forall>(s, n, e, p) \<in> set is. idle q p = 0"
  shows "holds (idle q) (No_overlap is)"
proof -
  have "disjoint_intervals (idle q) (is ! i) (is ! j)" if "i < length is" "j < length is" for i j
    using assms that by (auto simp: disjoint_intervals_def dest!: nth_mem split: prod.splits)
  moreover have "list_all (interval_ok (idle q)) is"
    using assms by (auto simp: list_all_iff interval_ok_def)
  ultimately show ?thesis by (simp add: pairwise_list_nth)
qed

lemma idle_block_vars:
  assumes "0 \<le> bc_duration (cand q k)"
  shows "satisfies (idle q) (block_vars q k (cand q k))"
  using assms by (auto simp: block_vars_def idle_def window_unfit_def clamp_window_def Let_def)

lemma idle_possession:
  "satisfies (idle q) (possession_constraints q k b)"
proof -
  have "sum_list (map (idle q) (map (\<lambda>(n, _). Selection k n) xs)) = 0" for xs :: "(nat \<times> possession_window) list"
    by (induction xs) (auto simp: idle_def)
  then show ?thesis
    by (auto simp: possession_constraints_def Let_def satisfies_concat window_constraints_def idle_def)
qed

lemma idle_resource:
  assumes d: "distinct_ids q" and nn: "\<forall>b \<in> set (oq_candidates q). 0 \<le> bc_duration b"
    and ms: "(g, ms) \<in> set (resource_groups q)"
  shows "satisfies (idle q) (resource_constraints q ms)"
proof -
  have "satisfies (idle q) [Domain (Buffered k) 0 (horizon_of q + buffered_size q i),
      Var_eq_plus (Buffered k) (Start (slot_of (oq_candidates q) i)) (buffered_size q i)]"
    if "(k, i) \<in> set ms" "\<not> unfit_id q i" for k i
  proof -
    have k: "k < size_of q" "i = bc_id (cand q k)"
      using resources.members [of g ms] ms that(1) by (auto simp: resource_groups_def)
    then have "slot_of (oq_candidates q) i = k" "block_at (oq_candidates q) i = cand q k"
      "unfit_id q i = window_unfit q (cand q k)"
      using slot_nth [of "oq_candidates q" k] unfit_id_nth [of q k] d by (simp_all add: distinct_ids_def)
    moreover have "0 \<le> bc_duration (cand q k)" using nn k(1) by simp
    ultimately show ?thesis using that(2)
      by (auto simp: idle_def buffered_size_def window_unfit_def clamp_window_def Let_def
          headway_of_def)
  qed
  moreover have "satisfies (idle q) [No_overlap (map (\<lambda>(k, i).
      (Start (slot_of (oq_candidates q) i), buffered_size q i, Buffered k,
       Presence (slot_of (oq_candidates q) i))) (filter (\<lambda>(k, i). \<not> unfit_id q i) ms))]"
    by (simp del: holds.simps, rule idle_no_overlap) (auto simp: idle_def)
  ultimately show ?thesis
    by (auto simp: resource_constraints_def Let_def satisfies_concat simp del: holds.simps)
qed

lemma idle_rest:
  "satisfies (idle q) (dependency_constraints q b)" "satisfies (idle q) (mutex_constraints q ms)"
proof -
  show "satisfies (idle q) (dependency_constraints q b)"
    by (auto simp: dependency_constraints_def Let_def satisfies_concat idle_def)
  show "satisfies (idle q) (mutex_constraints q ms)"
    by (simp add: mutex_constraints_def Let_def del: holds.simps, rule idle_no_overlap)
      (auto simp: idle_def)
qed

lemma map_res_total: "\<forall>x \<in> set xs. f x = Inr (g x) \<Longrightarrow> map_res f xs = Inr (map g xs)"
  by (induction xs) simp_all

lemma unpinned_satisfiable:
  assumes "distinct_ids q" "unpinned q" "\<forall>b \<in> set (oq_candidates q). 0 \<le> bc_duration b"
  shows "\<exists>m. build_model q = Inr m \<and> satisfies (idle q) m"
proof -
  let ?bs = "enumerate 0 (oq_candidates q)"
  have el: "k < size_of q \<and> b = cand q k" if "(k, b) \<in> set ?bs" for k b
    using that by (auto simp: in_set_enumerate_eq)
  have "pinning q k b = Inr []" if "(k, b) \<in> set ?bs" for k b
  proof -
    from el [OF that] have k: "k < size_of q" "b = cand q k" by simp_all
    have "committed_for q (bc_id (cand q k)) = None \<or> (oq_windows q \<noteq> [] \<and> \<not> covered q (cand q k))"
      using assms(2) nth_mem [OF k(1)] by (simp add: unpinned_def)
    with assms(1) unfit_id_nth(2) [OF _ k(1)] k(2) show ?thesis
      by (auto simp: pinning_def distinct_ids_def)
  qed
  then have "map_res (\<lambda>(k, b). bind_res (pinning q k b) (\<lambda>pins. Inr (block_vars q k b @ pins))) ?bs =
      Inr (map (\<lambda>(k, b). block_vars q k b) ?bs)"
    by (intro map_res_total) auto
  moreover have "satisfies (idle q) (concat (map (\<lambda>(k, b). block_vars q k b) ?bs))"
  proof -
    have "satisfies (idle q) (block_vars q k b)" if "(k, b) \<in> set ?bs" for k b
      using el [OF that] assms(3) by (auto intro: idle_block_vars)
    then show ?thesis by (auto simp: satisfies_concat)
  qed
  moreover have "satisfies (idle q) (concat (map (\<lambda>(k, b). possession_constraints q k b) ?bs))"
    by (auto simp: satisfies_concat idle_possession)
  moreover have "satisfies (idle q)
      (concat (map (\<lambda>(_, ms). resource_constraints q ms) (resource_groups q)))"
    using idle_resource [OF assms(1,3)] by (auto simp: satisfies_concat)
  ultimately show ?thesis
    by (auto simp: build_model_def Let_def satisfies_concat idle_rest)
qed

section \<open>A pin that cannot hold\<close>

text \<open>
  A committed block whose track is covered, but only by windows that are empty within the
  horizon, is pinned present by one constraint and absent by another.
\<close>

lemma empty_windows_unsatisfiable:
  assumes d: "distinct_ids q" and m: "build_model q = Inr m" and k: "k < size_of q"
    and c: "committed_for q (bc_id (cand q k)) \<noteq> None"
    and fit: "\<not> window_unfit q (cand q k)"
    and ne: "matching_windows q (cand q k) \<noteq> []" and empty: "eligible_windows q (cand q k) = []"
  shows "\<not> satisfies a m"
proof
  assume "satisfies a m"
  with d m have s: "solved q a" by (auto simp: solved_def)
  have "covered q (cand q k)"
    using ne by (auto simp: covered_def matching_windows_def list_ex_iff filter_empty_conv)
  with present_pinned [OF s k] c have "here a k" by auto
  moreover have "satisfies a (possession_constraints q k (cand q k))" by (rule solved_parts(2) [OF s k])
  ultimately show False
    by (simp add: possession_constraints_eligible [OF s k fit ne] empty here_def)
qed

end
