(* ===== verification/Disruptions.thy ===== *)
theory Disruptions
  imports Optimizer_Facts
begin

text \<open>
  Disruptions and recovery: \<^verbatim>\<open>backend/app/simulation/disruptions.py\<close> and
  \<^verbatim>\<open>simulator.py\<close>. A disruption rewrites a copy of the request, made through the request's
  own dictionary form, and the recovery solves the rewritten request.
\<close>

section \<open>Applying a disruption\<close>

definition copy_request :: "optimization_request \<Rightarrow> optimization_request res" where
  "copy_request q = request_from_dict (request_to_dict q)"

text \<open>\<^verbatim>\<open>not x\<close> for an optional text.\<close>

definition blank :: "string option \<Rightarrow> bool" where
  "blank v \<longleftrightarrow> v = None \<or> v = Some []"

definition apply_asset_breakdown ::
  "optimization_request \<Rightarrow> disruption_event \<Rightarrow> optimization_request res" where
  "apply_asset_breakdown q e =
     bind_res (copy_request q) (\<lambda>u.
     if blank (de_asset e) then Inr u
     else Inr (u\<lparr>oq_candidates := filter (\<lambda>b. Some (bc_asset b) \<noteq> de_asset e) (oq_candidates u),
                 oq_committed := filter (\<lambda>b. Some (bc_asset b) \<noteq> de_asset e) (oq_committed u)\<rparr>))"

definition apply_track_unavailable ::
  "optimization_request \<Rightarrow> disruption_event \<Rightarrow> optimization_request res" where
  "apply_track_unavailable q e =
     bind_res (copy_request q) (\<lambda>u.
     if blank (de_track e) then Inr u
     else Inr (u\<lparr>oq_candidates := filter (\<lambda>b. Some (bc_track b) \<noteq> de_track e) (oq_candidates u),
                 oq_committed := filter (\<lambda>b. Some (bc_track b) \<noteq> de_track e) (oq_committed u)\<rparr>))"

definition apply_emergency_work ::
  "optimization_request \<Rightarrow> disruption_event \<Rightarrow> optimization_request res" where
  "apply_emergency_work q e =
     bind_res (copy_request q) (\<lambda>u.
     case de_candidate e of
       None \<Rightarrow> Inr u
     | Some c \<Rightarrow>
        if bc_id c \<in> set (map bc_id (oq_candidates u)) then Inr u
        else Inr (u\<lparr>oq_candidates := oq_candidates u @ [c\<lparr>bc_status := PLANNED_BLOCK\<rparr>]\<rparr>))"

definition curtails :: "disruption_event \<Rightarrow> possession_window \<Rightarrow> bool" where
  "curtails e w \<longleftrightarrow>
     (de_track e = None \<or> Some (pw_track w) = de_track e) \<and>
     pw_start w < de_end e \<and> de_start e < pw_end w"

definition apply_possession_curtailment ::
  "optimization_request \<Rightarrow> disruption_event \<Rightarrow> optimization_request res" where
  "apply_possession_curtailment q e =
     bind_res (copy_request q) (\<lambda>u.
     let remaining = filter (\<lambda>w. \<not> curtails e w) (oq_windows u) in
     if oq_windows q \<noteq> [] \<and> remaining = [] then Inl ValueError
     else Inr (u\<lparr>oq_windows := remaining\<rparr>))"

definition apply_disruption ::
  "optimization_request \<Rightarrow> disruption_event \<Rightarrow> optimization_request res" where
  "apply_disruption q e =
    (if de_type e = ''ASSET_BREAKDOWN'' then apply_asset_breakdown q e
     else if de_type e = ''TRACK_UNAVAILABLE'' then apply_track_unavailable q e
     else if de_type e = ''EMERGENCY_WORK'' then apply_emergency_work q e
     else if de_type e = ''POSSESSION_CURTAILMENT'' then apply_possession_curtailment q e
     else Inl ValueError)"

record recovery =
  rc_event :: disruption_event
  rc_request :: optimization_request
  rc_result :: optimization_result

definition simulate_disruption ::
  "cp_solver \<Rightarrow> (string list \<Rightarrow> string list) \<Rightarrow> optimization_request \<Rightarrow> disruption_event \<Rightarrow>
   recovery res" where
  "simulate_disruption cp arrange q e =
     bind_res (apply_disruption q e) (\<lambda>u.
     bind_res (solve cp arrange u) (\<lambda>r.
     Inr \<lparr>rc_event = e, rc_request = u, rc_result = r\<rparr>))"

section \<open>What a disruption leaves\<close>

lemma copy_request_valid: "make_request q = Inr q \<Longrightarrow> copy_request q = Inr q"
  by (simp add: copy_request_def request_roundtrip)

lemma distinct_ids_filter:
  "distinct_ids q \<Longrightarrow> distinct_ids (q\<lparr>oq_candidates := filter P (oq_candidates q), oq_committed := cs\<rparr>)"
  by (simp add: distinct_ids_def distinct_map_filter)

lemma apply_disruption_distinct:
  assumes "make_request q = Inr q" "distinct_ids q" "apply_disruption q e = Inr u"
  shows "distinct_ids u"
  using assms
  by (auto simp: apply_disruption_def apply_asset_breakdown_def apply_track_unavailable_def
      apply_emergency_work_def apply_possession_curtailment_def copy_request_valid Let_def
      distinct_ids_def distinct_map_filter split: if_split_asm option.split_asm)

lemma curtailment_Inr:
  assumes "make_request q = Inr q" "de_type e = ''POSSESSION_CURTAILMENT''"
    and "apply_disruption q e = Inr u"
  shows "u = q\<lparr>oq_windows := filter (\<lambda>w. \<not> curtails e w) (oq_windows q)\<rparr>"
    "oq_windows q \<noteq> [] \<Longrightarrow> oq_windows u \<noteq> []"
  using assms
  by (auto simp: apply_disruption_def apply_possession_curtailment_def copy_request_valid Let_def
      split: if_split_asm)

lemma track_unavailable_Inr:
  assumes "make_request q = Inr q" "de_type e = ''TRACK_UNAVAILABLE''" "de_track e = Some t" "t \<noteq> []"
    and "apply_disruption q e = Inr u"
  shows "u = q\<lparr>oq_candidates := filter (\<lambda>b. bc_track b \<noteq> t) (oq_candidates q),
    oq_committed := filter (\<lambda>b. bc_track b \<noteq> t) (oq_committed q)\<rparr>"
  using assms
  by (simp add: apply_disruption_def apply_track_unavailable_def copy_request_valid blank_def)

lemma asset_breakdown_Inr:
  assumes "make_request q = Inr q" "de_type e = ''ASSET_BREAKDOWN''" "de_asset e = Some t" "t \<noteq> []"
    and "apply_disruption q e = Inr u"
  shows "u = q\<lparr>oq_candidates := filter (\<lambda>b. bc_asset b \<noteq> t) (oq_candidates q),
    oq_committed := filter (\<lambda>b. bc_asset b \<noteq> t) (oq_committed q)\<rparr>"
  using assms
  by (simp add: apply_disruption_def apply_asset_breakdown_def copy_request_valid blank_def)

end
