(* ===== verification/Scheduling_Properties.thy ===== *)
theory Scheduling_Properties
  imports Disruptions
begin

text \<open>
  What the optimizer and the recovery built on it guarantee, for every solver that honours its
  documented contract: the schedule keeps every hard constraint, the result accounts for every
  candidate, and a recovery keeps clear of what the disruption took away. The concrete request
  of the witnesses is in the first section.
\<close>

section \<open>A concrete request\<close>

definition cand_of :: "string \<Rightarrow> int \<Rightarrow> int \<Rightarrow> string list \<Rightarrow> block_candidate" where
  "cand_of i du es deps =
     \<lparr>bc_id = i, bc_asset = ''A-'' @ i, bc_track = ''UP-1'', bc_work_type = ''BALLAST_TAMPING'',
      bc_duration = du, bc_section = Some ''NDLS-NZM'', bc_earliest = es, bc_latest_end = 600,
      bc_priority = 1 / 2, bc_risk = 1 / 4, bc_dependencies = deps, bc_mutex = Some ''CREW'',
      bc_committed = False, bc_status = PLANNED_BLOCK, bc_metadata = fmempty\<rparr>"

definition win_of :: "string \<Rightarrow> int \<Rightarrow> int \<Rightarrow> possession_window" where
  "win_of i s e = \<lparr>pw_id = i, pw_track = ''UP-1'', pw_start = s, pw_end = e,
     pw_section = Some ''NDLS-NZM'', pw_type = ''MAINTENANCE_POSSESSION''\<rparr>"

text \<open>Two blocks that fit one after the other, a third too long for the horizon.\<close>

definition demo_request :: optimization_request where
  "demo_request =
     \<lparr>oq_corridor = ''A'', oq_horizon_minutes = 600, oq_tracks = [''UP-1''],
      oq_candidates = [cand_of ''B1'' 60 0 [], cand_of ''B2'' 60 30 [''B1''], cand_of ''B3'' 700 0 []],
      oq_windows = [win_of ''W1'' 0 240, win_of ''W2'' 300 400],
      oq_committed = [(cand_of ''B1'' 60 0 [])\<lparr>bc_committed := True,
        bc_metadata := dict_of [(COMMITTED_START_KEY, JInt 20), (COMMITTED_END_KEY, JInt 80)]\<rparr>],
      oq_headway = 15, oq_timetable = [], oq_horizon_start = DEFAULT_HORIZON_START\<rparr>"

fun demo_assignment :: assignment where
  "demo_assignment (Presence k) = (if k < 2 then 1 else 0)"
| "demo_assignment (Start k) = (if k = 0 then 20 else if k = 1 then 95 else 0)"
| "demo_assignment (End k) = (if k = 0 then 80 else if k = 1 then 155 else 0)"
| "demo_assignment (Selection k n) = (if n = 0 then 1 else 0)"
| "demo_assignment (Buffered k) = (if k = 0 then 95 else if k = 1 then 170 else 0)"

definition demo_solver :: cp_solver where
  "demo_solver = offering demo_assignment"

definition demo_result :: optimization_result where
  "demo_result = projr (solve demo_solver (\<lambda>ids. ids) demo_request)"

lemma demo_solver_sound: "cp_sound demo_solver"
  by (simp add: demo_solver_def offering_sound)

lemma demo_solves: "solve demo_solver (\<lambda>ids. ids) demo_request = Inr demo_result"
  unfolding demo_result_def by code_simp

lemma demo_scheduled: "map (\<lambda>s. (sb_id s, sb_start s, sb_end s)) (os_scheduled demo_result) =
    [(''B1'', 20, 80), (''B2'', 95, 155)]"
  by code_simp

definition demo_1 :: scheduled_block where "demo_1 = os_scheduled demo_result ! 0"
definition demo_2 :: scheduled_block where "demo_2 = os_scheduled demo_result ! 1"

lemma demo_blocks:
  "demo_1 \<in> set (os_scheduled demo_result)" "demo_2 \<in> set (os_scheduled demo_result)"
  "sb_id demo_1 = ''B1''" "sb_id demo_2 = ''B2''"
  "sb_start demo_1 = 20" "sb_end demo_1 = 80" "sb_start demo_2 = 95" "sb_end demo_2 = 155"
  "sb_track demo_1 = sb_track demo_2" "sb_section demo_1 = sb_section demo_2"
proof -
  have "length (os_scheduled demo_result) = 2"
    using arg_cong [OF demo_scheduled, of length] by simp
  then show "demo_1 \<in> set (os_scheduled demo_result)" "demo_2 \<in> set (os_scheduled demo_result)"
    by (simp_all add: demo_1_def demo_2_def)
qed (code_simp+)

lemma demo_distinct: "distinct_ids demo_request"
  by (simp add: distinct_ids_def demo_request_def cand_of_def)

text \<open>What every property here starts from: the assignment and the block behind an entry.\<close>

lemma scheduled_block_index:
  assumes "solve cp arrange q = Inr r" "cp_sound cp" "distinct_ids q" "os_scheduled r \<noteq> []"
  obtains a where "solved q a"
    "\<And>s. s \<in> set (os_scheduled r) \<Longrightarrow> \<exists>k. k < size_of q \<and> here a k \<and> sb_id s = bc_id (cand q k) \<and>
       sb_start s = a (Start k) \<and> sb_end s = a (End k) \<and> sb_track s = bc_track (cand q k) \<and>
       sb_section s = bc_section (cand q k)"
    "\<And>k. k < size_of q \<Longrightarrow> here a k \<Longrightarrow> scheduled_entry q a (cand q k) \<in> set (os_scheduled r)"
proof (rule solve_scheduled [OF assms(1-3)])
  fix a assume s: "solved q a" and r: "os_scheduled r =
    map (scheduled_entry q a) (filter (is_present q a) (oq_candidates q))"
  show thesis
  proof (rule that [OF s])
    fix x assume "x \<in> set (os_scheduled r)"
    with r show "\<exists>k. k < size_of q \<and> here a k \<and> sb_id x = bc_id (cand q k) \<and>
       sb_start x = a (Start k) \<and> sb_end x = a (End k) \<and> sb_track x = bc_track (cand q k) \<and>
       sb_section x = bc_section (cand q k)"
      using scheduled_index [OF s, of x] by metis
  next
    fix k assume "k < size_of q" "here a k"
    with r solved_slot [OF s] show "scheduled_entry q a (cand q k) \<in> set (os_scheduled r)"
      by (auto simp: is_present_def here_def)
  qed
qed (use assms(4) in simp_all)

lemma same_id_same_slot:
  "distinct_ids q \<Longrightarrow> k < size_of q \<Longrightarrow> l < size_of q \<Longrightarrow> bc_id (cand q k) = bc_id (cand q l) \<Longrightarrow> k = l"
  unfolding distinct_ids_def by (metis length_map nth_eq_iff_index_eq nth_map)

section \<open>Hard constraints\<close>

text \<open>C34: Every scheduled block is one of the request's candidates, lasts exactly its duration and
  lies inside the candidate's own time window and the planning horizon.\<close>

theorem schedule_within_windows:
  assumes "solve cp arrange q = Inr r" "cp_sound cp" "distinct_ids q" "s \<in> set (os_scheduled r)"
  shows "\<exists>b \<in> set (oq_candidates q). bc_id b = sb_id s \<and> bc_track b = sb_track s \<and>
    bc_section b = sb_section s \<and> sb_end s = sb_start s + bc_duration b \<and>
    0 \<le> sb_start s \<and> bc_earliest b \<le> sb_start s \<and> sb_end s \<le> bc_latest_end b \<and>
    sb_end s \<le> max 0 (oq_horizon_minutes q)"
proof -
  from assms(4) have "os_scheduled r \<noteq> []" by auto
  from scheduled_block_index [OF assms(1-3) this] assms(4) obtain a k where
    "solved q a" "k < size_of q" "here a k" "sb_id s = bc_id (cand q k)" "sb_start s = a (Start k)"
    "sb_end s = a (End k)" "sb_track s = bc_track (cand q k)" "sb_section s = bc_section (cand q k)"
    by metis
  with present_window [of q a k] show ?thesis
    by (intro bexI [of _ "cand q k"]) (auto simp: horizon_of_def)
qed

lemma schedule_within_windows_witness:
  "\<exists>b \<in> set (oq_candidates demo_request). bc_id b = ''B2'' \<and> (155::int) = 95 + bc_duration b"
  using schedule_within_windows [OF demo_solves demo_solver_sound demo_distinct demo_blocks(2)]
  by (auto simp: demo_blocks)

text \<open>C31: Two scheduled blocks on one resource (track and section) never overlap, and the second
  starts at least the configured headway after the first has ended.\<close>

theorem resource_never_shared:
  assumes "solve cp arrange q = Inr r" "cp_sound cp" "distinct_ids q"
    and "s \<in> set (os_scheduled r)" "t \<in> set (os_scheduled r)" "sb_id s \<noteq> sb_id t"
    and "sb_track s = sb_track t" "sb_section s = sb_section t"
  shows "sb_end s + max 0 (oq_headway q) \<le> sb_start t \<or> sb_end t + max 0 (oq_headway q) \<le> sb_start s"
proof -
  from assms(4) have "os_scheduled r \<noteq> []" by auto
  from scheduled_block_index [OF assms(1-3) this] assms(4,5) obtain a k l where
    s: "solved q a" "k < size_of q" "here a k" "sb_id s = bc_id (cand q k)" "sb_start s = a (Start k)"
      "sb_end s = a (End k)" "sb_track s = bc_track (cand q k)" "sb_section s = bc_section (cand q k)"
    and t: "l < size_of q" "here a l" "sb_id t = bc_id (cand q l)" "sb_start t = a (Start l)"
      "sb_end t = a (End l)" "sb_track t = bc_track (cand q l)" "sb_section t = bc_section (cand q l)"
    by metis
  with assms(6-8) present_resource [OF s(1-3) t(1,2)] show ?thesis
    by (auto simp: resource_key_def headway_of_def)
qed

lemma resource_never_shared_witness: "(80::int) + 15 \<le> 95 \<or> (155::int) + 15 \<le> 20"
  using resource_never_shared [OF demo_solves demo_solver_sound demo_distinct demo_blocks(1,2)]
  by (simp add: demo_blocks demo_request_def)

lemma scheduled_possession:
  assumes "solve cp arrange q = Inr r" "cp_sound cp" "distinct_ids q" "s \<in> set (os_scheduled r)"
    and "oq_windows q \<noteq> []"
  shows "\<exists>w \<in> set (oq_windows q). pw_track w = sb_track s \<and>
    (sb_section s = None \<or> pw_section w = sb_section s) \<and>
    pw_start w \<le> sb_start s \<and> sb_end s \<le> pw_end w"
proof -
  from assms(4) have "os_scheduled r \<noteq> []" by auto
  from scheduled_block_index [OF assms(1-3) this] assms(4) obtain a k where
    "solved q a" "k < size_of q" "here a k" "sb_start s = a (Start k)"
    "sb_end s = a (End k)" "sb_track s = bc_track (cand q k)" "sb_section s = bc_section (cand q k)"
    by metis
  with present_possession [of q a k] assms(5) show ?thesis
    by (force simp: window_covers_def split: if_split_asm)
qed

text \<open>C32: In a request that declares possession windows no block is scheduled unprotected: each lies
  completely inside one window of its own track and, when the block names a section, of that very
  section.\<close>

theorem work_only_under_possession:
  assumes "solve cp arrange q = Inr r" "cp_sound cp" "distinct_ids q" "s \<in> set (os_scheduled r)"
    and "oq_windows q \<noteq> []"
  shows "\<exists>w \<in> set (oq_windows q). pw_track w = sb_track s \<and>
    (sb_section s = None \<or> pw_section w = sb_section s) \<and>
    pw_start w \<le> sb_start s \<and> sb_end s \<le> pw_end w"
  by (rule scheduled_possession [OF assms])

lemma work_only_under_possession_witness:
  "\<exists>w \<in> set (oq_windows demo_request). pw_start w \<le> 95 \<and> 155 \<le> pw_end w"
  using work_only_under_possession [OF demo_solves demo_solver_sound demo_distinct demo_blocks(2)]
  by (auto simp: demo_blocks demo_request_def)

text \<open>A block is scheduled only together with each of its dependencies that is a candidate, and
  starts no earlier than that dependency ends.\<close>

theorem dependencies_first:
  assumes "solve cp arrange q = Inr r" "cp_sound cp" "distinct_ids q" "s \<in> set (os_scheduled r)"
    and "b \<in> set (oq_candidates q)" "bc_id b = sb_id s" "d \<in> set (bc_dependencies b)"
    and "d \<in> set (map bc_id (oq_candidates q))"
  shows "\<exists>t \<in> set (os_scheduled r). sb_id t = d \<and> sb_end t \<le> sb_start s"
proof -
  from assms(4) have "os_scheduled r \<noteq> []" by auto
  from scheduled_block_index [OF assms(1-3) this] obtain a where a: "solved q a"
    "\<And>s. s \<in> set (os_scheduled r) \<Longrightarrow> \<exists>k. k < size_of q \<and> here a k \<and> sb_id s = bc_id (cand q k) \<and>
       sb_start s = a (Start k) \<and> sb_end s = a (End k) \<and> sb_track s = bc_track (cand q k) \<and>
       sb_section s = bc_section (cand q k)"
    "\<And>k. k < size_of q \<Longrightarrow> here a k \<Longrightarrow> scheduled_entry q a (cand q k) \<in> set (os_scheduled r)"
    by metis
  from a(2) [OF assms(4)] obtain k where k: "k < size_of q" "here a k" "sb_id s = bc_id (cand q k)"
    "sb_start s = a (Start k)" by metis
  from assms(5) obtain k' where "k' < size_of q" "b = cand q k'" by (metis in_set_conv_nth)
  with same_id_same_slot [OF assms(3) _ k(1)] k(3) assms(6) have b: "b = cand q k" by metis
  from assms(8) obtain l where l: "l < size_of q" "bc_id (cand q l) = d"
    by (auto simp: in_set_conv_nth)
  from present_dependency [OF a(1) k(1,2) _ l] assms(7) b have e: "here a l" "a (End l) \<le> a (Start k)"
    by simp_all
  from a(3) [OF l(1) e(1)] e(2) k(4) l solved_slot [OF a(1) l(1)] show ?thesis
    by (intro bexI [of _ "scheduled_entry q a (cand q l)"])
      (simp_all add: scheduled_entry_def Let_def)
qed

lemma dependencies_first_witness:
  "\<exists>t \<in> set (os_scheduled demo_result). sb_id t = ''B1'' \<and> sb_end t \<le> 95"
  using dependencies_first [OF demo_solves demo_solver_sound demo_distinct demo_blocks(2),
      of "cand_of ''B2'' 60 30 [''B1'']" "''B1''"]
  by (simp add: demo_blocks demo_request_def cand_of_def)

text \<open>Blocks of one mutual-exclusion group never overlap, whatever their tracks.\<close>

theorem mutex_never_overlaps:
  assumes "solve cp arrange q = Inr r" "cp_sound cp" "distinct_ids q"
    and "s \<in> set (os_scheduled r)" "t \<in> set (os_scheduled r)" "sb_id s \<noteq> sb_id t"
    and "b \<in> set (oq_candidates q)" "bc_id b = sb_id s" "c \<in> set (oq_candidates q)" "bc_id c = sb_id t"
    and "bc_mutex b = Some g" "bc_mutex c = Some g" "g \<noteq> []"
  shows "sb_end s \<le> sb_start t \<or> sb_end t \<le> sb_start s"
proof -
  from assms(4) have "os_scheduled r \<noteq> []" by auto
  from scheduled_block_index [OF assms(1-3) this] assms(4,5) obtain a k l where
    s: "solved q a" "k < size_of q" "here a k" "sb_id s = bc_id (cand q k)" "sb_start s = a (Start k)"
      "sb_end s = a (End k)"
    and t: "l < size_of q" "here a l" "sb_id t = bc_id (cand q l)" "sb_start t = a (Start l)"
      "sb_end t = a (End l)"
    by metis
  from assms(7,9) obtain k' l' where "k' < size_of q" "b = cand q k'" "l' < size_of q" "c = cand q l'"
    by (metis in_set_conv_nth)
  with same_id_same_slot [OF assms(3)] s(2,4) t(1,3) assms(8,10)
  have "b = cand q k" "c = cand q l" by metis+
  then have "mutex_key (cand q k) = Some g" "mutex_key (cand q l) = Some g"
    using assms(11-13) by (simp_all add: mutex_key_def)
  with present_mutex [OF s(1-3) t(1,2)] s(4-6) t(3-5) assms(6) show ?thesis by auto
qed

lemma mutex_never_overlaps_witness: "(80::int) \<le> 95 \<or> (155::int) \<le> 20"
  using mutex_never_overlaps [OF demo_solves demo_solver_sound demo_distinct demo_blocks(1,2),
      of "cand_of ''B1'' 60 0 []" "cand_of ''B2'' 60 30 [''B1'']" "''CREW''"]
  by (simp add: demo_blocks demo_request_def cand_of_def)

end
