(* ===== verification/Recovery_Properties.thy ===== *)
theory Recovery_Properties
  imports Scheduling_Properties "HOL-Library.Multiset"
begin

text \<open>
  What a schedule promises beyond its hard constraints: committed work stays where it was, every
  candidate is accounted for with a true reason, an unpinned request is never infeasible, and
  a recovery keeps clear of what the disruption took away.
\<close>

section \<open>Committed work\<close>

text \<open>C33: When the solver finds a plan, a committed block that possession control does not leave
  uncovered is in it, marked committed, at exactly the placement its metadata records.\<close>

theorem committed_placement_kept:
  assumes "solve cp arrange q = Inr r" "cp_sound cp" "distinct_ids q"
    and "os_status r \<in> {''OPTIMAL'', ''FEASIBLE''}"
    and "b \<in> set (oq_candidates q)" "committed_for q (bc_id b) = Some c"
    and "oq_windows q = [] \<or> covered q b"
  shows "\<exists>x y s. committed_placement c = Inr (x, y) \<and> s \<in> set (os_scheduled r) \<and>
    sb_id s = bc_id b \<and> sb_start s = x \<and> sb_end s = y \<and> sb_committed s \<and>
    sb_status s = COMMITTED_BLOCK"
proof (rule solve_scheduled [OF assms(1-3)])
  fix a assume s: "solved q a" and r: "os_scheduled r =
    map (scheduled_entry q a) (filter (is_present q a) (oq_candidates q))"
  from assms(5) obtain k where k: "k < size_of q" "b = cand q k" by (metis in_set_conv_nth)
  from present_pinned [OF s k(1)] assms(6,7) k(2) obtain x y where
    xy: "committed_placement c = Inr (x, y)" "here a k" "a (Start k) = x" "a (End k) = y" by auto
  have "scheduled_entry q a b \<in> set (os_scheduled r)"
    using r k xy(2) solved_slot [OF s k(1)] by (auto simp: is_present_def here_def)
  with xy k assms(6) solved_slot [OF s k(1)] show ?thesis
    by (intro exI [of _ x] exI [of _ y] exI [of _ "scheduled_entry q a b"])
      (simp add: scheduled_entry_def Let_def)
qed (use assms(4) in simp_all)

lemma demo_status: "os_status demo_result = ''OPTIMAL''"
  by code_simp

lemma committed_placement_kept_witness:
  "\<exists>s \<in> set (os_scheduled demo_result). sb_id s = ''B1'' \<and> sb_start s = 20 \<and> sb_end s = 80 \<and>
     sb_committed s"
  using committed_placement_kept [OF demo_solves demo_solver_sound demo_distinct,
      of "cand_of ''B1'' 60 0 []" "hd (oq_committed demo_request)"]
  by (auto simp: demo_status demo_request_def cand_of_def committed_for_def win_of_def covered_def
      window_covers_def committed_placement_def dict_of_def COMMITTED_START_KEY_def
      COMMITTED_END_KEY_def)

section \<open>Accounting\<close>

text \<open>The result accounts for the request: scheduled and unscheduled blocks together are
  exactly the candidates, each once, and every unscheduled block has exactly one rejection
  reason, listed in the same order.\<close>

theorem every_candidate_accounted:
  assumes "solve cp arrange q = Inr r" "cp_sound cp" "distinct_ids q"
  shows "mset (map sb_id (os_scheduled r)) + mset (map bc_id (os_unscheduled r)) =
      mset (map bc_id (oq_candidates q)) \<and>
    map fst (os_rejections r) = map bc_id (os_unscheduled r)"
proof (rule solve_scheduled [OF assms])
  fix a assume r: "os_scheduled r = map (scheduled_entry q a) (filter (is_present q a) (oq_candidates q))"
    "os_unscheduled r = filter (\<lambda>b. \<not> is_present q a b) (oq_candidates q)"
    "os_rejections r = map (\<lambda>b. (bc_id b, rejection_reason q
         (arrange (map bc_id (filter (is_present q a) (oq_candidates q)))) b)) (os_unscheduled r)"
  have "sb_id \<circ> scheduled_entry q a = bc_id"
    by (simp add: fun_eq_iff scheduled_entry_def Let_def)
  with r have ids: "map sb_id (os_scheduled r) = map bc_id (filter (is_present q a) (oq_candidates q))"
    by simp
  have "mset (map bc_id (filter P bs)) + mset (map bc_id (filter (\<lambda>b. \<not> P b) bs)) =
      mset (map bc_id bs)" for P and bs :: "block_candidate list"
    by (induction bs) auto
  then show ?thesis
    unfolding ids using r(2,3) by (simp add: comp_def)
qed (simp_all add: comp_def)

lemma every_candidate_accounted_witness:
  "mset [''B1'', ''B2''] + mset (map bc_id (os_unscheduled demo_result)) = mset [''B1'', ''B2'', ''B3'']"
proof -
  have "map sb_id (os_scheduled demo_result) = [''B1'', ''B2'']"
    using arg_cong [OF demo_scheduled, of "map fst"] by (simp add: comp_def)
  then show ?thesis
    using every_candidate_accounted [OF demo_solves demo_solver_sound demo_distinct]
    by (simp add: demo_request_def cand_of_def)
qed

text \<open>What a rejection reason claims of the block it is given for.\<close>

definition claims :: "optimization_request \<Rightarrow> string set \<Rightarrow> block_candidate \<Rightarrow> reason \<Rightarrow> bool" where
  "claims q scheduled b why =
    (case why of
       No_feasible_solution \<Rightarrow> False
     | Window_unfit \<Rightarrow>
         min (horizon_of q) (bc_latest_end b) - bc_duration b < max 0 (bc_earliest b)
     | Possession_uncovered t \<Rightarrow>
         t = bc_track b \<and> oq_windows q \<noteq> [] \<and> (\<forall>w \<in> set (oq_windows q). \<not> window_covers w b)
     | Dependency_unscheduled d \<Rightarrow>
         d \<in> set (bc_dependencies b) \<and> d \<in> bc_id ` set (oq_candidates q) \<and> d \<notin> scheduled
     | Mutex_conflict i \<Rightarrow>
         i \<in> scheduled \<and> (\<exists>c \<in> set (oq_candidates q). bc_id c = i \<and> bc_mutex b \<noteq> None \<and>
           bc_mutex c = bc_mutex b)
     | Lower_objective i \<Rightarrow>
         i \<in> scheduled \<and> (\<exists>c \<in> set (oq_candidates q). bc_id c = i \<and>
           resource_key c = resource_key b \<and> objective_score b < objective_score c)
     | Trade_off \<Rightarrow> True)"

lemma rejection_reason_true:
  assumes "distinct_ids q" and k: "k < size_of q"
    and ids: "set ids \<subseteq> bc_id ` set (oq_candidates q)"
  shows "claims q (set ids) (cand q k) (rejection_reason q ids (cand q k))"
proof -
  have d: "distinct (map bc_id (oq_candidates q))" using assms(1) by (simp add: distinct_ids_def)
  have at: "\<exists>c \<in> set (oq_candidates q). bc_id c = i \<and> block_at (oq_candidates q) i = c"
    if i: "i \<in> set ids" for i
  proof -
    from i ids have "i \<in> bc_id ` set (oq_candidates q)" by blast
    then obtain l where l: "l < size_of q" "i = bc_id (cand q l)"
      by (auto simp: in_set_conv_nth)
    with slot_nth(3) [OF d l(1)] show ?thesis by (intro bexI [of _ "cand q l"]) simp_all
  qed
  show ?thesis
    using unfit_id_nth [OF d k] at
    by (auto simp: claims_def rejection_reason_def Let_def window_unfit_def clamp_window_def
        covered_def list_ex_iff slot_None_iff mutex_key_def
        dest!: find_Some_in split: option.split)
qed

text \<open>A rejection reason tells the truth: the window really is too short, no possession window
  covers the block, the named dependency is a candidate left out, the named block is scheduled
  and shares the mutual-exclusion group, or shares the resource and scores higher.\<close>

theorem rejection_reasons_true:
  assumes "solve cp arrange q = Inr r" "cp_sound cp" "distinct_ids q"
    and "os_status r \<in> {''OPTIMAL'', ''FEASIBLE''}"
    and "\<And>ids. set (arrange ids) = set ids" "(i, why) \<in> set (os_rejections r)"
  shows "\<exists>b \<in> set (os_unscheduled r). bc_id b = i \<and>
    claims q (sb_id ` set (os_scheduled r)) b why"
proof (rule solve_scheduled [OF assms(1-3)])
  fix a assume r: "os_scheduled r = map (scheduled_entry q a) (filter (is_present q a) (oq_candidates q))"
    "os_unscheduled r = filter (\<lambda>b. \<not> is_present q a b) (oq_candidates q)"
    "os_rejections r = map (\<lambda>b. (bc_id b, rejection_reason q
         (arrange (map bc_id (filter (is_present q a) (oq_candidates q)))) b)) (os_unscheduled r)"
  let ?ids = "arrange (map bc_id (filter (is_present q a) (oq_candidates q)))"
  have ids: "set ?ids = sb_id ` set (os_scheduled r)"
    unfolding assms(5) r(1) by (auto simp: scheduled_entry_def Let_def image_image)
  from assms(6) r(3) obtain b where b: "b \<in> set (os_unscheduled r)" "i = bc_id b"
    "why = rejection_reason q ?ids b" by auto
  from b(1) r(2) obtain k where k: "k < size_of q" "b = cand q k" by (auto simp: in_set_conv_nth)
  have "set ?ids \<subseteq> bc_id ` set (oq_candidates q)" unfolding assms(5) by auto
  from rejection_reason_true [OF assms(3) k(1) this] b k(2) show ?thesis by (auto simp: ids)
qed (use assms(4) in simp_all)

lemma demo_rejected: "os_rejections demo_result = [(''B3'', Window_unfit)]"
  by code_simp

lemma rejection_reasons_true_witness:
  "\<exists>b \<in> set (os_unscheduled demo_result). bc_id b = ''B3'' \<and>
     claims demo_request (sb_id ` set (os_scheduled demo_result)) b Window_unfit"
  using rejection_reasons_true [OF demo_solves demo_solver_sound demo_distinct]
  by (simp add: demo_status demo_rejected)

section \<open>Feasibility\<close>

text \<open>A request without committed blocks to honour, whose durations are not negative, is always
  answered and never as infeasible: leaving everything out is a plan.\<close>

theorem unpinned_request_feasible:
  assumes "cp_complete cp" "distinct_ids q" "unpinned q"
    and "\<forall>b \<in> set (oq_candidates q). 0 \<le> bc_duration b"
  shows "\<exists>r. solve cp arrange q = Inr r \<and> os_status r \<noteq> ''INFEASIBLE''"
proof -
  from unpinned_satisfiable [OF assms(2-4)] obtain m where
    m: "build_model q = Inr m" "satisfies (idle q) m" by auto
  with assms(1) have "cp_status (cp m (build_objective q)) \<notin> {INFEASIBLE, MODEL_INVALID}"
    unfolding cp_complete_def by blast
  with m(1) show ?thesis
    by (cases "cp_status (cp m (build_objective q))") (auto simp: solve_def Let_def)
qed

definition fresh_request :: optimization_request where
  "fresh_request = demo_request\<lparr>oq_committed := []\<rparr>"

lemma unpinned_request_feasible_witness:
  "\<exists>r. solve (offering (\<lambda>_. 0)) id fresh_request = Inr r \<and> os_status r \<noteq> ''INFEASIBLE''"
  by (rule unpinned_request_feasible)
    (simp_all add: offering_complete unpinned_def fresh_request_def demo_request_def cand_of_def
      distinct_ids_def committed_for_def)

text \<open>A pin that another constraint of the same block contradicts.\<close>

definition contradicted :: "optimization_request \<Rightarrow> block_candidate \<Rightarrow> bool" where
  "contradicted q b \<longleftrightarrow> committed_for q (bc_id b) \<noteq> None \<and> (oq_windows q = [] \<or> covered q b) \<and>
     (window_unfit q b \<or> (oq_windows q \<noteq> [] \<and> eligible_windows q b = []))"

lemma contradicted_unsatisfiable:
  assumes "k < size_of q" "contradicted q (cand q k)"
  shows "\<not> solved q a"
proof
  assume s: "solved q a"
  with present_pinned [OF s assms(1)] assms(2) have h: "here a k" by (auto simp: contradicted_def)
  with present_window [OF s assms(1)] have fit: "\<not> window_unfit q (cand q k)" by simp
  with assms(2) have e: "oq_windows q \<noteq> []" "eligible_windows q (cand q k) = []" "covered q (cand q k)"
    by (auto simp: contradicted_def)
  from e(3) have ne: "matching_windows q (cand q k) \<noteq> []"
    by (auto simp: covered_def matching_windows_def list_ex_iff filter_empty_conv)
  have "satisfies a (possession_constraints q k (cand q k))" by (rule solved_parts(2) [OF s assms(1)])
  with h show False
    by (simp add: possession_constraints_eligible [OF s assms(1) fit ne] e(2) here_def)
qed

text \<open>C35: One committed block that no longer fits its own time window, or whose covering possession
  windows are all empty within the horizon, empties the whole plan: nothing is scheduled, and
  every candidate on every track is reported with the same reason.\<close>

theorem contradicted_pin_empties_plan:
  assumes "solve cp arrange q = Inr r" "cp_sound cp" "distinct_ids q"
    and "b \<in> set (oq_candidates q)" "contradicted q b"
  shows "os_scheduled r = [] \<and> os_unscheduled r = oq_candidates q \<and>
    (\<forall>c \<in> set (oq_candidates q). (bc_id c, No_feasible_solution) \<in> set (os_rejections r))"
proof (rule solve_scheduled [OF assms(1-3)])
  fix a assume "solved q a"
  with contradicted_unsatisfiable assms(4,5) show ?thesis by (metis in_set_conv_nth)
qed auto

text \<open>\<open>B1\<close> is committed and covered, by a window that ends before the horizon starts.\<close>

definition past_request :: optimization_request where
  "past_request = demo_request\<lparr>oq_windows := [win_of ''W0'' (-60) 0, (win_of ''W9'' 0 600)\<lparr>pw_section := None\<rparr>]\<rparr>"

lemma contradicted_pin_empties_plan_witness:
  "os_scheduled (projr (solve demo_solver id past_request)) = []"
proof -
  have "solve demo_solver id past_request = Inr (projr (solve demo_solver id past_request))"
    by code_simp
  moreover have "distinct_ids past_request" "cand_of ''B1'' 60 0 [] \<in> set (oq_candidates past_request)"
    by (simp_all add: distinct_ids_def past_request_def demo_request_def cand_of_def)
  moreover have "contradicted past_request (cand_of ''B1'' 60 0 [])" by code_simp
  ultimately show ?thesis
    using contradicted_pin_empties_plan [OF _ demo_solver_sound] by blast
qed

section \<open>Recovery\<close>

lemma simulate_disruption_Inr:
  assumes "simulate_disruption cp arrange q e = Inr rc"
  shows "apply_disruption q e = Inr (rc_request rc)"
    "solve cp arrange (rc_request rc) = Inr (rc_result rc)" "rc_event rc = e"
  using assms by (auto simp: simulate_disruption_def bind_res_Inr_iff)

text \<open>After a possession curtailment no block of the recovered schedule on an affected track
  touches the curtailed interval, and possession control stays in force.\<close>

theorem curtailment_respected:
  assumes "make_request q = Inr q" "distinct_ids q" "oq_windows q \<noteq> []" "cp_sound cp"
    and "de_type e = ''POSSESSION_CURTAILMENT''" "simulate_disruption cp arrange q e = Inr rc"
    and "s \<in> set (os_scheduled (rc_result rc))" "de_track e = None \<or> de_track e = Some (sb_track s)"
  shows "(sb_end s \<le> de_start e \<or> de_end e \<le> sb_start s) \<and> oq_windows (rc_request rc) \<noteq> []"
proof -
  note sim = simulate_disruption_Inr [OF assms(6)]
  note u = curtailment_Inr [OF assms(1,5) sim(1)]
  have d: "distinct_ids (rc_request rc)"
    by (rule apply_disruption_distinct [OF assms(1,2) sim(1)])
  have ne: "oq_windows (rc_request rc) \<noteq> []" by (rule u(2) [OF assms(3)])
  from scheduled_possession [OF sim(2) assms(4) d assms(7) ne] obtain w where
    w: "w \<in> set (oq_windows (rc_request rc))" "pw_track w = sb_track s" "pw_start w \<le> sb_start s"
      "sb_end s \<le> pw_end w" by blast
  from w(1) have "\<not> curtails e w" by (simp add: u(1))
  with w(2-4) assms(8) ne show ?thesis by (auto simp: curtails_def)
qed

definition curtailed :: disruption_event where
  "curtailed = \<lparr>de_id = ''D1'', de_type = ''POSSESSION_CURTAILMENT'', de_corridor = ''A'',
     de_track = Some ''UP-1'', de_start = 300, de_end = 420, de_asset = None, de_candidate = None,
     de_description = []\<rparr>"

definition recovered :: recovery where
  "recovered = projr (simulate_disruption demo_solver (\<lambda>ids. ids) demo_request curtailed)"

lemma recovered_runs: "simulate_disruption demo_solver (\<lambda>ids. ids) demo_request curtailed = Inr recovered"
  unfolding recovered_def by code_simp

lemma demo_valid: "make_request demo_request = Inr demo_request"
  by code_simp

lemma recovered_scheduled: "demo_2 \<in> set (os_scheduled (rc_result recovered))"
  by code_simp

lemma curtailment_respected_witness:
  "((155::int) \<le> 300 \<or> (420::int) \<le> 95) \<and> oq_windows (rc_request recovered) \<noteq> []"
proof -
  have "sb_track demo_2 = ''UP-1''" by code_simp
  then show ?thesis
    using curtailment_respected [OF demo_valid demo_distinct _ demo_solver_sound _ recovered_runs
        recovered_scheduled]
    by (simp add: demo_blocks curtailed_def demo_request_def)
qed

text \<open>After a track has become unavailable the recovered schedule holds no work on that track.\<close>

theorem unavailable_track_empty:
  assumes "make_request q = Inr q" "distinct_ids q" "cp_sound cp"
    and "de_type e = ''TRACK_UNAVAILABLE''" "de_track e = Some t" "t \<noteq> []"
    and "simulate_disruption cp arrange q e = Inr rc"
  shows "\<forall>s \<in> set (os_scheduled (rc_result rc)). sb_track s \<noteq> t"
proof
  fix s assume s: "s \<in> set (os_scheduled (rc_result rc))"
  note sim = simulate_disruption_Inr [OF assms(7)]
  have d: "distinct_ids (rc_request rc)"
    by (rule apply_disruption_distinct [OF assms(1,2) sim(1)])
  from s have "os_scheduled (rc_result rc) \<noteq> []" by auto
  from scheduled_block_index [OF sim(2) assms(3) d this] s obtain k where
    "k < size_of (rc_request rc)" "sb_track s = bc_track (cand (rc_request rc) k)" by metis
  then have "\<exists>b \<in> set (oq_candidates (rc_request rc)). bc_track b = sb_track s" by force
  then show "sb_track s \<noteq> t"
    by (auto simp: track_unavailable_Inr [OF assms(1,4-6) sim(1)])
qed

definition closed_track :: disruption_event where
  "closed_track = curtailed\<lparr>de_type := ''TRACK_UNAVAILABLE'', de_track := Some ''DN-1''\<rparr>"

lemma unavailable_track_empty_witness:
  "''DN-1'' \<notin> sb_track ` set (os_scheduled (rc_result
     (projr (simulate_disruption demo_solver (\<lambda>ids. ids) demo_request closed_track))))"
proof -
  have "simulate_disruption demo_solver (\<lambda>ids. ids) demo_request closed_track =
      Inr (projr (simulate_disruption demo_solver (\<lambda>ids. ids) demo_request closed_track))"
    by code_simp
  from unavailable_track_empty [OF demo_valid demo_distinct demo_solver_sound _ _ _ this, of "''DN-1''"]
  show ?thesis by (auto simp: closed_track_def curtailed_def)
qed

section \<open>Round trips\<close>

text \<open>A request survives its dictionary form: the copy every disruption works on is equal to the
  request, whenever the request could be constructed at all.\<close>

theorem request_copy_exact:
  assumes "make_request q = Inr q"
  shows "request_from_dict (request_to_dict q) = Inr q \<and> copy_request q = Inr q"
  using assms by (simp add: request_roundtrip copy_request_valid)

lemma request_copy_exact_witness: "copy_request demo_request = Inr demo_request"
  using request_copy_exact [OF demo_valid] by simp

end
