(* ===== verification/Paging.thy ===== *)
theory Paging
  imports Repository
begin

text \<open>
  Keyset paging: \<^verbatim>\<open>JobRepository.list_page\<close> against the full listing. \<open>listing\<close> is the whole
  answer, newest first with ties broken by the job id; a page after a cursor is the stretch of
  the listing that follows the cursor's row.
\<close>

definition selected :: "string option \<Rightarrow> string list option \<Rightarrow> job \<Rightarrow> bool" where
  "selected status statuses j \<longleftrightarrow>
     (case status of None \<Rightarrow> True | Some s \<Rightarrow> job_status j = s) \<and>
     (case statuses of None \<Rightarrow> True | Some ss \<Rightarrow> job_status j \<in> set ss)"

definition listing :: "db \<Rightarrow> string option \<Rightarrow> string list option \<Rightarrow> job list" where
  "listing d status statuses = rev (sort_key page_key (filter (selected status statuses) (db_rows d)))"

lemma page_key_less:
  "page_key j < page_key k \<longleftrightarrow> job_created_at j < job_created_at k \<or>
     (job_created_at j = job_created_at k \<and> job_id j < job_id k)"
  by (auto simp: page_key_def less_prod_def)

lemma listing_descending:
  assumes "distinct (map job_id (db_rows d))"
  shows "sorted_wrt (\<lambda>x y. page_key y < page_key x) (listing d status statuses)"
proof -
  let ?xs = "sort_key page_key (filter (selected status statuses) (db_rows d))"
  have "distinct (map job_id (filter (selected status statuses) (db_rows d)))"
    using assms by (rule distinct_map_filter)
  then have "distinct (map page_key (filter (selected status statuses) (db_rows d)))"
    by (auto simp: distinct_map inj_on_def page_key_def)
  then have "distinct (map page_key ?xs)" by (simp add: distinct_map)
  moreover have "sorted (map page_key ?xs)" by simp
  ultimately have "sorted_wrt (<) (map page_key ?xs)" by (simp add: strict_sorted_iff)
  then show ?thesis by (simp add: listing_def sorted_wrt_rev sorted_wrt_map)
qed

lemma filter_below:
  assumes "sorted_wrt (\<lambda>x y. f y < f x) xs" "i < length xs"
  shows "filter (\<lambda>x. f x < (f (xs ! i) :: 'a :: linorder)) xs = drop (Suc i) xs"
proof -
  have "filter (\<lambda>x. f x < f (xs ! i)) (take (Suc i) xs) = []"
    using assms by (auto simp: filter_empty_conv in_set_conv_nth sorted_wrt_iff_nth_less less_Suc_eq)
      (metis order_less_asym order_less_trans)
  moreover have "filter (\<lambda>x. f x < f (xs ! i)) (drop (Suc i) xs) = drop (Suc i) xs"
    using assms by (intro filter_True) (auto simp: in_set_conv_nth sorted_wrt_iff_nth_less)
  ultimately show ?thesis
    by (metis append_Nil append_take_drop_id filter_append)
qed

lemma list_page_listing:
  assumes "\<not> (status \<noteq> None \<and> statuses \<noteq> None)" "statuses \<noteq> Some []"
  shows "list_page d n status statuses None = Inr (take n (listing d status statuses))"
    "list_page d n status statuses (Some (page_key k)) =
       Inr (take n (filter (\<lambda>j. page_key j < page_key k) (listing d status statuses)))"
proof -
  show "list_page d n status statuses None = Inr (take n (listing d status statuses))"
    using assms by (auto simp: list_page_def listing_def selected_def [abs_def] Let_def)
  have "rev (sort_key page_key (filter (\<lambda>j. selected status statuses j \<and> page_key j < page_key k)
      (db_rows d))) = filter (\<lambda>j. page_key j < page_key k) (listing d status statuses)"
    by (simp only: listing_def rev_filter [symmetric] filter_sort filter_filter)
  moreover have "list_page d n status statuses (Some (page_key k)) = Inr (take n (rev (sort_key page_key
      (filter (\<lambda>j. selected status statuses j \<and> page_key j < page_key k) (db_rows d)))))"
    using assms unfolding list_page_def Let_def selected_def page_key_less
    by (simp add: page_key_def conj_assoc split: option.splits)
  ultimately show "list_page d n status statuses (Some (page_key k)) =
      Inr (take n (filter (\<lambda>j. page_key j < page_key k) (listing d status statuses)))" by simp
qed

text \<open>Paging loses and repeats nothing: the first page is the start of the full listing, and the page
  after any row of the listing is exactly the stretch that follows the row.\<close>

theorem paging_follows_listing:
  assumes "distinct (map job_id (db_rows d))" "\<not> (status \<noteq> None \<and> statuses \<noteq> None)" "statuses \<noteq> Some []"
    and "i < length (listing d status statuses)"
  shows "list_page d n status statuses None = Inr (take n (listing d status statuses)) \<and>
    list_page d n status statuses (Some (page_key (listing d status statuses ! i))) =
      Inr (take n (drop (Suc i) (listing d status statuses)))"
  using list_page_listing [OF assms(2,3)] filter_below [OF listing_descending [OF assms(1)] assms(4)]
  by simp

definition paged_job :: "string \<Rightarrow> string \<Rightarrow> job" where
  "paged_job i created = \<lparr>job_id = i, job_track_id = ''UP-1'', job_work_type = ''BALLAST_TAMPING'',
     job_distance_start = 0, job_distance_end = 1, job_workers_min = 2, job_workers_max = 4,
     job_description = '''', job_status = REPORTED, job_priority_score = 0, job_risk_score = 0,
     job_start = None, job_end = None, job_created_at = created, job_updated_at = None,
     job_last_solver_status = None, job_last_refusal_reason = None, job_block = fmempty\<rparr>"

definition paged_db :: db where
  "paged_db = \<lparr>db_rows = [paged_job ''J1'' ''2026-09-09'', paged_job ''J3'' ''2026-09-10'',
     paged_job ''J2'' ''2026-09-10''], db_events = []\<rparr>"

lemma paged_listing: "map job_id (listing paged_db None None) = [''J3'', ''J2'', ''J1'']"
  by code_simp

lemma paging_follows_listing_witness:
  "list_page paged_db 2 None None (Some (page_key (listing paged_db None None ! 0))) =
     Inr (take 2 (drop 1 (listing paged_db None None)))"
proof -
  have "length (listing paged_db None None) = 3" using arg_cong [OF paged_listing, of length] by simp
  moreover have "distinct (map job_id (db_rows paged_db))" by (simp add: paged_db_def paged_job_def)
  ultimately show ?thesis
    using paging_follows_listing [of paged_db None None 0 2] by simp
qed

end
