(* ===== verification/Run_Audit.thy ===== *)
theory Run_Audit
  imports Optimizer Disruptions "HOL-Library.Char_ord" "HOL-Library.List_Lexorder"
begin

text \<open>
  The audit trail of optimization runs: \<^verbatim>\<open>backend/app/audit/models.py\<close>, \<^verbatim>\<open>repository.py\<close> and
  \<^verbatim>\<open>service.py\<close>, with the dictionary form of the results it serializes
  (\<^verbatim>\<open>contracts/schemas.py\<close>). The table is the list of its rows in insertion order; the stored JSON
  text is the dictionary it denotes. An append is refused when the run id is taken, and nothing
  updates or deletes.
\<close>

section \<open>Dictionary forms\<close>

definition round4 :: "rat \<Rightarrow> rat" where
  "round4 r = of_int (py_round (10000 * r)) / 10000"

definition result_to_dict :: "optimization_result \<Rightarrow> dict" where
  "result_to_dict r = dict_of
     [(''corridor_id'', JStr (os_corridor r)), (''status'', JStr (os_status r)),
      (''scheduled_blocks'', JArr (map (\<lambda>b. JObj (scheduled_to_dict b)) (os_scheduled r))),
      (''unscheduled_blocks'', JArr (map (\<lambda>b. JObj (candidate_to_dict b)) (os_unscheduled r))),
      (''total_priority_scheduled'', JFloat (round3 (os_total_priority r))),
      (''total_risk_mitigated'', JFloat (round3 (os_total_risk r))),
      (''solve_time_seconds'', JFloat (round4 (os_solve_time r))),
      (''infeasibility_reasons'', JArr (map JStr (os_infeasibility r))),
      (''rejection_reasons'',
       JObj (dict_of (map (\<lambda>(i, why). (i, JStr (reason_text why))) (os_rejections r))))]"

record recovery_request =
  rq_request :: optimization_request
  rq_disruption :: disruption_event

definition recovery_request_to_dict :: "recovery_request \<Rightarrow> dict" where
  "recovery_request_to_dict r = dict_of
     [(''request'', JObj (request_to_dict (rq_request r))),
      (''disruption'', JObj (disruption_to_dict (rq_disruption r)))]"

definition recovery_request_from_dict :: "dict \<Rightarrow> recovery_request res" where
  "recovery_request_from_dict d =
     bind_res (bind_res (bind_res (need d ''request'') as_dict) request_from_dict) (\<lambda>q.
     bind_res (bind_res (bind_res (need d ''disruption'') as_dict) disruption_from_dict) (\<lambda>e.
     Inr \<lparr>rq_request = q, rq_disruption = e\<rparr>))"

record recovery_response =
  rp_disruption :: disruption_event
  rp_updated :: optimization_request
  rp_result :: optimization_result

definition recovery_response_to_dict :: "recovery_response \<Rightarrow> dict" where
  "recovery_response_to_dict r = dict_of
     [(''disruption'', JObj (disruption_to_dict (rp_disruption r))),
      (''updated_request'', JObj (request_to_dict (rp_updated r))),
      (''recovery_result'', JObj (result_to_dict (rp_result r)))]"

section \<open>Records\<close>

definition SYSTEM_ACTOR :: string where "SYSTEM_ACTOR = ''system:unauthenticated-demo''"
definition ERROR_STATUS :: string where "ERROR_STATUS = ''ERROR''"

record run_record =
  run_id :: string
  run_actor :: string
  run_trigger :: string
  run_corridor :: "string option"
  run_requested_at :: string
  run_completed_at :: string
  run_status :: string
  run_solve_time :: "rat option"
  run_request :: dict
  run_result :: "dict option"
  run_provenance :: "dict option"
  run_error :: "string option"

type_synonym audit_table = "run_record list"

definition record_row :: "audit_table \<Rightarrow> run_record \<Rightarrow> audit_table res" where
  "record_row runs r =
    (if run_id r \<in> run_id ` set runs then Inl IntegrityError else Inr (runs @ [r]))"

definition get_run :: "audit_table \<Rightarrow> string \<Rightarrow> run_record option" where
  "get_run runs i = find (\<lambda>r. run_id r = i) runs"

definition list_runs :: "audit_table \<Rightarrow> run_record list" where
  "list_runs runs = sort_key run_requested_at runs"

definition list_runs_by_corridor :: "audit_table \<Rightarrow> string \<Rightarrow> run_record list" where
  "list_runs_by_corridor runs c =
     sort_key run_requested_at (filter (\<lambda>r. run_corridor r = Some c) runs)"

section \<open>Recording a run\<close>

text \<open>
  \<^verbatim>\<open>record_run\<close>: the solver is called once; its outcome, result or exception, becomes one record,
  and an exception is raised again. \<open>started\<close> and \<open>ended\<close> are the two readings of the clock, \<open>fresh_id\<close> what
  \<^verbatim>\<open>new_run_id\<close> mints and \<open>say\<close> the text of an exception.
\<close>

record run_context =
  rc_started :: string
  rc_ended :: string
  rc_fresh_id :: string
  rc_say :: "py_error \<Rightarrow> string"

definition record_run ::
  "run_context \<Rightarrow> audit_table \<Rightarrow> optimization_request \<Rightarrow>
   (optimization_request \<Rightarrow> optimization_result res) \<Rightarrow> string \<Rightarrow> string \<Rightarrow> dict option \<Rightarrow> string option \<Rightarrow>
   optimization_result res \<times> audit_table" where
  "record_run c runs request solve_fn trigger who provenance minted =
    (let rid = (case minted of None \<Rightarrow> rc_fresh_id c | Some i \<Rightarrow> if i = [] then rc_fresh_id c else i);
         base = \<lparr>run_id = rid, run_actor = who, run_trigger = trigger,
                 run_corridor = Some (oq_corridor request), run_requested_at = rc_started c,
                 run_completed_at = rc_ended c, run_status = ERROR_STATUS, run_solve_time = None,
                 run_request = request_to_dict request, run_result = None,
                 run_provenance = provenance, run_error = None\<rparr> in
     case solve_fn request of
       Inl e \<Rightarrow>
        (case record_row runs (base\<lparr>run_error := Some (rc_say c e)\<rparr>) of
           Inl e' \<Rightarrow> (Inl e', runs)
         | Inr runs' \<Rightarrow> (Inl e, runs'))
     | Inr result \<Rightarrow>
        (case record_row runs (base\<lparr>run_status := os_status result,
             run_solve_time := Some (os_solve_time result),
             run_result := Some (result_to_dict result)\<rparr>) of
           Inl e' \<Rightarrow> (Inl e', runs)
         | Inr runs' \<Rightarrow> (Inr result, runs')))"

section \<open>What the trail holds\<close>

lemma find_append:
  "find P (xs @ ys) = (case find P xs of None \<Rightarrow> find P ys | Some x \<Rightarrow> Some x)"
  by (induction xs) auto

lemma get_run_snoc:
  assumes "i \<notin> run_id ` set runs" "run_id r = i"
  shows "get_run (runs @ [r]) i = Some r"
proof -
  from assms(1) have "find (\<lambda>x. run_id x = i) runs = None" by (force simp: find_None_iff)
  with assms(2) show ?thesis by (simp add: get_run_def find_append)
qed

lemma get_run_keeps: "get_run runs i = Some r \<Longrightarrow> get_run (runs @ rs) i = Some r"
  by (simp add: get_run_def find_append)

lemma record_row_Inr:
  "record_row runs r = Inr runs' \<longleftrightarrow> run_id r \<notin> run_id ` set runs \<and> runs' = runs @ [r]"
  by (auto simp: record_row_def)

lemma recovery_request_roundtrip:
  assumes "make_request (rq_request r) = Inr (rq_request r)"
  shows "recovery_request_from_dict (recovery_request_to_dict r) = Inr r"
  using request_roundtrip [OF assms] disruption_roundtrip
  by (simp add: recovery_request_from_dict_def recovery_request_to_dict_def need_def dhas_def
      dget_def dict_of_def)

text \<open>Every optimization leaves exactly one audit record: with a run id not used before, the caller gets
  the solver's own answer, result or exception, and the trail grows by one record that names the
  run, its corridor and its request and carries that answer - the status and dictionary of the
  result, or ERROR with no result. A used id changes nothing and is refused.\<close>

theorem run_recorded_once:
  assumes "rid = (case minted of None \<Rightarrow> rc_fresh_id c | Some i \<Rightarrow> if i = [] then rc_fresh_id c else i)"
  shows "if rid \<in> run_id ` set runs
    then record_run c runs q solve_fn trigger who provenance minted = (Inl IntegrityError, runs)
    else \<exists>r. record_run c runs q solve_fn trigger who provenance minted = (solve_fn q, runs @ [r]) \<and>
      get_run (runs @ [r]) rid = Some r \<and> run_corridor r = Some (oq_corridor q) \<and>
      run_request r = request_to_dict q \<and> run_provenance r = provenance \<and>
      (case solve_fn q of
         Inl e \<Rightarrow> run_status r = ERROR_STATUS \<and> run_result r = None \<and> run_error r = Some (rc_say c e)
       | Inr x \<Rightarrow> run_status r = os_status x \<and> run_result r = Some (result_to_dict x) \<and> run_error r = None)"
  unfolding record_run_def Let_def assms [symmetric]
  by (cases "solve_fn q") (simp_all add: record_row_def get_run_snoc)

definition ex_request :: optimization_request where
  "ex_request = \<lparr>oq_corridor = ''A'', oq_horizon_minutes = 1440, oq_tracks = [], oq_candidates = [],
     oq_windows = [], oq_committed = [], oq_headway = 15, oq_timetable = [],
     oq_horizon_start = DEFAULT_HORIZON_START\<rparr>"

definition ex_context :: run_context where
  "ex_context = \<lparr>rc_started = ''s'', rc_ended = ''e'', rc_fresh_id = ''RUN-2'', rc_say = (\<lambda>_. ''m'')\<rparr>"

lemma run_recorded_once_witness:
  "\<exists>r. record_run ex_context [] ex_request (\<lambda>_. Inl ValueError) ''jobs_optimize'' SYSTEM_ACTOR None None =
       (Inl ValueError, [r]) \<and>
     get_run [r] ''RUN-2'' = Some r \<and> run_corridor r = Some ''A'' \<and> run_status r = ERROR_STATUS"
  using run_recorded_once [where rid = "''RUN-2''" and minted = None and c = ex_context and runs = "[]"
      and q = ex_request and solve_fn = "\<lambda>_. Inl ValueError" and trigger = "''jobs_optimize''"
      and who = SYSTEM_ACTOR and provenance = None]
  by (auto simp: ex_context_def ex_request_def)

end
