(* ===== verification/Provenance.thy ===== *)
theory Provenance
  imports Job_Events
begin

text \<open>
  Data provenance, \<^verbatim>\<open>backend/app/data/provenance.py\<close>: three levels, a profile of four axes, and the
  effective level, which is computed from the axes and never stored.
\<close>

datatype provenance_level = REAL_STATIC | REAL_SCHEDULED | SYNTHETIC

fun level_value :: "provenance_level \<Rightarrow> string" where
  "level_value REAL_STATIC = ''REAL_STATIC''"
| "level_value REAL_SCHEDULED = ''REAL_SCHEDULED''"
| "level_value SYNTHETIC = ''SYNTHETIC''"

fun realism_tier :: "provenance_level \<Rightarrow> nat" where
  "realism_tier SYNTHETIC = 0"
| "realism_tier REAL_SCHEDULED = 1"
| "realism_tier REAL_STATIC = 1"

fun coerce_level :: "json \<Rightarrow> provenance_level res" where
  "coerce_level (JStr s) =
    (case find (\<lambda>l. level_value l = s) [REAL_STATIC, REAL_SCHEDULED, SYNTHETIC] of
       None \<Rightarrow> Inl ValueError
     | Some l \<Rightarrow> Inr l)"
| "coerce_level _ = Inl ValueError"

record provenance_profile =
  pv_topology :: provenance_level
  pv_timetable :: provenance_level
  pv_asset_condition :: provenance_level
  pv_possession :: provenance_level

definition make_profile :: "json \<Rightarrow> json \<Rightarrow> json \<Rightarrow> json \<Rightarrow> provenance_profile res" where
  "make_profile topology timetable asset_condition possession =
     bind_res (coerce_level topology) (\<lambda>a.
     bind_res (coerce_level timetable) (\<lambda>b.
     bind_res (coerce_level asset_condition) (\<lambda>c.
     bind_res (coerce_level possession) (\<lambda>d.
     Inr \<lparr>pv_topology = a, pv_timetable = b, pv_asset_condition = c, pv_possession = d\<rparr>))))"

definition axes :: "provenance_profile \<Rightarrow> provenance_level list" where
  "axes p = [pv_topology p, pv_timetable p, pv_asset_condition p, pv_possession p]"

definition effective :: "provenance_profile \<Rightarrow> provenance_level" where
  "effective p =
    (if Min (set (map realism_tier (axes p))) = 0 then SYNTHETIC
     else if list_ex (\<lambda>a. a = REAL_STATIC) (axes p) then REAL_STATIC
     else REAL_SCHEDULED)"

definition profile_to_dict :: "provenance_profile \<Rightarrow> dict" where
  "profile_to_dict p = dict_of
     [(''topology'', JStr (level_value (pv_topology p))),
      (''timetable'', JStr (level_value (pv_timetable p))),
      (''asset_condition'', JStr (level_value (pv_asset_condition p))),
      (''possession'', JStr (level_value (pv_possession p))),
      (''effective'', JStr (level_value (effective p)))]"

definition profile_from_dict :: "dict \<Rightarrow> provenance_profile res" where
  "profile_from_dict d =
     bind_res (need d ''topology'') (\<lambda>a.
     bind_res (need d ''timetable'') (\<lambda>b.
     bind_res (need d ''asset_condition'') (\<lambda>c.
     bind_res (need d ''possession'') (\<lambda>e. make_profile a b c e))))"

definition from_train_data_provenance :: "string \<Rightarrow> provenance_level res" where
  "from_train_data_provenance v =
    (if v = ''REAL_SCHEDULED'' then Inr REAL_SCHEDULED
     else if v = ''SYNTHETIC_SCHEDULED'' then Inr SYNTHETIC else Inl ValueError)"

definition from_possession_source :: "string \<Rightarrow> provenance_level res" where
  "from_possession_source v = (if v = ''GENERATED_STATIC'' then Inr SYNTHETIC else Inl ValueError)"

definition to_possession_source :: "provenance_level \<Rightarrow> string res" where
  "to_possession_source l = (if l = SYNTHETIC then Inr ''GENERATED_STATIC'' else Inl ValueError)"

section \<open>Facts\<close>

lemma coerce_level_value [simp]: "coerce_level (JStr (level_value l)) = Inr l"
  by (cases l) simp_all

lemma realism_tier_0 [simp]: "realism_tier l = 0 \<longleftrightarrow> l = SYNTHETIC"
  by (cases l) simp_all

lemma realism_tier_le: "realism_tier l \<le> 1"
  by (cases l) simp_all

lemma profile_roundtrip:
  "profile_from_dict (profile_to_dict p) = Inr p"
  "profile_from_dict (fmupd ''effective'' v (profile_to_dict p)) = Inr p"
  by (cases p; simp add: profile_from_dict_def profile_to_dict_def make_profile_def need_def
      dhas_def dget_def dict_of_def del: coerce_level.simps)+

text \<open>A stored provenance profile reads back as itself, whatever its stored effective level says:
  the level served is always recomputed from the four axes, is SYNTHETIC exactly when some axis is,
  and is never more real than any axis.\<close>

theorem provenance_recomputed:
  shows "profile_from_dict (fmupd ''effective'' v (profile_to_dict p)) = Inr p"
    and "effective p = SYNTHETIC \<longleftrightarrow> SYNTHETIC \<in> set (axes p)"
    and "effective p = REAL_SCHEDULED \<longleftrightarrow> set (axes p) = {REAL_SCHEDULED}"
    and "realism_tier (effective p) = Min (set (map realism_tier (axes p)))"
proof -
  have tiers: "realism_tier l = (if l = SYNTHETIC then 0 else 1)" for l by (cases l) simp_all
  show "profile_from_dict (fmupd ''effective'' v (profile_to_dict p)) = Inr p"
    by (rule profile_roundtrip)
  show "effective p = SYNTHETIC \<longleftrightarrow> SYNTHETIC \<in> set (axes p)"
    by (cases p) (auto simp: effective_def axes_def tiers min_def)
  show "effective p = REAL_SCHEDULED \<longleftrightarrow> set (axes p) = {REAL_SCHEDULED}"
    by (cases p; cases "pv_topology p"; cases "pv_timetable p"; cases "pv_asset_condition p";
        cases "pv_possession p") (simp_all add: effective_def axes_def insert_commute)
  show "realism_tier (effective p) = Min (set (map realism_tier (axes p)))"
    by (cases p) (auto simp: effective_def axes_def tiers min_def)
qed

end
