(* ===== verification/History.thy ===== *)
theory History
  imports Job_Events Repository
begin

text \<open>
  The read side of the event table, \<^verbatim>\<open>JobHistoryRepository\<close> in
  \<^verbatim>\<open>backend/app/jobs/history.py\<close>. The table is the event list of the database, the sequence of
  a row its position from 1 on. A read goes through the stored columns, so every event comes
  back through \<open>event_from_dict\<close>.
\<close>

section \<open>Reads\<close>

record stored_job_event =
  sj_sequence :: nat
  sj_event :: job_event

definition row_to_event :: "job_event \<Rightarrow> job_event res" where
  "row_to_event e = event_from_dict (event_to_dict e)"

definition stored_of :: "nat \<times> job_event \<Rightarrow> stored_job_event res" where
  "stored_of = (\<lambda>(n, e). bind_res (row_to_event e) (\<lambda>x. Inr \<lparr>sj_sequence = n, sj_event = x\<rparr>))"

definition select_events ::
  "(job_event \<Rightarrow> bool) \<Rightarrow> job_event list \<Rightarrow> stored_job_event list res" where
  "select_events P events = map_res stored_of (filter (\<lambda>(n, e). P e) (enumerate 1 events))"

definition list_for_job :: "job_event list \<Rightarrow> string \<Rightarrow> stored_job_event list res" where
  "list_for_job events jid = select_events (\<lambda>e. ev_job_id e = jid) events"

definition get_by_event_id :: "job_event list \<Rightarrow> string \<Rightarrow> stored_job_event option res" where
  "get_by_event_id events i =
     bind_res (select_events (\<lambda>e. ev_id e = i) events) (\<lambda>ss.
       Inr (case ss of [] \<Rightarrow> None | s # _ \<Rightarrow> Some s))"

definition list_for_run :: "job_event list \<Rightarrow> string \<Rightarrow> stored_job_event list res" where
  "list_for_run events run = select_events (\<lambda>e. ev_run_id e = JStr run) events"

section \<open>The bulk read\<close>

type_synonym found = "(string \<times> stored_job_event list) list"

text \<open>The keys of a dictionary filled in this order: first occurrences only.\<close>

definition dict_keys :: "string list \<Rightarrow> string list" where
  "dict_keys ids = rev (remdups (rev ids))"

definition CHUNK_SIZE :: nat where "CHUNK_SIZE = 500"

function chunks :: "nat \<Rightarrow> 'a list \<Rightarrow> 'a list list" where
  "chunks k xs = (if k = 0 \<or> xs = [] then [] else take k xs # chunks k (drop k xs))"
  by pat_completeness auto
termination by (relation "measure (length \<circ> snd)") auto

declare chunks.simps [simp del]

definition found_append :: "string \<Rightarrow> stored_job_event \<Rightarrow> found \<Rightarrow> found" where
  "found_append jid s f = map (\<lambda>(k, ss). (k, if k = jid then ss @ [s] else ss)) f"

fun collect :: "(nat \<times> job_event) list \<Rightarrow> found \<Rightarrow> found res" where
  "collect [] f = Inr f"
| "collect (r # rs) f =
     bind_res (stored_of r) (\<lambda>s. collect rs (found_append (ev_job_id (snd r)) s f))"

fun collect_chunks :: "job_event list \<Rightarrow> string list list \<Rightarrow> found \<Rightarrow> found res" where
  "collect_chunks events [] f = Inr f"
| "collect_chunks events (c # cs) f =
     bind_res (collect (filter (\<lambda>(n, e). ev_job_id e \<in> set c) (enumerate 1 events)) f)
       (collect_chunks events cs)"

definition list_for_jobs :: "job_event list \<Rightarrow> string list \<Rightarrow> found res" where
  "list_for_jobs events ids =
    (let unique = dict_keys ids; f = map (\<lambda>i. (i, [])) unique in
     if f = [] then Inr f else collect_chunks events (chunks CHUNK_SIZE unique) f)"

section \<open>The bulk read against the single one\<close>

lemma concat_chunks: "0 < k \<Longrightarrow> concat (chunks k xs) = xs"
  by (induction k xs rule: chunks.induct) (subst chunks.simps, simp)

lemma set_dict_keys [simp]: "set (dict_keys ids) = set ids"
  by (simp add: dict_keys_def)

lemma distinct_dict_keys [simp]: "distinct (dict_keys ids)"
  by (simp add: dict_keys_def)

lemma map_of_found_append:
  "map_of (found_append jid s f) k =
     map_option (\<lambda>ss. if k = jid then ss @ [s] else ss) (map_of f k)"
  by (induction f) (auto simp: found_append_def)

lemma collect_Inr:
  "collect rs f = Inr g \<Longrightarrow>
     \<exists>t. map_res stored_of (filter (\<lambda>(n, e). ev_job_id e = k) rs) = Inr t \<and>
       map_of g k = map_option (\<lambda>ss. ss @ t) (map_of f k)"
proof (induction rs arbitrary: f)
  case Nil
  then show ?case by (cases "map_of g k") simp_all
next
  case (Cons r rs)
  then obtain s where s: "stored_of r = Inr s" "collect rs (found_append (ev_job_id (snd r)) s f) = Inr g"
    by (auto simp: bind_res_Inr_iff)
  from Cons.IH [OF s(2)] obtain t where t:
    "map_res stored_of (filter (\<lambda>(n, e). ev_job_id e = k) rs) = Inr t"
    "map_of g k = map_option (\<lambda>ss. ss @ t) (map_of (found_append (ev_job_id (snd r)) s f) k)"
    by blast
  then show ?case
    using s(1) by (cases r; cases "map_of f k") (auto simp: map_of_found_append)
qed

lemma collect_chunks_Inr:
  "collect_chunks events cs f = Inr g \<Longrightarrow> distinct (concat cs) \<Longrightarrow>
     \<exists>t. (if k \<in> set (concat cs) then list_for_job events k = Inr t else t = []) \<and>
       map_of g k = map_option (\<lambda>ss. ss @ t) (map_of f k)"
proof (induction cs arbitrary: f)
  case Nil
  then show ?case by (cases "map_of g k") simp_all
next
  case (Cons c cs)
  let ?rows = "\<lambda>P. filter (\<lambda>(n, e). P e) (enumerate 1 events)"
  from Cons.prems(1) obtain f' where f': "collect (?rows (\<lambda>e. ev_job_id e \<in> set c)) f = Inr f'"
      "collect_chunks events cs f' = Inr g"
    by (auto simp: bind_res_Inr_iff)
  from Cons.prems(2) have d: "distinct (concat cs)" "set c \<inter> set (concat cs) = {}" by auto
  from Cons.IH [OF f'(2) d(1)] obtain t where t:
    "if k \<in> set (concat cs) then list_for_job events k = Inr t else t = []"
    "map_of g k = map_option (\<lambda>ss. ss @ t) (map_of f' k)" by blast
  from collect_Inr [OF f'(1), of k] obtain u where u:
    "map_res stored_of (filter (\<lambda>(n, e). ev_job_id e = k) (?rows (\<lambda>e. ev_job_id e \<in> set c))) = Inr u"
    "map_of f' k = map_option (\<lambda>ss. ss @ u) (map_of f k)" by blast
  show ?case
  proof (cases "k \<in> set c")
    case True
    with d(2) have "k \<notin> set (concat cs)" by blast
    with t(1) have "t = []" by simp
    moreover have "filter (\<lambda>(n, e). ev_job_id e = k) (?rows (\<lambda>e. ev_job_id e \<in> set c))
        = ?rows (\<lambda>e. ev_job_id e = k)"
      using True by (auto intro!: filter_cong simp: filter_filter)
    ultimately show ?thesis
      using u t(2) True by (auto simp: list_for_job_def select_events_def option.map_comp comp_def)
  next
    case False
    then have "filter (\<lambda>(n, e). ev_job_id e = k) (?rows (\<lambda>e. ev_job_id e \<in> set c)) = []"
      by (auto simp: filter_empty_conv)
    with u(1) have "u = []" by simp
    with t u(2) False show ?thesis by (auto simp: option.map_comp comp_def)
  qed
qed

lemma list_for_jobs_Inr:
  assumes "list_for_jobs events ids = Inr g" "jid \<in> set ids"
  shows "\<exists>t. list_for_job events jid = Inr t \<and> map_of g jid = Some t"
proof -
  let ?f = "map (\<lambda>i. (i, [])) (dict_keys ids) :: found"
  from assms(2) have "dict_keys ids \<noteq> []" by (metis empty_iff empty_set set_dict_keys)
  with assms(1) have "collect_chunks events (chunks CHUNK_SIZE (dict_keys ids)) ?f = Inr g"
    by (simp add: list_for_jobs_def Let_def)
  moreover have "map_of ?f jid = Some []" if "jid \<in> set ids"
    using that by (simp add: map_of_eq_Some_iff comp_def image_iff)
  moreover have "concat (chunks CHUNK_SIZE (dict_keys ids)) = dict_keys ids"
    by (simp add: concat_chunks CHUNK_SIZE_def)
  ultimately show ?thesis
    using collect_chunks_Inr [of events "chunks CHUNK_SIZE (dict_keys ids)" ?f g jid] assms(2)
    by auto
qed

end
