(* ===== verification/Proposals.thy ===== *)
theory Proposals
  imports Run_Audit Provenance History Execution
begin

text \<open>
  The current proposal of a job, \<^verbatim>\<open>backend/app/jobs/proposal.py\<close>, and why a job has none
  (\<^verbatim>\<open>_no_proposal_reason\<close> of \<^verbatim>\<open>backend/app/jobs/service.py\<close>). A proposal is derived from the row, its
  history and the run's audit record, never stored. An explanation is its code with the facts its
  sentence names; the sentences are not modelled. Run ids are stored as text.
\<close>

section \<open>Why there is no proposal\<close>

definition HUMAN_WITHDRAWAL_EVENTS :: "job_event_type list" where
  "HUMAN_WITHDRAWAL_EVENTS =
     [PROPOSAL_REJECTED, PROPOSAL_POSTPONED, BLOCK_RELEASED, EXECUTION_NOT_COMPLETED]"

definition OPTIMIZER_OUTCOME_EVENTS :: "job_event_type list" where
  "OPTIMIZER_OUTCOME_EVENTS = [OPTIMIZATION_REFUSED, PROPOSAL_INVALIDATED, OPTIMIZATION_FAILED]"

fun event_actor_id :: "event_actor \<Rightarrow> string" where
  "event_actor_id (Live a) = actor_id a"
| "event_actor_id (Recorded a) = rec_actor_id a"

fun event_actor_role :: "event_actor \<Rightarrow> actor_role" where
  "event_actor_role (Live a) = actor_role a"
| "event_actor_role (Recorded a) = rec_role a"

text \<open>\<open>Human_Withdrawal event until role actor_id reason\<close> is a person's decision, named with its author.\<close>

datatype no_proposal =
    Human_Withdrawal job_event_type json actor_role string string
  | Left_Unscheduled string
  | Never_Optimized
  | Already_Committed
  | Being_Executed
  | Job_Is_Completed
  | Other_Status string

definition stored_refusal :: "job \<Rightarrow> no_proposal" where
  "stored_refusal j =
    (case job_last_refusal_reason j of
       None \<Rightarrow> Never_Optimized
     | Some r \<Rightarrow> if r = [] then Never_Optimized else Left_Unscheduled r)"

definition withdrawal_reason :: "job \<Rightarrow> job_event \<Rightarrow> string" where
  "withdrawal_reason j e =
    (let given = (\<lambda>r. r \<noteq> None \<and> r \<noteq> Some []) in
     if given (ev_reason e) then the (ev_reason e)
     else if given (job_last_refusal_reason j) then the (job_last_refusal_reason j)
     else ''no reason recorded'')"

text \<open>The scan from the newest event back.\<close>

fun attribute_withdrawal :: "job \<Rightarrow> job_event list \<Rightarrow> no_proposal" where
  "attribute_withdrawal j [] = stored_refusal j"
| "attribute_withdrawal j (e # es) =
    (if ev_type e \<in> set HUMAN_WITHDRAWAL_EVENTS then
       Human_Withdrawal (ev_type e)
         (if ev_type e = PROPOSAL_POSTPONED \<and> truthy (dget (ev_metadata e) ''selected_date'')
          then dget (ev_metadata e) ''selected_date'' else JNull)
         (event_actor_role (ev_actor e)) (event_actor_id (ev_actor e)) (withdrawal_reason j e)
     else if ev_type e \<in> set OPTIMIZER_OUTCOME_EVENTS then stored_refusal j
     else attribute_withdrawal j es)"

definition no_proposal_reason :: "job \<Rightarrow> job_event list \<Rightarrow> no_proposal" where
  "no_proposal_reason j history =
    (if job_status j = REPORTED then attribute_withdrawal j (rev history)
     else if job_status j = NOTIFIED then Already_Committed
     else if job_status j = IN_PROGRESS then Being_Executed
     else if job_status j = COMPLETED then Job_Is_Completed
     else Other_Status (job_status j))"

section \<open>Building the proposal\<close>

definition PROPOSAL_PLACEMENT_EVENTS :: "job_event_type list" where
  "PROPOSAL_PLACEMENT_EVENTS = [BLOCK_PROPOSED, BLOCK_REPROPOSED, COMMITTED_BLOCK_PRESERVED]"

datatype explanation =
    Placement json json
  | Possession_Window_Required json json
  | Resource_Used json json
  | Committed_Blocks_Respected "string list"
  | Conflicting_Trains_Avoided "string list"
  | No_Train_Level_Data

record block_proposal =
  bp_id :: string
  bp_job_id :: string
  bp_run_id :: string
  bp_corridor :: string
  bp_track :: string
  bp_section :: json
  bp_start :: int
  bp_end :: int
  bp_duration :: int
  bp_work_type :: string
  bp_priority :: rat
  bp_risk :: rat
  bp_objective :: rat
  bp_is_committed :: bool
  bp_explanation :: "explanation list"
  bp_provenance :: provenance_profile
  bp_generated_at :: string

definition proposal_digest :: "(dict \<Rightarrow> string) \<Rightarrow> block_proposal \<Rightarrow> string" where
  "proposal_digest sha p = block_identity_digest sha (bp_id p) (bp_job_id p) (bp_run_id p) (bp_corridor p)
     (bp_track p) (bp_section p) (bp_start p) (bp_end p) (bp_duration p) (bp_work_type p)"

definition latest_placement_event :: "string \<Rightarrow> string \<Rightarrow> job_event list \<Rightarrow> job_event res" where
  "latest_placement_event jid run events =
    (let found = filter (\<lambda>e. ev_run_id e = JStr run \<and> ev_type e \<in> set PROPOSAL_PLACEMENT_EVENTS) events in
     if found = [] then Inl (NoBlockProposalError jid) else Inr (last found))"

text \<open>\<^verbatim>\<open>metadata.get(k) or []\<close>, a list of ids the explanation joins.\<close>

definition id_list :: "dict \<Rightarrow> string \<Rightarrow> string list res" where
  "id_list md k = (if truthy (dget md k) then str_list_value (dget md k) else Inr [])"

definition explanation_items :: "dict \<Rightarrow> explanation list res" where
  "explanation_items md =
    (let s = dget md ''start_minute''; e = dget md ''end_minute'';
         ws = dget md ''possession_window_start_minute''; we = dget md ''possession_window_end_minute'' in
     bind_res (id_list md ''committed_resource_mates'') (\<lambda>mates.
     bind_res (if truthy (dget md ''train_data_available'')
               then bind_res (id_list md ''trains_avoided'') (\<lambda>ts. Inr (Conflicting_Trains_Avoided ts))
               else Inr No_Train_Level_Data) (\<lambda>trains.
     Inr ((if s \<noteq> JNull \<and> e \<noteq> JNull then [Placement s e] else []) @
          (if ws \<noteq> JNull \<and> we \<noteq> JNull then [Possession_Window_Required ws we] else []) @
          [Resource_Used (dget md ''track_id'') (dget md ''section_id''),
           Committed_Blocks_Respected mates, trains]))))"

definition derive_is_committed :: "job \<Rightarrow> bool" where
  "derive_is_committed j \<longleftrightarrow>
     job_status j \<in> set COMMITTED_STATUSES \<or>
     dget (job_block j) ''status'' = JStr COMMITTED_BLOCK \<or>
     dget (job_block j) ''is_committed'' = JBool True"

definition run_provenance_profile :: "run_record \<Rightarrow> provenance_profile res" where
  "run_provenance_profile run =
     bind_res (bind_res (need (case run_provenance run of None \<Rightarrow> fmempty | Some d \<Rightarrow> d) ''provenance'') as_dict)
       profile_from_dict"

definition build_block_proposal ::
  "job \<Rightarrow> string \<Rightarrow> job_event list \<Rightarrow> run_record \<Rightarrow> block_proposal res" where
  "build_block_proposal j corridor events run =
    (case proposal_run_id_of j of
       JStr rid \<Rightarrow>
         bind_res (latest_placement_event (job_id j) rid events) (\<lambda>e.
         bind_res (run_provenance_profile run) (\<lambda>provenance.
         bind_res (explanation_items (ev_metadata e)) (\<lambda>items.
         bind_res (int_of_column (job_start j)) (\<lambda>s.
         bind_res (int_of_column (job_end j)) (\<lambda>f.
         bind_res (float_of_json (dget_default (ev_metadata e) ''objective_score''
                     (JFloat (job_priority_score j + job_risk_score j)))) (\<lambda>objective.
         Inr \<lparr>bp_id = proposal_id_for rid (job_id j), bp_job_id = job_id j, bp_run_id = rid,
              bp_corridor = corridor, bp_track = job_track_id j,
              bp_section = dget (job_block j) ''section_id'', bp_start = s, bp_end = f,
              bp_duration = f - s, bp_work_type = job_work_type j,
              bp_priority = job_priority_score j, bp_risk = job_risk_score j,
              bp_objective = objective, bp_is_committed = derive_is_committed j,
              bp_explanation = items, bp_provenance = provenance,
              bp_generated_at = ev_occurred_at e\<rparr>))))))
     | _ \<Rightarrow> Inl (NoBlockProposalError (job_id j)))"

text \<open>\<^verbatim>\<open>_build_current_proposal\<close> for a job already read.\<close>

definition current_proposal_of ::
  "audit_table \<Rightarrow> string \<Rightarrow> job_event list \<Rightarrow> job \<Rightarrow> block_proposal res" where
  "current_proposal_of runs corridor events j =
    (if job_status j \<noteq> SCHEDULED then
       (if job_status j = REPORTED
        then bind_res (list_for_job events (job_id j)) (\<lambda>_. Inl (NoBlockProposalError (job_id j)))
        else Inl (NoBlockProposalError (job_id j)))
     else case (case proposal_run_id_of j of JStr rid \<Rightarrow> get_run runs rid | _ \<Rightarrow> None) of
       None \<Rightarrow> Inl (NoBlockProposalError (job_id j))
     | Some run \<Rightarrow>
        bind_res (list_for_job events (job_id j)) (\<lambda>history.
        build_block_proposal j corridor (map sj_event history) run))"

text \<open>\<^verbatim>\<open>_current_proposal_digest\<close>: two exceptions mean no digest, any other is raised.\<close>

definition current_proposal_digest ::
  "(dict \<Rightarrow> string) \<Rightarrow> audit_table \<Rightarrow> string \<Rightarrow> job_event list \<Rightarrow> job option \<Rightarrow> string option res" where
  "current_proposal_digest sha runs corridor events j =
    (case j of
       None \<Rightarrow> Inr None
     | Some row \<Rightarrow>
        (case current_proposal_of runs corridor events row of
           Inr p \<Rightarrow> Inr (Some (proposal_digest sha p))
         | Inl e \<Rightarrow> (case e of KeyError _ \<Rightarrow> Inr None | NoBlockProposalError _ \<Rightarrow> Inr None | _ \<Rightarrow> Inl e)))"

end
