(* ===== verification/Sla.thy ===== *)
theory Sla
  imports Job_Model Moments
begin

text \<open>
  SLA policies, \<^verbatim>\<open>backend/app/jobs/sla_policy.py\<close>: the checks of a policy and of a policy
  set, the policy a job resolves to, and the timing of one clock. A \<^verbatim>\<open>timedelta\<close> is its number
  of microseconds; multiplying one by a float rounds half to even, as \<^verbatim>\<open>datetime\<close> does.
\<close>

section \<open>timedelta arithmetic\<close>

definition td_in_range :: "int \<Rightarrow> bool" where
  "td_in_range t \<longleftrightarrow> - 999999999 * micros_per_day \<le> t \<and> t < 1000000000 * micros_per_day"

definition td_times :: "int \<Rightarrow> rat \<Rightarrow> int res" where
  "td_times t r = (let p = py_round (of_int t * r) in
     if td_in_range p then Inr p else Inl OverflowError)"

text \<open>\<^verbatim>\<open>datetime + timedelta\<close>.\<close>

definition dt_plus :: "datetime \<Rightarrow> int \<Rightarrow> datetime res" where
  "dt_plus d t = (if in_range (dt_local d + t) then Inr (d\<lparr>dt_local := dt_local d + t\<rparr>)
     else Inl OverflowError)"

definition td_hours :: "int \<Rightarrow> int" where
  "td_hours h = h * 3600 * micros_per_second"

lemma dt_plus_Inr: "dt_plus d t = Inr e \<Longrightarrow> instant e = instant d + t \<and> dt_offset e = dt_offset d"
  by (auto simp: dt_plus_def instant_def split: if_splits)

section \<open>Policies\<close>

definition ASSUMED_VERSION_MARKER :: string where "ASSUMED_VERSION_MARKER = ''assumed''"
definition MAX_ESCALATION_STEPS :: nat where "MAX_ESCALATION_STEPS = 3"

record sla_policy =
  sp_version :: string
  sp_approval :: int
  sp_execution_start :: int
  sp_completion :: int
  sp_due_soon_fraction :: rat
  sp_multipliers :: "rat list"
  sp_assumed :: bool

definition check_policy :: "sla_policy \<Rightarrow> sla_policy res" where
  "check_policy p =
    (let err = Inl InvalidSlaPolicyError; steps = sp_multipliers p in
     if strip (sp_version p) = [] then err
     else if \<not> sp_assumed p then err
     else if \<not> contains ASSUMED_VERSION_MARKER (map to_lower (sp_version p)) then err
     else if list_ex (\<lambda>t. t \<le> 0) [sp_approval p, sp_execution_start p, sp_completion p] then err
     else if \<not> (0 < sp_due_soon_fraction p \<and> sp_due_soon_fraction p \<le> 1) then err
     else if steps = [] then err
     else if MAX_ESCALATION_STEPS < length steps then err
     else if hd steps < 1 then err
     else if steps \<noteq> sorted_list_of_set (set steps) then err
     else Inr p)"

text \<open>\<^verbatim>\<open>DefectSeverity\<close> of \<^verbatim>\<open>backend/app/data/models.py\<close>.\<close>

datatype severity = Sev_None | Sev_Minor | Sev_Moderate | Sev_Critical

fun severity_value :: "severity \<Rightarrow> string" where
  "severity_value Sev_None = ''NONE''"
| "severity_value Sev_Minor = ''MINOR''"
| "severity_value Sev_Moderate = ''MODERATE''"
| "severity_value Sev_Critical = ''CRITICAL''"

definition all_severities :: "severity list" where
  "all_severities = [Sev_None, Sev_Minor, Sev_Moderate, Sev_Critical]"

definition severity_of :: "string \<Rightarrow> severity option" where
  "severity_of s = find (\<lambda>v. severity_value v = s) all_severities"

record policy_set =
  ps_version :: string
  ps_by_severity :: "(severity \<times> sla_policy) list"

definition check_policy_set :: "policy_set \<Rightarrow> policy_set res" where
  "check_policy_set ps =
    (if list_ex (\<lambda>v. map_of (ps_by_severity ps) v = None) all_severities
     then Inl InvalidSlaPolicyError
     else if list_ex (\<lambda>(v, p). sp_version p \<noteq> ps_version ps) (ps_by_severity ps)
     then Inl InvalidSlaPolicyError
     else Inr ps)"

definition for_severity :: "policy_set \<Rightarrow> severity option \<Rightarrow> sla_policy res" where
  "for_severity ps v =
    (let v' = (case v of None \<Rightarrow> Sev_None | Some x \<Rightarrow> x) in
     case map_of (ps_by_severity ps) v' of
       None \<Rightarrow> Inl (KeyError (severity_value v'))
     | Some p \<Rightarrow> Inr p)"

definition resolve_sla :: "policy_set \<Rightarrow> job \<Rightarrow> sla_policy res" where
  "resolve_sla ps j =
    (case dget (metadata_of (job_block j)) ''reported_severity'' of
       JNull \<Rightarrow> for_severity ps (Some Sev_None)
     | JStr s \<Rightarrow> (case severity_of s of
                   None \<Rightarrow> Inl InvalidSlaPolicyError
                 | Some v \<Rightarrow> for_severity ps (Some v))
     | _ \<Rightarrow> Inl InvalidSlaPolicyError)"

section \<open>Timing\<close>

record sla_timing =
  ti_started_at :: datetime
  ti_evaluated_at :: datetime
  ti_sla :: int
  ti_due_at :: datetime
  ti_due_soon_at :: datetime
  ti_elapsed :: int
  ti_level :: nat

definition is_due_soon :: "sla_timing \<Rightarrow> bool" where
  "is_due_soon t \<longleftrightarrow> instant (ti_due_soon_at t) \<le> instant (ti_evaluated_at t)"

definition is_past_due :: "sla_timing \<Rightarrow> bool" where
  "is_past_due t \<longleftrightarrow> instant (ti_due_at t) \<le> instant (ti_evaluated_at t)"

text \<open>The loop over the escalation multipliers.\<close>

fun count_levels :: "datetime \<Rightarrow> datetime \<Rightarrow> int \<Rightarrow> rat list \<Rightarrow> nat \<Rightarrow> nat res" where
  "count_levels start now sla [] level = Inr level"
| "count_levels start now sla (x # xs) level =
     bind_res (td_times sla x) (\<lambda>t.
     bind_res (dt_plus start t) (\<lambda>mark.
     count_levels start now sla xs
       (if instant mark \<le> instant now then level + 1 else level)))"

definition timing :: "sla_policy \<Rightarrow> int \<Rightarrow> datetime \<Rightarrow> datetime \<Rightarrow> sla_timing res" where
  "timing p sla start now =
    (if dt_offset start = None \<or> dt_offset now = None then Inl InvalidSlaPolicyError
     else bind_res (dt_plus start sla) (\<lambda>due_at.
       bind_res (bind_res (td_times sla (sp_due_soon_fraction p)) (dt_plus start)) (\<lambda>due_soon_at.
       bind_res (count_levels start now sla (sp_multipliers p) 0) (\<lambda>level.
       Inr \<lparr>ti_started_at = start, ti_evaluated_at = now, ti_sla = sla, ti_due_at = due_at,
            ti_due_soon_at = due_soon_at, ti_elapsed = max (instant now - instant start) 0,
            ti_level = level\<rparr>))))"

section \<open>The shipped policy\<close>

definition ASSUMED_DEMO_SLA_VERSION :: string where
  "ASSUMED_DEMO_SLA_VERSION = ''sla-assumed-demo-1.0''"

definition assumed_policy :: "int \<Rightarrow> int \<Rightarrow> int \<Rightarrow> sla_policy" where
  "assumed_policy approval start completion =
     \<lparr>sp_version = ASSUMED_DEMO_SLA_VERSION, sp_approval = td_hours approval,
      sp_execution_start = td_hours start, sp_completion = td_hours completion,
      sp_due_soon_fraction = 3 / 4, sp_multipliers = [1, 2, 4], sp_assumed = True\<rparr>"

definition ASSUMED_DEMO_SLA_POLICY :: policy_set where
  "ASSUMED_DEMO_SLA_POLICY =
     \<lparr>ps_version = ASSUMED_DEMO_SLA_VERSION,
      ps_by_severity =
        [(Sev_Critical, assumed_policy 2 1 4), (Sev_Moderate, assumed_policy 6 4 12),
         (Sev_Minor, assumed_policy 24 12 24), (Sev_None, assumed_policy 24 12 24)]\<rparr>"

section \<open>What the timing says\<close>

text \<open>The instant \<open>r\<close> times the allowance after a clock start.\<close>

definition reached :: "datetime \<Rightarrow> int \<Rightarrow> rat \<Rightarrow> datetime \<Rightarrow> bool" where
  "reached start sla r now \<longleftrightarrow> instant start + py_round (of_int sla * r) \<le> instant now"

lemma count_levels_Inr:
  "count_levels start now sla xs n = Inr m \<Longrightarrow>
     m = n + length (filter (\<lambda>x. reached start sla x now) xs)"
proof (induction xs arbitrary: n)
  case Nil
  then show ?case by simp
next
  case (Cons x xs)
  then show ?case
    by (fastforce simp: bind_res_Inr_iff td_times_def Let_def reached_def dest!: dt_plus_Inr
        split: if_splits)
qed

lemma timing_Inr:
  assumes "timing p sla start now = Inr t"
  shows "ti_level t = length (filter (\<lambda>x. reached start sla x now) (sp_multipliers p))"
    "is_due_soon t \<longleftrightarrow> reached start sla (sp_due_soon_fraction p) now"
    "is_past_due t \<longleftrightarrow> reached start sla 1 now"
    "ti_elapsed t = max (instant now - instant start) 0"
    "instant (ti_due_at t) = instant start + sla"
    "dt_offset (ti_due_at t) = dt_offset start"
  using assms
  by (auto simp: timing_def bind_res_Inr_iff td_times_def Let_def is_due_soon_def is_past_due_def
      reached_def dest!: count_levels_Inr dt_plus_Inr split: if_splits)

lemma reached_later: "reached start sla r now \<Longrightarrow> instant now \<le> instant then' \<Longrightarrow> reached start sla r then'"
  by (simp add: reached_def)

lemma reached_earlier: "reached start sla r now \<Longrightarrow> 0 \<le> sla \<Longrightarrow> r' \<le> r \<Longrightarrow> reached start sla r' now"
proof -
  assume "reached start sla r now" "0 \<le> sla" "r' \<le> r"
  moreover from this have "py_round (of_int sla * r') \<le> py_round (of_int sla * r)"
    by (intro py_round_mono mult_left_mono) simp_all
  ultimately show ?thesis by (simp add: reached_def)
qed

lemma filter_length_mono:
  "(\<And>x. x \<in> set xs \<Longrightarrow> P x \<Longrightarrow> Q x) \<Longrightarrow> length (filter P xs) \<le> length (filter Q xs)"
  by (induction xs) auto

text \<open>Whether a clock can be timed does not depend on the moment of evaluation.\<close>

lemma count_levels_defined:
  "count_levels start now sla xs n = Inr m \<Longrightarrow> \<exists>m'. count_levels start now' sla xs n' = Inr m'"
proof (induction xs arbitrary: n n')
  case (Cons x xs)
  then obtain t mark where "td_times sla x = Inr t" "dt_plus start t = Inr mark"
    by (auto simp: bind_res_Inr_iff)
  with Cons show ?case by auto
qed simp

lemma timing_defined:
  assumes "timing p sla start now = Inr t" "dt_offset now' \<noteq> None"
  shows "\<exists>t'. timing p sla start now' = Inr t'"
  using assms count_levels_defined [of start now sla "sp_multipliers p" 0 _ now' 0]
  by (fastforce simp: timing_def bind_res_Inr_iff split: if_splits)

text \<open>The checked policies, as the proofs use them.\<close>

lemma check_policy_Inr:
  assumes "check_policy p = Inr q"
  shows "q = p" "0 < sp_approval p" "0 < sp_execution_start p" "0 < sp_completion p"
    "0 < sp_due_soon_fraction p" "sp_due_soon_fraction p \<le> 1" "sp_multipliers p \<noteq> []"
    "length (sp_multipliers p) \<le> 3" "1 \<le> hd (sp_multipliers p)" "sorted_wrt (<) (sp_multipliers p)"
    "sp_assumed p"
proof -
  note c = assms [unfolded check_policy_def Let_def]
  show "q = p" "0 < sp_approval p" "0 < sp_execution_start p" "0 < sp_completion p"
    "0 < sp_due_soon_fraction p" "sp_due_soon_fraction p \<le> 1" "sp_multipliers p \<noteq> []"
    "length (sp_multipliers p) \<le> 3" "1 \<le> hd (sp_multipliers p)" "sp_assumed p"
    using c by (auto simp: MAX_ESCALATION_STEPS_def not_less split: if_splits)
  from c have "sp_multipliers p = sorted_list_of_set (set (sp_multipliers p))"
    by (auto split: if_splits)
  then show "sorted_wrt (<) (sp_multipliers p)" by (metis strict_sorted_list_of_set)
qed

lemma demo_policies_ok:
  "check_policy_set ASSUMED_DEMO_SLA_POLICY = Inr ASSUMED_DEMO_SLA_POLICY"
  "list_all (\<lambda>(v, p). check_policy p = Inr p) (ps_by_severity ASSUMED_DEMO_SLA_POLICY)"
  by code_simp+

end
