(* ===== verification/Obligations.thy ===== *)
theory Obligations
  imports Execution_Records Sla
begin

text \<open>
  What a job owes, \<^verbatim>\<open>backend/app/jobs/obligations.py\<close>: the obligation derived from a job row,
  its history, an SLA policy and one moment of evaluation. The derivation reads and never
  writes. Reason codes are modelled, the prose beside them is not.
\<close>

section \<open>Vocabulary\<close>

definition PLACEMENT_EVENT_TYPES :: "job_event_type list" where
  "PLACEMENT_EVENT_TYPES = [BLOCK_PROPOSED, BLOCK_REPROPOSED, COMMITTED_BLOCK_PRESERVED]"

definition APPROVAL_RESPONSE_EVENT_TYPES :: "job_event_type list" where
  "APPROVAL_RESPONSE_EVENT_TYPES = [BLOCK_COMMITTED, PROPOSAL_REJECTED, PROPOSAL_POSTPONED]"

definition SYSTEM_WITHDRAWAL_EVENT_TYPES :: "job_event_type list" where
  "SYSTEM_WITHDRAWAL_EVENT_TYPES = [PROPOSAL_INVALIDATED, OPTIMIZATION_REFUSED]"

definition REPLANNING_TRIGGER_EVENT_TYPES :: "job_event_type list" where
  "REPLANNING_TRIGGER_EVENT_TYPES = [BLOCK_RELEASED, EXECUTION_NOT_COMPLETED]"

definition INTEGRITY_ERROR_TYPES :: "string list" where
  "INTEGRITY_ERROR_TYPES = [''CommittedStateIntegrityError'', ''ExecutionIntegrityError'']"

datatype obligation_type =
    No_Obligation | Approval_Pending | Execution_Start_Pending | Completion_Pending
  | Replanning_Pending

fun obligation_type_value :: "obligation_type \<Rightarrow> string" where
  "obligation_type_value No_Obligation = ''NONE''"
| "obligation_type_value Approval_Pending = ''APPROVAL_PENDING''"
| "obligation_type_value Execution_Start_Pending = ''EXECUTION_START_PENDING''"
| "obligation_type_value Completion_Pending = ''COMPLETION_PENDING''"
| "obligation_type_value Replanning_Pending = ''REPLANNING_PENDING''"

datatype obligation_state =
    Nothing_Owed | Moot | No_Sla_Defined | Within_Sla | Due_Soon | Overdue
  | Escalated_L1 | Escalated_L2 | Escalated_L3

datatype obligation_reason =
    No_Obligation_Terminal | No_Obligation_Awaiting_Optimization | Approval_Awaiting_Authority
  | Approval_Withdrawn_By_System | Execution_Awaiting_Start | Completion_Awaiting_Outcome
  | Replanning_After_Release | Replanning_After_Not_Completed

datatype attention_reason = Committed_Block_Conflict | Integrity_Refusal_Recorded

record obligation =
  ob_job_id :: string
  ob_type :: obligation_type
  ob_state :: obligation_state
  ob_role :: "actor_role option"
  ob_evaluated_at :: string
  ob_clock_started_at :: "string option"
  ob_due_at :: "string option"
  ob_level :: nat
  ob_elapsed :: "rat option"
  ob_sla :: "rat option"
  ob_policy_version :: string
  ob_policy_assumed :: bool
  ob_anchor :: "string option"
  ob_run_id :: json
  ob_reason :: obligation_reason
  ob_attention :: "attention_reason option"
  ob_attention_event :: "string option"
  ob_attention_role :: "actor_role option"

definition ESCALATED_STATES :: "obligation_state list" where
  "ESCALATED_STATES = [Escalated_L1, Escalated_L2, Escalated_L3]"

definition ob_is_open :: "obligation \<Rightarrow> bool" where
  "ob_is_open o' \<longleftrightarrow> ob_type o' \<noteq> No_Obligation \<and> ob_state o' \<noteq> Moot"

definition ob_is_past_due :: "obligation \<Rightarrow> bool" where
  "ob_is_past_due o' \<longleftrightarrow> ob_state o' = Overdue \<or> ob_state o' \<in> set ESCALATED_STATES"

definition ob_is_due_soon :: "obligation \<Rightarrow> bool" where
  "ob_is_due_soon o' \<longleftrightarrow> ob_state o' = Due_Soon"

section \<open>Reading history\<close>

definition last_of :: "job_event_type list \<Rightarrow> job_event list \<Rightarrow> job_event option" where
  "last_of types events = find (\<lambda>e. ev_type e \<in> set types) (rev events)"

definition first_of :: "job_event_type list \<Rightarrow> job_event list \<Rightarrow> job_event option" where
  "first_of types events = find (\<lambda>e. ev_type e \<in> set types) events"

text \<open>The events after the first one with the id of \<open>e\<close>: \<^verbatim>\<open>events[_index_of(events, e) + 1 :]\<close>.\<close>

fun events_after :: "job_event \<Rightarrow> job_event list \<Rightarrow> job_event list res" where
  "events_after e [] = Inl ValueError"
| "events_after e (x # xs) = (if ev_id x = ev_id e then Inr xs else events_after e xs)"

definition latest_placement_for_run :: "string \<Rightarrow> json \<Rightarrow> job_event list \<Rightarrow> job_event res" where
  "latest_placement_for_run jid run events =
    (let matches = filter (\<lambda>e. py_eq (ev_run_id e) run \<and> ev_type e \<in> set PLACEMENT_EVENT_TYPES)
                     events
     in if matches = [] then Inl (ObligationIntegrityError jid) else Inr (last matches))"

definition attention ::
  "job_event list \<Rightarrow> job_event option \<Rightarrow> (attention_reason \<times> job_event) option res" where
  "attention events since =
     bind_res (case since of None \<Rightarrow> Inr events | Some e \<Rightarrow> events_after e events) (\<lambda>recent.
       Inr (case last_of [COMMITTED_BLOCK_CONFLICT] recent of
         Some c \<Rightarrow> Some (Committed_Block_Conflict, c)
       | None \<Rightarrow>
          if events \<noteq> [] \<and> ev_type (last events) = TRANSITION_REJECTED \<and>
             dget (ev_metadata (last events)) ''error_type'' \<in> JStr ` set INTEGRITY_ERROR_TYPES
          then Some (Integrity_Refusal_Recorded, last events) else None))"

section \<open>Building one obligation\<close>

definition state_of :: "sla_timing \<Rightarrow> obligation_state" where
  "state_of t =
    (if 1 \<le> ti_level t then ESCALATED_STATES ! (min (ti_level t) 3 - 1)
     else if is_past_due t then Overdue
     else if is_due_soon t then Due_Soon
     else Within_Sla)"

definition total_seconds :: "int \<Rightarrow> rat" where
  "total_seconds t = of_int t / of_int micros_per_second"

definition timed ::
  "string \<Rightarrow> obligation_type \<Rightarrow> actor_role \<Rightarrow> sla_policy \<Rightarrow> int \<Rightarrow> job_event \<Rightarrow> datetime \<Rightarrow>
   obligation_reason \<Rightarrow> json \<Rightarrow> obligation res" where
  "timed jid typ role p sla anchor now reason run =
     bind_res (fromisoformat (ev_occurred_at anchor)) (\<lambda>start.
     bind_res (timing p sla start now) (\<lambda>t.
     bind_res (event_timestamp now) (\<lambda>evaluated.
     bind_res (event_timestamp (ti_due_at t)) (\<lambda>due.
     Inr \<lparr>ob_job_id = jid, ob_type = typ, ob_state = state_of t, ob_role = Some role,
          ob_evaluated_at = evaluated, ob_clock_started_at = Some (ev_occurred_at anchor),
          ob_due_at = Some due, ob_level = ti_level t,
          ob_elapsed = Some (total_seconds (ti_elapsed t)), ob_sla = Some (total_seconds sla),
          ob_policy_version = sp_version p, ob_policy_assumed = sp_assumed p,
          ob_anchor = Some (ev_id anchor), ob_run_id = run, ob_reason = reason,
          ob_attention = None, ob_attention_event = None, ob_attention_role = None\<rparr>))))"

definition untimed ::
  "string \<Rightarrow> obligation_type \<Rightarrow> obligation_state \<Rightarrow> actor_role option \<Rightarrow> sla_policy \<Rightarrow>
   datetime \<Rightarrow> obligation_reason \<Rightarrow> job_event option \<Rightarrow> json \<Rightarrow> obligation res" where
  "untimed jid typ st role p now reason anchor run =
     bind_res (event_timestamp now) (\<lambda>evaluated.
     Inr \<lparr>ob_job_id = jid, ob_type = typ, ob_state = st, ob_role = role,
          ob_evaluated_at = evaluated, ob_clock_started_at = map_option ev_occurred_at anchor,
          ob_due_at = None, ob_level = 0, ob_elapsed = None, ob_sla = None,
          ob_policy_version = sp_version p, ob_policy_assumed = sp_assumed p,
          ob_anchor = map_option ev_id anchor, ob_run_id = run, ob_reason = reason,
          ob_attention = None, ob_attention_event = None, ob_attention_role = None\<rparr>)"

section \<open>The obligations of each status\<close>

type_synonym derived = "(obligation \<times> job_event option) res"

definition anchored_at :: "job_event option \<Rightarrow> obligation res \<Rightarrow> derived" where
  "anchored_at anchor r = bind_res r (\<lambda>o'. Inr (o', anchor))"

definition approval :: "job \<Rightarrow> job_event list \<Rightarrow> sla_policy \<Rightarrow> datetime \<Rightarrow> derived" where
  "approval j events p now =
    (let jid = job_id j; run = proposal_run_id_of j; err = Inl (ObligationIntegrityError jid) in
     if run = JNull then err
     else bind_res (latest_placement_for_run jid run events) (\<lambda>anchor.
       bind_res (events_after anchor events) (\<lambda>after.
       if list_ex (\<lambda>e. py_eq (ev_run_id e) run \<and>
            ev_type e \<in> set (APPROVAL_RESPONSE_EVENT_TYPES @ SYSTEM_WITHDRAWAL_EVENT_TYPES)) after
       then err
       else anchored_at (Some anchor)
         (timed jid Approval_Pending AUTHORITY p (sp_approval p) anchor now
            Approval_Awaiting_Authority run))))"

definition execution_start :: "job \<Rightarrow> job_event list \<Rightarrow> sla_policy \<Rightarrow> datetime \<Rightarrow> derived" where
  "execution_start j events p now =
    (let jid = job_id j; run = proposal_run_id_of j; err = Inl (ObligationIntegrityError jid);
         commits = filter (\<lambda>e. py_eq (ev_run_id e) run \<and> ev_type e = BLOCK_COMMITTED) events in
     if run = JNull then err
     else if commits = [] then err
     else anchored_at (Some (last commits))
       (timed jid Execution_Start_Pending WORKER p (sp_execution_start p) (last commits) now
          Execution_Awaiting_Start run))"

definition completion ::
  "job \<Rightarrow> job_event list \<Rightarrow> sla_policy \<Rightarrow> datetime \<Rightarrow> execution_record list \<Rightarrow> derived" where
  "completion j events p now records =
    (let jid = job_id j; err = Inl (ObligationIntegrityError jid) in
     case filter is_open records of
       [r] \<Rightarrow>
        (case filter (\<lambda>e. ev_type e = EXECUTION_STARTED \<and>
                dget (ev_metadata e) ''execution_id'' = JStr (xr_execution_id r)) events of
           [] \<Rightarrow> err
         | e # es \<Rightarrow>
            (let anchor = last (e # es) in
             if ev_occurred_at anchor \<noteq> xr_started_recorded_at r then err
             else anchored_at (Some anchor)
               (timed jid Completion_Pending WORKER p (sp_completion p) anchor now
                  Completion_Awaiting_Outcome (JStr (xr_run_id r)))))
     | _ \<Rightarrow> err)"

definition reported :: "job \<Rightarrow> job_event list \<Rightarrow> sla_policy \<Rightarrow> datetime \<Rightarrow> derived" where
  "reported j events p now =
    (let jid = job_id j; placement = last_of PLACEMENT_EVENT_TYPES events in
     bind_res (case placement of None \<Rightarrow> Inr events | Some e \<Rightarrow> events_after e events) (\<lambda>since.
     case last_of REPLANNING_TRIGGER_EVENT_TYPES since of
       Some r \<Rightarrow> anchored_at (Some r)
         (untimed jid Replanning_Pending No_Sla_Defined (Some ENGINEER) p now
            (if ev_type r = BLOCK_RELEASED then Replanning_After_Release
             else Replanning_After_Not_Completed) (Some r) (ev_run_id r))
     | None \<Rightarrow>
        (let answered = last_of APPROVAL_RESPONSE_EVENT_TYPES since;
             withdrawal = (if answered \<noteq> None then None
                           else first_of SYSTEM_WITHDRAWAL_EVENT_TYPES since) in
         case (withdrawal, placement) of
           (Some w, Some e) \<Rightarrow>
            (let gone = dget (ev_metadata w) ''withdrawn_proposal_run_id'' in
             anchored_at (Some e)
               (untimed jid Approval_Pending Moot None p now Approval_Withdrawn_By_System (Some e)
                  (if truthy gone then gone else ev_run_id e)))
         | _ \<Rightarrow> anchored_at None
             (untimed jid No_Obligation Nothing_Owed None p now
                No_Obligation_Awaiting_Optimization None JNull))))"

section \<open>Entry points\<close>

definition with_attention :: "job_event list \<Rightarrow> obligation \<times> job_event option \<Rightarrow> obligation res" where
  "with_attention events = (\<lambda>(o', anchor).
     bind_res (attention events anchor) (\<lambda>a. Inr
       (case a of None \<Rightarrow> o'
        | Some (code, e) \<Rightarrow> o'\<lparr>ob_attention := Some code, ob_attention_event := Some (ev_id e),
            ob_attention_role := Some ENGINEER\<rparr>)))"

definition derive_by_status ::
  "job \<Rightarrow> job_event list \<Rightarrow> sla_policy \<Rightarrow> datetime \<Rightarrow> execution_record list option \<Rightarrow> derived" where
  "derive_by_status j events p now records =
    (let status = job_status j in
     if status = SCHEDULED then approval j events p now
     else if status = NOTIFIED then execution_start j events p now
     else if status = IN_PROGRESS then
       bind_res (case records of None \<Rightarrow> build_execution_records j events | Some rs \<Rightarrow> Inr rs)
         (\<lambda>rs. completion j events p now rs)
     else if status = REPORTED then reported j events p now
     else if status = COMPLETED then anchored_at None
       (untimed (job_id j) No_Obligation Nothing_Owed None p now No_Obligation_Terminal None JNull)
     else Inl (ObligationIntegrityError (job_id j)))"

definition derive_job_obligation ::
  "policy_set \<Rightarrow> job \<Rightarrow> job_event list \<Rightarrow> datetime \<Rightarrow> execution_record list option \<Rightarrow>
   obligation res" where
  "derive_job_obligation ps j events now records =
    (if dt_offset now = None then Inl ValueError
     else bind_res (resolve_sla ps j) (\<lambda>p.
       bind_res (derive_by_status j events p now records) (with_attention events)))"

definition derive_obligations ::
  "policy_set \<Rightarrow> (job \<times> job_event list) list \<Rightarrow> datetime \<Rightarrow> obligation list res" where
  "derive_obligations ps js now =
     map_res (\<lambda>(j, events). derive_job_obligation ps j events now None) js"

definition OBLIGATION_CANDIDATE_STATUSES :: "string list" where
  "OBLIGATION_CANDIDATE_STATUSES = [REPORTED, SCHEDULED, NOTIFIED, IN_PROGRESS]"

end
