(* ===== verification/Notifications.thy ===== *)
theory Notifications
  imports Obligations
begin

text \<open>
  Notification intents, \<^verbatim>\<open>backend/app/jobs/notifications.py\<close>: what a role would be told about
  one obligation, the key that identifies an intent, and the recording channel, whose state is
  the two lists it appends to. The digest is the same parameter \<open>sha\<close> as elsewhere; the prose
  summary is not modelled.
\<close>

section \<open>Intents\<close>

datatype intent_type =
    Intent_Approval | Intent_Execution_Start | Intent_Completion | Intent_Replanning
  | Intent_Attention

fun intent_type_value :: "intent_type \<Rightarrow> string" where
  "intent_type_value Intent_Approval = ''APPROVAL_PENDING''"
| "intent_type_value Intent_Execution_Start = ''EXECUTION_START_PENDING''"
| "intent_type_value Intent_Completion = ''COMPLETION_PENDING''"
| "intent_type_value Intent_Replanning = ''REPLANNING_PENDING''"
| "intent_type_value Intent_Attention = ''ATTENTION_REQUIRED''"

fun RECIPIENT_ROLES :: "intent_type \<Rightarrow> actor_role" where
  "RECIPIENT_ROLES Intent_Approval = AUTHORITY"
| "RECIPIENT_ROLES Intent_Execution_Start = WORKER"
| "RECIPIENT_ROLES Intent_Completion = WORKER"
| "RECIPIENT_ROLES Intent_Replanning = ENGINEER"
| "RECIPIENT_ROLES Intent_Attention = ENGINEER"

fun from_obligation :: "obligation_type \<Rightarrow> intent_type option" where
  "from_obligation No_Obligation = None"
| "from_obligation Approval_Pending = Some Intent_Approval"
| "from_obligation Execution_Start_Pending = Some Intent_Execution_Start"
| "from_obligation Completion_Pending = Some Intent_Completion"
| "from_obligation Replanning_Pending = Some Intent_Replanning"

definition intent_key ::
  "(dict \<Rightarrow> string) \<Rightarrow> string \<Rightarrow> string \<Rightarrow> nat \<Rightarrow> string \<Rightarrow> string option \<Rightarrow> string" where
  "intent_key sha jid typ level version anchor = sha (dict_of
     [(''job_id'', JStr jid), (''obligation_type'', JStr typ),
      (''escalation_level'', JInt (int level)), (''policy_version'', JStr version),
      (''anchor_event_id'', json_of_str anchor)])"

record notification_intent =
  in_key :: string
  in_type :: intent_type
  in_role :: actor_role
  in_job_id :: string
  in_obligation_type :: obligation_type
  in_state :: obligation_state
  in_level :: nat
  in_policy_version :: string
  in_policy_assumed :: bool
  in_anchor :: "string option"
  in_run_id :: json
  in_generated_at :: string
  in_due_at :: "string option"

definition intent ::
  "(dict \<Rightarrow> string) \<Rightarrow> intent_type \<Rightarrow> obligation \<Rightarrow> string option \<Rightarrow> nat \<Rightarrow> notification_intent"
  where
  "intent sha typ ob anchor level =
     \<lparr>in_key = intent_key sha (ob_job_id ob) (intent_type_value typ) level
                 (ob_policy_version ob) anchor,
      in_type = typ, in_role = RECIPIENT_ROLES typ, in_job_id = ob_job_id ob,
      in_obligation_type = ob_type ob, in_state = ob_state ob, in_level = level,
      in_policy_version = ob_policy_version ob, in_policy_assumed = ob_policy_assumed ob,
      in_anchor = anchor, in_run_id = ob_run_id ob, in_generated_at = ob_evaluated_at ob,
      in_due_at = ob_due_at ob\<rparr>"

definition notifiable :: "obligation \<Rightarrow> bool" where
  "notifiable ob \<longleftrightarrow> ob_is_due_soon ob \<or> ob_is_past_due ob \<or> ob_state ob = No_Sla_Defined"

definition intents_for :: "(dict \<Rightarrow> string) \<Rightarrow> obligation \<Rightarrow> notification_intent list" where
  "intents_for sha ob =
     (case from_obligation (ob_type ob) of
        None \<Rightarrow> []
      | Some typ \<Rightarrow> if ob_state ob \<noteq> Moot \<and> notifiable ob
                    then [intent sha typ ob (ob_anchor ob) (ob_level ob)] else []) @
     (if ob_attention ob \<noteq> None
      then [intent sha Intent_Attention ob (ob_attention_event ob) 0] else [])"

definition derive_notification_intents ::
  "(dict \<Rightarrow> string) \<Rightarrow> obligation list \<Rightarrow> notification_intent list" where
  "derive_notification_intents sha obs = concat (map (intents_for sha) obs)"

section \<open>Channels\<close>

datatype channel_outcome = Recording_Only | Channel_Rejected | Transient_Failure

record channel_result =
  cr_channel :: string
  cr_outcome :: channel_outcome
  cr_intent_key :: string
  cr_attempted_at :: string

definition delivered :: "channel_result \<Rightarrow> bool" where
  "delivered r \<longleftrightarrow> False"

record recording_channel =
  ch_records :: "channel_result list"
  ch_intents :: "notification_intent list"

text \<open>\<open>now\<close> is what the channel's clock returns.\<close>

definition send ::
  "datetime \<Rightarrow> notification_intent \<Rightarrow> recording_channel \<Rightarrow> (channel_result \<times> recording_channel) res"
  where
  "send now i c =
     bind_res (event_timestamp now) (\<lambda>attempted.
       let r = \<lparr>cr_channel = ''RECORDING'', cr_outcome = Recording_Only,
                cr_intent_key = in_key i, cr_attempted_at = attempted\<rparr>
       in Inr (r, \<lparr>ch_records = ch_records c @ [r], ch_intents = ch_intents c @ [i]\<rparr>))"

text \<open>The clock is read once per intent: \<open>nows\<close> gives its successive answers.\<close>

fun record_all ::
  "(nat \<Rightarrow> datetime) \<Rightarrow> notification_intent list \<Rightarrow> recording_channel \<Rightarrow>
   (channel_result list \<times> recording_channel) res" where
  "record_all nows [] c = Inr ([], c)"
| "record_all nows (i # is) c =
     bind_res (send (nows 0) i c) (\<lambda>(r, c').
     bind_res (record_all (\<lambda>k. nows (Suc k)) is c') (\<lambda>(rs, c'').
     Inr (r # rs, c'')))"

end
