(* ===== verification/Obligation_Facts.thy ===== *)
theory Obligation_Facts
  imports Notifications
begin

text \<open>
  What an obligation says: which fields a timed and an untimed obligation have, how the state
  ladder follows the deadline, and how derivation depends on the moment of evaluation.
\<close>

section \<open>Fields\<close>

lemma event_timestamp_Inr:
  "event_timestamp d = Inr s \<Longrightarrow> in_range (instant d) \<and> s = isoformat_utc (instant d) \<and> dt_offset d \<noteq> None"
  by (auto simp: event_timestamp_def astimezone_def bind_res_Inr_iff instant_def Let_def split: if_splits)

lemma event_timestamp_ok:
  "in_range (instant d) \<Longrightarrow> dt_offset d \<noteq> None \<Longrightarrow>
     event_timestamp d = Inr (isoformat_utc (instant d))"
  by (auto simp: event_timestamp_def astimezone_def instant_def Let_def)

lemma timed_Inr:
  assumes "timed jid typ role p sla anchor now reason run = Inr ob"
  obtains start t due where "fromisoformat (ev_occurred_at anchor) = Inr start"
    "timing p sla start now = Inr t" "event_timestamp (ti_due_at t) = Inr due"
    "ob_state ob = state_of t" "ob_level ob = ti_level t" "ob_due_at ob = Some due"
    "ob_job_id ob = jid" "ob_type ob = typ" "ob_role ob = Some role"
    "ob_anchor ob = Some (ev_id anchor)" "ob_clock_started_at ob = Some (ev_occurred_at anchor)"
    "ob_run_id ob = run" "ob_reason ob = reason" "ob_elapsed ob = Some (total_seconds (ti_elapsed t))"
  using assms by (auto simp: timed_def bind_res_Inr_iff)

lemma untimed_Inr:
  assumes "untimed jid typ st role p now reason anchor run = Inr ob"
  shows "ob_state ob = st" "ob_job_id ob = jid" "ob_type ob = typ" "ob_role ob = role"
    "ob_due_at ob = None" "ob_level ob = 0" "ob_anchor ob = map_option ev_id anchor"
    "ob_run_id ob = run" "ob_reason ob = reason" "ob_elapsed ob = None"
  using assms by (auto simp: untimed_def bind_res_Inr_iff)

text \<open>The fields attention leaves alone, which is all but its own three.\<close>

lemma with_attention_Inr:
  assumes "with_attention events (o', anchor) = Inr ob"
  shows "ob_state ob = ob_state o'" "ob_job_id ob = ob_job_id o'" "ob_type ob = ob_type o'"
    "ob_role ob = ob_role o'" "ob_due_at ob = ob_due_at o'" "ob_level ob = ob_level o'"
    "ob_anchor ob = ob_anchor o'" "ob_clock_started_at ob = ob_clock_started_at o'"
    "ob_run_id ob = ob_run_id o'" "ob_elapsed ob = ob_elapsed o'" "ob_reason ob = ob_reason o'"
  using assms
  by (auto simp: with_attention_def bind_res_Inr_iff split: option.splits prod.splits)

lemma derive_Inr:
  assumes "derive_job_obligation ps j events now records = Inr ob"
  obtains p o' anchor where "dt_offset now \<noteq> None" "resolve_sla ps j = Inr p"
    "derive_by_status j events p now records = Inr (o', anchor)"
    "with_attention events (o', anchor) = Inr ob"
  using assms by (auto simp: derive_job_obligation_def bind_res_Inr_iff split: if_splits)

lemma anchored_at_Inr:
  "anchored_at a r = Inr x \<longleftrightarrow> (\<exists>o'. r = Inr o' \<and> x = (o', a))"
  by (auto simp: anchored_at_def bind_res_Inr_iff)

section \<open>The four kinds\<close>

lemma last_in_filter: "filter P xs \<noteq> [] \<Longrightarrow> last (filter P xs) \<in> set xs \<and> P (last (filter P xs))"
  by (drule last_in_set) simp

lemma approval_Inr:
  assumes "approval j events p now = Inr (o', anchor)"
  obtains e where "anchor = Some e" "e \<in> set events" "ev_type e \<in> set PLACEMENT_EVENT_TYPES"
    "py_eq (ev_run_id e) (proposal_run_id_of j)"
    "timed (job_id j) Approval_Pending AUTHORITY p (sp_approval p) e now
       Approval_Awaiting_Authority (proposal_run_id_of j) = Inr o'"
proof -
  from assms obtain e where e: "latest_placement_for_run (job_id j) (proposal_run_id_of j) events = Inr e"
      "anchor = Some e"
      "timed (job_id j) Approval_Pending AUTHORITY p (sp_approval p) e now
         Approval_Awaiting_Authority (proposal_run_id_of j) = Inr o'"
    by (auto simp: approval_def Let_def bind_res_Inr_iff anchored_at_Inr split: if_splits)
  from e(1) have "e \<in> set events \<and> py_eq (ev_run_id e) (proposal_run_id_of j) \<and>
      ev_type e \<in> set PLACEMENT_EVENT_TYPES"
    unfolding latest_placement_for_run_def Let_def
    by (metis (no_types, lifting) Inl_Inr_False Inr_inject last_in_filter)
  with e that show thesis by blast
qed

lemma execution_start_Inr:
  assumes "execution_start j events p now = Inr (o', anchor)"
  obtains e where "anchor = Some e"
    "filter (\<lambda>e. py_eq (ev_run_id e) (proposal_run_id_of j) \<and> ev_type e = BLOCK_COMMITTED) events \<noteq> []"
    "e = last (filter (\<lambda>e. py_eq (ev_run_id e) (proposal_run_id_of j) \<and> ev_type e = BLOCK_COMMITTED) events)"
    "timed (job_id j) Execution_Start_Pending WORKER p (sp_execution_start p) e now
       Execution_Awaiting_Start (proposal_run_id_of j) = Inr o'"
  using assms by (auto simp: execution_start_def Let_def anchored_at_Inr split: if_splits)

lemma completion_Inr:
  assumes "completion j events p now records = Inr (o', anchor)"
  obtains r e where "filter is_open records = [r]" "anchor = Some e" "e \<in> set events"
    "ev_type e = EXECUTION_STARTED" "dget (ev_metadata e) ''execution_id'' = JStr (xr_execution_id r)"
    "timed (job_id j) Completion_Pending WORKER p (sp_completion p) e now
       Completion_Awaiting_Outcome (JStr (xr_run_id r)) = Inr o'"
proof -
  let ?P = "\<lambda>r e. ev_type e = EXECUTION_STARTED \<and>
    dget (ev_metadata e) ''execution_id'' = JStr (xr_execution_id r)"
  from assms obtain r where r: "filter is_open records = [r]" "filter (?P r) events \<noteq> []"
      "anchor = Some (last (filter (?P r) events))"
      "timed (job_id j) Completion_Pending WORKER p (sp_completion p) (last (filter (?P r) events)) now
         Completion_Awaiting_Outcome (JStr (xr_run_id r)) = Inr o'"
    by (auto simp: completion_def Let_def anchored_at_Inr split: list.splits if_splits)
  from last_in_filter [OF r(2)] r that show thesis by blast
qed

text \<open>What a reported job can owe: nothing that has a clock.\<close>

lemma reported_Inr:
  assumes "reported j events p now = Inr (o', anchor)"
  obtains ty st role reason run where "(ty, st, role) \<in>
      {(Replanning_Pending, No_Sla_Defined, Some ENGINEER), (Approval_Pending, Moot, None),
       (No_Obligation, Nothing_Owed, None)}"
    "untimed (job_id j) ty st role p now reason anchor run = Inr o'"
  using assms
  by (auto simp: reported_def Let_def bind_res_Inr_iff anchored_at_Inr
      split: option.splits if_splits prod.splits) blast+

section \<open>The ladder\<close>

fun state_rank :: "obligation_state \<Rightarrow> nat" where
  "state_rank Due_Soon = 1"
| "state_rank Overdue = 2"
| "state_rank Escalated_L1 = 3"
| "state_rank Escalated_L2 = 4"
| "state_rank Escalated_L3 = 5"
| "state_rank _ = 0"

lemma state_of_rank:
  "state_rank (state_of t) =
    (if 1 \<le> ti_level t then 2 + min (ti_level t) 3
     else if is_past_due t then 2 else if is_due_soon t then 1 else 0)"
proof (cases "1 \<le> ti_level t")
  case True
  then consider "ti_level t = 1" | "ti_level t = 2" | "3 \<le> ti_level t" by linarith
  then show ?thesis by cases (auto simp: state_of_def ESCALATED_STATES_def)
next
  case False
  then show ?thesis by (auto simp: state_of_def)
qed

lemma state_of_timed: "state_of t \<notin> {Nothing_Owed, Moot, No_Sla_Defined}"
proof (cases "1 \<le> ti_level t")
  case True
  then consider "ti_level t = 1" | "ti_level t = 2" | "3 \<le> ti_level t" by linarith
  then show ?thesis by cases (auto simp: state_of_def ESCALATED_STATES_def)
next
  case False
  then show ?thesis by (auto simp: state_of_def)
qed

lemma past_due_rank: "ob_is_past_due ob \<longleftrightarrow> 2 \<le> state_rank (ob_state ob)"
  by (cases "ob_state ob") (simp_all add: ob_is_past_due_def ESCALATED_STATES_def)

lemma timing_later:
  assumes "timing p sla start now = Inr t" "timing p sla start now' = Inr t'"
    and "instant now \<le> instant now'"
  shows "ti_level t \<le> ti_level t' \<and> state_rank (state_of t) \<le> state_rank (state_of t')"
proof -
  have level: "ti_level t \<le> ti_level t'"
    unfolding timing_Inr(1) [OF assms(1)] timing_Inr(1) [OF assms(2)]
    by (rule filter_length_mono) (rule reached_later [OF _ assms(3)])
  moreover have "is_past_due t \<Longrightarrow> is_past_due t'" "is_due_soon t \<Longrightarrow> is_due_soon t'"
    using reached_later [OF _ assms(3)]
    by (auto simp: timing_Inr(2,3) [OF assms(1)] timing_Inr(2,3) [OF assms(2)])
  ultimately show ?thesis by (auto simp: state_of_rank)
qed

text \<open>Under a checked policy an obligation is late exactly from its deadline on.\<close>

lemma timing_late:
  assumes "check_policy p = Inr p" "0 < sla" "timing p sla start now = Inr t"
  shows "2 \<le> state_rank (state_of t) \<longleftrightarrow> instant (ti_due_at t) \<le> instant now"
proof -
  note ok = check_policy_Inr [OF assms(1)]
  have ge: "1 \<le> x" if "x \<in> set (sp_multipliers p)" for x
    using ok(7,9,10) that by (cases "sp_multipliers p") auto
  have "ti_level t = 0" if "\<not> is_past_due t"
  proof -
    have "\<not> reached start sla x now" if "x \<in> set (sp_multipliers p)" for x
      using \<open>\<not> is_past_due t\<close> reached_earlier [of start sla x now 1] ge [OF that] assms(2)
      by (auto simp: timing_Inr(3) [OF assms(3)])
    then show ?thesis by (simp add: timing_Inr(1) [OF assms(3)])
  qed
  then have "2 \<le> state_rank (state_of t) \<longleftrightarrow> is_past_due t" by (auto simp: state_of_rank)
  then show ?thesis
    by (simp add: timing_Inr(3,5) [OF assms(3)] reached_def)
qed

end
