(* ===== verification/Accountability.thy ===== *)
theory Accountability
  imports Obligation_Facts History Example_Run
begin

text \<open>
  The properties of obligations, notification intents and the history reads: who owes what in
  which state of a job, when an obligation is late, and that the bulk read of histories is the
  single read of each.
\<close>

section \<open>Who owes what\<close>

definition owed :: "string \<Rightarrow> (obligation_type \<times> actor_role option) set" where
  "owed status =
    (if status = SCHEDULED then {(Approval_Pending, Some AUTHORITY)}
     else if status = NOTIFIED then {(Execution_Start_Pending, Some WORKER)}
     else if status = IN_PROGRESS then {(Completion_Pending, Some WORKER)}
     else if status = REPORTED then
       {(Replanning_Pending, Some ENGINEER), (Approval_Pending, None), (No_Obligation, None)}
     else if status = COMPLETED then {(No_Obligation, None)} else {})"

definition clock_events :: "string \<Rightarrow> job_event_type set" where
  "clock_events status =
    (if status = SCHEDULED then set PLACEMENT_EVENT_TYPES
     else if status = NOTIFIED then {BLOCK_COMMITTED}
     else if status = IN_PROGRESS then {EXECUTION_STARTED} else {})"

lemma by_status_clock:
  assumes "derive_by_status j events p now records = Inr (o', anchor)"
    and "job_status j \<in> {SCHEDULED, NOTIFIED, IN_PROGRESS}"
  obtains e ty role sla reason run where "anchor = Some e" "e \<in> set events"
    "ev_type e \<in> clock_events (job_status j)" "(ty, Some role) \<in> owed (job_status j)"
    "sla \<in> {sp_approval p, sp_execution_start p, sp_completion p}"
    "timed (job_id j) ty role p sla e now reason run = Inr o'"
  using assms(2)
proof safe
  assume s: "job_status j = SCHEDULED"
  with assms(1) have "approval j events p now = Inr (o', anchor)" by (simp add: derive_by_status_def)
  then show thesis by (rule approval_Inr, intro that) (auto simp: s clock_events_def owed_def)
next
  assume s: "job_status j = NOTIFIED"
  with assms(1) have "execution_start j events p now = Inr (o', anchor)"
    by (simp add: derive_by_status_def)
  then show thesis
    by (rule execution_start_Inr, intro that)
      (use last_in_filter in \<open>fastforce simp: s clock_events_def owed_def\<close>)+
next
  assume s: "job_status j = IN_PROGRESS"
  with assms(1) obtain rs where "completion j events p now rs = Inr (o', anchor)"
    by (auto simp: derive_by_status_def bind_res_Inr_iff)
  then show thesis by (rule completion_Inr, intro that) (auto simp: s clock_events_def owed_def)
qed

lemma by_status_no_clock:
  assumes "derive_by_status j events p now records = Inr (o', anchor)"
    and "job_status j \<notin> {SCHEDULED, NOTIFIED, IN_PROGRESS}"
  obtains ty st role reason run where "job_status j \<in> {REPORTED, COMPLETED}"
    "(ty, role) \<in> owed (job_status j)"
    "(ty, st, role) \<in> {(Replanning_Pending, No_Sla_Defined, Some ENGINEER),
       (Approval_Pending, Moot, None), (No_Obligation, Nothing_Owed, None)}"
    "untimed (job_id j) ty st role p now reason anchor run = Inr o'"
proof (cases "job_status j = REPORTED")
  case True
  with assms(1) have "reported j events p now = Inr (o', anchor)"
    by (simp add: derive_by_status_def)
  then show thesis
    by (rule reported_Inr, intro that) (auto simp: True owed_def)
next
  case False
  with assms that show thesis
    by (fastforce simp: derive_by_status_def owed_def anchored_at_Inr Let_def split: if_splits)
qed

text \<open>The status of a job decides what is owed on it and by which role, never by a person: a
  proposal awaits an authority, an approved block a worker who starts, open work a worker who
  ends it. The clock of these three runs from an event of the job's own history, of the type
  that put the job into that status.\<close>

theorem obligation_follows_status:
  assumes "derive_job_obligation ps j events now records = Inr ob"
  shows "ob_job_id ob = job_id j \<and> (ob_type ob, ob_role ob) \<in> owed (job_status j) \<and>
    (job_status j \<in> {SCHEDULED, NOTIFIED, IN_PROGRESS} \<longrightarrow>
      (\<exists>e \<in> set events. ev_type e \<in> clock_events (job_status j) \<and>
         ob_anchor ob = Some (ev_id e) \<and> ob_clock_started_at ob = Some (ev_occurred_at e)))"
proof -
  from assms obtain p o' anchor where d: "derive_by_status j events p now records = Inr (o', anchor)"
      "with_attention events (o', anchor) = Inr ob" by (rule derive_Inr)
  note fields = with_attention_Inr [OF d(2)]
  show ?thesis
  proof (cases "job_status j \<in> {SCHEDULED, NOTIFIED, IN_PROGRESS}")
    case True
    from by_status_clock [OF d(1) True] obtain e ty role sla reason run where
      e: "e \<in> set events" "ev_type e \<in> clock_events (job_status j)" "(ty, Some role) \<in> owed (job_status j)"
      "timed (job_id j) ty role p sla e now reason run = Inr o'" by metis
    from e(4) show ?thesis by (rule timed_Inr) (use e fields in auto)
  next
    case False
    from by_status_no_clock [OF d(1) False] obtain ty st role reason run where
      "(ty, role) \<in> owed (job_status j)" "untimed (job_id j) ty st role p now reason anchor run = Inr o'"
      by metis
    with fields False show ?thesis by (simp add: untimed_Inr)
  qed
qed

section \<open>Lateness\<close>

text \<open>What the intents need of an obligation.\<close>

lemma obligation_job:
  assumes "derive_job_obligation ps j events now records = Inr ob"
  shows "ob_job_id ob = job_id j"
proof -
  from assms obtain p o' anchor where d: "derive_by_status j events p now records = Inr (o', anchor)"
      "with_attention events (o', anchor) = Inr ob" by (rule derive_Inr)
  show ?thesis
  proof (cases "job_status j \<in> {SCHEDULED, NOTIFIED, IN_PROGRESS}")
    case True
    from by_status_clock [OF d(1) True] obtain ty role sla e reason run where
      "timed (job_id j) ty role p sla e now reason run = Inr o'" by metis
    then show ?thesis by (rule timed_Inr) (simp add: with_attention_Inr(2) [OF d(2)])
  next
    case False
    from by_status_no_clock [OF d(1) False] obtain ty st role reason run where
      "untimed (job_id j) ty st role p now reason anchor run = Inr o'" by metis
    then show ?thesis by (simp add: untimed_Inr with_attention_Inr(2) [OF d(2)])
  qed
qed

lemma obligation_roles:
  assumes "derive_job_obligation ps j events now records = Inr ob"
    and "from_obligation (ob_type ob) = Some ty" "ob_state ob \<noteq> Moot"
  shows "ob_role ob = Some (RECIPIENT_ROLES ty)"
proof -
  from assms(1) obtain p o' anchor where d: "derive_by_status j events p now records = Inr (o', anchor)"
      "with_attention events (o', anchor) = Inr ob" by (rule derive_Inr)
  note f = with_attention_Inr [OF d(2)]
  show ?thesis
  proof (cases "job_status j \<in> {SCHEDULED, NOTIFIED, IN_PROGRESS}")
    case True
    from by_status_clock [OF d(1) True] obtain t role sla e reason run where
      "(t, Some role) \<in> owed (job_status j)" "timed (job_id j) t role p sla e now reason run = Inr o'"
      by metis
    with True assms(2) f show ?thesis by (auto simp: owed_def elim!: timed_Inr)
  next
    case False
    from by_status_no_clock [OF d(1) False] obtain t st role reason run where
      "(t, st, role) \<in> {(Replanning_Pending, No_Sla_Defined, Some ENGINEER),
         (Approval_Pending, Moot, None), (No_Obligation, Nothing_Owed, None)}"
      "untimed (job_id j) t st role p now reason anchor run = Inr o'" by metis
    with f assms(2,3) show ?thesis by (auto simp: untimed_Inr)
  qed
qed

text \<open>Once the system has withdrawn a proposal, an authority has released a block or the work is
  done, nobody is late: the obligation of a reported or completed job has no deadline and is
  never past due, whenever it is evaluated, and no intent about it addresses an authority or a
  worker.\<close>

theorem withdrawal_is_no_breach:
  assumes "derive_job_obligation ps j events now records = Inr ob"
    and "job_status j \<in> {REPORTED, COMPLETED}"
  shows "\<not> ob_is_past_due ob \<and> \<not> ob_is_due_soon ob \<and> ob_due_at ob = None \<and>
    in_role ` set (intents_for sha ob) \<subseteq> {ENGINEER}"
proof -
  from assms(1) obtain p o' anchor where d: "derive_by_status j events p now records = Inr (o', anchor)"
      "with_attention events (o', anchor) = Inr ob" by (rule derive_Inr)
  from assms(2) have "job_status j \<notin> {SCHEDULED, NOTIFIED, IN_PROGRESS}" by auto
  from by_status_no_clock [OF d(1) this] obtain ty st role reason run where
    "(ty, st, role) \<in> {(Replanning_Pending, No_Sla_Defined, Some ENGINEER),
       (Approval_Pending, Moot, None), (No_Obligation, Nothing_Owed, None)}"
    "untimed (job_id j) ty st role p now reason anchor run = Inr o'" by metis
  with with_attention_Inr [OF d(2)] show ?thesis
    by (auto simp: untimed_Inr ob_is_past_due_def ob_is_due_soon_def ESCALATED_STATES_def
        intents_for_def intent_def)
qed

lemma resolve_sla_in: "resolve_sla ps j = Inr p \<Longrightarrow> p \<in> snd ` set (ps_by_severity ps)"
  by (auto simp: resolve_sla_def for_severity_def Let_def image_iff split: json.splits option.splits
      dest!: map_of_SomeD) force+

text \<open>Under checked policies an open obligation with a clock is reported late exactly from its
  deadline on: the state is past due if and only if the moment of evaluation has reached the
  instant that the obligation's own due date names.\<close>

theorem late_exactly_from_deadline:
  assumes "derive_job_obligation ps j events now records = Inr ob"
    and "job_status j \<in> {SCHEDULED, NOTIFIED, IN_PROGRESS}"
    and "list_all (\<lambda>(v, p). check_policy p = Inr p) (ps_by_severity ps)"
  shows "\<exists>due d. ob_due_at ob = Some due \<and> fromisoformat due = Inr d \<and>
    (ob_is_past_due ob \<longleftrightarrow> instant d \<le> instant now)"
proof -
  from assms(1) obtain p o' anchor where d: "resolve_sla ps j = Inr p"
      "derive_by_status j events p now records = Inr (o', anchor)"
      "with_attention events (o', anchor) = Inr ob" by (rule derive_Inr)
  from resolve_sla_in [OF d(1)] assms(3) have ok: "check_policy p = Inr p"
    by (auto simp: list_all_iff)
  from by_status_clock [OF d(2) assms(2)] obtain e ty role sla reason run where
    e: "sla \<in> {sp_approval p, sp_execution_start p, sp_completion p}"
      "timed (job_id j) ty role p sla e now reason run = Inr o'" by metis
  from e(1) check_policy_Inr(2-4) [OF ok] have "0 < sla" by auto
  from e(2) obtain start t due where t: "timing p sla start now = Inr t"
      "event_timestamp (ti_due_at t) = Inr due" "ob_state o' = state_of t" "ob_due_at o' = Some due"
    by (rule timed_Inr)
  from event_timestamp_Inr [OF t(2)] fromisoformat_isoformat
  have "fromisoformat due = Inr \<lparr>dt_local = instant (ti_due_at t), dt_offset = Some 0\<rparr>" by blast
  moreover have "instant \<lparr>dt_local = instant (ti_due_at t), dt_offset = Some 0\<rparr> = instant (ti_due_at t)"
    by (simp add: instant_def)
  ultimately show ?thesis
    using timing_late [OF ok \<open>0 < sla\<close> t(1)] with_attention_Inr [OF d(3)] t(3,4)
    by (auto simp: past_due_rank)
qed

section \<open>Evaluation at a later moment\<close>

definition same_terms ::
  "sla_policy \<Rightarrow> datetime \<Rightarrow> datetime \<Rightarrow> obligation \<Rightarrow> obligation \<Rightarrow> bool" where
  "same_terms p now now' o' o'' \<longleftrightarrow>
     (\<exists>jid ty role sla e reason run. timed jid ty role p sla e now reason run = Inr o' \<and>
        timed jid ty role p sla e now' reason run = Inr o'') \<or>
     (\<exists>jid ty st role reason e run. untimed jid ty st role p now reason e run = Inr o' \<and>
        untimed jid ty st role p now' reason e run = Inr o'')"

lemma same_timed:
  "timed jid ty role p sla e now reason run = Inr o' \<Longrightarrow>
   timed jid ty role p sla e now' reason run = Inr o'' \<Longrightarrow> same_terms p now now' o' o''"
  unfolding same_terms_def by blast

lemma same_untimed:
  "untimed jid ty st role p now reason e run = Inr o' \<Longrightarrow>
   untimed jid ty st role p now' reason e run = Inr o'' \<Longrightarrow> same_terms p now now' o' o''"
  unfolding same_terms_def by blast

lemma by_status_later:
  assumes "derive_by_status j events p now records = Inr (o', a)"
    and "derive_by_status j events p now' records = Inr (o'', a')"
  shows "a' = a \<and> same_terms p now now' o' o''"
proof -
  consider "job_status j = SCHEDULED" | "job_status j = NOTIFIED" | "job_status j = IN_PROGRESS"
    | "job_status j = REPORTED" | "job_status j \<notin> {SCHEDULED, NOTIFIED, IN_PROGRESS, REPORTED}" by auto
  then show ?thesis
  proof cases
    case 1
    with assms show ?thesis
      by (auto simp: derive_by_status_def approval_def Let_def bind_res_Inr_iff anchored_at_Inr
          split: if_splits intro: same_timed)
  next
    case 2
    with assms show ?thesis
      by (auto simp: derive_by_status_def execution_start_def Let_def anchored_at_Inr
          split: if_splits intro: same_timed)
  next
    case 3
    with assms obtain rs where "completion j events p now rs = Inr (o', a)"
        "completion j events p now' rs = Inr (o'', a')"
      by (auto simp: derive_by_status_def bind_res_Inr_iff)
    then show ?thesis
      by (auto simp: completion_def Let_def anchored_at_Inr split: list.splits if_splits
          intro: same_timed)
  next
    case 4
    with assms show ?thesis
      by (auto simp: derive_by_status_def reported_def Let_def bind_res_Inr_iff anchored_at_Inr
          split: option.splits if_splits prod.splits intro: same_untimed)
  next
    case 5
    with assms show ?thesis
      by (auto simp: derive_by_status_def anchored_at_Inr Let_def split: if_splits
          intro: same_untimed)
  qed
qed

lemma same_terms_later:
  assumes "same_terms p now now' o' o''" "instant now \<le> instant now'"
  shows "ob_type o'' = ob_type o' \<and> ob_role o'' = ob_role o' \<and> ob_anchor o'' = ob_anchor o' \<and>
    ob_due_at o'' = ob_due_at o' \<and> ob_level o' \<le> ob_level o'' \<and>
    state_rank (ob_state o') \<le> state_rank (ob_state o'')"
  using assms(1) unfolding same_terms_def
proof (elim disjE exE conjE)
  fix jid ty role sla e reason run
  assume a: "timed jid ty role p sla e now reason run = Inr o'"
    and b: "timed jid ty role p sla e now' reason run = Inr o''"
  from a obtain start t due where t: "fromisoformat (ev_occurred_at e) = Inr start"
      "timing p sla start now = Inr t" "event_timestamp (ti_due_at t) = Inr due" "ob_due_at o' = Some due"
      "ob_state o' = state_of t" "ob_level o' = ti_level t" "ob_type o' = ty" "ob_role o' = Some role"
      "ob_anchor o' = Some (ev_id e)" by (rule timed_Inr)
  from b obtain start' t' due' where t': "fromisoformat (ev_occurred_at e) = Inr start'"
      "timing p sla start' now' = Inr t'" "event_timestamp (ti_due_at t') = Inr due'" "ob_due_at o'' = Some due'"
      "ob_state o'' = state_of t'" "ob_level o'' = ti_level t'" "ob_type o'' = ty" "ob_role o'' = Some role"
      "ob_anchor o'' = Some (ev_id e)" by (rule timed_Inr)
  have s: "start' = start" using t(1) t'(1) by simp
  have "instant (ti_due_at t') = instant (ti_due_at t)"
    using timing_Inr(5) [OF t(2)] timing_Inr(5) [OF t'(2)] by (simp add: s)
  with event_timestamp_Inr [OF t(3)] event_timestamp_Inr [OF t'(3)] have "due' = due" by simp
  with timing_later [OF t(2) t'(2) [unfolded s] assms(2)] t t' show ?thesis by simp
next
  fix jid ty st role reason e run
  assume "untimed jid ty st role p now reason e run = Inr o'"
    "untimed jid ty st role p now' reason e run = Inr o''"
  then show ?thesis by (simp add: untimed_Inr)
qed

text \<open>Time never changes what is owed, only how late it is: evaluated at a later moment over the
  same row and history, an obligation has the same type, role, anchor and deadline, its
  escalation level does not fall and its state does not move back down the ladder.\<close>

theorem obligation_only_escalates:
  assumes "derive_job_obligation ps j events now records = Inr ob"
    and "derive_job_obligation ps j events now' records = Inr ob'"
    and "instant now \<le> instant now'"
  shows "ob_type ob' = ob_type ob \<and> ob_role ob' = ob_role ob \<and> ob_anchor ob' = ob_anchor ob \<and>
    ob_due_at ob' = ob_due_at ob \<and> ob_level ob \<le> ob_level ob' \<and>
    state_rank (ob_state ob) \<le> state_rank (ob_state ob')"
proof -
  from assms(1) obtain p o' a where d: "resolve_sla ps j = Inr p"
      "derive_by_status j events p now records = Inr (o', a)"
      "with_attention events (o', a) = Inr ob" by (rule derive_Inr)
  from assms(2) obtain p' o'' a' where d': "resolve_sla ps j = Inr p'"
      "derive_by_status j events p' now' records = Inr (o'', a')"
      "with_attention events (o'', a') = Inr ob'" by (rule derive_Inr)
  from d(1) d'(1) have "p' = p" by simp
  with by_status_later [OF d(2)] d'(2) have "same_terms p now now' o' o''" by simp
  from same_terms_later [OF this assms(3)] with_attention_Inr [OF d(3)] with_attention_Inr [OF d'(3)]
  show ?thesis by simp
qed

section \<open>Intents\<close>

lemma from_obligation_own: "from_obligation t \<noteq> Some Intent_Attention"
  by (cases t) simp_all

lemma notifiable_state:
  "notifiable ob \<longleftrightarrow> ob_state ob \<in> {Due_Soon, Overdue, Escalated_L1, Escalated_L2, Escalated_L3, No_Sla_Defined}"
  by (auto simp: notifiable_def ob_is_due_soon_def ob_is_past_due_def ESCALATED_STATES_def)

lemma intents_for_cases:
  assumes "i \<in> set (intents_for sha ob)"
  obtains (own) ty where "from_obligation (ob_type ob) = Some ty" "ob_state ob \<noteq> Moot" "notifiable ob"
      "i = intent sha ty ob (ob_anchor ob) (ob_level ob)"
  | (attention) "ob_attention ob \<noteq> None" "i = intent sha Intent_Attention ob (ob_attention_event ob) 0"
  using assms
  by (cases "from_obligation (ob_type ob)") (auto simp: intents_for_def split: if_splits)

lemma intents_distinct: "distinct (map in_type (intents_for sha ob))"
  using from_obligation_own [of "ob_type ob"]
  by (cases "from_obligation (ob_type ob)") (auto simp: intents_for_def intent_def)

text \<open>An intent is addressed to the role that owes the action, or to the engineer when it is about
  a recorded conflict; nothing is said to anyone about an obligation that is within its allowance
  or moot, and each obligation raises at most one intent of each kind.\<close>

theorem intents_address_the_owing_role:
  assumes "derive_job_obligation ps j events now records = Inr ob" "i \<in> set (intents_for sha ob)"
  shows "(if in_type i = Intent_Attention then in_role i = ENGINEER \<and> ob_attention ob \<noteq> None
     else ob_role ob = Some (in_role i) \<and> from_obligation (ob_type ob) = Some (in_type i) \<and>
       ob_state ob \<notin> {Within_Sla, Moot, Nothing_Owed}) \<and>
    in_job_id i = job_id j \<and> distinct (map in_type (intents_for sha ob))"
proof -
  have d: "distinct (map in_type (intents_for sha ob))" by (rule intents_distinct)
  from assms(2) show ?thesis
  proof (cases rule: intents_for_cases)
    case (own ty)
    then have "ob_state ob \<notin> {Within_Sla, Nothing_Owed}" by (auto simp: notifiable_state)
    moreover have "ty \<noteq> Intent_Attention" using own(1) by (metis from_obligation_own)
    ultimately show ?thesis
      using own d obligation_roles [OF assms(1) own(1,2)] obligation_job [OF assms(1)]
      by (simp add: intent_def)
  next
    case attention
    with d obligation_job [OF assms(1)] show ?thesis by (simp add: intent_def)
  qed
qed

section \<open>Reading histories in bulk\<close>

text \<open>The bulk history read is the single read of each job it is asked for: however the ids are
  chunked into queries and repeated, every id asked for is a key of the answer, with exactly the
  events \<^verbatim>\<open>list_for_job\<close> returns, in commit order.\<close>

theorem bulk_history_read_agrees:
  assumes "list_for_jobs events ids = Inr found" "jid \<in> set ids"
  shows "\<exists>ss. list_for_job events jid = Inr ss \<and> map_of found jid = Some ss"
  by (rule list_for_jobs_Inr [OF assms])

section \<open>Evaluated on the run\<close>

text \<open>The approved job of the run, hours after its approval; and the same job released.\<close>

definition commit_event :: job_event where
  "commit_event = \<lparr>ev_id = ''C1'', ev_job_id = ''J1'', ev_type = BLOCK_COMMITTED,
     ev_occurred_at = run_now, ev_actor = Live run_authority, ev_reason = None,
     ev_run_id = JStr ''RUN-1'', ev_before = None, ev_after = None, ev_metadata = fmempty,
     ev_schema_version = EVENT_SCHEMA_VERSION\<rparr>"

definition release_event :: job_event where
  "release_event = commit_event\<lparr>ev_id := ''R1'', ev_type := BLOCK_RELEASED\<rparr>"

definition hours_later :: "int \<Rightarrow> datetime" where
  "hours_later h = utc (run_day + 1) (3 + h) 0"

lemma event_fields [simp]:
  "ev_id commit_event = ''C1''" "ev_type commit_event = BLOCK_COMMITTED"
  "ev_occurred_at commit_event = run_now" "ev_run_id commit_event = JStr ''RUN-1''"
  "ev_id release_event = ''R1''" "ev_type release_event = BLOCK_RELEASED"
  "ev_occurred_at release_event = run_now" "ev_run_id release_event = JStr ''RUN-1''"
  by (simp_all add: commit_event_def release_event_def)

lemma policy_fields [simp]:
  "sp_execution_start (assumed_policy a b c) = td_hours b"
  "sp_multipliers (assumed_policy a b c) = [1, 2, 4]"
  by (simp_all add: assumed_policy_def)

lemma hours_later_instant: "instant (hours_later h) = 63924606000000000 + h * 3600000000"
    "dt_offset (hours_later h) = Some 0"
  by (simp_all add: hours_later_def utc_def run_day_value instant_def)

lemma hours_later_text:
  "0 \<le> h \<Longrightarrow> h < 1000 \<Longrightarrow>
     event_timestamp (hours_later h) = Inr (isoformat_utc (63924606000000000 + h * 3600000000))"
  by (simp add: event_timestamp_ok hours_later_instant in_range_def LAST_DAY_def)

lemma run_reads:
  "fromisoformat run_now = Inr (hours_later 0)"
  "resolve_sla ASSUMED_DEMO_SLA_POLICY notified_job = Inr (assumed_policy 24 12 24)"
  "resolve_sla ASSUMED_DEMO_SLA_POLICY run_job = Inr (assumed_policy 24 12 24)"
  "proposal_run_id_of notified_job = JStr ''RUN-1''" "job_status notified_job = NOTIFIED"
  "job_status run_job = REPORTED" "job_id notified_job = ''J1''" "job_id run_job = ''J1''"
  by code_simp+

lemma run_timing:
  "timing (assumed_policy 24 12 24) (td_hours 12) (hours_later 0) (hours_later 10) =
     Inr \<lparr>ti_started_at = hours_later 0, ti_evaluated_at = hours_later 10, ti_sla = td_hours 12,
       ti_due_at = hours_later 12, ti_due_soon_at = hours_later 9, ti_elapsed = td_hours 10, ti_level = 0\<rparr>"
  "timing (assumed_policy 24 12 24) (td_hours 12) (hours_later 0) (hours_later 30) =
     Inr \<lparr>ti_started_at = hours_later 0, ti_evaluated_at = hours_later 30, ti_sla = td_hours 12,
       ti_due_at = hours_later 12, ti_due_soon_at = hours_later 9, ti_elapsed = td_hours 30, ti_level = 2\<rparr>"
  by code_simp+

definition owed_later :: "int \<Rightarrow> obligation" where
  "owed_later h = projr (derive_job_obligation ASSUMED_DEMO_SLA_POLICY notified_job [commit_event]
     (hours_later h) None)"

lemmas derivation = derive_job_obligation_def derive_by_status_def execution_start_def
  reported_def anchored_at_def timed_def untimed_def with_attention_def attention_def last_of_def
  Let_def run_reads hours_later_instant hours_later_text

lemma owed_later_10:
  "derive_job_obligation ASSUMED_DEMO_SLA_POLICY notified_job [commit_event] (hours_later 10) None
     = Inr (owed_later 10) \<and> ob_state (owed_later 10) = Due_Soon"
  unfolding owed_later_def
  by (simp add: derivation run_timing state_of_def is_past_due_def is_due_soon_def)

lemma owed_later_30:
  "derive_job_obligation ASSUMED_DEMO_SLA_POLICY notified_job [commit_event] (hours_later 30) None
     = Inr (owed_later 30) \<and> ob_state (owed_later 30) = Escalated_L2 \<and> ob_job_id (owed_later 30) = ''J1''
     \<and> ob_anchor (owed_later 30) = Some ''C1'' \<and> ob_type (owed_later 30) = Execution_Start_Pending"
  unfolding owed_later_def
  by (simp add: derivation run_timing state_of_def ESCALATED_STATES_def)

definition owed_released :: obligation where
  "owed_released = projr (derive_job_obligation ASSUMED_DEMO_SLA_POLICY run_job
     [commit_event, release_event] (hours_later 100) None)"

lemma owed_released_ok:
  "derive_job_obligation ASSUMED_DEMO_SLA_POLICY run_job [commit_event, release_event]
     (hours_later 100) None = Inr owed_released \<and> ob_state owed_released = No_Sla_Defined"
  unfolding owed_released_def
  by (simp add: derivation PLACEMENT_EVENT_TYPES_def REPLANNING_TRIGGER_EVENT_TYPES_def)

lemma obligation_follows_status_witness:
  "ob_role (owed_later 30) = Some WORKER \<and> ob_clock_started_at (owed_later 30) = Some run_now"
  using obligation_follows_status [OF conjunct1 [OF owed_later_30]]
  by (simp add: run_reads owed_def clock_events_def)

lemma withdrawal_is_no_breach_witness:
  "\<not> ob_is_past_due owed_released \<and> ob_due_at owed_released = None \<and>
   in_role ` set (intents_for run_sha owed_released) \<subseteq> {ENGINEER}"
  using withdrawal_is_no_breach [OF conjunct1 [OF owed_released_ok], of run_sha]
  by (simp add: run_reads)

lemma late_exactly_from_deadline_witness:
  "\<exists>due d. ob_due_at (owed_later 30) = Some due \<and> fromisoformat due = Inr d \<and>
     instant d \<le> instant (hours_later 30)"
proof -
  have "ob_is_past_due (owed_later 30)"
    using owed_later_30 by (simp add: ob_is_past_due_def ESCALATED_STATES_def)
  then show ?thesis
    using late_exactly_from_deadline [OF conjunct1 [OF owed_later_30] _ demo_policies_ok(2)]
    by (simp add: run_reads)
qed

lemma obligation_only_escalates_witness:
  "ob_level (owed_later 10) \<le> ob_level (owed_later 30) \<and>
   ob_due_at (owed_later 30) = ob_due_at (owed_later 10)"
  using obligation_only_escalates [OF conjunct1 [OF owed_later_10] conjunct1 [OF owed_later_30]]
  by (simp add: hours_later_instant)

lemma intents_address_the_owing_role_witness:
  "\<exists>i \<in> set (intents_for run_sha (owed_later 30)). in_type i = Intent_Execution_Start \<and>
     ob_role (owed_later 30) = Some (in_role i) \<and> in_job_id i = ''J1''"
proof -
  let ?i = "intent run_sha Intent_Execution_Start (owed_later 30) (Some ''C1'') (ob_level (owed_later 30))"
  have i: "?i \<in> set (intents_for run_sha (owed_later 30))"
    using owed_later_30 by (simp add: intents_for_def notifiable_state)
  moreover have t: "in_type ?i = Intent_Execution_Start" by (simp add: intent_def)
  ultimately show ?thesis
    using intents_address_the_owing_role [OF conjunct1 [OF owed_later_30] i]
    by (auto simp: run_reads)
qed

lemma row_to_event_commit: "row_to_event commit_event = Inr commit_event"
  by code_simp

lemma bulk_history_read_agrees_witness:
  "\<exists>found ss. list_for_jobs [commit_event] [''J1'', ''J2'', ''J1''] = Inr found \<and>
     list_for_job [commit_event] ''J1'' = Inr ss \<and> map_of found ''J1'' = Some ss \<and> length ss = 1"
proof -
  let ?s = "\<lparr>sj_sequence = 1, sj_event = commit_event\<rparr>"
  have s: "stored_of (1, commit_event) = Inr ?s" "ev_job_id commit_event = ''J1''"
    using row_to_event_commit by (simp_all add: stored_of_def commit_event_def)
  have "list_for_jobs [commit_event] [''J1'', ''J2'', ''J1''] = Inr [(''J1'', [?s]), (''J2'', [])]"
    using s by (simp add: list_for_jobs_def dict_keys_def chunks.simps CHUNK_SIZE_def found_append_def)
  moreover have "list_for_job [commit_event] ''J1'' = Inr [?s]"
    using s by (simp add: list_for_job_def select_events_def)
  ultimately show ?thesis
    using bulk_history_read_agrees [of "[commit_event]" "[''J1'', ''J2'', ''J1'']" _ "''J1''"] by auto
qed

end
