(* ===== verification/Obligation_Path.thy ===== *)
theory Obligation_Path
  imports Accountability Transactions Record_Properties
begin

text \<open>
  Obligations over the job table: what a decision written by a transaction does to the
  obligation that is derived, from the stored row and the stored history, right after it.
\<close>

section \<open>Reading back one event\<close>

lemma row_to_event_fields:
  assumes "row_to_event e = Inr x"
  shows "ev_id x = ev_id e" "ev_job_id x = ev_job_id e" "ev_type x = ev_type e"
    "ev_occurred_at x = ev_occurred_at e" "ev_run_id x = ev_run_id e" "ev_metadata x = ev_metadata e"
  using assms
  by (auto simp: row_to_event_def event_from_dict_def event_to_dict_def dict_reads bind_res_Inr_iff
      check_event_iff metadata_of_def)

lemma stored_of_fields:
  assumes "stored_of (n, e) = Inr s"
  shows "ev_id (sj_event s) = ev_id e" "ev_type (sj_event s) = ev_type e"
    "ev_occurred_at (sj_event s) = ev_occurred_at e" "ev_run_id (sj_event s) = ev_run_id e"
  using assms row_to_event_fields by (auto simp: stored_of_def bind_res_Inr_iff)

lemma map_res_snoc:
  "map_res f (xs @ [x]) = Inr ys \<longleftrightarrow> (\<exists>zs y. map_res f xs = Inr zs \<and> f x = Inr y \<and> ys = zs @ [y])"
proof (induction xs arbitrary: ys)
  case Nil
  then show ?case by (auto simp: bind_res_Inr_iff)
next
  case (Cons a xs)
  then show ?case by (fastforce simp: bind_res_Inr_iff)
qed

text \<open>The history of a job after one more of its events.\<close>

lemma list_for_job_snoc:
  assumes "list_for_job (es @ [e]) jid = Inr ss" "ev_job_id e = jid"
  obtains zs s where "ss = zs @ [s]" "ev_id (sj_event s) = ev_id e" "ev_type (sj_event s) = ev_type e"
    "ev_occurred_at (sj_event s) = ev_occurred_at e" "ev_run_id (sj_event s) = ev_run_id e"
proof -
  let ?rows = "\<lambda>xs. filter (\<lambda>(n, e). ev_job_id e = jid) (enumerate 1 xs)"
  have "?rows (es @ [e]) = ?rows es @ [(1 + length es, e)]"
    using assms(2) by (simp add: enumerate_append_eq)
  with assms(1) have "map_res stored_of (?rows es @ [(1 + length es, e)]) = Inr ss"
    by (simp only: list_for_job_def select_events_def)
  then obtain zs s where "ss = zs @ [s]" "stored_of (1 + length es, e) = Inr s"
    unfolding map_res_snoc by blast
  from stored_of_fields [OF this(2)] this(1) show thesis by (intro that) simp_all
qed

section \<open>One decision\<close>

lemma single_transaction:
  assumes "mutate_jobs d [jid] plan rt = Inr d'" "get d' jid = Some j'"
  obtains j ms es where "get d jid = Some j" "plan (rows_of d jid) = Inr (ms, es)"
    "db_events d' = db_events d @ es" "\<forall>m. ms = [m] \<and> mut_job_id m = jid \<longrightarrow> j' = as_job m j"
proof -
  from assms(1) obtain rows ms es where t: "read_rows d [jid] = Inr rows" "plan rows = Inr (ms, es)"
      "db_rows d' = fold update_row ms (db_rows d)" "db_events d' = db_events d @ es"
    by (rule mutate_jobs_Inr)
  from t(1) have rows: "rows = rows_of d jid" and "\<exists>j. get d jid = Some j"
    by (auto simp: read_rows_Inr rows_of_def fun_eq_iff)
  then obtain j where j: "get d jid = Some j" by blast
  show thesis
  proof (rule that [OF j])
    show "\<forall>m. ms = [m] \<and> mut_job_id m = jid \<longrightarrow> j' = as_job m j"
      using t(3) assms(2) j by (auto simp: get_def get_row_update_row)
  qed (use t rows in simp_all)
qed

lemma plan_commit_Inr:
  assumes "plan_commit env jid who now expected rows = Inr (ms, es)" "rows jid = Some j" "job_id j = jid"
  obtains m e where "ms = [m]" "es = [e]" "mut_job_id m = jid" "mut_status m = NOTIFIED"
    "metadata_of (mut_block m) = metadata_of (job_block j)" "ev_type e = BLOCK_COMMITTED"
    "ev_job_id e = jid" "ev_run_id e = proposal_run_id_of j"
  using assms
  by (auto simp: plan_commit_def bind_res_Inr_iff Let_def unchanged_def made_event dest!: made_event
      split: if_splits)

text \<open>Approval passes the obligation on: after a transaction that commits a proposal, the obligation
  derived from the stored row and history is no longer the authority's decision but the worker's
  start, and its clock runs from the very event the approval wrote.\<close>

theorem approval_starts_execution_clock:
  assumes "mutate_jobs d [jid] (plan_commit env jid who now expected) rt = Inr d'"
    and "get d' jid = Some j'" "list_for_job (db_events d') jid = Inr ss"
    and "derive_job_obligation ps j' (map sj_event ss) t None = Inr ob"
  shows "\<exists>e. db_events d' = db_events d @ [e] \<and> ev_type e = BLOCK_COMMITTED \<and>
    ob_type ob = Execution_Start_Pending \<and> ob_role ob = Some WORKER \<and>
    ob_anchor ob = Some (ev_id e) \<and> ob_clock_started_at ob = Some (ev_occurred_at e)"
proof -
  from assms(1,2) obtain j ms es where row: "get d jid = Some j"
    and plan: "plan_commit env jid who now expected (rows_of d jid) = Inr (ms, es)"
    and h: "db_events d' = db_events d @ es"
    and j': "\<forall>m. ms = [m] \<and> mut_job_id m = jid \<longrightarrow> j' = as_job m j" by (rule single_transaction)
  have jid: "job_id j = jid" using get_Some [OF row] by simp
  from plan obtain m e where m: "ms = [m]" "es = [e]" "mut_job_id m = jid" "mut_status m = NOTIFIED"
      "metadata_of (mut_block m) = metadata_of (job_block j)"
    and e: "ev_type e = BLOCK_COMMITTED" "ev_job_id e = jid" "ev_run_id e = proposal_run_id_of j"
    by (rule plan_commit_Inr) (use row jid in \<open>auto simp: rows_of_def\<close>)
  from j' m have j'_eq: "j' = as_job m j" by simp
  then have st: "job_status j' = NOTIFIED" and run: "proposal_run_id_of j' = proposal_run_id_of j"
    by (simp_all add: m proposal_run_id_of_def)
  from assms(3) obtain zs s where s: "ss = zs @ [s]" "ev_id (sj_event s) = ev_id e"
      "ev_type (sj_event s) = ev_type e" "ev_occurred_at (sj_event s) = ev_occurred_at e"
      "ev_run_id (sj_event s) = ev_run_id e"
    unfolding h m(2) by (rule list_for_job_snoc [OF _ e(2)])
  from assms(4) obtain p o' anchor where d: "derive_by_status j' (map sj_event ss) p t None = Inr (o', anchor)"
      "with_attention (map sj_event ss) (o', anchor) = Inr ob" by (rule derive_Inr)
  from d(1) have "execution_start j' (map sj_event ss) p t = Inr (o', anchor)"
    by (simp add: derive_by_status_def st)
  then have "timed (job_id j') Execution_Start_Pending WORKER p (sp_execution_start p) (sj_event s) t
      Execution_Awaiting_Start (proposal_run_id_of j') = Inr o'"
    by (rule execution_start_Inr) (simp add: s e run)
  then show ?thesis
    by (rule timed_Inr) (use with_attention_Inr [OF d(2)] s e h m in auto)
qed

section \<open>A release\<close>

lemma plan_release_Inr:
  assumes "plan_release env jid who now reason expected horizon = Inr p" "p rows = Inr (ms, es)"
    and "rows jid = Some j" "job_id j = jid"
  obtains m e where "ms = [m]" "es = [e]" "mut_job_id m = jid" "mut_status m = REPORTED"
    "ev_type e = BLOCK_RELEASED" "ev_job_id e = jid" "ev_run_id e = proposal_run_id_of j"
    "metadata_of (mut_block m) = metadata_of (without_placement (job_block j))"
  using assms
  by (auto simp: plan_release_def bind_res_Inr_iff Let_def withdrawn_def unchanged_def
      raise_not_before_Inr(9) dest!: made_event split: if_splits)

lemma events_after_snoc:
  assumes "ev_id p \<in> ev_id ` set es"
  obtains rest where "events_after p (es @ [e]) = Inr (rest @ [e])"
  using assms
proof (induction es arbitrary: thesis)
  case (Cons x es)
  show ?case
  proof (cases "ev_id x = ev_id p")
    case True
    with Cons.prems(1) show ?thesis by (metis append_Cons events_after.simps(2))
  next
    case False
    with Cons.prems(2) have "ev_id p \<in> ev_id ` set es" by auto
    then obtain rest where "events_after p (es @ [e]) = Inr (rest @ [e])" using Cons.IH by blast
    with Cons.prems(1) False show ?thesis by simp
  qed
qed simp

lemma last_of_snoc:
  "last_of ts (es @ [e]) = (if ev_type e \<in> set ts then Some e else last_of ts es)"
  by (simp add: last_of_def)

lemma last_of_in: "last_of ts es = Some e \<Longrightarrow> e \<in> set es"
  by (auto simp: last_of_def dest: find_Some_in)

lemma reported_after_release:
  assumes "ev_type e = BLOCK_RELEASED" "reported j (es @ [e]) p now = Inr (o', anchor)"
  shows "untimed (job_id j) Replanning_Pending No_Sla_Defined (Some ENGINEER) p now
    Replanning_After_Release (Some e) (ev_run_id e) = Inr o'"
proof -
  have p: "last_of PLACEMENT_EVENT_TYPES (es @ [e]) = last_of PLACEMENT_EVENT_TYPES es"
    using assms(1) by (simp add: last_of_snoc PLACEMENT_EVENT_TYPES_def)
  obtain rest where since: "(case last_of PLACEMENT_EVENT_TYPES es of None \<Rightarrow> Inr (es @ [e])
      | Some q \<Rightarrow> events_after q (es @ [e])) = Inr (rest @ [e])"
  proof (cases "last_of PLACEMENT_EVENT_TYPES es")
    case (Some q)
    then have "ev_id q \<in> ev_id ` set es" by (auto dest: last_of_in)
    then obtain rest where "events_after q (es @ [e]) = Inr (rest @ [e])" by (rule events_after_snoc)
    with Some that show ?thesis by simp
  qed simp
  have "last_of REPLANNING_TRIGGER_EVENT_TYPES (rest @ [e]) = Some e"
    using assms(1) by (simp add: last_of_snoc REPLANNING_TRIGGER_EVENT_TYPES_def)
  with assms since show ?thesis
    by (simp add: reported_def p Let_def anchored_at_Inr)
qed

text \<open>Releasing an approved block asks for replanning and accuses nobody: the obligation derived
  right after the transaction is the engineer's, has no deadline, and names the release event as
  its cause.\<close>

theorem release_asks_for_replanning:
  assumes "plan_release env jid who now reason expected horizon = Inr p"
    and "mutate_jobs d [jid] p rt = Inr d'"
    and "get d' jid = Some j'" "list_for_job (db_events d') jid = Inr ss"
    and "derive_job_obligation ps j' (map sj_event ss) t None = Inr ob"
  shows "\<exists>e. db_events d' = db_events d @ [e] \<and> ev_type e = BLOCK_RELEASED \<and>
    ob_type ob = Replanning_Pending \<and> ob_role ob = Some ENGINEER \<and>
    ob_anchor ob = Some (ev_id e) \<and> ob_reason ob = Replanning_After_Release \<and> ob_due_at ob = None"
proof -
  from assms(2,3) obtain j ms es where row: "get d jid = Some j"
    and plan: "p (rows_of d jid) = Inr (ms, es)"
    and h: "db_events d' = db_events d @ es"
    and j': "\<forall>m. ms = [m] \<and> mut_job_id m = jid \<longrightarrow> j' = as_job m j" by (rule single_transaction)
  have jid: "job_id j = jid" using get_Some [OF row] by simp
  from assms(1) plan obtain m e where m: "ms = [m]" "es = [e]" "mut_job_id m = jid" "mut_status m = REPORTED"
    and e: "ev_type e = BLOCK_RELEASED" "ev_job_id e = jid"
    by (rule plan_release_Inr) (use row jid in \<open>auto simp: rows_of_def\<close>)
  from j' m have st: "job_status j' = REPORTED" by simp
  from assms(4) obtain zs s where s: "ss = zs @ [s]" "ev_id (sj_event s) = ev_id e"
      "ev_type (sj_event s) = ev_type e"
    unfolding h m(2) by (rule list_for_job_snoc [OF _ e(2)])
  from assms(5) obtain pol o' anchor where
      d: "derive_by_status j' (map sj_event ss) pol t None = Inr (o', anchor)"
      "with_attention (map sj_event ss) (o', anchor) = Inr ob" by (rule derive_Inr)
  from d(1) have "reported j' (map sj_event zs @ [sj_event s]) pol t = Inr (o', anchor)"
    by (simp add: derive_by_status_def st s)
  from untimed_Inr [OF reported_after_release [OF _ this]] s(3) e(1)
  have "ob_type o' = Replanning_Pending" "ob_role o' = Some ENGINEER" "ob_due_at o' = None"
    "ob_anchor o' = Some (ev_id e)" "ob_reason o' = Replanning_After_Release"
    by (simp_all add: s(2))
  with with_attention_Inr [OF d(2)] h m e show ?thesis by simp
qed

section \<open>On the run\<close>

lemma stored_single:
  assumes "event_ok e" "ev_actor e = Live a" "actor_ok False a" "actor_assurance a \<noteq> AUTHENTICATED"
    "ev_job_id e = jid"
  shows "list_for_job [e] jid = Inr [\<lparr>sj_sequence = 1, sj_event = e\<rparr>]"
proof -
  have "stored_event e = e" using assms(2,4) by (simp add: stored_event_def stored_actor_def)
  with event_stored [OF assms(1-3)] have "row_to_event e = Inr e" by (simp add: row_to_event_def)
  with assms(5) show ?thesis by (simp add: list_for_job_def select_events_def stored_of_def)
qed

lemma run_authority_ok: "actor_ok False run_authority" "actor_assurance run_authority \<noteq> AUTHENTICATED"
  by code_simp+

lemma run_severity:
  "dget (metadata_of (job_block j)) ''reported_severity'' = JNull \<Longrightarrow>
     resolve_sla ASSUMED_DEMO_SLA_POLICY j = Inr (assumed_policy 24 12 24)"
  by (simp add: resolve_sla_def for_severity_def ASSUMED_DEMO_SLA_POLICY_def)

lemma derive_notified:
  assumes "job_status j = NOTIFIED" "proposal_run_id_of j = JStr ''RUN-1''"
    "resolve_sla ASSUMED_DEMO_SLA_POLICY j = Inr (assumed_policy 24 12 24)"
    "ev_type e = BLOCK_COMMITTED" "ev_run_id e = JStr ''RUN-1''" "ev_occurred_at e = run_now"
  shows "\<exists>ob. derive_job_obligation ASSUMED_DEMO_SLA_POLICY j [e] (hours_later 10) None = Inr ob"
  using assms by (simp add: derivation run_timing)

lemma derive_released:
  assumes "job_status j = REPORTED"
    "resolve_sla ASSUMED_DEMO_SLA_POLICY j = Inr (assumed_policy 24 12 24)"
    "ev_type e = BLOCK_RELEASED"
  shows "\<exists>ob. derive_job_obligation ASSUMED_DEMO_SLA_POLICY j [e] (hours_later 10) None = Inr ob"
  using assms
  by (simp add: derivation PLACEMENT_EVENT_TYPES_def REPLANNING_TRIGGER_EVENT_TYPES_def)

lemma approval_starts_execution_clock_witness:
  "\<exists>d d' j' ss ob. mutate_jobs d [''J1''] (plan_commit (run_env ''C'') ''J1'' run_authority run_now
       (Some ''RUN-1'')) True = Inr d' \<and> get d' ''J1'' = Some j' \<and>
     list_for_job (db_events d') ''J1'' = Inr ss \<and>
     derive_job_obligation ASSUMED_DEMO_SLA_POLICY j' (map sj_event ss) (hours_later 10) None = Inr ob \<and>
     ob_type ob = Execution_Start_Pending"
proof -
  let ?plan = "plan_commit (run_env ''C'') ''J1'' run_authority run_now (Some ''RUN-1'')"
  define d where "d = \<lparr>db_rows = [scheduled_job], db_events = []\<rparr>"
  have row: "get d ''J1'' = Some scheduled_job" "job_id scheduled_job = ''J1''"
    by (simp_all add: d_def get_def get_row_def scheduled_job_def run_facts)
  have rows: "rows_of d ''J1'' = only_row scheduled_job"
    using row by (auto simp: rows_of_def only_row_def fun_eq_iff)
  from plan_okD [OF run_commit_plan] obtain ms es where plan: "?plan (rows_of d ''J1'') = Inr (ms, es)"
    by (auto simp: rows)
  have ok: "row_ok scheduled_job" "\<not> dhas (metadata_of (job_block scheduled_job)) EXECUTION_ID_KEY"
    by code_simp+
  from commit_accepted [OF plan [folded row(2)] _ ok] row obtain m e where
      m: "ms = [m]" "es = [e]" "validate_mutation scheduled_job m = Inr ()" "tokenless ms es"
        "ev_type e = BLOCK_COMMITTED" "ev_actor e = Live run_authority"
    by (auto simp: rows_of_def)
  from plan obtain m' e' where m': "ms = [m']" "es = [e']" "mut_job_id m' = ''J1''" "mut_status m' = NOTIFIED"
      "metadata_of (mut_block m') = metadata_of (job_block scheduled_job)" "ev_job_id e' = ''J1''"
      "ev_run_id e' = proposal_run_id_of scheduled_job"
    by (rule plan_commit_Inr) (use row in \<open>auto simp: rows_of_def\<close>)
  have e: "ev_occurred_at e = run_now" "event_ok e"
    using plan m(1,2) start_step_7(2)
    by (auto simp: plan_commit_def bind_res_Inr_iff Let_def make_event_def check_event_iff
        split: if_splits)
  from mutate_one_event [where plan = ?plan and rt = True, OF row(1) plan [unfolded m(1,2)] _ m(3)
      tokenless_events_ok [OF m(4) [unfolded m(1,2)]] m(6)] m'(1,3) m(1)
  obtain d' where d': "mutate_jobs d [''J1''] ?plan True = Inr d'" "get d' ''J1'' = Some (as_job m scheduled_job)"
      "db_events d' = [e]" by (auto simp: d_def)
  have h: "list_for_job (db_events d') ''J1'' = Inr [\<lparr>sj_sequence = 1, sj_event = e\<rparr>]"
    unfolding d'(3) using m m' by (intro stored_single [OF e(2) m(6) run_authority_ok]) simp
  have run: "proposal_run_id_of scheduled_job = JStr ''RUN-1''"
    "dget (metadata_of (job_block scheduled_job)) ''reported_severity'' = JNull" by code_simp+
  from derive_notified [of "as_job m scheduled_job" e] obtain ob where
    "derive_job_obligation ASSUMED_DEMO_SLA_POLICY (as_job m scheduled_job) [e] (hours_later 10) None = Inr ob"
    using m m' run e(1) run_severity by (auto simp: proposal_run_id_of_def)
  then have ob: "derive_job_obligation ASSUMED_DEMO_SLA_POLICY (as_job m scheduled_job)
      (map sj_event [\<lparr>sj_sequence = 1, sj_event = e\<rparr>]) (hours_later 10) None = Inr ob" by simp
  from approval_starts_execution_clock [OF d'(1,2) h ob] have "ob_type ob = Execution_Start_Pending"
    by blast
  with d'(1,2) h ob show ?thesis by blast
qed

text \<open>The release of the approved block, on a table with that one row.\<close>

text \<open>The released block of the run: its transaction, its row and its stored history.\<close>

lemma run_released:
  obtains d p d' m e where
    "plan_release (run_env ''L'') ''J1'' run_authority run_now ''train path'' ''RUN-1'' 1440 = Inr p"
    "mutate_jobs d [''J1''] p True = Inr d'" "get d' ''J1'' = Some (as_job m notified_job)"
    "list_for_job (db_events d') ''J1'' = Inr [\<lparr>sj_sequence = 1, sj_event = e\<rparr>]"
    "ev_type e = BLOCK_RELEASED" "mut_status m = REPORTED"
    "metadata_of (mut_block m) = metadata_of (without_placement (job_block notified_job))"
proof -
  define d where "d = \<lparr>db_rows = [notified_job], db_events = []\<rparr>"
  have row: "get d ''J1'' = Some notified_job" "job_id notified_job = ''J1''"
    by (simp_all add: d_def get_def get_row_def run_facts)
  have rows: "rows_of d ''J1'' = only_row notified_job"
    using row by (auto simp: rows_of_def only_row_def fun_eq_iff)
  from plan_okD [OF run_release_plan] obtain p ms es where plan:
    "plan_release (run_env ''L'') ''J1'' run_authority run_now ''train path'' ''RUN-1'' 1440 = Inr p"
    "p (rows_of d ''J1'') = Inr (ms, es)"
    by (auto simp: rows)
  from release_accepted [OF plan(1) [folded row(2)] plan(2) [unfolded row(2) [symmetric]]] row
  obtain m e where m: "ms = [m]" "es = [e]" "validate_mutation notified_job m = Inr ()"
      "validate_execution_events ms es = Inr ()" "validate_release_events ms es = Inr ()"
      "ev_type e = BLOCK_RELEASED" "ev_actor e = Live run_authority" "returned notified_job m"
    by (auto simp: rows_of_def)
  from plan obtain m' e' where m': "ms = [m']" "es = [e']" "mut_job_id m' = ''J1''" "mut_status m' = REPORTED"
      "ev_job_id e' = ''J1''"
      "metadata_of (mut_block m') = metadata_of (without_placement (job_block notified_job))"
    by (rule plan_release_Inr) (use row in \<open>auto simp: rows_of_def\<close>)
  have ok: "event_ok e"
    using plan m(1,2)
    by (auto simp: plan_release_def bind_res_Inr_iff Let_def dest!: made_event split: if_splits)
  from mutate_one_event [where plan = p and rt = True, OF row(1) plan(2) [unfolded m(1,2)] _ m(3)
      m(4,5) [unfolded m(1,2)] m(7)] m'(1,3) m(1)
  obtain d' where d': "mutate_jobs d [''J1''] p True = Inr d'" "get d' ''J1'' = Some (as_job m notified_job)"
      "db_events d' = [e]" by (auto simp: d_def)
  have h: "list_for_job (db_events d') ''J1'' = Inr [\<lparr>sj_sequence = 1, sj_event = e\<rparr>]"
    unfolding d'(3) using m m' by (intro stored_single [OF ok m(7) run_authority_ok]) simp
  show thesis
    by (rule that [OF plan(1) d'(1,2) h]) (use m m' in simp_all)
qed

lemma release_asks_for_replanning_witness:
  "\<exists>d p d' j' ss ob. mutate_jobs d [''J1''] p True = Inr d' \<and> get d' ''J1'' = Some j' \<and>
     list_for_job (db_events d') ''J1'' = Inr ss \<and>
     derive_job_obligation ASSUMED_DEMO_SLA_POLICY j' (map sj_event ss) (hours_later 10) None = Inr ob \<and>
     ob_type ob = Replanning_Pending"
proof -
  obtain d p d' m e where
    t: "plan_release (run_env ''L'') ''J1'' run_authority run_now ''train path'' ''RUN-1'' 1440 = Inr p"
    "mutate_jobs d [''J1''] p True = Inr d'" "get d' ''J1'' = Some (as_job m notified_job)"
    "list_for_job (db_events d') ''J1'' = Inr [\<lparr>sj_sequence = 1, sj_event = e\<rparr>]"
    and m: "ev_type e = BLOCK_RELEASED" "mut_status m = REPORTED"
    "metadata_of (mut_block m) = metadata_of (without_placement (job_block notified_job))"
    by (rule run_released)
  have "dget (metadata_of (job_block notified_job)) ''reported_severity'' = JNull" by code_simp
  with m have "dget (metadata_of (mut_block m)) ''reported_severity'' = JNull"
    by (simp add: metadata_of_without_placement)
  then obtain ob where
    "derive_job_obligation ASSUMED_DEMO_SLA_POLICY (as_job m notified_job) [e] (hours_later 10) None = Inr ob"
    using derive_released [of "as_job m notified_job" e] m run_severity by auto
  then have ob: "derive_job_obligation ASSUMED_DEMO_SLA_POLICY (as_job m notified_job)
      (map sj_event [\<lparr>sj_sequence = 1, sj_event = e\<rparr>]) (hours_later 10) None = Inr ob" by simp
  from release_asks_for_replanning [OF t ob] have "ob_type ob = Replanning_Pending" by blast
  with t ob show ?thesis by blast
qed

end
