(* ===== verification/Proposal_Properties.thy ===== *)
theory Proposal_Properties
  imports Proposals Obligation_Path Execution_Plan_Facts
begin

text \<open>
  The proposal a person reviews against what is written when they decide: the digest of the proposal
  is the digest execution will capture, and a withdrawn proposal is attributed to the person who
  withdrew it.
\<close>

section \<open>The digest\<close>

lemma latest_placement_event_Inr:
  assumes "latest_placement_event jid run es = Inr e"
  shows "e \<in> set es \<and> ev_run_id e = JStr run \<and> ev_type e \<in> set PROPOSAL_PLACEMENT_EVENTS"
proof -
  let ?xs = "filter (\<lambda>e. ev_run_id e = JStr run \<and> ev_type e \<in> set PROPOSAL_PLACEMENT_EVENTS) es"
  from assms have "?xs \<noteq> []" "e = last ?xs" by (auto simp: latest_placement_event_def Let_def split: if_splits)
  with last_in_set [of ?xs] show ?thesis by auto
qed

lemma build_block_proposal_Inr:
  assumes "build_block_proposal j corridor events run = Inr p"
  shows "proposal_run_id_of j = JStr (bp_run_id p)" "bp_id p = proposal_id_for (bp_run_id p) (job_id j)"
    "bp_job_id p = job_id j" "bp_corridor p = corridor" "bp_track p = job_track_id j"
    "bp_section p = dget (job_block j) ''section_id''" "job_start j = Some (bp_start p)"
    "job_end j = Some (bp_end p)" "bp_duration p = bp_end p - bp_start p"
    "bp_work_type p = job_work_type j"
    "\<exists>e \<in> set events. ev_type e \<in> set PROPOSAL_PLACEMENT_EVENTS \<and> ev_run_id e = JStr (bp_run_id p) \<and>
       bp_generated_at p = ev_occurred_at e"
  using assms
  by (auto simp: build_block_proposal_def bind_res_Inr_iff int_of_column_def
      split: json.splits option.splits dest!: latest_placement_event_Inr)

lemma current_proposal_Inr:
  assumes "current_proposal_of runs corridor events j = Inr p"
  obtains run history where "job_status j = SCHEDULED" "get_run runs (bp_run_id p) = Some run"
    "list_for_job events (job_id j) = Inr history"
    "build_block_proposal j corridor (map sj_event history) run = Inr p"
proof -
  from assms obtain rid run history where h: "job_status j = SCHEDULED" "proposal_run_id_of j = JStr rid"
      "get_run runs rid = Some run" "list_for_job events (job_id j) = Inr history"
      "build_block_proposal j corridor (map sj_event history) run = Inr p"
    by (auto simp: current_proposal_of_def bind_res_Inr_iff bind_res_Inl_iff
        split: if_splits option.splits json.splits)
  from build_block_proposal_Inr(1) [OF h(5)] h(2) have "rid = bp_run_id p" by simp
  with h that show thesis by simp
qed

text \<open>What a start captures is the digest of the row it starts from, for the run of its proposal.\<close>

lemma started_digest:
  assumes "plan_execution_start env sha hex jid who now r rows = Inr (ms, es)" "rows jid = Some j"
    "proposal_run_id_of j = JStr run" "committed_block_digest sha j (xs_corridor r) run = Inr digest"
  shows "xs_expected r = run \<and>
    (\<exists>ev. es = [ev] \<and> ev_type ev = EXECUTION_STARTED \<and> dget (ev_metadata ev) ''committed_block_digest'' = JStr digest)"
proof -
  from assms(1) obtain j' t minute s e dg start_at ev where h: "rows jid = Some j'" "start_checks j' who r = Inr ()"
      "committed_block_digest sha j' (xs_corridor r) (xs_expected r) = Inr dg" "es = [ev]" "ev_type ev = EXECUTION_STARTED"
      "ev_metadata ev = start_metadata j' r s e dg start_at minute (record_evidence hex 0 (xs_evidence r) BEFORE_WORK)"
    by (rule plan_execution_start_Inr)
  from start_checks_Inr(7) [OF h(2)] h(1) assms(2,3) have "j' = j" "xs_expected r = run" by auto
  with h(3-5) assms(4) start_metadata_reads(10) [OF h(6)] show ?thesis by auto
qed

text \<open>C21: The digest a reviewer sees is the digest of the work: the digest of the current proposal is the
  committed-block digest of its job, and stays so through approval; and whenever work starts from the row as
  approved, in the corridor it was reviewed in, the start names the run of that proposal, and the digest its
  event captures is the digest of the proposal the authority approved.\<close>

theorem approved_digest_is_reviewed_digest:
  assumes "current_proposal_of runs corridor events j = Inr p"
    and "plan_commit env (job_id j) who now expected rows = Inr (ms, es)" "rows (job_id j) = Some j"
  shows "committed_block_digest sha j corridor (bp_run_id p) = Inr (proposal_digest sha p) \<and>
    (\<exists>m. ms = [m] \<and> proposal_run_id_of (as_job m j) = JStr (bp_run_id p) \<and>
       committed_block_digest sha (as_job m j) corridor (bp_run_id p) = Inr (proposal_digest sha p) \<and>
       (\<forall>env' hex worker now' r rows' ms' es'.
          plan_execution_start env' sha hex (job_id j) worker now' r rows' = Inr (ms', es') \<and>
          rows' (job_id j) = Some (as_job m j) \<and> xs_corridor r = corridor \<longrightarrow>
          xs_expected r = bp_run_id p \<and>
          (\<exists>ev. es' = [ev] \<and> ev_type ev = EXECUTION_STARTED \<and>
             dget (ev_metadata ev) ''committed_block_digest'' = JStr (proposal_digest sha p))))"
proof -
  from assms(1) obtain run and history :: "stored_job_event list"
    where "build_block_proposal j corridor (map sj_event history) run = Inr p"
    by (rule current_proposal_Inr)
  note b = build_block_proposal_Inr [OF this]
  from assms(2,3) obtain m e where m: "ms = [m]" "mut_block m = committed_edit (job_block j)"
      "mut_start m = job_start j" "mut_end m = job_end j"
    by (auto simp: plan_commit_def need_row_def bind_res_Inr_iff Let_def unchanged_def
        dest!: made_event split: if_splits)
  then have d: "committed_block_digest sha j corridor (bp_run_id p) = Inr (proposal_digest sha p)"
      "proposal_run_id_of (as_job m j) = JStr (bp_run_id p)"
      "committed_block_digest sha (as_job m j) corridor (bp_run_id p) = Inr (proposal_digest sha p)"
    by (simp_all add: committed_block_digest_def proposal_digest_def b int_of_column_def as_job_def
        committed_edit_def proposal_run_id_of_def flip: b(1))
  show ?thesis
  proof (intro conjI d exI [of _ m] m allI impI)
    fix env' hex worker now' r rows' ms' es'
    assume st: "plan_execution_start env' sha hex (job_id j) worker now' r rows' = Inr (ms', es') \<and>
      rows' (job_id j) = Some (as_job m j) \<and> xs_corridor r = corridor"
    have "committed_block_digest sha (as_job m j) (xs_corridor r) (bp_run_id p) = Inr (proposal_digest sha p)"
      using st d(3) by simp
    with started_digest [OF conjunct1 [OF st] conjunct1 [OF conjunct2 [OF st]] d(2)]
    show "xs_expected r = bp_run_id p" "\<exists>ev. es' = [ev] \<and> ev_type ev = EXECUTION_STARTED \<and>
        dget (ev_metadata ev) ''committed_block_digest'' = JStr (proposal_digest sha p)" by blast+
  qed
qed

section \<open>A proposal on the run\<close>

definition proposed_event :: job_event where
  "proposed_event = run_started_event\<lparr>ev_type := BLOCK_PROPOSED, ev_actor := Live OPTIMIZER,
     ev_metadata := dict_of [(''start_minute'', JInt 60), (''end_minute'', JInt 120)]\<rparr>"

definition proposing_run :: run_record where
  "proposing_run = \<lparr>run_id = ''RUN-1'', run_actor = SYSTEM_ACTOR, run_trigger = ''jobs_optimize'',
     run_corridor = Some ''A'', run_requested_at = run_now, run_completed_at = run_now,
     run_status = ''OPTIMAL'', run_solve_time = None, run_request = fmempty, run_result = None,
     run_provenance = Some (dict_of [(''provenance'', JObj (profile_to_dict
       \<lparr>pv_topology = REAL_STATIC, pv_timetable = SYNTHETIC, pv_asset_condition = SYNTHETIC,
        pv_possession = SYNTHETIC\<rparr>))]), run_error = None\<rparr>"

lemma proposed_event_ok: "event_ok proposed_event"
  using start_step_7(1) by (simp add: event_ok_def proposed_event_def run_started_event_def Let_def)

lemma proposed_stored: "list_for_job [proposed_event] ''J1'' = Inr [\<lparr>sj_sequence = 1, sj_event = proposed_event\<rparr>]"
proof (rule stored_single)
  show "event_ok proposed_event" by (rule proposed_event_ok)
  show "ev_actor proposed_event = Live OPTIMIZER" by (simp add: proposed_event_def)
  show "actor_ok False OPTIMIZER" by simp
  show "actor_assurance OPTIMIZER \<noteq> AUTHENTICATED" by (simp add: OPTIMIZER_def)
  show "ev_job_id proposed_event = ''J1''" by (simp add: proposed_event_def run_started_event_def Let_def)
qed

lemma proposed_profile: "\<exists>x. run_provenance_profile proposing_run = Inr x"
  by (simp add: run_provenance_profile_def proposing_run_def need_def dhas_def dget_def dict_of_def
      profile_roundtrip)

lemma run_has_proposal:
  "\<exists>p. current_proposal_of [proposing_run] ''A'' [proposed_event] scheduled_job = Inr p \<and> bp_run_id p = ''RUN-1''"
proof -
  have j: "job_id scheduled_job = ''J1''" "job_status scheduled_job = SCHEDULED"
      "proposal_run_id_of scheduled_job = JStr ''RUN-1''" "job_start scheduled_job = Some 60"
      "job_end scheduled_job = Some 120"
    by code_simp+
  have e: "ev_run_id proposed_event = JStr ''RUN-1''" "ev_type proposed_event = BLOCK_PROPOSED"
      "ev_metadata proposed_event = dict_of [(''start_minute'', JInt 60), (''end_minute'', JInt 120)]"
    by (simp_all add: proposed_event_def run_started_event_def Let_def)
  have g: "get_run [proposing_run] ''RUN-1'' = Some proposing_run"
    by (simp add: get_run_def proposing_run_def)
  obtain x where x: "run_provenance_profile proposing_run = Inr x" using proposed_profile ..
  show ?thesis
    by (simp add: current_proposal_of_def j g proposed_stored build_block_proposal_def
        latest_placement_event_def e PROPOSAL_PLACEMENT_EVENTS_def x explanation_items_def id_list_def
        Let_def dict_of_def int_of_column_def dget_default_def)
qed

definition approved_job :: job where
  "approved_job = scheduled_job\<lparr>job_status := NOTIFIED, job_updated_at := Some run_now,
     job_block := committed_edit (job_block scheduled_job)\<rparr>"

lemma run_approves:
  assumes "plan_commit (run_env ''C'') ''J1'' run_authority run_now (Some ''RUN-1'') (only_row scheduled_job) = Inr (ms, es)"
  obtains m where "ms = [m]" "as_job m scheduled_job = approved_job"
proof -
  have "job_id scheduled_job = ''J1''" by code_simp
  with assms that show thesis
    by (auto simp: plan_commit_def need_row_def only_row_def bind_res_Inr_iff Let_def unchanged_def approved_job_def
        as_job_def split: if_split_asm)
qed

lemma run_starts_approved:
  "\<exists>ms es. plan_execution_start (run_env ''S'') run_sha run_hex ''J1'' run_worker run_now run_start (only_row approved_job) =
     Inr (ms, es)"
proof -
  have j: "job_id approved_job = ''J1''" "job_start approved_job = Some 60" "job_end approved_job = Some 120"
      "start_checks approved_job run_worker run_start = Inr ()"
      "committed_block_digest run_sha approved_job (xs_corridor run_start) (xs_expected run_start) = Inr ''digest''"
      "proposal_run_id_of approved_job = JStr ''RUN-1''"
    by code_simp+
  show ?thesis
    by (simp add: plan_execution_start_def need_row_def only_row_def j start_steps observations_def
        int_of_column_def make_event_def check_event_def Let_def run_env_def)
qed

lemma approved_digest_is_reviewed_digest_witness:
  "\<exists>p m es ms' ev. current_proposal_of [proposing_run] ''A'' [proposed_event] scheduled_job = Inr p \<and>
     plan_commit (run_env ''C'') ''J1'' run_authority run_now (Some ''RUN-1'') (only_row scheduled_job) =
       Inr ([m], es) \<and>
     plan_execution_start (run_env ''S'') run_sha run_hex ''J1'' run_worker run_now run_start
       (only_row (as_job m scheduled_job)) = Inr (ms', [ev]) \<and>
     dget (ev_metadata ev) ''committed_block_digest'' = JStr (proposal_digest run_sha p)"
proof -
  obtain p where p: "current_proposal_of [proposing_run] ''A'' [proposed_event] scheduled_job = Inr p"
      "bp_run_id p = ''RUN-1''" using run_has_proposal by blast
  have j: "job_id scheduled_job = ''J1''" "job_id approved_job = ''J1''" by code_simp+
  from plan_okD [OF run_commit_plan] obtain ms es where
    plan: "plan_commit (run_env ''C'') ''J1'' run_authority run_now (Some ''RUN-1'') (only_row scheduled_job) =
       Inr (ms, es)" by auto
  from run_approves [OF plan] obtain m where m: "ms = [m]" "as_job m scheduled_job = approved_job" .
  obtain ms' es' where st: "plan_execution_start (run_env ''S'') run_sha run_hex ''J1'' run_worker run_now run_start
      (only_row approved_job) = Inr (ms', es')" using run_starts_approved by blast
  have rows: "only_row scheduled_job (job_id scheduled_job) = Some scheduled_job" "only_row approved_job ''J1'' = Some approved_job"
      "xs_corridor run_start = ''A''"
    by (simp_all add: only_row_def j run_start_def)
  from approved_digest_is_reviewed_digest [OF p(1) plan [folded j(1)] rows(1), of run_sha] st rows m
  obtain ev where "es' = [ev]" "dget (ev_metadata ev) ''committed_block_digest'' = JStr (proposal_digest run_sha p)"
    unfolding j by fastforce
  with p(1) plan st m show ?thesis by auto
qed

section \<open>Who withdrew a proposal\<close>

lemma row_to_event_author:
  assumes "row_to_event e = Inr x"
  shows "event_actor_id (ev_actor x) = event_actor_id (ev_actor e)"
    "event_actor_role (ev_actor x) = event_actor_role (ev_actor e)" "ev_reason x = ev_reason e"
proof -
  obtain aid r s where a: "event_actor_to_dict (ev_actor e) = dict_of
      [(''actor_id'', JStr aid), (''role'', JStr (role_value r)), (''kind'', JStr (kind_value (kind_of_role r))),
       (''assurance'', JStr s)]" "event_actor_id (ev_actor e) = aid" "event_actor_role (ev_actor e) = r"
    by (cases "ev_actor e") (simp_all add: actor_to_dict_def actor_kind_def)
  have n: "as_str_option (json_of_str w) = Inr w" for w by (cases w) simp_all
  from assms obtain y where y: "rehydrate_actor aid (role_value r) s = Inr y" "ev_actor x = y"
      "ev_reason x = ev_reason e"
    by (auto simp: row_to_event_def event_from_dict_def event_to_dict_def dict_reads bind_res_Inr_iff
        check_event_iff metadata_of_def a n simp del: role_value.simps kind_value.simps)
  from y(1) have "event_actor_id y = aid \<and> event_actor_role y = r"
    by (auto simp: rehydrate_actor_def make_recorded_actor_def bind_res_Inr_iff make_actor_iff
        simp del: role_value.simps split: option.splits if_splits)
  with a y show "event_actor_id (ev_actor x) = event_actor_id (ev_actor e)"
    "event_actor_role (ev_actor x) = event_actor_role (ev_actor e)" "ev_reason x = ev_reason e" by simp_all
qed

lemma list_for_job_last:
  assumes "list_for_job (es @ [e]) jid = Inr ss" "ev_job_id e = jid"
  obtains zs s where "ss = zs @ [s]" "row_to_event e = Inr (sj_event s)"
proof -
  let ?rows = "\<lambda>xs. filter (\<lambda>(n, e). ev_job_id e = jid) (enumerate 1 xs)"
  have "?rows (es @ [e]) = ?rows es @ [(1 + length es, e)]"
    using assms(2) by (simp add: enumerate_append_eq)
  with assms(1) have "map_res stored_of (?rows es @ [(1 + length es, e)]) = Inr ss"
    by (simp only: list_for_job_def select_events_def)
  then obtain zs s where "ss = zs @ [s]" "stored_of (1 + length es, e) = Inr s"
    unfolding map_res_snoc by blast
  with that show thesis by (auto simp: stored_of_def bind_res_Inr_iff)
qed

lemma withdrawing_plan_Inr:
  assumes "plan_reject env jid who now reason expected = Inr p \<or>
      plan_release env jid who now reason expected horizon = Inr p"
    and "p rows = Inr (ms, es)" "rows jid = Some j" "job_id j = jid"
  obtains m e where "ms = [m]" "es = [e]" "mut_job_id m = jid" "mut_status m = REPORTED" "reason \<noteq> []"
    "ev_type e = PROPOSAL_REJECTED \<or> ev_type e = BLOCK_RELEASED" "ev_job_id e = jid"
    "ev_actor e = Live who" "ev_reason e = Some reason"
  using assms(1)
proof
  assume "plan_reject env jid who now reason expected = Inr p"
  with assms(2-4) that show thesis
    by (auto simp: plan_reject_def require_nonblank_def bind_res_Inr_iff Let_def withdrawn_def
        unchanged_def dest!: made_event split: if_splits)
next
  assume "plan_release env jid who now reason expected horizon = Inr p"
  with assms(2-4) that show thesis
    by (auto simp: plan_release_def require_nonblank_def bind_res_Inr_iff Let_def withdrawn_def
        unchanged_def dest!: made_event split: if_splits)
qed

text \<open>A proposal a person withdrew is never put down to the optimizer: after the transaction that
  rejects a proposal or releases an approved block, the reason the job has no proposal is that very
  decision, with the role and id of the person who took it and the reason they gave, as read back
  from the stored history.\<close>

theorem withdrawal_names_its_author:
  assumes "plan_reject env jid who now reason expected = Inr p \<or>
      plan_release env jid who now reason expected horizon = Inr p"
    and "mutate_jobs d [jid] p rt = Inr d'"
    and "get d' jid = Some j'" "list_for_job (db_events d') jid = Inr ss"
  shows "\<exists>t. (t = PROPOSAL_REJECTED \<or> t = BLOCK_RELEASED) \<and>
    no_proposal_reason j' (map sj_event ss) =
      Human_Withdrawal t JNull (actor_role who) (actor_id who) reason"
proof -
  from assms(2,3) obtain j ms es where row: "get d jid = Some j"
    and plan: "p (rows_of d jid) = Inr (ms, es)"
    and h: "db_events d' = db_events d @ es"
    and j': "\<forall>m. ms = [m] \<and> mut_job_id m = jid \<longrightarrow> j' = as_job m j" by (rule single_transaction)
  have jid: "job_id j = jid" using get_Some [OF row] by simp
  from assms(1) plan obtain m e where m: "ms = [m]" "es = [e]" "mut_job_id m = jid" "mut_status m = REPORTED"
      "reason \<noteq> []"
    and e: "ev_type e = PROPOSAL_REJECTED \<or> ev_type e = BLOCK_RELEASED" "ev_job_id e = jid"
      "ev_actor e = Live who" "ev_reason e = Some reason"
    by (rule withdrawing_plan_Inr) (use row jid in \<open>auto simp: rows_of_def\<close>)
  from j' m have st: "job_status j' = REPORTED" by simp
  from assms(4) obtain zs s where s: "ss = zs @ [s]" "row_to_event e = Inr (sj_event s)"
    unfolding h m(2) by (rule list_for_job_last [OF _ e(2)])
  from row_to_event_author [OF s(2)] row_to_event_fields(3) [OF s(2)] e m(5)
  show ?thesis
    by (auto simp: no_proposal_reason_def st s(1) HUMAN_WITHDRAWAL_EVENTS_def withdrawal_reason_def)
qed

lemma withdrawal_names_its_author_witness:
  "\<exists>p d d' j' ss. mutate_jobs d [''J1''] p True = Inr d' \<and> get d' ''J1'' = Some j' \<and>
     list_for_job (db_events d') ''J1'' = Inr ss \<and>
     no_proposal_reason j' (map sj_event ss) =
       Human_Withdrawal BLOCK_RELEASED JNull AUTHORITY ''a-1'' ''train path''"
proof -
  obtain d p d' m e where
    t: "plan_release (run_env ''L'') ''J1'' run_authority run_now ''train path'' ''RUN-1'' 1440 = Inr p"
    "mutate_jobs d [''J1''] p True = Inr d'" "get d' ''J1'' = Some (as_job m notified_job)"
    "list_for_job (db_events d') ''J1'' = Inr [\<lparr>sj_sequence = 1, sj_event = e\<rparr>]"
    and m: "ev_type e = BLOCK_RELEASED" "mut_status m = REPORTED"
    "metadata_of (mut_block m) = metadata_of (without_placement (job_block notified_job))"
    by (rule run_released)
  from withdrawal_names_its_author [OF disjI2, OF t] m(1)
  have "no_proposal_reason (as_job m notified_job) (map sj_event [\<lparr>sj_sequence = 1, sj_event = e\<rparr>]) =
      Human_Withdrawal BLOCK_RELEASED JNull (actor_role run_authority) (actor_id run_authority) ''train path''"
    by (auto simp: no_proposal_reason_def m(2) HUMAN_WITHDRAWAL_EVENTS_def)
  then have n: "no_proposal_reason (as_job m notified_job) (map sj_event [\<lparr>sj_sequence = 1, sj_event = e\<rparr>]) =
      Human_Withdrawal BLOCK_RELEASED JNull AUTHORITY ''a-1'' ''train path''" by (simp add: run_authority_def)
  from t(2-4) n show ?thesis by blast
qed

end
