(* ===== verification/Scopes.thy ===== *)
theory Scopes
  imports Job_Model "HOL-Library.Char_ord" "HOL-Library.List_Lexorder" "HOL-Library.Product_Lexorder"
begin

text \<open>
  Railway scope and where a resource is: \<^verbatim>\<open>backend/app/identity/scope.py\<close> and
  \<^verbatim>\<open>backend/app/identity/resource.py\<close>. A scope names explicit sections of one corridor; a
  location is a corridor and one section, either possibly unknown; matching is three-valued and
  only \<open>MATCH\<close> means inside. Values the code reads from records are JSON values here, so its type
  checks are branches of the model; identifiers are over the ASCII range.
\<close>

section \<open>Scopes\<close>

definition is_wildcard :: "string \<Rightarrow> bool" where
  "is_wildcard v \<longleftrightarrow> CHR ''*'' \<in> set v \<or>
     map (\<lambda>c. if is_lower c then char_of ((of_char c :: nat) - 32) else c) (strip v) = ''ALL''"

definition is_printable :: "char \<Rightarrow> bool" where
  "is_printable c \<longleftrightarrow> (let n = (of_char c :: nat) in 32 \<le> n \<and> n < 127)"

definition INVALID_CORRIDOR :: string where "INVALID_CORRIDOR = ''INVALID_CORRIDOR''"
definition INVALID_SECTION :: string where "INVALID_SECTION = ''INVALID_SECTION''"
definition EMPTY_SCOPE :: string where "EMPTY_SCOPE = ''EMPTY_SCOPE''"
definition WILDCARD_SECTION :: string where "WILDCARD_SECTION = ''WILDCARD_SECTION''"
definition DUPLICATE_SECTION :: string where "DUPLICATE_SECTION = ''DUPLICATE_SECTION''"
definition UNKNOWN_SECTION :: string where "UNKNOWN_SECTION = ''UNKNOWN_SECTION''"

fun check_identifier :: "json \<Rightarrow> string \<Rightarrow> string res" where
  "check_identifier (JStr v) reason =
    (if is_wildcard v then
       Inl (ScopeError (if reason = INVALID_SECTION then WILDCARD_SECTION else reason))
     else if strip v = [] then Inl (ScopeError reason)
     else if v \<noteq> strip v then Inl (ScopeError reason)
     else if list_ex (\<lambda>c. \<not> is_printable c) v then Inl (ScopeError reason)
     else Inr v)"
| "check_identifier _ reason = Inl (ScopeError reason)"

text \<open>The loop of \<^verbatim>\<open>_explicit_sections\<close>; \<open>seen\<close> is the set built so far, latest first.\<close>

fun collect_sections :: "json list \<Rightarrow> string list \<Rightarrow> string list res" where
  "collect_sections [] seen = Inr seen"
| "collect_sections (v # vs) seen =
     bind_res (check_identifier v INVALID_SECTION) (\<lambda>s.
       if s \<in> set seen then Inl (ScopeError DUPLICATE_SECTION) else collect_sections vs (s # seen))"

text \<open>A \<^verbatim>\<open>frozenset\<close> of section ids is its sorted list, so equal sets are equal values.\<close>

fun explicit_sections :: "json \<Rightarrow> string list res" where
  "explicit_sections (JArr vs) =
     bind_res (collect_sections vs []) (\<lambda>seen.
       if seen = [] then Inl (ScopeError EMPTY_SCOPE) else Inr (sort seen))"
| "explicit_sections _ = Inl (ScopeError INVALID_SECTION)"

record railway_scope =
  sc_corridor :: string
  sc_sections :: "string list"

definition make_scope :: "json \<Rightarrow> json \<Rightarrow> railway_scope res" where
  "make_scope corridor sections =
     bind_res (check_identifier corridor INVALID_CORRIDOR) (\<lambda>c.
     bind_res (explicit_sections sections) (\<lambda>ss.
     Inr \<lparr>sc_corridor = c, sc_sections = ss\<rparr>))"

text \<open>The read-only topology a scope is proved against: a corridor and its sections.\<close>

record section_directory =
  sd_corridor :: string
  sd_sections :: "string list"

definition proven_scope :: "section_directory \<Rightarrow> json \<Rightarrow> json \<Rightarrow> railway_scope res" where
  "proven_scope dir corridor sections =
     bind_res (make_scope corridor sections) (\<lambda>sc.
     if sd_corridor dir \<noteq> sc_corridor sc then Inl (ScopeError INVALID_CORRIDOR)
     else if list_ex (\<lambda>s. s \<notin> set (sd_sections dir)) (sc_sections sc)
     then Inl (ScopeError UNKNOWN_SECTION)
     else Inr sc)"

section \<open>Locations\<close>

datatype scope_match = Match | No_Match | Unresolved

record location =
  loc_corridor :: "string option"
  loc_section :: "string option"

definition CORRIDOR_CONFLICT :: string where "CORRIDOR_CONFLICT = ''CORRIDOR_CONFLICT''"

fun usable :: "json \<Rightarrow> bool" where
  "usable (JStr s) \<longleftrightarrow> strip s \<noteq> []"
| "usable _ \<longleftrightarrow> False"

fun clean :: "json \<Rightarrow> string option" where
  "clean (JStr s) = (if usable (JStr s) then Some s else None)"
| "clean _ = None"

fun hashable :: "json \<Rightarrow> bool" where
  "hashable (JArr _) \<longleftrightarrow> False"
| "hashable (JObj _) \<longleftrightarrow> False"
| "hashable _ \<longleftrightarrow> True"

text \<open>\<^verbatim>\<open>set(plural)\<close>: the members up to equality, or \<open>None\<close> where it raises \<^verbatim>\<open>TypeError\<close>.\<close>

fun members :: "json \<Rightarrow> json list option" where
  "members (JArr xs) = (if list_all hashable xs then Some xs else None)"
| "members (JObj m) = Some (map JStr (sorted_list_of_fset (fmdom m)))"
| "members _ = None"

definition section_source :: "dict \<Rightarrow> dict option" where
  "section_source resource =
    (if dhas resource ''block_candidate''
     then (case dget resource ''block_candidate'' of JObj b \<Rightarrow> Some b | _ \<Rightarrow> None)
     else Some resource)"

definition resource_section :: "dict \<Rightarrow> string option" where
  "resource_section resource =
    (case section_source resource of
       None \<Rightarrow> None
     | Some source \<Rightarrow>
        let single = dget source ''section_id''; plural = dget source ''section_ids'' in
        if plural = JNull then clean single
        else case members plural of
          None \<Rightarrow> None
        | Some xs \<Rightarrow>
           if length (remdups (map norm_json xs)) \<noteq> 1 then None
           else if single \<noteq> JNull \<and> \<not> py_eq single (hd xs) then None
           else clean (hd xs))"

definition location_of :: "dict \<Rightarrow> string option \<Rightarrow> location res" where
  "location_of resource corridor =
    (let section_id = resource_section resource; own = dget resource ''corridor_id'';
         supplied = clean (json_of_str corridor) in
     if own = JNull then Inr \<lparr>loc_corridor = supplied, loc_section = section_id\<rparr>
     else case clean own of
       None \<Rightarrow> Inr \<lparr>loc_corridor = None, loc_section = section_id\<rparr>
     | Some c \<Rightarrow>
        if supplied \<noteq> None \<and> supplied \<noteq> Some c then Inl (ScopeError CORRIDOR_CONFLICT)
        else Inr \<lparr>loc_corridor = Some c, loc_section = section_id\<rparr>)"

definition match_scope :: "railway_scope option \<Rightarrow> location \<Rightarrow> scope_match" where
  "match_scope scope l =
    (case scope of
       None \<Rightarrow> No_Match
     | Some sc \<Rightarrow>
        if \<not> usable (json_of_str (loc_corridor l)) \<or> \<not> usable (json_of_str (loc_section l))
        then Unresolved
        else if loc_corridor l \<noteq> Some (sc_corridor sc) then No_Match
        else if loc_section l \<in> Some ` set (sc_sections sc) then Match
        else No_Match)"

definition covers_corridor ::
  "railway_scope list \<Rightarrow> string option \<Rightarrow> string list option \<Rightarrow> scope_match" where
  "covers_corridor scopes corridor sections =
    (if \<not> usable (json_of_str corridor) then Unresolved
     else case sections of
       None \<Rightarrow> Unresolved
     | Some ss \<Rightarrow>
        let required = filter (\<lambda>s. usable (JStr s)) ss;
            held = concat (map sc_sections
                     (filter (\<lambda>sc. Some (sc_corridor sc) = corridor) scopes)) in
        if required = [] then Unresolved
        else if list_all (\<lambda>s. s \<in> set held) required then Match else No_Match)"

section \<open>What a scope is\<close>

definition scope_ok :: "railway_scope \<Rightarrow> bool" where
  "scope_ok sc \<longleftrightarrow> sc_sections sc \<noteq> [] \<and> sorted (sc_sections sc) \<and> distinct (sc_sections sc) \<and>
     (\<forall>s \<in> set (sc_corridor sc # sc_sections sc). \<not> is_wildcard s \<and> usable (JStr s))"

lemma check_identifier_Inr:
  "check_identifier v r = Inr s \<Longrightarrow> v = JStr s \<and> \<not> is_wildcard s \<and> usable (JStr s)"
  by (cases v) (auto split: if_splits)

lemma collect_sections_Inr:
  "collect_sections vs seen = Inr ss \<Longrightarrow> distinct seen \<Longrightarrow>
     distinct ss \<and> (\<forall>s \<in> set ss. s \<in> set seen \<or> (\<not> is_wildcard s \<and> usable (JStr s)))"
proof (induction vs arbitrary: seen)
  case (Cons v vs)
  from Cons.prems obtain s where s: "check_identifier v INVALID_SECTION = Inr s" "s \<notin> set seen"
      "collect_sections vs (s # seen) = Inr ss"
    by (auto simp: bind_res_Inr_iff split: if_splits)
  with Cons.IH [OF s(3)] Cons.prems(2) check_identifier_Inr [OF s(1)] show ?case by auto
qed simp

lemma sort_eq_Nil [simp]: "sort xs = [] \<longleftrightarrow> xs = []"
  by (metis length_0_conv length_sort)

lemma make_scope_ok: "make_scope c ss = Inr sc \<Longrightarrow> scope_ok sc"
  by (cases ss)
    (auto simp: make_scope_def scope_ok_def bind_res_Inr_iff dest!: check_identifier_Inr
      collect_sections_Inr [OF _ distinct.simps(1) [THEN iffD2, OF TrueI]] split: if_splits)

lemma match_scope_Match:
  "match_scope (Some sc) l = Match \<longleftrightarrow>
     usable (json_of_str (loc_corridor l)) \<and> usable (json_of_str (loc_section l)) \<and>
     loc_corridor l = Some (sc_corridor sc) \<and> (\<exists>s \<in> set (sc_sections sc). loc_section l = Some s)"
  by (auto simp: match_scope_def)

lemma covers_corridor_Match:
  "covers_corridor scopes corridor (Some ss) = Match \<longleftrightarrow>
     (\<exists>s \<in> set ss. usable (JStr s)) \<and> usable (json_of_str corridor) \<and>
     (\<forall>s \<in> set ss. usable (JStr s) \<longrightarrow>
        (\<exists>sc \<in> set scopes. Some (sc_corridor sc) = corridor \<and> s \<in> set (sc_sections sc)))"
  by (auto simp: covers_corridor_def Let_def list_all_iff filter_empty_conv)

end
