(* ===== verification/Role_Directory.thy ===== *)
theory Role_Directory
  imports Actors Scopes
begin

text \<open>
  People, the roles they hold and the scope of each role:
  \<^verbatim>\<open>backend/app/identity/person.py\<close>, \<^verbatim>\<open>assignments.py\<close>, \<^verbatim>\<open>scope_assignment.py\<close> and
  \<^verbatim>\<open>directory.py\<close>. A directory is built from three collections, refused as a whole at the first
  violated invariant, and afterwards only answers lookups. The classes' own \<^verbatim>\<open>isinstance\<close> tests on
  each other are the types of the definitions; what arrives as request or configuration text is a
  JSON value and is tested as in the code.
\<close>

section \<open>Persons\<close>

definition MAX_IDENTITY_PROVIDER_LENGTH :: nat where "MAX_IDENTITY_PROVIDER_LENGTH = 64"
definition MAX_SUBJECT_LENGTH :: nat where "MAX_SUBJECT_LENGTH = 256"

fun validate_identity_part :: "json \<Rightarrow> nat \<Rightarrow> string res" where
  "validate_identity_part (JStr v) max_length =
    (if strip v = [] then Inl PersonError
     else if v \<noteq> strip v then Inl PersonError
     else if list_ex (\<lambda>c. \<not> is_printable c) v then Inl PersonError
     else if length v > max_length then Inl PersonError
     else Inr v)"
| "validate_identity_part _ max_length = Inl PersonError"

record external_identity =
  ext_provider :: string
  ext_subject :: string

definition make_external_identity :: "json \<Rightarrow> json \<Rightarrow> external_identity res" where
  "make_external_identity provider subject =
     bind_res (validate_identity_part provider MAX_IDENTITY_PROVIDER_LENGTH) (\<lambda>p.
     bind_res (validate_identity_part subject MAX_SUBJECT_LENGTH) (\<lambda>s.
     Inr \<lparr>ext_provider = p, ext_subject = s\<rparr>))"

fun validate_person_id :: "json \<Rightarrow> string res" where
  "validate_person_id (JStr pid) =
    (case human_actor pid (role_value WORKER) of Inl _ \<Rightarrow> Inl PersonError | Inr _ \<Rightarrow> Inr pid)"
| "validate_person_id _ = Inl PersonError"

record person =
  person_id :: string
  person_identity :: external_identity

definition make_person :: "json \<Rightarrow> external_identity \<Rightarrow> person res" where
  "make_person pid identity =
     bind_res (validate_person_id pid) (\<lambda>p.
     Inr \<lparr>person_id = p, person_identity = identity\<rparr>)"

section \<open>Role assignments\<close>

definition INVALID_ROLE :: string where "INVALID_ROLE = ''INVALID_ROLE''"
definition INVALID_PERSON_ID :: string where "INVALID_PERSON_ID = ''INVALID_PERSON_ID''"
definition DUPLICATE_ASSIGNMENT :: string where "DUPLICATE_ASSIGNMENT = ''DUPLICATE_ASSIGNMENT''"
definition ROLE_NOT_ASSIGNED :: string where "ROLE_NOT_ASSIGNED = ''ROLE_NOT_ASSIGNED''"
definition NO_ASSIGNMENT :: string where "NO_ASSIGNMENT = ''NO_ASSIGNMENT''"
definition ROLE_SELECTION_REQUIRED :: string where
  "ROLE_SELECTION_REQUIRED = ''ROLE_SELECTION_REQUIRED''"

fun human_role :: "json \<Rightarrow> actor_role res" where
  "human_role (JStr v) =
    (case role_of v of
       None \<Rightarrow> Inl (AssignmentError INVALID_ROLE)
     | Some role \<Rightarrow>
        if role \<notin> set HUMAN_ROLES then Inl (AssignmentError INVALID_ROLE) else Inr role)"
| "human_role _ = Inl (AssignmentError INVALID_ROLE)"

record role_assignment =
  ra_person :: string
  ra_role :: actor_role

definition make_role_assignment :: "json \<Rightarrow> json \<Rightarrow> role_assignment res" where
  "make_role_assignment pid role =
    (case validate_person_id pid of
       Inl _ \<Rightarrow> Inl (AssignmentError INVALID_PERSON_ID)
     | Inr p \<Rightarrow> bind_res (human_role role) (\<lambda>r. Inr \<lparr>ra_person = p, ra_role = r\<rparr>))"

text \<open>The duplicate scan both collection checks run, with the values seen so far.\<close>

fun no_repeat :: "'a list \<Rightarrow> 'a list \<Rightarrow> unit res" where
  "no_repeat [] seen = Inr ()"
| "no_repeat (m # ms) seen =
    (if m \<in> set seen then Inl (AssignmentError DUPLICATE_ASSIGNMENT) else no_repeat ms (m # seen))"

definition checked_roles :: "role_assignment list \<Rightarrow> role_assignment list res" where
  "checked_roles assignments = bind_res (no_repeat assignments []) (\<lambda>_. Inr assignments)"

definition assignments_for :: "person \<Rightarrow> role_assignment list \<Rightarrow> role_assignment list res" where
  "assignments_for p assignments =
     bind_res (checked_roles assignments) (\<lambda>members.
     Inr (sort_key (\<lambda>m. role_value (ra_role m))
            (filter (\<lambda>m. ra_person m = person_id p) members)))"

definition select_role :: "person \<Rightarrow> role_assignment list \<Rightarrow> json \<Rightarrow> role_assignment res" where
  "select_role p assignments requested_role =
     bind_res (assignments_for p assignments) (\<lambda>held.
     if requested_role \<noteq> JNull then
       bind_res (human_role requested_role) (\<lambda>wanted.
       case find (\<lambda>a. ra_role a = wanted) held of
         Some a \<Rightarrow> Inr a
       | None \<Rightarrow> Inl (AssignmentError ROLE_NOT_ASSIGNED))
     else case held of
       [] \<Rightarrow> Inl (AssignmentError NO_ASSIGNMENT)
     | [a] \<Rightarrow> Inr a
     | _ \<Rightarrow> Inl (AssignmentError ROLE_SELECTION_REQUIRED))"

section \<open>Scope assignments\<close>

definition ADMIN_HAS_NO_SCOPE :: string where "ADMIN_HAS_NO_SCOPE = ''ADMIN_HAS_NO_SCOPE''"

record role_scope =
  rs_person :: string
  rs_role :: actor_role
  rs_scope :: railway_scope

definition make_role_scope :: "json \<Rightarrow> json \<Rightarrow> railway_scope \<Rightarrow> role_scope res" where
  "make_role_scope pid role scope =
     bind_res (make_role_assignment pid role) (\<lambda>validated.
     if ra_role validated = ADMIN then Inl (AssignmentError ADMIN_HAS_NO_SCOPE)
     else Inr \<lparr>rs_person = ra_person validated, rs_role = ra_role validated, rs_scope = scope\<rparr>)"

definition role_assignment_of :: "role_scope \<Rightarrow> role_assignment" where
  "role_assignment_of a = \<lparr>ra_person = rs_person a, ra_role = rs_role a\<rparr>"

definition checked_scopes :: "role_scope list \<Rightarrow> role_scope list res" where
  "checked_scopes assignments = bind_res (no_repeat assignments []) (\<lambda>_. Inr assignments)"

definition scope_order :: "railway_scope \<Rightarrow> string \<times> string list" where
  "scope_order sc = (sc_corridor sc, sc_sections sc)"

definition scopes_for :: "person \<Rightarrow> json \<Rightarrow> role_scope list \<Rightarrow> railway_scope list res" where
  "scopes_for p role assignments =
     bind_res (human_role role) (\<lambda>wanted.
     bind_res (checked_scopes assignments) (\<lambda>members.
     Inr (sort_key scope_order
            (map rs_scope
              (filter (\<lambda>m. rs_person m = person_id p \<and> rs_role m = wanted) members)))))"

section \<open>The directory\<close>

definition IDENTITY_NOT_ENROLLED :: string where "IDENTITY_NOT_ENROLLED = ''IDENTITY_NOT_ENROLLED''"
definition PERSON_NOT_ENROLLED :: string where "PERSON_NOT_ENROLLED = ''PERSON_NOT_ENROLLED''"
definition DUPLICATE_PERSON :: string where "DUPLICATE_PERSON = ''DUPLICATE_PERSON''"
definition DUPLICATE_PERSON_ID :: string where "DUPLICATE_PERSON_ID = ''DUPLICATE_PERSON_ID''"
definition DUPLICATE_EXTERNAL_IDENTITY :: string where
  "DUPLICATE_EXTERNAL_IDENTITY = ''DUPLICATE_EXTERNAL_IDENTITY''"
definition UNKNOWN_PERSON :: string where "UNKNOWN_PERSON = ''UNKNOWN_PERSON''"
definition ROLE_NOT_HELD :: string where "ROLE_NOT_HELD = ''ROLE_NOT_HELD''"

definition identity_key :: "external_identity \<Rightarrow> string \<times> string" where
  "identity_key i = (ext_provider i, ext_subject i)"

record directory =
  dir_people :: "person list"
  dir_by_id :: "(string, person) fmap"
  dir_by_identity :: "(string \<times> string, person) fmap"
  dir_roles :: "role_assignment list"
  dir_scopes :: "role_scope list"
  dir_held :: "(string \<times> actor_role) set"
  dir_index :: "(string \<times> actor_role, railway_scope list) fmap"

fun enroll ::
  "person list \<Rightarrow> (string, person) fmap \<Rightarrow> (string \<times> string, person) fmap \<Rightarrow>
   ((string, person) fmap \<times> (string \<times> string, person) fmap) res" where
  "enroll [] by_id by_identity = Inr (by_id, by_identity)"
| "enroll (p # ps) by_id by_identity =
    (case fmlookup by_id (person_id p) of
       Some existing \<Rightarrow>
         Inl (DirectoryError (if existing = p then DUPLICATE_PERSON else DUPLICATE_PERSON_ID))
     | None \<Rightarrow>
        let key = identity_key (person_identity p) in
        if fmlookup by_identity key \<noteq> None then Inl (DirectoryError DUPLICATE_EXTERNAL_IDENTITY)
        else enroll ps (fmupd (person_id p) p by_id) (fmupd key p by_identity))"

definition check_role_reference :: "(string, person) fmap \<Rightarrow> role_assignment \<Rightarrow> unit res" where
  "check_role_reference by_id a =
    (if fmlookup by_id (ra_person a) = None then Inl (DirectoryError UNKNOWN_PERSON) else Inr ())"

definition check_scope_reference ::
  "(string, person) fmap \<Rightarrow> (string \<times> actor_role) set \<Rightarrow> role_scope \<Rightarrow> unit res" where
  "check_scope_reference by_id held a =
    (if fmlookup by_id (rs_person a) = None then Inl (DirectoryError UNKNOWN_PERSON)
     else if rs_role a = ADMIN then Inl (DirectoryError ADMIN_HAS_NO_SCOPE)
     else if (rs_person a, rs_role a) \<notin> held then Inl (DirectoryError ROLE_NOT_HELD)
     else Inr ())"

text \<open>\<^verbatim>\<open>scope_index.setdefault(key, []).append(scope)\<close> over the ordered scope assignments.\<close>

fun index_scopes ::
  "role_scope list \<Rightarrow> (string \<times> actor_role, railway_scope list) fmap \<Rightarrow>
   (string \<times> actor_role, railway_scope list) fmap" where
  "index_scopes [] idx = idx"
| "index_scopes (a # as) idx =
    (let key = (rs_person a, rs_role a);
         old = (case fmlookup idx key of None \<Rightarrow> [] | Some xs \<Rightarrow> xs) in
     index_scopes as (fmupd key (old @ [rs_scope a]) idx))"

definition build_directory ::
  "person list \<Rightarrow> role_assignment list \<Rightarrow> role_scope list \<Rightarrow> directory res" where
  "build_directory people role_list scope_list =
     bind_res (enroll people fmempty fmempty) (\<lambda>(by_id, by_identity).
     bind_res (checked_roles role_list) (\<lambda>roles.
     bind_res (checked_scopes scope_list) (\<lambda>scopes.
     bind_res (each_res (check_role_reference by_id) roles) (\<lambda>_.
     let held = set (map (\<lambda>a. (ra_person a, ra_role a)) roles) in
     bind_res (each_res (check_scope_reference by_id held) scopes) (\<lambda>_.
     let ordered_roles = sort_key (\<lambda>a. (ra_person a, role_value (ra_role a))) roles;
         ordered_scopes =
           sort_key (\<lambda>s. (rs_person s, role_value (rs_role s), scope_order (rs_scope s))) scopes in
     Inr \<lparr>dir_people = map (\<lambda>k. the (fmlookup by_id k)) (sorted_list_of_fset (fmdom by_id)),
          dir_by_id = by_id, dir_by_identity = by_identity,
          dir_roles = ordered_roles, dir_scopes = ordered_scopes, dir_held = held,
          dir_index = index_scopes ordered_scopes fmempty\<rparr>)))))"

definition person_for :: "directory \<Rightarrow> external_identity \<Rightarrow> person res" where
  "person_for d identity =
    (case fmlookup (dir_by_identity d) (identity_key identity) of
       None \<Rightarrow> Inl (DirectoryError IDENTITY_NOT_ENROLLED)
     | Some p \<Rightarrow> Inr p)"

definition enrolled_person :: "directory \<Rightarrow> json \<Rightarrow> person res" where
  "enrolled_person d pid =
    (case (case pid of JStr s \<Rightarrow> fmlookup (dir_by_id d) s | _ \<Rightarrow> None) of
       Some p \<Rightarrow> Inr p
     | None \<Rightarrow> Inl (DirectoryError PERSON_NOT_ENROLLED))"

definition check_enrolled :: "directory \<Rightarrow> person \<Rightarrow> person res" where
  "check_enrolled d p =
     bind_res (enrolled_person d (JStr (person_id p))) (\<lambda>q.
     if q \<noteq> p then Inl (DirectoryError PERSON_NOT_ENROLLED) else Inr p)"

definition dir_assignments_for :: "directory \<Rightarrow> person \<Rightarrow> role_assignment list res" where
  "dir_assignments_for d p =
     bind_res (check_enrolled d p) (\<lambda>_. assignments_for p (dir_roles d))"

definition dir_select_role :: "directory \<Rightarrow> person \<Rightarrow> json \<Rightarrow> role_assignment res" where
  "dir_select_role d p requested_role =
     bind_res (check_enrolled d p) (\<lambda>_. select_role p (dir_roles d) requested_role)"

definition scopes_for_actor :: "directory \<Rightarrow> string \<Rightarrow> actor_role \<Rightarrow> railway_scope list" where
  "scopes_for_actor d aid role =
    (if role \<notin> set HUMAN_ROLES \<or> (aid, role) \<notin> dir_held d then []
     else case fmlookup (dir_index d) (aid, role) of None \<Rightarrow> [] | Some xs \<Rightarrow> xs)"

end
