(* ===== verification/Directory_Facts.thy ===== *)
theory Directory_Facts
  imports Role_Directory "HOL-Library.Multiset"
begin

text \<open>
  What a built directory guarantees: its indexes agree with its people, roles and scopes, a scope is
  held only under a role the enrolled person holds and never under ADMIN, and the directory does not
  depend on the order its data was supplied in.
\<close>

section \<open>Collections\<close>

lemma no_repeat_Inr: "no_repeat ms seen = Inr () \<longleftrightarrow> distinct ms \<and> set ms \<inter> set seen = {}"
  by (induction ms arbitrary: seen) auto

lemma checked_roles_Inr [simp]: "checked_roles as = Inr bs \<longleftrightarrow> bs = as \<and> distinct as"
  by (auto simp: checked_roles_def bind_res_Inr_iff no_repeat_Inr)

lemma checked_scopes_Inr [simp]: "checked_scopes as = Inr bs \<longleftrightarrow> bs = as \<and> distinct as"
  by (auto simp: checked_scopes_def bind_res_Inr_iff no_repeat_Inr)

lemma human_role_Inr:
  "human_role v = Inr r \<longleftrightarrow> v = JStr (role_value r) \<and> r \<in> set HUMAN_ROLES"
  by (cases v) (auto split: option.splits dest: role_of_Some)

lemma assignments_for_Inr:
  "assignments_for p as = Inr held \<Longrightarrow>
     distinct as \<and> set held = {a \<in> set as. ra_person a = person_id p} \<and> distinct held"
  by (auto simp: assignments_for_def bind_res_Inr_iff)

lemma select_role_Inr:
  assumes "select_role p as requested = Inr a"
  shows "a \<in> set as" "ra_person a = person_id p"
    "requested \<noteq> JNull \<Longrightarrow> requested = JStr (role_value (ra_role a))"
    "requested = JNull \<Longrightarrow> \<forall>b \<in> set as. ra_person b = person_id p \<longrightarrow> b = a"
proof -
  from assms obtain held where held: "assignments_for p as = Inr held"
    unfolding select_role_def by (auto simp: bind_res_Inr_iff)
  note h = assignments_for_Inr [OF held]
  have a: "a \<in> set held \<and> (requested \<noteq> JNull \<longrightarrow> requested = JStr (role_value (ra_role a))) \<and>
      (requested = JNull \<longrightarrow> held = [a])"
    using assms held unfolding select_role_def
    by (auto simp: bind_res_Inr_iff human_role_Inr split: if_splits option.splits list.splits
        dest: find_Some_in)
  from a h show "a \<in> set as" "ra_person a = person_id p" by auto
  from a show "requested \<noteq> JNull \<Longrightarrow> requested = JStr (role_value (ra_role a))" by blast
  from a h show "requested = JNull \<Longrightarrow> \<forall>b \<in> set as. ra_person b = person_id p \<longrightarrow> b = a" by auto
qed

text \<open>A requested role the person holds is the one selected.\<close>

lemma select_role_held:
  assumes "distinct as" "\<lparr>ra_person = person_id p, ra_role = r\<rparr> \<in> set as" "r \<in> set HUMAN_ROLES"
  shows "select_role p as (JStr (role_value r)) = Inr \<lparr>ra_person = person_id p, ra_role = r\<rparr>"
proof -
  from assms(1) obtain held where held: "assignments_for p as = Inr held"
    by (simp add: assignments_for_def checked_roles_Inr [THEN iffD2])
  note h = assignments_for_Inr [OF held]
  have "\<exists>a. find (\<lambda>a. ra_role a = r) held = Some a"
    using h assms(2) by (force simp: find_None_iff simp flip: not_None_eq)
  then obtain a where a: "find (\<lambda>a. ra_role a = r) held = Some a" ..
  from find_Some_in [OF this] h have "a = \<lparr>ra_person = person_id p, ra_role = r\<rparr>"
    by (cases a) simp
  with a held assms(3) show ?thesis
    by (simp add: select_role_def human_role_Inr [THEN iffD2] del: human_role.simps)
qed

lemma option_eqI: "(\<And>x. a = Some x \<longleftrightarrow> b = Some x) \<Longrightarrow> a = b"
  by (cases a; cases b) auto

section \<open>Enrolment\<close>

lemma enroll_Cons_Inr:
  "enroll (p # ps) by_id by_ext = Inr r \<longleftrightarrow>
     fmlookup by_id (person_id p) = None \<and>
     fmlookup by_ext (identity_key (person_identity p)) = None \<and>
     enroll ps (fmupd (person_id p) p by_id)
       (fmupd (identity_key (person_identity p)) p by_ext) = Inr r"
  by (auto simp: Let_def split: option.splits)

lemmas enroll_Cons [simp] = enroll_Cons_Inr
declare enroll.simps(2) [simp del]

lemma enroll_fresh:
  "enroll ps by_id by_ext = Inr r \<Longrightarrow> p \<in> set ps \<Longrightarrow>
     fmlookup by_id (person_id p) = None \<and>
     fmlookup by_ext (identity_key (person_identity p)) = None"
proof (induction ps arbitrary: by_id by_ext)
  case (Cons q ps)
  then have "enroll ps (fmupd (person_id q) q by_id)
      (fmupd (identity_key (person_identity q)) q by_ext) = Inr r" by simp
  from Cons.IH [OF this] Cons.prems show ?case by (cases "p = q") (auto split: if_splits)
qed simp

lemma enroll_distinct:
  "enroll ps by_id by_ext = Inr r \<Longrightarrow>
     distinct (map person_id ps) \<and> distinct (map (\<lambda>p. identity_key (person_identity p)) ps)"
proof (induction ps arbitrary: by_id by_ext)
  case (Cons q ps)
  then have e: "enroll ps (fmupd (person_id q) q by_id)
      (fmupd (identity_key (person_identity q)) q by_ext) = Inr r" by simp
  with Cons.IH enroll_fresh [OF e] show ?case by force
qed simp

lemma enroll_lookup:
  assumes "enroll ps by_id by_ext = Inr r"
  shows "(fmlookup (fst r) k = Some p \<longleftrightarrow>
           p \<in> set ps \<and> person_id p = k \<or> fmlookup by_id k = Some p) \<and>
         (fmlookup (snd r) e = Some p \<longleftrightarrow>
           p \<in> set ps \<and> identity_key (person_identity p) = e \<or> fmlookup by_ext e = Some p)"
  using assms
proof (induction ps arbitrary: by_id by_ext)
  case (Cons q ps)
  then have e: "enroll ps (fmupd (person_id q) q by_id)
      (fmupd (identity_key (person_identity q)) q by_ext) = Inr r" by simp
  from Cons.IH [OF e] enroll_fresh [OF e, of p] enroll_fresh [OF Cons.prems, of p] Cons.prems
  show ?case by (auto split: if_splits)
qed auto

text \<open>Enrolment accepts exactly the collections with distinct ids and identities.\<close>

lemma enroll_complete:
  "distinct (map person_id ps) \<Longrightarrow>
   distinct (map (\<lambda>p. identity_key (person_identity p)) ps) \<Longrightarrow>
   (\<forall>p \<in> set ps. fmlookup by_id (person_id p) = None \<and>
      fmlookup by_ext (identity_key (person_identity p)) = None) \<Longrightarrow>
   \<exists>r. enroll ps by_id by_ext = Inr r"
  by (induction ps arbitrary: by_id by_ext) (auto simp: image_iff)

section \<open>The scope index\<close>

definition scopes_at :: "(string \<times> actor_role, railway_scope list) fmap \<Rightarrow> string \<times> actor_role \<Rightarrow> railway_scope list" where
  "scopes_at idx k = (case fmlookup idx k of None \<Rightarrow> [] | Some xs \<Rightarrow> xs)"

lemma scopes_at_index:
  "scopes_at (index_scopes as idx) k =
     scopes_at idx k @ map rs_scope (filter (\<lambda>a. (rs_person a, rs_role a) = k) as)"
  by (induction as arbitrary: idx) (auto simp: Let_def scopes_at_def split: option.splits)

section \<open>What a built directory is\<close>

lemma held_iff:
  "(p, r) \<in> (\<lambda>b. (ra_person b, ra_role b)) ` A \<longleftrightarrow> \<lparr>ra_person = p, ra_role = r\<rparr> \<in> A"
proof
  assume "(p, r) \<in> (\<lambda>b. (ra_person b, ra_role b)) ` A"
  then obtain b where "b \<in> A" "p = ra_person b" "r = ra_role b" by auto
  then show "\<lparr>ra_person = p, ra_role = r\<rparr> \<in> A" by (cases b) simp
qed (force intro: rev_image_eqI)

lemma scoped_iff:
  "sc \<in> rs_scope ` {a \<in> A. rs_person a = p \<and> rs_role a = r} \<longleftrightarrow>
     \<lparr>rs_person = p, rs_role = r, rs_scope = sc\<rparr> \<in> A"
proof
  assume "sc \<in> rs_scope ` {a \<in> A. rs_person a = p \<and> rs_role a = r}"
  then obtain a where "a \<in> A" "p = rs_person a" "r = rs_role a" "sc = rs_scope a" by auto
  then show "\<lparr>rs_person = p, rs_role = r, rs_scope = sc\<rparr> \<in> A" by (cases a) simp
qed (force intro: rev_image_eqI)

lemma role_reference_Inr:
  "check_role_reference by_id a = Inr u \<longleftrightarrow> fmlookup by_id (ra_person a) \<noteq> None"
  "check_scope_reference by_id held b = Inr u \<longleftrightarrow>
     fmlookup by_id (rs_person b) \<noteq> None \<and> rs_role b \<noteq> ADMIN \<and> (rs_person b, rs_role b) \<in> held"
  by (simp_all add: check_role_reference_def check_scope_reference_def)

lemma build_directory_Inr:
  "build_directory ps rs ss = Inr d \<longleftrightarrow>
     (\<exists>by_id by_ext. enroll ps fmempty fmempty = Inr (by_id, by_ext) \<and> distinct rs \<and> distinct ss \<and>
       (\<forall>a \<in> set rs. fmlookup by_id (ra_person a) \<noteq> None) \<and>
       (\<forall>a \<in> set ss. fmlookup by_id (rs_person a) \<noteq> None \<and> rs_role a \<noteq> ADMIN \<and>
          role_assignment_of a \<in> set rs) \<and>
       d = \<lparr>dir_people = map (\<lambda>k. the (fmlookup by_id k)) (sorted_list_of_fset (fmdom by_id)),
            dir_by_id = by_id, dir_by_identity = by_ext,
            dir_roles = sort_key (\<lambda>a. (ra_person a, role_value (ra_role a))) rs,
            dir_scopes = sort_key (\<lambda>s. (rs_person s, role_value (rs_role s), scope_order (rs_scope s))) ss,
            dir_held = (\<lambda>a. (ra_person a, ra_role a)) ` set rs,
            dir_index = index_scopes
              (sort_key (\<lambda>s. (rs_person s, role_value (rs_role s), scope_order (rs_scope s))) ss) fmempty\<rparr>)"
proof -
  show ?thesis
    by (auto simp: build_directory_def bind_res_Inr_iff Let_def each_res_Inr_iff held_iff
        role_assignment_of_def role_reference_Inr simp del: not_None_eq)
qed

lemma directory_person:
  assumes "build_directory ps rs ss = Inr d"
  shows "fmlookup (dir_by_id d) k = Some p \<longleftrightarrow> p \<in> set ps \<and> person_id p = k"
    and "fmlookup (dir_by_identity d) e = Some p \<longleftrightarrow>
      p \<in> set ps \<and> identity_key (person_identity p) = e"
  using assms enroll_lookup [of ps fmempty fmempty "(dir_by_id d, dir_by_identity d)" k p e]
  unfolding build_directory_Inr by auto

lemma directory_roles:
  assumes "build_directory ps rs ss = Inr d"
  shows "set (dir_roles d) = set rs" "distinct (dir_roles d)"
    "(aid, r) \<in> dir_held d \<longleftrightarrow> \<lparr>ra_person = aid, ra_role = r\<rparr> \<in> set rs"
  using assms unfolding build_directory_Inr by (auto simp: held_iff)

lemma directory_scopes:
  assumes "build_directory ps rs ss = Inr d"
  shows "sc \<in> set (scopes_for_actor d aid r) \<longleftrightarrow>
    r \<in> set HUMAN_ROLES \<and> \<lparr>rs_person = aid, rs_role = r, rs_scope = sc\<rparr> \<in> set ss"
proof -
  let ?so = "dir_scopes d"
  from assms have so: "set ?so = set ss" and idx: "dir_index d = index_scopes ?so fmempty"
    and refs: "\<forall>a \<in> set ss. role_assignment_of a \<in> set rs"
    unfolding build_directory_Inr by auto
  have "scopes_for_actor d aid r =
      (if r \<notin> set HUMAN_ROLES \<or> (aid, r) \<notin> dir_held d then [] else scopes_at (dir_index d) (aid, r))"
    by (simp add: scopes_for_actor_def scopes_at_def)
  moreover have "sc \<in> set (scopes_at (dir_index d) (aid, r)) \<longleftrightarrow>
      \<lparr>rs_person = aid, rs_role = r, rs_scope = sc\<rparr> \<in> set ss"
    unfolding idx scopes_at_index using scoped_iff [of sc "set ss" aid r]
    by (simp add: scopes_at_def so)
  moreover have "\<lparr>rs_person = aid, rs_role = r, rs_scope = sc\<rparr> \<in> set ss \<Longrightarrow> (aid, r) \<in> dir_held d"
    using refs directory_roles(3) [OF assms] by (auto simp: role_assignment_of_def)
  ultimately show ?thesis by auto
qed

lemma directory_scope_holder:
  assumes "build_directory ps rs ss = Inr d" "scopes_for_actor d aid r \<noteq> []"
  shows "r \<in> set HUMAN_ROLES" "r \<noteq> ADMIN" "\<lparr>ra_person = aid, ra_role = r\<rparr> \<in> set rs"
    "\<exists>p \<in> set ps. person_id p = aid"
proof -
  from assms(2) obtain sc where "sc \<in> set (scopes_for_actor d aid r)" by (meson last_in_set)
  with directory_scopes [OF assms(1)] have a: "r \<in> set HUMAN_ROLES"
      "\<lparr>rs_person = aid, rs_role = r, rs_scope = sc\<rparr> \<in> set ss" by auto
  from assms(1) obtain by_id by_ext where b: "enroll ps fmempty fmempty = Inr (by_id, by_ext)"
      "\<forall>a \<in> set ss. fmlookup by_id (rs_person a) \<noteq> None \<and> rs_role a \<noteq> ADMIN \<and>
          role_assignment_of a \<in> set rs" "dir_by_id d = by_id"
    unfolding build_directory_Inr by auto
  from a b(2) show "r \<in> set HUMAN_ROLES" "r \<noteq> ADMIN" "\<lparr>ra_person = aid, ra_role = r\<rparr> \<in> set rs"
    by (force simp: role_assignment_of_def)+
  from a(2) b(2,3) directory_person(1) [OF assms(1), of aid] show "\<exists>p \<in> set ps. person_id p = aid"
    by force
qed

section \<open>The order of the data\<close>

lemma sort_key_perm:
  "mset xs = mset ys \<Longrightarrow> inj_on f (set xs) \<Longrightarrow> sort_key f xs = sort_key f ys"
  by (rule sort_key_inj_key_eq) auto

lemma role_value_inj [simp]: "role_value r = role_value r' \<longleftrightarrow> r = r'"
  by (metis option.inject role_of_value)

lemma role_keys_inj:
  "inj_on (\<lambda>a :: role_assignment. (ra_person a, role_value (ra_role a))) A"
  "inj_on (\<lambda>s :: role_scope. (rs_person s, role_value (rs_role s), scope_order (rs_scope s))) B"
  by (auto simp: inj_on_def scope_order_def intro!: role_assignment.equality role_scope.equality
      railway_scope.equality)

lemma enroll_perm:
  assumes "enroll ps fmempty fmempty = Inr r" "mset ps = mset ps'"
  shows "enroll ps' fmempty fmempty = Inr r"
proof -
  from assms(2) have s: "set ps = set ps'" by (metis set_mset_mset)
  have perm: "mset (map f ps) = mset (map f ps')" for f :: "person \<Rightarrow> 'b"
    using assms(2) by simp
  from enroll_distinct [OF assms(1)] have "distinct (map person_id ps')"
      "distinct (map (\<lambda>p. identity_key (person_identity p)) ps')"
    using mset_eq_imp_distinct_iff [OF perm] by blast+
  with enroll_complete [of ps' fmempty fmempty] obtain r' where
    r': "enroll ps' fmempty fmempty = Inr r'" by (metis fmempty_lookup)
  have "fmlookup (fst r) k = fmlookup (fst r') k" "fmlookup (snd r) e = fmlookup (snd r') e" for k e
    by (rule option_eqI; simp add: enroll_lookup [OF assms(1), THEN conjunct1]
        enroll_lookup [OF assms(1), THEN conjunct2] enroll_lookup [OF r', THEN conjunct1]
        enroll_lookup [OF r', THEN conjunct2] s)+
  then have "r = r'" by (simp add: prod_eq_iff fmap_ext)
  with r' show ?thesis by simp
qed

end
