(* ===== verification/Authorization.thy ===== *)
theory Authorization
  imports Directory_Facts
begin

text \<open>
  Who may do what: \<^verbatim>\<open>backend/app/identity/authorization.py\<close>, \<^verbatim>\<open>role_actions.py\<close>,
  \<^verbatim>\<open>policy.py\<close>, \<^verbatim>\<open>authenticated_policy.py\<close> and \<^verbatim>\<open>authenticated_actor.py\<close>. A policy is a record
  of what a service can ask it: whether it claims to enforce, whether it is the authenticated
  class, the role/action question, and the resource question, absent where the class does not
  implement it.
\<close>

section \<open>Actions\<close>

datatype job_action =
    REPORT_JOB | REQUEST_OPTIMIZATION | ASSIGN_SCHEDULE | COMMIT_BLOCK | COMPLETE_JOB
  | READ_JOB_HISTORY | READ_BLOCK_PROPOSAL | REJECT_PROPOSAL | POSTPONE_PROPOSAL
  | START_EXECUTION | REPORT_EXECUTION_NOT_COMPLETED | READ_JOB_EXECUTION
  | RELEASE_COMMITTED_BLOCK | READ_JOB_OBLIGATIONS | READ_OPTIMIZATION_RUN | READ_JOB

fun action_value :: "job_action \<Rightarrow> string" where
  "action_value REPORT_JOB = ''REPORT_JOB''"
| "action_value REQUEST_OPTIMIZATION = ''REQUEST_OPTIMIZATION''"
| "action_value ASSIGN_SCHEDULE = ''ASSIGN_SCHEDULE''"
| "action_value COMMIT_BLOCK = ''COMMIT_BLOCK''"
| "action_value COMPLETE_JOB = ''COMPLETE_JOB''"
| "action_value READ_JOB_HISTORY = ''READ_JOB_HISTORY''"
| "action_value READ_BLOCK_PROPOSAL = ''READ_BLOCK_PROPOSAL''"
| "action_value REJECT_PROPOSAL = ''REJECT_PROPOSAL''"
| "action_value POSTPONE_PROPOSAL = ''POSTPONE_PROPOSAL''"
| "action_value START_EXECUTION = ''START_EXECUTION''"
| "action_value REPORT_EXECUTION_NOT_COMPLETED = ''REPORT_EXECUTION_NOT_COMPLETED''"
| "action_value READ_JOB_EXECUTION = ''READ_JOB_EXECUTION''"
| "action_value RELEASE_COMMITTED_BLOCK = ''RELEASE_COMMITTED_BLOCK''"
| "action_value READ_JOB_OBLIGATIONS = ''READ_JOB_OBLIGATIONS''"
| "action_value READ_OPTIMIZATION_RUN = ''READ_OPTIMIZATION_RUN''"
| "action_value READ_JOB = ''READ_JOB''"

definition JOB_READS :: "job_action set" where
  "JOB_READS = {READ_JOB, READ_JOB_HISTORY, READ_BLOCK_PROPOSAL, READ_JOB_EXECUTION,
     READ_JOB_OBLIGATIONS}"

fun ROLE_ACTIONS :: "actor_role \<Rightarrow> job_action set" where
  "ROLE_ACTIONS WORKER =
     {REPORT_JOB, START_EXECUTION, COMPLETE_JOB, REPORT_EXECUTION_NOT_COMPLETED} \<union> JOB_READS"
| "ROLE_ACTIONS ENGINEER = {REQUEST_OPTIMIZATION, READ_OPTIMIZATION_RUN} \<union> JOB_READS"
| "ROLE_ACTIONS AUTHORITY =
     {COMMIT_BLOCK, REJECT_PROPOSAL, POSTPONE_PROPOSAL, RELEASE_COMMITTED_BLOCK} \<union> JOB_READS"
| "ROLE_ACTIONS ADMIN = {}"
| "ROLE_ACTIONS SYSTEM = {}"
| "ROLE_ACTIONS UNIDENTIFIED = {}"

definition CORRIDOR_SCOPED_ACTIONS :: "job_action set" where
  "CORRIDOR_SCOPED_ACTIONS = {REQUEST_OPTIMIZATION, READ_OPTIMIZATION_RUN}"

definition SECTION_SCOPED_ACTIONS :: "job_action set" where
  "SECTION_SCOPED_ACTIONS =
     {REPORT_JOB, COMMIT_BLOCK, REJECT_PROPOSAL, POSTPONE_PROPOSAL, RELEASE_COMMITTED_BLOCK,
      START_EXECUTION, COMPLETE_JOB, REPORT_EXECUTION_NOT_COMPLETED, ASSIGN_SCHEDULE} \<union> JOB_READS"

text \<open>The table has an entry for every role, so \<^verbatim>\<open>.get\<close>'s default is never taken.\<close>

definition permitted_actions :: "actor_role \<Rightarrow> job_action set" where
  "permitted_actions role = ROLE_ACTIONS role"

definition role_permits :: "actor_role \<Rightarrow> job_action \<Rightarrow> bool" where
  "role_permits role action \<longleftrightarrow> action \<in> permitted_actions role"

section \<open>Policies\<close>

record policy =
  pol_enforcing :: bool
  pol_authenticated :: bool
  pol_authorize :: "actor \<Rightarrow> job_action \<Rightarrow> unit res"
  pol_authorize_resource :: "(actor \<Rightarrow> job_action \<Rightarrow> location \<Rightarrow> unit res) option"

definition unenforced_policy :: policy where
  "unenforced_policy = \<lparr>pol_enforcing = False, pol_authenticated = False, pol_authorize = (\<lambda>_ _. Inr ()),
     pol_authorize_resource = Some (\<lambda>_ _ _. Inr ())\<rparr>"

definition role_action_only_policy :: "(actor \<Rightarrow> job_action \<Rightarrow> unit res) \<Rightarrow> policy" where
  "role_action_only_policy authorize = \<lparr>pol_enforcing = False, pol_authenticated = False, pol_authorize = authorize,
     pol_authorize_resource = None\<rparr>"

definition is_resource_aware :: "policy \<Rightarrow> bool" where
  "is_resource_aware p \<longleftrightarrow> pol_authorize_resource p \<noteq> None"

definition require_resource_aware :: "policy \<Rightarrow> policy res" where
  "require_resource_aware p =
    (if pol_enforcing p \<and> \<not> is_resource_aware p then Inl PolicyConfigurationError else Inr p)"

definition denied :: "actor \<Rightarrow> job_action \<Rightarrow> py_error" where
  "denied a action = AuthorizationDenied (actor_id a) (action_value action)"

section \<open>Scope directories\<close>

text \<open>\<^verbatim>\<open>StaticScopeDirectory\<close>: persons by id and the raw assignments, checked at every lookup.\<close>

record static_directory =
  st_people :: "(string, person) fmap"
  st_assignments :: "role_scope list"

fun static_people :: "person list \<Rightarrow> (string, person) fmap \<Rightarrow> (string, person) fmap res" where
  "static_people [] by_id = Inr by_id"
| "static_people (p # ps) by_id =
    (if fmlookup by_id (person_id p) \<noteq> None then Inl ValueError
     else static_people ps (fmupd (person_id p) p by_id))"

definition make_static_directory :: "person list \<Rightarrow> role_scope list \<Rightarrow> static_directory res" where
  "make_static_directory people assignments =
     bind_res (static_people people fmempty) (\<lambda>by_id.
     Inr \<lparr>st_people = by_id, st_assignments = assignments\<rparr>)"

definition static_scopes_for_actor ::
  "static_directory \<Rightarrow> string \<Rightarrow> actor_role \<Rightarrow> railway_scope list res" where
  "static_scopes_for_actor d aid role =
    (if role \<notin> set HUMAN_ROLES then Inr []
     else case fmlookup (st_people d) aid of
       None \<Rightarrow> Inr []
     | Some p \<Rightarrow> scopes_for p (JStr (role_value role)) (st_assignments d))"

text \<open>The two classes the code offers as a \<^verbatim>\<open>ScopeDirectory\<close>.\<close>

datatype scope_directory = Identity_Directory directory | Static_Directory static_directory

fun lookup_scopes :: "scope_directory \<Rightarrow> string \<Rightarrow> actor_role \<Rightarrow> railway_scope list res" where
  "lookup_scopes (Identity_Directory d) aid role = Inr (scopes_for_actor d aid role)"
| "lookup_scopes (Static_Directory d) aid role = static_scopes_for_actor d aid role"

section \<open>The enforcing policy\<close>

type_synonym topology = "(string, string list) fmap"

fun build_topology :: "(string \<times> string list) list \<Rightarrow> topology \<Rightarrow> topology res" where
  "build_topology [] by_corridor = Inr by_corridor"
| "build_topology ((c, ss) # entries) by_corridor =
    (if strip c = [] then Inl ValueError
     else if fmlookup by_corridor c \<noteq> None then Inl ValueError
     else build_topology entries (fmupd c ss by_corridor))"

definition enforce_role :: "actor \<Rightarrow> job_action \<Rightarrow> unit res" where
  "enforce_role a action =
    (if \<not> role_permits (actor_role a) action then Inl (denied a action) else Inr ())"

definition require_section ::
  "actor \<Rightarrow> job_action \<Rightarrow> location \<Rightarrow> railway_scope list \<Rightarrow> unit res" where
  "require_section a action l scopes =
    (let results = map (\<lambda>sc. match_scope (Some sc) l) scopes in
     if Match \<in> set results then Inr () else Inl (denied a action))"

definition require_corridor ::
  "topology \<Rightarrow> actor \<Rightarrow> job_action \<Rightarrow> location \<Rightarrow> railway_scope list \<Rightarrow> unit res" where
  "require_corridor topo a action l scopes =
    (case loc_corridor l of
       None \<Rightarrow> Inl (denied a action)
     | Some c \<Rightarrow>
        if strip c = [] then Inl (denied a action)
        else if covers_corridor scopes (Some c) (fmlookup topo c) = Match then Inr ()
        else Inl (denied a action))"

text \<open>\<^verbatim>\<open>authorize_resource\<close> with the object's own \<^verbatim>\<open>self.authorize\<close> as an argument.\<close>

definition enforce_resource ::
  "(actor \<Rightarrow> job_action \<Rightarrow> unit res) \<Rightarrow> (string \<Rightarrow> actor_role \<Rightarrow> railway_scope list res) \<Rightarrow> topology \<Rightarrow>
   actor \<Rightarrow> job_action \<Rightarrow> location \<Rightarrow> unit res" where
  "enforce_resource self_authorize lookup topo a action l =
     bind_res (self_authorize a action) (\<lambda>_.
     bind_res (lookup (actor_id a) (actor_role a)) (\<lambda>scopes.
     if scopes = [] then Inl (denied a action)
     else if action \<in> CORRIDOR_SCOPED_ACTIONS then require_corridor topo a action l scopes
     else if action \<in> SECTION_SCOPED_ACTIONS then require_section a action l scopes
     else Inl (denied a action)))"

definition enforcing_policy :: "scope_directory \<Rightarrow> (string \<times> string list) list \<Rightarrow> policy res" where
  "enforcing_policy d entries =
     bind_res (build_topology entries fmempty) (\<lambda>topo.
     Inr \<lparr>pol_enforcing = True, pol_authenticated = False, pol_authorize = enforce_role,
          pol_authorize_resource = Some (enforce_resource enforce_role (lookup_scopes d) topo)\<rparr>)"

section \<open>The authenticated policy\<close>

definition require_authenticated :: "actor \<Rightarrow> job_action \<Rightarrow> unit res" where
  "require_authenticated a action =
    (if actor_assurance a = AUTHENTICATED then Inr () else Inl (denied a action))"

definition authenticated_role :: "actor \<Rightarrow> job_action \<Rightarrow> unit res" where
  "authenticated_role a action =
     bind_res (require_authenticated a action) (\<lambda>_. enforce_role a action)"

text \<open>\<^verbatim>\<open>super().authorize_resource\<close> calls \<^verbatim>\<open>self.authorize\<close>, which is the overriding method.\<close>

definition authenticated_resource ::
  "(string \<Rightarrow> actor_role \<Rightarrow> railway_scope list res) \<Rightarrow> topology \<Rightarrow>
   actor \<Rightarrow> job_action \<Rightarrow> location \<Rightarrow> unit res" where
  "authenticated_resource lookup topo a action l =
     bind_res (require_authenticated a action) (\<lambda>_.
     enforce_resource authenticated_role lookup topo a action l)"

definition authenticated_policy ::
  "scope_directory \<Rightarrow> (string \<times> string list) list \<Rightarrow> policy res" where
  "authenticated_policy d entries =
    (case d of
       Static_Directory _ \<Rightarrow> Inl PolicyConfigurationError
     | Identity_Directory _ \<Rightarrow>
         bind_res (build_topology entries fmempty) (\<lambda>topo.
         Inr \<lparr>pol_enforcing = True, pol_authenticated = True, pol_authorize = authenticated_role,
              pol_authorize_resource = Some (authenticated_resource (lookup_scopes d) topo)\<rparr>))"

section \<open>The authenticated actor\<close>

text \<open>What a caller presents: the assertion its verifier produced, or anything else.\<close>

datatype presented = Verified external_identity | Unverified

definition UNTRUSTED_ASSERTION :: string where "UNTRUSTED_ASSERTION = ''UNTRUSTED_ASSERTION''"
definition UNTRUSTED_DIRECTORY :: string where "UNTRUSTED_DIRECTORY = ''UNTRUSTED_DIRECTORY''"

definition authenticated_actor :: "presented \<Rightarrow> scope_directory \<Rightarrow> json \<Rightarrow> actor res" where
  "authenticated_actor v d requested_role =
    (case v of
       Unverified \<Rightarrow> Inl (AuthenticationContextError UNTRUSTED_ASSERTION)
     | Verified identity \<Rightarrow>
        (case d of
           Static_Directory _ \<Rightarrow> Inl (AuthenticationContextError UNTRUSTED_DIRECTORY)
         | Identity_Directory dir \<Rightarrow>
             bind_res (person_for dir identity) (\<lambda>p.
             bind_res (dir_select_role dir p requested_role) (\<lambda>assignment.
             make_actor True (person_id p) (role_value (ra_role assignment))
               (assurance_value AUTHENTICATED)))))"

end
