(* ===== verification/Service.thy ===== *)
theory Service
  imports Proposals Authorization Execution_Plans Obligations
begin

text \<open>
  \<^verbatim>\<open>JobService\<close> of \<^verbatim>\<open>backend/app/jobs/service.py\<close>: what the service may hold, the two questions it asks
  its policy, and every transition it runs. An operation that writes takes the database and returns
  its result with the database it leaves, since a refused transition is itself recorded; a read only
  takes the database. \<open>world\<close> is what one call draws from outside: the clock, fresh ids, the digest and
  the text of an exception. The lifecycle lock makes one call one step.
\<close>

section \<open>The service and its policy\<close>

record service =
  sv_policy :: policy
  sv_corridor :: string
  sv_horizon :: int
  sv_budget :: nat
  sv_sla :: policy_set
  sv_runs :: audit_table

record world =
  wd_now :: datetime
  wd_env :: ambient
  wd_sha :: "dict \<Rightarrow> string"
  wd_hex :: "nat \<Rightarrow> string"
  wd_execution :: string
  wd_say :: "py_error \<Rightarrow> string"

type_synonym 'a svc = "db \<Rightarrow> 'a res \<times> db"

definition checked :: "'a res \<Rightarrow> ('a \<Rightarrow> 'b svc) \<Rightarrow> 'b svc" where
  "checked r k d = (case r of Inl e \<Rightarrow> (Inl e, d) | Inr x \<Rightarrow> k x d)"

lemma checked_simps [simp]: "checked (Inl e) k d = (Inl e, d)" "checked (Inr x) k d = k x d"
  by (simp_all add: checked_def)

text \<open>The checks of the constructor that concern this part, and the guarded policy attribute.\<close>

definition check_horizon_minutes :: "int \<Rightarrow> unit res" where
  "check_horizon_minutes m = (if m \<le> 0 \<or> m mod 1440 \<noteq> 0 then Inl InvalidHorizonMinutesError else Inr ())"

definition set_authorization :: "policy option \<Rightarrow> policy \<Rightarrow> policy res" where
  "set_authorization current p =
     bind_res (require_resource_aware p) (\<lambda>_.
     if (case current of None \<Rightarrow> False | Some c \<Rightarrow> pol_authenticated c) \<and> \<not> pol_authenticated p
     then Inl PolicyConfigurationError else Inr p)"

definition COLLECTION_SCAN_BUDGET :: nat where "COLLECTION_SCAN_BUDGET = 1000"

definition make_service ::
  "policy option \<Rightarrow> string \<Rightarrow> int \<Rightarrow> policy_set option \<Rightarrow> audit_table \<Rightarrow> service res" where
  "make_service p corridor horizon sla runs =
     bind_res (check_horizon_minutes horizon) (\<lambda>_.
     bind_res (set_authorization None (case p of None \<Rightarrow> unenforced_policy | Some q \<Rightarrow> q)) (\<lambda>q.
     Inr \<lparr>sv_policy = q, sv_corridor = corridor, sv_horizon = horizon, sv_budget = COLLECTION_SCAN_BUDGET,
          sv_sla = (case sla of None \<Rightarrow> ASSUMED_DEMO_SLA_POLICY | Some s \<Rightarrow> s), sv_runs = runs\<rparr>))"

definition replace_policy :: "service \<Rightarrow> policy \<Rightarrow> service res" where
  "replace_policy sv p =
     bind_res (set_authorization (Some (sv_policy sv)) p) (\<lambda>q. Inr (sv\<lparr>sv_policy := q\<rparr>))"

definition resolve_actor :: "actor option \<Rightarrow> actor" where
  "resolve_actor a = (case a of None \<Rightarrow> unidentified_actor | Some x \<Rightarrow> x)"

section \<open>The resource question\<close>

definition authorize_resource :: "service \<Rightarrow> actor \<Rightarrow> job_action \<Rightarrow> location \<Rightarrow> unit res" where
  "authorize_resource sv a action l =
    (case pol_authorize_resource (sv_policy sv) of
       None \<Rightarrow> if pol_enforcing (sv_policy sv) then Inl PolicyConfigurationError else Inr ()
     | Some f \<Rightarrow> f a action l)"

text \<open>A job row as \<^verbatim>\<open>location_of\<close> reads it: of its keys only the block candidate is asked for, and it
  has no corridor of its own.\<close>

definition job_resource :: "job \<Rightarrow> dict" where
  "job_resource j = dict_of [(''job_id'', JStr (job_id j)), (''block_candidate'', JObj (job_block j))]"

definition authorize_job_resource :: "service \<Rightarrow> actor \<Rightarrow> job_action \<Rightarrow> job \<Rightarrow> unit res" where
  "authorize_job_resource sv a action j =
    (case location_of (job_resource j) (Some (sv_corridor sv)) of
       Inl _ \<Rightarrow> Inl (denied a action)
     | Inr l \<Rightarrow> authorize_resource sv a action l)"

lemma job_location:
  "location_of (job_resource j) (Some corridor) = Inr
     \<lparr>loc_corridor = (if strip corridor = [] then None else Some corridor),
      loc_section = resource_section (job_resource j)\<rparr>"
  by (simp add: location_of_def job_resource_def dict_of_def Let_def)

definition job_resource_permitted :: "service \<Rightarrow> actor \<Rightarrow> job_action \<Rightarrow> job \<Rightarrow> bool res" where
  "job_resource_permitted sv a action j =
    (case authorize_job_resource sv a action j of
       Inr _ \<Rightarrow> Inr True
     | Inl e \<Rightarrow> (case e of AuthorizationDenied _ _ \<Rightarrow> Inr False | _ \<Rightarrow> Inl e))"

definition authorize_corridor :: "service \<Rightarrow> actor \<Rightarrow> job_action \<Rightarrow> string option \<Rightarrow> unit res" where
  "authorize_corridor sv a action corridor =
     authorize_resource sv a action \<lparr>loc_corridor = corridor, loc_section = None\<rparr>"

definition authorize_existing_job :: "service \<Rightarrow> actor \<Rightarrow> job_action \<Rightarrow> db \<Rightarrow> string \<Rightarrow> unit res" where
  "authorize_existing_job sv a action d jid =
    (case get d jid of None \<Rightarrow> Inr () | Some j \<Rightarrow> authorize_job_resource sv a action j)"

section \<open>Transitions\<close>

fun error_name :: "py_error \<Rightarrow> string" where
  "error_name (InvalidTransitionError _) = ''InvalidTransitionError''"
| "error_name (StaleProposalError _) = ''StaleProposalError''"
| "error_name (StaleExecutionError _) = ''StaleExecutionError''"
| "error_name (CommittedJobError _) = ''CommittedJobError''"
| "error_name (ExecutionTokenError _) = ''ExecutionTokenError''"
| "error_name (ReleaseTokenError _) = ''ReleaseTokenError''"
| "error_name (CommittedStateIntegrityError _) = ''CommittedStateIntegrityError''"
| "error_name (ExecutionIntegrityError _) = ''ExecutionIntegrityError''"
| "error_name (TerminalJobError _) = ''TerminalJobError''"
| "error_name _ = ''Exception''"

text \<open>The exceptions \<^verbatim>\<open>_transition\<close> records; the two token errors are \<^verbatim>\<open>CommittedJobError\<close>s.\<close>

fun recorded_refusal :: "py_error \<Rightarrow> bool" where
  "recorded_refusal (InvalidTransitionError _) = True"
| "recorded_refusal (StaleProposalError _) = True"
| "recorded_refusal (StaleExecutionError _) = True"
| "recorded_refusal (CommittedJobError _) = True"
| "recorded_refusal (ExecutionTokenError _) = True"
| "recorded_refusal (ReleaseTokenError _) = True"
| "recorded_refusal (CommittedStateIntegrityError _) = True"
| "recorded_refusal (ExecutionIntegrityError _) = True"
| "recorded_refusal (TerminalJobError _) = True"
| "recorded_refusal _ = False"

fun rejected_events ::
  "world \<Rightarrow> db \<Rightarrow> actor \<Rightarrow> string \<Rightarrow> py_error \<Rightarrow> string \<Rightarrow> nat \<Rightarrow> string list \<Rightarrow> job_event list res" where
  "rejected_events w d who attempted e now k [] = Inr []"
| "rejected_events w d who attempted e now k (jid # jids) =
    (case get d jid of
       None \<Rightarrow> rejected_events w d who attempted e now k jids
     | Some j \<Rightarrow>
        bind_res (rejected_transition_event ((wd_env w)\<lparr>fresh := \<lambda>n. fresh (wd_env w) (n + k)\<rparr>) j who
                    attempted (error_name e) (wd_say w e) now) (\<lambda>ev.
        bind_res (rejected_events w d who attempted e now (k + 1) jids) (\<lambda>evs. Inr (ev # evs))))"

definition record_rejected_transition ::
  "world \<Rightarrow> string list \<Rightarrow> actor \<Rightarrow> string \<Rightarrow> py_error \<Rightarrow> unit svc" where
  "record_rejected_transition w jids who attempted e d =
     checked (event_timestamp (wd_now w)) (\<lambda>now.
     checked (rejected_events w d who attempted e now 0 jids) (\<lambda>events d.
       if events = [] then (Inr (), d)
       else checked (append_events_tx d events) (\<lambda>d' _. (Inr (), d')) d)) d"

definition run_transition ::
  "world \<Rightarrow> string \<Rightarrow> actor \<Rightarrow> string \<Rightarrow> plan \<Rightarrow> job svc" where
  "run_transition w jid who attempted plan d =
    (case mutate_jobs d [jid] plan False of
       Inr d' \<Rightarrow> (case get d' jid of None \<Rightarrow> (Inl (KeyError jid), d') | Some j \<Rightarrow> (Inr j, d'))
     | Inl e \<Rightarrow>
        if recorded_refusal e then
          (case record_rejected_transition w [jid] who attempted e d of
             (Inl e', d') \<Rightarrow> (Inl e', d')
           | (Inr _, d') \<Rightarrow> (Inl e, d'))
        else (Inl e, d))"

section \<open>Review\<close>

abbreviation ask :: "service \<Rightarrow> actor \<Rightarrow> job_action \<Rightarrow> unit res" where
  "ask sv who action \<equiv> pol_authorize (sv_policy sv) who action"

definition require_text :: "string \<Rightarrow> unit res" where
  "require_text s = (if s = [] \<or> strip s = [] then Inl ValueError else Inr ())"

definition notify ::
  "service \<Rightarrow> world \<Rightarrow> string \<Rightarrow> actor option \<Rightarrow> string option \<Rightarrow> job svc" where
  "notify sv w jid actor expected d =
    (let who = resolve_actor actor in
     checked (ask sv who COMMIT_BLOCK) (\<lambda>_.
     checked (authorize_existing_job sv who COMMIT_BLOCK d jid) (\<lambda>_.
     checked (event_timestamp (wd_now w)) (\<lambda>now.
     run_transition w jid who ''notify'' (plan_commit (wd_env w) jid who now expected)))) d)"

definition approve_proposal :: "service \<Rightarrow> world \<Rightarrow> string \<Rightarrow> actor option \<Rightarrow> string \<Rightarrow> job svc" where
  "approve_proposal sv w jid actor expected d =
     checked (require_text expected) (\<lambda>_. notify sv w jid actor (Some expected)) d"

definition reject_proposal ::
  "service \<Rightarrow> world \<Rightarrow> string \<Rightarrow> actor option \<Rightarrow> string \<Rightarrow> string \<Rightarrow> job svc" where
  "reject_proposal sv w jid actor expected reason d =
    (let who = resolve_actor actor in
     checked (ask sv who REJECT_PROPOSAL) (\<lambda>_.
     checked (authorize_existing_job sv who REJECT_PROPOSAL d jid) (\<lambda>_.
     checked (require_text expected) (\<lambda>_.
     checked (require_text reason) (\<lambda>_.
     checked (event_timestamp (wd_now w)) (\<lambda>now.
     checked (plan_reject (wd_env w) jid who now reason expected) (\<lambda>plan.
     run_transition w jid who ''reject'' plan)))))) d)"

definition postpone_proposal ::
  "service \<Rightarrow> world \<Rightarrow> string \<Rightarrow> actor option \<Rightarrow> string \<Rightarrow> string \<Rightarrow> string \<Rightarrow> string \<Rightarrow> job svc" where
  "postpone_proposal sv w jid actor expected reason selected_date horizon_start d =
    (let who = resolve_actor actor in
     checked (ask sv who POSTPONE_PROPOSAL) (\<lambda>_.
     checked (authorize_existing_job sv who POSTPONE_PROPOSAL d jid) (\<lambda>_.
     checked (require_text expected) (\<lambda>_.
     checked (require_text reason) (\<lambda>_.
     checked (horizon_relative_minutes (Date_text selected_date) 0 0 (As_text horizon_start)) (\<lambda>not_before.
     checked (current_proposal_digest (wd_sha w) (sv_runs sv) (sv_corridor sv) (db_events d) (get d jid))
       (\<lambda>digest.
     checked (event_timestamp (wd_now w)) (\<lambda>now.
     checked (plan_postpone (wd_env w) jid who now
                \<lparr>pp_reason = reason, pp_selected_date = selected_date, pp_not_before = not_before,
                 pp_horizon = sv_horizon sv, pp_expected = expected, pp_digest = digest\<rparr>) (\<lambda>plan.
     run_transition w jid who ''postpone'' plan)))))))) d)"

definition release_committed_block ::
  "service \<Rightarrow> world \<Rightarrow> string \<Rightarrow> actor option \<Rightarrow> string \<Rightarrow> string \<Rightarrow> job svc" where
  "release_committed_block sv w jid actor expected reason d =
    (let who = resolve_actor actor in
     checked (ask sv who RELEASE_COMMITTED_BLOCK) (\<lambda>_.
     checked (authorize_existing_job sv who RELEASE_COMMITTED_BLOCK d jid) (\<lambda>_.
     checked (require_text expected) (\<lambda>_.
     checked (require_text reason) (\<lambda>_.
     checked (event_timestamp (wd_now w)) (\<lambda>now.
     checked (plan_release (wd_env w) jid who now reason expected (sv_horizon sv)) (\<lambda>plan.
     run_transition w jid who ''release'' plan)))))) d)"

definition set_schedule :: "service \<Rightarrow> world \<Rightarrow> string \<Rightarrow> int \<Rightarrow> int \<Rightarrow> actor option \<Rightarrow> job svc" where
  "set_schedule sv w jid s e actor d =
    (let who = resolve_actor actor in
     checked (ask sv who ASSIGN_SCHEDULE) (\<lambda>_ d.
     case get d jid of
       None \<Rightarrow> (Inl (KeyError jid), d)
     | Some j \<Rightarrow>
        checked (authorize_job_resource sv who ASSIGN_SCHEDULE j) (\<lambda>_.
        checked (if e \<le> s then Inl ValueError else Inr ()) (\<lambda>_.
        checked (event_timestamp (wd_now w)) (\<lambda>now.
        run_transition w jid who ''assign_schedule''
          (plan_schedule_assignment (wd_env w) jid s e who now)))) d) d)"

end
