(* ===== verification/Field_Service.thy ===== *)
theory Field_Service
  imports Service
begin

text \<open>
  The field-execution operations and the reads of \<^verbatim>\<open>JobService\<close> (\<^verbatim>\<open>backend/app/jobs/service.py\<close>): start,
  complete and report work, each returning the job with the execution rebuilt from the history just
  written, and the single-job reads.
\<close>

section \<open>Evidence as given\<close>

definition evidence_fields :: "string list" where
  "evidence_fields = [''evidence_reference'', ''evidence_kind'', ''captured_at'', ''latitude'', ''longitude'', ''note'']"

text \<open>\<^verbatim>\<open>EvidenceItem(**dict(item))\<close>: an unknown or a missing argument is a \<^verbatim>\<open>TypeError\<close>.\<close>

definition evidence_item_of :: "dict \<Rightarrow> evidence_item res" where
  "evidence_item_of item =
    (if list_ex (\<lambda>k. k \<notin> set evidence_fields) (sorted_list_of_fset (fmdom item)) \<or>
        list_ex (\<lambda>k. \<not> dhas item k) (take 3 evidence_fields)
     then Inl TypeError
     else make_evidence_item (dget item ''evidence_reference'') (dget item ''evidence_kind'')
       (moment_of_json (dget item ''captured_at'')) (dget item ''latitude'') (dget item ''longitude'')
       (dget item ''note''))"

definition evidence_items :: "dict list \<Rightarrow> evidence_item list res" where
  "evidence_items raw = map_res evidence_item_of raw"

section \<open>The executions of a job\<close>

definition executions_of :: "db \<Rightarrow> job \<Rightarrow> execution_record list res" where
  "executions_of d j =
     bind_res (list_for_job (db_events d) (job_id j)) (\<lambda>h. build_execution_records j (map sj_event h))"

definition reconstructed_execution :: "execution_record list \<Rightarrow> string \<Rightarrow> string \<Rightarrow> execution_record res" where
  "reconstructed_execution records jid x =
    (case find (\<lambda>r. xr_execution_id r = x) records of
       Some r \<Rightarrow> Inr r
     | None \<Rightarrow> Inl (ExecutionIntegrityError jid))"

definition current_open_execution :: "db \<Rightarrow> job \<Rightarrow> execution_record option res" where
  "current_open_execution d j =
     bind_res (executions_of d j) (\<lambda>rs.
     Inr (case filter is_open rs of [] \<Rightarrow> None | r # _ \<Rightarrow> Some r))"

text \<open>The tail of the three operations: run the plan, rebuild the records, hand back the execution.\<close>

definition run_execution_transition ::
  "world \<Rightarrow> string \<Rightarrow> actor \<Rightarrow> string \<Rightarrow> string \<Rightarrow> plan \<Rightarrow> (job \<times> execution_record) svc" where
  "run_execution_transition w jid who attempted x plan d =
    (case run_transition w jid who attempted plan d of
       (Inl e, d') \<Rightarrow> (Inl e, d')
     | (Inr updated, d') \<Rightarrow>
         (bind_res (executions_of d' updated) (\<lambda>rs.
          bind_res (reconstructed_execution rs jid x) (\<lambda>r. Inr (updated, r))), d'))"

text \<open>The execution operations under the lock: load the job and authorize it.\<close>

definition with_job ::
  "service \<Rightarrow> actor \<Rightarrow> job_action \<Rightarrow> string \<Rightarrow> (job \<Rightarrow> 'a svc) \<Rightarrow> 'a svc" where
  "with_job sv who action jid k d =
    (case get d jid of
       None \<Rightarrow> (Inl (KeyError jid), d)
     | Some j \<Rightarrow> checked (authorize_job_resource sv who action j) (\<lambda>_. k j) d)"

definition start_execution ::
  "service \<Rightarrow> world \<Rightarrow> string \<Rightarrow> actor option \<Rightarrow> string \<Rightarrow> string \<Rightarrow> dict list \<Rightarrow>
   (job \<times> execution_record) svc" where
  "start_execution sv w jid actor expected actual_start before_work d =
    (let who = resolve_actor actor in
     checked (ask sv who START_EXECUTION) (\<lambda>_.
     checked (evidence_items before_work) (\<lambda>evidence.
     with_job sv who START_EXECUTION jid (\<lambda>j d.
     checked (executions_of d j) (\<lambda>previous.
     checked (event_timestamp (wd_now w)) (\<lambda>now.
     run_execution_transition w jid who ''start_execution'' (wd_execution w)
       (plan_execution_start (wd_env w) (wd_sha w) (wd_hex w) jid who now
          \<lparr>xs_execution_id = wd_execution w, xs_expected = expected,
           xs_actual_start = As_text actual_start, xs_evidence = evidence,
           xs_corridor = sv_corridor sv, xs_previous = previous,
           xs_horizon_start = DEFAULT_HORIZON_START\<rparr>))) d))) d)"

text \<open>An outcome plan with no open execution: \<^verbatim>\<open>_open_execution_checks\<close> refuses what is not a record.\<close>

definition plan_without_execution :: "string \<Rightarrow> string \<Rightarrow> plan" where
  "plan_without_execution jid x = (\<lambda>rows.
     bind_res (need_row rows jid) (\<lambda>j.
     bind_res (assert_committed_state_consistent [j]) (\<lambda>_.
     if job_status j \<noteq> IN_PROGRESS then Inl (InvalidTransitionError (job_id j))
     else if JStr x \<noteq> execution_id_of j then Inl (StaleExecutionError (job_id j))
     else Inl (ExecutionIntegrityError (job_id j)))))"

definition complete_execution ::
  "service \<Rightarrow> world \<Rightarrow> string \<Rightarrow> actor option \<Rightarrow> string \<Rightarrow> string \<Rightarrow> dict list \<Rightarrow>
   (job \<times> execution_record) svc" where
  "complete_execution sv w jid actor x actual_end after_work d =
    (let who = resolve_actor actor in
     checked (ask sv who COMPLETE_JOB) (\<lambda>_.
     checked (evidence_items after_work) (\<lambda>evidence.
     with_job sv who COMPLETE_JOB jid (\<lambda>j d.
     checked (current_open_execution d j) (\<lambda>opened.
     checked (event_timestamp (wd_now w)) (\<lambda>now.
     run_execution_transition w jid who ''complete_execution'' x
       (case opened of
          None \<Rightarrow> plan_without_execution jid x
        | Some r \<Rightarrow> plan_execution_complete (wd_env w) (wd_sha w) (wd_hex w) jid who now
            \<lparr>xe_execution_id = x, xe_actual_end = As_text actual_end, xe_evidence = evidence,
             xe_execution = r, xe_corridor = sv_corridor sv,
             xe_horizon_start = DEFAULT_HORIZON_START\<rparr>))) d))) d)"

definition report_execution_not_completed ::
  "service \<Rightarrow> world \<Rightarrow> string \<Rightarrow> actor option \<Rightarrow> string \<Rightarrow> string \<Rightarrow> string \<Rightarrow> dict list \<Rightarrow>
   (job \<times> execution_record) svc" where
  "report_execution_not_completed sv w jid actor x actual_end reason failure d =
    (let who = resolve_actor actor in
     checked (ask sv who REPORT_EXECUTION_NOT_COMPLETED) (\<lambda>_.
     checked (evidence_items failure) (\<lambda>evidence.
     with_job sv who REPORT_EXECUTION_NOT_COMPLETED jid (\<lambda>j d.
     checked (current_open_execution d j) (\<lambda>opened.
     checked (event_timestamp (wd_now w)) (\<lambda>now.
     checked (case opened of
          None \<Rightarrow> bind_res (require_nonblank reason) (\<lambda>_. Inr (plan_without_execution jid x))
        | Some r \<Rightarrow> plan_execution_not_completed (wd_env w) (wd_sha w) (wd_hex w) jid who now reason
            (sv_horizon sv)
            \<lparr>xe_execution_id = x, xe_actual_end = As_text actual_end, xe_evidence = evidence,
             xe_execution = r, xe_corridor = sv_corridor sv,
             xe_horizon_start = DEFAULT_HORIZON_START\<rparr>) (\<lambda>plan.
     run_execution_transition w jid who ''execution_not_completed'' x plan))) d))) d)"

section \<open>Reads of one job\<close>

text \<open>Load a job for a read and decide whether this reader may have it.\<close>

definition read_job :: "service \<Rightarrow> actor option \<Rightarrow> job_action \<Rightarrow> db \<Rightarrow> string \<Rightarrow> job res" where
  "read_job sv actor action d jid =
    (let reader = resolve_actor actor in
     bind_res (ask sv reader action) (\<lambda>_.
     case get d jid of
       None \<Rightarrow> Inl (KeyError jid)
     | Some j \<Rightarrow> bind_res (authorize_job_resource sv reader action j) (\<lambda>_. Inr j)))"

definition job_detail :: "service \<Rightarrow> actor option \<Rightarrow> db \<Rightarrow> string \<Rightarrow> job res" where
  "job_detail sv actor d jid = read_job sv actor READ_JOB d jid"

definition job_history :: "service \<Rightarrow> actor option \<Rightarrow> db \<Rightarrow> string \<Rightarrow> stored_job_event list res" where
  "job_history sv actor d jid =
     bind_res (read_job sv actor READ_JOB_HISTORY d jid) (\<lambda>_. list_for_job (db_events d) jid)"

definition current_proposal :: "service \<Rightarrow> actor option \<Rightarrow> db \<Rightarrow> string \<Rightarrow> block_proposal res" where
  "current_proposal sv actor d jid =
     bind_res (read_job sv actor READ_BLOCK_PROPOSAL d jid)
       (current_proposal_of (sv_runs sv) (sv_corridor sv) (db_events d))"

definition get_execution :: "service \<Rightarrow> actor option \<Rightarrow> db \<Rightarrow> string \<Rightarrow> execution_record list res" where
  "get_execution sv actor d jid =
     bind_res (read_job sv actor READ_JOB_EXECUTION d jid) (executions_of d)"

definition evaluation_moment :: "world \<Rightarrow> datetime option \<Rightarrow> datetime res" where
  "evaluation_moment w evaluated_at =
    (let moment = (case evaluated_at of None \<Rightarrow> wd_now w | Some t \<Rightarrow> t) in
     if dt_offset moment = None then Inl ValueError else Inr moment)"

definition job_obligation ::
  "service \<Rightarrow> world \<Rightarrow> actor option \<Rightarrow> db \<Rightarrow> string \<Rightarrow> datetime option \<Rightarrow> obligation res" where
  "job_obligation sv w actor d jid evaluated_at =
     bind_res (read_job sv actor READ_JOB_OBLIGATIONS d jid) (\<lambda>j.
     bind_res (list_for_job (db_events d) jid) (\<lambda>history.
     bind_res (evaluation_moment w evaluated_at) (\<lambda>moment.
     derive_job_obligation (sv_sla sv) j (map sj_event history) moment None)))"

definition optimization_run :: "service \<Rightarrow> actor option \<Rightarrow> string \<Rightarrow> run_record res" where
  "optimization_run sv actor i =
    (let reader = resolve_actor actor in
     bind_res (ask sv reader READ_OPTIMIZATION_RUN) (\<lambda>_.
     case get_run (sv_runs sv) i of
       None \<Rightarrow> Inl (KeyError i)
     | Some run \<Rightarrow>
        bind_res (authorize_corridor sv reader READ_OPTIMIZATION_RUN (run_corridor run)) (\<lambda>_. Inr run)))"

definition active_block_candidates :: "db \<Rightarrow> block_candidate list res" where
  "active_block_candidates d = map_res (\<lambda>j. candidate_from_dict (job_block j)) (list_active d)"

end
