(* ===== verification/Authorization_Properties.thy ===== *)
theory Authorization_Properties
  imports Authorization
begin

text \<open>
  What the policies decide. \<open>scope_source\<close> is the contract of a scope directory as the policy uses
  it; the enforcing policy is characterised inside it once, and both directories of the code are
  instances. The properties then say who is permitted what, and which actors the authenticated path
  can produce.
\<close>

section \<open>What a grant is\<close>

text \<open>The scopes cover the resource: one names its section, or together they name every usable
  section the topology lists for its corridor.\<close>

definition covers :: "topology \<Rightarrow> job_action \<Rightarrow> location \<Rightarrow> railway_scope list \<Rightarrow> bool" where
  "covers topo action l scopes \<longleftrightarrow>
    (if action \<in> CORRIDOR_SCOPED_ACTIONS then
       \<exists>c ss. loc_corridor l = Some c \<and> strip c \<noteq> [] \<and> fmlookup topo c = Some ss \<and>
         (\<exists>s \<in> set ss. strip s \<noteq> []) \<and>
         (\<forall>s \<in> set ss. strip s \<noteq> [] \<longrightarrow>
            (\<exists>sc \<in> set scopes. sc_corridor sc = c \<and> s \<in> set (sc_sections sc)))
     else \<exists>c s. loc_corridor l = Some c \<and> loc_section l = Some s \<and> strip c \<noteq> [] \<and> strip s \<noteq> [] \<and>
         (\<exists>sc \<in> set scopes. sc_corridor sc = c \<and> s \<in> set (sc_sections sc)))"

lemma action_classified: "action \<in> CORRIDOR_SCOPED_ACTIONS \<or> action \<in> SECTION_SCOPED_ACTIONS"
  by (cases action)
    (simp_all add: CORRIDOR_SCOPED_ACTIONS_def SECTION_SCOPED_ACTIONS_def JOB_READS_def)

lemma in_map_iff: "y \<in> set (map f xs) \<longleftrightarrow> (\<exists>x \<in> set xs. f x = y)"
  by auto

lemma covers_corridor_None [simp]: "covers_corridor scopes c None \<noteq> Match"
  by (simp add: covers_corridor_def)

lemma require_section_Inr:
  "action \<notin> CORRIDOR_SCOPED_ACTIONS \<Longrightarrow>
     require_section a action l scopes = Inr () \<longleftrightarrow> covers topo action l scopes"
  by (cases "loc_corridor l"; cases "loc_section l")
    (auto simp: require_section_def covers_def match_scope_Match Let_def in_map_iff simp del: set_map)

lemma require_corridor_Inr:
  "action \<in> CORRIDOR_SCOPED_ACTIONS \<Longrightarrow>
     require_corridor topo a action l scopes = Inr () \<longleftrightarrow> covers topo action l scopes"
  by (cases "loc_corridor l"; cases "fmlookup topo (the (loc_corridor l))")
    (auto simp: require_corridor_def covers_def covers_corridor_Match)

lemma covers_Nil: "\<not> covers topo action l []"
  by (auto simp: covers_def)

lemma enforce_resource_Inr:
  "enforce_resource self_authorize lookup topo a action l = Inr () \<longleftrightarrow>
     self_authorize a action = Inr () \<and>
     (\<exists>scopes. lookup (actor_id a) (actor_role a) = Inr scopes \<and> covers topo action l scopes)"
proof -
  have "(if scopes = [] then Inl (denied a action)
     else if action \<in> CORRIDOR_SCOPED_ACTIONS then require_corridor topo a action l scopes
     else if action \<in> SECTION_SCOPED_ACTIONS then require_section a action l scopes
     else Inl (denied a action)) = Inr () \<longleftrightarrow> covers topo action l scopes" for scopes
    using action_classified [of action] covers_Nil [of topo action l]
    by (cases "scopes = []"; cases "action \<in> CORRIDOR_SCOPED_ACTIONS")
      (simp_all add: require_corridor_Inr require_section_Inr [where topo = topo])
  then show ?thesis by (simp add: enforce_resource_def bind_res_Inr_iff)
qed

lemma enforce_role_Inr: "enforce_role a action = Inr () \<longleftrightarrow> action \<in> ROLE_ACTIONS (actor_role a)"
  by (simp add: enforce_role_def role_permits_def permitted_actions_def)

lemma authenticated_role_Inr:
  "authenticated_role a action = Inr () \<longleftrightarrow>
     actor_assurance a = AUTHENTICATED \<and> action \<in> ROLE_ACTIONS (actor_role a)"
  by (auto simp: authenticated_role_def require_authenticated_def enforce_role_Inr)

lemma build_topology_Inr:
  "build_topology entries acc = Inr topo \<Longrightarrow>
     fmlookup topo c = Some ss \<longleftrightarrow> (c, ss) \<in> set entries \<or> fmlookup acc c = Some ss"
proof (induction entries arbitrary: acc)
  case (Cons e entries)
  obtain c' ss' where e: "e = (c', ss')" by fastforce
  from Cons.prems e have h: "fmlookup acc c' = None"
      "build_topology entries (fmupd c' ss' acc) = Inr topo" by (auto split: if_splits)
  from Cons.IH [OF h(2)] h(1) e show ?case by auto
qed simp

section \<open>The contract of a scope directory\<close>

locale scope_source =
  fixes lookup :: "string \<Rightarrow> actor_role \<Rightarrow> railway_scope list res"
    and holds :: "string \<Rightarrow> actor_role \<Rightarrow> bool"
  assumes scoped_holder: "lookup aid r = Inr scopes \<Longrightarrow> scopes \<noteq> [] \<Longrightarrow> holds aid r"
    and holder_human: "holds aid r \<Longrightarrow> r \<in> set HUMAN_ROLES"
begin

lemma permit_holder:
  assumes "enforce_resource self_authorize lookup topo a action l = Inr ()"
  shows "holds (actor_id a) (actor_role a)" "self_authorize a action = Inr ()"
proof -
  from assms obtain scopes where "lookup (actor_id a) (actor_role a) = Inr scopes"
      "covers topo action l scopes" "self_authorize a action = Inr ()"
    unfolding enforce_resource_Inr by auto
  with scoped_holder covers_Nil show "holds (actor_id a) (actor_role a)"
    "self_authorize a action = Inr ()" by (metis, simp)
qed

lemma system_never_permitted:
  "actor_role a \<notin> set HUMAN_ROLES \<Longrightarrow>
     enforce_resource self_authorize lookup topo a action l \<noteq> Inr ()"
  using permit_holder(1) holder_human by blast

end

fun role_holder :: "scope_directory \<Rightarrow> string \<Rightarrow> actor_role \<Rightarrow> bool" where
  "role_holder (Identity_Directory d) aid r \<longleftrightarrow> r \<in> set HUMAN_ROLES \<and> (aid, r) \<in> dir_held d"
| "role_holder (Static_Directory d) aid r \<longleftrightarrow> r \<in> set HUMAN_ROLES \<and> fmlookup (st_people d) aid \<noteq> None"

interpretation dirs: scope_source "lookup_scopes d" "role_holder d" for d
proof
  fix aid r scopes
  show "lookup_scopes d aid r = Inr scopes \<Longrightarrow> scopes \<noteq> [] \<Longrightarrow> role_holder d aid r"
    by (cases d) (auto simp: scopes_for_actor_def static_scopes_for_actor_def
        split: if_splits option.splits)
  show "role_holder d aid r \<Longrightarrow> r \<in> set HUMAN_ROLES" by (cases d) auto
qed

section \<open>A small directory\<close>

definition ex_person :: person where
  "ex_person = \<lparr>person_id = ''P-7'', person_identity = \<lparr>ext_provider = ''novaforge'', ext_subject = ''u1''\<rparr>\<rparr>"

definition ex_scope :: railway_scope where
  "ex_scope = \<lparr>sc_corridor = ''NDLS-AGC'', sc_sections = [''S1'', ''S2'']\<rparr>"

definition ex_roles :: "role_assignment list" where
  "ex_roles = [\<lparr>ra_person = ''P-7'', ra_role = WORKER\<rparr>, \<lparr>ra_person = ''P-7'', ra_role = ENGINEER\<rparr>]"

definition ex_role_scopes :: "role_scope list" where
  "ex_role_scopes = [\<lparr>rs_person = ''P-7'', rs_role = WORKER, rs_scope = ex_scope\<rparr>]"

definition ex_directory :: directory where
  "ex_directory = (case build_directory [ex_person] ex_roles ex_role_scopes of Inr d \<Rightarrow> d)"

lemma ex_directory_built:
  "build_directory [ex_person] ex_roles ex_role_scopes = Inr ex_directory"
proof -
  have "\<exists>d. build_directory [ex_person] ex_roles ex_role_scopes = Inr d"
    unfolding build_directory_Inr
    by (auto simp: ex_person_def ex_roles_def ex_role_scopes_def role_assignment_of_def)
  then show ?thesis by (auto simp: ex_directory_def)
qed

definition ex_actor :: actor where
  "ex_actor = \<lparr>actor_id = ''P-7'', actor_role = WORKER, actor_assurance = AUTHENTICATED\<rparr>"

definition ex_location :: location where
  "ex_location = \<lparr>loc_corridor = Some ''NDLS-AGC'', loc_section = Some ''S2''\<rparr>"

lemma no_member_Nil: "(\<And>x. x \<notin> set xs) \<Longrightarrow> xs = []"
  by (cases xs) auto

section \<open>Directory properties\<close>

text \<open>A directory the code agrees to build answers every scope lookup with exactly the scopes
  its data assigns to that person under that very role, and any it answers belong to an enrolled
  person who was separately assigned the role; ADMIN never has one.\<close>

theorem directory_scopes_exact:
  assumes "build_directory ps rs ss = Inr d"
  shows "(sc \<in> set (scopes_for_actor d aid r) \<longleftrightarrow>
            r \<in> set HUMAN_ROLES \<and> \<lparr>rs_person = aid, rs_role = r, rs_scope = sc\<rparr> \<in> set ss) \<and>
    (scopes_for_actor d aid r = [] \<or>
       r \<noteq> ADMIN \<and> \<lparr>ra_person = aid, ra_role = r\<rparr> \<in> set rs \<and> (\<exists>p \<in> set ps. person_id p = aid))"
  using directory_scopes [OF assms] directory_scope_holder [OF assms, of aid r] by auto

lemma directory_scopes_exact_witness:
  "ex_scope \<in> set (scopes_for_actor ex_directory ''P-7'' WORKER) \<and>
   scopes_for_actor ex_directory ''P-7'' ENGINEER = []"
proof -
  have "scopes_for_actor ex_directory ''P-7'' ENGINEER = []"
    using directory_scopes_exact [OF ex_directory_built, where aid = "''P-7''" and r = ENGINEER]
    by (intro no_member_Nil) (simp add: ex_role_scopes_def)
  with directory_scopes_exact [OF ex_directory_built, where aid = "''P-7''" and r = WORKER]
  show ?thesis by (simp add: ex_role_scopes_def HUMAN_ROLES_def)
qed

text \<open>A directory does not depend on the order its people, roles and scopes were supplied in:
  any reordering of data it accepts is accepted and builds the same directory, so every lookup
  answers the same.\<close>

theorem directory_order_independent:
  assumes "build_directory ps rs ss = Inr d"
    and "mset ps' = mset ps" "mset rs' = mset rs" "mset ss' = mset ss"
  shows "build_directory ps' rs' ss' = Inr d"
proof -
  note m = mset_eq_setD mset_eq_imp_distinct_iff
  from assms(1) obtain by_id by_ext where e: "enroll ps fmempty fmempty = Inr (by_id, by_ext)"
    unfolding build_directory_Inr by blast
  note e' = enroll_perm [OF e assms(2) [symmetric]]
  from assms(1) e show ?thesis
    unfolding build_directory_Inr e' m(1) [OF assms(3)] m(1) [OF assms(4)] m(2) [OF assms(3)]
      m(2) [OF assms(4)] sort_key_perm [OF assms(3) role_keys_inj(1)]
      sort_key_perm [OF assms(4) role_keys_inj(2)] e by simp
qed

lemma directory_order_independent_witness:
  "build_directory [ex_person] (rev ex_roles) ex_role_scopes = Inr ex_directory"
  by (rule directory_order_independent [OF ex_directory_built]) simp_all

section \<open>Policy properties\<close>

text \<open>C18: The enforcing policy is its specification: it permits an action on a resource exactly when
  the actor's role holds the action in the table and the scopes the directory holds for that actor
  under that role cover the resource - one names its section, or, for a corridor action, together
  they name every section its configured topology lists. No other input can grant or deny.\<close>

theorem enforcing_policy_exact:
  assumes "enforcing_policy d entries = Inr pol"
  shows "\<exists>topo f. build_topology entries fmempty = Inr topo \<and> pol_authorize_resource pol = Some f \<and>
     (\<forall>a action l. f a action l = Inr () \<longleftrightarrow>
        action \<in> ROLE_ACTIONS (actor_role a) \<and>
        (\<exists>scopes. lookup_scopes d (actor_id a) (actor_role a) = Inr scopes \<and>
           covers topo action l scopes))"
  using assms by (auto simp: enforcing_policy_def bind_res_Inr_iff enforce_resource_Inr enforce_role_Inr)

lemma enforcing_policy_exact_witness:
  "\<exists>pol f. enforcing_policy (Identity_Directory ex_directory) [] = Inr pol \<and>
     pol_authorize_resource pol = Some f \<and> f ex_actor START_EXECUTION ex_location = Inr () \<and>
     f ex_actor COMMIT_BLOCK ex_location \<noteq> Inr ()"
proof -
  have p: "\<exists>pol. enforcing_policy (Identity_Directory ex_directory) [] = Inr pol"
    by (simp add: enforcing_policy_def)
  then obtain pol where pol: "enforcing_policy (Identity_Directory ex_directory) [] = Inr pol" ..
  have "ex_scope \<in> set (scopes_for_actor ex_directory ''P-7'' WORKER)"
    using directory_scopes [OF ex_directory_built] by (simp add: ex_role_scopes_def HUMAN_ROLES_def)
  then have "covers topo START_EXECUTION ex_location (scopes_for_actor ex_directory ''P-7'' WORKER)" for topo
    by (auto simp: covers_def ex_location_def CORRIDOR_SCOPED_ACTIONS_def ex_scope_def strip_def
        is_space_def of_char_def intro!: bexI)
  with enforcing_policy_exact [OF pol] pol show ?thesis
    by (auto simp: ex_actor_def JOB_READS_def)
qed

text \<open>Some scope assignment of the actor, under its role, names the section of the corridor.\<close>

definition assigned :: "role_scope list \<Rightarrow> actor \<Rightarrow> string \<Rightarrow> string \<Rightarrow> bool" where
  "assigned ss a c s \<longleftrightarrow> list_ex (\<lambda>m. rs_person m = actor_id a \<and> rs_role m = actor_role a \<and>
     sc_corridor (rs_scope m) = c \<and> s \<in> set (sc_sections (rs_scope m))) ss"

lemma permit_sound:
  assumes "build_directory ps rs ss = Inr d"
    and "authenticated_policy (Identity_Directory d) entries = Inr pol"
    and "pol_authorize_resource pol = Some f" "f a action l = Inr ()"
  shows "actor_assurance a = AUTHENTICATED"
    and "action \<in> ROLE_ACTIONS (actor_role a)"
    and "\<exists>p \<in> set ps. person_id p = actor_id a"
    and "\<lparr>ra_person = actor_id a, ra_role = actor_role a\<rparr> \<in> set rs"
    and "\<exists>c. loc_corridor l = Some c \<and>
      (if action \<in> CORRIDOR_SCOPED_ACTIONS then
         \<exists>secs. (c, secs) \<in> set entries \<and> list_all (\<lambda>s. strip s = [] \<or> assigned ss a c s) secs
       else \<exists>s. loc_section l = Some s \<and> assigned ss a c s)"
proof -
  let ?sc = "scopes_for_actor d (actor_id a) (actor_role a)"
  from assms(2,3) obtain topo where t: "build_topology entries fmempty = Inr topo"
      "f = authenticated_resource (lookup_scopes (Identity_Directory d)) topo"
    by (auto simp: authenticated_policy_def bind_res_Inr_iff)
  with assms(4) have g: "actor_assurance a = AUTHENTICATED" "action \<in> ROLE_ACTIONS (actor_role a)"
      "covers topo action l ?sc"
    by (auto simp: authenticated_resource_def bind_res_Inr_iff enforce_resource_Inr authenticated_role_Inr)
  then show "actor_assurance a = AUTHENTICATED" "action \<in> ROLE_ACTIONS (actor_role a)" by simp_all
  from g(3) covers_Nil have ne: "?sc \<noteq> []" by metis
  from directory_scope_holder [OF assms(1) ne]
  show "\<exists>p \<in> set ps. person_id p = actor_id a"
    "\<lparr>ra_person = actor_id a, ra_role = actor_role a\<rparr> \<in> set rs" by auto
  have m: "assigned ss a c s" if "\<exists>sc \<in> set ?sc. sc_corridor sc = c \<and> s \<in> set (sc_sections sc)" for c s
    using that directory_scopes [OF assms(1)] by (force simp: assigned_def list_ex_iff)
  show "\<exists>c. loc_corridor l = Some c \<and>
      (if action \<in> CORRIDOR_SCOPED_ACTIONS then
         \<exists>secs. (c, secs) \<in> set entries \<and> list_all (\<lambda>s. strip s = [] \<or> assigned ss a c s) secs
       else \<exists>s. loc_section l = Some s \<and> assigned ss a c s)"
  proof (cases "action \<in> CORRIDOR_SCOPED_ACTIONS")
    case True
    with g(3) obtain c secs where c: "loc_corridor l = Some c" "fmlookup topo c = Some secs"
        "\<forall>s \<in> set secs. strip s \<noteq> [] \<longrightarrow> (\<exists>sc \<in> set ?sc. sc_corridor sc = c \<and> s \<in> set (sc_sections sc))"
      by (auto simp: covers_def)
    with build_topology_Inr [OF t(1)] have "(c, secs) \<in> set entries" by simp
    moreover have "list_all (\<lambda>s. strip s = [] \<or> assigned ss a c s) secs"
      using c(3) m unfolding list_all_iff by blast
    ultimately show ?thesis using c(1) True by auto
  next
    case False
    with g(3) obtain c s where "loc_corridor l = Some c" "loc_section l = Some s"
        "\<exists>sc \<in> set ?sc. sc_corridor sc = c \<and> s \<in> set (sc_sections sc)" by (auto simp: covers_def)
    with m False show ?thesis by auto
  qed
qed

text \<open>Under the authenticated policy over a built directory, a permitted action is an
  authenticated person's own: the actor is authenticated, the role is one the enrolled person was
  assigned, the table grants it the action, and scope assignments of that person under that role
  name the resource's section, or every section listed for its corridor.\<close>

theorem authenticated_permit_sound:
  assumes "build_directory ps rs ss = Inr d"
    and "authenticated_policy (Identity_Directory d) entries = Inr pol"
    and "pol_authorize_resource pol = Some f" "f a action l = Inr ()"
  shows "actor_assurance a = AUTHENTICATED \<and> action \<in> ROLE_ACTIONS (actor_role a) \<and>
    (\<exists>p \<in> set ps. person_id p = actor_id a) \<and>
    \<lparr>ra_person = actor_id a, ra_role = actor_role a\<rparr> \<in> set rs \<and>
    (\<exists>c. loc_corridor l = Some c \<and>
      (if action \<in> CORRIDOR_SCOPED_ACTIONS then
         \<exists>secs. (c, secs) \<in> set entries \<and> list_all (\<lambda>s. strip s = [] \<or> assigned ss a c s) secs
       else \<exists>s. loc_section l = Some s \<and> assigned ss a c s))"
  by (intro conjI permit_sound [OF assms])

lemma authenticated_permit_sound_witness:
  "\<exists>pol f. authenticated_policy (Identity_Directory ex_directory) [] = Inr pol \<and>
     pol_authorize_resource pol = Some f \<and> f ex_actor START_EXECUTION ex_location = Inr () \<and>
     \<lparr>ra_person = ''P-7'', ra_role = WORKER\<rparr> \<in> set ex_roles"
proof -
  obtain pol f where pol: "authenticated_policy (Identity_Directory ex_directory) [] = Inr pol"
      "pol_authorize_resource pol = Some f"
      "f = authenticated_resource (lookup_scopes (Identity_Directory ex_directory)) fmempty"
    by (auto simp: authenticated_policy_def)
  have "ex_scope \<in> set (scopes_for_actor ex_directory ''P-7'' WORKER)"
    using directory_scopes [OF ex_directory_built] by (simp add: ex_role_scopes_def HUMAN_ROLES_def)
  then have "covers fmempty START_EXECUTION ex_location (scopes_for_actor ex_directory ''P-7'' WORKER)"
    by (auto simp: covers_def ex_location_def CORRIDOR_SCOPED_ACTIONS_def ex_scope_def strip_def
        is_space_def of_char_def intro!: bexI)
  then have f: "f ex_actor START_EXECUTION ex_location = Inr ()"
    by (simp add: pol(3) authenticated_resource_def require_authenticated_def enforce_resource_Inr
        authenticated_role_Inr ex_actor_def)
  with pol authenticated_permit_sound [OF ex_directory_built pol(1,2) f] show ?thesis
    by (auto simp: ex_actor_def)
qed

text \<open>The actor the authentication path produces is an enrolled person acting in a role that
  person was assigned: its id is the person bound to exactly the verified identity, its assurance is
  AUTHENTICATED, and with no role requested the person had exactly that one role.\<close>

theorem authenticated_actor_sound:
  assumes "build_directory ps rs ss = Inr d"
    and "authenticated_actor v (Identity_Directory d) requested = Inr a"
  shows "\<exists>i p. v = Verified i \<and> p \<in> set ps \<and> person_identity p = i \<and> actor_id a = person_id p \<and>
     actor_assurance a = AUTHENTICATED \<and> \<lparr>ra_person = person_id p, ra_role = actor_role a\<rparr> \<in> set rs \<and>
     (if requested = JNull then {r. \<lparr>ra_person = person_id p, ra_role = r\<rparr> \<in> set rs} = {actor_role a}
      else requested = JStr (role_value (actor_role a)))"
proof -
  from assms(2) obtain i p asg where v: "v = Verified i" and p: "person_for d i = Inr p"
      and s: "select_role p (dir_roles d) requested = Inr asg"
      and a: "make_actor True (person_id p) (role_value (ra_role asg)) (assurance_value AUTHENTICATED) = Inr a"
    by (auto simp: authenticated_actor_def dir_select_role_def bind_res_Inr_iff split: presented.splits)
  from p directory_person(2) [OF assms(1)] have pp: "p \<in> set ps" "person_identity p = i"
    by (auto simp: person_for_def identity_key_def intro: external_identity.equality
        split: option.splits)
  from a have ac: "actor_id a = person_id p" "actor_role a = ra_role asg" "actor_assurance a = AUTHENTICATED"
    by (auto simp: make_actor_iff simp del: assurance_value.simps)
  note sel = select_role_Inr [OF s]
  have asg: "asg = \<lparr>ra_person = person_id p, ra_role = actor_role a\<rparr>"
    using sel(2) ac(2) by (cases asg) simp
  with sel(1) directory_roles(1) [OF assms(1)]
  have held: "\<lparr>ra_person = person_id p, ra_role = actor_role a\<rparr> \<in> set rs" by simp
  have only: "r = actor_role a" if "requested = JNull" "\<lparr>ra_person = person_id p, ra_role = r\<rparr> \<in> set rs" for r
  proof -
    from that(2) directory_roles(1) [OF assms(1)]
    have "\<lparr>ra_person = person_id p, ra_role = r\<rparr> \<in> set (dir_roles d)" by simp
    from sel(4) [OF that(1), rule_format, OF this] asg show ?thesis by simp
  qed
  have "if requested = JNull
      then {r. \<lparr>ra_person = person_id p, ra_role = r\<rparr> \<in> set rs} = {actor_role a}
      else requested = JStr (role_value (actor_role a))"
  proof (cases "requested = JNull")
    case True
    from only [OF True] held
    have "{r. \<lparr>ra_person = person_id p, ra_role = r\<rparr> \<in> set rs} = {actor_role a}" by blast
    with True show ?thesis by (simp only: if_True simp_thms)
  next
    case False
    from sel(3) [OF False] ac(2) False show ?thesis by (simp only: if_False simp_thms)
  qed
  with v pp ac held show ?thesis by blast
qed

lemma authenticated_actor_sound_witness:
  "authenticated_actor (Verified \<lparr>ext_provider = ''novaforge'', ext_subject = ''u1''\<rparr>)
     (Identity_Directory ex_directory) (JStr ''WORKER'') = Inr ex_actor \<and>
   \<lparr>ra_person = ''P-7'', ra_role = WORKER\<rparr> \<in> set ex_roles"
proof -
  have p: "person_for ex_directory \<lparr>ext_provider = ''novaforge'', ext_subject = ''u1''\<rparr> = Inr ex_person"
      "check_enrolled ex_directory ex_person = Inr ex_person"
    using directory_person(1) [OF ex_directory_built, of "''P-7''" ex_person]
      directory_person(2) [OF ex_directory_built, of "(''novaforge'', ''u1'')" ex_person]
    by (simp_all add: person_for_def check_enrolled_def enrolled_person_def bind_res_Inr_iff
        identity_key_def ex_person_def)
  have "select_role ex_person (dir_roles ex_directory) (JStr (role_value WORKER)) =
      Inr \<lparr>ra_person = person_id ex_person, ra_role = WORKER\<rparr>"
    using directory_roles [OF ex_directory_built]
    by (intro select_role_held) (simp_all add: ex_roles_def ex_person_def HUMAN_ROLES_def)
  with p have c: "authenticated_actor (Verified \<lparr>ext_provider = ''novaforge'', ext_subject = ''u1''\<rparr>)
     (Identity_Directory ex_directory) (JStr ''WORKER'') = Inr ex_actor"
    by (simp add: authenticated_actor_def dir_select_role_def make_actor_iff ex_actor_def actor_ok_def
        ex_person_def matches_actor_id_def anchored_def is_alnum_def is_upper_def is_lower_def
        is_digit_def looks_like_system_def starts_with_def to_upper_def of_char_def
        SYSTEM_ACTOR_ID_PREFIX_def role_of_def del: assurance_value.simps)
  from c authenticated_actor_sound [OF ex_directory_built c] show ?thesis
    by (auto simp: ex_actor_def ex_person_def)
qed

end
