(* ===== verification/Service_Calls.thy ===== *)
theory Service_Calls
  imports Field_Service Service_Path Plan_Facts Authorization_Properties Obligation_Path
begin

text \<open>
  The writing operations of the service as one type of calls, and what every call guarantees: it asks
  both questions first, a refusal changes no job, and whatever it writes is a step of the job table
  (\<open>Service_Path\<close>), so the invariants of the table hold after any sequence of calls.
\<close>

section \<open>Calls\<close>

datatype call =
    Notify string "string option"
  | Approve string string
  | Reject string string string
  | Postpone string string string string string
  | Release string string string
  | Start string string string "dict list"
  | Complete string string string "dict list"
  | Not_Completed string string string string "dict list"
  | Assign string int int

fun call_job :: "call \<Rightarrow> string" where
  "call_job (Notify i _) = i" | "call_job (Approve i _) = i" | "call_job (Reject i _ _) = i"
| "call_job (Postpone i _ _ _ _) = i" | "call_job (Release i _ _) = i" | "call_job (Start i _ _ _) = i"
| "call_job (Complete i _ _ _) = i" | "call_job (Not_Completed i _ _ _ _) = i" | "call_job (Assign i _ _) = i"

fun call_action :: "call \<Rightarrow> job_action" where
  "call_action (Notify _ _) = COMMIT_BLOCK" | "call_action (Approve _ _) = COMMIT_BLOCK"
| "call_action (Reject _ _ _) = REJECT_PROPOSAL" | "call_action (Postpone _ _ _ _ _) = POSTPONE_PROPOSAL"
| "call_action (Release _ _ _) = RELEASE_COMMITTED_BLOCK" | "call_action (Start _ _ _ _) = START_EXECUTION"
| "call_action (Complete _ _ _ _) = COMPLETE_JOB"
| "call_action (Not_Completed _ _ _ _ _) = REPORT_EXECUTION_NOT_COMPLETED"
| "call_action (Assign _ _ _) = ASSIGN_SCHEDULE"

definition only_job :: "(job \<times> 'a) res \<times> db \<Rightarrow> job res \<times> db" where
  "only_job r = (bind_res (fst r) (\<lambda>x. Inr (fst x)), snd r)"

fun serve :: "service \<Rightarrow> world \<Rightarrow> actor option \<Rightarrow> call \<Rightarrow> job svc" where
  "serve sv w a (Notify i x) = notify sv w i a x"
| "serve sv w a (Approve i x) = approve_proposal sv w i a x"
| "serve sv w a (Reject i x r) = reject_proposal sv w i a x r"
| "serve sv w a (Postpone i x r s h) = postpone_proposal sv w i a x r s h"
| "serve sv w a (Release i x r) = release_committed_block sv w i a x r"
| "serve sv w a (Start i x s ev) = (\<lambda>d. only_job (start_execution sv w i a x s ev d))"
| "serve sv w a (Complete i x t ev) = (\<lambda>d. only_job (complete_execution sv w i a x t ev d))"
| "serve sv w a (Not_Completed i x t r ev) =
     (\<lambda>d. only_job (report_execution_not_completed sv w i a x t r ev d))"
| "serve sv w a (Assign i s e) = set_schedule sv w i s e a"

section \<open>What a call does to the database\<close>

lemma checked_Inr: "fst (checked r k d) = Inr y \<longleftrightarrow> (\<exists>x. r = Inr x \<and> fst (k x d) = Inr y)"
  by (cases r) simp_all

text \<open>The outcomes of an operation on job \<open>jid\<close>: nothing, a recorded refusal, or one transaction.\<close>

definition outcome :: "string \<Rightarrow> db \<Rightarrow> 'a res \<times> db \<Rightarrow> bool" where
  "outcome jid d r \<longleftrightarrow>
     (\<exists>e. fst r = Inl e) \<and> snd r = d \<or>
     (\<exists>e ev. fst r = Inl e \<and> recorded_refusal e \<and> append_events_tx d [ev] = Inr (snd r) \<and>
        ev_type ev = TRANSITION_REJECTED \<and> ev_job_id ev = jid) \<or>
     (\<exists>plan. mutate_jobs d [jid] plan False = Inr (snd r))"

lemma outcome_error [intro!]: "outcome jid d (Inl e, d)"
  by (simp add: outcome_def)

lemma outcome_checked [intro!]:
  "(\<And>x. r = Inr x \<Longrightarrow> outcome jid d (k x d)) \<Longrightarrow> outcome jid d (checked r k d)"
  by (cases r) auto

lemma record_rejected_outcome:
  "record_rejected_transition w [jid] who attempted e d = (r, d') \<Longrightarrow>
     (\<exists>e'. r = Inl e') \<and> d' = d \<or> (r = Inr ()) \<and> (d' = d \<or>
       (\<exists>ev. append_events_tx d [ev] = Inr d' \<and> ev_type ev = TRANSITION_REJECTED \<and> ev_job_id ev = jid))"
  by (auto simp: record_rejected_transition_def checked_def bind_res_Inr_iff rejected_transition_event_def
      dest!: made_event get_Some split: sum.splits option.splits if_splits)

lemma run_transition_outcome [intro!]: "outcome jid d (run_transition w jid who attempted plan d)"
proof (cases "mutate_jobs d [jid] plan False")
  case (Inl e)
  then show ?thesis
    using record_rejected_outcome [of w jid who attempted e d]
    by (cases "record_rejected_transition w [jid] who attempted e d")
      (auto simp: run_transition_def outcome_def split: sum.splits)
next
  case (Inr d')
  then show ?thesis by (auto simp: run_transition_def outcome_def split: option.splits)
qed

lemma run_execution_outcome [intro!]: "outcome jid d (run_execution_transition w jid who attempted x plan d)"
  using run_transition_outcome [of jid d w who attempted plan]
  by (cases "run_transition w jid who attempted plan d")
    (auto simp: run_execution_transition_def outcome_def split: sum.splits)

lemma with_job_outcome [intro!]:
  "(\<And>j. outcome jid d (k j d)) \<Longrightarrow> outcome jid d (with_job sv who action jid k d)"
  by (auto simp: with_job_def split: option.splits)

lemma only_job_outcome [intro!]: "outcome jid d r \<Longrightarrow> outcome jid d (only_job r)"
  by (auto simp: outcome_def only_job_def)

lemmas call_defs = notify_def approve_proposal_def reject_proposal_def postpone_proposal_def
  release_committed_block_def set_schedule_def start_execution_def complete_execution_def
  report_execution_not_completed_def Let_def

lemma serve_outcome: "outcome (call_job c) d (serve sv w a c d)"
  by (cases c) (auto simp: call_defs split: option.splits)

lemma outcome_step: "outcome jid d r \<Longrightarrow> snd r = d \<or> db_step d (snd r)"
  by (auto simp: outcome_def intro: db_step.intros)

section \<open>What a call asks\<close>

text \<open>A call succeeds only for a job that exists, after both questions were answered yes.\<close>

definition cleared :: "service \<Rightarrow> actor \<Rightarrow> job_action \<Rightarrow> db \<Rightarrow> string \<Rightarrow> bool" where
  "cleared sv who action d jid \<longleftrightarrow> ask sv who action = Inr () \<and>
     (\<forall>j. get d jid = Some j \<longrightarrow> authorize_job_resource sv who action j = Inr ())"

lemma authorize_existing_Inr:
  "authorize_existing_job sv who action d jid = Inr () \<longleftrightarrow>
     (\<forall>j. get d jid = Some j \<longrightarrow> authorize_job_resource sv who action j = Inr ())"
  by (auto simp: authorize_existing_job_def split: option.splits)

lemma not_cleared:
  assumes "\<not> cleared sv (resolve_actor a) (call_action c) d (call_job c)"
  shows "\<exists>e. serve sv w a c d = (Inl e, d)"
proof -
  have u: "r = Inr () \<or> (\<exists>e. r = Inl e)" for r :: "unit res" by (cases r) auto
  let ?who = "resolve_actor a" and ?act = "call_action c" and ?i = "call_job c"
  have "(\<exists>e. ask sv ?who ?act = Inl e) \<or>
      (ask sv ?who ?act = Inr () \<and> (\<exists>j e. get d ?i = Some j \<and> authorize_job_resource sv ?who ?act j = Inl e \<and>
         authorize_existing_job sv ?who ?act d ?i = Inl e))"
    using assms u unfolding cleared_def authorize_existing_job_def by (metis option.simps(5))
  then show ?thesis
    by (cases c) (auto simp: call_defs only_job_def with_job_def checked_def split: sum.splits)
qed

section \<open>Properties of calls\<close>

text \<open>Every writing call of the service does one of three things: it fails and leaves the database
  as it was; it fails on a lifecycle refusal and leaves every row as it was, adding to the history one
  TRANSITION_REJECTED event of that job and nothing else; or it is one transaction on that job alone.
  Each is a step of the job table or none, so every invariant of the table survives any sequence of
  calls.\<close>

theorem service_calls_are_steps:
  "((\<exists>e. serve sv w a c d = (Inl e, d)) \<or>
    (\<exists>e ev d'. serve sv w a c d = (Inl e, d') \<and> recorded_refusal e \<and> db_rows d' = db_rows d \<and>
       db_events d' = db_events d @ [ev] \<and> ev_type ev = TRANSITION_REJECTED \<and> ev_job_id ev = call_job c) \<or>
    (\<exists>plan. mutate_jobs d [call_job c] plan False = Inr (snd (serve sv w a c d)))) \<and>
   db_step\<^sup>*\<^sup>* d (snd (serve sv w a c d))"
proof
  have "append_events_tx d [ev] = Inr d' \<Longrightarrow> db_rows d' = db_rows d \<and> db_events d' = db_events d @ [ev]" for ev d'
    by (auto simp: append_events_tx_Inr dest: append_events_Inr(1))
  with serve_outcome [of c d sv w a]
  show "(\<exists>e. serve sv w a c d = (Inl e, d)) \<or>
    (\<exists>e ev d'. serve sv w a c d = (Inl e, d') \<and> recorded_refusal e \<and> db_rows d' = db_rows d \<and>
       db_events d' = db_events d @ [ev] \<and> ev_type ev = TRANSITION_REJECTED \<and> ev_job_id ev = call_job c) \<or>
    (\<exists>plan. mutate_jobs d [call_job c] plan False = Inr (snd (serve sv w a c d)))"
    by (cases "serve sv w a c d") (auto simp: outcome_def)
  from outcome_step [OF serve_outcome] show "db_step\<^sup>*\<^sup>* d (snd (serve sv w a c d))"
    by (metis r_into_rtranclp rtranclp.rtrancl_refl)
qed

text \<open>C17: A denial changes nothing at all: when the policy refuses the action to the actor, or refuses
  it the resource of an existing job, the call fails and the database - rows and history - is exactly
  what it was, whatever the job's state.\<close>

theorem denied_call_changes_nothing:
  assumes "ask sv (resolve_actor a) (call_action c) = Inl e \<or>
    get d (call_job c) = Some j \<and> authorize_job_resource sv (resolve_actor a) (call_action c) j = Inl e"
  shows "\<exists>e'. serve sv w a c d = (Inl e', d)"
  using assms by (intro not_cleared) (auto simp: cleared_def)

lemma call_section_scoped: "call_action c \<notin> CORRIDOR_SCOPED_ACTIONS"
  by (cases c) (simp_all add: CORRIDOR_SCOPED_ACTIONS_def)

lemma successful_call_cleared:
  assumes "fst (serve sv w a c d) = Inr j'"
  obtains j where "get d (call_job c) = Some j"
    "ask sv (resolve_actor a) (call_action c) = Inr ()"
    "authorize_job_resource sv (resolve_actor a) (call_action c) j = Inr ()"
proof -
  have cl: "cleared sv (resolve_actor a) (call_action c) d (call_job c)"
    using not_cleared [of sv a c d w] assms by fastforce
  from serve_outcome [of c d sv w a] assms obtain plan d' where
    "mutate_jobs d [call_job c] plan False = Inr d'" by (auto simp: outcome_def)
  then obtain j where "get d (call_job c) = Some j"
    by (auto elim!: mutate_jobs_Inr simp: read_rows_Inr)
  with cl that show thesis by (auto simp: cleared_def)
qed

text \<open>With the authenticated policy installed, every successful writing call was made by an
  authenticated, enrolled person acting in a role they were assigned, the table grants that role the
  action, and a scope assignment of that person under that role names the section of the job's own
  block in this deployment's corridor. In particular nobody can assign a schedule directly.\<close>

theorem enforced_call_in_scope:
  assumes "build_directory ps rs ss = Inr dir"
    and "authenticated_policy (Identity_Directory dir) entries = Inr (sv_policy sv)"
    and "fst (serve sv w a c d) = Inr j'"
  shows "\<exists>who j s. a = Some who \<and> actor_assurance who = AUTHENTICATED \<and>
    (\<exists>p \<in> set ps. person_id p = actor_id who) \<and>
    \<lparr>ra_person = actor_id who, ra_role = actor_role who\<rparr> \<in> set rs \<and>
    call_action c \<in> ROLE_ACTIONS (actor_role who) \<and> call_action c \<noteq> ASSIGN_SCHEDULE \<and>
    get d (call_job c) = Some j \<and> resource_section (job_resource j) = Some s \<and>
    assigned ss who (sv_corridor sv) s"
proof -
  let ?who = "resolve_actor a"
  from assms(3) obtain j where j: "get d (call_job c) = Some j"
      "authorize_job_resource sv ?who (call_action c) j = Inr ()" by (rule successful_call_cleared)
  from assms(2) obtain f where f: "pol_authorize_resource (sv_policy sv) = Some f"
    by (auto simp: authenticated_policy_def bind_res_Inr_iff dest!: sym [of _ "sv_policy sv"])
  with j(2) have ok: "f ?who (call_action c)
      \<lparr>loc_corridor = (if strip (sv_corridor sv) = [] then None else Some (sv_corridor sv)),
       loc_section = resource_section (job_resource j)\<rparr> = Inr ()"
    by (simp add: authorize_job_resource_def job_location authorize_resource_def)
  note g = permit_sound [OF assms(1,2) f ok]
  from g(1) have a: "a = Some ?who"
    by (cases a) (simp_all add: resolve_actor_def unidentified_actor_def)
  have "call_action c \<noteq> ASSIGN_SCHEDULE"
    using g(2) by (cases "actor_role ?who") (auto simp: JOB_READS_def)
  with a g j(1) call_section_scoped [of c] show ?thesis by (auto split: if_splits)
qed

section \<open>A served approval\<close>

text \<open>A call that is cleared and names the current proposal of a well-formed scheduled job commits it.\<close>

lemma approval_served:
  assumes row: "get d jid = Some j" "jid \<noteq> []" "job_status j = SCHEDULED" "row_ok j"
      "\<not> dhas (metadata_of (job_block j)) EXECUTION_ID_KEY" "job_start j = Some s" "job_end j = Some f"
      "proposal_run_id_of j = JStr run" "run \<noteq> []" "strip run \<noteq> []"
    and who: "actor_role who \<noteq> SYSTEM" "actor_role who \<noteq> UNIDENTIFIED"
    and world: "dt_offset (wd_now w) \<noteq> None" "in_range (instant (wd_now w))" "fresh (wd_env w) 0 \<noteq> []"
      "fresh (wd_env w) 0 \<notin> ev_id ` set (db_events d)"
    and clear: "cleared sv who COMMIT_BLOCK d jid"
  shows "\<exists>j' d'. serve sv w (Some who) (Approve jid run) d = (Inr j', d') \<and> job_status j' = NOTIFIED"
proof -
  define now where "now = isoformat_utc (instant (wd_now w))"
  let ?plan = "plan_commit (wd_env w) jid who now (Some run)"
  have t: "event_timestamp (wd_now w) = Inr now" and m: "matches_event_timestamp now"
    using event_timestamp_ok [OF world(2,1)] isoformat_template [OF world(2)] by (simp_all add: now_def)
  have jid: "job_id j = jid" using get_Some [OF row(1)] by simp
  have r: "rows_of d jid jid = Some j" using row(1) by (simp add: rows_of_def)
  have h: "require_identified_human who jid = Inr ()"
    using who by (simp add: require_identified_human_def actor_kind_def kind_of_role_def)
  have "\<exists>e. make_event (wd_env w) 0 None jid BLOCK_COMMITTED (Live who) now None (JStr run)
      b a md = Inr e" for b a md
    using make_event_succeeds [OF m row(2) world(3)] by blast
  then obtain ms es where plan: "?plan (rows_of d jid) = Inr (ms, es)"
    by (auto simp: plan_commit_def need_row_def r row h Let_def) (metis bind_res_simps(2))
  from commit_accepted [OF plan [folded jid] _ row(4,5)] r jid obtain m e where
    me: "ms = [m]" "es = [e]" "validate_mutation j m = Inr ()" "tokenless ms es"
      "ev_type e = BLOCK_COMMITTED" "ev_actor e = Live who" by auto
  from plan obtain m' e' where m': "ms = [m']" "mut_job_id m' = jid" "mut_status m' = NOTIFIED"
    by (rule plan_commit_Inr) (use r jid in auto)
  have "ev_id e = fresh (wd_env w) 0"
    using plan me(1,2) by (auto simp: plan_commit_def bind_res_Inr_iff Let_def make_event_def check_event_iff
        split: if_splits)
  with mutate_one_event [where plan = ?plan and rt = False, OF row(1) plan [unfolded me(1,2)] _ me(3)
      tokenless_events_ok [OF me(4) [unfolded me(1,2)]] me(6)] m' me(1) world(4)
  obtain d' where d': "mutate_jobs d [jid] ?plan False = Inr d'" "get d' jid = Some (as_job m j)" by auto
  have "job_status (as_job m j) = NOTIFIED" using m' me(1) by simp
  with d' t clear row(9,10) show ?thesis
    by (simp add: approve_proposal_def notify_def require_text_def resolve_actor_def Let_def
        authorize_existing_Inr [THEN iffD2] cleared_def run_transition_def)
qed

section \<open>The calls on the run\<close>

definition sited_job :: job where
  "sited_job = scheduled_job\<lparr>job_block := fmupd ''section_id'' (JStr ''S2'') (job_block scheduled_job)\<rparr>"

definition sited_db :: db where "sited_db = \<lparr>db_rows = [sited_job], db_events = []\<rparr>"

definition authority_person :: person where
  "authority_person = \<lparr>person_id = ''P-9'', person_identity = \<lparr>ext_provider = ''novaforge'', ext_subject = ''u9''\<rparr>\<rparr>"

definition authority_roles :: "role_assignment list" where
  "authority_roles = [\<lparr>ra_person = ''P-9'', ra_role = AUTHORITY\<rparr>]"

definition authority_scopes :: "role_scope list" where
  "authority_scopes = [\<lparr>rs_person = ''P-9'', rs_role = AUTHORITY,
     rs_scope = \<lparr>sc_corridor = ''A'', sc_sections = [''S2'']\<rparr>\<rparr>]"

definition authority_directory :: directory where
  "authority_directory = (case build_directory [authority_person] authority_roles authority_scopes of Inr d \<Rightarrow> d)"

lemma authority_directory_built:
  "build_directory [authority_person] authority_roles authority_scopes = Inr authority_directory"
proof -
  have "\<exists>d. build_directory [authority_person] authority_roles authority_scopes = Inr d"
    unfolding build_directory_Inr
    by (auto simp: authority_person_def authority_roles_def authority_scopes_def role_assignment_of_def)
  then show ?thesis by (auto simp: authority_directory_def)
qed

definition enforced_policy :: policy where
  "enforced_policy = \<lparr>pol_enforcing = True, pol_authenticated = True, pol_authorize = authenticated_role,
     pol_authorize_resource = Some (authenticated_resource
       (lookup_scopes (Identity_Directory authority_directory)) fmempty)\<rparr>"

lemma enforced_policy_made: "authenticated_policy (Identity_Directory authority_directory) [] = Inr enforced_policy"
  by (simp add: authenticated_policy_def enforced_policy_def)

definition enforced_service :: service where
  "enforced_service = \<lparr>sv_policy = enforced_policy, sv_corridor = ''A'', sv_horizon = 1440, sv_budget = 1000,
     sv_sla = ASSUMED_DEMO_SLA_POLICY, sv_runs = []\<rparr>"

definition authority_actor :: actor where
  "authority_actor = \<lparr>actor_id = ''P-9'', actor_role = AUTHORITY, actor_assurance = AUTHENTICATED\<rparr>"

definition run_world :: world where
  "run_world = \<lparr>wd_now = run_moment, wd_env = run_env ''W'', wd_sha = run_sha, wd_hex = run_hex,
     wd_execution = run_execution, wd_say = (\<lambda>_. ''refused'')\<rparr>"

lemma sited_facts:
  "get sited_db ''J1'' = Some sited_job" "job_status sited_job = SCHEDULED" "row_ok sited_job"
  "\<not> dhas (metadata_of (job_block sited_job)) EXECUTION_ID_KEY" "job_start sited_job = Some 60"
  "job_end sited_job = Some 120" "proposal_run_id_of sited_job = JStr ''RUN-1''"
  "resource_section (job_resource sited_job) = Some ''S2''"
  by code_simp+

lemma authority_cleared: "cleared enforced_service authority_actor COMMIT_BLOCK sited_db ''J1''"
proof -
  have "\<lparr>sc_corridor = ''A'', sc_sections = [''S2'']\<rparr> \<in> set (scopes_for_actor authority_directory ''P-9'' AUTHORITY)"
    using directory_scopes [OF authority_directory_built] by (simp add: authority_scopes_def HUMAN_ROLES_def)
  then have "covers fmempty COMMIT_BLOCK \<lparr>loc_corridor = Some ''A'', loc_section = Some ''S2''\<rparr>
      (scopes_for_actor authority_directory ''P-9'' AUTHORITY)"
    by (auto simp: covers_def CORRIDOR_SCOPED_ACTIONS_def strip_def is_space_def of_char_def intro!: bexI)
  moreover have "strip ''A'' \<noteq> []" by code_simp
  ultimately show ?thesis
    by (simp add: cleared_def sited_facts enforced_service_def enforced_policy_def authority_actor_def
        authenticated_role_Inr authorize_job_resource_def job_location authorize_resource_def
        authenticated_resource_def require_authenticated_def enforce_resource_Inr)
qed

lemma run_approval_served:
  obtains j' d' where "serve enforced_service run_world (Some authority_actor) (Approve ''J1'' ''RUN-1'') sited_db =
    (Inr j', d')" "job_status j' = NOTIFIED"
proof -
  have t: "dt_offset (wd_now run_world) \<noteq> None" "in_range (instant (wd_now run_world))"
    by (simp_all add: run_world_def run_moment_def utc_def instant_def in_range_def run_day_value
        LAST_DAY_def)
  have f: "fresh (wd_env run_world) 0 \<noteq> []" "fresh (wd_env run_world) 0 \<notin> ev_id ` set (db_events sited_db)"
    by (simp_all add: run_world_def run_env_def sited_db_def)
  have "strip ''RUN-1'' \<noteq> []" by code_simp
  from approval_served [OF sited_facts(1) _ sited_facts(2-7) _ this _ _ t f authority_cleared] that
  show thesis by (auto simp: authority_actor_def)
qed

lemma denied_call_changes_nothing_witness:
  "\<exists>e. serve enforced_service run_world None (Notify ''J1'' None) sited_db = (Inl e, sited_db)"
proof (rule denied_call_changes_nothing)
  show "ask enforced_service (resolve_actor None) (call_action (Notify ''J1'' None)) =
      Inl (denied unidentified_actor COMMIT_BLOCK) \<or>
    get sited_db (call_job (Notify ''J1'' None)) = Some sited_job \<and>
    authorize_job_resource enforced_service (resolve_actor None) (call_action (Notify ''J1'' None)) sited_job =
      Inl (denied unidentified_actor COMMIT_BLOCK)"
    by (simp add: enforced_service_def enforced_policy_def resolve_actor_def authenticated_role_def
        require_authenticated_def unidentified_actor_def)
qed

lemma enforced_call_in_scope_witness:
  "(\<exists>j'. fst (serve enforced_service run_world (Some authority_actor) (Approve ''J1'' ''RUN-1'') sited_db) = Inr j') \<and>
   \<lparr>ra_person = ''P-9'', ra_role = AUTHORITY\<rparr> \<in> set authority_roles"
proof -
  obtain j' d' where s: "serve enforced_service run_world (Some authority_actor) (Approve ''J1'' ''RUN-1'') sited_db =
      (Inr j', d')" by (rule run_approval_served)
  have p: "authenticated_policy (Identity_Directory authority_directory) [] = Inr (sv_policy enforced_service)"
    by (simp add: enforced_policy_made enforced_service_def)
  from enforced_call_in_scope [OF authority_directory_built p, of run_world "Some authority_actor"
      "Approve ''J1'' ''RUN-1''" sited_db j'] s
  have "\<lparr>ra_person = actor_id authority_actor, ra_role = actor_role authority_actor\<rparr> \<in> set authority_roles"
    by auto
  with s show ?thesis by (simp add: authority_actor_def)
qed

end
