(* ===== verification/Section_Registry.thy ===== *)
theory Section_Registry
  imports Prelude "HOL-Library.List_Lexorder" "HOL-Library.Char_ord"
begin

text \<open>
  Railway topology: the records of \<^verbatim>\<open>backend/app/data/models.py\<close> and the section registry of
  \<^verbatim>\<open>backend/app/data/section_registry.py\<close>, the one authority that turns a kilometre or a pair of
  stations into a section.
\<close>

section \<open>Domain records\<close>

record station =
  stn_id :: string
  stn_corridor :: string
  stn_name :: string
  stn_km :: rat

record section_record =
  sec_id :: string
  sec_corridor :: string
  sec_start_station :: string
  sec_end_station :: string
  sec_km_start :: rat
  sec_km_end :: rat
  sec_track_ids :: "string list"
  sec_track_id :: "string option"

text \<open>\<^verbatim>\<open>Section.__post_init__\<close>: the singular and the plural track field are brought in line, and a
  compound track id is refused.\<close>

definition make_section :: "section_record \<Rightarrow> section_record res" where
  "make_section s =
    (let s' = (if sec_track_ids s \<noteq> [] then
                 (if sec_track_id s = None \<and> length (sec_track_ids s) = 1
                  then s\<lparr>sec_track_id := Some (hd (sec_track_ids s))\<rparr> else s)
               else case sec_track_id s of None \<Rightarrow> s | Some t \<Rightarrow> s\<lparr>sec_track_ids := [t]\<rparr>)
     in if list_ex (\<lambda>t. CHR '':'' \<in> set t) (sec_track_ids s') then Inl ValueError else Inr s')"

record track_segment =
  trk_id :: string
  trk_corridor :: string
  trk_segment_name :: string
  trk_section_name :: string
  trk_direction :: string
  trk_km_start :: rat
  trk_km_end :: rat
  trk_speed_limit :: int
  trk_electrified :: bool
  trk_daily_trains :: int
  trk_route_class :: string

record asset =
  ast_id :: string
  ast_name :: string
  ast_type :: string
  ast_track :: string
  ast_km :: rat
  ast_criticality :: rat
  ast_condition :: rat
  ast_days_since_maintained :: int
  ast_severity :: string
  ast_tonnes :: rat
  ast_installed :: int
  ast_failures :: int
  ast_metadata :: dict

record corridor =
  crd_id :: string
  crd_name :: string
  crd_tracks :: "track_segment list"
  crd_assets :: "asset list"

section \<open>The registry\<close>

definition format_section_id :: "string \<Rightarrow> string \<Rightarrow> string" where
  "format_section_id low high = low @ ''-'' @ high"

definition validate_section :: "section_record \<Rightarrow> string \<Rightarrow> unit res" where
  "validate_section s corridor_id =
    (if sec_id s = [] then Inl SectionValidationError
     else if sec_corridor s \<noteq> corridor_id then Inl SectionValidationError
     else if sec_start_station s = [] \<or> sec_end_station s = [] then Inl SectionValidationError
     else if sec_start_station s = sec_end_station s then Inl SectionValidationError
     else if \<not> sec_km_start s < sec_km_end s then Inl SectionValidationError
     else Inr ())"

text \<open>
  A two-element \<^verbatim>\<open>frozenset\<close> of station ids is the pair in increasing order. The sections are kept
  in insertion order, as the dictionary by id keeps them.
\<close>

definition station_pair :: "string \<Rightarrow> string \<Rightarrow> string \<times> string" where
  "station_pair a b = (if a \<le> b then (a, b) else (b, a))"

record registry =
  reg_corridor :: string
  reg_by_id :: "section_record list"
  reg_by_pair :: "(string \<times> string, section_record list) fmap"

definition pair_sections :: "registry \<Rightarrow> string \<times> string \<Rightarrow> section_record list" where
  "pair_sections r p = (case fmlookup (reg_by_pair r) p of None \<Rightarrow> [] | Some ss \<Rightarrow> ss)"

definition register_section :: "section_record \<Rightarrow> registry \<Rightarrow> registry res" where
  "register_section s r =
     bind_res (validate_section s (reg_corridor r)) (\<lambda>_.
     if sec_id s \<in> sec_id ` set (reg_by_id r) then Inl SectionValidationError
     else let p = station_pair (sec_start_station s) (sec_end_station s) in
       Inr (r\<lparr>reg_by_id := reg_by_id r @ [s],
              reg_by_pair := fmupd p (pair_sections r p @ [s]) (reg_by_pair r)\<rparr>))"

fun register_sections :: "section_record list \<Rightarrow> registry \<Rightarrow> registry res" where
  "register_sections [] r = Inr r"
| "register_sections (s # ss) r = bind_res (register_section s r) (register_sections ss)"

definition make_registry :: "string \<Rightarrow> section_record list \<Rightarrow> registry res" where
  "make_registry corridor_id ss =
     register_sections ss \<lparr>reg_corridor = corridor_id, reg_by_id = [], reg_by_pair = fmempty\<rparr>"

text \<open>\<^verbatim>\<open>from_stations\<close>: one section for every two stations adjacent by chainage.\<close>

definition section_between :: "string \<Rightarrow> string list \<Rightarrow> station \<times> station \<Rightarrow> section_record res" where
  "section_between corridor_id tracks = (\<lambda>(a, b).
     make_section \<lparr>sec_id = format_section_id (stn_id a) (stn_id b), sec_corridor = corridor_id,
       sec_start_station = stn_id a, sec_end_station = stn_id b, sec_km_start = stn_km a,
       sec_km_end = stn_km b, sec_track_ids = tracks, sec_track_id = None\<rparr>)"

definition from_stations :: "string \<Rightarrow> station list \<Rightarrow> string list \<Rightarrow> registry res" where
  "from_stations corridor_id stations tracks =
    (if length stations < 2 then Inl SectionValidationError
     else
       let ordered = sort_key stn_km stations in
       if \<not> distinct (map stn_id ordered) then Inl SectionValidationError
       else bind_res (map_res (section_between corridor_id tracks) (zip ordered (tl ordered)))
              (make_registry corridor_id))"

section \<open>Lookups\<close>

definition get_section :: "registry \<Rightarrow> string \<Rightarrow> section_record res" where
  "get_section r i =
    (case find (\<lambda>s. sec_id s = i) (reg_by_id r) of None \<Rightarrow> Inl UnknownSectionError | Some s \<Rightarrow> Inr s)"

definition has_section :: "registry \<Rightarrow> string \<Rightarrow> bool" where
  "has_section r i \<longleftrightarrow> i \<in> sec_id ` set (reg_by_id r)"

definition resolve_between :: "registry \<Rightarrow> string \<Rightarrow> string \<Rightarrow> section_record res" where
  "resolve_between r first second =
    (case pair_sections r (station_pair first second) of
       [] \<Rightarrow> Inl UnknownSectionError
     | [s] \<Rightarrow> Inr s
     | _ \<Rightarrow> Inl SectionValidationError)"

definition corridor_min_km :: "registry \<Rightarrow> rat" where
  "corridor_min_km r = Min (sec_km_start ` set (reg_by_id r))"

definition corridor_max_km :: "registry \<Rightarrow> rat" where
  "corridor_max_km r = Max (sec_km_end ` set (reg_by_id r))"

text \<open>The sections that hold a kilometre: half-open spans, the terminus given to those that end there.\<close>

definition sections_at :: "registry \<Rightarrow> rat \<Rightarrow> section_record list" where
  "sections_at r km =
    (let inside = filter (\<lambda>s. sec_km_start s \<le> km \<and> km < sec_km_end s) (reg_by_id r)
     in if inside = [] \<and> km = corridor_max_km r
        then filter (\<lambda>s. sec_km_end s = corridor_max_km r) (reg_by_id r) else inside)"

definition resolve_by_chainage :: "registry \<Rightarrow> rat \<Rightarrow> string option \<Rightarrow> section_record res" where
  "resolve_by_chainage r km track_id =
    (if reg_by_id r = [] then Inl ChainageResolutionError
     else if km < corridor_min_km r \<or> corridor_max_km r < km then Inl ChainageResolutionError
     else
       let geographic = sections_at r km;
           candidates = (case track_id of None \<Rightarrow> geographic
                         | Some t \<Rightarrow> filter (\<lambda>s. t \<in> set (sec_track_ids s)) geographic)
       in (case candidates of [s] \<Rightarrow> Inr s | _ \<Rightarrow> Inl ChainageResolutionError))"

definition track_ids_for :: "registry \<Rightarrow> string \<Rightarrow> string list res" where
  "track_ids_for r i = bind_res (get_section r i) (\<lambda>s. Inr (sec_track_ids s))"

definition section_ids :: "registry \<Rightarrow> string list" where
  "section_ids r = map sec_id (reg_by_id r)"

section \<open>What a registry holds\<close>

lemma validate_section_Inr [simp]:
  "validate_section s c = Inr () \<longleftrightarrow> sec_id s \<noteq> [] \<and> sec_corridor s = c \<and> sec_start_station s \<noteq> [] \<and>
     sec_end_station s \<noteq> [] \<and> sec_start_station s \<noteq> sec_end_station s \<and> sec_km_start s < sec_km_end s"
  by (auto simp: validate_section_def)

lemma register_section_Inr:
  "register_section s r = Inr r' \<longleftrightarrow> validate_section s (reg_corridor r) = Inr () \<and>
     sec_id s \<notin> sec_id ` set (reg_by_id r) \<and>
     (let p = station_pair (sec_start_station s) (sec_end_station s) in
      r' = r\<lparr>reg_by_id := reg_by_id r @ [s], reg_by_pair := fmupd p (pair_sections r p @ [s]) (reg_by_pair r)\<rparr>)"
  by (auto simp: register_section_def bind_res_Inr_iff Let_def simp del: validate_section_Inr)

text \<open>A registry is its list of sections; the pair index is a view of it.\<close>

definition registry_ok :: "registry \<Rightarrow> bool" where
  "registry_ok r \<longleftrightarrow> distinct (map sec_id (reg_by_id r)) \<and>
     (\<forall>s \<in> set (reg_by_id r). validate_section s (reg_corridor r) = Inr ()) \<and>
     (\<forall>a b. pair_sections r (station_pair a b) =
        filter (\<lambda>s. station_pair (sec_start_station s) (sec_end_station s) = station_pair a b) (reg_by_id r))"

lemma pair_sections_upd:
  "pair_sections (r\<lparr>reg_by_id := xs, reg_by_pair := fmupd p ys (reg_by_pair r)\<rparr>) q =
     (if q = p then ys else pair_sections r q)"
  by (simp add: pair_sections_def)

lemma register_sections_Inr:
  assumes "registry_ok r" "register_sections ss r = Inr r'"
  shows "registry_ok r' \<and> reg_by_id r' = reg_by_id r @ ss \<and> reg_corridor r' = reg_corridor r"
  using assms
proof (induction ss arbitrary: r)
  case (Cons s ss)
  from Cons.prems(2) obtain r1 where r1: "register_section s r = Inr r1" "register_sections ss r1 = Inr r'"
    by (auto simp: bind_res_Inr_iff)
  note s = r1(1) [unfolded register_section_Inr Let_def]
  have "registry_ok r1"
    using s Cons.prems(1) by (auto simp: registry_ok_def pair_sections_upd simp del: validate_section_Inr)
  with Cons.IH [OF _ r1(2)] s show ?case by auto
qed simp

lemma registry_ok_empty: "registry_ok \<lparr>reg_corridor = c, reg_by_id = [], reg_by_pair = fmempty\<rparr>"
  by (simp add: registry_ok_def pair_sections_def)

lemma make_registry_ok:
  "make_registry c ss = Inr r \<Longrightarrow> registry_ok r \<and> reg_by_id r = ss \<and> reg_corridor r = c"
  using register_sections_Inr [OF registry_ok_empty] by (force simp: make_registry_def)

lemma station_pair_eq:
  "station_pair a b = station_pair c d \<longleftrightarrow> (a = c \<and> b = d) \<or> (a = d \<and> b = c)"
  by (auto simp: station_pair_def)

lemma resolve_between_Inr:
  assumes "registry_ok r" "resolve_between r a b = Inr s"
  shows "s \<in> set (reg_by_id r)"
    "(sec_start_station s = a \<and> sec_end_station s = b) \<or> (sec_start_station s = b \<and> sec_end_station s = a)"
proof -
  have "s \<in> set (pair_sections r (station_pair a b))"
    using assms(2) by (auto simp: resolve_between_def split: list.splits)
  with assms(1) show "s \<in> set (reg_by_id r)"
    "(sec_start_station s = a \<and> sec_end_station s = b) \<or> (sec_start_station s = b \<and> sec_end_station s = a)"
    by (auto simp: registry_ok_def station_pair_eq)
qed

end
