(* ===== verification/Section_Facts.thy ===== *)
theory Section_Facts
  imports Section_Registry
begin

text \<open>
  What the section registry answers: the sections derived from a list of stations are consecutive
  half-open spans, so every kilometre of the corridor lies in exactly one of them.
\<close>

section \<open>Adjacent spans\<close>

lemma zip_cover:
  fixes f :: "'a \<Rightarrow> rat"
  assumes "f x \<le> k" "k < f (last (x # xs))"
  shows "\<exists>(a, b) \<in> set (zip (x # xs) xs). f a \<le> k \<and> k < f b"
  using assms
proof (induction xs arbitrary: x)
  case (Cons y ys)
  show ?case
  proof (cases "k < f y")
    case False
    then show ?thesis using Cons.IH [of y] Cons.prems by fastforce
  qed (use Cons.prems in auto)
qed simp

lemma adjacent_disjoint:
  fixes f :: "'a \<Rightarrow> rat"
  assumes "sorted (map f xs)" "(a, b) \<in> set (zip xs (tl xs))" "(c, d) \<in> set (zip xs (tl xs))"
  shows "(a, b) = (c, d) \<or> f b \<le> f c \<or> f d \<le> f a"
proof -
  from assms(2,3) obtain i j where i: "i < length xs - 1" "a = xs ! i" "b = xs ! Suc i"
    and j: "j < length xs - 1" "c = xs ! j" "d = xs ! Suc j"
    by (auto simp: in_set_zip nth_tl)
  have mono: "m \<le> n \<Longrightarrow> n < length xs \<Longrightarrow> f (xs ! m) \<le> f (xs ! n)" for m n
    using sorted_nth_mono [OF assms(1), of m n] by simp
  consider "i = j" | "Suc i \<le> j" | "Suc j \<le> i" by linarith
  then show ?thesis
    by cases (use i j mono [of "Suc i" j] mono [of "Suc j" i] in auto)
qed

lemma filter_single:
  assumes "distinct xs" "x \<in> set xs" "\<And>y. y \<in> set xs \<Longrightarrow> P y \<longleftrightarrow> y = x"
  shows "filter P xs = [x]"
proof -
  have "filter P xs = filter (\<lambda>y. y = x) xs" using assms(3) by (intro filter_cong) auto
  also have "\<dots> = [x]" using assms(1,2) by (induction xs) (auto simp: filter_empty_conv)
  finally show ?thesis .
qed

section \<open>Sections of a list of stations\<close>

lemma section_between_Inr:
  assumes "section_between c tracks (a, b) = Inr s"
  shows "sec_id s = format_section_id (stn_id a) (stn_id b)" "sec_corridor s = c"
    "sec_start_station s = stn_id a" "sec_end_station s = stn_id b"
    "sec_km_start s = stn_km a" "sec_km_end s = stn_km b" "sec_track_ids s = tracks"
  using assms by (auto simp: section_between_def make_section_def Let_def split: if_splits)

lemma from_stations_Inr:
  assumes "from_stations c stations tracks = Inr r"
  obtains "registry_ok r" "2 \<le> length stations" "reg_corridor r = c"
    "list_all2 (\<lambda>p s. section_between c tracks p = Inr s)
       (zip (sort_key stn_km stations) (tl (sort_key stn_km stations))) (reg_by_id r)"
proof -
  from assms obtain ss where ss:
      "map_res (section_between c tracks) (zip (sort_key stn_km stations) (tl (sort_key stn_km stations))) = Inr ss"
      "make_registry c ss = Inr r" "2 \<le> length stations"
    by (auto simp: from_stations_def Let_def bind_res_Inr_iff split: if_splits)
  from make_registry_ok [OF ss(2)] ss(1,3) show thesis by (intro that) (simp_all add: map_res_Inr_iff)
qed

lemma from_stations_ok:
  assumes "from_stations c stations tracks = Inr r"
  shows "registry_ok r" "2 \<le> length stations" "distinct (reg_by_id r)" "sort_key stn_km stations \<noteq> []"
    "s \<in> set (reg_by_id r) \<Longrightarrow> sec_km_start s < sec_km_end s"
proof -
  from assms show ok: "registry_ok r" "2 \<le> length stations" by (blast elim: from_stations_Inr)+
  then show "distinct (reg_by_id r)" "s \<in> set (reg_by_id r) \<Longrightarrow> sec_km_start s < sec_km_end s"
    by (auto simp: registry_ok_def distinct_map)
  show "sort_key stn_km stations \<noteq> []" using ok(2) by (metis length_sort list.size(3) not_numeral_le_zero)
qed

lemma list_all2_left: "list_all2 P xs ys \<Longrightarrow> x \<in> set xs \<Longrightarrow> \<exists>y \<in> set ys. P x y"
  by (induction rule: list_all2_induct) auto

lemma list_all2_right: "list_all2 P xs ys \<Longrightarrow> y \<in> set ys \<Longrightarrow> \<exists>x \<in> set xs. P x y"
  by (induction rule: list_all2_induct) auto

text \<open>Each section is the span of an adjacent pair of stations, and each pair has one.\<close>

lemma station_sections:
  assumes "from_stations c stations tracks = Inr r" "ys = sort_key stn_km stations"
  shows "s \<in> set (reg_by_id r) \<Longrightarrow> \<exists>a b. (a, b) \<in> set (zip ys (tl ys)) \<and> section_between c tracks (a, b) = Inr s"
    and "(a, b) \<in> set (zip ys (tl ys)) \<Longrightarrow> \<exists>s \<in> set (reg_by_id r). section_between c tracks (a, b) = Inr s"
proof -
  from assms have all: "list_all2 (\<lambda>p s. section_between c tracks p = Inr s) (zip ys (tl ys)) (reg_by_id r)"
    by (blast elim: from_stations_Inr)
  show "s \<in> set (reg_by_id r) \<Longrightarrow> \<exists>a b. (a, b) \<in> set (zip ys (tl ys)) \<and> section_between c tracks (a, b) = Inr s"
    using list_all2_right [OF all] by force
  show "(a, b) \<in> set (zip ys (tl ys)) \<Longrightarrow> \<exists>s \<in> set (reg_by_id r). section_between c tracks (a, b) = Inr s"
    using list_all2_left [OF all] by force
qed

lemma sorted_hd_last:
  fixes f :: "'a \<Rightarrow> rat"
  assumes "sorted (map f ys)" "y \<in> set ys"
  shows "f (hd ys) \<le> f y" "f y \<le> f (last ys)"
proof -
  from assms(2) obtain us vs where ys: "ys = us @ y # vs" by (meson split_list)
  then show "f (hd ys) \<le> f y" using assms(1) by (cases us) (auto simp: sorted_append)
  show "f y \<le> f (last ys)" using assms(1) ys by (cases vs rule: rev_cases) (auto simp: sorted_append)
qed

lemma zip_tl_mem: "(a, b) \<in> set (zip ys (tl ys)) \<Longrightarrow> a \<in> set ys \<and> b \<in> set ys"
  by (cases ys) (auto dest: set_zip_leftD set_zip_rightD)

lemma station_km_ends:
  assumes "from_stations c stations tracks = Inr r" "ys = sort_key stn_km stations"
  shows "reg_by_id r \<noteq> []" "corridor_min_km r = stn_km (hd ys)" "corridor_max_km r = stn_km (last ys)"
proof -
  have len: "2 \<le> length ys" using from_stations_ok(2) [OF assms(1)] assms(2) by simp
  have sorted: "sorted (map stn_km ys)" using assms(2) by simp
  note secs = station_sections [OF assms]
  have bounds: "stn_km (hd ys) \<le> sec_km_start t \<and> sec_km_end t \<le> stn_km (last ys)"
    if "t \<in> set (reg_by_id r)" for t
    using secs(1) [OF that] section_between_Inr zip_tl_mem sorted_hd_last [OF sorted] by metis
  have "(hd ys, ys ! 1) \<in> set (zip ys (tl ys))"
    using len by (cases ys; cases "tl ys") auto
  from secs(2) [OF this] obtain s where s: "s \<in> set (reg_by_id r)" "sec_km_start s = stn_km (hd ys)"
    using section_between_Inr(5) by blast
  then show "reg_by_id r \<noteq> []" by auto
  show "corridor_min_km r = stn_km (hd ys)"
    unfolding corridor_min_km_def using s bounds by (intro Min_eqI) (auto intro!: image_eqI [of _ _ s])
  have "last ys = ys ! (length ys - 1)" using len by (intro last_conv_nth) auto
  then have "(ys ! (length ys - 2), last ys) \<in> set (zip ys (tl ys))"
    using len by (auto simp: in_set_zip nth_tl Suc_diff_Suc numeral_2_eq_2 intro!: exI [of _ "length ys - 2"])
  from secs(2) [OF this] obtain t where t: "t \<in> set (reg_by_id r)" "sec_km_end t = stn_km (last ys)"
    using section_between_Inr(6) by blast
  show "corridor_max_km r = stn_km (last ys)"
    unfolding corridor_max_km_def using t bounds by (intro Max_eqI) (auto intro!: image_eqI [of _ _ t])
qed

section \<open>The partition\<close>

text \<open>The span of a section: half-open, and closed at the end of the corridor.\<close>

definition in_section :: "registry \<Rightarrow> rat \<Rightarrow> section_record \<Rightarrow> bool" where
  "in_section r km s \<longleftrightarrow> sec_km_start s \<le> km \<and>
     (km < sec_km_end s \<or> (km = sec_km_end s \<and> km = corridor_max_km r))"

lemma finite_ends: "s \<in> set (reg_by_id r) \<Longrightarrow> sec_km_end s \<le> corridor_max_km r \<and> corridor_min_km r \<le> sec_km_start s"
  by (auto simp: corridor_max_km_def corridor_min_km_def)

lemma resolve_by_chainage_Inr:
  assumes "resolve_by_chainage r km track = Inr s" "registry_ok r"
  shows "s \<in> set (reg_by_id r) \<and> in_section r km s \<and> (\<forall>t. track = Some t \<longrightarrow> t \<in> set (sec_track_ids s))"
proof -
  from assms(1) have one: "(case track of None \<Rightarrow> sections_at r km
      | Some t \<Rightarrow> filter (\<lambda>s. t \<in> set (sec_track_ids s)) (sections_at r km)) = [s]"
    unfolding resolve_by_chainage_def Let_def by (simp split: if_splits list.splits)
  then have "s \<in> set (case track of None \<Rightarrow> sections_at r km
      | Some t \<Rightarrow> filter (\<lambda>s. t \<in> set (sec_track_ids s)) (sections_at r km))" by simp
  then have s: "s \<in> set (sections_at r km)" "\<forall>t. track = Some t \<longrightarrow> t \<in> set (sec_track_ids s)"
    by (auto split: option.splits)
  then have "s \<in> set (reg_by_id r)" by (auto simp: sections_at_def Let_def split: if_splits)
  moreover from this assms(2) have "sec_km_start s < sec_km_end s" by (auto simp: registry_ok_def)
  moreover from s(1) have "(sec_km_start s \<le> km \<and> km < sec_km_end s) \<or> (km = corridor_max_km r \<and> sec_km_end s = km)"
    by (auto simp: sections_at_def Let_def split: if_splits)
  ultimately show ?thesis using s(2) by (auto simp: in_section_def)
qed

lemma in_one_section:
  assumes "from_stations c stations tracks = Inr r" "s \<in> set (reg_by_id r)" "s' \<in> set (reg_by_id r)"
    and "in_section r km s" "in_section r km s'"
  shows "s = s'"
proof -
  let ?ys = "sort_key stn_km stations"
  note secs = station_sections [OF assms(1) refl]
  from secs(1) [OF assms(2)] secs(1) [OF assms(3)] obtain a b a' b' where
    ab: "(a, b) \<in> set (zip ?ys (tl ?ys))" "section_between c tracks (a, b) = Inr s" and
    ab': "(a', b') \<in> set (zip ?ys (tl ?ys))" "section_between c tracks (a', b') = Inr s'" by blast
  note lt = from_stations_ok(5) [OF assms(1) assms(2)] from_stations_ok(5) [OF assms(1) assms(3)]
  have "(a, b) = (a', b') \<or> stn_km b \<le> stn_km a' \<or> stn_km b' \<le> stn_km a"
    by (rule adjacent_disjoint [OF _ ab(1) ab'(1)]) simp
  then show ?thesis
    using assms(4,5) lt finite_ends [OF assms(2)] finite_ends [OF assms(3)] ab(2) ab'(2)
      section_between_Inr(5,6) [OF ab(2)] section_between_Inr(5,6) [OF ab'(2)]
    by (auto simp: in_section_def)
qed

lemma in_some_section:
  assumes "from_stations c stations tracks = Inr r" "corridor_min_km r \<le> km" "km \<le> corridor_max_km r"
  obtains s where "s \<in> set (reg_by_id r)" "in_section r km s"
proof (cases "km = corridor_max_km r")
  case True
  have "corridor_max_km r \<in> sec_km_end ` set (reg_by_id r)"
    unfolding corridor_max_km_def using station_km_ends(1) [OF assms(1) refl] by (intro Max_in) auto
  then obtain s where s: "s \<in> set (reg_by_id r)" "sec_km_end s = corridor_max_km r" by auto
  from from_stations_ok(5) [OF assms(1) s(1)] s True show ?thesis by (intro that [of s]) (auto simp: in_section_def)
next
  case False
  let ?ys = "sort_key stn_km stations"
  from from_stations_ok(4) [OF assms(1)] obtain y zs where ys: "?ys = y # zs" by (cases ?ys) auto
  have "\<exists>(a, b) \<in> set (zip (y # zs) zs). stn_km a \<le> km \<and> km < stn_km b"
    using assms(2,3) False station_km_ends(2,3) [OF assms(1) refl] by (intro zip_cover) (auto simp: ys)
  then obtain a b where ab: "(a, b) \<in> set (zip ?ys (tl ?ys))" "stn_km a \<le> km" "km < stn_km b"
    by (auto simp: ys)
  from station_sections(2) [OF assms(1) refl ab(1)] obtain s where
    "s \<in> set (reg_by_id r)" "section_between c tracks (a, b) = Inr s" by blast
  with ab(2,3) section_between_Inr(5,6) show ?thesis by (intro that [of s]) (auto simp: in_section_def)
qed

lemma resolve_in_section:
  assumes "from_stations c stations tracks = Inr r" "track = None \<or> (\<exists>t \<in> set tracks. track = Some t)"
    and "s \<in> set (reg_by_id r)" "in_section r km s"
  shows "resolve_by_chainage r km track = Inr s"
proof -
  note dist = from_stations_ok(3) [OF assms(1)]
  have tr: "u \<in> set (reg_by_id r) \<Longrightarrow> sec_track_ids u = tracks" for u
    using station_sections(1) [OF assms(1) refl] section_between_Inr(7) by blast
  let ?inside = "filter (\<lambda>s. sec_km_start s \<le> km \<and> km < sec_km_end s) (reg_by_id r)"
  have only: "u \<in> set (reg_by_id r) \<Longrightarrow> in_section r km u \<Longrightarrow> u = s" for u
    using in_one_section [OF assms(1) _ assms(3) _ assms(4)] by blast
  have geo: "sections_at r km = [s]"
  proof (cases "km < sec_km_end s")
    case True
    have "?inside = [s]"
    proof (rule filter_single [OF dist assms(3)])
      fix u assume "u \<in> set (reg_by_id r)"
      then show "sec_km_start u \<le> km \<and> km < sec_km_end u \<longleftrightarrow> u = s"
        using only [of u] True assms(4) by (auto simp: in_section_def)
    qed
    then show ?thesis by (simp add: sections_at_def)
  next
    case False
    then have km: "km = sec_km_end s" "km = corridor_max_km r" using assms(4) by (auto simp: in_section_def)
    have "?inside = []" using only False by (auto simp: filter_empty_conv in_section_def)
    moreover have "filter (\<lambda>s. sec_km_end s = corridor_max_km r) (reg_by_id r) = [s]"
    proof (rule filter_single [OF dist assms(3)])
      fix u assume u: "u \<in> set (reg_by_id r)"
      from from_stations_ok(5) [OF assms(1) u] show "sec_km_end u = corridor_max_km r \<longleftrightarrow> u = s"
        using only [OF u] km by (auto simp: in_section_def)
    qed
    ultimately show ?thesis using km by (simp add: sections_at_def)
  qed
  have "reg_by_id r \<noteq> []" using assms(3) by auto
  moreover have "corridor_min_km r \<le> km" "km \<le> corridor_max_km r"
    using finite_ends [OF assms(3)] assms(4) by (auto simp: in_section_def)
  ultimately show ?thesis
    using assms(2) tr [OF assms(3)] unfolding resolve_by_chainage_def Let_def geo by (auto simp: not_less)
qed

text \<open>The sections derived from a list of stations partition the corridor: for a track that serves it,
  a kilometre resolves exactly when it lies between the first and the last station, and then to the one
  section that contains it - the section a shared station starts, except that the last station belongs
  to the section it ends.\<close>

theorem chainage_partition:
  assumes "from_stations c stations tracks = Inr r" "t \<in> set tracks"
  shows "((\<exists>s. resolve_by_chainage r km (Some t) = Inr s) \<longleftrightarrow>
      (\<exists>a \<in> set stations. stn_km a \<le> km) \<and> (\<exists>b \<in> set stations. km \<le> stn_km b)) \<and>
    (\<forall>s. resolve_by_chainage r km (Some t) = Inr s \<longleftrightarrow> s \<in> set (reg_by_id r) \<and> in_section r km s)"
proof -
  note ok = from_stations_ok(1) [OF assms(1)]
  have exact: "resolve_by_chainage r km (Some t) = Inr s \<longleftrightarrow> s \<in> set (reg_by_id r) \<and> in_section r km s" for s
    using resolve_in_section [OF assms(1)] resolve_by_chainage_Inr [OF _ ok] assms(2) by blast
  let ?ys = "sort_key stn_km stations"
  note ne = from_stations_ok(4) [OF assms(1)]
  have mem: "hd ?ys \<in> set stations" "last ?ys \<in> set stations"
    using hd_in_set [OF ne] last_in_set [OF ne] by (simp_all del: in_set_conv_decomp)
  have ends: "a \<in> set stations \<Longrightarrow> corridor_min_km r \<le> stn_km a \<and> stn_km a \<le> corridor_max_km r" for a
    using sorted_hd_last [of stn_km ?ys a] station_km_ends(2,3) [OF assms(1) refl] by simp
  have lo: "(\<exists>a \<in> set stations. stn_km a \<le> km) \<longleftrightarrow> corridor_min_km r \<le> km"
    using mem(1) ends station_km_ends(2) [OF assms(1) refl] by (metis order_trans)
  have hi: "(\<exists>b \<in> set stations. km \<le> stn_km b) \<longleftrightarrow> km \<le> corridor_max_km r"
    using mem(2) ends station_km_ends(3) [OF assms(1) refl] by (metis order_trans)
  have "(\<exists>s. resolve_by_chainage r km (Some t) = Inr s) \<longleftrightarrow> corridor_min_km r \<le> km \<and> km \<le> corridor_max_km r"
  proof
    assume "\<exists>s. resolve_by_chainage r km (Some t) = Inr s"
    then obtain s where "s \<in> set (reg_by_id r)" "in_section r km s" using exact by blast
    then show "corridor_min_km r \<le> km \<and> km \<le> corridor_max_km r"
      using finite_ends [of s r] by (auto simp: in_section_def)
  next
    assume "corridor_min_km r \<le> km \<and> km \<le> corridor_max_km r"
    then obtain s where "s \<in> set (reg_by_id r)" "in_section r km s" by (blast elim: in_some_section [OF assms(1)])
    then show "\<exists>s. resolve_by_chainage r km (Some t) = Inr s" using exact by blast
  qed
  with exact lo hi show ?thesis by blast
qed

definition ex_station :: "string \<Rightarrow> rat \<Rightarrow> station" where
  "ex_station i km = \<lparr>stn_id = i, stn_corridor = ''C'', stn_name = i, stn_km = km\<rparr>"

definition ex_stations :: "station list" where
  "ex_stations = [ex_station ''NDLS'' 0, ex_station ''FDB'' 28, ex_station ''NZM'' 7]"

definition ex_registry :: registry where
  "ex_registry = (case from_stations ''C'' ex_stations [''UP-1''] of Inr r \<Rightarrow> r)"

lemma ex_registry_made: "from_stations ''C'' ex_stations [''UP-1''] = Inr ex_registry"
  unfolding ex_registry_def by code_simp

lemma chainage_partition_witness:
  "(\<exists>s. resolve_by_chainage ex_registry 7 (Some ''UP-1'') = Inr s) \<and>
   \<not> (\<exists>s. resolve_by_chainage ex_registry 29 (Some ''UP-1'') = Inr s)"
  using chainage_partition [OF ex_registry_made, of "''UP-1''" 7]
    chainage_partition [OF ex_registry_made, of "''UP-1''" 29]
  by (auto simp: ex_stations_def ex_station_def)

end
