(* ===== verification/Field_Location.thy ===== *)
theory Field_Location
  imports Section_Facts
begin

text \<open>
  Where a reported job is: \<^verbatim>\<open>backend/app/jobs/resource_resolution.py\<close>, which turns the declared span
  of a job into the one section that holds it, and \<^verbatim>\<open>backend/app/jobs/field_location.py\<close>, which
  turns a location in a field worker's terms into the same metres and checks the two against each
  other.
\<close>

section \<open>The declared span\<close>

record resolved_resource =
  rr_track :: string
  rr_section :: string

text \<open>\<^verbatim>\<open>except ChainageResolutionError\<close> around both lookups.\<close>

definition resolve_end :: "registry \<Rightarrow> string \<Rightarrow> rat \<Rightarrow> section_record res" where
  "resolve_end r track km =
    (case resolve_by_chainage r km (Some track) of
       Inl e \<Rightarrow> Inl (case e of ChainageResolutionError \<Rightarrow> JobResourceResolutionError | _ \<Rightarrow> e)
     | Inr s \<Rightarrow> Inr s)"

definition resolve_job_resource :: "registry \<Rightarrow> string \<Rightarrow> rat \<Rightarrow> rat \<Rightarrow> resolved_resource res" where
  "resolve_job_resource r track start_m end_m =
     bind_res (resolve_end r track (start_m / 1000)) (\<lambda>s.
     bind_res (resolve_end r track (end_m / 1000)) (\<lambda>e.
     if sec_id s \<noteq> sec_id e then Inl JobResourceResolutionError
     else Inr \<lparr>rr_track = track, rr_section = sec_id s\<rparr>))"

section \<open>The field worker's terms\<close>

definition LOCATION_MATCH_TOLERANCE_M :: rat where "LOCATION_MATCH_TOLERANCE_M = 1 / 1000"

record resolved_location =
  rl_section :: string
  rl_from :: string
  rl_toward :: string
  rl_offset_start :: rat
  rl_offset_end :: rat
  rl_section_length :: rat
  rl_start :: rat
  rl_end :: rat

definition location_metadata :: "resolved_location \<Rightarrow> dict" where
  "location_metadata l = dict_of
     [(''section_id'', JStr (rl_section l)), (''from_station_id'', JStr (rl_from l)),
      (''toward_station_id'', JStr (rl_toward l)), (''offset_start_m'', JFloat (rl_offset_start l)),
      (''offset_end_m'', JFloat (rl_offset_end l)), (''derived_distance_start_m'', JFloat (rl_start l)),
      (''derived_distance_end_m'', JFloat (rl_end l))]"

text \<open>Both registry errors of the lookup by stations are raised again as a field location error.\<close>

definition section_joining :: "registry \<Rightarrow> string \<Rightarrow> string \<Rightarrow> section_record res" where
  "section_joining r from toward =
    (case resolve_between r from toward of
       Inl e \<Rightarrow> Inl (case e of UnknownSectionError \<Rightarrow> FieldLocationError
                       | SectionValidationError \<Rightarrow> FieldLocationError | _ \<Rightarrow> e)
     | Inr s \<Rightarrow> Inr s)"

definition convert_field_location ::
  "registry \<Rightarrow> string \<Rightarrow> string \<Rightarrow> rat \<Rightarrow> rat \<Rightarrow> resolved_location res" where
  "convert_field_location r from toward start end' =
    (if from = [] \<or> toward = [] then Inl FieldLocationError
     else if from = toward then Inl FieldLocationError
     else if start < 0 then Inl FieldLocationError
     else if end' \<le> start then Inl FieldLocationError
     else bind_res (section_joining r from toward) (\<lambda>s.
       let length_m = round_digits 6 ((sec_km_end s - sec_km_start s) * 1000) in
       if length_m < end' then Inl FieldLocationError
       else
         let (a, b) = (if from = sec_start_station s
                       then (sec_km_start s * 1000 + start, sec_km_start s * 1000 + end')
                       else (sec_km_end s * 1000 - end', sec_km_end s * 1000 - start))
         in Inr \<lparr>rl_section = sec_id s, rl_from = from, rl_toward = toward, rl_offset_start = start,
                rl_offset_end = end', rl_section_length = length_m,
                rl_start = round_digits 6 a, rl_end = round_digits 6 b\<rparr>))"

definition assert_matches_declared :: "resolved_location \<Rightarrow> rat \<Rightarrow> rat \<Rightarrow> unit res" where
  "assert_matches_declared l start_m end_m =
    (if \<bar>rl_start l - start_m\<bar> > LOCATION_MATCH_TOLERANCE_M \<or> \<bar>rl_end l - end_m\<bar> > LOCATION_MATCH_TOLERANCE_M
     then Inl LocationInputConflictError else Inr ())"

section \<open>What a resolved location guarantees\<close>

lemma resolve_end_Inr: "resolve_end r track km = Inr s \<longleftrightarrow> resolve_by_chainage r km (Some track) = Inr s"
  by (auto simp: resolve_end_def split: sum.splits)

lemma resolve_job_resource_Inr:
  assumes "resolve_job_resource r track start_m end_m = Inr x" "registry_ok r"
  obtains s where "s \<in> set (reg_by_id r)" "x = \<lparr>rr_track = track, rr_section = sec_id s\<rparr>"
    "track \<in> set (sec_track_ids s)" "in_section r (start_m / 1000) s" "in_section r (end_m / 1000) s"
proof -
  from assms(1) obtain s e where se: "resolve_by_chainage r (start_m / 1000) (Some track) = Inr s"
      "resolve_by_chainage r (end_m / 1000) (Some track) = Inr e"
      "sec_id s = sec_id e" "x = \<lparr>rr_track = track, rr_section = sec_id s\<rparr>"
    by (auto simp: resolve_job_resource_def bind_res_Inr_iff resolve_end_Inr split: if_splits)
  note s = resolve_by_chainage_Inr [OF se(1) assms(2)] and e = resolve_by_chainage_Inr [OF se(2) assms(2)]
  have "s = e"
    using s e se(3) assms(2) by (auto simp: registry_ok_def distinct_map dest: inj_onD)
  with s e se(4) show thesis by (intro that [of s]) auto
qed

lemma section_joining_Inr: "section_joining r a b = Inr s \<longleftrightarrow> resolve_between r a b = Inr s"
  by (auto simp: section_joining_def split: sum.splits)

definition near :: "rat \<Rightarrow> rat \<Rightarrow> bool" where
  "near a b \<longleftrightarrow> \<bar>a - b\<bar> \<le> 1 / 2000000"

lemma near_round: "near (round_digits 6 x) x"
  using round_digits_near [of 6 x] by (simp add: near_def)

lemma convert_field_location_Inr:
  assumes "convert_field_location r from toward start end' = Inr l" "registry_ok r"
  obtains s where "s \<in> set (reg_by_id r)" "rl_section l = sec_id s" "0 \<le> start" "start < end'"
    "end' \<le> rl_section_length l" "near (rl_section_length l) ((sec_km_end s - sec_km_start s) * 1000)"
    "(from = sec_start_station s \<and> toward = sec_end_station s \<and>
        near (rl_start l) (sec_km_start s * 1000 + start) \<and> near (rl_end l) (sec_km_start s * 1000 + end')) \<or>
     (from = sec_end_station s \<and> toward = sec_start_station s \<and>
        near (rl_start l) (sec_km_end s * 1000 - end') \<and> near (rl_end l) (sec_km_end s * 1000 - start))"
proof -
  from assms(1) obtain s where s: "resolve_between r from toward = Inr s" "from \<noteq> toward" "0 \<le> start"
      "start < end'" "end' \<le> rl_section_length l" "rl_section l = sec_id s"
      "rl_section_length l = round_digits 6 ((sec_km_end s - sec_km_start s) * 1000)"
      "(rl_start l, rl_end l) = (if from = sec_start_station s
         then (round_digits 6 (sec_km_start s * 1000 + start), round_digits 6 (sec_km_start s * 1000 + end'))
         else (round_digits 6 (sec_km_end s * 1000 - end'), round_digits 6 (sec_km_end s * 1000 - start)))"
    by (auto simp: convert_field_location_def bind_res_Inr_iff Let_def section_joining_Inr not_less not_le
        split: if_splits)
  show thesis
    by (rule that [of s]) (use s resolve_between_Inr [OF assms(2) s(1)] near_round in \<open>auto split: if_splits\<close>)
qed

lemma min_max_close:
  fixes a b :: rat
  assumes "\<bar>a - s\<bar> \<le> d" "\<bar>b - e\<bar> \<le> d" "s < e"
  shows "\<bar>min a b - s\<bar> \<le> d \<and> \<bar>max a b - e\<bar> \<le> d"
  using assms by (simp add: min_def max_def abs_le_iff)

lemma near_declared:
  assumes "near x y" "\<bar>x - m\<bar> \<le> 1 / 1000"
  shows "\<bar>m - y\<bar> \<le> 1 / 1000 + 1 / 2000000"
  using assms unfolding near_def by linarith

text \<open>A location given in a worker's terms and accepted with the declared distances is the declared
  span. With both checks passed, the section between the two named stations is in the registry and
  serves the declared track or the job is refused; the offsets lie between the two stations, and
  the declared metres are those offsets, measured from the station the worker named, to within a
  millimetre and the rounding.\<close>

theorem field_location_agrees:
  assumes "from_stations c stations tracks = Inr r"
    and "convert_field_location r from toward start end' = Inr l"
    and "assert_matches_declared l start_m end_m = Inr ()"
    and "resolve_job_resource r track start_m end_m = Inr x" "rl_section l = rr_section x"
  shows "\<exists>s \<in> set (reg_by_id r). rr_section x = sec_id s \<and> track \<in> set tracks \<and>
    {from, toward} = {sec_start_station s, sec_end_station s} \<and>
    in_section r (start_m / 1000) s \<and> in_section r (end_m / 1000) s \<and>
    (let origin = (if from = sec_start_station s then sec_km_start s * 1000 else sec_km_end s * 1000);
         a = \<bar>start_m - origin\<bar>; b = \<bar>end_m - origin\<bar>; slack = 1 / 1000 + 1 / 2000000
     in \<bar>min a b - start\<bar> \<le> slack \<and> \<bar>max a b - end'\<bar> \<le> slack)"
proof -
  note ok = from_stations_ok(1) [OF assms(1)]
  from resolve_job_resource_Inr [OF assms(4) ok] obtain s where
    s: "s \<in> set (reg_by_id r)" "x = \<lparr>rr_track = track, rr_section = sec_id s\<rparr>" "track \<in> set (sec_track_ids s)"
      "in_section r (start_m / 1000) s" "in_section r (end_m / 1000) s" by blast
  from convert_field_location_Inr [OF assms(2) ok] obtain u where
    u: "u \<in> set (reg_by_id r)" "rl_section l = sec_id u" "0 \<le> start" "start < end'" and
    span: "(from = sec_start_station u \<and> toward = sec_end_station u \<and>
        near (rl_start l) (sec_km_start u * 1000 + start) \<and> near (rl_end l) (sec_km_start u * 1000 + end')) \<or>
     (from = sec_end_station u \<and> toward = sec_start_station u \<and>
        near (rl_start l) (sec_km_end u * 1000 - end') \<and> near (rl_end l) (sec_km_end u * 1000 - start))" by blast
  have us: "u = s"
    using s(1,2) u(1,2) assms(5) ok by (auto simp: registry_ok_def distinct_map dest: inj_onD)
  have tracks: "track \<in> set tracks"
    using station_sections(1) [OF assms(1) refl s(1)] section_between_Inr(7) s(3) by blast
  have ends: "sec_start_station s \<noteq> sec_end_station s" using ok s(1) by (auto simp: registry_ok_def)
  have inside: "sec_km_start s \<le> start_m / 1000" "start_m / 1000 \<le> sec_km_end s"
    "sec_km_start s \<le> end_m / 1000" "end_m / 1000 \<le> sec_km_end s"
    using s(4,5) by (auto simp: in_section_def)
  have decl: "\<bar>rl_start l - start_m\<bar> \<le> 1 / 1000" "\<bar>rl_end l - end_m\<bar> \<le> 1 / 1000"
    using assms(3) by (auto simp: assert_matches_declared_def LOCATION_MATCH_TOLERANCE_M_def split: if_splits)
  show ?thesis
  proof (intro bexI [OF _ s(1)] conjI)
    show "{from, toward} = {sec_start_station s, sec_end_station s}" using span us by auto
    show "let origin = (if from = sec_start_station s then sec_km_start s * 1000 else sec_km_end s * 1000);
         a = \<bar>start_m - origin\<bar>; b = \<bar>end_m - origin\<bar>; slack = 1 / 1000 + 1 / 2000000
     in \<bar>min a b - start\<bar> \<le> slack \<and> \<bar>max a b - end'\<bar> \<le> slack"
    proof (cases "from = sec_start_station s")
      case True
      with span us ends have n: "near (rl_start l) (sec_km_start s * 1000 + start)"
        "near (rl_end l) (sec_km_start s * 1000 + end')" by auto
      have "\<bar>\<bar>start_m - sec_km_start s * 1000\<bar> - start\<bar> \<le> 1 / 1000 + 1 / 2000000"
        "\<bar>\<bar>end_m - sec_km_start s * 1000\<bar> - end'\<bar> \<le> 1 / 1000 + 1 / 2000000"
        using near_declared [OF n(1) decl(1)] near_declared [OF n(2) decl(2)] inside by linarith+
      from min_max_close [OF this u(4)] True show ?thesis by (simp add: Let_def)
    next
      case False
      with span us have n: "near (rl_start l) (sec_km_end s * 1000 - end')"
        "near (rl_end l) (sec_km_end s * 1000 - start)" by auto
      have "\<bar>\<bar>end_m - sec_km_end s * 1000\<bar> - start\<bar> \<le> 1 / 1000 + 1 / 2000000"
        "\<bar>\<bar>start_m - sec_km_end s * 1000\<bar> - end'\<bar> \<le> 1 / 1000 + 1 / 2000000"
        using near_declared [OF n(1) decl(1)] near_declared [OF n(2) decl(2)] inside by linarith+
      from min_max_close [OF this u(4)] False show ?thesis by (simp add: Let_def min.commute max.commute)
    qed
  qed (use s tracks in auto)
qed

lemma ex_section_lookup:
  "resolve_job_resource ex_registry ''UP-1'' 7400 7600 = Inr \<lparr>rr_track = ''UP-1'', rr_section = ''NZM-FDB''\<rparr>"
  "convert_field_location ex_registry ''NZM'' ''FDB'' 400 600 = Inr
     \<lparr>rl_section = ''NZM-FDB'', rl_from = ''NZM'', rl_toward = ''FDB'', rl_offset_start = 400,
      rl_offset_end = 600, rl_section_length = 21000, rl_start = 7400, rl_end = 7600\<rparr>"
  by code_simp+

lemma field_location_agrees_witness:
  "\<exists>s \<in> set (reg_by_id ex_registry). ''NZM-FDB'' = sec_id s \<and> {''NZM'', ''FDB''} = {sec_start_station s, sec_end_station s}"
  using field_location_agrees [OF ex_registry_made ex_section_lookup(2) _ ex_section_lookup(1)]
  by (auto simp: assert_matches_declared_def LOCATION_MATCH_TOLERANCE_M_def)

end
