(* ===== verification/Asset_Association.thy ===== *)
theory Asset_Association
  imports Section_Registry Job_Model "HOL-Library.Product_Lexorder"
begin

text \<open>
  Which asset a reported job belongs to, and whether a stored asset id can still be trusted:
  \<^verbatim>\<open>backend/app/jobs/asset_association.py\<close>. The digest of an asset's identity is the digest \<open>sha\<close> of
  the dictionary its canonical JSON is written from.
\<close>

section \<open>Policy and association\<close>

definition ASSET_FINGERPRINT_VERSION :: int where "ASSET_FINGERPRINT_VERSION = 1"
definition ASSET_RESOLUTION_DERIVED :: string where "ASSET_RESOLUTION_DERIVED = ''DERIVED''"
definition DEFAULT_ASSET_ASSOCIATION_MAX_KM :: rat where "DEFAULT_ASSET_ASSOCIATION_MAX_KM = 20"

record asset_policy =
  ap_max_km :: rat
  ap_same_section :: bool

definition make_asset_policy :: "rat \<Rightarrow> bool \<Rightarrow> asset_policy res" where
  "make_asset_policy km same =
    (if km < 0 then Inl ValueError else Inr \<lparr>ap_max_km = km, ap_same_section = same\<rparr>)"

definition asset_policy_to_dict :: "asset_policy \<Rightarrow> dict" where
  "asset_policy_to_dict p = dict_of
     [(''max_distance_km'', JFloat (ap_max_km p)), (''require_same_section'', JBool (ap_same_section p))]"

record asset_association =
  aa_asset :: asset
  aa_distance :: rat
  aa_midpoint_distance :: rat
  aa_asset_section :: "string option"
  aa_job_section :: string
  aa_section_match :: bool
  aa_policy :: asset_policy
  aa_corridor :: string

definition asset_fingerprint :: "(dict \<Rightarrow> string) \<Rightarrow> string \<Rightarrow> asset \<Rightarrow> string" where
  "asset_fingerprint sha corridor a = sha (dict_of
     [(''v'', JInt ASSET_FINGERPRINT_VERSION), (''corridor_id'', JStr corridor), (''asset_id'', JStr (ast_id a)),
      (''track_id'', JStr (ast_track a)), (''asset_type'', JStr (ast_type a)),
      (''km_location'', JFloat (round_digits 3 (ast_km a)))])"

definition association_metadata :: "(dict \<Rightarrow> string) \<Rightarrow> asset_association \<Rightarrow> dict" where
  "association_metadata sha x = dict_of
     [(''resolution'', JStr ASSET_RESOLUTION_DERIVED),
      (''asset_id'', JStr (ast_id (aa_asset x))),
      (''distance_km'', JFloat (round_digits 3 (aa_distance x))),
      (''asset_section_id'', json_of_str (aa_asset_section x)),
      (''job_section_id'', JStr (aa_job_section x)),
      (''section_match'', JBool (aa_section_match x)),
      (''policy'', JObj (asset_policy_to_dict (aa_policy x))),
      (''reference'', JObj (dict_of
         [(''corridor_id'', JStr (aa_corridor x)),
          (''fingerprint'', JStr (asset_fingerprint sha (aa_corridor x) (aa_asset x))),
          (''fingerprint_version'', JInt ASSET_FINGERPRINT_VERSION),
          (''provenance'', JStr ''SYNTHETIC'')]))]"

section \<open>The selection\<close>

text \<open>A position is a number here, so usable means named and on a track.\<close>

definition usable_asset :: "asset \<Rightarrow> bool" where
  "usable_asset a \<longleftrightarrow> ast_id a \<noteq> [] \<and> ast_track a \<noteq> []"

definition asset_section_id :: "registry \<Rightarrow> asset \<Rightarrow> string option" where
  "asset_section_id r a =
    (case resolve_by_chainage r (ast_km a) (Some (ast_track a)) of Inl _ \<Rightarrow> None | Inr s \<Rightarrow> Some (sec_id s))"

definition span_distance :: "rat \<Rightarrow> rat \<Rightarrow> asset \<Rightarrow> rat" where
  "span_distance start_km end_km a = round_digits 6 (max 0 (max (start_km - ast_km a) (ast_km a - end_km)))"

definition midpoint_distance :: "rat \<Rightarrow> rat \<Rightarrow> asset \<Rightarrow> rat" where
  "midpoint_distance start_km end_km a = round_digits 6 \<bar>ast_km a - (start_km + end_km) / 2\<bar>"

definition admissible :: "registry \<Rightarrow> asset_policy \<Rightarrow> string \<Rightarrow> rat \<Rightarrow> rat \<Rightarrow> asset \<Rightarrow> bool" where
  "admissible r p job_section start_km end_km a \<longleftrightarrow>
     span_distance start_km end_km a \<le> ap_max_km p \<and>
     (ap_same_section p \<longrightarrow> asset_section_id r a = Some job_section)"

definition asset_rank :: "rat \<Rightarrow> rat \<Rightarrow> asset \<Rightarrow> rat \<times> rat \<times> string" where
  "asset_rank start_km end_km a = (midpoint_distance start_km end_km a, ast_km a, ast_id a)"

definition select_asset ::
  "asset list \<Rightarrow> string \<Rightarrow> registry \<Rightarrow> string \<Rightarrow> string \<Rightarrow> rat \<Rightarrow> rat \<Rightarrow> asset_policy \<Rightarrow> asset_association res" where
  "select_asset assets corridor_id r track job_section start_m end_m p =
    (let s = start_m / 1000; e = end_m / 1000;
         on_track = filter (\<lambda>a. ast_track a = track) assets;
         candidates = filter usable_asset on_track in
     if on_track = [] then Inl AssetAssociationError
     else if candidates = [] then Inl AssetAssociationError
     else case sort_key (asset_rank s e) (filter (admissible r p job_section s e) candidates) of
       [] \<Rightarrow> Inl AssetAssociationError
     | a # _ \<Rightarrow> Inr
        \<lparr>aa_asset = a, aa_distance = span_distance s e a, aa_midpoint_distance = midpoint_distance s e a,
         aa_asset_section = asset_section_id r a, aa_job_section = job_section,
         aa_section_match = (asset_section_id r a = Some job_section), aa_policy = p,
         aa_corridor = corridor_id\<rparr>)"

section \<open>Reference integrity\<close>

definition ASSET_REFERENCE_VERIFIED :: string where "ASSET_REFERENCE_VERIFIED = ''VERIFIED''"
definition ASSET_REFERENCE_UNFINGERPRINTED :: string where
  "ASSET_REFERENCE_UNFINGERPRINTED = ''RESOLVED_UNFINGERPRINTED''"

record reference_check =
  rck_asset_id :: string
  rck_asset :: asset
  rck_status :: string

definition verify_asset_reference ::
  "(dict \<Rightarrow> string) \<Rightarrow> string \<Rightarrow> asset list \<Rightarrow> json \<Rightarrow> json \<Rightarrow> json \<Rightarrow> reference_check res" where
  "verify_asset_reference sha corridor assets asset_id recorded_corridor recorded_fingerprint =
    (case asset_id of
       JStr i \<Rightarrow>
        if i = [] then Inl AssetReferenceError
        else if recorded_corridor \<noteq> JNull \<and> recorded_corridor \<noteq> JStr corridor then Inl AssetReferenceError
        else (case filter (\<lambda>a. ast_id a = i) assets of
            [a] \<Rightarrow>
              if recorded_fingerprint = JNull
              then Inr \<lparr>rck_asset_id = i, rck_asset = a, rck_status = ASSET_REFERENCE_UNFINGERPRINTED\<rparr>
              else if recorded_fingerprint \<noteq> JStr (asset_fingerprint sha corridor a) then Inl AssetReferenceError
              else Inr \<lparr>rck_asset_id = i, rck_asset = a, rck_status = ASSET_REFERENCE_VERIFIED\<rparr>
          | _ \<Rightarrow> Inl AssetReferenceError)
     | _ \<Rightarrow> Inl AssetReferenceError)"

text \<open>\<^verbatim>\<open>d.get(k) or {}\<close>\<close>

definition sub_dict :: "dict \<Rightarrow> string \<Rightarrow> dict" where
  "sub_dict d k = (case dget d k of JObj m \<Rightarrow> m | _ \<Rightarrow> fmempty)"

definition reference_from_block :: "dict \<Rightarrow> json \<times> json \<times> json" where
  "reference_from_block block =
    (let reference = sub_dict (sub_dict (metadata_of block) ''asset_association'') ''reference''
     in (dget block ''asset_id'', dget reference ''corridor_id'', dget reference ''fingerprint''))"

section \<open>What the selection guarantees\<close>

lemma sort_key_hd:
  assumes "sort_key f xs = x # ys"
  shows "x \<in> set xs" "y \<in> set xs \<Longrightarrow> f x \<le> f y"
proof -
  have set: "set xs = set (x # ys)" using assms by (metis set_sort)
  then show "x \<in> set xs" by simp
  have "sorted (map f (x # ys))" using assms by (metis sorted_sort_key)
  then show "y \<in> set xs \<Longrightarrow> f x \<le> f y" using set by auto
qed

definition asset_candidates ::
  "asset list \<Rightarrow> registry \<Rightarrow> string \<Rightarrow> string \<Rightarrow> rat \<Rightarrow> rat \<Rightarrow> asset_policy \<Rightarrow> asset list" where
  "asset_candidates assets r track job_section s e p =
     filter (\<lambda>a. ast_track a = track \<and> usable_asset a \<and> admissible r p job_section s e a) assets"

lemma select_asset_candidates:
  "select_asset assets c r track job_section start_m end_m p =
    (let s = start_m / 1000; e = end_m / 1000 in
     case sort_key (asset_rank s e) (asset_candidates assets r track job_section s e p) of
       [] \<Rightarrow> Inl AssetAssociationError
     | a # _ \<Rightarrow> Inr
        \<lparr>aa_asset = a, aa_distance = span_distance s e a, aa_midpoint_distance = midpoint_distance s e a,
         aa_asset_section = asset_section_id r a, aa_job_section = job_section,
         aa_section_match = (asset_section_id r a = Some job_section), aa_policy = p, aa_corridor = c\<rparr>)"
proof -
  let ?s = "start_m / 1000" and ?e = "end_m / 1000"
  have "filter (admissible r p job_section ?s ?e) (filter usable_asset (filter (\<lambda>a. ast_track a = track) assets)) =
      asset_candidates assets r track job_section ?s ?e p"
    by (simp add: asset_candidates_def conj_commute conj_left_commute)
  moreover have "filter (\<lambda>a. ast_track a = track) assets = [] \<or>
      filter usable_asset (filter (\<lambda>a. ast_track a = track) assets) = [] \<Longrightarrow>
      asset_candidates assets r track job_section ?s ?e p = []"
    by (auto simp: asset_candidates_def filter_empty_conv)
  ultimately show ?thesis by (auto simp: select_asset_def Let_def)
qed

lemma select_asset_Inr:
  assumes "select_asset assets c r track job_section start_m end_m p = Inr x"
  shows "aa_asset x \<in> set (asset_candidates assets r track job_section (start_m / 1000) (end_m / 1000) p)"
    "a \<in> set (asset_candidates assets r track job_section (start_m / 1000) (end_m / 1000) p) \<Longrightarrow>
       asset_rank (start_m / 1000) (end_m / 1000) (aa_asset x) \<le> asset_rank (start_m / 1000) (end_m / 1000) a"
    "aa_corridor x = c" "aa_policy x = p" "aa_job_section x = job_section"
    "aa_distance x = span_distance (start_m / 1000) (end_m / 1000) (aa_asset x)"
  using assms unfolding select_asset_candidates Let_def
  by (auto split: list.splits dest: sort_key_hd)

lemma select_asset_total:
  assumes "asset_candidates assets r track job_section (start_m / 1000) (end_m / 1000) p \<noteq> []"
  shows "\<exists>x. select_asset assets c r track job_section start_m end_m p = Inr x"
proof -
  have "sort_key (asset_rank (start_m / 1000) (end_m / 1000))
      (asset_candidates assets r track job_section (start_m / 1000) (end_m / 1000) p) \<noteq> []"
    using assms by (metis set_empty set_sort)
  then show ?thesis unfolding select_asset_candidates Let_def by (auto simp: neq_Nil_conv)
qed

text \<open>A reported job is attached to the right asset or refused. The report is refused exactly when no
  named asset of the job's track lies within the policy's distance of its span (in its own section, if
  the policy asks for that); otherwise the asset chosen is such an asset, and of all of them the one
  nearest the middle of the span.\<close>

theorem asset_selection_exact:
  "case select_asset assets c r track job_section start_m end_m p of
     Inl e \<Rightarrow> e = AssetAssociationError \<and>
       asset_candidates assets r track job_section (start_m / 1000) (end_m / 1000) p = []
   | Inr x \<Rightarrow> aa_asset x \<in> set assets \<and> ast_track (aa_asset x) = track \<and> aa_distance x \<le> ap_max_km p \<and>
       (if ap_same_section p then asset_section_id r (aa_asset x) = Some job_section else True) \<and>
       list_all (\<lambda>a. midpoint_distance (start_m / 1000) (end_m / 1000) (aa_asset x) \<le>
           midpoint_distance (start_m / 1000) (end_m / 1000) a)
         (asset_candidates assets r track job_section (start_m / 1000) (end_m / 1000) p)"
proof (cases "select_asset assets c r track job_section start_m end_m p")
  case (Inl e)
  then show ?thesis
    unfolding select_asset_candidates Let_def by (auto split: list.splits dest: arg_cong [of _ _ set])
next
  case (Inr x)
  note x = select_asset_Inr [OF Inr]
  have "midpoint_distance (start_m / 1000) (end_m / 1000) (aa_asset x) \<le>
      midpoint_distance (start_m / 1000) (end_m / 1000) a"
    if "a \<in> set (asset_candidates assets r track job_section (start_m / 1000) (end_m / 1000) p)" for a
    using x(2) [OF that] by (auto simp: asset_rank_def less_eq_prod_def)
  then show ?thesis
    using x(1,6) Inr by (auto simp: asset_candidates_def admissible_def list_all_iff)
qed

text \<open>A block that carries the association of its asset.\<close>

definition carries_association :: "(dict \<Rightarrow> string) \<Rightarrow> dict \<Rightarrow> asset_association \<Rightarrow> bool" where
  "carries_association sha block x \<longleftrightarrow> dget block ''asset_id'' = JStr (ast_id (aa_asset x)) \<and>
     dget (metadata_of block) ''asset_association'' = JObj (association_metadata sha x)"

lemma reference_read_back:
  assumes "carries_association sha block x"
  shows "reference_from_block block = (JStr (ast_id (aa_asset x)), JStr (aa_corridor x),
    JStr (asset_fingerprint sha (aa_corridor x) (aa_asset x)))"
  using assms
  by (simp add: carries_association_def reference_from_block_def sub_dict_def association_metadata_def dict_of_def)

lemma verify_Inr_verified:
  assumes "verify_asset_reference sha c assets (JStr i) rc (JStr f) = Inr k"
  shows "rck_status k = ASSET_REFERENCE_VERIFIED \<and> rck_asset k \<in> set assets \<and> ast_id (rck_asset k) = i \<and>
    f = asset_fingerprint sha c (rck_asset k)"
proof -
  from assms obtain a where a: "filter (\<lambda>a. ast_id a = i) assets = [a]"
      "k = \<lparr>rck_asset_id = i, rck_asset = a, rck_status = ASSET_REFERENCE_VERIFIED\<rparr>"
      "f = asset_fingerprint sha c a"
    by (auto simp: verify_asset_reference_def split: if_splits list.splits)
  have "a \<in> set (filter (\<lambda>a. ast_id a = i) assets)" using a(1) by simp
  with a(2,3) show ?thesis by auto
qed

text \<open>A stored asset reference is verified exactly while it means what it meant. Against any set of
  assets of any corridor, a block that carries the association recorded at intake passes the check if
  and only if the corridor is the recorded one and the set holds exactly one asset of that id, with
  the fingerprint that was recorded; the check then names that very asset.\<close>

theorem recorded_asset_verified_exactly:
  assumes "carries_association sha block x" "ast_id (aa_asset x) \<noteq> []"
    and "reference_from_block block = (i, rc, f)"
  shows "verify_asset_reference sha active assets i rc f =
    (case filter (\<lambda>a. ast_id a = ast_id (aa_asset x)) assets of
       [a] \<Rightarrow> if active = aa_corridor x \<and>
                asset_fingerprint sha (aa_corridor x) a = asset_fingerprint sha (aa_corridor x) (aa_asset x)
             then Inr \<lparr>rck_asset_id = ast_id (aa_asset x), rck_asset = a, rck_status = ASSET_REFERENCE_VERIFIED\<rparr>
             else Inl AssetReferenceError
     | _ \<Rightarrow> Inl AssetReferenceError)"
  using assms(2,3) reference_read_back [OF assms(1)]
  by (auto simp: verify_asset_reference_def split: list.splits)

definition ex_asset :: "string \<Rightarrow> rat \<Rightarrow> asset" where
  "ex_asset i km = \<lparr>ast_id = i, ast_name = i, ast_type = ''OHE_MAST'', ast_track = ''UP-1'', ast_km = km,
     ast_criticality = 1 / 2, ast_condition = 4 / 5, ast_days_since_maintained = 30, ast_severity = ''NONE'',
     ast_tonnes = 250, ast_installed = 2018, ast_failures = 1, ast_metadata = fmempty\<rparr>"

definition ex_association :: asset_association where
  "ex_association = \<lparr>aa_asset = ex_asset ''OHE-1'' 8, aa_distance = 0, aa_midpoint_distance = 0,
     aa_asset_section = None, aa_job_section = ''S'', aa_section_match = False,
     aa_policy = \<lparr>ap_max_km = 20, ap_same_section = False\<rparr>, aa_corridor = ''C''\<rparr>"

definition ex_asset_block :: dict where
  "ex_asset_block = dict_of [(''asset_id'', JStr ''OHE-1''),
     (''metadata'', JObj (dict_of [(''asset_association'', JObj (association_metadata (\<lambda>_. ''F'') ex_association))]))]"

lemma recorded_asset_verified_exactly_witness:
  "verify_asset_reference (\<lambda>_. ''F'') ''C'' [ex_asset ''OHE-1'' 8] (JStr ''OHE-1'') (JStr ''C'') (JStr ''F'') =
     Inr \<lparr>rck_asset_id = ''OHE-1'', rck_asset = ex_asset ''OHE-1'' 8, rck_status = ASSET_REFERENCE_VERIFIED\<rparr>"
proof -
  have c: "carries_association (\<lambda>_. ''F'') ex_asset_block ex_association"
    by (simp add: carries_association_def ex_asset_block_def ex_association_def ex_asset_def metadata_of_def dict_of_def)
  have "reference_from_block ex_asset_block = (JStr ''OHE-1'', JStr ''C'', JStr ''F'')"
    using reference_read_back [OF c] by (simp add: ex_association_def ex_asset_def asset_fingerprint_def)
  from recorded_asset_verified_exactly [OF c _ this, of "''C''" "[ex_asset ''OHE-1'' 8]"] show ?thesis
    by (simp add: ex_association_def ex_asset_def asset_fingerprint_def)
qed

end
