(* ===== verification/Duplicates.thy ===== *)
theory Duplicates
  imports Job_Model Moments "HOL-Library.Product_Lexorder" "HOL-Library.List_Lexorder" "HOL-Library.Char_ord"
begin

text \<open>
  Advisory duplicate detection, \<^verbatim>\<open>backend/app/jobs/duplicate_detection.py\<close>: which existing jobs look
  like the reported one. Times are instants in microseconds.
\<close>

section \<open>The rule\<close>

definition DUPLICATE_RULE_VERSION :: string where "DUPLICATE_RULE_VERSION = ''deterministic-proximity-1.0''"
definition DEFAULT_DUPLICATE_MAX_GAP_M :: rat where "DEFAULT_DUPLICATE_MAX_GAP_M = 500"
definition DEFAULT_DUPLICATE_WINDOW :: int where "DEFAULT_DUPLICATE_WINDOW = 72 * 60 * micros_per_minute"

definition ALL_SIGNALS :: "string list" where
  "ALL_SIGNALS = [''SAME_TRACK'', ''SAME_SECTION'', ''SAME_ASSET'', ''SAME_WORK_TYPE'', ''SPAN_NEAR'', ''TIME_NEAR'']"

record duplicate_policy =
  dp_max_gap :: rat
  dp_window :: int

definition make_duplicate_policy :: "rat \<Rightarrow> int \<Rightarrow> duplicate_policy res" where
  "make_duplicate_policy gap window =
    (if gap < 0 then Inl ValueError else if window < 0 then Inl ValueError
     else Inr \<lparr>dp_max_gap = gap, dp_window = window\<rparr>)"

definition duplicate_policy_to_dict :: "duplicate_policy \<Rightarrow> dict" where
  "duplicate_policy_to_dict p = dict_of
     [(''max_gap_m'', JFloat (dp_max_gap p)),
      (''window_hours'', JFloat (of_int (dp_window p) / 1000000 / 3600))]"

record duplicate_probe =
  pb_track :: string
  pb_section :: string
  pb_asset :: string
  pb_work_type :: string
  pb_start :: rat
  pb_end :: rat
  pb_created :: "datetime option"

record duplicate_candidate =
  dc_job :: string
  dc_gap :: rat
  dc_minutes :: rat
  dc_created :: string

definition candidate_dict :: "duplicate_candidate \<Rightarrow> dict" where
  "candidate_dict c = dict_of
     [(''job_id'', JStr (dc_job c)), (''signals'', JArr (map JStr ALL_SIGNALS)), (''span_gap_m'', JFloat (dc_gap c)),
      (''minutes_apart'', JFloat (dc_minutes c)), (''created_at'', JStr (dc_created c))]"

record duplicate_assessment =
  da_candidates :: "duplicate_candidate list"
  da_skipped :: "(string \<times> string) list"
  da_policy :: duplicate_policy

definition possible_duplicate :: "duplicate_assessment \<Rightarrow> bool" where
  "possible_duplicate a \<longleftrightarrow> da_candidates a \<noteq> []"

definition assessment_metadata :: "duplicate_assessment \<Rightarrow> dict" where
  "assessment_metadata a = dict_of
     [(''rule_version'', JStr DUPLICATE_RULE_VERSION),
      (''possible_duplicate'', JBool (possible_duplicate a)),
      (''candidate_jobs'', JArr (map (JStr \<circ> dc_job) (da_candidates a))),
      (''candidates'', JArr (map (JObj \<circ> candidate_dict) (da_candidates a))),
      (''skipped'', JArr (map (\<lambda>(j, why). JObj (dict_of [(''job_id'', JStr j), (''reason'', JStr why)])) (da_skipped a))),
      (''required_signals'', JArr (map JStr ALL_SIGNALS)),
      (''thresholds'', JObj (duplicate_policy_to_dict (da_policy a)))]"

section \<open>The search\<close>

definition parse_created_at :: "string \<Rightarrow> datetime option" where
  "parse_created_at s =
    (case fromisoformat s of Inl _ \<Rightarrow> None | Inr d \<Rightarrow> if dt_offset d = None then None else Some d)"

definition span_gap_m :: "rat \<Rightarrow> rat \<Rightarrow> rat \<Rightarrow> rat \<Rightarrow> rat" where
  "span_gap_m start_a end_a start_b end_b = round_digits 6 (max 0 (max start_a start_b - min end_a end_b))"

definition CREATED_AT_UNUSABLE :: string where
  "CREATED_AT_UNUSABLE = ''created_at is missing or not a timezone-aware ISO timestamp''"

text \<open>What one row of the loop contributes: nothing, a skipped row, or a candidate with its instant.\<close>

datatype row_verdict =
    No_Match
  | Skipped string string
  | Match int string duplicate_candidate

definition assess_row ::
  "duplicate_probe \<Rightarrow> duplicate_policy \<Rightarrow> (job \<Rightarrow> string option) \<Rightarrow> job \<Rightarrow> row_verdict res" where
  "assess_row probe p verify_asset row =
    (if job_status row \<in> set TERMINAL_STATUSES then Inr No_Match
     else if job_track_id row \<noteq> pb_track probe then Inr No_Match
     else if job_work_type row \<noteq> pb_work_type probe then Inr No_Match
     else if dget (job_block row) ''section_id'' \<noteq> JStr (pb_section probe) then Inr No_Match
     else case parse_created_at (job_created_at row) of
       None \<Rightarrow> Inr (Skipped (job_id row) CREATED_AT_UNUSABLE)
     | Some created \<Rightarrow>
        (case pb_created probe of None \<Rightarrow> Inl TypeError
         | Some now \<Rightarrow>
            let apart = \<bar>instant now - instant created\<bar>;
                gap = span_gap_m (pb_start probe) (pb_end probe) (job_distance_start row) (job_distance_end row) in
            if dp_window p < apart then Inr No_Match
            else if dp_max_gap p < gap then Inr No_Match
            else if dget (job_block row) ''asset_id'' \<noteq> JStr (pb_asset probe) then Inr No_Match
            else case verify_asset row of
              Some problem \<Rightarrow> Inr (Skipped (job_id row) problem)
            | None \<Rightarrow> Inr (Match (instant created) (job_id row)
                \<lparr>dc_job = job_id row, dc_gap = gap,
                 dc_minutes = round_digits 3 (of_int apart / 1000000 / 60),
                 dc_created = job_created_at row\<rparr>)))"

fun matches :: "row_verdict \<Rightarrow> ((int \<times> string) \<times> duplicate_candidate) list" where
  "matches (Match t i c) = [((t, i), c)]"
| "matches _ = []"

fun skips :: "row_verdict \<Rightarrow> (string \<times> string) list" where
  "skips (Skipped i why) = [(i, why)]"
| "skips _ = []"

definition find_duplicate_candidates ::
  "duplicate_probe \<Rightarrow> job list \<Rightarrow> duplicate_policy \<Rightarrow> (job \<Rightarrow> string option) \<Rightarrow> duplicate_assessment res" where
  "find_duplicate_candidates probe rows p verify_asset =
     bind_res (map_res (assess_row probe p verify_asset) rows) (\<lambda>verdicts.
     Inr \<lparr>da_candidates = map snd (sort_key fst (concat (map matches verdicts))),
          da_skipped = sort_key (\<lambda>x. x) (concat (map skips verdicts)), da_policy = p\<rparr>)"

section \<open>Which jobs are candidates\<close>

definition looks_alike :: "duplicate_probe \<Rightarrow> datetime \<Rightarrow> duplicate_policy \<Rightarrow> job \<Rightarrow> bool" where
  "looks_alike probe now p row \<longleftrightarrow> job_status row \<notin> set TERMINAL_STATUSES \<and>
     job_track_id row = pb_track probe \<and> job_work_type row = pb_work_type probe \<and>
     dget (job_block row) ''section_id'' = JStr (pb_section probe) \<and>
     dget (job_block row) ''asset_id'' = JStr (pb_asset probe) \<and>
     span_gap_m (pb_start probe) (pb_end probe) (job_distance_start row) (job_distance_end row) \<le> dp_max_gap p \<and>
     (case parse_created_at (job_created_at row) of None \<Rightarrow> False
      | Some t \<Rightarrow> \<bar>instant now - instant t\<bar> \<le> dp_window p)"

lemma assess_row_match:
  assumes "pb_created probe = Some now" "assess_row probe p verify row = Inr v"
  shows "concat (map matches [v]) \<noteq> [] \<longleftrightarrow> looks_alike probe now p row \<and> verify row = None"
    "x \<in> set (matches v) \<Longrightarrow> dc_job (snd x) = job_id row"
  using assms
  by (auto simp: assess_row_def looks_alike_def Let_def not_less split: if_splits option.splits)

lemma assess_row_total: "pb_created probe = Some now \<Longrightarrow> \<exists>v. assess_row probe p verify row = Inr v"
  by (auto simp: assess_row_def Let_def split: option.splits)

lemma duplicate_rule:
  assumes "pb_created probe = Some now"
  shows "\<exists>a. find_duplicate_candidates probe rows p verify = Inr a \<and>
    (\<forall>i. i \<in> dc_job ` set (da_candidates a) \<longleftrightarrow>
       (\<exists>row \<in> set rows. job_id row = i \<and> looks_alike probe now p row \<and> verify row = None))"
proof -
  have "\<exists>vs. map_res (assess_row probe p verify) rows = Inr vs"
    using assess_row_total [OF assms]
    by (induction rows) (auto simp: bind_res_def split: sum.splits, metis Inl_Inr_False)
  then obtain vs where vs: "map_res (assess_row probe p verify) rows = Inr vs" by blast
  then have all: "list_all2 (\<lambda>row v. assess_row probe p verify row = Inr v) rows vs"
    by (simp add: map_res_Inr_iff)
  let ?a = "\<lparr>da_candidates = map snd (sort_key fst (concat (map matches vs))),
    da_skipped = sort_key (\<lambda>x. x) (concat (map skips vs)), da_policy = p\<rparr>"
  have ids: "dc_job ` set (da_candidates ?a) = (dc_job \<circ> snd) ` set (concat (map matches vs))"
    by (auto simp: image_image)
  have "i \<in> (dc_job \<circ> snd) ` set (concat (map matches vs)) \<longleftrightarrow>
      (\<exists>row \<in> set rows. job_id row = i \<and> looks_alike probe now p row \<and> verify row = None)" for i
    using all
  proof (induction rule: list_all2_induct)
    case (Cons row rows v vs)
    have "i \<in> (dc_job \<circ> snd) ` set (matches v) \<longleftrightarrow> job_id row = i \<and> looks_alike probe now p row \<and> verify row = None"
      using assess_row_match(1) [OF assms Cons.hyps(1)] assess_row_match(2) [OF assms Cons.hyps(1)]
      by (cases v) (auto simp: image_iff)
    with Cons.IH show ?case by (auto simp: image_Un)
  qed simp
  with vs ids show ?thesis by (simp add: find_duplicate_candidates_def)
qed

text \<open>Duplicate detection flags exactly the jobs its rule names, and never stops a report: for a report
  with a time it always gives an assessment, and a job is named a possible duplicate if and only if it
  is a stored, unfinished job on the same track, section and asset, of the same work type, within the
  distance and the time of the policy, whose asset reference is verified.\<close>

theorem duplicates_exact:
  assumes "pb_created probe = Some now"
  shows "\<exists>a. find_duplicate_candidates probe rows p verify = Inr a \<and>
    (\<forall>i. i \<in> dc_job ` set (da_candidates a) \<longleftrightarrow>
       (\<exists>row \<in> set rows. job_id row = i \<and> looks_alike probe now p row \<and> verify row = None))"
  using assms by (rule duplicate_rule)

definition seen_moment :: datetime where
  "seen_moment = \<lparr>dt_local = 0, dt_offset = Some 0\<rparr>"

definition seen_probe :: duplicate_probe where
  "seen_probe = \<lparr>pb_track = ''UP-1'', pb_section = ''NZM-FDB'', pb_asset = ''OHE-1'', pb_work_type = ''OHE_MAINTENANCE'',
     pb_start = 7400, pb_end = 7600, pb_created = Some seen_moment\<rparr>"

definition seen_job :: job where
  "seen_job = \<lparr>job_id = ''J1'', job_track_id = ''UP-1'', job_work_type = ''OHE_MAINTENANCE'',
     job_distance_start = 7700, job_distance_end = 7800, job_workers_min = 2, job_workers_max = 4,
     job_description = '''', job_status = REPORTED, job_priority_score = 0, job_risk_score = 0,
     job_start = None, job_end = None, job_created_at = isoformat_utc 3600000000, job_updated_at = None,
     job_last_solver_status = None, job_last_refusal_reason = None,
     job_block = dict_of [(''section_id'', JStr ''NZM-FDB''), (''asset_id'', JStr ''OHE-1'')]\<rparr>"

lemma seen_alike: "looks_alike seen_probe seen_moment \<lparr>dp_max_gap = 500, dp_window = DEFAULT_DUPLICATE_WINDOW\<rparr> seen_job"
  by code_simp

lemma duplicates_exact_witness:
  "\<exists>a. find_duplicate_candidates seen_probe [seen_job] \<lparr>dp_max_gap = 500, dp_window = DEFAULT_DUPLICATE_WINDOW\<rparr>
      (\<lambda>_. None) = Inr a \<and> ''J1'' \<in> dc_job ` set (da_candidates a)"
proof -
  have "pb_created seen_probe = Some seen_moment" by (simp add: seen_probe_def)
  from duplicates_exact [OF this, of "[seen_job]" "\<lparr>dp_max_gap = 500, dp_window = DEFAULT_DUPLICATE_WINDOW\<rparr>" "\<lambda>_. None"]
  obtain a where a: "find_duplicate_candidates seen_probe [seen_job]
        \<lparr>dp_max_gap = 500, dp_window = DEFAULT_DUPLICATE_WINDOW\<rparr> (\<lambda>_. None) = Inr a"
      "''J1'' \<in> dc_job ` set (da_candidates a) \<longleftrightarrow> (\<exists>row \<in> set [seen_job]. job_id row = ''J1'' \<and>
         looks_alike seen_probe seen_moment \<lparr>dp_max_gap = 500, dp_window = DEFAULT_DUPLICATE_WINDOW\<rparr> row)"
    by auto
  with seen_alike show ?thesis by (intro exI [of _ a]) (simp add: seen_job_def)
qed


end
