(* ===== verification/Scoring.thy ===== *)
theory Scoring
  imports Section_Registry Contracts
begin

text \<open>
  The deterministic scorer: \<^verbatim>\<open>backend/app/ml/features.py\<close> and \<^verbatim>\<open>backend/app/ml/scorer.py\<close>, and the
  adapter \<^verbatim>\<open>backend/app/data/feature_adapter.py\<close> that feeds it from an asset and a track. A score is
  a weighted sum of seven features, each brought into the unit interval.
\<close>

section \<open>Features\<close>

definition clamp :: "rat \<Rightarrow> rat" where
  "clamp x = max 0 (min 1 x)"

definition LEVELS :: "(string \<times> rat) list" where
  "LEVELS = [(''LOW'', 1 / 4), (''MEDIUM'', 1 / 2), (''HIGH'', 3 / 4), (''CRITICAL'', 1)]"

definition upper_text :: "string \<Rightarrow> string" where
  "upper_text = map (\<lambda>c. if is_lower c then char_of ((of_char c :: nat) - 32) else c)"

text \<open>A number is clamped, a text looked up; the text of anything else is no level.\<close>

fun normalize_level :: "json \<Rightarrow> rat res" where
  "normalize_level (JInt i) = Inr (clamp (of_int i))"
| "normalize_level (JFloat r) = Inr (clamp r)"
| "normalize_level (JBool b) = Inr (if b then 1 else 0)"
| "normalize_level (JStr s) =
    (case map_of LEVELS (upper_text (strip s)) of None \<Rightarrow> Inl ValueError | Some v \<Rightarrow> Inr v)"
| "normalize_level _ = Inl ValueError"

definition normalize_probability :: "json \<Rightarrow> rat res" where
  "normalize_probability value =
     bind_res (float_of_json value) (\<lambda>v.
     if v < 0 then Inl ValueError else Inr (clamp (if 1 < v then v / 100 else v)))"

definition normalize_days_overdue :: "json \<Rightarrow> int \<Rightarrow> rat res" where
  "normalize_days_overdue days saturation =
     bind_res (float_of_json days) (\<lambda>d.
     if d < 0 then Inl ValueError else if saturation \<le> 0 then Inl ValueError
     else Inr (clamp (d / of_int saturation)))"

definition normalize_duration :: "json \<Rightarrow> int \<Rightarrow> rat res" where
  "normalize_duration minutes reference =
     bind_res (float_of_json minutes) (\<lambda>m.
     if m < 0 then Inl ValueError else if reference \<le> 0 then Inl ValueError
     else Inr (clamp (m / of_int reference)))"

type_synonym features = "(string \<times> rat) list"

definition need_key :: "dict \<Rightarrow> string \<Rightarrow> json res" where
  "need_key d k = (case fmlookup d k of None \<Rightarrow> Inl (KeyError k) | Some v \<Rightarrow> Inr v)"

definition feature_readers :: "(string \<times> (json \<Rightarrow> rat res)) list" where
  "feature_readers =
     [(''asset_criticality'', normalize_level),
      (''defect_severity'', normalize_level),
      (''days_overdue'', \<lambda>v. normalize_days_overdue v 30),
      (''failure_probability'', normalize_probability),
      (''train_impact'', normalize_level),
      (''maintenance_duration'', \<lambda>v. normalize_duration v 240),
      (''historical_failure_rate'', normalize_probability)]"

definition extract_features :: "dict \<Rightarrow> features res" where
  "extract_features block =
     map_res (\<lambda>(k, read). bind_res (need_key block k) (\<lambda>v. bind_res (read v) (\<lambda>x. Inr (k, x)))) feature_readers"

section \<open>The scorer\<close>

definition MODEL_TYPE :: string where "MODEL_TYPE = ''BASELINE_DETERMINISTIC''"
definition MODEL_VERSION :: string where "MODEL_VERSION = ''baseline-deterministic-1.0''"

definition RISK_WEIGHTS :: features where
  "RISK_WEIGHTS =
     [(''asset_criticality'', 20 / 100), (''defect_severity'', 25 / 100), (''days_overdue'', 10 / 100),
      (''failure_probability'', 20 / 100), (''train_impact'', 10 / 100), (''maintenance_duration'', 5 / 100),
      (''historical_failure_rate'', 10 / 100)]"

definition PRIORITY_WEIGHTS :: features where
  "PRIORITY_WEIGHTS =
     [(''asset_criticality'', 20 / 100), (''defect_severity'', 20 / 100), (''days_overdue'', 20 / 100),
      (''failure_probability'', 10 / 100), (''train_impact'', 15 / 100), (''maintenance_duration'', 5 / 100),
      (''historical_failure_rate'', 10 / 100)]"

definition FEATURE_LABELS :: "(string \<times> string) list" where
  "FEATURE_LABELS =
     [(''asset_criticality'', ''High asset criticality''), (''defect_severity'', ''Severe defect''),
      (''days_overdue'', ''Maintenance overdue''), (''failure_probability'', ''High failure probability''),
      (''train_impact'', ''High operational/train impact''),
      (''maintenance_duration'', ''Long maintenance duration''),
      (''historical_failure_rate'', ''High historical failure rate'')]"

definition feature_at :: "features \<Rightarrow> string \<Rightarrow> rat res" where
  "feature_at fs k = (case map_of fs k of None \<Rightarrow> Inl (KeyError k) | Some v \<Rightarrow> Inr v)"

definition weighted_score :: "features \<Rightarrow> features \<Rightarrow> rat res" where
  "weighted_score fs weights =
     bind_res (map_res (\<lambda>(k, w). bind_res (feature_at fs k) (\<lambda>v. Inr (v * w))) weights) (\<lambda>xs.
     Inr (clamp (sum_list xs)))"

definition score_level :: "rat \<Rightarrow> string" where
  "score_level s = (if 3 / 4 \<le> s then ''HIGH'' else if 1 / 2 \<le> s then ''MEDIUM'' else ''LOW'')"

definition build_explanation :: "features \<Rightarrow> string list res" where
  "build_explanation fs =
    (let ranked = sort_key (\<lambda>(k, v). - v) fs;
         label = (\<lambda>(k, v). case map_of FEATURE_LABELS k of None \<Rightarrow> Inl (KeyError k) | Some l \<Rightarrow> Inr l);
         strong = filter (\<lambda>(k, v). 3 / 4 \<le> v) ranked
     in bind_res (map_res label (if strong = [] then take 1 ranked else strong)) (\<lambda>ls. Inr (take 4 ls)))"

record score =
  sc_priority :: rat
  sc_risk :: rat
  sc_priority_level :: string
  sc_risk_level :: string
  sc_explanation :: "string list"
  sc_features :: features

definition score_block :: "dict \<Rightarrow> score res" where
  "score_block block =
     bind_res (extract_features block) (\<lambda>fs.
     bind_res (weighted_score fs RISK_WEIGHTS) (\<lambda>risk.
     bind_res (weighted_score fs PRIORITY_WEIGHTS) (\<lambda>priority.
     bind_res (build_explanation fs) (\<lambda>texts.
     Inr \<lparr>sc_priority = round_digits 4 priority, sc_risk = round_digits 4 risk,
          sc_priority_level = score_level priority, sc_risk_level = score_level risk,
          sc_explanation = texts, sc_features = fs\<rparr>))))"

section \<open>The adapter\<close>

definition DEFECT_SEVERITY_WEIGHTS :: "(string \<times> rat) list" where
  "DEFECT_SEVERITY_WEIGHTS =
     [(''NONE'', 0), (''MINOR'', 25 / 100), (''MODERATE'', 60 / 100), (''CRITICAL'', 1)]"

definition ROUTE_CLASS_WEIGHTS :: "(string \<times> rat) list" where
  "ROUTE_CLASS_WEIGHTS =
     [(''GROUP_A'', 95 / 100), (''GROUP_B'', 80 / 100), (''GROUP_C'', 70 / 100), (''GROUP_D'', 40 / 100),
      (''GROUP_E'', 20 / 100)]"

definition WORK_TYPE_DEFAULT_DURATIONS :: "(string \<times> int) list" where
  "WORK_TYPE_DEFAULT_DURATIONS =
     [(''ROUTINE_INSPECTION'', 45), (''SIGNALLING_INTERLOCKING'', 90), (''OHE_MAINTENANCE'', 90),
      (''BALLAST_TAMPING'', 120), (''TRACK_RENEWAL'', 240), (''EMERGENCY_REPAIR'', 90)]"

definition SCORING_FEATURE_NAMES :: "string list" where
  "SCORING_FEATURE_NAMES =
     [''asset_criticality'', ''defect_severity'', ''days_overdue'', ''failure_probability'', ''train_impact'',
      ''maintenance_duration'', ''historical_failure_rate'']"

definition get_default :: "(string \<times> 'a) list \<Rightarrow> string \<Rightarrow> 'a \<Rightarrow> 'a" where
  "get_default m k v = (case map_of m k of None \<Rightarrow> v | Some x \<Rightarrow> x)"

definition calculate_asset_criticality :: "asset option \<Rightarrow> track_segment option \<Rightarrow> rat option \<Rightarrow> rat" where
  "calculate_asset_criticality a t explicit =
    (case explicit of Some v \<Rightarrow> clamp v
     | None \<Rightarrow>
        (if (case a of None \<Rightarrow> False | Some x \<Rightarrow> 0 < ast_criticality x) then clamp (ast_criticality (the a))
         else
           let (route, speed, density) = (case t of None \<Rightarrow> (8 / 10, 8 / 10, 8 / 10)
                 | Some x \<Rightarrow> (get_default ROUTE_CLASS_WEIGHTS (trk_route_class x) (8 / 10),
                             min 1 (of_int (trk_speed_limit x) / 160), min 1 (of_int (trk_daily_trains x) / 120)))
           in round_digits 3 (clamp (4 / 10 * route + 3 / 10 * speed + 3 / 10 * density))))"

definition map_defect_severity :: "string \<Rightarrow> rat" where
  "map_defect_severity s = get_default DEFECT_SEVERITY_WEIGHTS (upper_text s) (1 / 4)"

definition adapter_days_overdue :: "int \<Rightarrow> int \<Rightarrow> rat" where
  "adapter_days_overdue days cap = round_digits 3 (clamp (of_int (max 0 days) / of_int cap))"

definition calculate_failure_probability :: "rat \<Rightarrow> rat \<Rightarrow> rat \<Rightarrow> rat" where
  "calculate_failure_probability condition severity tonnes =
    (let base = 1 - clamp condition; boost = 4 / 10 * severity; stress = min (2 / 10) (tonnes / 500 * (2 / 10))
     in round_digits 3 (max (2 / 100) (min (99 / 100) (base * (1 / 2) + boost + stress))))"

definition calculate_train_impact :: "int \<Rightarrow> int \<Rightarrow> bool \<Rightarrow> rat" where
  "calculate_train_impact trains minutes peak =
    (let density = min 1 (of_int trains / 120); duration = min 1 (of_int minutes / 240)
     in round_digits 3 (max (5 / 100) (min 1 (1 / 2 * density + 3 / 10 * duration + (if peak then 2 / 10 else 0)))))"

definition adapter_duration :: "int \<Rightarrow> int \<Rightarrow> rat" where
  "adapter_duration minutes cap = round_digits 3 (clamp (of_int (max 15 minutes) / of_int cap))"

definition calculate_historical_failure_rate :: "int \<Rightarrow> int \<Rightarrow> rat" where
  "calculate_historical_failure_rate failures cap = round_digits 3 (clamp (of_int (max 0 failures) / of_int cap))"

definition adapter_features ::
  "asset option \<Rightarrow> track_segment option \<Rightarrow> string \<Rightarrow> int option \<Rightarrow> int \<Rightarrow> string option \<Rightarrow> dict" where
  "adapter_features a t work_type minutes overdue severity =
    (let dur = (if minutes \<noteq> None \<and> minutes \<noteq> Some 0 then the minutes
                else get_default WORK_TYPE_DEFAULT_DURATIONS work_type 90);
         sev = (if severity \<noteq> None \<and> severity \<noteq> Some [] then the severity
                else case a of None \<Rightarrow> ''NONE'' | Some x \<Rightarrow> ast_severity x);
         sev_val = map_defect_severity sev;
         crit = calculate_asset_criticality a t None;
         days_norm = adapter_days_overdue overdue 90;
         fail = (case a of None \<Rightarrow> calculate_failure_probability (8 / 10) sev_val 250
                 | Some x \<Rightarrow> calculate_failure_probability (ast_condition x) sev_val (ast_tonnes x));
         impact = calculate_train_impact (case t of None \<Rightarrow> 110 | Some x \<Rightarrow> trk_daily_trains x) dur False;
         dur_norm = adapter_duration dur 360;
         hist = calculate_historical_failure_rate (case a of None \<Rightarrow> 1 | Some x \<Rightarrow> ast_failures x) 6;
         risk = round_digits 3 (30 / 100 * sev_val + 30 / 100 * fail + 20 / 100 * days_norm + 20 / 100 * hist);
         priority = round_digits 3 (35 / 100 * risk + 25 / 100 * crit + 20 / 100 * impact + 20 / 100 * (1 - dur_norm))
     in dict_of
       [(''asset_criticality'', JFloat crit), (''defect_severity'', JFloat sev_val),
        (''defect_severity_name'', JStr sev), (''days_overdue'', JInt overdue),
        (''days_overdue_norm'', JFloat days_norm), (''failure_probability'', JFloat fail),
        (''train_impact'', JFloat impact), (''maintenance_duration'', JInt dur),
        (''maintenance_duration_norm'', JFloat dur_norm), (''historical_failure_rate'', JFloat hist),
        (''baseline_risk_score'', JFloat risk), (''baseline_priority_score'', JFloat priority)])"

definition build_scorer_input ::
  "asset option \<Rightarrow> track_segment option \<Rightarrow> string \<Rightarrow> int option \<Rightarrow> int \<Rightarrow> string option \<Rightarrow> dict" where
  "build_scorer_input a t work_type minutes overdue severity =
    (let fs = adapter_features a t work_type minutes overdue severity
     in dict_of (map (\<lambda>k. (k, dget fs k)) SCORING_FEATURE_NAMES))"

definition score_domain_block ::
  "asset option \<Rightarrow> track_segment option \<Rightarrow> string \<Rightarrow> int option \<Rightarrow> int \<Rightarrow> string option \<Rightarrow> (score \<times> dict) res" where
  "score_domain_block a t work_type minutes overdue severity =
    (let input = build_scorer_input a t work_type minutes overdue severity
     in bind_res (score_block input) (\<lambda>s. Inr (s, input)))"

text \<open>A dictionary comprehension over a list keeps the last of equal keys.\<close>

definition score_block_candidate ::
  "block_candidate \<Rightarrow> corridor \<Rightarrow> string option \<Rightarrow> block_candidate res" where
  "score_block_candidate b c severity =
    (case find (\<lambda>a. ast_id a = bc_asset b) (rev (crd_assets c)) of None \<Rightarrow> Inl ValueError
     | Some a \<Rightarrow>
        (case find (\<lambda>t. trk_id t = bc_track b) (rev (crd_tracks c)) of None \<Rightarrow> Inl ValueError
         | Some t \<Rightarrow>
            bind_res (score_domain_block (Some a) (Some t) (bc_work_type b) (Some (bc_duration b))
                (max 0 (ast_days_since_maintained a - 30))
                (Some (case severity of None \<Rightarrow> ast_severity a | Some s \<Rightarrow> s))) (\<lambda>(s, input).
            Inr (b\<lparr>bc_priority := sc_priority s, bc_risk := sc_risk s,
                   bc_metadata := dmerge (bc_metadata b) (dict_of
                     [(''scoring_features'', JObj input),
                      (''scoring_explanation'', JArr (map JStr (sc_explanation s))),
                      (''scoring_model_type'', JStr MODEL_TYPE),
                      (''scoring_model_version'', JStr MODEL_VERSION)])\<rparr>))))"

end
