(* ===== verification/Intake.thy ===== *)
theory Intake
  imports Service Field_Location Asset_Association Duplicates Scoring
begin

text \<open>
  Reporting a job: \<^verbatim>\<open>JobCreateRequest\<close> (\<^verbatim>\<open>backend/app/jobs/models.py\<close>), idempotency keys
  (\<^verbatim>\<open>backend/app/jobs/idempotency.py\<close>) and \<^verbatim>\<open>JobService.create_job_with_outcome\<close> with the asset checks
  of the service (\<^verbatim>\<open>backend/app/jobs/service.py\<close>). Two more random sources are arguments: \<open>uuid\<close>, the hex
  text a job id is cut from, and \<open>wd_say\<close>, the text of an exception.
\<close>

section \<open>The request\<close>

datatype job_type =
  TRACK_RENEWAL | BALLAST_TAMPING | OHE_MAINTENANCE | SIGNALLING_INTERLOCKING | ROUTINE_INSPECTION | EMERGENCY_REPAIR

fun job_type_value :: "job_type \<Rightarrow> string" where
  "job_type_value TRACK_RENEWAL = ''TRACK_RENEWAL''"
| "job_type_value BALLAST_TAMPING = ''BALLAST_TAMPING''"
| "job_type_value OHE_MAINTENANCE = ''OHE_MAINTENANCE''"
| "job_type_value SIGNALLING_INTERLOCKING = ''SIGNALLING_INTERLOCKING''"
| "job_type_value ROUTINE_INSPECTION = ''ROUTINE_INSPECTION''"
| "job_type_value EMERGENCY_REPAIR = ''EMERGENCY_REPAIR''"

record field_location =
  fl_from :: string
  fl_toward :: string
  fl_start :: rat
  fl_end :: rat

definition valid_field_location :: "field_location \<Rightarrow> bool" where
  "valid_field_location f \<longleftrightarrow>
     1 \<le> length (fl_from f) \<and> length (fl_from f) \<le> 64 \<and> 1 \<le> length (fl_toward f) \<and> length (fl_toward f) \<le> 64 \<and>
     0 \<le> fl_start f \<and> 0 < fl_end f \<and> fl_start f < fl_end f"

record job_request =
  jq_track :: string
  jq_type :: job_type
  jq_start :: rat
  jq_end :: rat
  jq_workers_min :: int
  jq_workers_max :: int
  jq_description :: string
  jq_severity :: "severity option"
  jq_evidence :: "string option"
  jq_corridor :: "string option"
  jq_field_location :: "field_location option"
  jq_key :: "string option"

definition key_char :: "char \<Rightarrow> bool" where
  "key_char c \<longleftrightarrow> is_upper c \<or> is_lower c \<or> is_digit c \<or> c \<in> set ''._:-''"

definition valid_job_request :: "job_request \<Rightarrow> bool" where
  "valid_job_request q \<longleftrightarrow>
     1 \<le> length (jq_track q) \<and> 0 \<le> jq_start q \<and> 0 < jq_end q \<and> jq_start q < jq_end q \<and>
     1 \<le> jq_workers_min q \<and> 1 \<le> jq_workers_max q \<and> jq_workers_min q \<le> jq_workers_max q \<and>
     1 \<le> length (jq_description q) \<and> length (jq_description q) \<le> 1000 \<and>
     (case jq_evidence q of None \<Rightarrow> True | Some e \<Rightarrow> 1 \<le> length e \<and> length e \<le> 200) \<and>
     (case jq_corridor q of None \<Rightarrow> True | Some c \<Rightarrow> 1 \<le> length c) \<and>
     (case jq_field_location q of None \<Rightarrow> True | Some f \<Rightarrow> valid_field_location f) \<and>
     (case jq_key q of None \<Rightarrow> True | Some k \<Rightarrow> 1 \<le> length k \<and> length k \<le> 128 \<and> list_all key_char k)"

text \<open>\<^verbatim>\<open>request.model_dump(mode="json")\<close>\<close>

definition field_location_dict :: "field_location \<Rightarrow> dict" where
  "field_location_dict f = dict_of
     [(''from_station_id'', JStr (fl_from f)), (''toward_station_id'', JStr (fl_toward f)),
      (''offset_start_m'', JFloat (fl_start f)), (''offset_end_m'', JFloat (fl_end f))]"

definition request_payload :: "job_request \<Rightarrow> dict" where
  "request_payload q = dict_of
     [(''track_id'', JStr (jq_track q)), (''job_type'', JStr (job_type_value (jq_type q))),
      (''distance_start'', JFloat (jq_start q)), (''distance_end'', JFloat (jq_end q)),
      (''workers_min'', JInt (jq_workers_min q)), (''workers_max'', JInt (jq_workers_max q)),
      (''description'', JStr (jq_description q)),
      (''severity'', json_of_str (map_option severity_value (jq_severity q))),
      (''evidence_reference'', json_of_str (jq_evidence q)), (''corridor_id'', json_of_str (jq_corridor q)),
      (''field_location'', case jq_field_location q of None \<Rightarrow> JNull | Some f \<Rightarrow> JObj (field_location_dict f)),
      (''idempotency_key'', json_of_str (jq_key q))]"

section \<open>Idempotency keys\<close>

definition IDEMPOTENCY_EVENT_PREFIX :: string where "IDEMPOTENCY_EVENT_PREFIX = ''EVT-IDEM-''"

definition request_fingerprint :: "(dict \<Rightarrow> string) \<Rightarrow> dict \<Rightarrow> string" where
  "request_fingerprint sha payload = sha (fmdrop ''idempotency_key'' payload)"

definition idempotency_event_id :: "(dict \<Rightarrow> string) \<Rightarrow> string \<Rightarrow> string \<Rightarrow> string" where
  "idempotency_event_id sha who key = IDEMPOTENCY_EVENT_PREFIX @
     map to_upper (take 32 (sha (dict_of [(''actor_id'', JStr who), (''idempotency_key'', JStr key)])))"

type_synonym idempotency = "string \<times> string \<times> string"

definition idempotency_identity :: "(dict \<Rightarrow> string) \<Rightarrow> job_request \<Rightarrow> actor \<Rightarrow> idempotency option res" where
  "idempotency_identity sha q reporter =
    (case jq_key q of None \<Rightarrow> Inr None
     | Some key \<Rightarrow>
        if actor_assurance reporter = NO_ASSURANCE then Inl IdempotencyKeyError
        else Inr (Some (idempotency_event_id sha (actor_id reporter) key, key,
                        request_fingerprint sha (request_payload q))))"

definition idempotent_replay :: "db \<Rightarrow> idempotency \<Rightarrow> job option res" where
  "idempotent_replay d = (\<lambda>(event_id, key, fingerprint).
     bind_res (get_by_event_id (db_events d) event_id) (\<lambda>stored.
     case stored of None \<Rightarrow> Inr None
     | Some s \<Rightarrow>
        (let e = sj_event s;
             recorded = dget (sub_dict (ev_metadata e) ''idempotency'') ''request_fingerprint'' in
         if ev_type e \<noteq> JOB_CREATED \<or> recorded = JNull then Inl IdempotencyKeyConflictError
         else if recorded \<noteq> JStr fingerprint then Inl IdempotencyKeyConflictError
         else case get d (ev_job_id e) of
           None \<Rightarrow> Inl IdempotencyKeyConflictError
         | Some j \<Rightarrow> Inr (Some j))))"

section \<open>The parts of the service intake uses\<close>

record intake =
  in_corridor :: corridor
  in_registry :: "registry option"
  in_asset_policy :: asset_policy
  in_duplicate_policy :: duplicate_policy

definition verify_job_asset_reference :: "(dict \<Rightarrow> string) \<Rightarrow> intake \<Rightarrow> job \<Rightarrow> reference_check res" where
  "verify_job_asset_reference sha ik j =
    (case reference_from_block (job_block j) of (i, rc, f) \<Rightarrow>
       verify_asset_reference sha (crd_id (in_corridor ik)) (crd_assets (in_corridor ik)) i rc f)"

definition asset_problem :: "world \<Rightarrow> intake \<Rightarrow> job \<Rightarrow> string option" where
  "asset_problem w ik j =
    (case verify_job_asset_reference (wd_sha w) ik j of
       Inr _ \<Rightarrow> None
     | Inl e \<Rightarrow> Some (''asset reference unverified: '' @ wd_say w e))"

text \<open>Steps 0 to 3.5: corridor, track, duration and the one section of the declared span.\<close>

definition intake_place :: "intake \<Rightarrow> job_request \<Rightarrow> (int \<times> registry \<times> resolved_resource) res" where
  "intake_place ik q =
    (if jq_corridor q \<noteq> None \<and> jq_corridor q \<noteq> Some (crd_id (in_corridor ik)) then Inl ValueError
     else if jq_track q \<notin> trk_id ` set (crd_tracks (in_corridor ik)) then Inl ValueError
     else case map_of WORK_TYPE_DEFAULT_DURATIONS (job_type_value (jq_type q)) of
       None \<Rightarrow> Inl ValueError
     | Some duration \<Rightarrow>
        (case in_registry ik of None \<Rightarrow> Inl ValueError
         | Some r \<Rightarrow>
            (case resolve_job_resource r (jq_track q) (jq_start q) (jq_end q) of
               Inl e \<Rightarrow> Inl (case e of JobResourceResolutionError \<Rightarrow> ValueError | _ \<Rightarrow> e)
             | Inr x \<Rightarrow> Inr (duration, r, x))))"

definition intake_location :: "registry \<Rightarrow> job_request \<Rightarrow> resolved_resource \<Rightarrow> (string \<times> json) res" where
  "intake_location r q x =
    (case jq_field_location q of None \<Rightarrow> Inr (''ABSOLUTE_CHAINAGE'', JNull)
     | Some f \<Rightarrow>
        bind_res (convert_field_location r (fl_from f) (fl_toward f) (fl_start f) (fl_end f)) (\<lambda>l.
        bind_res (assert_matches_declared l (jq_start q) (jq_end q)) (\<lambda>_.
        if rl_section l \<noteq> rr_section x then Inl FieldLocationError
        else Inr (''FIELD_LOCATION_VERIFIED'', JObj (location_metadata l)))))"

definition new_job_id :: "string \<Rightarrow> string" where
  "new_job_id uuid = ''JOB-'' @ map to_upper (take 10 uuid)"

definition intake_metadata ::
  "(dict \<Rightarrow> string) \<Rightarrow> job_request \<Rightarrow> asset_association \<Rightarrow> string \<Rightarrow> json \<Rightarrow> duplicate_assessment \<Rightarrow>
   idempotency option \<Rightarrow> dict" where
  "intake_metadata sha q assoc location_source location dup idem = dict_of
     [(''source'', JStr ''worker_report''), (''job_type'', JStr (job_type_value (jq_type q))),
      (''distance_start'', JFloat (jq_start q)), (''distance_end'', JFloat (jq_end q)),
      (''workers_min'', JInt (jq_workers_min q)), (''workers_max'', JInt (jq_workers_max q)),
      (''description'', JStr (jq_description q)), (''asset_name'', JStr (ast_name (aa_asset assoc))),
      (''asset_km_location'', JFloat (ast_km (aa_asset assoc))),
      (''reported_severity'', json_of_str (map_option severity_value (jq_severity q))),
      (''evidence_reference'', json_of_str (jq_evidence q)),
      (''asset_association'', JObj (association_metadata sha assoc)),
      (''location_source'', JStr location_source), (''field_location'', location),
      (''duplicate_detection'', JObj (assessment_metadata dup)),
      (''idempotency'', case idem of None \<Rightarrow> JNull
         | Some (i, key, fp) \<Rightarrow> JObj (dict_of [(''key'', json_of_str (jq_key q)), (''request_fingerprint'', JStr fp)]))]"

definition intake_block ::
  "service \<Rightarrow> string \<Rightarrow> job_request \<Rightarrow> int \<Rightarrow> resolved_resource \<Rightarrow> asset \<Rightarrow> dict \<Rightarrow> block_candidate" where
  "intake_block sv uuid q duration x a md =
     \<lparr>bc_id = new_job_id uuid, bc_asset = ast_id a, bc_track = rr_track x,
      bc_work_type = job_type_value (jq_type q), bc_duration = duration, bc_section = Some (rr_section x),
      bc_earliest = 0, bc_latest_end = sv_horizon sv, bc_priority = 0, bc_risk = 0, bc_dependencies = [],
      bc_mutex = None, bc_committed = False, bc_status = PLANNED_BLOCK, bc_metadata = md\<rparr>"

definition intake_job :: "job_request \<Rightarrow> block_candidate \<Rightarrow> string \<Rightarrow> job" where
  "intake_job q b created_at =
     \<lparr>job_id = bc_id b, job_track_id = jq_track q, job_work_type = job_type_value (jq_type q),
      job_distance_start = jq_start q, job_distance_end = jq_end q, job_workers_min = jq_workers_min q,
      job_workers_max = jq_workers_max q, job_description = jq_description q, job_status = REPORTED,
      job_priority_score = bc_priority b, job_risk_score = bc_risk b, job_start = None, job_end = None,
      job_created_at = created_at, job_updated_at = Some created_at, job_last_solver_status = None,
      job_last_refusal_reason = None, job_block = candidate_to_dict b\<rparr>"

section \<open>Creating the job\<close>

text \<open>Steps 3.6 to 5 read only: they end with the row and the events to store.\<close>

definition intake_prepare ::
  "service \<Rightarrow> intake \<Rightarrow> world \<Rightarrow> string \<Rightarrow> job_request \<Rightarrow> actor \<Rightarrow> idempotency option \<Rightarrow> int \<Rightarrow> registry \<Rightarrow>
   resolved_resource \<Rightarrow> db \<Rightarrow> (job \<times> job_event list) res" where
  "intake_prepare sv ik w uuid q reporter idem duration r x d =
     bind_res (intake_location r q x) (\<lambda>(location_source, location).
     bind_res (select_asset (crd_assets (in_corridor ik)) (crd_id (in_corridor ik)) r (jq_track q) (rr_section x)
                 (jq_start q) (jq_end q) (in_asset_policy ik)) (\<lambda>assoc.
     bind_res (event_timestamp (wd_now w)) (\<lambda>created_at.
     bind_res (find_duplicate_candidates
                 \<lparr>pb_track = rr_track x, pb_section = rr_section x, pb_asset = ast_id (aa_asset assoc),
                  pb_work_type = job_type_value (jq_type q), pb_start = jq_start q, pb_end = jq_end q,
                  pb_created = parse_created_at created_at\<rparr>
                 (list_active d) (in_duplicate_policy ik) (asset_problem w ik)) (\<lambda>dup.
     bind_res (score_block_candidate
                 (intake_block sv uuid q duration x (aa_asset assoc)
                   (intake_metadata (wd_sha w) q assoc location_source location dup idem))
                 (in_corridor ik) (map_option severity_value (jq_severity q))) (\<lambda>b.
     bind_res (creation_events (wd_env w) (intake_job q b created_at) reporter SCORER created_at
                 (map_option fst idem)) (\<lambda>events.
     Inr (intake_job q b created_at, events)))))))"

text \<open>The write, and the answer to a lost race for the key.\<close>

definition intake_write ::
  "db \<Rightarrow> job \<Rightarrow> job_event list \<Rightarrow> idempotency option \<Rightarrow> (job \<times> bool) res \<times> db" where
  "intake_write d j events idem =
    (case create d j events of
       Inr d' \<Rightarrow> (Inr (the (get d' (job_id j)), False), d')
     | Inl e \<Rightarrow>
        if e = IntegrityError then
          (case idem of None \<Rightarrow> (Inl e, d)
           | Some k \<Rightarrow>
              (case idempotent_replay d k of
                 Inl e' \<Rightarrow> (Inl e', d)
               | Inr None \<Rightarrow> (Inl e, d)
               | Inr (Some row) \<Rightarrow> (Inr (row, True), d)))
        else (Inl e, d))"

definition create_job_with_outcome ::
  "service \<Rightarrow> intake \<Rightarrow> world \<Rightarrow> string \<Rightarrow> job_request \<Rightarrow> actor option \<Rightarrow> (job \<times> bool) svc" where
  "create_job_with_outcome sv ik w uuid q actor d =
    (let reporter = resolve_actor actor in
     checked (ask sv reporter REPORT_JOB) (\<lambda>_.
     checked (idempotency_identity (wd_sha w) q reporter) (\<lambda>idem.
     checked (case idem of None \<Rightarrow> Inr None | Some k \<Rightarrow> idempotent_replay d k) (\<lambda>replay.
     case replay of
       Some j \<Rightarrow> checked (authorize_job_resource sv reporter REPORT_JOB j) (\<lambda>_ d. (Inr (j, True), d))
     | None \<Rightarrow>
        checked (intake_place ik q) (\<lambda>(duration, r, x).
        checked (authorize_resource sv reporter REPORT_JOB
                   \<lparr>loc_corridor = Some (crd_id (in_corridor ik)), loc_section = Some (rr_section x)\<rparr>) (\<lambda>_.
        checked (intake_prepare sv ik w uuid q reporter idem duration r x d) (\<lambda>(j, events) d.
        intake_write d j events idem)))))) d)"

definition create_job ::
  "service \<Rightarrow> intake \<Rightarrow> world \<Rightarrow> string \<Rightarrow> job_request \<Rightarrow> actor option \<Rightarrow> job svc" where
  "create_job sv ik w uuid q actor d =
    (case create_job_with_outcome sv ik w uuid q actor d of
       (Inl e, d') \<Rightarrow> (Inl e, d') | (Inr (j, _), d') \<Rightarrow> (Inr j, d'))"

end
