(* ===== verification/Scoring_Properties.thy ===== *)
theory Scoring_Properties
  imports Scoring
begin

text \<open>
  What a score is: always there for a block of the corridor, in the unit interval, and never lowered
  by a worse severity.
\<close>

section \<open>Rounding and clamping\<close>

lemma clamp_bounds [simp]: "0 \<le> clamp x" "clamp x \<le> 1"
  by (simp_all add: clamp_def)

lemma clamp_id [simp]: "0 \<le> x \<Longrightarrow> x \<le> 1 \<Longrightarrow> clamp x = x"
  by (simp add: clamp_def)

lemma clamp_mono: "x \<le> y \<Longrightarrow> clamp x \<le> clamp y"
  by (auto simp: clamp_def)

lemma round_digits_whole [simp]: "round_digits n 0 = 0" "round_digits n 1 = 1"
proof -
  have "py_round (10 ^ n * 0) = 0" using py_round_of_int [of 0] by simp
  then show "round_digits n 0 = 0" by (simp add: round_digits_def)
  have "py_round (10 ^ n * 1) = 10 ^ n" using py_round_of_int [of "10 ^ n"] by simp
  then show "round_digits n 1 = 1" by (simp add: round_digits_def)
qed

lemma round_digits_unit: "0 \<le> x \<Longrightarrow> x \<le> 1 \<Longrightarrow> 0 \<le> round_digits n x \<and> round_digits n x \<le> 1"
  using round_digits_mono [of 0 x n] round_digits_mono [of x 1 n] by simp

section \<open>The features of a block of the corridor\<close>

lemma criticality_unit:
  "0 \<le> calculate_asset_criticality a t None" "calculate_asset_criticality a t None \<le> 1"
  by (auto simp: calculate_asset_criticality_def Let_def round_digits_unit split: option.splits)

lemma severity_unit: "0 \<le> map_defect_severity s" "map_defect_severity s \<le> 1"
  by (auto simp: map_defect_severity_def get_default_def DEFECT_SEVERITY_WEIGHTS_def)

lemma failure_unit:
  "0 \<le> calculate_failure_probability c s g" "calculate_failure_probability c s g \<le> 1"
proof -
  have "0 \<le> max (2 / 100) (min (99 / 100) x) \<and> max (2 / 100) (min (99 / 100) x) \<le> 1" for x :: rat by auto
  then show "0 \<le> calculate_failure_probability c s g" "calculate_failure_probability c s g \<le> 1"
    unfolding calculate_failure_probability_def Let_def by (simp_all only: round_digits_unit)
qed

lemma impact_unit:
  "0 \<le> calculate_train_impact n m p" "calculate_train_impact n m p \<le> 1"
proof -
  have "0 \<le> max (5 / 100) (min 1 x) \<and> max (5 / 100) (min 1 x) \<le> 1" for x :: rat by auto
  then show "0 \<le> calculate_train_impact n m p" "calculate_train_impact n m p \<le> 1"
    unfolding calculate_train_impact_def Let_def by (simp_all only: round_digits_unit)
qed

lemma history_unit:
  "0 \<le> calculate_historical_failure_rate n c" "calculate_historical_failure_rate n c \<le> 1"
  by (simp_all add: calculate_historical_failure_rate_def round_digits_unit)

definition block_minutes :: "string \<Rightarrow> int \<Rightarrow> int" where
  "block_minutes work_type m = (if m = 0 then get_default WORK_TYPE_DEFAULT_DURATIONS work_type 90 else m)"

definition block_severity :: "asset \<Rightarrow> string \<Rightarrow> rat" where
  "block_severity a s = map_defect_severity (if s = [] then ast_severity a else s)"

definition block_features :: "asset \<Rightarrow> track_segment \<Rightarrow> string \<Rightarrow> int \<Rightarrow> int \<Rightarrow> string \<Rightarrow> features" where
  "block_features a t work_type m overdue s =
     [(''asset_criticality'', calculate_asset_criticality (Some a) (Some t) None),
      (''defect_severity'', block_severity a s),
      (''days_overdue'', clamp (of_int overdue / 30)),
      (''failure_probability'', calculate_failure_probability (ast_condition a) (block_severity a s) (ast_tonnes a)),
      (''train_impact'', calculate_train_impact (trk_daily_trains t) (block_minutes work_type m) False),
      (''maintenance_duration'', clamp (of_int (block_minutes work_type m) / 240)),
      (''historical_failure_rate'', calculate_historical_failure_rate (ast_failures a) 6)]"

lemma default_minutes: "0 \<le> get_default WORK_TYPE_DEFAULT_DURATIONS w 90"
  by (simp add: get_default_def WORK_TYPE_DEFAULT_DURATIONS_def)

lemma unit_readers:
  "0 \<le> x \<Longrightarrow> x \<le> 1 \<Longrightarrow> normalize_probability (JFloat x) = Inr x"
  "0 \<le> x \<Longrightarrow> x \<le> 1 \<Longrightarrow> normalize_level (JFloat x) = Inr x"
  "0 \<le> i \<Longrightarrow> normalize_days_overdue (JInt i) 30 = Inr (clamp (of_int i / 30))"
  "0 \<le> i \<Longrightarrow> normalize_duration (JInt i) 240 = Inr (clamp (of_int i / 240))"
  by (simp_all add: normalize_probability_def normalize_days_overdue_def normalize_duration_def not_less)

lemma features_of_block:
  assumes "0 \<le> m" "0 \<le> overdue"
  shows "extract_features (build_scorer_input (Some a) (Some t) w (Some m) overdue (Some s)) =
    Inr (block_features a t w m overdue s)"
  using assms
  by (simp add: extract_features_def feature_readers_def build_scorer_input_def SCORING_FEATURE_NAMES_def
      adapter_features_def Let_def dict_of_def need_key_def block_features_def block_minutes_def
      block_severity_def dget_def unit_readers criticality_unit severity_unit failure_unit impact_unit
      history_unit default_minutes del: normalize_level.simps)

lemma weighted_sum:
  "weighted_score (block_features a t w m overdue s) RISK_WEIGHTS = Inr (clamp (sum_list
     (map2 (\<lambda>(k, v) (k', x). v * x) (block_features a t w m overdue s) RISK_WEIGHTS)))"
  "weighted_score (block_features a t w m overdue s) PRIORITY_WEIGHTS = Inr (clamp (sum_list
     (map2 (\<lambda>(k, v) (k', x). v * x) (block_features a t w m overdue s) PRIORITY_WEIGHTS)))"
  by (simp_all add: weighted_score_def block_features_def RISK_WEIGHTS_def PRIORITY_WEIGHTS_def feature_at_def)

lemma map_res_all: "(\<And>x. x \<in> set xs \<Longrightarrow> \<exists>y. f x = Inr y) \<Longrightarrow> \<exists>ys. map_res f xs = Inr ys"
  by (induction xs) (auto simp: bind_res_def split: sum.splits, metis Inl_Inr_False)

lemma explanation_total:
  assumes "\<And>k v. (k, v) \<in> set fs \<Longrightarrow> map_of FEATURE_LABELS k \<noteq> None"
  shows "\<exists>texts. build_explanation fs = Inr texts"
proof -
  let ?label = "\<lambda>(k, v :: rat). case map_of FEATURE_LABELS k of None \<Rightarrow> Inl (KeyError k) | Some l \<Rightarrow> Inr l"
  let ?ranked = "sort_key (\<lambda>(k, v). - v) fs"
  let ?xs = "if filter (\<lambda>(k, v). 3 / 4 \<le> v) ?ranked = [] then take 1 ?ranked else filter (\<lambda>(k, v). 3 / 4 \<le> v) ?ranked"
  have "set ?xs \<subseteq> set fs" by (auto dest: in_set_takeD)
  then have "\<exists>y. ?label x = Inr y" if "x \<in> set ?xs" for x
    using assms that by (cases x) (fastforce split: option.splits)
  then have "\<exists>ys. map_res ?label ?xs = Inr ys" by (rule map_res_all)
  then obtain ys where ys: "map_res ?label ?xs = Inr ys" by blast
  show ?thesis unfolding build_explanation_def Let_def ys bind_res_simps by blast
qed

lemma block_scored:
  assumes "0 \<le> m" "0 \<le> overdue"
  shows "\<exists>sc. score_block (build_scorer_input (Some a) (Some t) w (Some m) overdue (Some s)) = Inr sc \<and>
    sc_risk sc = round_digits 4 (clamp (sum_list
       (map2 (\<lambda>(k, v) (k', x). v * x) (block_features a t w m overdue s) RISK_WEIGHTS))) \<and>
    sc_priority sc = round_digits 4 (clamp (sum_list
       (map2 (\<lambda>(k, v) (k', x). v * x) (block_features a t w m overdue s) PRIORITY_WEIGHTS)))"
proof -
  have "\<exists>texts. build_explanation (block_features a t w m overdue s) = Inr texts"
    by (rule explanation_total) (auto simp: block_features_def FEATURE_LABELS_def)
  then show ?thesis
    by (auto simp: score_block_def features_of_block [OF assms] weighted_sum)
qed

section \<open>Scores of candidates\<close>

lemma score_candidate_cases:
  assumes "find (\<lambda>a. ast_id a = bc_asset b) (rev (crd_assets c)) = Some a"
    and "find (\<lambda>t. trk_id t = bc_track b) (rev (crd_tracks c)) = Some t"
  shows "score_block_candidate b c severity =
    bind_res (score_domain_block (Some a) (Some t) (bc_work_type b) (Some (bc_duration b))
       (max 0 (ast_days_since_maintained a - 30))
       (Some (case severity of None \<Rightarrow> ast_severity a | Some s \<Rightarrow> s))) (\<lambda>(s, input).
     Inr (b\<lparr>bc_priority := sc_priority s, bc_risk := sc_risk s,
       bc_metadata := dmerge (bc_metadata b) (dict_of
         [(''scoring_features'', JObj input),
          (''scoring_explanation'', JArr (map JStr (sc_explanation s))),
          (''scoring_model_type'', JStr MODEL_TYPE),
          (''scoring_model_version'', JStr MODEL_VERSION)])\<rparr>))"
  using assms by (simp add: score_block_candidate_def)

lemma find_some: "x \<in> set xs \<Longrightarrow> P x \<Longrightarrow> \<exists>y. find P xs = Some y"
  by (induction xs) auto

lemma candidate_scored:
  assumes "a \<in> set (crd_assets c)" "bc_asset b = ast_id a" "t \<in> set (crd_tracks c)" "bc_track b = trk_id t"
    and "0 \<le> bc_duration b"
  shows "\<exists>b'. score_block_candidate b c severity = Inr b' \<and>
    0 \<le> bc_priority b' \<and> bc_priority b' \<le> 1 \<and> 0 \<le> bc_risk b' \<and> bc_risk b' \<le> 1 \<and>
    b'\<lparr>bc_priority := bc_priority b, bc_risk := bc_risk b, bc_metadata := bc_metadata b\<rparr> = b"
proof -
  obtain a' where a': "find (\<lambda>a. ast_id a = bc_asset b) (rev (crd_assets c)) = Some a'"
    using find_some [of a "rev (crd_assets c)" "\<lambda>a. ast_id a = bc_asset b"] assms(1,2) by auto
  obtain t' where t': "find (\<lambda>t. trk_id t = bc_track b) (rev (crd_tracks c)) = Some t'"
    using find_some [of t "rev (crd_tracks c)" "\<lambda>t. trk_id t = bc_track b"] assms(3,4) by auto
  from block_scored [OF assms(5), of "max 0 (ast_days_since_maintained a' - 30)" a' t' "bc_work_type b"
      "case severity of None \<Rightarrow> ast_severity a' | Some s \<Rightarrow> s"]
  show ?thesis
    by (auto simp: score_candidate_cases [OF a' t'] score_domain_block_def Let_def round_digits_unit)
qed

text \<open>Scoring never fails on a block of the corridor, whatever its asset's and track's figures: a block
  whose asset and track are the corridor's and whose duration is not negative gets a priority and a risk
  in the unit interval, and nothing of it but the two scores and the scorer's own metadata changes.\<close>

theorem scoring_total_bounded:
  assumes "a \<in> set (crd_assets c)" "bc_asset b = ast_id a" "t \<in> set (crd_tracks c)" "bc_track b = trk_id t"
    and "0 \<le> bc_duration b"
  shows "\<exists>b'. score_block_candidate b c severity = Inr b' \<and>
    0 \<le> bc_priority b' \<and> bc_priority b' \<le> 1 \<and> 0 \<le> bc_risk b' \<and> bc_risk b' \<le> 1 \<and>
    b'\<lparr>bc_priority := bc_priority b, bc_risk := bc_risk b, bc_metadata := bc_metadata b\<rparr> = b"
  using assms by (rule candidate_scored)

lemma failure_mono: "s \<le> s' \<Longrightarrow> calculate_failure_probability c s g \<le> calculate_failure_probability c s' g"
  unfolding calculate_failure_probability_def Let_def by (intro round_digits_mono max.mono min.mono) auto

lemma scores_mono:
  assumes "block_severity a s \<le> block_severity a s'" "W = RISK_WEIGHTS \<or> W = PRIORITY_WEIGHTS"
  shows "sum_list (map2 (\<lambda>(k, v) (k', x). v * x) (block_features a t w m overdue s) W) \<le>
    sum_list (map2 (\<lambda>(k, v) (k', x). v * x) (block_features a t w m overdue s') W)"
  using assms failure_mono [OF assms(1), of "ast_condition a" "ast_tonnes a"]
  by (auto simp: block_features_def RISK_WEIGHTS_def PRIORITY_WEIGHTS_def intro!: add_mono)

text \<open>A worse severity never lowers a score: reported on the same block of the same corridor, of two
  severities the one with the greater weight gives at least the risk and at least the priority.\<close>

theorem severity_never_lowers_score:
  assumes "score_block_candidate b c (Some s) = Inr x" "score_block_candidate b c (Some s') = Inr y"
    and "s \<noteq> []" "s' \<noteq> []" "map_defect_severity s \<le> map_defect_severity s'" "0 \<le> bc_duration b"
  shows "bc_risk x \<le> bc_risk y \<and> bc_priority x \<le> bc_priority y"
proof -
  from assms(1) obtain a t where a: "find (\<lambda>a. ast_id a = bc_asset b) (rev (crd_assets c)) = Some a"
      and t: "find (\<lambda>t. trk_id t = bc_track b) (rev (crd_tracks c)) = Some t"
    by (auto simp: score_block_candidate_def split: option.splits)
  let ?o = "max 0 (ast_days_since_maintained a - 30)"
  have sev: "block_severity a s \<le> block_severity a s'" using assms(3-5) by (simp add: block_severity_def)
  have "round_digits 4 (clamp (sum_list (map2 (\<lambda>(k, v) (k', x). v * x)
        (block_features a t (bc_work_type b) (bc_duration b) ?o s) W))) \<le>
      round_digits 4 (clamp (sum_list (map2 (\<lambda>(k, v) (k', x). v * x)
        (block_features a t (bc_work_type b) (bc_duration b) ?o s') W)))"
    if "W = RISK_WEIGHTS \<or> W = PRIORITY_WEIGHTS" for W
    using scores_mono [OF sev that] by (intro round_digits_mono clamp_mono)
  with assms(1,2) block_scored [OF assms(6), of ?o a t "bc_work_type b" s]
    block_scored [OF assms(6), of ?o a t "bc_work_type b" s']
  show ?thesis
    by (auto simp: score_candidate_cases [OF a t] score_domain_block_def Let_def)
qed

definition scored_asset :: asset where
  "scored_asset = \<lparr>ast_id = ''OHE-1'', ast_name = ''Mast 1'', ast_type = ''OHE_MAST'', ast_track = ''UP-1'', ast_km = 8,
     ast_criticality = 1 / 2, ast_condition = 4 / 5, ast_days_since_maintained = 50, ast_severity = ''NONE'',
     ast_tonnes = 250, ast_installed = 2018, ast_failures = 1, ast_metadata = fmempty\<rparr>"

definition scored_track :: track_segment where
  "scored_track = \<lparr>trk_id = ''UP-1'', trk_corridor = ''C'', trk_segment_name = ''SEG-01'', trk_section_name = ''Main'',
     trk_direction = ''UP'', trk_km_start = 0, trk_km_end = 28, trk_speed_limit = 160, trk_electrified = True,
     trk_daily_trains = 110, trk_route_class = ''GROUP_A''\<rparr>"

definition scored_corridor :: corridor where
  "scored_corridor = \<lparr>crd_id = ''C'', crd_name = ''C'', crd_tracks = [scored_track], crd_assets = [scored_asset]\<rparr>"

definition scored_candidate :: block_candidate where
  "scored_candidate = \<lparr>bc_id = ''JOB-1'', bc_asset = ''OHE-1'', bc_track = ''UP-1'', bc_work_type = ''OHE_MAINTENANCE'',
     bc_duration = 90, bc_section = Some ''NZM-FDB'', bc_earliest = 0, bc_latest_end = 1440, bc_priority = 0,
     bc_risk = 0, bc_dependencies = [], bc_mutex = None, bc_committed = False, bc_status = ''PLANNED'',
     bc_metadata = fmempty\<rparr>"

lemma scored_in_corridor:
  "scored_asset \<in> set (crd_assets scored_corridor)" "bc_asset scored_candidate = ast_id scored_asset"
  "scored_track \<in> set (crd_tracks scored_corridor)" "bc_track scored_candidate = trk_id scored_track"
  "0 \<le> bc_duration scored_candidate"
  by (simp_all add: scored_corridor_def scored_candidate_def scored_asset_def scored_track_def)

lemma scoring_total_bounded_witness:
  "\<exists>b'. score_block_candidate scored_candidate scored_corridor None = Inr b' \<and> 0 \<le> bc_risk b' \<and> bc_risk b' \<le> 1"
  using scoring_total_bounded [OF scored_in_corridor, of None] by auto

lemma severity_never_lowers_score_witness:
  "\<exists>x y. score_block_candidate scored_candidate scored_corridor (Some ''MINOR'') = Inr x \<and>
     score_block_candidate scored_candidate scored_corridor (Some ''CRITICAL'') = Inr y \<and> bc_risk x \<le> bc_risk y"
proof -
  obtain x where x: "score_block_candidate scored_candidate scored_corridor (Some ''MINOR'') = Inr x"
    using candidate_scored [OF scored_in_corridor, of "Some ''MINOR''"] by blast
  obtain y where y: "score_block_candidate scored_candidate scored_corridor (Some ''CRITICAL'') = Inr y"
    using candidate_scored [OF scored_in_corridor, of "Some ''CRITICAL''"] by blast
  have "map_defect_severity ''MINOR'' \<le> map_defect_severity ''CRITICAL''" by code_simp
  with severity_never_lowers_score [OF x y _ _ _ scored_in_corridor(5)] x y show ?thesis by blast
qed

end
