(* ===== verification/Intake_Properties.thy ===== *)
theory Intake_Properties
  imports Intake Scoring_Properties Service_Path Obligation_Path
begin

text \<open>
  What reporting a job guarantees: it happens once per key, it stores one row with its two events or
  nothing, and the row stored lies in a section the reporter may report in.
\<close>

section \<open>The two outcomes\<close>

text \<open>A call that creates nothing leaves the database as it was.\<close>

definition idle_outcome :: "db \<Rightarrow> (job \<times> bool) res \<Rightarrow> db \<Rightarrow> bool" where
  "idle_outcome d r d' \<longleftrightarrow> d' = d \<and> (case r of Inl e \<Rightarrow> True | Inr (j, replayed) \<Rightarrow> replayed)"

lemma idle_Inl [simp]: "idle_outcome d (Inl e) d"
  by (simp add: idle_outcome_def)

lemma intake_write_cases:
  assumes "intake_write d j events idem = (r, d')"
  shows "(create d j events = Inr d' \<and> r = Inr (the (get d' (job_id j)), False)) \<or>
    (idle_outcome d r d' \<and> (\<forall>row b. r = Inr (row, b) \<longrightarrow>
       (\<exists>k. idem = Some k \<and> idempotent_replay d k = Inr (Some row))))"
  using assms
  by (auto simp: intake_write_def idle_outcome_def split: sum.splits if_splits option.splits)

text \<open>A new job: everything the call checked on the way.\<close>

definition created_by ::
  "service \<Rightarrow> intake \<Rightarrow> world \<Rightarrow> string \<Rightarrow> job_request \<Rightarrow> actor \<Rightarrow> db \<Rightarrow> job \<Rightarrow> job_event list \<Rightarrow> registry \<Rightarrow>
   resolved_resource \<Rightarrow> bool" where
  "created_by sv ik w uuid q who d j events r x \<longleftrightarrow>
     (\<exists>idem duration. ask sv who REPORT_JOB = Inr () \<and>
        idempotency_identity (wd_sha w) q who = Inr idem \<and>
        (case idem of None \<Rightarrow> True | Some k \<Rightarrow> idempotent_replay d k = Inr None) \<and>
        intake_place ik q = Inr (duration, r, x) \<and>
        authorize_resource sv who REPORT_JOB
          \<lparr>loc_corridor = Some (crd_id (in_corridor ik)), loc_section = Some (rr_section x)\<rparr> = Inr () \<and>
        intake_prepare sv ik w uuid q who idem duration r x d = Inr (j, events))"

text \<open>A replay: the key is spent on the job returned.\<close>

definition replayed_for :: "world \<Rightarrow> job_request \<Rightarrow> actor \<Rightarrow> db \<Rightarrow> job \<Rightarrow> bool" where
  "replayed_for w q who d j \<longleftrightarrow>
     (\<exists>k. idempotency_identity (wd_sha w) q who = Inr (Some k) \<and> idempotent_replay d k = Inr (Some j))"

lemma create_job_runs:
  assumes "create_job_with_outcome sv ik w uuid q a d = (r, d')"
  shows "(\<exists>idem duration reg x j events.
      ask sv (resolve_actor a) REPORT_JOB = Inr () \<and>
      idempotency_identity (wd_sha w) q (resolve_actor a) = Inr idem \<and>
      (case idem of None \<Rightarrow> True | Some k \<Rightarrow> idempotent_replay d k = Inr None) \<and>
      intake_place ik q = Inr (duration, reg, x) \<and>
      authorize_resource sv (resolve_actor a) REPORT_JOB
        \<lparr>loc_corridor = Some (crd_id (in_corridor ik)), loc_section = Some (rr_section x)\<rparr> = Inr () \<and>
      intake_prepare sv ik w uuid q (resolve_actor a) idem duration reg x d = Inr (j, events) \<and>
      intake_write d j events idem = (r, d')) \<or>
    (idle_outcome d r d' \<and> (\<forall>j b. r = Inr (j, b) \<longrightarrow> replayed_for w q (resolve_actor a) d j))"
  using assms unfolding create_job_with_outcome_def Let_def replayed_for_def
  by (auto simp: checked_def split: sum.splits option.splits prod.splits) (auto simp: idle_outcome_def)

lemma create_job_cases:
  assumes "create_job_with_outcome sv ik w uuid q a d = (r, d')"
  obtains (created) j events reg x where
      "created_by sv ik w uuid q (resolve_actor a) d j events reg x" "create d j events = Inr d'"
      "r = Inr (the (get d' (job_id j)), False)"
  | (idle) "idle_outcome d r d'"
      "\<And>j b. r = Inr (j, b) \<Longrightarrow> replayed_for w q (resolve_actor a) d j"
  using create_job_runs [OF assms]
proof
  assume "\<exists>idem duration reg x j events.
      ask sv (resolve_actor a) REPORT_JOB = Inr () \<and>
      idempotency_identity (wd_sha w) q (resolve_actor a) = Inr idem \<and>
      (case idem of None \<Rightarrow> True | Some k \<Rightarrow> idempotent_replay d k = Inr None) \<and>
      intake_place ik q = Inr (duration, reg, x) \<and>
      authorize_resource sv (resolve_actor a) REPORT_JOB
        \<lparr>loc_corridor = Some (crd_id (in_corridor ik)), loc_section = Some (rr_section x)\<rparr> = Inr () \<and>
      intake_prepare sv ik w uuid q (resolve_actor a) idem duration reg x d = Inr (j, events) \<and>
      intake_write d j events idem = (r, d')"
  then obtain idem reg x j events where mk: "created_by sv ik w uuid q (resolve_actor a) d j events reg x"
      and idem: "idempotency_identity (wd_sha w) q (resolve_actor a) = Inr idem"
      and w: "intake_write d j events idem = (r, d')"
    unfolding created_by_def by blast
  from intake_write_cases [OF w] show thesis
  proof
    assume "create d j events = Inr d' \<and> r = Inr (the (get d' (job_id j)), False)"
    with mk show thesis by (intro created) auto
  next
    assume "idle_outcome d r d' \<and> (\<forall>row b. r = Inr (row, b) \<longrightarrow>
      (\<exists>k. idem = Some k \<and> idempotent_replay d k = Inr (Some row)))"
    with idem show thesis by (intro idle) (auto simp: replayed_for_def)
  qed
qed (blast intro: idle)

section \<open>What is stored\<close>

lemma score_keeps:
  assumes "score_block_candidate b c s = Inr b'"
  shows "bc_id b' = bc_id b" "bc_asset b' = bc_asset b" "bc_section b' = bc_section b" "bc_track b' = bc_track b"
    "k \<notin> {''scoring_features'', ''scoring_explanation'', ''scoring_model_type'', ''scoring_model_version''} \<Longrightarrow>
       dget (bc_metadata b') k = dget (bc_metadata b) k"
  using assms
  by (auto simp: score_block_candidate_def bind_res_Inr_iff dget_dmerge dict_of_def split: option.splits)

lemma intake_prepare_Inr:
  assumes "intake_prepare sv ik w uuid q who idem duration reg x d = Inr (j, events)"
  obtains assoc src loc dup b created where
    "select_asset (crd_assets (in_corridor ik)) (crd_id (in_corridor ik)) reg (jq_track q) (rr_section x)
       (jq_start q) (jq_end q) (in_asset_policy ik) = Inr assoc"
    "score_block_candidate (intake_block sv uuid q duration x (aa_asset assoc)
       (intake_metadata (wd_sha w) q assoc src loc dup idem)) (in_corridor ik)
       (map_option severity_value (jq_severity q)) = Inr b"
    "j = intake_job q b created"
    "creation_events (wd_env w) j who SCORER created (map_option fst idem) = Inr events"
  using assms by (auto simp: intake_prepare_def bind_res_Inr_iff)

lemma metadata_of_candidate: "metadata_of (candidate_to_dict b) = bc_metadata b"
  by (simp add: metadata_of_def candidate_to_dict_def dict_of_def)

lemma prepared_job:
  assumes "intake_prepare sv ik w uuid q who idem duration reg x d = Inr (j, events)"
  obtains assoc where
    "select_asset (crd_assets (in_corridor ik)) (crd_id (in_corridor ik)) reg (jq_track q) (rr_section x)
       (jq_start q) (jq_end q) (in_asset_policy ik) = Inr assoc"
    "carries_association (wd_sha w) (job_block j) assoc" "job_id j = new_job_id uuid" "new_job j"
    "dget (job_block j) ''section_id'' = JStr (rr_section x)" "job_status j = REPORTED"
    "job_last_solver_status j = None" "job_last_refusal_reason j = None" "job_updated_at j = Some (job_created_at j)"
    "dget (metadata_of (job_block j)) ''idempotency'' = (case idem of None \<Rightarrow> JNull
       | Some (i, key, fp) \<Rightarrow> JObj (dict_of [(''key'', json_of_str (jq_key q)), (''request_fingerprint'', JStr fp)]))"
proof -
  from assms obtain assoc src loc dup b created where
    a: "select_asset (crd_assets (in_corridor ik)) (crd_id (in_corridor ik)) reg (jq_track q) (rr_section x)
       (jq_start q) (jq_end q) (in_asset_policy ik) = Inr assoc" and
    b: "score_block_candidate (intake_block sv uuid q duration x (aa_asset assoc)
       (intake_metadata (wd_sha w) q assoc src loc dup idem)) (in_corridor ik)
       (map_option severity_value (jq_severity q)) = Inr b" and
    j: "j = intake_job q b created"
    by (rule intake_prepare_Inr)
  note keeps = score_keeps [OF b]
  have block: "job_block j = candidate_to_dict b" by (simp add: j intake_job_def)
  have md: "dget (metadata_of (job_block j)) k = dget (intake_metadata (wd_sha w) q assoc src loc dup idem) k"
    if "k = ''asset_association'' \<or> k = ''idempotency''" for k
    using keeps(5) [of k] that by (auto simp: block metadata_of_candidate intake_block_def)
  have top: "dget (job_block j) ''section_id'' = JStr (rr_section x)"
      "dget (job_block j) ''asset_id'' = JStr (ast_id (aa_asset assoc))"
    using keeps(2,3) by (simp_all add: block candidate_to_dict_def dict_of_def intake_block_def)
  show thesis
    by (rule that [OF a])
      (use top md keeps(1) in \<open>simp_all add: carries_association_def intake_metadata_def dict_of_def j intake_job_def
         intake_block_def new_job_def job_window_def\<close>)
qed

lemma make_event_id:
  "make_event env k (Some i) jid typ act moment reason run b a md = Inr e \<Longrightarrow> i \<noteq> [] \<Longrightarrow> ev_id e = i"
  by (auto simp: make_event_def check_event_iff)

lemma creation_events_Inr:
  assumes "creation_events env j who scorer now cid = Inr events"
  obtains c s where "events = [c, s]" "ev_type c = JOB_CREATED" "ev_type s = JOB_SCORED"
    "ev_job_id c = job_id j" "ev_job_id s = job_id j" "ev_actor c = Live who" "ev_actor s = Live scorer"
    "\<And>i. cid = Some i \<Longrightarrow> i \<noteq> [] \<Longrightarrow> ev_id c = i"
    "dget (ev_metadata c) ''idempotency'' = dget (metadata_of (job_block j)) ''idempotency''"
proof -
  from assms obtain c s where cs: "events = [c, s]"
      "make_event env 0 cid (job_id j) JOB_CREATED (Live who) now None JNull None (Some (snapshot_of j)) (ev_metadata c) = Inr c"
      "ev_type s = JOB_SCORED" "ev_job_id s = job_id j" "ev_actor s = Live scorer"
      "ev_metadata c = dmerge (dict_of (map (\<lambda>k. (k, dget (metadata_of (job_block j)) k))
           (filter (\<lambda>k. dget (metadata_of (job_block j)) k \<noteq> JNull)
             [''asset_association'', ''location_source'', ''field_location'',
              ''duplicate_detection'', ''idempotency''])))
         (dict_of [(''track_id'', JStr (job_track_id j)), (''section_id'', dget (job_block j) ''section_id''),
           (''work_type'', JStr (job_work_type j)), (''distance_start'', JFloat (job_distance_start j)),
           (''distance_end'', JFloat (job_distance_end j)), (''workers_min'', JInt (job_workers_min j)),
           (''workers_max'', JInt (job_workers_max j)), (''description'', JStr (job_description j)),
           (''duration_minutes'', dget (job_block j) ''duration_minutes''),
           (''asset_id'', dget (job_block j) ''asset_id'')])"
    by (auto simp: creation_events_def Let_def bind_res_Inr_iff make_event_Inr)
  note c = make_event_Inr [OF cs(2)]
  have "dget (ev_metadata c) ''idempotency'' = dget (metadata_of (job_block j)) ''idempotency''"
    unfolding cs(6) by (simp add: dget_dmerge dict_of_def)
  moreover have "ev_id c = i" if "cid = Some i" "i \<noteq> []" for i
    using cs(2) that by (auto dest: make_event_id)
  ultimately show thesis using c cs(1,3-5) by (intro that [OF cs(1)]) simp_all
qed


lemma created_row:
  assumes "created_by sv ik w uuid q who d j events reg x" "create d j events = Inr d'"
  shows "get d (job_id j) = None" "get d' (job_id j) = Some j" "db_rows d' = db_rows d @ [j]"
    "db_events d' = db_events d @ events" "db_step d d'" "the (get d' (job_id j)) = j"
proof -
  from assms(1) obtain idem duration where
    p: "intake_prepare sv ik w uuid q who idem duration reg x d = Inr (j, events)"
    by (auto simp: created_by_def)
  obtain n: "new_job j" and f: "job_last_solver_status j = None" "job_last_refusal_reason j = None"
      "job_updated_at j = Some (job_created_at j)"
    by (rule prepared_job [OF p]) blast
  have row: "j\<lparr>job_updated_at := (case job_updated_at j of None \<Rightarrow> Some (job_created_at j) | Some u \<Rightarrow> Some u),
      job_last_solver_status := None, job_last_refusal_reason := None\<rparr> = j"
    using f by (cases j) simp
  from assms(2) have c: "get d (job_id j) = None" "db_rows d' = db_rows d @ [j]"
      "append_events (db_events d) events = Inr (db_events d')"
    by (auto simp: create_def Let_def bind_res_Inr_iff row split: if_splits)
  then show "get d (job_id j) = None" "db_rows d' = db_rows d @ [j]" "db_events d' = db_events d @ events"
    using append_events_Inr(1) by blast+
  show g: "get d' (job_id j) = Some j" using c(1,2) by (simp add: get_def get_row_snoc)
  show "db_step d d'" by (rule db_step.creates [OF n assms(2)])
  show "the (get d' (job_id j)) = j" using g by simp
qed

text \<open>Reporting is one write or none. Whatever the request, the policy, the table and the moment,
  a call either leaves rows and history exactly as they were, and then answers with an error or with a
  replayed job, or it is one creating step of the repository: it answers with a job whose id was free
  and which now is stored.\<close>

theorem intake_one_write_or_none:
  "case create_job_with_outcome sv ik w uuid q a d of
     (Inl e, d') \<Rightarrow> d' = d
   | (Inr (j, replayed), d') \<Rightarrow>
       if replayed then d' = d
       else db_step d d' \<and> get d (job_id j) = None \<and> get d' (job_id j) = Some j"
proof -
  obtain r d' where run: "create_job_with_outcome sv ik w uuid q a d = (r, d')" by fastforce
  then show ?thesis
  proof (cases rule: create_job_cases)
    case (created j events reg x)
    then show ?thesis using created_row [OF created(1,2)] run by simp
  next
    case idle
    then show ?thesis using run by (auto simp: idle_outcome_def split: sum.splits)
  qed
qed

lemma intake_place_Inr:
  assumes "intake_place ik q = Inr (duration, reg, x)"
  shows "in_registry ik = Some reg" "resolve_job_resource reg (jq_track q) (jq_start q) (jq_end q) = Inr x"
    "jq_track q \<in> trk_id ` set (crd_tracks (in_corridor ik))"
    "jq_corridor q = None \<or> jq_corridor q = Some (crd_id (in_corridor ik))"
  using assms by (auto simp: intake_place_def split: if_splits option.splits sum.splits)

text \<open>C23: A newly reported job is stored where the reporter may report. The row is appended, reported and
  without a window, with exactly the two events of its creation; its section is one section of the
  registry that contains both ends of the declared span and serves the declared track, and the policy
  permitted this reporter to report in that section of this corridor.\<close>

theorem reported_job_in_scope:
  assumes "create_job_with_outcome sv ik w uuid q a d = (Inr (j, False), d')"
    and "in_registry ik = Some reg" "make_registry c ss = Inr reg"
  shows "\<exists>made scored s. db_rows d' = db_rows d @ [j] \<and> db_events d' = db_events d @ [made, scored] \<and>
    ev_type made = JOB_CREATED \<and> ev_type scored = JOB_SCORED \<and> ev_job_id made = job_id j \<and>
    ev_job_id scored = job_id j \<and> ev_actor made = Live (resolve_actor a) \<and>
    job_status j = REPORTED \<and> job_window j = (None, None) \<and>
    s \<in> set (reg_by_id reg) \<and> jq_track q \<in> set (sec_track_ids s) \<and>
    in_section reg (jq_start q / 1000) s \<and> in_section reg (jq_end q / 1000) s \<and>
    dget (job_block j) ''section_id'' = JStr (sec_id s) \<and>
    authorize_resource sv (resolve_actor a) REPORT_JOB
      \<lparr>loc_corridor = Some (crd_id (in_corridor ik)), loc_section = Some (sec_id s)\<rparr> = Inr ()"
  using assms(1)
proof (cases rule: create_job_cases)
  case (created j0 events reg0 x)
  note row = created_row [OF created(1,2)]
  from created(1) obtain idem duration where
    place: "intake_place ik q = Inr (duration, reg0, x)" and
    auth: "authorize_resource sv (resolve_actor a) REPORT_JOB
      \<lparr>loc_corridor = Some (crd_id (in_corridor ik)), loc_section = Some (rr_section x)\<rparr> = Inr ()" and
    p: "intake_prepare sv ik w uuid q (resolve_actor a) idem duration reg0 x d = Inr (j0, events)"
    by (auto simp: created_by_def)
  have j: "j0 = j" using created(3) row(6) by simp
  have reg: "reg0 = reg" using intake_place_Inr(1) [OF place] assms(2) by simp
  note ok = make_registry_ok [OF assms(3)]
  obtain s where s: "s \<in> set (reg_by_id reg)" "x = \<lparr>rr_track = jq_track q, rr_section = sec_id s\<rparr>"
      "jq_track q \<in> set (sec_track_ids s)" "in_section reg (jq_start q / 1000) s" "in_section reg (jq_end q / 1000) s"
    using resolve_job_resource_Inr [OF intake_place_Inr(2) [OF place], unfolded reg] ok by blast
  obtain n: "new_job j" and sec: "dget (job_block j) ''section_id'' = JStr (rr_section x)"
    by (rule prepared_job [OF p]) (simp add: j)
  obtain created where "creation_events (wd_env w) j (resolve_actor a) SCORER created (map_option fst idem) = Inr events"
    by (rule intake_prepare_Inr [OF p]) (simp add: j)
  then obtain made scored where e: "events = [made, scored]" "ev_type made = JOB_CREATED" "ev_type scored = JOB_SCORED"
      "ev_job_id made = job_id j" "ev_job_id scored = job_id j" "ev_actor made = Live (resolve_actor a)"
    by (rule creation_events_Inr)
  show ?thesis
    by (intro exI [of _ made] exI [of _ scored] exI [of _ s])
      (use row e s sec auth n in \<open>simp add: j new_job_def\<close>)
next
  case idle
  then show ?thesis by (simp add: idle_outcome_def)
qed


section \<open>One job per key\<close>

lemma get_by_event_id_stored:
  assumes "get_by_event_id events i = Inr (Some s)"
  shows "\<exists>e \<in> set events. ev_id e = i \<and> row_to_event e = Inr (sj_event s)"
proof -
  let ?hits = "filter (\<lambda>(n, e). ev_id e = i) (enumerate 1 events)"
  from assms obtain all where all: "map_res stored_of ?hits = Inr all" "(case all of [] \<Rightarrow> None | s # _ \<Rightarrow> Some s) = Some s"
    by (simp only: get_by_event_id_def select_events_def bind_res_Inr_iff) blast
  then obtain ss where ss: "map_res stored_of ?hits = Inr (s # ss)" by (cases all) auto
  then obtain p ps where p: "filter (\<lambda>(n, e). ev_id e = i) (enumerate 1 events) = p # ps" "stored_of p = Inr s"
    by (auto simp: map_res_Inr_iff list_all2_Cons2)
  then have "p \<in> set (filter (\<lambda>(n, e). ev_id e = i) (enumerate 1 events))" by simp
  then obtain n e where "p = (n, e)" "e \<in> set events" "ev_id e = i"
    by (auto simp: in_set_enumerate_eq)
  with p(2) show ?thesis by (auto simp: stored_of_def bind_res_Inr_iff)
qed

lemma get_by_event_id_present:
  assumes "e \<in> set events" "ev_id e = i" "get_by_event_id events i = Inr m"
  shows "\<exists>s. m = Some s"
proof -
  obtain n where n: "(n, e) \<in> set (enumerate 1 events)"
    using assms(1) by (metis in_set_conv_nth in_set_enumerate_eq le_add1 add_diff_cancel_left' add_less_cancel_left
        fst_conv snd_conv length_enumerate nth_enumerate_eq)
  let ?hits = "filter (\<lambda>(n, e). ev_id e = i) (enumerate 1 events)"
  have ne: "?hits \<noteq> []" using n assms(2) by (force simp: filter_empty_conv)
  from assms(3) obtain all where all: "map_res stored_of ?hits = Inr all" "m = (case all of [] \<Rightarrow> None | s # _ \<Rightarrow> Some s)"
    by (simp only: get_by_event_id_def select_events_def bind_res_Inr_iff) blast
  then show ?thesis using ne by (cases all) (auto simp: map_res_Inr_iff)
qed

text \<open>A key is spent on a job when the event its id names is that job's.\<close>

definition spent_on :: "string \<Rightarrow> string \<Rightarrow> db \<Rightarrow> bool" where
  "spent_on i jid d \<longleftrightarrow> (\<exists>e \<in> set (db_events d). ev_id e = i \<and> ev_job_id e = jid)"

lemma spent_later: "spent_on i jid d \<Longrightarrow> db_step\<^sup>*\<^sup>* d d' \<Longrightarrow> spent_on i jid d'"
  using job_history.entries_kept [of d d'] by (auto simp: spent_on_def)

lemma replay_of_spent:
  assumes "spent_on i jid d" "ids_distinct d" "idempotent_replay d (i, key, fp) = Inr m"
  shows "\<exists>j. m = Some j \<and> job_id j = jid \<and> get d jid = Some j"
proof -
  from assms(1) obtain e where e: "e \<in> set (db_events d)" "ev_id e = i" "ev_job_id e = jid"
    by (auto simp: spent_on_def)
  from assms(3) obtain o' where o': "get_by_event_id (db_events d) i = Inr o'"
    by (auto simp: idempotent_replay_def bind_res_Inr_iff)
  with get_by_event_id_present [OF e(1,2)] obtain s where s: "o' = Some s" by blast
  from get_by_event_id_stored [OF o' [unfolded s]] obtain e' where
    e': "e' \<in> set (db_events d)" "ev_id e' = i" "row_to_event e' = Inr (sj_event s)" by blast
  have "e' = e" using e(1,2) e'(1,2) assms(2) by (auto simp: ids_distinct_def distinct_map dest: inj_onD)
  then have "ev_job_id (sj_event s) = jid" using row_to_event_fields(2) [OF e'(3)] e(3) by simp
  with assms(3) o' s show ?thesis
    by (cases "get d jid") (auto simp: idempotent_replay_def Let_def dest: get_Some [OF sym] split: if_splits)
qed

lemma idempotency_identity_Inr:
  assumes "idempotency_identity sha q who = Inr (Some k)"
  obtains key where "jq_key q = Some key" "k = (idempotency_event_id sha (actor_id who) key, key,
    request_fingerprint sha (request_payload q))"
  using assms by (auto simp: idempotency_identity_def split: option.splits if_splits)

lemma created_spends:
  assumes "created_by sv ik w uuid q who d j events reg x" "create d j events = Inr d'" "jq_key q = Some key"
  shows "spent_on (idempotency_event_id (wd_sha w) (actor_id who) key) (job_id j) d'"
proof -
  let ?i = "idempotency_event_id (wd_sha w) (actor_id who) key"
  from assms(1) obtain idem duration where idem: "idempotency_identity (wd_sha w) q who = Inr idem" and
    p: "intake_prepare sv ik w uuid q who idem duration reg x d = Inr (j, events)"
    by (auto simp: created_by_def)
  from idem assms(3) have i: "map_option fst idem = Some ?i"
    by (auto simp: idempotency_identity_def split: if_splits)
  have ne: "?i \<noteq> []" by (simp add: idempotency_event_id_def IDEMPOTENCY_EVENT_PREFIX_def)
  obtain created where "creation_events (wd_env w) j who SCORER created (Some ?i) = Inr events"
    by (rule intake_prepare_Inr [OF p]) (simp add: i)
  then obtain c s where "events = [c, s]" "ev_job_id c = job_id j" "ev_id c = ?i"
    by (rule creation_events_Inr) (simp add: ne)
  then show ?thesis using created_row(4) [OF assms(1,2)] by (auto simp: spent_on_def)
qed

lemma replayed_spent:
  assumes "replayed_for w q who d j" "jq_key q = Some key"
  shows "spent_on (idempotency_event_id (wd_sha w) (actor_id who) key) (job_id j) d"
proof -
  from assms(1) obtain k where k: "idempotency_identity (wd_sha w) q who = Inr (Some k)" "idempotent_replay d k = Inr (Some j)"
    by (auto simp: replayed_for_def)
  let ?i = "idempotency_event_id (wd_sha w) (actor_id who) key"
  from k(1) assms(2) obtain fp where k': "k = (?i, key, fp)"
    by (auto elim!: idempotency_identity_Inr)
  from k(2) k' obtain s where s: "get_by_event_id (db_events d) ?i = Inr (Some s)" "get d (ev_job_id (sj_event s)) = Some j"
    by (auto simp: idempotent_replay_def bind_res_Inr_iff Let_def split: option.splits if_splits)
  from get_by_event_id_stored [OF s(1)] obtain e where
    "e \<in> set (db_events d)" "ev_id e = ?i" "row_to_event e = Inr (sj_event s)" by blast
  then show ?thesis using row_to_event_fields(2) get_Some [OF s(2)] by (force simp: spent_on_def)
qed

lemma keyed_call_spends:
  assumes "create_job_with_outcome sv ik w uuid q a d = (Inr (j, b), d')" "jq_key q = Some key"
  shows "spent_on (idempotency_event_id (wd_sha w) (actor_id (resolve_actor a)) key) (job_id j) d' \<and> db_step\<^sup>*\<^sup>* d d'"
  using assms(1)
proof (cases rule: create_job_cases)
  case (created j0 events reg x)
  note row = created_row [OF created(1,2)]
  then show ?thesis using created_spends [OF created(1,2) assms(2)] created(3) by auto
next
  case idle
  then have "d' = d" by (simp add: idle_outcome_def)
  with replayed_spent [OF idle(2) [OF refl] assms(2)] show ?thesis by simp
qed

text \<open>C22: One job per key, for ever. After a report with an idempotency key has been answered, and whatever
  calls have changed the database since, the same actor reporting again under that key - with any
  request, from any service instance, at any time - creates nothing and changes nothing: it is refused,
  or it is answered with the very job of the first answer as it is now.\<close>

theorem intake_idempotent:
  assumes "ids_distinct d" "create_job_with_outcome sv ik w uuid q a d = (Inr (j, b), d')" "jq_key q = Some key"
    and "db_step\<^sup>*\<^sup>* d' d''"
    and "actor_id (resolve_actor a') = actor_id (resolve_actor a)" "jq_key q' = Some key" "wd_sha w' = wd_sha w"
  shows "\<exists>r. create_job_with_outcome sv' ik' w' uuid' q' a' d'' = (r, d'') \<and>
    (case r of Inl e \<Rightarrow> True | Inr (j', replayed) \<Rightarrow> replayed \<and> job_id j' = job_id j \<and> get d'' (job_id j) = Some j')"
proof -
  let ?i = "idempotency_event_id (wd_sha w) (actor_id (resolve_actor a)) key"
  from keyed_call_spends [OF assms(2,3)] assms(4)
  have spent: "spent_on ?i (job_id j) d''" and steps: "db_step\<^sup>*\<^sup>* d d''"
    by (auto intro: spent_later)
  have ids: "ids_distinct d''" by (rule ids.run_keeps [OF steps assms(1)])
  obtain r d3 where run: "create_job_with_outcome sv' ik' w' uuid' q' a' d'' = (r, d3)" by fastforce
  then show ?thesis
  proof (cases rule: create_job_cases)
    case (created j2 events reg x)
    then obtain idem where idem: "idempotency_identity (wd_sha w') q' (resolve_actor a') = Inr idem"
        "case idem of None \<Rightarrow> True | Some k \<Rightarrow> idempotent_replay d'' k = Inr None"
      by (auto simp: created_by_def)
    then obtain fp where "idem = Some (?i, key, fp)"
      using assms(5-7) by (auto simp: idempotency_identity_def split: if_splits)
    with idem(2) replay_of_spent [OF spent ids] show ?thesis by fastforce
  next
    case idle
    show ?thesis
    proof (cases r)
      case (Inr p)
      obtain j2 b2 where p: "r = Inr (j2, b2)" using Inr by (cases p) auto
      from idle(2) [OF p] obtain k where
        k: "idempotency_identity (wd_sha w') q' (resolve_actor a') = Inr (Some k)" "idempotent_replay d'' k = Inr (Some j2)"
        by (auto simp: replayed_for_def)
      then obtain fp where "k = (?i, key, fp)"
        using assms(5-7) by (auto elim!: idempotency_identity_Inr)
      with k(2) replay_of_spent [OF spent ids] have "job_id j2 = job_id j" "get d'' (job_id j) = Some j2" by fastforce+
      with run idle(1) p show ?thesis by (simp add: idle_outcome_def)
    qed (use run idle(1) in \<open>simp add: idle_outcome_def\<close>)
  qed
qed

text \<open>What intake records about its asset can be trusted afterwards. Where the corridor's assets have
  distinct ids, the job just reported names an asset of its own track within the policy's distance, and
  the integrity check of the asset reference finds nothing wrong with it.\<close>

theorem reported_asset_trusted:
  assumes "create_job_with_outcome sv ik w uuid q a d = (Inr (j, False), d')"
    and "distinct (map ast_id (crd_assets (in_corridor ik)))" "wd_sha w' = wd_sha w"
  shows "asset_problem w' ik j = None \<and>
    (\<exists>x \<in> set (crd_assets (in_corridor ik)). dget (job_block j) ''asset_id'' = JStr (ast_id x) \<and>
       ast_track x = jq_track q \<and> span_distance (jq_start q / 1000) (jq_end q / 1000) x \<le> ap_max_km (in_asset_policy ik))"
  using assms(1)
proof (cases rule: create_job_cases)
  case (created j0 events reg x)
  have j: "j0 = j" using created(3) created_row(6) [OF created(1,2)] by simp
  from created(1) obtain idem duration where
    p: "intake_prepare sv ik w uuid q (resolve_actor a) idem duration reg x d = Inr (j, events)"
    by (auto simp: created_by_def j)
  obtain assoc where sel: "select_asset (crd_assets (in_corridor ik)) (crd_id (in_corridor ik)) reg (jq_track q)
       (rr_section x) (jq_start q) (jq_end q) (in_asset_policy ik) = Inr assoc" and
    c: "carries_association (wd_sha w) (job_block j) assoc"
    by (rule prepared_job [OF p])
  note s = select_asset_Inr [OF sel]
  have as: "aa_asset assoc \<in> set (crd_assets (in_corridor ik))" "ast_track (aa_asset assoc) = jq_track q"
      "ast_id (aa_asset assoc) \<noteq> []"
      "span_distance (jq_start q / 1000) (jq_end q / 1000) (aa_asset assoc) \<le> ap_max_km (in_asset_policy ik)"
    using s(1) by (auto simp: asset_candidates_def usable_asset_def admissible_def)
  have "distinct (crd_assets (in_corridor ik))" using assms(2) by (simp add: distinct_map)
  then have one: "filter (\<lambda>y. ast_id y = ast_id (aa_asset assoc)) (crd_assets (in_corridor ik)) = [aa_asset assoc]"
    using as(1) assms(2) by (intro filter_single) (auto simp: distinct_map dest: inj_onD)
  have "asset_problem w' ik j = None"
    using as(3) s(3) one
    by (simp add: asset_problem_def verify_job_asset_reference_def reference_read_back [OF c] assms(3)
        verify_asset_reference_def)
  with as c show ?thesis by (auto simp: carries_association_def)
next
  case idle
  then show ?thesis by (simp add: idle_outcome_def)
qed


section \<open>A report in scope is accepted\<close>

lemma creation_events_made:
  assumes "matches_event_timestamp now" "job_id j \<noteq> []" "fresh env 1 \<noteq> []"
    and "i = (case cid of None \<Rightarrow> fresh env 0 | Some k \<Rightarrow> k)" "i \<noteq> []"
  shows "\<exists>c s. creation_events env j who scorer now cid = Inr [c, s] \<and> ev_id c = i \<and> ev_id s = fresh env 1 \<and>
    ev_actor c = Live who \<and> ev_actor s = Live scorer"
  using assms timestamp_nonempty [of now]
  by (auto simp: creation_events_def Let_def make_event_def check_event_def split: option.splits)

lemma unused_key: "i \<notin> ev_id ` set (db_events d) \<Longrightarrow> idempotent_replay d (i, key, fp) = Inr None"
proof -
  assume "i \<notin> ev_id ` set (db_events d)"
  then have "filter (\<lambda>(n, e). ev_id e = i) (enumerate 1 (db_events d)) = []"
    by (auto simp: filter_empty_conv in_set_enumerate_eq)
  then show ?thesis by (simp add: idempotent_replay_def get_by_event_id_def select_events_def)
qed

lemma prepare_succeeds:
  assumes place: "intake_place ik q = Inr (duration, reg, x)"
    and loc: "intake_location reg q x = Inr l"
    and asset: "asset_candidates (crd_assets (in_corridor ik)) reg (jq_track q) (rr_section x)
      (jq_start q / 1000) (jq_end q / 1000) (in_asset_policy ik) \<noteq> []"
    and world: "dt_offset (wd_now w) \<noteq> None" "in_range (instant (wd_now w))" "fresh (wd_env w) 1 \<noteq> []"
    and i: "i = (case idem of None \<Rightarrow> fresh (wd_env w) 0 | Some k \<Rightarrow> fst k)" "i \<noteq> []"
  shows "\<exists>j c s. intake_prepare sv ik w uuid q who idem duration reg x d = Inr (j, [c, s]) \<and>
    ev_id c = i \<and> ev_id s = fresh (wd_env w) 1 \<and> ev_actor c = Live who \<and> ev_actor s = Live SCORER"
proof -
  obtain assoc where assoc: "select_asset (crd_assets (in_corridor ik)) (crd_id (in_corridor ik)) reg (jq_track q)
      (rr_section x) (jq_start q) (jq_end q) (in_asset_policy ik) = Inr assoc"
    using select_asset_total [OF asset] by blast
  let ?now = "isoformat_utc (instant (wd_now w))"
  have t: "event_timestamp (wd_now w) = Inr ?now" "matches_event_timestamp ?now"
    using event_timestamp_ok [OF world(2,1)] isoformat_template [OF world(2)] by simp_all
  obtain moment where m: "parse_created_at ?now = Some moment"
    using canonical_fromisoformat [OF event_timestamp_canonical [OF t(1)]] by (simp add: parse_created_at_def)
  obtain src loc' where l: "l = (src, loc')" by (cases l)
  let ?probe = "\<lparr>pb_track = rr_track x, pb_section = rr_section x, pb_asset = ast_id (aa_asset assoc),
    pb_work_type = job_type_value (jq_type q), pb_start = jq_start q, pb_end = jq_end q,
    pb_created = parse_created_at ?now\<rparr>"
  obtain dup where dup: "find_duplicate_candidates ?probe (list_active d) (in_duplicate_policy ik) (asset_problem w ik) = Inr dup"
    using duplicate_rule [of ?probe moment "list_active d" "in_duplicate_policy ik" "asset_problem w ik"] m
    by fastforce
  let ?b = "intake_block sv uuid q duration x (aa_asset assoc) (intake_metadata (wd_sha w) q assoc src loc' dup idem)"
  have track: "rr_track x = jq_track q"
    using intake_place_Inr(2) [OF place] by (auto simp: resolve_job_resource_def bind_res_Inr_iff split: if_splits)
  obtain tr where tr: "tr \<in> set (crd_tracks (in_corridor ik))" "jq_track q = trk_id tr"
    using intake_place_Inr(3) [OF place] by auto
  have dur: "0 \<le> duration"
    using place by (auto simp: intake_place_def WORK_TYPE_DEFAULT_DURATIONS_def split: if_splits option.splits sum.splits)
  have "aa_asset assoc \<in> set (crd_assets (in_corridor ik))"
    using select_asset_Inr(1) [OF assoc] by (simp add: asset_candidates_def)
  from candidate_scored [OF this _ tr(1), of ?b "map_option severity_value (jq_severity q)"] tr(2) track dur
  obtain b where b: "score_block_candidate ?b (in_corridor ik) (map_option severity_value (jq_severity q)) = Inr b"
    by (auto simp: intake_block_def)
  have "job_id (intake_job q b ?now) = new_job_id uuid"
    using score_keeps(1) [OF b] by (simp add: intake_job_def intake_block_def)
  then have ne: "job_id (intake_job q b ?now) \<noteq> []" by (simp add: new_job_id_def)
  have ii: "i = (case map_option fst idem of None \<Rightarrow> fresh (wd_env w) 0 | Some k \<Rightarrow> k)"
    using i(1) by (cases idem) auto
  from creation_events_made [OF t(2) ne world(3) ii i(2), of who SCORER]
  obtain c s where cs: "creation_events (wd_env w) (intake_job q b ?now) who SCORER ?now (map_option fst idem) = Inr [c, s]"
    "ev_id c = i" "ev_id s = fresh (wd_env w) 1" "ev_actor c = Live who" "ev_actor s = Live SCORER" by blast
  show ?thesis
    by (intro exI [of _ "intake_job q b ?now"] exI [of _ c] exI [of _ s])
      (simp add: intake_prepare_def loc l assoc t(1) dup b cs)
qed

lemma accepted_report:
  assumes asked: "ask sv (resolve_actor a) REPORT_JOB = Inr ()"
    and idem: "idempotency_identity (wd_sha w) q (resolve_actor a) = Inr idem"
    and place: "intake_place ik q = Inr (duration, reg, x)"
    and auth: "authorize_resource sv (resolve_actor a) REPORT_JOB
      \<lparr>loc_corridor = Some (crd_id (in_corridor ik)), loc_section = Some (rr_section x)\<rparr> = Inr ()"
    and loc: "intake_location reg q x = Inr l"
    and asset: "asset_candidates (crd_assets (in_corridor ik)) reg (jq_track q) (rr_section x)
      (jq_start q / 1000) (jq_end q / 1000) (in_asset_policy ik) \<noteq> []"
    and world: "dt_offset (wd_now w) \<noteq> None" "in_range (instant (wd_now w))"
    and free: "get d (new_job_id uuid) = None" "[] \<notin> {i, fresh (wd_env w) 1}" "i \<noteq> fresh (wd_env w) 1"
      "{i, fresh (wd_env w) 1} \<inter> ev_id ` set (db_events d) = {}"
      "i = (case idem of None \<Rightarrow> fresh (wd_env w) 0 | Some k \<Rightarrow> fst k)"
  shows "\<exists>j d'. create_job_with_outcome sv ik w uuid q a d = (Inr (j, False), d') \<and> job_id j = new_job_id uuid"
proof -
  have ne: "i \<noteq> []" "fresh (wd_env w) 1 \<noteq> []" using free(2) by auto
  from prepare_succeeds [OF place loc asset world ne(2) free(5) ne(1), of sv uuid "resolve_actor a" d] obtain j c s where
    p: "intake_prepare sv ik w uuid q (resolve_actor a) idem duration reg x d = Inr (j, [c, s])"
      "ev_id c = i" "ev_id s = fresh (wd_env w) 1" "ev_actor c = Live (resolve_actor a)" "ev_actor s = Live SCORER"
    by blast
  obtain n: "new_job j" and jid: "job_id j = new_job_id uuid" by (rule prepared_job [OF p(1)])
  have "append_events (db_events d) [c, s] = Inr (db_events d @ [c, s])"
    using free p by (intro append_events_fresh) auto
  then obtain d' where d': "create d j [c, s] = Inr d'" using free(1) jid by (simp add: create_def)
  have replay: "(case idem of None \<Rightarrow> Inr None | Some k \<Rightarrow> idempotent_replay d k) = Inr None"
    using free(4,5) unused_key by (auto split: option.splits)
  have mk: "created_by sv ik w uuid q (resolve_actor a) d j [c, s] reg x"
    using asked idem replay place auth p(1) unfolding created_by_def
    by (intro exI [of _ idem] exI [of _ duration]) (auto split: option.splits)
  have "create_job_with_outcome sv ik w uuid q a d = (Inr (j, False), d')"
    using asked idem replay place auth p(1) d' created_row(6) [OF mk d']
    by (simp add: create_job_with_outcome_def intake_write_def)
  with jid show ?thesis by blast
qed


text \<open>C26: A report in scope is accepted. If the reporter may report in the section the span resolves to, the
  location it gives in other words agrees, and an asset of the track lies within the policy's distance,
  then - on a key not used before, with a clock and fresh ids - the job is created.\<close>

theorem report_in_scope_accepted:
  assumes "ask sv (resolve_actor a) REPORT_JOB = Inr ()"
    and "idempotency_identity (wd_sha w) q (resolve_actor a) = Inr idem"
    and "intake_place ik q = Inr (duration, reg, x)"
    and "authorize_resource sv (resolve_actor a) REPORT_JOB
      \<lparr>loc_corridor = Some (crd_id (in_corridor ik)), loc_section = Some (rr_section x)\<rparr> = Inr ()"
    and "intake_location reg q x = Inr l"
    and "asset_candidates (crd_assets (in_corridor ik)) reg (jq_track q) (rr_section x)
      (jq_start q / 1000) (jq_end q / 1000) (in_asset_policy ik) \<noteq> []"
    and "dt_offset (wd_now w) \<noteq> None" "in_range (instant (wd_now w))"
    and "get d (new_job_id uuid) = None" "[] \<notin> {i, fresh (wd_env w) 1}" "i \<noteq> fresh (wd_env w) 1"
      "{i, fresh (wd_env w) 1} \<inter> ev_id ` set (db_events d) = {}"
      "i = (case idem of None \<Rightarrow> fresh (wd_env w) 0 | Some k \<Rightarrow> fst k)"
  shows "\<exists>j d'. create_job_with_outcome sv ik w uuid q a d = (Inr (j, False), d') \<and> job_id j = new_job_id uuid"
  using assms by (rule accepted_report)

section \<open>A report\<close>

definition open_service :: service where
  "open_service = \<lparr>sv_policy = unenforced_policy, sv_corridor = ''C'', sv_horizon = 1440, sv_budget = 1000,
     sv_sla = ASSUMED_DEMO_SLA_POLICY, sv_runs = []\<rparr>"

definition ex_intake :: intake where
  "ex_intake = \<lparr>in_corridor = \<lparr>crd_id = ''C'', crd_name = ''C'', crd_tracks = [scored_track], crd_assets = [scored_asset]\<rparr>,
     in_registry = Some ex_registry, in_asset_policy = \<lparr>ap_max_km = 20, ap_same_section = False\<rparr>,
     in_duplicate_policy = \<lparr>dp_max_gap = 500, dp_window = DEFAULT_DUPLICATE_WINDOW\<rparr>\<rparr>"

definition ex_report :: job_request where
  "ex_report = \<lparr>jq_track = ''UP-1'', jq_type = OHE_MAINTENANCE, jq_start = 7400, jq_end = 7600, jq_workers_min = 2,
     jq_workers_max = 4, jq_description = ''sagging'', jq_severity = Some Sev_Moderate, jq_evidence = None,
     jq_corridor = None,
     jq_field_location = Some \<lparr>fl_from = ''NZM'', fl_toward = ''FDB'', fl_start = 400, fl_end = 600\<rparr>,
     jq_key = Some ''K-1''\<rparr>"

definition report_world :: world where
  "report_world = \<lparr>wd_now = run_moment, wd_env = run_env ''W'', wd_sha = run_sha, wd_hex = run_hex,
     wd_execution = run_execution, wd_say = (\<lambda>_. ''refused'')\<rparr>"

lemma ex_report_valid: "valid_job_request ex_report"
  by code_simp

lemma ex_event_id: "idempotency_event_id run_sha ''w-1'' ''K-1'' = ''EVT-IDEM-DIGEST''"
  by code_simp

definition ex_resource :: resolved_resource where
  "ex_resource = \<lparr>rr_track = ''UP-1'', rr_section = ''NZM-FDB''\<rparr>"

lemma ex_report_facts:
  "ask open_service (resolve_actor (Some run_worker)) REPORT_JOB = Inr ()"
  "idempotency_identity (wd_sha report_world) ex_report (resolve_actor (Some run_worker)) =
     Inr (Some (''EVT-IDEM-DIGEST'', ''K-1'', ''digest''))"
  "intake_place ex_intake ex_report = Inr (90, ex_registry, ex_resource)"
  "authorize_resource open_service (resolve_actor (Some run_worker)) REPORT_JOB place = Inr ()"
  "\<exists>l. intake_location ex_registry ex_report ex_resource = Inr l"
  "asset_candidates (crd_assets (in_corridor ex_intake)) ex_registry (jq_track ex_report) (rr_section ex_resource)
     (jq_start ex_report / 1000) (jq_end ex_report / 1000) (in_asset_policy ex_intake) \<noteq> []"
proof -
  show "ask open_service (resolve_actor (Some run_worker)) REPORT_JOB = Inr ()"
    by (simp add: open_service_def unenforced_policy_def)
  show "idempotency_identity (wd_sha report_world) ex_report (resolve_actor (Some run_worker)) =
      Inr (Some (''EVT-IDEM-DIGEST'', ''K-1'', ''digest''))"
    using ex_event_id by (simp add: idempotency_identity_def report_world_def ex_report_def run_worker_def
        resolve_actor_def request_fingerprint_def) (simp add: run_sha_def)
  show "intake_place ex_intake ex_report = Inr (90, ex_registry, ex_resource)"
    by (simp add: intake_place_def ex_intake_def ex_report_def scored_track_def WORK_TYPE_DEFAULT_DURATIONS_def
        ex_section_lookup(1) ex_resource_def)
  show "authorize_resource open_service (resolve_actor (Some run_worker)) REPORT_JOB place = Inr ()"
    by (simp add: authorize_resource_def open_service_def unenforced_policy_def)
  show "\<exists>l. intake_location ex_registry ex_report ex_resource = Inr l"
    by (simp add: intake_location_def ex_report_def ex_section_lookup(2) assert_matches_declared_def
        LOCATION_MATCH_TOLERANCE_M_def ex_resource_def)
  show "asset_candidates (crd_assets (in_corridor ex_intake)) ex_registry (jq_track ex_report) (rr_section ex_resource)
      (jq_start ex_report / 1000) (jq_end ex_report / 1000) (in_asset_policy ex_intake) \<noteq> []"
    by (simp add: asset_candidates_def ex_intake_def ex_report_def scored_asset_def usable_asset_def
        admissible_def span_distance_def round_digits_def py_round_def Let_def)
qed

lemma report_world_facts:
  "dt_offset (wd_now report_world) \<noteq> None" "in_range (instant (wd_now report_world))"
  "fresh (wd_env report_world) (Suc 0) = ''Wxx''"
  unfolding report_world_def by code_simp+

lemma empty_db_free:
  "get empty_db i = None" "X \<inter> ev_id ` set (db_events empty_db) = {}" "ids_distinct empty_db"
  by (simp_all add: empty_db_def get_def get_row_def ids_distinct_def)

lemma report_in_scope_accepted_witness:
  "\<exists>j d'. create_job_with_outcome open_service ex_intake report_world ''0123456789abcdef'' ex_report
     (Some run_worker) empty_db = (Inr (j, False), d') \<and> job_id j = new_job_id ''0123456789abcdef''"
proof -
  obtain l where l: "intake_location ex_registry ex_report ex_resource = Inr l" using ex_report_facts(5) by blast
  show ?thesis
    by (rule report_in_scope_accepted [OF ex_report_facts(1-4) l ex_report_facts(6) report_world_facts(1,2)
        empty_db_free(1), where i = "''EVT-IDEM-DIGEST''"])
      (simp_all add: report_world_facts(3) empty_db_free(2))
qed

lemma ex_report_created:
  obtains j d' where "create_job_with_outcome open_service ex_intake report_world ''0123456789abcdef'' ex_report
      (Some run_worker) empty_db = (Inr (j, False), d')"
proof -
  obtain l where l: "intake_location ex_registry ex_report ex_resource = Inr l" using ex_report_facts(5) by blast
  have "\<exists>j d'. create_job_with_outcome open_service ex_intake report_world ''0123456789abcdef'' ex_report
      (Some run_worker) empty_db = (Inr (j, False), d') \<and> job_id j = new_job_id ''0123456789abcdef''"
    by (rule accepted_report [OF ex_report_facts(1-4) l ex_report_facts(6) report_world_facts(1,2)
        empty_db_free(1), where i = "''EVT-IDEM-DIGEST''"])
      (simp_all add: report_world_facts(3) empty_db_free(2))
  with that show thesis by blast
qed

lemma ex_registry_sections: "\<exists>ss. make_registry ''C'' ss = Inr ex_registry"
  using ex_registry_made by (auto simp: from_stations_def Let_def bind_res_Inr_iff split: if_splits)

lemma reported_job_in_scope_witness:
  "\<exists>j d'. create_job_with_outcome open_service ex_intake report_world ''0123456789abcdef'' ex_report
     (Some run_worker) empty_db = (Inr (j, False), d') \<and> db_rows d' = [j] \<and> job_status j = REPORTED"
proof -
  obtain j d' where run: "create_job_with_outcome open_service ex_intake report_world ''0123456789abcdef'' ex_report
      (Some run_worker) empty_db = (Inr (j, False), d')" by (rule ex_report_created)
  obtain ss where "make_registry ''C'' ss = Inr ex_registry" using ex_registry_sections by blast
  from reported_job_in_scope [OF run _ this] have "db_rows d' = db_rows empty_db @ [j]" "job_status j = REPORTED"
    by (auto simp: ex_intake_def)
  with run show ?thesis by (auto simp: empty_db_def)
qed

lemma intake_idempotent_witness:
  "\<exists>j d' r. create_job_with_outcome open_service ex_intake report_world ''0123456789abcdef'' ex_report
       (Some run_worker) empty_db = (Inr (j, False), d') \<and>
     create_job_with_outcome open_service ex_intake report_world ''fedcba9876543210'' ex_report
       (Some run_worker) d' = (r, d')"
proof -
  obtain j d' where run: "create_job_with_outcome open_service ex_intake report_world ''0123456789abcdef'' ex_report
      (Some run_worker) empty_db = (Inr (j, False), d')" by (rule ex_report_created)
  have key: "jq_key ex_report = Some ''K-1''" by (simp add: ex_report_def)
  from intake_idempotent [OF empty_db_free(3) run key rtranclp.rtrancl_refl refl key refl,
      of open_service ex_intake "''fedcba9876543210''"] run
  show ?thesis by blast
qed

lemma reported_asset_trusted_witness:
  "\<exists>j d'. create_job_with_outcome open_service ex_intake report_world ''0123456789abcdef'' ex_report
     (Some run_worker) empty_db = (Inr (j, False), d') \<and> asset_problem report_world ex_intake j = None"
proof -
  obtain j d' where run: "create_job_with_outcome open_service ex_intake report_world ''0123456789abcdef'' ex_report
      (Some run_worker) empty_db = (Inr (j, False), d')" by (rule ex_report_created)
  have "distinct (map ast_id (crd_assets (in_corridor ex_intake)))" by (simp add: ex_intake_def)
  from reported_asset_trusted [OF run this refl] run show ?thesis by blast
qed

end
