(* ===== verification/Service_Writes.thy ===== *)
theory Service_Writes
  imports Service_Calls Intake_Properties
begin

text \<open>
  All writes of the job service as one type of requests: the nine calls on an existing job, the report of a
  new one, and the recorder of refused transitions, which the calls and the optimization share. These are the
  three places where \<^verbatim>\<open>jobs/service.py\<close> writes to the repository; an optimization writes through
  \<open>Optimization\<close>.
\<close>

section \<open>Requests\<close>

datatype request =
    On_Job call
  | Report intake string job_request
  | Note_Refusal "string list" string py_error

fun carry_out :: "service \<Rightarrow> world \<Rightarrow> actor option \<Rightarrow> request \<Rightarrow> job option svc" where
  "carry_out sv w a (On_Job c) d = (case serve sv w a c d of (r, d') \<Rightarrow> (bind_res r (\<lambda>j. Inr (Some j)), d'))"
| "carry_out sv w a (Report ik uuid q) d =
     (case create_job sv ik w uuid q a d of (r, d') \<Rightarrow> (bind_res r (\<lambda>j. Inr (Some j)), d'))"
| "carry_out sv w a (Note_Refusal jids attempted e) d =
     (case record_rejected_transition w jids (resolve_actor a) attempted e d of (r, d') \<Rightarrow> (bind_res r (\<lambda>_. Inr None), d'))"

lemma rejected_events_Inr:
  "rejected_events w d who attempted e now k jids = Inr evs \<Longrightarrow> ev \<in> set evs \<Longrightarrow>
     ev_type ev = TRANSITION_REJECTED \<and> ev_job_id ev \<in> set jids \<and> ev_actor ev = Live who"
proof (induction jids arbitrary: k evs)
  case (Cons jid jids)
  show ?case
  proof (cases "get d jid")
    case None
    with Cons show ?thesis by auto
  next
    case (Some j)
    with Cons.prems(1) obtain x xs where x: "evs = x # xs"
        "rejected_transition_event ((wd_env w)\<lparr>fresh := \<lambda>n. fresh (wd_env w) (n + k)\<rparr>) j who attempted (error_name e) (wd_say w e) now = Inr x"
        "rejected_events w d who attempted e now (k + 1) jids = Inr xs"
      by (auto simp: bind_res_Inr_iff)
    have "ev_type x = TRANSITION_REJECTED \<and> ev_job_id x = jid \<and> ev_actor x = Live who"
      using x(2) get_Some [OF Some] by (auto simp: rejected_transition_event_def dest!: made_event)
    with Cons.IH [OF x(3)] Cons.prems(2) x(1) show ?thesis by auto
  qed
qed simp

lemma recorder_cases:
  assumes "record_rejected_transition w jids who attempted e d = (r, d')"
  shows "d' = d \<or> (r = Inr () \<and> (\<exists>evs. append_events_tx d evs = Inr d' \<and>
    (\<forall>ev \<in> set evs. ev_type ev = TRANSITION_REJECTED \<and> ev_job_id ev \<in> set jids \<and> ev_actor ev = Live who)))"
  using assms rejected_events_Inr [of w d who attempted e _ 0 jids]
  by (auto simp: record_rejected_transition_def checked_def split: sum.splits if_splits)

lemma appended: "append_events_tx d evs = Inr d' \<Longrightarrow> db_rows d' = db_rows d \<and> db_events d' = db_events d @ evs"
  by (auto simp: append_events_tx_Inr dest: append_events_Inr(1))

text \<open>What the report of a job was authorized for: the section of the row it stored, or the row it replayed.\<close>

lemma report_authorized:
  assumes "create_job_with_outcome sv ik w uuid q a d = (Inr (j, b), d')"
  shows "(\<not> b \<and> (\<exists>s. dget (job_block j) ''section_id'' = JStr s \<and>
      authorize_resource sv (resolve_actor a) REPORT_JOB
        \<lparr>loc_corridor = Some (crd_id (in_corridor ik)), loc_section = Some s\<rparr> = Inr ())) \<or>
    (b \<and> get d (job_id j) = Some j \<and> authorize_job_resource sv (resolve_actor a) REPORT_JOB j = Inr ())"
  using assms
proof (cases rule: create_job_cases)
  case (created j0 events reg x)
  then obtain idem duration where auth: "authorize_resource sv (resolve_actor a) REPORT_JOB
        \<lparr>loc_corridor = Some (crd_id (in_corridor ik)), loc_section = Some (rr_section x)\<rparr> = Inr ()"
      and p: "intake_prepare sv ik w uuid q (resolve_actor a) idem duration reg x d = Inr (j0, events)"
    by (auto simp: created_by_def)
  have "j0 = j" "\<not> b" using created(3) created_row(6) [OF created(1,2)] by auto
  moreover have "dget (job_block j0) ''section_id'' = JStr (rr_section x)" by (rule prepared_job [OF p])
  ultimately show ?thesis using auth by auto
next
  case idle
  from idle(1) have b: "b" by (simp add: idle_outcome_def)
  from idle(2) obtain k where k: "idempotency_identity (wd_sha w) q (resolve_actor a) = Inr (Some k)"
      "idempotent_replay d k = Inr (Some j)" by (auto simp: replayed_for_def)
  obtain i key fp where "k = (i, key, fp)" by (cases k) auto
  with k(2) obtain s where s: "get_by_event_id (db_events d) i = Inr (Some s)" "get d (ev_job_id (sj_event s)) = Some j"
    by (auto simp: idempotent_replay_def bind_res_Inr_iff Let_def split: option.splits if_splits)
  from get_Some [OF s(2)] s(2) have "get d (job_id j) = Some j" by simp
  moreover from assms k have "authorize_job_resource sv (resolve_actor a) REPORT_JOB j = Inr ()"
    by (auto simp: create_job_with_outcome_def checked_def Let_def split: sum.splits)
  ultimately show ?thesis using b by simp
qed

section \<open>Properties\<close>

text \<open>C8: Every write of the job service is a step of the job table or none. A call on a job fails and leaves the database
  as it was, or fails on a lifecycle refusal and adds to the history one TRANSITION_REJECTED event of that
  job and nothing else, or is one transaction on that job alone. A report fails or replays and changes
  nothing, or creates one row under a free id. The recorder of refusals changes no row and appends only
  TRANSITION_REJECTED events of the jobs it was given. So every invariant of the table survives any
  sequence of writes.\<close>

theorem every_write_is_a_step:
  "(case x of
      On_Job c \<Rightarrow>
        (\<exists>e. serve sv w a c d = (Inl e, d)) \<or>
        (\<exists>e ev d'. serve sv w a c d = (Inl e, d') \<and> recorded_refusal e \<and> db_rows d' = db_rows d \<and>
           db_events d' = db_events d @ [ev] \<and> ev_type ev = TRANSITION_REJECTED \<and> ev_job_id ev = call_job c) \<or>
        (\<exists>plan. mutate_jobs d [call_job c] plan False = Inr (snd (serve sv w a c d)))
    | Report ik uuid q \<Rightarrow>
        (case create_job_with_outcome sv ik w uuid q a d of
           (Inl e, d') \<Rightarrow> d' = d
         | (Inr (j, replayed), d') \<Rightarrow>
             if replayed then d' = d
             else get d (job_id j) = None \<and> (\<exists>events. create d j events = Inr d'))
    | Note_Refusal jids attempted e \<Rightarrow>
        (case record_rejected_transition w jids (resolve_actor a) attempted e d of
           (r, d') \<Rightarrow> db_rows d' = db_rows d \<and> (\<exists>evs. db_events d' = db_events d @ evs \<and>
             (\<forall>ev \<in> set evs. ev_type ev = TRANSITION_REJECTED \<and> ev_job_id ev \<in> set jids \<and>
                ev_actor ev = Live (resolve_actor a))))) \<and>
   db_step\<^sup>*\<^sup>* d (snd (carry_out sv w a x d))"
proof (cases x)
  case (On_Job c)
  have "snd (carry_out sv w a x d) = snd (serve sv w a c d)" by (simp add: On_Job split: prod.splits)
  with service_calls_are_steps [of sv w a c d] On_Job show ?thesis by simp
next
  case (Report ik uuid q)
  obtain r d' where run: "create_job_with_outcome sv ik w uuid q a d = (r, d')" by fastforce
  have s: "snd (carry_out sv w a x d) = d'"
    using run by (auto simp: Report create_job_def split: prod.splits sum.splits)
  from run show ?thesis
  proof (cases rule: create_job_cases)
    case (created j events reg y)
    note row = created_row [OF created(1,2)]
    show ?thesis using created(2,3) row run s by (auto simp: Report)
  next
    case idle
    then show ?thesis using run s by (auto simp: Report idle_outcome_def split: sum.splits)
  qed
next
  case (Note_Refusal jids attempted e)
  obtain r d' where run: "record_rejected_transition w jids (resolve_actor a) attempted e d = (r, d')" by fastforce
  have s: "snd (carry_out sv w a x d) = d'" using run by (simp add: Note_Refusal)
  from recorder_cases [OF run] show ?thesis
  proof
    assume "d' = d"
    then show ?thesis using run s by (auto simp: Note_Refusal intro: exI [of _ "[]"])
  next
    assume "r = Inr () \<and> (\<exists>evs. append_events_tx d evs = Inr d' \<and>
      (\<forall>ev \<in> set evs. ev_type ev = TRANSITION_REJECTED \<and> ev_job_id ev \<in> set jids \<and> ev_actor ev = Live (resolve_actor a)))"
    then obtain evs where evs: "append_events_tx d evs = Inr d'"
      "\<forall>ev \<in> set evs. ev_type ev = TRANSITION_REJECTED \<and> ev_job_id ev \<in> set jids \<and> ev_actor ev = Live (resolve_actor a)"
      by blast
    then have "db_step d d'" by (intro db_step.records)
    with appended [OF evs(1)] evs(2) run s show ?thesis by (auto simp: Note_Refusal)
  qed
qed

lemma every_write_is_a_step_witness:
  "(\<exists>plan. mutate_jobs sited_db [''J1''] plan False =
      Inr (snd (serve enforced_service run_world (Some authority_actor) (Approve ''J1'' ''RUN-1'') sited_db))) \<and>
   db_step\<^sup>*\<^sup>* sited_db
     (snd (carry_out enforced_service run_world (Some authority_actor) (On_Job (Approve ''J1'' ''RUN-1'')) sited_db))"
proof -
  obtain j' d' where "serve enforced_service run_world (Some authority_actor) (Approve ''J1'' ''RUN-1'') sited_db =
      (Inr j', d')" by (rule run_approval_served)
  with every_write_is_a_step [where x = "On_Job (Approve ''J1'' ''RUN-1'')" and sv = enforced_service and w = run_world and
      a = "Some authority_actor" and d = sited_db]
  show ?thesis by (simp del: serve.simps)
qed

text \<open>C16: With the authenticated policy installed, every successful write a caller asks for, on a job or by reporting one,
  was asked by an authenticated, enrolled person acting in a role they were assigned, the table grants that
  role the action, and a scope assignment of that person under that role names the section the work is in,
  in this deployment's corridor: for a call and a replayed report the section of the stored row, for a new
  report the section the row is stored with. In particular nobody can assign a schedule directly.\<close>

theorem every_write_in_scope:
  assumes "build_directory ps rs ss = Inr dir"
    and "authenticated_policy (Identity_Directory dir) entries = Inr (sv_policy sv)"
    and "fst (carry_out sv w a x d) = Inr (Some j')"
  shows "\<exists>who action c s. a = Some who \<and> actor_assurance who = AUTHENTICATED \<and>
    (\<exists>p \<in> set ps. person_id p = actor_id who) \<and>
    \<lparr>ra_person = actor_id who, ra_role = actor_role who\<rparr> \<in> set rs \<and>
    action \<in> ROLE_ACTIONS (actor_role who) \<and> action \<noteq> ASSIGN_SCHEDULE \<and> assigned ss who c s \<and>
    (case x of
       On_Job call \<Rightarrow> action = call_action call \<and> c = sv_corridor sv \<and>
         (\<exists>j. get d (call_job call) = Some j \<and> resource_section (job_resource j) = Some s)
     | Report ik uuid q \<Rightarrow> action = REPORT_JOB \<and>
         (c = crd_id (in_corridor ik) \<and> dget (job_block j') ''section_id'' = JStr s \<or>
          c = sv_corridor sv \<and> get d (job_id j') = Some j' \<and> resource_section (job_resource j') = Some s)
     | Note_Refusal jids attempted e \<Rightarrow> False)"
proof (cases x)
  case (On_Job call)
  with assms(3) obtain j where "fst (serve sv w a call d) = Inr j" by (auto simp: bind_res_Inr_iff split: prod.splits)
  from enforced_call_in_scope [OF assms(1,2) this] obtain who j s where e: "a = Some who"
      "actor_assurance who = AUTHENTICATED" "\<exists>p \<in> set ps. person_id p = actor_id who"
      "\<lparr>ra_person = actor_id who, ra_role = actor_role who\<rparr> \<in> set rs"
      "call_action call \<in> ROLE_ACTIONS (actor_role who)" "call_action call \<noteq> ASSIGN_SCHEDULE"
      "get d (call_job call) = Some j" "resource_section (job_resource j) = Some s" "assigned ss who (sv_corridor sv) s"
    by blast
  show ?thesis unfolding On_Job
    by (rule exI [of _ who], rule exI [of _ "call_action call"], rule exI [of _ "sv_corridor sv"], rule exI [of _ s])
      (use e in simp)
next
  case (Report ik uuid q)
  let ?who = "resolve_actor a"
  from assms(3) obtain b d' where run: "create_job_with_outcome sv ik w uuid q a d = (Inr (j', b), d')"
    by (auto simp: Report create_job_def bind_res_Inr_iff split: prod.splits sum.splits)
  from assms(2) obtain f where f: "pol_authorize_resource (sv_policy sv) = Some f"
    by (auto simp: authenticated_policy_def bind_res_Inr_iff dest!: sym [of _ "sv_policy sv"])
  from report_authorized [OF run] obtain l where ok: "f ?who REPORT_JOB l = Inr ()"
    and l: "(\<exists>s. dget (job_block j') ''section_id'' = JStr s \<and>
        l = \<lparr>loc_corridor = Some (crd_id (in_corridor ik)), loc_section = Some s\<rparr>) \<or>
      (get d (job_id j') = Some j' \<and>
        l = \<lparr>loc_corridor = (if strip (sv_corridor sv) = [] then None else Some (sv_corridor sv)),
             loc_section = resource_section (job_resource j')\<rparr>)"
    by (auto simp: authorize_job_resource_def job_location authorize_resource_def f)
  note g = permit_sound [OF assms(1,2) f ok]
  from g(1) have a: "a = Some ?who" by (cases a) (simp_all add: resolve_actor_def unidentified_actor_def)
  from g(5) obtain c s where cs: "loc_corridor l = Some c" "loc_section l = Some s" "assigned ss ?who c s"
    by (auto simp: CORRIDOR_SCOPED_ACTIONS_def)
  have "c = crd_id (in_corridor ik) \<and> dget (job_block j') ''section_id'' = JStr s \<or>
      c = sv_corridor sv \<and> get d (job_id j') = Some j' \<and> resource_section (job_resource j') = Some s"
    using l cs(1,2) by (auto split: if_splits)
  with a g(1-4) cs(3) show ?thesis unfolding Report
    by (intro exI [of _ ?who] exI [of _ REPORT_JOB] exI [of _ c] exI [of _ s]) simp
next
  case (Note_Refusal jids attempted e)
  with assms(3) show ?thesis by (auto simp: bind_res_Inr_iff split: prod.splits)
qed

lemma every_write_in_scope_witness:
  "(\<exists>j'. fst (carry_out enforced_service run_world (Some authority_actor) (On_Job (Approve ''J1'' ''RUN-1'')) sited_db) =
      Inr (Some j')) \<and> \<lparr>ra_person = ''P-9'', ra_role = AUTHORITY\<rparr> \<in> set authority_roles"
proof -
  obtain j' d' where s: "serve enforced_service run_world (Some authority_actor) (Approve ''J1'' ''RUN-1'') sited_db =
      (Inr j', d')" by (rule run_approval_served)
  then have c: "fst (carry_out enforced_service run_world (Some authority_actor) (On_Job (Approve ''J1'' ''RUN-1'')) sited_db) =
      Inr (Some j')" by simp
  have p: "authenticated_policy (Identity_Directory authority_directory) [] = Inr (sv_policy enforced_service)"
    by (simp add: enforced_policy_made enforced_service_def)
  from every_write_in_scope [OF authority_directory_built p c]
  have "\<lparr>ra_person = actor_id authority_actor, ra_role = actor_role authority_actor\<rparr> \<in> set authority_roles"
    by auto
  with c show ?thesis by (auto simp: authority_actor_def)
qed

end
