(* ===== verification/Scoped_Scan.thy ===== *)
theory Scoped_Scan
  imports Field_Service Paging
begin

text \<open>
  The collection reads of \<^verbatim>\<open>JobService\<close>: \<^verbatim>\<open>_scoped_scan\<close> with \<^verbatim>\<open>list_jobs\<close>, \<^verbatim>\<open>jobs_page\<close> and
  \<^verbatim>\<open>obligations_page\<close> (\<^verbatim>\<open>backend/app/jobs/service.py\<close>). The scan reads the table in keyset chunks,
  keeps the rows the single-job check permits, and stops at the page limit, at the end of the table,
  or at its budget. The loop is a partial function, so that returning is something to prove.
\<close>

section \<open>The scan\<close>

definition COLLECTION_SCAN_CHUNK :: nat where "COLLECTION_SCAN_CHUNK = 200"
definition COLLECTION_TIE_CEILING :: nat where "COLLECTION_TIE_CEILING = 200"

type_synonym position = "string \<times> string"

record scoped_page =
  pg_items :: "job list"
  pg_next :: "position option"

record scan =
  sn_kept :: "job list"
  sn_examined :: nat
  sn_last :: "job option"
  sn_last_kept :: bool

definition scan_position :: "job \<Rightarrow> position" where
  "scan_position j = (job_created_at j, job_id j)"

definition scan_boundary :: "job option \<Rightarrow> bool \<Rightarrow> position option" where
  "scan_boundary row kept =
    (case row of None \<Rightarrow> None | Some j \<Rightarrow> Some (job_created_at j, if kept then job_id j else []))"

text \<open>The body of the loop over one chunk: a finished page, or the state to go on from.\<close>

fun scan_rows ::
  "(job \<Rightarrow> bool res) \<Rightarrow> nat \<Rightarrow> nat \<Rightarrow> job list \<Rightarrow> scan \<Rightarrow> (scoped_page + scan) res" where
  "scan_rows permitted limit budget [] s = Inr (Inr s)"
| "scan_rows permitted limit budget (row # rows) s =
    (let tie_boundary = (case sn_last s of None \<Rightarrow> True | Some l \<Rightarrow> job_created_at row \<noteq> job_created_at l) in
     if budget \<le> sn_examined s \<and> tie_boundary then
       Inr (Inl \<lparr>pg_items = sn_kept s, pg_next = scan_boundary (sn_last s) (sn_last_kept s)\<rparr>)
     else if budget + COLLECTION_TIE_CEILING \<le> sn_examined s then Inl CollectionScanLimitError
     else bind_res (permitted row) (\<lambda>ok.
       let s' = s\<lparr>sn_examined := sn_examined s + 1, sn_last := Some row, sn_last_kept := ok\<rparr> in
       if ok then
         if length (sn_kept s) = limit then
           (if sn_kept s = [] then Inl IndexError
            else Inr (Inl \<lparr>pg_items = sn_kept s, pg_next = Some (scan_position (last (sn_kept s)))\<rparr>))
         else scan_rows permitted limit budget rows (s'\<lparr>sn_kept := sn_kept s @ [row]\<rparr>)
       else scan_rows permitted limit budget rows s'))"

partial_function (option) scan_loop ::
  "db \<Rightarrow> (job \<Rightarrow> bool res) \<Rightarrow> string option \<Rightarrow> string list option \<Rightarrow> nat \<Rightarrow> nat \<Rightarrow> nat \<Rightarrow>
   position option \<Rightarrow> scan \<Rightarrow> scoped_page res option" where
  [code]: "scan_loop d permitted status statuses limit budget chunk position s =
    (case list_page d chunk status statuses position of
       Inl e \<Rightarrow> Some (Inl e)
     | Inr rows \<Rightarrow>
        (case scan_rows permitted limit budget rows s of
           Inl e \<Rightarrow> Some (Inl e)
         | Inr (Inl page) \<Rightarrow> Some (Inr page)
         | Inr (Inr s') \<Rightarrow>
             if length rows < chunk then Some (Inr \<lparr>pg_items = sn_kept s', pg_next = None\<rparr>)
             else scan_loop d permitted status statuses limit budget (COLLECTION_SCAN_CHUNK + 1)
                    (Some (scan_position (last rows))) s'))"

definition start_scan :: scan where
  "start_scan = \<lparr>sn_kept = [], sn_examined = 0, sn_last = None, sn_last_kept = False\<rparr>"

definition scoped_scan ::
  "service \<Rightarrow> db \<Rightarrow> actor \<Rightarrow> job_action \<Rightarrow> nat \<Rightarrow> string option \<Rightarrow> string list option \<Rightarrow> position option \<Rightarrow>
   scoped_page res option" where
  "scoped_scan sv d who action limit status statuses after =
     scan_loop d (job_resource_permitted sv who action) status statuses limit
       (max (sv_budget sv) (limit + 1)) (limit + 1) after start_scan"

section \<open>The collection reads\<close>

definition list_jobs :: "service \<Rightarrow> actor option \<Rightarrow> db \<Rightarrow> job list res" where
  "list_jobs sv actor d =
    (let reader = resolve_actor actor in
     bind_res (ask sv reader READ_JOB) (\<lambda>_.
     bind_res (map_res (\<lambda>j. bind_res (job_resource_permitted sv reader READ_JOB j) (\<lambda>ok. Inr (j, ok)))
                 (list_newest d)) (\<lambda>rows.
     Inr (map fst (filter snd rows)))))"

definition jobs_page ::
  "service \<Rightarrow> actor option \<Rightarrow> db \<Rightarrow> nat \<Rightarrow> string option \<Rightarrow> position option \<Rightarrow> scoped_page res option" where
  "jobs_page sv actor d limit status after =
    (let reader = resolve_actor actor in
     case ask sv reader READ_JOB of
       Inl e \<Rightarrow> Some (Inl e)
     | Inr _ \<Rightarrow> scoped_scan sv d reader READ_JOB limit status None after)"

definition obligations_page ::
  "service \<Rightarrow> world \<Rightarrow> actor option \<Rightarrow> db \<Rightarrow> nat \<Rightarrow> position option \<Rightarrow> datetime option \<Rightarrow> string list option \<Rightarrow>
   (obligation list \<times> position option \<times> string) res option" where
  "obligations_page sv w actor d limit after evaluated_at statuses =
    (let reader = resolve_actor actor in
     case bind_res (ask sv reader READ_JOB_OBLIGATIONS) (\<lambda>_. evaluation_moment w evaluated_at) of
       Inl e \<Rightarrow> Some (Inl e)
     | Inr moment \<Rightarrow>
        (let candidates = (case statuses of None \<Rightarrow> OBLIGATION_CANDIDATE_STATUSES | Some ss \<Rightarrow> ss) in
         case scoped_scan sv d reader READ_JOB_OBLIGATIONS limit None (Some candidates) after of
           None \<Rightarrow> None
         | Some (Inl e) \<Rightarrow> Some (Inl e)
         | Some (Inr page) \<Rightarrow> Some
            (bind_res (list_for_jobs (db_events d) (map job_id (pg_items page))) (\<lambda>history.
             bind_res (derive_obligations (sv_sla sv)
               (map (\<lambda>j. (j, map sj_event (the (map_of history (job_id j))))) (pg_items page)) moment) (\<lambda>obs.
             bind_res (event_timestamp moment) (\<lambda>stamp.
             Inr (obs, pg_next page, stamp)))))))"

section \<open>The listing behind the pages\<close>

definition below :: "position option \<Rightarrow> job \<Rightarrow> bool" where
  "below after j \<longleftrightarrow> (case after of None \<Rightarrow> True | Some p \<Rightarrow> page_key j < p)"

definition remaining :: "db \<Rightarrow> string option \<Rightarrow> string list option \<Rightarrow> position option \<Rightarrow> job list" where
  "remaining d status statuses after = filter (below after) (listing d status statuses)"

lemma page_key_below:
  "page_key j < (c, i) \<longleftrightarrow> job_created_at j < c \<or> (job_created_at j = c \<and> job_id j < i)"
  by (auto simp: page_key_def less_prod_def)

lemma list_page_remaining:
  assumes "list_page d n status statuses after = Inr rows"
  shows "rows = (if statuses = Some [] then [] else take n (remaining d status statuses after))"
proof (cases "statuses = Some []")
  case False
  have "rev (sort_key page_key (filter (\<lambda>j. selected status statuses j \<and> below after j) (db_rows d))) =
      remaining d status statuses after"
    by (simp only: remaining_def listing_def rev_filter [symmetric] filter_sort filter_filter)
  moreover have "rows = take n (rev (sort_key page_key
      (filter (\<lambda>j. selected status statuses j \<and> below after j) (db_rows d))))"
    using assms False
    by (cases status; cases statuses; cases after; cases "the after")
      (simp_all add: list_page_def Let_def selected_def below_def page_key_below conj_assoc
        split: if_splits prod.splits)
  ultimately show ?thesis using False by simp
qed (use assms in \<open>auto simp: list_page_def split: if_splits\<close>)

section \<open>The scan returns\<close>

text \<open>What is left to read shrinks with every chunk, whatever the rows and whatever the policy.\<close>

lemma remaining_shrinks:
  assumes "rows = take n (remaining d status statuses after)" "rows \<noteq> []"
  shows "length (remaining d status statuses (Some (scan_position (last rows)))) <
    length (remaining d status statuses after)"
proof -
  let ?l = "last rows" and ?L = "listing d status statuses"
  have "?l \<in> set (remaining d status statuses after)"
    using last_in_set [OF assms(2)] assms(1) by (metis in_set_takeD)
  then have l: "?l \<in> set ?L" "below after ?l" by (simp_all add: remaining_def)
  have sub: "below (Some (scan_position ?l)) j \<Longrightarrow> below after j" for j
    using l(2) by (auto simp: below_def scan_position_def page_key_def [symmetric] split: option.splits)
  have "remaining d status statuses (Some (scan_position ?l)) =
      filter (below (Some (scan_position ?l))) (remaining d status statuses after)"
    using sub by (auto simp: remaining_def intro!: filter_cong)
  moreover have "?l \<in> set (remaining d status statuses after)" "\<not> below (Some (scan_position ?l)) ?l"
    using l by (simp_all add: remaining_def below_def scan_position_def page_key_def)
  ultimately show ?thesis by (metis length_filter_less)
qed

lemma scan_loop_returns:
  assumes "0 < chunk"
  shows "\<exists>r. scan_loop d permitted status statuses limit budget chunk after s = Some r"
  using assms
proof (induction "length (remaining d status statuses after)" arbitrary: chunk after s rule: less_induct)
  case less
  show ?case
  proof (cases "list_page d chunk status statuses after")
    case (Inr rows)
    show ?thesis
    proof (cases "scan_rows permitted limit budget rows s")
      case outer: (Inr b)
      show ?thesis
      proof (cases b)
        case inner: (Inr s')
        show ?thesis
        proof (cases "length rows < chunk")
          case False
          with less.prems have ne: "rows \<noteq> []" by auto
          with list_page_remaining [OF Inr] have "rows = take chunk (remaining d status statuses after)"
            by (simp split: if_splits)
          from less.hyps [OF remaining_shrinks [OF this ne], of "COLLECTION_SCAN_CHUNK + 1" s'] False
          show ?thesis by (subst scan_loop.simps) (simp add: Inr outer inner)
        qed (subst scan_loop.simps, simp add: Inr outer inner)
      qed (subst scan_loop.simps, simp add: Inr outer)
    qed (subst scan_loop.simps, simp add: Inr)
  qed (subst scan_loop.simps, simp)
qed

text \<open>C20: A collection read always returns: whatever the table, the policy, the page limit, the budget
  and the cursor, the scan behind the job and obligation pages comes to an end, with a page or an
  error.\<close>

theorem scoped_scan_returns:
  "\<exists>r. scoped_scan sv d who action limit status statuses after = Some r"
  by (simp add: scoped_scan_def scan_loop_returns)

section \<open>What a page holds\<close>

text \<open>The rows of a page are the permitted rows examined, and its cursor is a place from which exactly the
  rest of the permitted rows lies.\<close>

definition page_exact :: "(job \<Rightarrow> bool) \<Rightarrow> nat \<Rightarrow> job list \<Rightarrow> scoped_page \<Rightarrow> bool" where
  "page_exact P limit D page \<longleftrightarrow>
     filter P D = pg_items page @ (case pg_next page of None \<Rightarrow> [] | Some p \<Rightarrow> filter P (filter (below (Some p)) D)) \<and>
     length (pg_items page) \<le> limit \<and>
     (case pg_next page of None \<Rightarrow> True | Some (c, i) \<Rightarrow> i = [] \<or> i \<in> job_id ` set (pg_items page))"

definition descending :: "job list \<Rightarrow> bool" where
  "descending D \<longleftrightarrow> sorted_wrt (\<lambda>x y. page_key y < page_key x) D"

text \<open>The state of a scan that has examined exactly \<open>ex\<close>.\<close>

definition scanned :: "(job \<Rightarrow> bool) \<Rightarrow> nat \<Rightarrow> job list \<Rightarrow> scan \<Rightarrow> bool" where
  "scanned P limit ex s \<longleftrightarrow>
     sn_kept s = filter P ex \<and> sn_examined s = length ex \<and> length (filter P ex) \<le> limit \<and>
     sn_last s = (if ex = [] then None else Some (last ex)) \<and>
     (ex \<noteq> [] \<longrightarrow> (sn_last_kept s \<longleftrightarrow> P (last ex)))"

lemma below_split:
  assumes "descending (xs @ x # ys)" "k = page_key x"
  shows "filter (below (Some k)) (xs @ x # ys) = ys"
proof -
  have "filter (below (Some k)) (xs @ [x]) = []"
    using assms by (auto simp: descending_def sorted_wrt_append below_def filter_empty_conv dest: order_less_asym)
  moreover have "filter (below (Some k)) ys = ys"
    using assms by (intro filter_True) (auto simp: descending_def sorted_wrt_append below_def)
  ultimately show ?thesis by (simp split: if_splits)
qed

text \<open>Two adjacent rows with different creation times: the empty id marks the place between them.\<close>

lemma below_boundary:
  assumes "descending (xs @ x # y # ys)" "job_created_at y \<noteq> job_created_at x"
  shows "filter (below (Some (job_created_at x, []))) (xs @ x # y # ys) = y # ys"
proof -
  have lt: "job_created_at y < job_created_at x"
    using assms by (auto simp: descending_def sorted_wrt_append page_key_less)
  have "filter (below (Some (job_created_at x, []))) (xs @ [x]) = []"
    using assms(1) by (auto simp: descending_def sorted_wrt_append below_def filter_empty_conv page_key_below
        page_key_less)
  moreover have "filter (below (Some (job_created_at x, []))) (y # ys) = y # ys"
    using assms(1) lt by (intro filter_True)
      (auto simp: descending_def sorted_wrt_append below_def page_key_below page_key_less)
  ultimately show ?thesis by (metis append.assoc append_Cons append_Nil filter_append)
qed

lemma scanned_start: "scanned P limit [] start_scan"
  by (simp add: scanned_def start_scan_def)

lemma scanned_step:
  assumes "scanned P limit ex s" "P row \<Longrightarrow> length (sn_kept s) < limit"
  shows "scanned P limit (ex @ [row]) (s\<lparr>sn_examined := sn_examined s + 1, sn_last := Some row,
    sn_last_kept := P row, sn_kept := (if P row then sn_kept s @ [row] else sn_kept s)\<rparr>)"
  using assms by (auto simp: scanned_def)

text \<open>The page that ends on its limit: the cursor is the last kept row's.\<close>

lemma limit_page_exact:
  assumes "descending (ex @ rest)" "scanned P limit ex s" "sn_kept s \<noteq> []"
  shows "page_exact P limit (ex @ rest)
    \<lparr>pg_items = sn_kept s, pg_next = Some (scan_position (last (sn_kept s)))\<rparr>"
proof -
  have k: "sn_kept s = filter P ex" "length (filter P ex) \<le> limit" using assms(2) by (simp_all add: scanned_def)
  with assms(3) have "\<exists>x \<in> set ex. P x" by (auto simp: filter_empty_conv)
  then obtain a x b where ex: "ex = a @ x # b" and x: "P x" and b: "\<forall>z \<in> set b. \<not> P z"
    by (metis split_list_last_prop)
  have kept: "sn_kept s = filter P a @ [x]" using k(1) ex x b by simp
  have "filter (below (Some (page_key x))) (ex @ rest) = b @ rest"
    using below_split [of a x "b @ rest"] assms(1) ex by simp
  then show ?thesis
    using kept k ex x b by (simp add: page_exact_def scan_position_def page_key_def)
qed

text \<open>The page that ends on the budget, between two creation times.\<close>

lemma budget_page_exact:
  assumes "descending (ex @ row # rest)" "scanned P limit ex s" "ex \<noteq> []"
    and "job_created_at row \<noteq> job_created_at (last ex)"
  shows "page_exact P limit (ex @ row # rest)
    \<lparr>pg_items = sn_kept s, pg_next = scan_boundary (sn_last s) (sn_last_kept s)\<rparr>"
proof -
  have s: "sn_kept s = filter P ex" "length (filter P ex) \<le> limit" "sn_last s = Some (last ex)"
    "sn_last_kept s \<longleftrightarrow> P (last ex)"
    using assms(2,3) by (simp_all add: scanned_def)
  have ex: "ex = butlast ex @ [last ex]" using assms(3) by simp
  have "filter (below (Some (page_key (last ex)))) (ex @ row # rest) = row # rest"
    using below_split [of "butlast ex" "last ex" "row # rest"] assms(1) ex
    by (metis append.assoc append_Cons append_Nil)
  moreover have "filter (below (Some (job_created_at (last ex), []))) (ex @ row # rest) = row # rest"
    using below_boundary [of "butlast ex" "last ex" row rest] assms(1,4) ex
    by (metis append.assoc append_Cons append_Nil)
  ultimately have "filter (below (Some (job_created_at (last ex), if P (last ex) then job_id (last ex) else [])))
      (ex @ row # rest) = row # rest"
    by (simp add: page_key_def del: filter_append)
  moreover have "P (last ex) \<Longrightarrow> last ex \<in> set (filter P ex)" using assms(3) by simp
  ultimately show ?thesis
    unfolding page_exact_def scan_boundary_def s(1,3,4) using s(2) by (auto simp del: filter.simps)
qed

lemma scan_rows_exact:
  assumes "descending (ex @ rows @ rest)" "scanned P limit ex s" "1 \<le> budget"
    and "\<And>j ok. permitted j = Inr ok \<Longrightarrow> ok = P j"
    and "scan_rows permitted limit budget rows s = Inr r"
  shows "case r of Inl page \<Rightarrow> page_exact P limit (ex @ rows @ rest) page
    | Inr s' \<Rightarrow> scanned P limit (ex @ rows) s'"
  using assms
proof (induction rows arbitrary: ex s)
  case (Cons row rows)
  note step = Cons.prems(5)
  have D: "descending (ex @ row # (rows @ rest))" "descending ((ex @ [row]) @ rows @ rest)"
    using Cons.prems(1) by simp_all
  let ?tie = "case sn_last s of None \<Rightarrow> True | Some l \<Rightarrow> job_created_at row \<noteq> job_created_at l"
  show ?case
  proof (cases "budget \<le> sn_examined s \<and> ?tie")
    case True
    then have ne: "ex \<noteq> []" using Cons.prems(2,3) by (auto simp: scanned_def)
    then have "job_created_at row \<noteq> job_created_at (last ex)"
      using True Cons.prems(2) by (simp add: scanned_def)
    from budget_page_exact [OF D(1) Cons.prems(2) ne this] step True show ?thesis by auto
  next
    case False
    note go = False
    from step go obtain ok where ok: "permitted row = Inr ok"
      by (cases "permitted row") (auto simp: Let_def bind_res_def split: if_splits)
    then have P: "ok = P row" using Cons.prems(4) by blast
    show ?thesis
    proof (cases "P row \<and> length (sn_kept s) = limit")
      case True
      then have "sn_kept s \<noteq> []" and
        "r = Inl \<lparr>pg_items = sn_kept s, pg_next = Some (scan_position (last (sn_kept s)))\<rparr>"
        using step go ok P by (auto simp: Let_def split: if_splits)
      then show ?thesis using limit_page_exact [OF D(1) Cons.prems(2)] by simp
    next
      case False
      let ?s = "s\<lparr>sn_examined := sn_examined s + 1, sn_last := Some row,
        sn_last_kept := P row, sn_kept := (if P row then sn_kept s @ [row] else sn_kept s)\<rparr>"
      have "scanned P limit (ex @ [row]) ?s"
        using Cons.prems(2) False by (intro scanned_step) (auto simp: scanned_def)
      moreover have "scan_rows permitted limit budget rows ?s = Inr r"
        using step go ok P False by (cases "P row") (auto simp: Let_def split: if_splits)
      ultimately show ?thesis
        using Cons.IH [OF D(2) _ Cons.prems(3,4)] by (metis (no_types, lifting) append.assoc append_Cons append_Nil)
    qed
  qed
qed (auto simp: scanned_def)

lemma end_page_exact:
  assumes "scanned P limit D s"
  shows "page_exact P limit D \<lparr>pg_items = sn_kept s, pg_next = None\<rparr>"
  using assms by (simp add: scanned_def page_exact_def)

lemma position_below:
  assumes "descending (ex @ rows @ rest)" "rows \<noteq> []"
  shows "filter (below (Some (scan_position (last rows)))) (ex @ rows @ rest) = rest"
proof -
  have D: "ex @ rows @ rest = (ex @ butlast rows) @ last rows # rest"
    using assms(2) by (metis append.assoc append_Cons append_Nil append_butlast_last_id)
  have "scan_position (last rows) = page_key (last rows)" by (simp add: scan_position_def page_key_def)
  then show ?thesis unfolding D by (intro below_split) (use assms(1) D in simp_all)
qed

lemma remaining_below:
  assumes "l \<in> set (remaining d status statuses after)"
  shows "remaining d status statuses (Some (scan_position l)) =
    filter (below (Some (scan_position l))) (remaining d status statuses after)"
proof -
  have "below after l" using assms by (simp add: remaining_def)
  then have "below (Some (scan_position l)) j \<Longrightarrow> below after j" for j
    by (auto simp: below_def scan_position_def page_key_def [symmetric] split: option.splits)
  then show ?thesis by (auto simp: remaining_def intro!: filter_cong)
qed

lemma remaining_descending:
  assumes "distinct (map job_id (db_rows d))"
  shows "descending (remaining d status statuses after)"
  using listing_descending [OF assms] by (simp add: descending_def remaining_def sorted_wrt_filter)

text \<open>A loop that has examined \<open>ex\<close> and stands before \<open>rest\<close> ends with a page that is exact for both.\<close>

lemma scan_loop_exact:
  assumes "descending (ex @ rest)" "scanned P limit ex s" "1 \<le> budget" "0 < chunk" "statuses \<noteq> Some []"
    and "\<And>j ok. permitted j = Inr ok \<Longrightarrow> ok = P j"
    and "remaining d status statuses position = rest"
    and "scan_loop d permitted status statuses limit budget chunk position s = Some (Inr page)"
  shows "page_exact P limit (ex @ rest) page"
  using assms
proof (induction "length rest" arbitrary: ex rest s chunk position rule: less_induct)
  case less
  note loop = less.prems(8) [unfolded scan_loop.simps [of d permitted status statuses limit budget chunk position s]]
  from loop obtain rows where rows: "list_page d chunk status statuses position = Inr rows"
    by (cases "list_page d chunk status statuses position") simp_all
  then have take: "rows = take chunk rest" using list_page_remaining [OF rows] less.prems(5,7) by simp
  then have rest: "rest = rows @ drop chunk rest" by simp
  from loop rows obtain b where b: "scan_rows permitted limit budget rows s = Inr b"
    by (cases "scan_rows permitted limit budget rows s") simp_all
  have D: "descending (ex @ rows @ drop chunk rest)" using less.prems(1) rest by simp
  note chunk = scan_rows_exact [OF D less.prems(2,3,6) b]
  show ?case
  proof (cases b)
    case (Inl p)
    then show ?thesis using chunk loop rows b rest by simp
  next
    case (Inr s')
    with chunk have s': "scanned P limit (ex @ rows) s'" by simp
    show ?thesis
    proof (cases "length rows < chunk")
      case True
      then have "drop chunk rest = []" "rest = rows" using take rest by auto
      then show ?thesis using end_page_exact [of P limit "ex @ rest" s'] s' loop rows b Inr True by simp
    next
      case False
      with less.prems(4) have ne: "rows \<noteq> []" by auto
      then have "last rows \<in> set rest" using take by (metis in_set_takeD last_in_set)
      then have next': "remaining d status statuses (Some (scan_position (last rows))) = drop chunk rest"
        using remaining_below [of "last rows" d status statuses position] less.prems(7)
          position_below [of "[]" rows "drop chunk rest"] D rest ne
        by (simp add: descending_def sorted_wrt_append)
      have "length (drop chunk rest) < length rest" using less.prems(4) ne take by (cases rest) auto
      moreover have "descending ((ex @ rows) @ drop chunk rest)" using D by simp
      moreover have "scan_loop d permitted status statuses limit budget (COLLECTION_SCAN_CHUNK + 1)
          (Some (scan_position (last rows))) s' = Some (Inr page)"
        using loop rows b Inr False by simp
      ultimately show ?thesis
        using less.hyps [of "drop chunk rest" "ex @ rows" s' "COLLECTION_SCAN_CHUNK + 1"] s' less.prems(3,5,6) next' rest
        by (metis append.assoc zero_less_Suc Suc_eq_plus1)
    qed
  qed
qed

text \<open>C19: A page of a scoped collection is exact. Over a table with distinct job ids, the rows of the page
  followed by the permitted rows after its cursor are all the permitted rows that remained, in the
  listing's order: nothing is lost, repeated or leaked between pages, whichever of its limit, its
  budget and the end of the table stopped the scan. The page is within its limit, and its cursor names
  a row of the page or no row at all.\<close>

theorem scoped_page_exact:
  assumes "distinct (map job_id (db_rows d))" "statuses \<noteq> Some []"
    and "scoped_scan sv d who action limit status statuses after = Some (Inr page)"
  shows "page_exact (\<lambda>j. job_resource_permitted sv who action j = Inr True) limit
    (remaining d status statuses after) page"
proof -
  let ?P = "\<lambda>j. job_resource_permitted sv who action j = Inr True"
  have "page_exact ?P limit ([] @ remaining d status statuses after) page"
  proof (rule scan_loop_exact [OF _ scanned_start _ _ assms(2) _ refl])
    show "scan_loop d (job_resource_permitted sv who action) status statuses limit
        (max (sv_budget sv) (limit + 1)) (limit + 1) after start_scan = Some (Inr page)"
      using assms(3) by (simp add: scoped_scan_def)
  qed (use remaining_descending [OF assms(1)] in auto)
  then show ?thesis by simp
qed

section \<open>A page of one section\<close>

definition scan_job :: "string \<Rightarrow> string \<Rightarrow> string \<Rightarrow> job" where
  "scan_job i created section = (paged_job i created)\<lparr>job_block := dict_of [(''section_id'', JStr section)]\<rparr>"

definition scan_db :: db where
  "scan_db = \<lparr>db_rows = [scan_job ''J1'' ''2026-09-09'' ''S2'', scan_job ''J3'' ''2026-09-10'' ''S1'',
     scan_job ''J2'' ''2026-09-10'' ''S2''], db_events = []\<rparr>"

definition section_policy :: policy where
  "section_policy = \<lparr>pol_enforcing = False, pol_authenticated = False, pol_authorize = (\<lambda>_ _. Inr ()),
     pol_authorize_resource = Some (\<lambda>a action l.
       if loc_section l = Some ''S2'' then Inr () else Inl (denied a action))\<rparr>"

definition scan_service :: service where
  "scan_service = \<lparr>sv_policy = section_policy, sv_corridor = ''C'', sv_horizon = 10080, sv_budget = 1,
     sv_sla = ASSUMED_DEMO_SLA_POLICY, sv_runs = []\<rparr>"

lemma scan_page: "list_page scan_db 2 None None None =
    Inr [scan_job ''J3'' ''2026-09-10'' ''S1'', scan_job ''J2'' ''2026-09-10'' ''S2'']"
  and scan_page_after: "list_page scan_db 201 None None (Some (''2026-09-10'', ''J2'')) =
    Inr [scan_job ''J1'' ''2026-09-09'' ''S2'']"
  by (simp_all add: list_page_def scan_db_def scan_job_def paged_job_def page_key_def Let_def)

lemma scan_section:
  "s = ''S1'' \<or> s = ''S2'' \<Longrightarrow> resource_section (job_resource (scan_job i created s)) = Some s"
  by (auto simp: resource_section_def section_source_def job_resource_def scan_job_def dict_of_def Let_def
      strip_def is_space_def of_char_def)

lemma scan_permitted:
  "s = ''S1'' \<or> s = ''S2'' \<Longrightarrow>
   job_resource_permitted scan_service unidentified_actor READ_JOB (scan_job i created s) = Inr (s = ''S2'')"
  by (simp add: job_resource_permitted_def authorize_job_resource_def job_location scan_section
      authorize_resource_def scan_service_def section_policy_def denied_def)

lemma scan_run:
  "scoped_scan scan_service scan_db unidentified_actor READ_JOB 1 None None None =
     Some (Inr \<lparr>pg_items = [scan_job ''J2'' ''2026-09-10'' ''S2''], pg_next = Some (''2026-09-10'', ''J2'')\<rparr>)"
proof -
  have j: "job_created_at (scan_job i created s) = created" "job_id (scan_job i created s) = i" for i created s
    by (simp_all add: scan_job_def paged_job_def)
  have b: "sv_budget scan_service = 1" by (simp add: scan_service_def)
  show ?thesis
    unfolding scoped_scan_def start_scan_def
    by (subst scan_loop.simps, simp add: scan_page [unfolded numeral_2_eq_2] scan_permitted j b
        COLLECTION_TIE_CEILING_def COLLECTION_SCAN_CHUNK_def scan_position_def)
      (subst scan_loop.simps, simp add: scan_page_after scan_permitted j scan_position_def
        COLLECTION_TIE_CEILING_def scan_boundary_def)
qed

lemma scoped_page_exact_witness:
  "page_exact (\<lambda>j. job_resource_permitted scan_service unidentified_actor READ_JOB j = Inr True) 1
     (remaining scan_db None None None)
     \<lparr>pg_items = [scan_job ''J2'' ''2026-09-10'' ''S2''], pg_next = Some (''2026-09-10'', ''J2'')\<rparr>"
  by (rule scoped_page_exact [OF _ _ scan_run]) (simp_all add: scan_db_def scan_job_def paged_job_def)

end
