(* ===== verification/Train_State.thy ===== *)
theory Train_State
  imports Section_Registry Moments
begin

text \<open>
  The canonical train state of \<^verbatim>\<open>backend/app/data/canonical_train.py\<close>: what every source of train
  data is converted into, and the corridor topology that names the sections a train runs
  through. The reason of a rejection is kept as the exception it prints.
\<close>

section \<open>Trains\<close>

definition REAL_SCHEDULED_TRAINS :: string where "REAL_SCHEDULED_TRAINS = ''REAL_SCHEDULED''"
definition SYNTHETIC_SCHEDULED_TRAINS :: string where "SYNTHETIC_SCHEDULED_TRAINS = ''SYNTHETIC_SCHEDULED''"

definition BASIS_SCHEDULED :: string where "BASIS_SCHEDULED = ''SCHEDULED''"
definition BASIS_OBSERVED :: string where "BASIS_OBSERVED = ''OBSERVED''"
definition BASIS_DELAYED :: string where "BASIS_DELAYED = ''SCHEDULED_PLUS_DELAY''"

definition DIRECT_STOP_PAIR :: string where "DIRECT_STOP_PAIR = ''DIRECT_STOP_PAIR''"
definition EXPANDED_LEG_SPAN :: string where "EXPANDED_LEG_SPAN = ''EXPANDED_LEG_SPAN''"

record traversal =
  trv_section :: string
  trv_track :: string
  trv_enter :: int
  trv_exit :: int
  trv_basis :: string
  trv_derivation :: string

definition make_traversal :: "traversal \<Rightarrow> traversal res" where
  "make_traversal v =
    (if CHR '':'' \<in> set (trv_track v) then Inl ValueError
     else if trv_exit v \<le> trv_enter v then Inl ValueError else Inr v)"

definition duration_minutes :: "traversal \<Rightarrow> int" where
  "duration_minutes v = trv_exit v - trv_enter v"

definition traversal_to_dict :: "traversal \<Rightarrow> dict" where
  "traversal_to_dict v = dict_of
     [(''section_id'', JStr (trv_section v)), (''track_id'', JStr (trv_track v)),
      (''enter_minute'', JInt (trv_enter v)), (''exit_minute'', JInt (trv_exit v)),
      (''basis'', JStr (trv_basis v)), (''derivation'', JStr (trv_derivation v))]"

record train_state =
  tst_number :: string
  tst_direction :: string
  tst_track :: string
  tst_traversals :: "traversal list"
  tst_observed_at :: "string option"
  tst_source :: string

definition make_train_state :: "train_state \<Rightarrow> train_state res" where
  "make_train_state t = (if CHR '':'' \<in> set (tst_track t) then Inl ValueError else Inr t)"

definition train_sections :: "train_state \<Rightarrow> string list" where
  "train_sections t = map trv_section (tst_traversals t)"

definition train_state_to_dict :: "train_state \<Rightarrow> dict" where
  "train_state_to_dict t = dict_of
     [(''train_number'', JStr (tst_number t)), (''direction'', JStr (tst_direction t)),
      (''track_id'', JStr (tst_track t)),
      (''traversals'', JArr (map (JObj \<circ> traversal_to_dict) (tst_traversals t))),
      (''observed_at'', json_of_str (tst_observed_at t)), (''source'', JStr (tst_source t))]"

record train_rejection =
  rej_number :: string
  rej_error :: py_error
  rej_sections :: "string list"
  rej_route_known :: bool

record train_snapshot =
  snp_trains :: "train_state list"
  snp_rejections :: "train_rejection list"
  snp_provenance :: string
  snp_observed_at :: "string option"

definition has_rejections :: "train_snapshot \<Rightarrow> bool" where
  "has_rejections sn \<longleftrightarrow> snp_rejections sn \<noteq> []"

section \<open>Topology\<close>

record corridor_topology =
  top_stations :: "string list"
  top_km :: "(string \<times> rat) list"

definition topology_from_stations :: "station list \<Rightarrow> corridor_topology res" where
  "topology_from_stations stations =
    (if length stations < 2 then Inl SectionTopologyError
     else
       let ordered = sort_key stn_km stations; ids = map stn_id ordered in
       if \<not> distinct ids then Inl SectionTopologyError
       else Inr \<lparr>top_stations = ids, top_km = map (\<lambda>s. (stn_id s, stn_km s)) ordered\<rparr>)"

text \<open>\<^verbatim>\<open>list.index\<close>\<close>

fun position :: "string \<Rightarrow> string list \<Rightarrow> nat option" where
  "position s [] = None"
| "position s (x # xs) = (if x = s then Some 0 else map_option Suc (position s xs))"

definition index_of :: "corridor_topology \<Rightarrow> string \<Rightarrow> nat res" where
  "index_of tp s = (case position s (top_stations tp) of None \<Rightarrow> Inl UnknownStationError | Some i \<Rightarrow> Inr i)"

definition section_id_between_adjacent :: "corridor_topology \<Rightarrow> string \<Rightarrow> string \<Rightarrow> string res" where
  "section_id_between_adjacent tp first second =
     bind_res (index_of tp first) (\<lambda>a.
     bind_res (index_of tp second) (\<lambda>b.
     let low = min a b; high = max a b in
     if high - low \<noteq> 1 then Inl SectionTopologyError
     else Inr (format_section_id (top_stations tp ! low) (top_stations tp ! high))))"

text \<open>\<^verbatim>\<open>range(start, end, step)\<close>, each position with the next one.\<close>

definition leg_positions :: "nat \<Rightarrow> nat \<Rightarrow> (nat \<times> nat) list" where
  "leg_positions a b =
    (if a < b then map (\<lambda>i. (i, i + 1)) [a..<b] else map (\<lambda>i. (i, i - 1)) (rev [b + 1..<a + 1]))"

definition sections_between :: "corridor_topology \<Rightarrow> string \<Rightarrow> string \<Rightarrow> string list res" where
  "sections_between tp from toward =
     bind_res (index_of tp from) (\<lambda>a.
     bind_res (index_of tp toward) (\<lambda>b.
     if a = b then Inl SectionTopologyError
     else map_res (\<lambda>(i, j). section_id_between_adjacent tp (top_stations tp ! i) (top_stations tp ! j))
            (leg_positions a b)))"

definition all_section_ids :: "corridor_topology \<Rightarrow> string list" where
  "all_section_ids tp =
     map (\<lambda>i. format_section_id (top_stations tp ! i) (top_stations tp ! (i + 1))) [0..<length (top_stations tp) - 1]"

section \<open>Facts\<close>

lemma position_Some: "position s xs = Some i \<Longrightarrow> i < length xs \<and> xs ! i = s"
  by (induction xs arbitrary: i) (auto split: if_splits)

lemma position_nth: "distinct xs \<Longrightarrow> i < length xs \<Longrightarrow> position (xs ! i) xs = Some i"
proof (induction xs arbitrary: i)
  case (Cons x xs)
  then show ?case by (cases i) auto
qed simp

lemma position_None [simp]: "position s xs = None \<longleftrightarrow> s \<notin> set xs"
  by (induction xs) auto

lemma index_of_Inr: "index_of tp s = Inr i \<Longrightarrow> i < length (top_stations tp) \<and> top_stations tp ! i = s"
  by (auto simp: index_of_def position_Some split: option.splits)

lemma index_of_nth:
  "distinct (top_stations tp) \<Longrightarrow> i < length (top_stations tp) \<Longrightarrow> index_of tp (top_stations tp ! i) = Inr i"
  by (simp add: index_of_def position_nth)

lemma topology_distinct: "topology_from_stations ss = Inr tp \<Longrightarrow> distinct (top_stations tp)"
  by (auto simp: topology_from_stations_def Let_def split: if_splits)

abbreviation nth_section :: "corridor_topology \<Rightarrow> nat \<Rightarrow> string" where
  "nth_section tp i \<equiv> format_section_id (top_stations tp ! i) (top_stations tp ! Suc i)"

lemma adjacent_section:
  assumes "distinct (top_stations tp)" "Suc i < length (top_stations tp)"
  shows "section_id_between_adjacent tp (top_stations tp ! i) (top_stations tp ! Suc i) = Inr (nth_section tp i)"
    "section_id_between_adjacent tp (top_stations tp ! Suc i) (top_stations tp ! i) = Inr (nth_section tp i)"
  using assms by (simp_all add: section_id_between_adjacent_def index_of_nth)

lemma map_res_Inr_map: "(\<And>x. x \<in> set xs \<Longrightarrow> f x = Inr (g x)) \<Longrightarrow> map_res f xs = Inr (map g xs)"
  by (induction xs) auto

text \<open>A leg crosses exactly the sections between its two stations, whichever way it runs.\<close>

lemma sections_between_index:
  assumes "distinct (top_stations tp)" "index_of tp from = Inr a" "index_of tp toward = Inr b" "a \<noteq> b"
  shows "sections_between tp from toward =
    Inr (if a < b then map (nth_section tp) [a..<b] else map (nth_section tp) (rev [b..<a]))"
proof -
  have n: "a < length (top_stations tp)" "b < length (top_stations tp)"
    using assms(2,3) by (auto dest: index_of_Inr)
  show ?thesis
  proof (cases "a < b")
    case True
    then have "map_res (\<lambda>(i, j). section_id_between_adjacent tp (top_stations tp ! i) (top_stations tp ! j))
        (leg_positions a b) = Inr (map (nth_section tp \<circ> fst) (leg_positions a b))"
      using n assms(1) by (intro map_res_Inr_map) (auto simp: leg_positions_def adjacent_section)
    with True assms(2-4) show ?thesis by (simp add: sections_between_def leg_positions_def)
  next
    case False
    then have "map_res (\<lambda>(i, j). section_id_between_adjacent tp (top_stations tp ! i) (top_stations tp ! j))
        (leg_positions a b) = Inr (map (nth_section tp \<circ> snd) (leg_positions a b))"
    proof (intro map_res_Inr_map, clarify)
      fix i j assume "(i, j) \<in> set (leg_positions a b)"
      with False obtain k where "i = Suc k" "j = k" "k < a" "b \<le> k"
        by (cases i) (auto simp: leg_positions_def)
      with n assms(1) show "section_id_between_adjacent tp (top_stations tp ! i) (top_stations tp ! j)
          = Inr ((nth_section tp \<circ> snd) (i, j))"
        by (simp add: adjacent_section)
    qed
    moreover have "map (nth_section tp \<circ> snd) (leg_positions a b) = map (nth_section tp) (rev [b..<a])"
    proof -
      have "map (\<lambda>i. i - 1) [b + 1..<a + 1] = [b..<a]"
        by (rule nth_equalityI) (auto simp del: upt_Suc)
      moreover have "map (nth_section tp \<circ> snd) (leg_positions a b)
          = rev (map (nth_section tp) (map (\<lambda>i. i - 1) [b + 1..<a + 1]))"
        using False by (simp add: leg_positions_def rev_map comp_def del: upt_Suc)
      ultimately show ?thesis by (simp add: rev_map del: upt_Suc)
    qed
    ultimately show ?thesis using False assms(2-4) by (simp add: sections_between_def)
  qed
qed

lemma sections_between_set:
  assumes "distinct (top_stations tp)" "index_of tp from = Inr a" "index_of tp toward = Inr b" "a \<noteq> b"
  shows "\<exists>ss. sections_between tp from toward = Inr ss \<and> ss \<noteq> [] \<and> set ss = nth_section tp ` {min a b..<max a b}"
  using sections_between_index [OF assms] assms(4) by (auto simp: min_def max_def)

lemma sections_between_Inr:
  assumes "distinct (top_stations tp)" "sections_between tp from toward = Inr ss"
  obtains a b where "index_of tp from = Inr a" "index_of tp toward = Inr b" "a \<noteq> b"
    "set ss = nth_section tp ` {min a b..<max a b}"
proof -
  from assms(2) obtain a b where ab: "index_of tp from = Inr a" "index_of tp toward = Inr b" "a \<noteq> b"
    by (auto simp: sections_between_def bind_res_Inr_iff split: if_splits)
  with sections_between_set [OF assms(1) ab] assms(2) that [OF ab] show ?thesis by auto
qed

lemma all_section_ids_set:
  "set (all_section_ids tp) = nth_section tp ` {i. Suc i < length (top_stations tp)}"
  by (auto simp: all_section_ids_def)

lemma nth_section_listed: "Suc i < length (top_stations tp) \<Longrightarrow> nth_section tp i \<in> set (all_section_ids tp)"
  by (auto simp: all_section_ids_set)

end
