(* ===== verification/Timetable.thy ===== *)
theory Timetable
  imports Train_State "HOL-Library.Product_Lexorder"
begin

text \<open>
  Conversion of timetable records into train states: the first half of
  \<^verbatim>\<open>backend/app/data/timetable_adapter.py\<close>. A record is a typed view of the JSON object a dataset
  holds: an absent key and a stored \<^verbatim>\<open>None\<close> are both \<open>None\<close>, text fields hold text and day offsets and
  delays hold integers. Prose of the refusals is not modelled.
\<close>

section \<open>Records\<close>

record train_stop =
  stp_station :: "string option"
  stp_scheduled_arrival :: "string option"
  stp_scheduled_departure :: "string option"
  stp_actual_arrival :: "string option"
  stp_actual_departure :: "string option"
  stp_arrival_day :: "int option"
  stp_departure_day :: "int option"

record train_record =
  trn_number :: "string option"
  trn_no :: "string option"
  trn_track_assignment :: "string option"
  trn_track :: "string option"
  trn_stops :: "train_stop list"
  trn_route :: "string list"
  trn_service_date :: "string option"
  trn_delay :: "int option"
  trn_direction :: "string option"

record conversion =
  cv_prefer_actual :: bool
  cv_max_rollover_days :: int
  cv_max_leg_minutes :: int
  cv_provenance :: string
  cv_observed_at :: "string option"
  cv_horizon_start :: "moment_ref option"

definition DEFAULT_SAFETY_BUFFER_MINUTES :: int where "DEFAULT_SAFETY_BUFFER_MINUTES = 10"
definition DEFAULT_MINIMUM_WINDOW_MINUTES :: int where "DEFAULT_MINIMUM_WINDOW_MINUTES = 20"
definition DEFAULT_MAX_ROLLOVER_DAYS :: int where "DEFAULT_MAX_ROLLOVER_DAYS = 1"
definition DEFAULT_MAX_LEG_MINUTES :: int where "DEFAULT_MAX_LEG_MINUTES = 12 * 60"

text \<open>\<^verbatim>\<open>a or b\<close> on optional text: empty text counts as absent.\<close>

definition text_or :: "string option \<Rightarrow> string option \<Rightarrow> string option" where
  "text_or a b = (if a \<noteq> None \<and> a \<noteq> Some [] then a else b)"

definition require_nonempty :: "string option \<Rightarrow> string res" where
  "require_nonempty a = (case a of None \<Rightarrow> Inl TimetableConversionError
     | Some s \<Rightarrow> if s = [] then Inl TimetableConversionError else Inr s)"

section \<open>Clock times\<close>

text \<open>\<^verbatim>\<open>int(text)\<close> of ASCII text: blanks around, a sign, digits with single underscores between.\<close>

definition is_blank :: "char \<Rightarrow> bool" where
  "is_blank c \<longleftrightarrow> (let n = (of_char c :: nat) in (9 \<le> n \<and> n \<le> 13) \<or> n = 32)"

definition parse_int :: "string \<Rightarrow> int option" where
  "parse_int s =
    (let t = rev (dropWhile is_blank (rev (dropWhile is_blank s)));
         signed = (t \<noteq> [] \<and> hd t \<in> {CHR ''+'', CHR ''-''});
         u = (if signed then tl t else t) in
     if list_all (\<lambda>p. p \<noteq> [] \<and> list_all is_digit p) (split_on (CHR ''_'') u)
     then Some ((if signed \<and> hd t = CHR ''-'' then -1 else 1) * digits_value (filter is_digit u))
     else None)"

definition parse_clock_minutes :: "string \<Rightarrow> int res" where
  "parse_clock_minutes value =
    (case split_on (CHR '':'') (strip value) of
       [hours_raw, minutes_raw] \<Rightarrow>
        (case (parse_int hours_raw, parse_int minutes_raw) of
           (Some hours, Some minutes) \<Rightarrow>
             if \<not> (0 \<le> hours \<and> hours \<le> 23) \<or> \<not> (0 \<le> minutes \<and> minutes \<le> 59)
             then Inl TimetableConversionError else Inr (hours * 60 + minutes)
         | _ \<Rightarrow> Inl TimetableConversionError)
     | _ \<Rightarrow> Inl TimetableConversionError)"

section \<open>Midnight rollover\<close>

text \<open>One turn of the loop: the day offset and the minute of the next event.\<close>

definition next_minute :: "int \<Rightarrow> int \<Rightarrow> int \<Rightarrow> int \<Rightarrow> int \<Rightarrow> (int \<times> int) res" where
  "next_minute max_rollover_days max_step day previous raw =
    (let candidate = raw + day * MINUTES_PER_DAY in
     bind_res
      (if candidate < previous then
         if max_rollover_days < day + 1 then Inl TimetableConversionError
         else Inr (day + 1, raw + (day + 1) * MINUTES_PER_DAY)
       else Inr (day, candidate)) (\<lambda>(day', candidate').
     if candidate' < previous then Inl TimetableConversionError
     else if max_step < candidate' - previous then Inl TimetableConversionError
     else Inr (day', candidate')))"

fun resolve_rest :: "int \<Rightarrow> int \<Rightarrow> int \<Rightarrow> int \<Rightarrow> int list \<Rightarrow> int list res" where
  "resolve_rest max_rollover_days max_step day previous [] = Inr []"
| "resolve_rest max_rollover_days max_step day previous (raw # rest) =
     bind_res (next_minute max_rollover_days max_step day previous raw) (\<lambda>(day', minute).
     bind_res (resolve_rest max_rollover_days max_step day' minute rest) (\<lambda>ms. Inr (minute # ms)))"

definition resolve_absolute_minutes :: "int list \<Rightarrow> int \<Rightarrow> int \<Rightarrow> int list res" where
  "resolve_absolute_minutes clocks max_rollover_days max_step =
    (if max_rollover_days < 0 then Inl ValueError
     else case clocks of [] \<Rightarrow> Inr []
     | raw # rest \<Rightarrow>
         bind_res (resolve_rest max_rollover_days max_step 0 raw rest) (\<lambda>ms. Inr (raw # ms)))"

section \<open>Stops\<close>

definition stop_station_id :: "train_stop \<Rightarrow> string res" where
  "stop_station_id s = require_nonempty (stp_station s)"

definition read_time :: "bool \<Rightarrow> string option \<Rightarrow> string option \<Rightarrow> (int option \<times> bool) res" where
  "read_time prefer_actual actual scheduled =
    (if prefer_actual \<and> actual \<noteq> None \<and> actual \<noteq> Some []
     then bind_res (parse_clock_minutes (the actual)) (\<lambda>m. Inr (Some m, True))
     else if scheduled \<noteq> None \<and> scheduled \<noteq> Some []
     then bind_res (parse_clock_minutes (the scheduled)) (\<lambda>m. Inr (Some m, False))
     else Inr (None, False))"

definition stop_clock_pair :: "bool \<Rightarrow> train_stop \<Rightarrow> (int \<times> int \<times> string) res" where
  "stop_clock_pair prefer_actual s =
     bind_res (read_time prefer_actual (stp_actual_arrival s) (stp_scheduled_arrival s)) (\<lambda>(arrival, a).
     bind_res (read_time prefer_actual (stp_actual_departure s) (stp_scheduled_departure s)) (\<lambda>(departure, b).
     if arrival = None \<and> departure = None then Inl TimetableConversionError
     else Inr (case arrival of Some m \<Rightarrow> m | None \<Rightarrow> the departure,
               case departure of Some m \<Rightarrow> m | None \<Rightarrow> the arrival,
               if a \<or> b then BASIS_OBSERVED else BASIS_SCHEDULED)))"

section \<open>One train\<close>

text \<open>Arrivals and departures interleaved, each with its declared day offset.\<close>

definition clock_sequence :: "(int \<times> int \<times> string) list \<Rightarrow> int list" where
  "clock_sequence pairs = concat (map (\<lambda>(a, d, b). [a, d]) pairs)"

definition explicit_day_offsets :: "train_stop list \<Rightarrow> int option list" where
  "explicit_day_offsets stops = concat (map (\<lambda>s. [stp_arrival_day s, stp_departure_day s]) stops)"

definition inferred_day_offsets :: "int list \<Rightarrow> int list \<Rightarrow> int list" where
  "inferred_day_offsets resolved clocks = map2 (\<lambda>r c. (r - c) div MINUTES_PER_DAY) resolved clocks"

definition check_day_offsets :: "int option list \<Rightarrow> int list \<Rightarrow> unit res" where
  "check_day_offsets declared inferred =
     each_res (\<lambda>(e, i). if e \<noteq> None \<and> e \<noteq> Some i then Inl TimetableConversionError else Inr ())
       (zip declared inferred)"

text \<open>Relative to the horizon when there is one; an anchor error is reported for the train.\<close>

definition anchor_minutes ::
  "conversion \<Rightarrow> string option \<Rightarrow> int list \<Rightarrow> int list \<Rightarrow> int list \<Rightarrow> int list res" where
  "anchor_minutes cv service_date clocks inferred resolved =
    (case cv_horizon_start cv of None \<Rightarrow> Inr resolved
     | Some h \<Rightarrow>
        (case service_date of None \<Rightarrow> Inl TimetableConversionError
         | Some date \<Rightarrow>
            (case map_res (\<lambda>(c, i). horizon_relative_minutes (Date_text date) c i h) (zip clocks inferred) of
               Inl e \<Rightarrow> Inl (if e = ValueError then TimetableConversionError else e)
             | Inr ms \<Rightarrow> Inr ms)))"

definition observed_basis :: "string list \<Rightarrow> int \<Rightarrow> string" where
  "observed_basis bases delay =
    (if BASIS_OBSERVED \<in> set bases then BASIS_OBSERVED
     else if delay \<noteq> 0 then BASIS_DELAYED else BASIS_SCHEDULED)"

type_synonym leg = "(string \<times> string) \<times> int \<times> int"

definition leg_traversals :: "corridor_topology \<Rightarrow> string \<Rightarrow> string \<Rightarrow> leg \<Rightarrow> traversal list res" where
  "leg_traversals tp track basis = (\<lambda>((from, toward), start, end).
     if end \<le> start then Inl TimetableConversionError
     else bind_res (sections_between tp from toward) (\<lambda>ss.
       let derivation = (if length ss = 1 then DIRECT_STOP_PAIR else EXPANDED_LEG_SPAN) in
       map_res (\<lambda>s. make_traversal \<lparr>trv_section = s, trv_track = track, trv_enter = start, trv_exit = end,
                     trv_basis = basis, trv_derivation = derivation\<rparr>) ss))"

definition departure_at :: "int list \<Rightarrow> nat \<Rightarrow> int" where "departure_at ms i = ms ! (i * 2 + 1)"
definition arrival_at :: "int list \<Rightarrow> nat \<Rightarrow> int" where "arrival_at ms i = ms ! (i * 2)"

definition legs_of :: "string list \<Rightarrow> int list \<Rightarrow> leg list" where
  "legs_of ids ms =
     map (\<lambda>i. ((ids ! i, ids ! (i + 1)), departure_at ms i, arrival_at ms (i + 1))) [0..<length ids - 1]"

definition train_number_of :: "train_record \<Rightarrow> string res" where
  "train_number_of r = require_nonempty (text_or (trn_number r) (trn_no r))"

definition track_of :: "train_record \<Rightarrow> string res" where
  "track_of r = require_nonempty (text_or (trn_track_assignment r) (trn_track r))"

definition station_ids_of :: "corridor_topology \<Rightarrow> train_record \<Rightarrow> string list res" where
  "station_ids_of tp r =
    (if length (trn_stops r) < 2 then Inl TimetableConversionError
     else bind_res (map_res stop_station_id (trn_stops r)) (\<lambda>ids.
       bind_res (map_res (index_of tp) ids) (\<lambda>_.
       if \<not> distinct ids then Inl TimetableConversionError else Inr ids)))"

text \<open>The minutes of the events of a train, with the basis they are stated on.\<close>

definition event_minutes :: "conversion \<Rightarrow> train_record \<Rightarrow> (int list \<times> string) res" where
  "event_minutes cv r =
     bind_res (map_res (stop_clock_pair (cv_prefer_actual cv)) (trn_stops r)) (\<lambda>pairs.
     let clocks = clock_sequence pairs in
     bind_res (resolve_absolute_minutes clocks (cv_max_rollover_days cv) (cv_max_leg_minutes cv)) (\<lambda>resolved.
     let inferred = inferred_day_offsets resolved clocks in
     bind_res (check_day_offsets (explicit_day_offsets (trn_stops r)) inferred) (\<lambda>_.
     bind_res (anchor_minutes cv (trn_service_date r) clocks inferred resolved) (\<lambda>ms.
     let delay = (case trn_delay r of None \<Rightarrow> 0 | Some d \<Rightarrow> d);
         basis = observed_basis (map (snd \<circ> snd) pairs) delay;
         shift = (if basis = BASIS_OBSERVED then 0 else delay)
     in Inr (map (\<lambda>m. m + shift) ms, basis)))))"

definition convert_train :: "conversion \<Rightarrow> corridor_topology \<Rightarrow> train_record \<Rightarrow> train_state res" where
  "convert_train cv tp r =
     bind_res (train_number_of r) (\<lambda>number.
     bind_res (track_of r) (\<lambda>track.
     bind_res (station_ids_of tp r) (\<lambda>ids.
     bind_res (event_minutes cv r) (\<lambda>(ms, basis).
     bind_res (map_res (leg_traversals tp track basis) (legs_of ids ms)) (\<lambda>vs.
     make_train_state
       \<lparr>tst_number = number, tst_direction = (case trn_direction r of None \<Rightarrow> [] | Some d \<Rightarrow> d),
        tst_track = track, tst_traversals = concat vs, tst_observed_at = cv_observed_at cv,
        tst_source = cv_provenance cv\<rparr>)))))"

section \<open>A whole timetable\<close>

definition distinct_keys :: "string list \<Rightarrow> string list" where
  "distinct_keys xs = rev (remdups (rev xs))"

definition route_section_ids :: "corridor_topology \<Rightarrow> string list \<Rightarrow> string list res" where
  "route_section_ids tp ids =
     bind_res (map_res (\<lambda>(a, b). sections_between tp a b) (zip ids (tl ids))) (\<lambda>ss.
     Inr (distinct_keys (concat ss)))"

definition declared_route :: "train_record \<Rightarrow> string list res" where
  "declared_route r =
     bind_res (map_res stop_station_id (trn_stops r)) (\<lambda>ids. Inr (if ids \<noteq> [] then ids else trn_route r))"

text \<open>The sections a rejected train may have touched, and whether its route is known.\<close>

definition affected_sections :: "corridor_topology \<Rightarrow> train_record \<Rightarrow> string list \<times> bool" where
  "affected_sections tp r =
    (case bind_res (declared_route r) (\<lambda>ids.
            if length ids < 2 then Inr ([], False)
            else bind_res (route_section_ids tp ids) (\<lambda>ss. Inr (ss, True))) of
       Inl e \<Rightarrow> ([], False) | Inr x \<Rightarrow> x)"

definition rejectable :: "py_error \<Rightarrow> bool" where
  "rejectable e \<longleftrightarrow> e = TimetableConversionError \<or> e = UnknownStationError \<or> e = SectionTopologyError"

definition identifier_of :: "train_record \<Rightarrow> string" where
  "identifier_of r = (case text_or (trn_number r) (text_or (trn_no r) (Some ''UNKNOWN'')) of Some s \<Rightarrow> s)"

definition reject_train :: "corridor_topology \<Rightarrow> train_record \<Rightarrow> py_error \<Rightarrow> train_rejection" where
  "reject_train tp r e =
    (case affected_sections tp r of (ss, known) \<Rightarrow>
       \<lparr>rej_number = identifier_of r, rej_error = e, rej_sections = ss, rej_route_known = known\<rparr>)"

fun convert_records ::
  "conversion \<Rightarrow> corridor_topology \<Rightarrow> train_record list \<Rightarrow> (train_state list \<times> train_rejection list) res" where
  "convert_records cv tp [] = Inr ([], [])"
| "convert_records cv tp (r # rs) =
    (case convert_train cv tp r of
       Inr t \<Rightarrow> bind_res (convert_records cv tp rs) (\<lambda>(ts, js). Inr (t # ts, js))
     | Inl e \<Rightarrow>
        if rejectable e
        then bind_res (convert_records cv tp rs) (\<lambda>(ts, js). Inr (ts, reject_train tp r e # js))
        else Inl e)"

definition convert_timetable :: "conversion \<Rightarrow> corridor_topology \<Rightarrow> train_record list \<Rightarrow> train_snapshot res" where
  "convert_timetable cv tp rs =
     bind_res (convert_records cv tp rs) (\<lambda>(ts, js).
     Inr \<lparr>snp_trains = ts, snp_rejections = js, snp_provenance = cv_provenance cv,
          snp_observed_at = cv_observed_at cv\<rparr>)"

end
