(* ===== verification/Possession_Windows.thy ===== *)
theory Possession_Windows
  imports Timetable Contracts
begin

text \<open>
  Possession windows from train states: the second half of
  \<^verbatim>\<open>backend/app/data/timetable_adapter.py\<close> and the provider boundary of
  \<^verbatim>\<open>backend/app/data/train_provider.py\<close>. A window is a gap between the buffered passages of the
  trains of one track and section; a section a rejected train may have touched has none.
\<close>

section \<open>Occupation\<close>

type_synonym resource_id = "string \<times> string"
type_synonym span = "int \<times> int"

fun add_span :: "resource_id \<Rightarrow> span \<Rightarrow> (resource_id \<times> span list) list \<Rightarrow> (resource_id \<times> span list) list" where
  "add_span k v [] = [(k, [v])]"
| "add_span k v ((k', vs) # m) = (if k' = k then (k', vs @ [v]) # m else (k', vs) # add_span k v m)"

definition add_traversal ::
  "int \<Rightarrow> traversal \<Rightarrow> (resource_id \<times> span list) list \<Rightarrow> (resource_id \<times> span list) list" where
  "add_traversal buffer v m =
    (let end = trv_exit v + buffer in
     if end \<le> 0 then m
     else add_span (trv_track v, trv_section v) (max 0 (trv_enter v - buffer), end) m)"

definition occupied_intervals_by_section :: "train_state list \<Rightarrow> int \<Rightarrow> (resource_id \<times> span list) list res" where
  "occupied_intervals_by_section trains buffer =
    (if buffer < 0 then Inl ValueError
     else Inr (map (\<lambda>(k, vs). (k, sort vs))
            (fold (add_traversal buffer) (concat (map tst_traversals trains)) [])))"

fun absorb :: "span \<Rightarrow> span list \<Rightarrow> span list" where
  "absorb p [] = [p]"
| "absorb (ps, pe) ((s, e) # rest) =
    (if s \<le> pe then absorb (ps, max pe e) rest else (ps, pe) # absorb (s, e) rest)"

definition merge_intervals :: "span list \<Rightarrow> span list" where
  "merge_intervals spans = (case sort spans of [] \<Rightarrow> [] | p # rest \<Rightarrow> absorb p rest)"

section \<open>Windows\<close>

definition withheld_section_ids :: "train_snapshot \<Rightarrow> corridor_topology \<Rightarrow> string list" where
  "withheld_section_ids sn tp =
    (if list_all (\<lambda>j. rej_route_known j \<and> rej_sections j \<noteq> []) (snp_rejections sn)
     then concat (map rej_sections (snp_rejections sn)) else all_section_ids tp)"

text \<open>\<^verbatim>\<open>f"{n:03d}"\<close>\<close>

fun decimal :: "nat \<Rightarrow> string" where
  "decimal n = (if n < 10 then [digit_char (int n)] else decimal (n div 10) @ [digit_char (int (n mod 10))])"

declare decimal.simps [simp del]

definition three_digits :: "nat \<Rightarrow> string" where
  "three_digits n = (let d = decimal n in replicate (3 - length d) (CHR ''0'') @ d)"

definition emit_window ::
  "int \<Rightarrow> resource_id \<Rightarrow> int \<Rightarrow> int \<Rightarrow> possession_window list \<Rightarrow> possession_window list" where
  "emit_window minimum k start end ws =
    (if end - start \<ge> minimum
     then ws @ [\<lparr>pw_id = ''POS-'' @ fst k @ ''-'' @ snd k @ ''-'' @ three_digits (length ws + 1),
                 pw_track = fst k, pw_start = start, pw_end = end, pw_section = Some (snd k),
                 pw_type = ''TRAIN_GAP''\<rparr>]
     else ws)"

fun emit_gaps ::
  "int \<Rightarrow> int \<Rightarrow> resource_id \<Rightarrow> int \<Rightarrow> span list \<Rightarrow> possession_window list \<Rightarrow> possession_window list" where
  "emit_gaps horizon minimum k cursor [] ws =
    (if horizon > cursor then emit_window minimum k cursor horizon ws else ws)"
| "emit_gaps horizon minimum k cursor ((s, e) # rest) ws =
    (let clipped_start = max 0 (min horizon s); clipped_end = max 0 (min horizon e) in
     emit_gaps horizon minimum k (max cursor clipped_end) rest
       (if clipped_start > cursor then emit_window minimum k cursor clipped_start ws else ws))"

definition derive_section_possession_windows ::
  "train_snapshot \<Rightarrow> corridor_topology \<Rightarrow> int \<Rightarrow> int \<Rightarrow> int \<Rightarrow> possession_window list res" where
  "derive_section_possession_windows sn tp horizon buffer minimum =
    (if horizon \<le> 0 then Inl ValueError
     else if minimum \<le> 0 then Inl ValueError
     else bind_res (occupied_intervals_by_section (snp_trains sn) buffer) (\<lambda>occupied.
       Inr (fold (\<lambda>(k, spans) ws.
              if snd k \<in> set (withheld_section_ids sn tp) then ws
              else emit_gaps horizon minimum k 0 (merge_intervals spans) ws)
            (sort_key fst occupied) [])))"

section \<open>The provider\<close>

record static_provider =
  prv_records :: "train_record list"
  prv_topology :: corridor_topology
  prv_conversion :: conversion

definition make_static_provider ::
  "train_record list \<Rightarrow> corridor_topology \<Rightarrow> string \<Rightarrow> moment_ref option \<Rightarrow> static_provider res" where
  "make_static_provider rs tp provenance horizon_start =
    (if provenance \<notin> {REAL_SCHEDULED_TRAINS, SYNTHETIC_SCHEDULED_TRAINS} then Inl ValueError
     else Inr \<lparr>prv_records = rs, prv_topology = tp, prv_conversion =
       \<lparr>cv_prefer_actual = True, cv_max_rollover_days = DEFAULT_MAX_ROLLOVER_DAYS,
        cv_max_leg_minutes = DEFAULT_MAX_LEG_MINUTES, cv_provenance = provenance,
        cv_observed_at = None, cv_horizon_start = horizon_start\<rparr>\<rparr>)"

definition fetch :: "static_provider \<Rightarrow> train_snapshot res" where
  "fetch p = convert_timetable (prv_conversion p) (prv_topology p) (prv_records p)"

definition validate_window :: "registry \<Rightarrow> possession_window \<Rightarrow> unit res" where
  "validate_window reg w =
    (case pw_section w of None \<Rightarrow> Inl SectionResolutionError
     | Some s \<Rightarrow>
        if s = [] then Inl SectionResolutionError
        else if CHR '':'' \<in> set (pw_track w) then Inl SectionResolutionError
        else if \<not> has_section reg s then Inl SectionResolutionError
        else bind_res (track_ids_for reg s) (\<lambda>serving.
          if serving \<noteq> [] \<and> pw_track w \<notin> set serving then Inl SectionResolutionError else Inr ()))"

definition validate_windows_against_registry :: "possession_window list \<Rightarrow> registry \<Rightarrow> unit res" where
  "validate_windows_against_registry ws reg = each_res (validate_window reg) ws"

definition possession_windows_from_provider ::
  "train_snapshot res \<Rightarrow> corridor_topology \<Rightarrow> int \<Rightarrow> int \<Rightarrow> int \<Rightarrow> registry option \<Rightarrow>
   (possession_window list \<times> train_snapshot) res" where
  "possession_windows_from_provider fetched tp horizon buffer minimum reg =
     bind_res fetched (\<lambda>sn.
     bind_res (derive_section_possession_windows sn tp horizon buffer minimum) (\<lambda>ws.
     bind_res (case reg of None \<Rightarrow> Inr () | Some r \<Rightarrow> validate_windows_against_registry ws r) (\<lambda>_.
     Inr (ws, sn))))"

end
