(* ===== verification/Timetable_Facts.thy ===== *)
theory Timetable_Facts
  imports Timetable
begin

text \<open>
  What the conversion of a timetable guarantees: the reading of day-less clock times is the only
  plausible one, a train occupies every section of every leg, and a train that could not be
  converted is accounted for by the sections it withholds.
\<close>

section \<open>Midnight rollover\<close>

text \<open>
  The reference: minutes that show the given clock times, begin on the first day, never go back,
  take no step longer than allowed and stay within the allowed days.
\<close>

definition chronology :: "int \<Rightarrow> int \<Rightarrow> int list \<Rightarrow> int list \<Rightarrow> bool" where
  "chronology max_days max_step clocks ms \<longleftrightarrow>
     map (\<lambda>m. m mod MINUTES_PER_DAY) ms = clocks \<and> take 1 ms = take 1 clocks \<and>
     successively (\<lambda>a b. a \<le> b \<and> b - a \<le> max_step) ms \<and>
     list_all (\<lambda>m. m div MINUTES_PER_DAY \<le> max_days) ms"

abbreviation clock_time :: "int \<Rightarrow> bool" where
  "clock_time c \<equiv> 0 \<le> c \<and> c < MINUTES_PER_DAY"

text \<open>One step: the offset day is the day of the previous minute, and only one later minute fits.\<close>

lemma next_minute_Inr:
  assumes "clock_time raw" "max_step < MINUTES_PER_DAY"
    and "day = previous div MINUTES_PER_DAY" "day \<le> max_days"
  shows "next_minute max_days max_step day previous raw = Inr (day', m) \<longleftrightarrow>
    m mod MINUTES_PER_DAY = raw \<and> previous \<le> m \<and> m - previous \<le> max_step \<and>
    m div MINUTES_PER_DAY \<le> max_days \<and> day' = m div MINUTES_PER_DAY"
proof -
  define p where "p = previous mod MINUTES_PER_DAY"
  have p: "previous = day * MINUTES_PER_DAY + p" "clock_time p"
    using assms(3) by (simp_all add: p_def MINUTES_PER_DAY_def)
  have read: "(day * MINUTES_PER_DAY + raw) div MINUTES_PER_DAY = day"
    "(day * MINUTES_PER_DAY + raw) mod MINUTES_PER_DAY = raw" for day
    using assms(1) by (simp_all add: MINUTES_PER_DAY_def)
  have only: "m = (if raw < p then (day + 1) * MINUTES_PER_DAY + raw else day * MINUTES_PER_DAY + raw)"
    if "m mod MINUTES_PER_DAY = raw" "previous \<le> m" "m - previous \<le> max_step"
  proof -
    define k where "k = m div MINUTES_PER_DAY"
    have m: "m = k * MINUTES_PER_DAY + raw" using that(1) div_mult_mod_eq [of m MINUTES_PER_DAY] by (simp add: k_def)
    from m that p assms(1,2) have "k = (if raw < p then day + 1 else day)"
      by (auto simp: MINUTES_PER_DAY_def)
    with m show ?thesis by simp
  qed
  show ?thesis
  proof (cases "raw < p")
    case True
    then have "next_minute max_days max_step day previous raw =
      (if max_days < day + 1 then Inl TimetableConversionError
       else if max_step < (day + 1) * MINUTES_PER_DAY + raw - previous then Inl TimetableConversionError
       else Inr (day + 1, (day + 1) * MINUTES_PER_DAY + raw))"
      using p assms(1) by (auto simp: next_minute_def Let_def algebra_simps)
    moreover have "previous \<le> (day + 1) * MINUTES_PER_DAY + raw"
      using p assms(1) by (simp add: algebra_simps)
    ultimately show ?thesis using True only read [of "day + 1"] by auto
  next
    case False
    then have "next_minute max_days max_step day previous raw =
      (if max_step < day * MINUTES_PER_DAY + raw - previous then Inl TimetableConversionError
       else Inr (day, day * MINUTES_PER_DAY + raw))"
      using p assms(1) by (auto simp: next_minute_def Let_def algebra_simps)
    moreover have "previous \<le> day * MINUTES_PER_DAY + raw" using p False by simp
    ultimately show ?thesis using False only read [of day] assms(4) by auto
  qed
qed

lemma resolve_rest_Inr:
  assumes "list_all clock_time clocks" "max_step < MINUTES_PER_DAY" "day \<le> max_days"
    and "day = previous div MINUTES_PER_DAY"
  shows "resolve_rest max_days max_step day previous clocks = Inr ms \<longleftrightarrow>
    map (\<lambda>m. m mod MINUTES_PER_DAY) ms = clocks \<and>
    successively (\<lambda>a b. a \<le> b \<and> b - a \<le> max_step) (previous # ms) \<and>
    list_all (\<lambda>m. m div MINUTES_PER_DAY \<le> max_days) ms"
  using assms
proof (induction clocks arbitrary: day previous ms)
  case (Cons raw clocks)
  have step: "next_minute max_days max_step day previous raw = Inr (day', m) \<longleftrightarrow>
      m mod MINUTES_PER_DAY = raw \<and> previous \<le> m \<and> m - previous \<le> max_step \<and>
      m div MINUTES_PER_DAY \<le> max_days \<and> day' = m div MINUTES_PER_DAY" for day' m
    using Cons.prems by (intro next_minute_Inr) auto
  have "resolve_rest max_days max_step day previous (raw # clocks) = Inr ms \<longleftrightarrow>
      (\<exists>m ms'. ms = m # ms' \<and> m mod MINUTES_PER_DAY = raw \<and> previous \<le> m \<and> m - previous \<le> max_step \<and>
         m div MINUTES_PER_DAY \<le> max_days \<and>
         resolve_rest max_days max_step (m div MINUTES_PER_DAY) m clocks = Inr ms')"
    by (auto simp: bind_res_Inr_iff step)
  also have "\<dots> \<longleftrightarrow> (\<exists>m ms'. ms = m # ms' \<and> m mod MINUTES_PER_DAY = raw \<and> previous \<le> m \<and>
      m - previous \<le> max_step \<and> m div MINUTES_PER_DAY \<le> max_days \<and>
      map (\<lambda>m. m mod MINUTES_PER_DAY) ms' = clocks \<and>
      successively (\<lambda>a b. a \<le> b \<and> b - a \<le> max_step) (m # ms') \<and>
      list_all (\<lambda>m. m div MINUTES_PER_DAY \<le> max_days) ms')"
    using Cons.prems Cons.IH by auto
  also have "\<dots> \<longleftrightarrow> map (\<lambda>m. m mod MINUTES_PER_DAY) ms = raw # clocks \<and>
      successively (\<lambda>a b. a \<le> b \<and> b - a \<le> max_step) (previous # ms) \<and>
      list_all (\<lambda>m. m div MINUTES_PER_DAY \<le> max_days) ms"
    by (cases ms) auto
  finally show ?case .
qed auto

lemma resolve_chronology:
  assumes "list_all clock_time clocks" "0 \<le> max_days" "max_step < MINUTES_PER_DAY"
  shows "resolve_absolute_minutes clocks max_days max_step = Inr ms \<longleftrightarrow> chronology max_days max_step clocks ms"
proof (cases clocks)
  case Nil
  with assms(2) show ?thesis by (auto simp: resolve_absolute_minutes_def chronology_def)
next
  case (Cons raw rest)
  with assms(1) have raw: "raw div MINUTES_PER_DAY = 0" "raw mod MINUTES_PER_DAY = raw"
    by (simp_all add: MINUTES_PER_DAY_def)
  have "resolve_absolute_minutes clocks max_days max_step = Inr ms \<longleftrightarrow>
      (\<exists>ms'. ms = raw # ms' \<and> resolve_rest max_days max_step 0 raw rest = Inr ms')"
    using assms(2) Cons by (auto simp: resolve_absolute_minutes_def bind_res_Inr_iff)
  also have "\<dots> \<longleftrightarrow> chronology max_days max_step clocks ms"
    using assms Cons raw by (cases ms) (auto simp: resolve_rest_Inr chronology_def)
  finally show ?thesis .
qed

text \<open>C7: The reading of a train's clock times across midnight is the only plausible one. When the
  longest allowed leg is shorter than a day, the resolver accepts a sequence of clock times exactly when
  there are minutes that show those times, begin on the first day, never go back, take no step longer
  than the allowed leg and stay within the allowed number of days, and it returns those minutes. A day passes
  only where a time is smaller than the one before: equal times, a stop without dwell, are the same minute of
  the same day.\<close>

theorem rollover_is_the_only_reading:
  assumes "list_all clock_time clocks" "0 \<le> max_days" "max_step < MINUTES_PER_DAY"
  shows "resolve_absolute_minutes clocks max_days max_step = Inr ms \<longleftrightarrow> chronology max_days max_step clocks ms"
  by (rule resolve_chronology [OF assms])

lemma rollover_is_the_only_reading_witness:
  "chronology DEFAULT_MAX_ROLLOVER_DAYS DEFAULT_MAX_LEG_MINUTES [1410, 1415, 270] [1410, 1415, 1710]"
  by (rule rollover_is_the_only_reading [THEN iffD1])
    (simp_all add: MINUTES_PER_DAY_def DEFAULT_MAX_ROLLOVER_DAYS_def DEFAULT_MAX_LEG_MINUTES_def
      resolve_absolute_minutes_def next_minute_def Let_def)

section \<open>Legs\<close>

lemma map_res_mem:
  "map_res f xs = Inr ys \<Longrightarrow> x \<in> set xs \<Longrightarrow> \<exists>y \<in> set ys. f x = Inr y"
  "map_res f xs = Inr ys \<Longrightarrow> y \<in> set ys \<Longrightarrow> \<exists>x \<in> set xs. f x = Inr y"
  by (force simp: map_res_Inr_iff list_all2_conv_all_nth in_set_conv_nth)+

lemma make_traversal_Inr [simp]:
  "make_traversal v = Inr w \<longleftrightarrow> w = v \<and> CHR '':'' \<notin> set (trv_track v) \<and> trv_enter v < trv_exit v"
  by (auto simp: make_traversal_def)

lemma convert_train_Inr:
  assumes "convert_train cv tp r = Inr t"
  obtains track ids ms basis vs where
    "track_of r = Inr track" "station_ids_of tp r = Inr ids" "event_minutes cv r = Inr (ms, basis)"
    "map_res (leg_traversals tp track basis) (legs_of ids ms) = Inr vs" "tst_traversals t = concat vs"
    "tst_track t = track"
  using assms by (auto simp: convert_train_def bind_res_Inr_iff make_train_state_def split: if_splits)

lemma station_ids_of_Inr:
  "station_ids_of tp r = Inr ids \<Longrightarrow> map_res stop_station_id (trn_stops r) = Inr ids \<and> distinct ids \<and> 2 \<le> length ids"
  by (auto simp: station_ids_of_def bind_res_Inr_iff map_res_Inr_iff dest!: list_all2_lengthD split: if_splits)

text \<open>Every passage of a converted train lasts some time, on the train's own track.\<close>

lemma converted_traversal:
  assumes "convert_train cv tp r = Inr t" "v \<in> set (tst_traversals t)"
  shows "trv_enter v < trv_exit v" "trv_track v = tst_track t"
proof -
  from assms(1) obtain track ids ms basis vs where
    c: "map_res (leg_traversals tp track basis) (legs_of ids ms) = Inr vs" "tst_traversals t = concat vs"
      "tst_track t = track" by (rule convert_train_Inr)
  with assms(2) obtain l ss x where "leg_traversals tp track basis l = Inr x" "v \<in> set x"
    by (auto dest: map_res_mem(2))
  then have "trv_enter v < trv_exit v \<and> trv_track v = track"
    by (cases l) (auto simp: leg_traversals_def bind_res_Inr_iff Let_def split: if_splits dest!: map_res_mem(2))
  with c(3) show "trv_enter v < trv_exit v" "trv_track v = tst_track t" by simp_all
qed

text \<open>No section of a leg is skipped, and each is occupied for the whole leg.\<close>

lemma leg_occupied:
  assumes "convert_train cv tp r = Inr t" "distinct (top_stations tp)"
    and "map_res stop_station_id (trn_stops r) = Inr ids" "i + 1 < length ids"
    and "index_of tp (ids ! i) = Inr a" "index_of tp (ids ! (i + 1)) = Inr b" "j \<in> {min a b..<max a b}"
  shows "\<exists>ms basis. event_minutes cv r = Inr (ms, basis) \<and> track_of r = Inr (tst_track t) \<and>
    (\<exists>v \<in> set (tst_traversals t). trv_section v = nth_section tp j \<and>
       trv_enter v = departure_at ms i \<and> trv_exit v = arrival_at ms (i + 1))"
proof -
  from assms(1) obtain track ids' ms basis vs where
    c: "track_of r = Inr track" "station_ids_of tp r = Inr ids'" "event_minutes cv r = Inr (ms, basis)"
      "map_res (leg_traversals tp track basis) (legs_of ids' ms) = Inr vs" "tst_traversals t = concat vs"
      "tst_track t = track" by (rule convert_train_Inr)
  have ids: "ids' = ids" using station_ids_of_Inr [OF c(2)] assms(3) by simp
  define l where "l = ((ids ! i, ids ! (i + 1)), departure_at ms i, arrival_at ms (i + 1))"
  have "l \<in> set (legs_of ids ms)" using assms(4) by (auto simp: legs_of_def l_def image_iff)
  with c(4) obtain x where x: "x \<in> set vs" "leg_traversals tp track basis l = Inr x"
    by (auto simp: ids dest: map_res_mem(1))
  from assms(7) have "a \<noteq> b" by auto
  with assms(2,5,6) obtain ss where ss: "sections_between tp (ids ! i) (ids ! (i + 1)) = Inr ss"
      "set ss = nth_section tp ` {min a b..<max a b}"
    using sections_between_set by blast
  then have "nth_section tp j \<in> set ss" using assms(7) by blast
  with x(2) ss(1) obtain v where "v \<in> set x" "trv_section v = nth_section tp j"
      "trv_enter v = departure_at ms i" "trv_exit v = arrival_at ms (i + 1)"
    by (auto simp: l_def leg_traversals_def Let_def split: if_splits dest!: map_res_mem(1))
  with x(1) c show ?thesis by auto
qed

section \<open>Batches\<close>

lemma convert_records_Inr:
  assumes "convert_records cv tp rs = Inr (ts, js)"
  shows "set ts = {t. \<exists>r \<in> set rs. convert_train cv tp r = Inr t}"
    "set js = {reject_train tp r e | r e. r \<in> set rs \<and> convert_train cv tp r = Inl e}"
    "\<forall>r \<in> set rs. \<forall>e. convert_train cv tp r = Inl e \<longrightarrow> rejectable e"
  using assms
proof (induction rs arbitrary: ts js)
  case (Cons r rs)
  {
    case 1
    with Cons.IH(1) show ?case by (cases "convert_train cv tp r") (auto simp: bind_res_Inr_iff split: if_splits)
  next
    case 2
    with Cons.IH(2) show ?case
      by (cases "convert_train cv tp r") (fastforce simp: bind_res_Inr_iff split: if_splits)+
  next
    case 3
    with Cons.IH(3) show ?case
      by (cases "convert_train cv tp r") (fastforce simp: bind_res_Inr_iff split: if_splits)+
  }
qed auto

text \<open>Every record of a fetched timetable is a converted train or a rejection.\<close>

lemma convert_timetable_Inr:
  assumes "convert_timetable cv tp rs = Inr sn" "r \<in> set rs"
  shows "(\<exists>t \<in> set (snp_trains sn). convert_train cv tp r = Inr t) \<or>
    (\<exists>e. convert_train cv tp r = Inl e \<and> rejectable e \<and> reject_train tp r e \<in> set (snp_rejections sn))"
proof -
  from assms(1) obtain ts js where c: "convert_records cv tp rs = Inr (ts, js)"
      "snp_trains sn = ts" "snp_rejections sn = js"
    by (auto simp: convert_timetable_def bind_res_Inr_iff)
  from convert_records_Inr [OF c(1)] assms(2) c(2,3) show ?thesis
    by (cases "convert_train cv tp r") auto
qed

lemma fetched_traversal:
  assumes "convert_timetable cv tp rs = Inr sn" "t \<in> set (snp_trains sn)" "v \<in> set (tst_traversals t)"
  shows "trv_enter v < trv_exit v"
proof -
  from assms(1) obtain ts js where c: "convert_records cv tp rs = Inr (ts, js)" "snp_trains sn = ts"
    by (auto simp: convert_timetable_def bind_res_Inr_iff)
  with convert_records_Inr(1) [OF c(1)] assms(2) obtain r where "convert_train cv tp r = Inr t" by auto
  then show ?thesis using assms(3) by (rule converted_traversal)
qed

lemma set_distinct_keys [simp]: "set (distinct_keys xs) = set xs"
  by (simp add: distinct_keys_def)

lemma affected_sections_leg:
  assumes "affected_sections tp r = (ss, True)" "distinct (top_stations tp)"
    and "map_res stop_station_id (trn_stops r) = Inr ids" "i + 1 < length ids"
    and "index_of tp (ids ! i) = Inr a" "index_of tp (ids ! (i + 1)) = Inr b" "j \<in> {min a b..<max a b}"
  shows "nth_section tp j \<in> set ss"
proof -
  from assms(3,4) have d: "declared_route r = Inr ids" by (auto simp: declared_route_def)
  from assms(4) have two: "\<not> length ids < 2" by simp
  from assms(1) d two obtain sss where s: "map_res (\<lambda>(a, b). sections_between tp a b) (zip ids (tl ids)) = Inr sss"
      "set ss = \<Union> (set ` set sss)"
    by (auto simp: affected_sections_def route_section_ids_def bind_res_Inr_iff split: sum.splits)
  from assms(4) have "(ids ! i, ids ! (i + 1)) \<in> set (zip ids (tl ids))"
    by (force simp: in_set_zip nth_tl)
  with s(1) obtain x where x: "x \<in> set sss" "sections_between tp (ids ! i) (ids ! (i + 1)) = Inr x"
    by (force dest: map_res_mem(1))
  from assms(7) have "a \<noteq> b" by auto
  with sections_between_set [OF assms(2,5,6)] x(2) assms(7) have "nth_section tp j \<in> set x" by auto
  with x(1) s(2) show ?thesis by auto
qed


section \<open>Where the conversion falls short\<close>

lemma delay_frame [simp]:
  "train_number_of (r\<lparr>trn_delay := x\<rparr>) = train_number_of r" "track_of (r\<lparr>trn_delay := x\<rparr>) = track_of r"
  "station_ids_of tp (r\<lparr>trn_delay := x\<rparr>) = station_ids_of tp r"
  by (simp_all add: train_number_of_def track_of_def station_ids_of_def)

text \<open>C24: One observed time silences the reported delay of the whole train: if any stop of a record
  states an actual time, the record converts to the same occupation whatever delay it reports, so the
  legs that have only scheduled times are placed as if the train ran on time.\<close>

theorem observed_stop_silences_delay:
  assumes "map_res (stop_clock_pair (cv_prefer_actual cv)) (trn_stops r) = Inr pairs"
    and "(a, d, BASIS_OBSERVED) \<in> set pairs"
  shows "convert_train cv tp (r\<lparr>trn_delay := Some late\<rparr>) = convert_train cv tp (r\<lparr>trn_delay := None\<rparr>)"
proof -
  have "BASIS_OBSERVED \<in> set (map (snd \<circ> snd) pairs)" using assms(2) by force
  then have "observed_basis (map (snd \<circ> snd) pairs) x = BASIS_OBSERVED" for x by (simp add: observed_basis_def)
  then show ?thesis using assms(1) by (simp add: convert_train_def event_minutes_def Let_def)
qed

definition ex_stop :: "string \<Rightarrow> string option \<Rightarrow> string option \<Rightarrow> train_stop" where
  "ex_stop s scheduled actual = \<lparr>stp_station = Some s, stp_scheduled_arrival = scheduled,
     stp_scheduled_departure = scheduled, stp_actual_arrival = None, stp_actual_departure = actual,
     stp_arrival_day = None, stp_departure_day = None\<rparr>"

definition ex_train :: train_record where
  "ex_train = \<lparr>trn_number = Some ''12951'', trn_no = None, trn_track_assignment = Some ''UP-1'', trn_track = None,
     trn_stops = [ex_stop ''NDLS'' (Some ''10:00'') (Some ''10:30''), ex_stop ''NZM'' (Some ''10:40'') None,
                  ex_stop ''FDB'' (Some ''11:00'') None],
     trn_route = [], trn_service_date = Some ''2026-09-10'', trn_delay = Some 30, trn_direction = Some ''UP''\<rparr>"

definition ex_conversion :: conversion where
  "ex_conversion = \<lparr>cv_prefer_actual = True, cv_max_rollover_days = DEFAULT_MAX_ROLLOVER_DAYS,
     cv_max_leg_minutes = DEFAULT_MAX_LEG_MINUTES, cv_provenance = SYNTHETIC_SCHEDULED_TRAINS, cv_observed_at = None,
     cv_horizon_start = Some (As_text ''2026-09-10T00:00:00+05:30'')\<rparr>"

definition ex_topology :: corridor_topology where
  "ex_topology = \<lparr>top_stations = [''NDLS'', ''NZM'', ''FDB''], top_km = [(''NDLS'', 0), (''NZM'', 7), (''FDB'', 28)]\<rparr>"

lemma ex_pairs:
  "map_res (stop_clock_pair (cv_prefer_actual ex_conversion)) (trn_stops ex_train) =
     Inr [(600, 630, BASIS_OBSERVED), (640, 640, BASIS_SCHEDULED), (660, 660, BASIS_SCHEDULED)]"
  by code_simp

lemma observed_stop_silences_delay_witness:
  "convert_train ex_conversion ex_topology (ex_train\<lparr>trn_delay := Some 30\<rparr>) =
   convert_train ex_conversion ex_topology (ex_train\<lparr>trn_delay := None\<rparr>)"
  by (rule observed_stop_silences_delay [OF ex_pairs, of 600 630]) simp

text \<open>A record whose conversion raises anything but a conversion, station or topology error is not
  collected as a rejection: it aborts the whole timetable. A compound track id is such a record, since
  the traversal it leads to raises a plain value error.\<close>

theorem unrejectable_record_aborts_timetable:
  assumes "r \<in> set rs" "convert_train cv tp r = Inl e" "\<not> rejectable e"
  shows "\<exists>e'. convert_timetable cv tp rs = Inl e' \<and> \<not> rejectable e'"
  using assms(1)
proof (induction rs)
  case (Cons x xs)
  then show ?case
    using assms(2,3)
    by (cases "convert_train cv tp x")
      (auto simp: convert_timetable_def bind_res_Inl_iff bind_res_Inr_iff split: if_splits)
qed simp

lemma ex_compound:
  "convert_train ex_conversion ex_topology (ex_train\<lparr>trn_track_assignment := Some ''UP-1:7-32''\<rparr>) = Inl ValueError"
  by code_simp

lemma unrejectable_record_aborts_timetable_witness:
  "\<exists>e'. convert_timetable ex_conversion ex_topology [ex_train, ex_train\<lparr>trn_track_assignment := Some ''UP-1:7-32''\<rparr>]
     = Inl e' \<and> \<not> rejectable e'"
  by (rule unrejectable_record_aborts_timetable [OF _ ex_compound]) (simp_all add: rejectable_def)


end
