(* ===== verification/Possession_Facts.thy ===== *)
theory Possession_Facts
  imports Possession_Windows Timetable_Facts
begin

text \<open>
  Derived possession windows are exactly the gaps between the buffered passages of the trains, and no
  window lies over a section that a record of the timetable, converted or rejected, runs through.
\<close>

section \<open>Occupied spans\<close>

definition passages :: "train_snapshot \<Rightarrow> traversal list" where
  "passages sn = concat (map tst_traversals (snp_trains sn))"

definition buffered :: "int \<Rightarrow> traversal \<Rightarrow> span" where
  "buffered buffer v = (max 0 (trv_enter v - buffer), trv_exit v + buffer)"

definition busy_spans :: "int \<Rightarrow> resource_id \<Rightarrow> traversal list \<Rightarrow> span list" where
  "busy_spans buffer k vs =
     map (buffered buffer) (filter (\<lambda>v. (trv_track v, trv_section v) = k \<and> 0 < trv_exit v + buffer) vs)"

lemma map_of_add_span:
  "map_of (add_span k v m) k' = (if k' = k then Some ((case map_of m k of None \<Rightarrow> [] | Some vs \<Rightarrow> vs) @ [v])
     else map_of m k')"
  by (induction k v m rule: add_span.induct) auto

lemma keys_add_span [simp]: "fst ` set (add_span k v m) = insert k (fst ` set m)"
  by (induction k v m rule: add_span.induct) auto

lemma distinct_add_span: "distinct (map fst m) \<Longrightarrow> distinct (map fst (add_span k v m))"
proof (induction k v m rule: add_span.induct)
  case (2 k v k' vs m)
  then show ?case by auto
qed simp

lemma map_of_add_traversal:
  "map_of (add_traversal buffer v m) k =
     (if (trv_track v, trv_section v) = k \<and> 0 < trv_exit v + buffer
      then Some ((case map_of m k of None \<Rightarrow> [] | Some vs \<Rightarrow> vs) @ [buffered buffer v]) else map_of m k)"
  "distinct (map fst m) \<Longrightarrow> distinct (map fst (add_traversal buffer v m))"
  by (auto simp: add_traversal_def Let_def buffered_def map_of_add_span distinct_add_span)

lemma busy_spans_snoc:
  "busy_spans buffer k (vs @ [v]) = busy_spans buffer k vs @
     (if (trv_track v, trv_section v) = k \<and> 0 < trv_exit v + buffer then [buffered buffer v] else [])"
  by (simp add: busy_spans_def)

lemma occupied_by_key:
  "distinct (map fst (fold (add_traversal buffer) vs [])) \<and>
   map_of (fold (add_traversal buffer) vs []) k =
     (if busy_spans buffer k vs = [] then None else Some (busy_spans buffer k vs))"
proof (induction vs rule: rev_induct)
  case Nil
  then show ?case by (simp add: busy_spans_def)
next
  case (snoc v vs)
  then show ?case
    by (cases "busy_spans buffer k vs = []")
      (simp_all add: map_of_add_traversal busy_spans_snoc del: prod.inject)
qed

section \<open>Merging\<close>

definition cover :: "span list \<Rightarrow> int set" where
  "cover spans = (\<Union>(s, e) \<in> set spans. {s..<e})"

lemma cover_simps [simp]: "cover [] = {}" "cover ((s, e) # spans) = {s..<e} \<union> cover spans"
  by (auto simp: cover_def)

lemma cover_set: "set xs = set ys \<Longrightarrow> cover xs = cover ys"
  by (simp add: cover_def)

lemma absorb_cover:
  assumes "sorted (map fst (p # spans))" "list_all (\<lambda>(s, e). s < e) (p # spans)"
  shows "cover (absorb p spans) = cover (p # spans) \<and> sorted (map fst (absorb p spans)) \<and>
    list_all (\<lambda>(s, e). s < e) (absorb p spans) \<and> list_all (\<lambda>(s, e). fst p \<le> s) (absorb p spans)"
  using assms
proof (induction p spans rule: absorb.induct)
  case (1 p)
  then show ?case by auto
next
  case (2 ps pe s e rest)
  show ?case
  proof (cases "s \<le> pe")
    case True
    with 2 have "cover (absorb (ps, max pe e) rest) = {ps..<max pe e} \<union> cover rest"
      "sorted (map fst (absorb (ps, max pe e) rest)) \<and> list_all (\<lambda>(s, e). s < e) (absorb (ps, max pe e) rest) \<and>
       list_all (\<lambda>(s, e). ps \<le> s) (absorb (ps, max pe e) rest)"
      by auto
    moreover have "{ps..<max pe e} = {ps..<pe} \<union> {s..<e}" using True 2(3,4) by auto
    ultimately show ?thesis using True by (simp add: Un_assoc)
  next
    case False
    with 2 have "cover (absorb (s, e) rest) = {s..<e} \<union> cover rest"
      "sorted (map fst (absorb (s, e) rest))" "list_all (\<lambda>(s, e). s < e) (absorb (s, e) rest)"
      "list_all (\<lambda>(x, y). s \<le> x) (absorb (s, e) rest)"
      by auto
    with False 2(3,4) show ?thesis by (auto simp: list_all_iff)
  qed
qed

lemma sorted_fst: "sorted xs \<Longrightarrow> sorted (map fst xs)" for xs :: "span list"
  by (induction xs) (auto simp: less_eq_prod_def)

lemma merge_intervals:
  assumes "list_all (\<lambda>(s, e). s < e) spans"
  shows "cover (merge_intervals spans) = cover spans" "sorted (map fst (merge_intervals spans))"
    "list_all (\<lambda>(s, e). s < e) (merge_intervals spans)"
proof -
  have "cover (merge_intervals spans) = cover spans \<and> sorted (map fst (merge_intervals spans)) \<and>
    list_all (\<lambda>(s, e). s < e) (merge_intervals spans)"
  proof (cases "sort spans")
    case Nil
    moreover from this have "spans = []" by (metis set_sort set_empty)
    ultimately show ?thesis by (simp add: merge_intervals_def)
  next
    case (Cons p rest)
    then have "sorted (map fst (p # rest))" by (metis sorted_fst sorted_sort)
    moreover from Cons have set: "set (p # rest) = set spans" by (metis set_sort)
    with assms have "list_all (\<lambda>(s, e). s < e) (p # rest)" by (simp only: list_all_iff)
    ultimately show ?thesis
      using Cons absorb_cover cover_set [OF set] by (simp add: merge_intervals_def)
  qed
  then show "cover (merge_intervals spans) = cover spans" "sorted (map fst (merge_intervals spans))"
    "list_all (\<lambda>(s, e). s < e) (merge_intervals spans)" by simp_all
qed

section \<open>Gaps\<close>

fun gaps :: "int \<Rightarrow> int \<Rightarrow> span list \<Rightarrow> span list" where
  "gaps horizon cursor [] = (if horizon > cursor then [(cursor, horizon)] else [])"
| "gaps horizon cursor ((s, e) # rest) =
    (let clipped_start = max 0 (min horizon s); clipped_end = max 0 (min horizon e) in
     (if clipped_start > cursor then [(cursor, clipped_start)] else []) @
     gaps horizon (max cursor clipped_end) rest)"

lemma emit_gaps_spans:
  "map (\<lambda>w. (pw_track w, pw_section w, pw_start w, pw_end w)) (emit_gaps horizon minimum k cursor spans ws) =
   map (\<lambda>w. (pw_track w, pw_section w, pw_start w, pw_end w)) ws @
   map (\<lambda>(a, b). (fst k, Some (snd k), a, b)) (filter (\<lambda>(a, b). minimum \<le> b - a) (gaps horizon cursor spans))"
  by (induction horizon minimum k cursor spans ws rule: emit_gaps.induct)
    (simp_all add: emit_window_def Let_def)

lemma gap_sound:
  assumes "sorted (map fst spans)" "0 \<le> cursor" "(a, b) \<in> set (gaps horizon cursor spans)"
  shows "cursor \<le> a \<and> a < b \<and> b \<le> horizon \<and> {a..<b} \<inter> cover spans = {}"
  using assms
proof (induction horizon cursor spans rule: gaps.induct)
  case (1 horizon cursor)
  then show ?case by (auto split: if_splits)
next
  case (2 horizon cursor s e rest)
  define cs where "cs = max 0 (min horizon s)"
  define ce where "ce = max 0 (min horizon e)"
  from "2.prems"(3) consider "cs > cursor" "(a, b) = (cursor, cs)" | "(a, b) \<in> set (gaps horizon (max cursor ce) rest)"
    by (auto simp: cs_def ce_def Let_def split: if_splits)
  then show ?case
  proof cases
    case 1
    then have c: "a = cursor" "b = cs" "cs \<le> s" "cs \<le> horizon" using "2.prems"(2) by (auto simp: cs_def)
    moreover have "\<forall>(x, y) \<in> set rest. s \<le> x" using "2.prems"(1) by auto
    then have "{a..<b} \<inter> cover rest = {}" using c(2,3) by (force simp: cover_def)
    ultimately show ?thesis using 1(1) by auto
  next
    case 2
    with "2.IH" [OF cs_def ce_def] "2.prems"(1,2)
    have "max cursor ce \<le> a \<and> a < b \<and> b \<le> horizon \<and> {a..<b} \<inter> cover rest = {}" by (simp add: max_def)
    moreover then have "e \<le> a" by (auto simp: ce_def)
    ultimately show ?thesis by auto
  qed
qed

lemma disjoint_spans: "a < b \<Longrightarrow> s < e \<Longrightarrow> {a..<b} \<inter> {s..<e} = {} \<longleftrightarrow> b \<le> s \<or> e \<le> a" for a b s e :: int
  by (auto simp: min_def max_def)

lemma gap_complete:
  assumes "list_all (\<lambda>(s, e). s < e) spans" "0 \<le> cursor" "cursor \<le> a" "a < b" "b \<le> horizon"
    and "{a..<b} \<inter> cover spans = {}"
  shows "\<exists>(x, y) \<in> set (gaps horizon cursor spans). x \<le> a \<and> b \<le> y"
  using assms
proof (induction horizon cursor spans rule: gaps.induct)
  case (1 horizon cursor)
  then show ?case by simp
next
  case (2 horizon cursor s e rest)
  define cs where "cs = max 0 (min horizon s)"
  define ce where "ce = max 0 (min horizon e)"
  have d: "s < e" "{a..<b} \<inter> {s..<e} = {}" and rest: "{a..<b} \<inter> cover rest = {}"
    using "2.prems"(1,6) by (auto simp del: Int_atLeastLessThan)
  from d have "b \<le> s \<or> e \<le> a" by (simp only: disjoint_spans [OF "2.prems"(4)])
  then show ?case
  proof
    assume "b \<le> s"
    with "2.prems" show ?thesis by (auto simp: Let_def)
  next
    assume "e \<le> a"
    then have "max cursor ce \<le> a" using "2.prems"(2,3) by (auto simp: ce_def)
    with "2.IH" [OF cs_def ce_def] "2.prems" rest
    have "\<exists>(x, y) \<in> set (gaps horizon (max cursor ce) rest). x \<le> a \<and> b \<le> y" by auto
    then show ?thesis
      by (simp only: gaps.simps Let_def cs_def [symmetric] ce_def [symmetric] set_append bex_Un simp_thms)
  qed
qed

section \<open>Windows are gaps\<close>

abbreviation window_span :: "possession_window \<Rightarrow> string \<times> string option \<times> int \<times> int" where
  "window_span w \<equiv> (pw_track w, pw_section w, pw_start w, pw_end w)"

lemma fold_emit:
  "window_span ` set (fold (\<lambda>(k, spans) ws. if snd k \<in> W then ws
       else emit_gaps horizon minimum k 0 (merge_intervals spans) ws) occupied ws) =
   window_span ` set ws \<union>
   {(t, Some s, a, b) | t s spans a b. ((t, s), spans) \<in> set occupied \<and> s \<notin> W \<and>
      (a, b) \<in> set (gaps horizon 0 (merge_intervals spans)) \<and> minimum \<le> b - a}"
proof (induction occupied arbitrary: ws)
  case (Cons x occupied)
  obtain t s spans where x: "x = ((t, s), spans)" by (cases x) auto
  have "window_span ` set (emit_gaps horizon minimum (t, s) 0 (merge_intervals spans) ws) =
      window_span ` set ws \<union>
      {(t, Some s, a, b) | a b. (a, b) \<in> set (gaps horizon 0 (merge_intervals spans)) \<and> minimum \<le> b - a}"
    using arg_cong [OF emit_gaps_spans [of horizon minimum "(t, s)" 0 "merge_intervals spans" ws], of set]
    by (auto simp: image_iff)
  with Cons show ?case by (auto simp: x)
qed simp

lemma derived_window:
  assumes "derive_section_possession_windows sn tp horizon buffer minimum = Inr ws"
  shows "0 < horizon" "0 < minimum" "0 \<le> buffer"
    "window_span ` set ws = {(t, Some s, a, b) | t s a b. s \<notin> set (withheld_section_ids sn tp) \<and>
       busy_spans buffer (t, s) (passages sn) \<noteq> [] \<and>
       (a, b) \<in> set (gaps horizon 0 (merge_intervals (sort (busy_spans buffer (t, s) (passages sn))))) \<and>
       minimum \<le> b - a}"
proof -
  define m where "m = fold (add_traversal buffer) (passages sn) []"
  from assms show pos: "0 < horizon" "0 < minimum" "0 \<le> buffer"
    by (auto simp: derive_section_possession_windows_def occupied_intervals_by_section_def bind_res_Inr_iff
        split: if_splits)
  have m: "((t, s), spans) \<in> set (map (\<lambda>(k, vs). (k, sort vs)) m) \<longleftrightarrow>
      busy_spans buffer (t, s) (passages sn) \<noteq> [] \<and> spans = sort (busy_spans buffer (t, s) (passages sn))" for t s spans
  proof -
    note o = occupied_by_key [of buffer "passages sn" "(t, s)", folded m_def]
    have "((t, s), spans) \<in> set (map (\<lambda>(k, vs). (k, sort vs)) m) \<longleftrightarrow> (\<exists>vs. map_of m (t, s) = Some vs \<and> spans = sort vs)"
      using o by (force simp: map_of_eq_Some_iff)
    with o show ?thesis by auto
  qed
  have "ws = fold (\<lambda>(k, spans) ws. if snd k \<in> set (withheld_section_ids sn tp) then ws
       else emit_gaps horizon minimum k 0 (merge_intervals spans) ws) (sort_key fst (map (\<lambda>(k, vs). (k, sort vs)) m)) []"
    using assms pos by (simp add: derive_section_possession_windows_def occupied_intervals_by_section_def
        passages_def m_def)
  then show "window_span ` set ws = {(t, Some s, a, b) | t s a b. s \<notin> set (withheld_section_ids sn tp) \<and>
       busy_spans buffer (t, s) (passages sn) \<noteq> [] \<and>
       (a, b) \<in> set (gaps horizon 0 (merge_intervals (sort (busy_spans buffer (t, s) (passages sn))))) \<and>
       minimum \<le> b - a}"
    by (simp only: fold_emit set_sort m) auto
qed

lemma busy_spans_ordered:
  assumes "\<forall>v \<in> set vs. trv_enter v < trv_exit v" "0 \<le> buffer"
  shows "list_all (\<lambda>(s, e). s < e) (busy_spans buffer k vs)"
  using assms by (auto simp: busy_spans_def buffered_def list_all_iff)

definition passes :: "string \<Rightarrow> string \<Rightarrow> traversal \<Rightarrow> bool" where
  "passes t s v \<longleftrightarrow> trv_track v = t \<and> trv_section v = s"

lemma free_of_spans:
  assumes "0 \<le> a" "a < b" "\<forall>v \<in> set vs. trv_enter v < trv_exit v" "0 \<le> buffer"
  shows "{a..<b} \<inter> cover (busy_spans buffer (t, s) vs) = {} \<longleftrightarrow>
    (\<forall>v \<in> set vs. passes t s v \<longrightarrow> b \<le> trv_enter v - buffer \<or> trv_exit v + buffer \<le> a)"
proof -
  have v: "{a..<b} \<inter> {max 0 (trv_enter v - buffer)..<trv_exit v + buffer} = {} \<longleftrightarrow>
      b \<le> trv_enter v - buffer \<or> trv_exit v + buffer \<le> a" if "v \<in> set vs" "0 < trv_exit v + buffer" for v
  proof -
    have "max 0 (trv_enter v - buffer) < trv_exit v + buffer" using assms(3,4) that by auto
    from disjoint_spans [OF assms(2) this] show ?thesis using assms(1,2) by auto
  qed
  have "{a..<b} \<inter> cover (busy_spans buffer (t, s) vs) = {} \<longleftrightarrow>
      (\<forall>v \<in> set vs. passes t s v \<and> 0 < trv_exit v + buffer \<longrightarrow>
         {a..<b} \<inter> {max 0 (trv_enter v - buffer)..<trv_exit v + buffer} = {})"
    by (auto simp: cover_def busy_spans_def buffered_def passes_def disjoint_iff simp del: Int_atLeastLessThan)
  also have "\<dots> \<longleftrightarrow> (\<forall>v \<in> set vs. passes t s v \<longrightarrow> b \<le> trv_enter v - buffer \<or> trv_exit v + buffer \<le> a)"
    using v assms(1) by (meson linorder_not_le order_trans)
  finally show ?thesis .
qed

lemma gaps_exact:
  assumes "\<forall>v \<in> set vs. trv_enter v < trv_exit v" "0 \<le> buffer" "0 \<le> a" "a < b" "b \<le> horizon"
  shows "(\<exists>(x, y) \<in> set (gaps horizon 0 (merge_intervals (sort (busy_spans buffer (t, s) vs)))). x \<le> a \<and> b \<le> y) \<longleftrightarrow>
    (\<forall>v \<in> set vs. passes t s v \<longrightarrow> b \<le> trv_enter v - buffer \<or> trv_exit v + buffer \<le> a)"
proof -
  define spans where "spans = sort (busy_spans buffer (t, s) vs)"
  have o: "list_all (\<lambda>(s, e). s < e) spans"
    using busy_spans_ordered [OF assms(1,2)] by (simp add: spans_def list_all_iff)
  have c: "cover spans = cover (busy_spans buffer (t, s) vs)" by (simp add: spans_def cover_def)
  have "(\<exists>(x, y) \<in> set (gaps horizon 0 (merge_intervals spans)). x \<le> a \<and> b \<le> y) \<longleftrightarrow> {a..<b} \<inter> cover spans = {}"
  proof
    assume "\<exists>(x, y) \<in> set (gaps horizon 0 (merge_intervals spans)). x \<le> a \<and> b \<le> y"
    then obtain x y where "(x, y) \<in> set (gaps horizon 0 (merge_intervals spans))" "x \<le> a" "b \<le> y" by auto
    with gap_sound [OF merge_intervals(2) [OF o], of 0 x y horizon] merge_intervals(1) [OF o]
    have "{x..<y} \<inter> cover spans = {}" by simp
    moreover have "{a..<b} \<subseteq> {x..<y}" using \<open>x \<le> a\<close> \<open>b \<le> y\<close> by auto
    ultimately show "{a..<b} \<inter> cover spans = {}" by blast
  next
    assume "{a..<b} \<inter> cover spans = {}"
    with gap_complete [OF merge_intervals(3) [OF o], of 0 a b horizon] merge_intervals(1) [OF o] assms(3-5)
    show "\<exists>(x, y) \<in> set (gaps horizon 0 (merge_intervals spans)). x \<le> a \<and> b \<le> y" by simp
  qed
  then show ?thesis
    unfolding spans_def [symmetric] c by (simp only: free_of_spans [OF assms(3,4,1,2)])
qed

end
