(* ===== verification/Possession_Properties.thy ===== *)
theory Possession_Properties
  imports Possession_Facts Scheduling_Properties Section_Facts
begin

text \<open>
  What possession windows promise the optimizer, stated as an interface: no window lies over a busy
  span. The optimizer's own guarantee carries the promise over to every scheduled block, and the
  windows derived from a timetable keep it.
\<close>

section \<open>The interface\<close>

locale possession_source =
  fixes windows :: "possession_window list"
    and busy :: "string \<Rightarrow> string \<Rightarrow> span set"
  assumes window_free: "w \<in> set windows \<Longrightarrow> pw_section w = Some s \<Longrightarrow> (a, b) \<in> busy (pw_track w) s \<Longrightarrow>
    pw_end w \<le> a \<or> b \<le> pw_start w"
begin

lemma work_free:
  assumes "solve cp arrange q = Inr res" "cp_sound cp" "distinct_ids q" "x \<in> set (os_scheduled res)"
    and "oq_windows q = windows" "windows \<noteq> []" "sb_section x = Some s" "(a, b) \<in> busy (sb_track x) s"
  shows "sb_end x \<le> a \<or> b \<le> sb_start x"
proof -
  from scheduled_possession [OF assms(1-4)] assms(5-7) obtain w where
    w: "w \<in> set windows" "pw_track w = sb_track x" "pw_section w = Some s" "pw_start w \<le> sb_start x" "sb_end x \<le> pw_end w"
    by auto
  with window_free [OF w(1,3)] assms(8) show ?thesis by force
qed

end

section \<open>Windows of a timetable\<close>

definition timetable_windows ::
  "conversion \<Rightarrow> corridor_topology \<Rightarrow> train_record list \<Rightarrow> int \<Rightarrow> int \<Rightarrow> int \<Rightarrow> possession_window list" where
  "timetable_windows cv tp rs horizon buffer minimum =
    (case bind_res (convert_timetable cv tp rs) (\<lambda>sn. derive_section_possession_windows sn tp horizon buffer minimum) of
       Inl e \<Rightarrow> [] | Inr ws \<Rightarrow> ws)"

definition train_busy ::
  "conversion \<Rightarrow> corridor_topology \<Rightarrow> train_record list \<Rightarrow> int \<Rightarrow> string \<Rightarrow> string \<Rightarrow> span set" where
  "train_busy cv tp rs buffer t s =
    {(trv_enter v - buffer, trv_exit v + buffer) | v.
       \<exists>sn. convert_timetable cv tp rs = Inr sn \<and> v \<in> set (passages sn) \<and> passes t s v}"

lemma fetched_passages:
  "convert_timetable cv tp rs = Inr sn \<Longrightarrow> \<forall>v \<in> set (passages sn). trv_enter v < trv_exit v"
  by (auto simp: passages_def intro: fetched_traversal)

lemma derived_window_gap:
  assumes "derive_section_possession_windows sn tp horizon buffer minimum = Inr ws" "w \<in> set ws"
  obtains s where "pw_section w = Some s" "s \<notin> set (withheld_section_ids sn tp)"
    "busy_spans buffer (pw_track w, s) (passages sn) \<noteq> []"
    "(pw_start w, pw_end w) \<in> set (gaps horizon 0 (merge_intervals (sort (busy_spans buffer (pw_track w, s) (passages sn)))))"
    "minimum \<le> pw_end w - pw_start w"
proof -
  from assms(2) have "window_span w \<in> window_span ` set ws" by simp
  then show ?thesis using that by (auto simp: derived_window(4) [OF assms(1)])
qed

lemma derived_window_in_horizon:
  assumes "convert_timetable cv tp rs = Inr sn"
    and "derive_section_possession_windows sn tp horizon buffer minimum = Inr ws" "w \<in> set ws"
  shows "0 \<le> pw_start w" "pw_start w < pw_end w" "pw_end w \<le> horizon" "minimum \<le> pw_end w - pw_start w"
proof -
  obtain s where s: "(pw_start w, pw_end w) \<in>
      set (gaps horizon 0 (merge_intervals (sort (busy_spans buffer (pw_track w, s) (passages sn)))))"
    and m: "minimum \<le> pw_end w - pw_start w"
    using derived_window_gap [OF assms(2,3)] by metis
  have "list_all (\<lambda>(s, e). s < e) (sort (busy_spans buffer (pw_track w, s) (passages sn)))"
    using busy_spans_ordered [OF fetched_passages [OF assms(1)] derived_window(3) [OF assms(2)]]
    by (simp add: list_all_iff)
  from gap_sound [OF merge_intervals(2) [OF this] _ s] m
  show "0 \<le> pw_start w" "pw_start w < pw_end w" "pw_end w \<le> horizon" "minimum \<le> pw_end w - pw_start w" by auto
qed

lemma derived_window_free:
  assumes "convert_timetable cv tp rs = Inr sn"
    and "derive_section_possession_windows sn tp horizon buffer minimum = Inr ws" "w \<in> set ws"
    and "pw_section w = Some s" "v \<in> set (passages sn)" "passes (pw_track w) s v"
  shows "pw_end w \<le> trv_enter v - buffer \<or> trv_exit v + buffer \<le> pw_start w"
proof -
  note h = derived_window_in_horizon [OF assms(1-3)]
  from derived_window_gap [OF assms(2,3)] assms(4) have
    "(pw_start w, pw_end w) \<in> set (gaps horizon 0 (merge_intervals (sort (busy_spans buffer (pw_track w, s) (passages sn)))))"
    by (metis option.inject)
  then show ?thesis
    using gaps_exact [OF fetched_passages [OF assms(1)] derived_window(3) [OF assms(2)] h(1-3), of "pw_track w" s]
      assms(5,6) by blast
qed

lemma timetable_window_free:
  assumes "w \<in> set (timetable_windows cv tp rs horizon buffer minimum)" "pw_section w = Some s"
    and "(a, b) \<in> train_busy cv tp rs buffer (pw_track w) s"
  shows "pw_end w \<le> a \<or> b \<le> pw_start w"
proof -
  from assms(3) obtain v sn where v: "a = trv_enter v - buffer" "b = trv_exit v + buffer"
      "convert_timetable cv tp rs = Inr sn" "v \<in> set (passages sn)" "passes (pw_track w) s v"
    by (auto simp: train_busy_def)
  with assms(1) obtain ws where "derive_section_possession_windows sn tp horizon buffer minimum = Inr ws" "w \<in> set ws"
    by (cases "derive_section_possession_windows sn tp horizon buffer minimum") (auto simp: timetable_windows_def)
  from derived_window_free [OF v(3) this assms(2) v(4,5)] v(1,2) show ?thesis by simp
qed

interpretation timetable: possession_source "timetable_windows cv tp rs horizon buffer minimum" "train_busy cv tp rs buffer"
  for cv tp rs horizon buffer minimum
  by unfold_locales (rule timetable_window_free)

section \<open>Exactness\<close>

text \<open>C5: The possession windows derived from a timetable are exactly its train-free gaps. A span of at
  least the minimum length inside the horizon lies in a window of a track and section if and only if the
  section is not withheld, some train is known to run there, and every passage of every train there keeps
  the safety buffer away from the span.\<close>

theorem windows_are_the_train_free_gaps:
  assumes "convert_timetable cv tp rs = Inr sn"
    and "derive_section_possession_windows sn tp horizon buffer minimum = Inr ws"
    and "0 \<le> a" "minimum \<le> b - a" "b \<le> horizon"
  shows "(\<exists>w \<in> set ws. pw_track w = t \<and> pw_section w = Some s \<and> pw_start w \<le> a \<and> b \<le> pw_end w) \<longleftrightarrow>
    s \<notin> set (withheld_section_ids sn tp) \<and>
    (\<exists>v \<in> set (passages sn). passes t s v \<and> 0 < trv_exit v + buffer) \<and>
    (\<forall>v \<in> set (passages sn). passes t s v \<longrightarrow> b \<le> trv_enter v - buffer \<or> trv_exit v + buffer \<le> a)"
proof -
  note d = derived_window [OF assms(2)]
  have ab: "a < b" using assms(4) d(2) by simp
  let ?gaps = "gaps horizon 0 (merge_intervals (sort (busy_spans buffer (t, s) (passages sn))))"
  have "(\<exists>w \<in> set ws. pw_track w = t \<and> pw_section w = Some s \<and> pw_start w \<le> a \<and> b \<le> pw_end w) \<longleftrightarrow>
      (\<exists>p \<in> window_span ` set ws. case p of (t', s', x, y) \<Rightarrow> t' = t \<and> s' = Some s \<and> x \<le> a \<and> b \<le> y)"
    by auto
  also have "\<dots> \<longleftrightarrow> s \<notin> set (withheld_section_ids sn tp) \<and> busy_spans buffer (t, s) (passages sn) \<noteq> [] \<and>
      (\<exists>(x, y) \<in> set ?gaps. x \<le> a \<and> b \<le> y)"
    unfolding d(4) using assms(4) by fastforce
  also have "busy_spans buffer (t, s) (passages sn) \<noteq> [] \<longleftrightarrow>
      (\<exists>v \<in> set (passages sn). passes t s v \<and> 0 < trv_exit v + buffer)"
    by (auto simp: busy_spans_def passes_def filter_empty_conv)
  finally show ?thesis
    using gaps_exact [OF fetched_passages [OF assms(1)] d(3) assms(3) ab assms(5), of t s] by simp
qed

section \<open>From a record of the timetable to the work on the track\<close>

text \<open>A record either ran, or withholds the sections of its declared legs.\<close>

lemma record_accounted:
  assumes "topology_from_stations stations = Inr tp" "convert_timetable cv tp rs = Inr sn" "r \<in> set rs"
    and "map_res stop_station_id (trn_stops r) = Inr ids" "i + 1 < length ids"
    and "index_of tp (ids ! i) = Inr a" "index_of tp (ids ! (i + 1)) = Inr b" "j \<in> {min a b..<max a b}"
  shows "(\<exists>ms basis track. event_minutes cv r = Inr (ms, basis) \<and> track_of r = Inr track \<and>
      (\<exists>v \<in> set (passages sn). passes track (nth_section tp j) v \<and>
         trv_enter v = departure_at ms i \<and> trv_exit v = arrival_at ms (i + 1))) \<or>
    nth_section tp j \<in> set (withheld_section_ids sn tp)"
proof -
  note dist = topology_distinct [OF assms(1)]
  from convert_timetable_Inr [OF assms(2,3)] show ?thesis
  proof
    assume "\<exists>t \<in> set (snp_trains sn). convert_train cv tp r = Inr t"
    then obtain t where t: "t \<in> set (snp_trains sn)" "convert_train cv tp r = Inr t" by auto
    from leg_occupied [OF t(2) dist assms(4-8)] obtain ms basis v where
      v: "event_minutes cv r = Inr (ms, basis)" "track_of r = Inr (tst_track t)" "v \<in> set (tst_traversals t)"
        "trv_section v = nth_section tp j" "trv_enter v = departure_at ms i" "trv_exit v = arrival_at ms (i + 1)"
      by auto
    moreover have "trv_track v = tst_track t" by (rule converted_traversal(2) [OF t(2) v(3)])
    moreover have "v \<in> set (passages sn)" using t(1) v(3) by (auto simp: passages_def)
    ultimately show ?thesis by (auto simp: passes_def)
  next
    assume "\<exists>e. convert_train cv tp r = Inl e \<and> rejectable e \<and> reject_train tp r e \<in> set (snp_rejections sn)"
    then obtain e where e: "reject_train tp r e \<in> set (snp_rejections sn)" by auto
    have "nth_section tp j \<in> set (withheld_section_ids sn tp)"
    proof (cases "list_all (\<lambda>j. rej_route_known j \<and> rej_sections j \<noteq> []) (snp_rejections sn)")
      case True
      obtain ss known where a: "affected_sections tp r = (ss, known)" by force
      with True e have "known" by (auto simp: list_all_iff reject_train_def)
      with a affected_sections_leg [OF _ dist assms(4-8)] have "nth_section tp j \<in> set ss" by simp
      moreover have "rej_sections (reject_train tp r e) = ss" by (simp add: reject_train_def a)
      ultimately show ?thesis using True e by (auto simp: withheld_section_ids_def)
    next
      case False
      have "a < length (top_stations tp)" "b < length (top_stations tp)"
        using assms(6,7) by (auto dest: index_of_Inr)
      then have "Suc j < length (top_stations tp)" using assms(8) by auto
      then show ?thesis using False nth_section_listed by (simp add: withheld_section_ids_def)
    qed
    then show ?thesis ..
  qed
qed

text \<open>Scheduled work never meets a train of the timetable. When the windows of a solved request were
  derived from a timetable, take any record of that timetable, any two consecutive stops of it and any
  section between them: work scheduled on that section means that the record was converted, and if the
  work is on the train's track, it ends the safety buffer before the train leaves the first stop or starts
  the safety buffer after the train reaches the second. A record that could not be converted leaves no
  work on the sections of its route at all.\<close>

theorem scheduled_work_meets_no_train:
  assumes "topology_from_stations stations = Inr tp" "convert_timetable cv tp rs = Inr sn"
    and "derive_section_possession_windows sn tp horizon buffer minimum = Inr (oq_windows q)" "oq_windows q \<noteq> []"
    and "solve cp arrange q = Inr res" "cp_sound cp" "distinct_ids q" "x \<in> set (os_scheduled res)"
    and "r \<in> set rs" "map_res stop_station_id (trn_stops r) = Inr ids" "i + 1 < length ids"
    and "index_of tp (ids ! i) = Inr a" "index_of tp (ids ! (i + 1)) = Inr b" "j \<in> {min a b..<max a b}"
    and "sb_section x = Some (nth_section tp j)"
  shows "\<exists>ms basis track. event_minutes cv r = Inr (ms, basis) \<and> track_of r = Inr track \<and>
    (sb_track x = track \<longrightarrow> sb_end x + buffer \<le> departure_at ms i \<or> arrival_at ms (i + 1) + buffer \<le> sb_start x)"
proof -
  have ws: "timetable_windows cv tp rs horizon buffer minimum = oq_windows q"
    by (simp add: timetable_windows_def assms(2,3))
  from scheduled_possession [OF assms(5-8,4)] assms(15) obtain w where
    "w \<in> set (oq_windows q)" "pw_section w = Some (nth_section tp j)" by auto
  with derived_window_gap [OF assms(3)] have "nth_section tp j \<notin> set (withheld_section_ids sn tp)"
    by (metis option.inject)
  with record_accounted [OF assms(1,2,9-14)] obtain ms basis track v where
    v: "event_minutes cv r = Inr (ms, basis)" "track_of r = Inr track" "v \<in> set (passages sn)"
      "passes track (nth_section tp j) v" "trv_enter v = departure_at ms i" "trv_exit v = arrival_at ms (i + 1)"
    by auto
  have "sb_end x + buffer \<le> departure_at ms i \<or> arrival_at ms (i + 1) + buffer \<le> sb_start x"
    if "sb_track x = track"
  proof -
    have "(trv_enter v - buffer, trv_exit v + buffer) \<in> train_busy cv tp rs buffer (sb_track x) (nth_section tp j)"
      using v(3,4) assms(2) that by (auto simp: train_busy_def)
    from timetable.work_free [OF assms(5-8) ws [symmetric] _ assms(15) this] ws assms(4) v(5,6)
    show ?thesis by (simp add: algebra_simps)
  qed
  with v(1,2) show ?thesis by blast
qed

section \<open>A concrete timetable\<close>

definition ex_snapshot :: train_snapshot where
  "ex_snapshot = projr (convert_timetable ex_conversion ex_topology [ex_train])"

definition ex_windows :: "possession_window list" where
  "ex_windows = projr (derive_section_possession_windows ex_snapshot ex_topology 2880
     DEFAULT_SAFETY_BUFFER_MINUTES DEFAULT_MINIMUM_WINDOW_MINUTES)"

lemma ex_topology_made: "topology_from_stations ex_stations = Inr ex_topology"
  by code_simp

lemma ex_snapshot_made: "convert_timetable ex_conversion ex_topology [ex_train] = Inr ex_snapshot"
  unfolding ex_snapshot_def by code_simp

lemma ex_passages:
  "passages ex_snapshot =
     [\<lparr>trv_section = ''NDLS-NZM'', trv_track = ''UP-1'', trv_enter = 630, trv_exit = 640,
       trv_basis = BASIS_OBSERVED, trv_derivation = DIRECT_STOP_PAIR\<rparr>,
      \<lparr>trv_section = ''NZM-FDB'', trv_track = ''UP-1'', trv_enter = 640, trv_exit = 660,
       trv_basis = BASIS_OBSERVED, trv_derivation = DIRECT_STOP_PAIR\<rparr>]"
  "withheld_section_ids ex_snapshot ex_topology = []"
  by code_simp+

lemma ex_windows_made:
  "derive_section_possession_windows ex_snapshot ex_topology 2880
     DEFAULT_SAFETY_BUFFER_MINUTES DEFAULT_MINIMUM_WINDOW_MINUTES = Inr ex_windows"
  unfolding ex_windows_def by code_simp

lemma ex_windows_spans:
  "map (\<lambda>w. (pw_id w, pw_track w, pw_start w, pw_end w)) ex_windows =
     [(''POS-UP-1-NDLS-NZM-001'', ''UP-1'', 0, 620), (''POS-UP-1-NDLS-NZM-002'', ''UP-1'', 650, 2880),
      (''POS-UP-1-NZM-FDB-003'', ''UP-1'', 0, 630), (''POS-UP-1-NZM-FDB-004'', ''UP-1'', 670, 2880)]"
  by code_simp

lemma windows_are_the_train_free_gaps_witness:
  "\<exists>w \<in> set ex_windows. pw_track w = ''UP-1'' \<and> pw_section w = Some ''NDLS-NZM'' \<and> pw_start w \<le> 0 \<and> 600 \<le> pw_end w"
  by (rule windows_are_the_train_free_gaps [OF ex_snapshot_made ex_windows_made, THEN iffD2])
    (simp_all add: ex_passages passes_def DEFAULT_MINIMUM_WINDOW_MINUTES_def DEFAULT_SAFETY_BUFFER_MINUTES_def)

definition ex_block_request :: optimization_request where
  "ex_block_request = demo_request\<lparr>oq_windows := ex_windows\<rparr>"

definition ex_block_result :: optimization_result where
  "ex_block_result = projr (solve demo_solver (\<lambda>ids. ids) ex_block_request)"

definition ex_work :: scheduled_block where "ex_work = os_scheduled ex_block_result ! 1"

lemma ex_block_solves: "solve demo_solver (\<lambda>ids. ids) ex_block_request = Inr ex_block_result"
  unfolding ex_block_result_def by code_simp

lemma ex_work_scheduled:
  "map (\<lambda>s. (sb_id s, sb_start s, sb_end s)) (os_scheduled ex_block_result) = [(''B1'', 20, 80), (''B2'', 95, 155)]"
  "sb_track ex_work = ''UP-1''" "sb_section ex_work = Some (nth_section ex_topology 0)"
  "sb_start ex_work = 95" "sb_end ex_work = 155"
  by code_simp+

lemma ex_work_in: "ex_work \<in> set (os_scheduled ex_block_result)"
  using arg_cong [OF ex_work_scheduled(1), of length] by (simp add: ex_work_def)

lemma ex_block_request:
  "distinct_ids ex_block_request" "oq_windows ex_block_request = ex_windows" "ex_windows \<noteq> []"
  using demo_distinct ex_windows_spans by (auto simp: ex_block_request_def distinct_ids_def)

lemma ex_stop_ids:
  "map_res stop_station_id (trn_stops ex_train) = Inr [''NDLS'', ''NZM'', ''FDB'']"
  "index_of ex_topology ''NDLS'' = Inr 0" "index_of ex_topology ''NZM'' = Inr 1" "track_of ex_train = Inr ''UP-1''"
  by code_simp+

lemma scheduled_work_meets_no_train_witness:
  "\<exists>ms basis. event_minutes ex_conversion ex_train = Inr (ms, basis) \<and>
    (155 + DEFAULT_SAFETY_BUFFER_MINUTES \<le> departure_at ms 0 \<or> arrival_at ms 1 + DEFAULT_SAFETY_BUFFER_MINUTES \<le> 95)"
  using scheduled_work_meets_no_train [OF ex_topology_made ex_snapshot_made, of 2880 DEFAULT_SAFETY_BUFFER_MINUTES
      DEFAULT_MINIMUM_WINDOW_MINUTES ex_block_request demo_solver "\<lambda>ids. ids" ex_block_result ex_work ex_train
      "[''NDLS'', ''NZM'', ''FDB'']" 0 0 1 0]
    ex_windows_made ex_block_request ex_block_solves demo_solver_sound ex_work_in ex_stop_ids ex_work_scheduled(2-5)
  by auto

end
