(* ===== verification/Possession_Inputs.thy ===== *)
theory Possession_Inputs
  imports Possession_Properties Timetable_Coverage Provenance Intake
begin

text \<open>
  Where an optimization gets its possession windows: \<^verbatim>\<open>possession_inputs\<close> of
  \<^verbatim>\<open>backend/app/jobs/service.py\<close> with its two sources, the timetable of the corridor dataset
  (\<^verbatim>\<open>backend/app/data/corridor_dataset.py\<close>) behind the coverage gate, and the static daily slots of
  \<^verbatim>\<open>backend/app/data/generator.py\<close>. The snapshot identity a dataset may carry is not modelled.
\<close>

section \<open>The dataset\<close>

record data_basis =
  db_label :: string
  db_topology :: provenance_level
  db_train_provenance :: string
  db_asset_condition :: provenance_level
  db_derived_possession :: "provenance_level option"
  db_source_label :: "string option"
  db_safety_buffer :: "int option"
  db_minimum_window :: "int option"

definition SYNTHETIC_BASIS :: data_basis where
  "SYNTHETIC_BASIS = \<lparr>db_label = ''SYNTHETIC'', db_topology = SYNTHETIC,
     db_train_provenance = SYNTHETIC_SCHEDULED_TRAINS, db_asset_condition = SYNTHETIC,
     db_derived_possession = None, db_source_label = None, db_safety_buffer = None, db_minimum_window = None\<rparr>"

definition make_data_basis :: "data_basis \<Rightarrow> data_basis res" where
  "make_data_basis b =
    (case db_derived_possession b of None \<Rightarrow> Inr b
     | Some l \<Rightarrow>
        bind_res (from_train_data_provenance (db_train_provenance b)) (\<lambda>timetable.
        if timetable = SYNTHETIC \<and> l \<noteq> SYNTHETIC then Inl ValueError else Inr b))"

record corridor_dataset =
  cds_corridor :: corridor
  cds_topology :: corridor_topology
  cds_registry :: registry
  cds_records :: "train_record list"
  cds_basis :: data_basis

record planner =
  pl_intake :: intake
  pl_dataset :: "corridor_dataset option"

section \<open>Static slots\<close>

definition DAILY_SLOTS :: "(string \<times> int \<times> int \<times> string) list" where
  "DAILY_SLOTS = [(''NIGHT'', 30, 300, ''NIGHT_TRAFFIC_BLOCK''),
     (''MIDDAY'', 690, 870, ''MIDDAY_MAINTENANCE_SLOT''), (''EVENING'', 1260, 1410, ''EVENING_OFF_PEAK'')]"

definition sole_section_id :: "registry \<Rightarrow> string res" where
  "sole_section_id r = (case section_ids r of [s] \<Rightarrow> Inr s | _ \<Rightarrow> Inl ValueError)"

definition daily_slot ::
  "string \<Rightarrow> int \<Rightarrow> string option \<Rightarrow> nat \<Rightarrow> string \<times> int \<times> int \<times> string \<Rightarrow> possession_window list" where
  "daily_slot track horizon section_id day = (\<lambda>(suffix, start, end, kind).
    (let offset = int day * 1440; s = start + offset; e = end + offset in
     if horizon < e then []
     else [\<lparr>pw_id = ''POS-'' @ track @ ''-'' @ suffix @ (if day = 0 then [] else ''-D'' @ decimal day),
            pw_track = track, pw_start = s, pw_end = e, pw_section = section_id, pw_type = kind\<rparr>]))"

definition repeat_daily_slots :: "string \<Rightarrow> int \<Rightarrow> string option \<Rightarrow> possession_window list" where
  "repeat_daily_slots track horizon section_id =
    (if horizon \<le> 0 then []
     else concat (map (\<lambda>day. concat (map (daily_slot track horizon section_id day) DAILY_SLOTS))
            [0..<nat (- ((- horizon) div 1440))]))"

definition generate_possession_windows ::
  "track_segment list \<Rightarrow> int \<Rightarrow> registry option \<Rightarrow> possession_window list res" where
  "generate_possession_windows tracks horizon reg =
     bind_res (case reg of None \<Rightarrow> Inr None | Some r \<Rightarrow> bind_res (sole_section_id r) (\<lambda>s. Inr (Some s)))
       (\<lambda>section_id. Inr (concat (map (\<lambda>t. repeat_daily_slots (trk_id t) horizon section_id) tracks)))"

section \<open>The boundary\<close>

definition POSSESSION_DERIVATION_CANONICAL_TIMETABLE :: string where
  "POSSESSION_DERIVATION_CANONICAL_TIMETABLE = ''CANONICAL_TIMETABLE_DERIVED''"
definition POSSESSION_DERIVATION_GENERATED_SLOTS :: string where
  "POSSESSION_DERIVATION_GENERATED_SLOTS = ''GENERATED_STATIC_SLOTS''"

definition derived_possession_provenance :: "provenance_level \<Rightarrow> provenance_level res" where
  "derived_possession_provenance timetable = (if timetable = SYNTHETIC then Inr SYNTHETIC else Inl ValueError)"

record possession_inputs =
  pi_windows :: "possession_window list"
  pi_derivation :: string
  pi_timetable :: provenance_level
  pi_possession :: provenance_level
  pi_snapshot :: "train_snapshot option"
  pi_topology :: provenance_level
  pi_asset_condition :: provenance_level
  pi_source_label :: "string option"

definition rejections_of :: "possession_inputs \<Rightarrow> train_rejection list" where
  "rejections_of p = (case pi_snapshot p of None \<Rightarrow> [] | Some sn \<Rightarrow> snp_rejections sn)"

definition coverage_gate :: "train_record list \<Rightarrow> moment_ref \<Rightarrow> int \<Rightarrow> unit res" where
  "coverage_gate rs horizon_start horizon_minutes =
     bind_res (covered_service_dates rs) (\<lambda>coverage.
     bind_res (uncovered_horizon_days coverage horizon_start horizon_minutes) (\<lambda>uncovered.
     if uncovered \<noteq> [] then Inl TimetableCoverageGapError else Inr ()))"

definition possession_level :: "data_basis \<Rightarrow> provenance_level \<Rightarrow> provenance_level res" where
  "possession_level b timetable =
    (if timetable = SYNTHETIC then derived_possession_provenance timetable
     else case db_derived_possession b of Some l \<Rightarrow> Inr l | None \<Rightarrow> derived_possession_provenance timetable)"

definition canonical_possession_inputs :: "corridor_dataset \<Rightarrow> string \<Rightarrow> int \<Rightarrow> possession_inputs res" where
  "canonical_possession_inputs ds horizon_start horizon_minutes =
    (let basis = cds_basis ds; rs = cds_records ds; tp = cds_topology ds;
         buffer = (case db_safety_buffer basis of None \<Rightarrow> DEFAULT_SAFETY_BUFFER_MINUTES | Some m \<Rightarrow> m);
         minimum = (case db_minimum_window basis of None \<Rightarrow> DEFAULT_MINIMUM_WINDOW_MINUTES | Some m \<Rightarrow> m) in
     bind_res (coverage_gate rs (As_text horizon_start) horizon_minutes) (\<lambda>_.
     bind_res (make_static_provider rs tp (db_train_provenance basis) (Some (As_text horizon_start))) (\<lambda>p.
     bind_res (possession_windows_from_provider (fetch p) tp horizon_minutes buffer minimum (Some (cds_registry ds)))
       (\<lambda>(ws, sn).
     bind_res (from_train_data_provenance (snp_provenance sn)) (\<lambda>timetable.
     bind_res (possession_level basis timetable) (\<lambda>possession.
     Inr \<lparr>pi_windows = ws, pi_derivation = POSSESSION_DERIVATION_CANONICAL_TIMETABLE, pi_timetable = timetable,
          pi_possession = possession, pi_snapshot = Some sn, pi_topology = db_topology basis,
          pi_asset_condition = db_asset_condition basis, pi_source_label = db_source_label basis\<rparr>))))))"

definition generated_possession_inputs :: "intake \<Rightarrow> int \<Rightarrow> possession_inputs res" where
  "generated_possession_inputs ik horizon_minutes =
     bind_res (generate_possession_windows (crd_tracks (in_corridor ik)) horizon_minutes (in_registry ik)) (\<lambda>ws.
     Inr \<lparr>pi_windows = ws, pi_derivation = POSSESSION_DERIVATION_GENERATED_SLOTS, pi_timetable = SYNTHETIC,
          pi_possession = SYNTHETIC, pi_snapshot = None, pi_topology = SYNTHETIC,
          pi_asset_condition = SYNTHETIC, pi_source_label = None\<rparr>)"

definition possession_inputs_for :: "service \<Rightarrow> planner \<Rightarrow> string \<Rightarrow> int option \<Rightarrow> possession_inputs res" where
  "possession_inputs_for sv pl horizon_start horizon_minutes =
    (let minutes = (case horizon_minutes of None \<Rightarrow> sv_horizon sv | Some m \<Rightarrow> m) in
     case pl_dataset pl of
       Some ds \<Rightarrow>
        if cds_records ds \<noteq> [] then canonical_possession_inputs ds horizon_start minutes
        else generated_possession_inputs (pl_intake pl) minutes
     | None \<Rightarrow> generated_possession_inputs (pl_intake pl) minutes)"

definition service_possession_windows ::
  "service \<Rightarrow> planner \<Rightarrow> string \<Rightarrow> int option \<Rightarrow> possession_window list res" where
  "service_possession_windows sv pl horizon_start horizon_minutes =
     bind_res (possession_inputs_for sv pl horizon_start horizon_minutes) (\<lambda>p. Inr (pi_windows p))"

section \<open>Optimization input\<close>

definition optimization_snapshot ::
  "db \<Rightarrow> (block_candidate list \<times> block_candidate list \<times> (string \<times> string) list) res" where
  "optimization_snapshot d =
    (let active = list_active d in
     bind_res (assert_committed_state_consistent active) (\<lambda>_.
     bind_res (map_res (\<lambda>j. bind_res (candidate_from_dict (job_block j)) (\<lambda>b. Inr (j, b))) active) (\<lambda>rows.
     Inr (map snd rows, map snd (filter (\<lambda>(j, b). job_status j \<in> set COMMITTED_STATUSES) rows),
          map (\<lambda>(j, b). (job_id j, job_status j)) rows))))"

definition classify_for_optimization :: "db \<Rightarrow> (block_candidate list \<times> block_candidate list) res" where
  "classify_for_optimization d = bind_res (optimization_snapshot d) (\<lambda>(bs, cs, _). Inr (bs, cs))"

end
