(* ===== verification/Optimization.thy ===== *)
theory Optimization
  imports Possession_Inputs Run_Audit
begin

text \<open>
  One optimization of the corridor, \<^verbatim>\<open>backend/app/jobs/optimization.py\<close>: the request built from the
  stored jobs and the possession inputs, the audited call of the solver, and the outcome written in one
  transaction. A run takes the database and the audit table and returns its answer with both as it
  leaves them. \<open>oc_clock k\<close> is the \<open>k\<close>-th reading of the clock, \<open>oc_run_id\<close> the minted run id, \<open>oc_audit\<close>
  the clock and texts of the audit record, \<open>oc_solver\<close> and \<open>oc_arrange\<close> the parameters of \<open>solve\<close>.
\<close>

section \<open>The request\<close>

definition DEFAULT_MIN_HEADWAY_MINUTES :: int where "DEFAULT_MIN_HEADWAY_MINUTES = 15"
definition OPTIMIZATION_HORIZON_MINUTES :: int where "OPTIMIZATION_HORIZON_MINUTES = 2880"
definition OPTIMIZATION_HORIZON_START :: string where "OPTIMIZATION_HORIZON_START = DEFAULT_HORIZON_START"

definition build_jobs_optimization_request ::
  "string \<Rightarrow> string list \<Rightarrow> block_candidate list \<Rightarrow> possession_window list \<Rightarrow> block_candidate list \<Rightarrow>
   string \<Rightarrow> int \<Rightarrow> int \<Rightarrow> optimization_request res" where
  "build_jobs_optimization_request corridor tracks candidates windows committed horizon_start minutes headway =
    (if candidates = [] then Inl NoEligibleJobsError
     else if windows = [] then Inl PossessionDataUnavailableError
     else make_request
       \<lparr>oq_corridor = corridor, oq_horizon_minutes = minutes, oq_tracks = tracks, oq_candidates = candidates,
        oq_windows = windows, oq_committed = committed, oq_headway = headway, oq_timetable = [],
        oq_horizon_start = horizon_start\<rparr>)"

definition build_provenance_profile :: "possession_inputs \<Rightarrow> provenance_profile res" where
  "build_provenance_profile p =
     make_profile (JStr (level_value (pi_topology p))) (JStr (level_value (pi_timetable p)))
       (JStr (level_value (pi_asset_condition p))) (JStr (level_value (pi_possession p)))"

definition MAX_AUDITED_REJECTIONS :: nat where "MAX_AUDITED_REJECTIONS = 20"

definition rejection_summary :: "possession_inputs \<Rightarrow> dict" where
  "rejection_summary p =
    (let rejected = rejections_of p in
     if rejected = [] then fmempty
     else dict_of
       [(''train_rejection_count'', JInt (int (length rejected))),
        (''rejected_train_numbers'',
         JArr (map JStr (take MAX_AUDITED_REJECTIONS (sort (map rej_number rejected)))))])"

section \<open>The outcome\<close>

record placement_entry =
  pe_job :: string
  pe_track :: string
  pe_start :: int
  pe_end :: int
  pe_committed :: bool

record refusal_entry =
  rf_job :: string
  rf_track :: string
  rf_reason :: string

definition placement_dict :: "placement_entry \<Rightarrow> dict" where
  "placement_dict e = dict_of
     [(''job_id'', JStr (pe_job e)), (''track_id'', JStr (pe_track e)), (''start_minute'', JInt (pe_start e)),
      (''end_minute'', JInt (pe_end e)), (''is_committed'', JBool (pe_committed e))]"

text \<open>\<^verbatim>\<open>"; ".join(...)\<close>\<close>

fun join_reasons :: "string list \<Rightarrow> string" where
  "join_reasons [] = []"
| "join_reasons [s] = s"
| "join_reasons (s # rest) = s @ ''; '' @ join_reasons rest"

definition summarize_outcome ::
  "optimization_result \<Rightarrow> block_candidate list \<Rightarrow> placement_entry list \<times> refusal_entry list" where
  "summarize_outcome result considered =
    (let scheduled_ids = map sb_id (os_scheduled result);
         fallback = (if os_infeasibility result \<noteq> [] then join_reasons (os_infeasibility result)
                     else ''not scheduled by the optimizer (no reason reported)'') in
     (map (\<lambda>s. \<lparr>pe_job = sb_id s, pe_track = sb_track s, pe_start = sb_start s, pe_end = sb_end s,
               pe_committed = sb_committed s\<rparr>) (os_scheduled result),
      map (\<lambda>b. \<lparr>rf_job = bc_id b, rf_track = bc_track b,
               rf_reason = (case map_of (rev (os_rejections result)) (bc_id b) of
                  None \<Rightarrow> fallback | Some r \<Rightarrow> reason_text r)\<rparr>)
        (filter (\<lambda>b. bc_id b \<notin> set scheduled_ids) considered)))"

text \<open>A dictionary comprehension keeps the last of equal keys.\<close>

definition last_wins :: "('k \<times> 'v) list \<Rightarrow> ('k, 'v) fmap" where
  "last_wins kvs = fmap_of_list (rev kvs)"

definition committed_mates :: "placement_entry list \<Rightarrow> block_candidate list \<Rightarrow> block_candidate \<Rightarrow> string \<Rightarrow> string list" where
  "committed_mates scheduled committed b jid =
    (let kept = map pe_job (filter pe_committed scheduled) in
     sort (remdups (map bc_id (filter (\<lambda>m. bc_id m \<noteq> jid \<and> resource_key m = resource_key b \<and> bc_id m \<in> set kept)
       committed))))"

definition explanation_of ::
  "placement_entry list \<Rightarrow> block_candidate list \<Rightarrow> possession_inputs \<Rightarrow> placement_entry \<Rightarrow> block_candidate \<Rightarrow> dict" where
  "explanation_of scheduled committed p e b =
    (let window = find (\<lambda>w. window_covers w b \<and> pw_start w \<le> pe_start e \<and> pe_end e \<le> pw_end w) (pi_windows p);
         avoided = sort (map rej_number (filter (\<lambda>j. rej_sections j = [] \<or>
           (case bc_section b of None \<Rightarrow> False | Some s \<Rightarrow> s \<in> set (rej_sections j))) (rejections_of p))) in
     dict_of
       ([(''objective_score'', JFloat (round4 (bc_risk b + bc_priority b))),
         (''committed_resource_mates'', JArr (map JStr (committed_mates scheduled committed b (pe_job e))))] @
        (case window of None \<Rightarrow> []
         | Some w \<Rightarrow> [(''possession_window_start_minute'', JInt (pw_start w)),
                     (''possession_window_end_minute'', JInt (pw_end w))]) @
        (case pi_snapshot p of
           None \<Rightarrow> [(''train_data_available'', JBool False), (''trains_avoided'', JArr [])]
         | Some sn \<Rightarrow> [(''train_data_available'', JBool True), (''trains_avoided'', JArr (map JStr avoided))])))"

definition proposal_explanations ::
  "placement_entry list \<Rightarrow> block_candidate list \<Rightarrow> block_candidate list \<Rightarrow> possession_inputs \<Rightarrow> (string, dict) fmap" where
  "proposal_explanations scheduled candidates committed p =
     last_wins (concat (map (\<lambda>e.
       case find (\<lambda>b. bc_id b = pe_job e) (rev candidates) of None \<Rightarrow> []
       | Some b \<Rightarrow> [(pe_job e, explanation_of scheduled committed p e b)]) scheduled))"

section \<open>A run\<close>

definition OUTCOME_ERROR :: string where "OUTCOME_ERROR = ''ERROR''"
definition OUTCOME_NOT_RUN :: string where "OUTCOME_NOT_RUN = ''NOT_RUN''"
definition DEFAULT_TRIGGER :: string where "DEFAULT_TRIGGER = ''jobs_optimize''"

record occasion =
  oc_clock :: "nat \<Rightarrow> datetime"
  oc_world :: world
  oc_run_id :: string
  oc_audit :: run_context
  oc_reason :: "py_error \<Rightarrow> string"
  oc_solver :: cp_solver
  oc_arrange :: "string list \<Rightarrow> string list"

record optimization_response =
  op_corridor :: string
  op_run_id :: string
  op_status :: string
  op_solve_time :: rat
  op_possession_source :: string
  op_possession_derivation :: string
  op_window_count :: nat
  op_provenance :: provenance_profile
  op_uncovered :: "string list"
  op_generated_at :: string
  op_considered :: nat
  op_committed :: nat
  op_scheduled :: "placement_entry list"
  op_unscheduled :: "refusal_entry list"
  op_infeasibility :: "string list"

type_synonym run_state = "db \<times> audit_table"

abbreviation at_reading :: "occasion \<Rightarrow> nat \<Rightarrow> world" where
  "at_reading oc k \<equiv> (oc_world oc)\<lparr>wd_now := oc_clock oc k\<rparr>"

text \<open>\<^verbatim>\<open>_record_failure\<close>: whatever happens while recording, the original error is raised.\<close>

definition record_failure ::
  "occasion \<Rightarrow> string list \<Rightarrow> attempt \<Rightarrow> py_error \<Rightarrow> string \<Rightarrow> db \<Rightarrow> db" where
  "record_failure oc job_ids a e outcome_label d =
    (case bind_res (event_timestamp (oc_clock oc 1)) (\<lambda>failed_at.
            mutate_jobs d job_ids (plan_optimization_failure (wd_env (oc_world oc)) job_ids a failed_at
              (oc_reason oc e) outcome_label) False) of
       Inl _ \<Rightarrow> d | Inr d' \<Rightarrow> d')"

text \<open>A refusal over inconsistent stored state is recorded on the jobs it names; when that fails, its
  own error takes the place of the refusal.\<close>

definition refuse_inconsistent ::
  "occasion \<Rightarrow> nat \<Rightarrow> actor \<Rightarrow> py_error \<Rightarrow> db \<Rightarrow> py_error \<times> db" where
  "refuse_inconsistent oc k who e d =
    (case e of
       CommittedStateIntegrityError ids \<Rightarrow>
        (case record_rejected_transition (at_reading oc k) ids who ''optimize'' e d of
           (Inl e', d') \<Rightarrow> (e', d') | (Inr _, d') \<Rightarrow> (e, d'))
     | _ \<Rightarrow> (e, d))"

definition possession_request ::
  "service \<Rightarrow> planner \<Rightarrow> string \<Rightarrow> block_candidate list \<Rightarrow> block_candidate list \<Rightarrow>
   (possession_inputs \<times> optimization_request) res" where
  "possession_request sv pl target candidates committed =
     bind_res (possession_inputs_for sv pl OPTIMIZATION_HORIZON_START (Some (sv_horizon sv))) (\<lambda>p.
     bind_res (build_jobs_optimization_request target (map trk_id (crd_tracks (in_corridor (pl_intake pl))))
                 candidates (pi_windows p) committed OPTIMIZATION_HORIZON_START (sv_horizon sv)
                 DEFAULT_MIN_HEADWAY_MINUTES) (\<lambda>q. Inr (p, q)))"

definition possession_source_of :: "possession_inputs \<Rightarrow> provenance_profile \<Rightarrow> string res" where
  "possession_source_of p profile =
    (case pi_source_label p of
       Some label \<Rightarrow> if label \<noteq> [] then Inr label else to_possession_source (pv_possession profile)
     | None \<Rightarrow> to_possession_source (pv_possession profile))"

definition uncovered_tracks :: "optimization_request \<Rightarrow> string list" where
  "uncovered_tracks q = sort (map fst (uncovered_possession_tracks q))"

definition provenance_snapshot ::
  "possession_inputs \<Rightarrow> optimization_request \<Rightarrow> provenance_profile \<Rightarrow> string \<Rightarrow> dict" where
  "provenance_snapshot p q profile source = dmerge (dict_of
     [(''possession_source'', JStr source), (''possession_derivation'', JStr (pi_derivation p)),
      (''possession_window_count'', JInt (int (length (pi_windows p)))),
      (''uncovered_tracks'', JArr (map JStr (uncovered_tracks q))),
      (''provenance'', JObj (profile_to_dict profile))]) (rejection_summary p)"

definition outcome_request_of ::
  "attempt \<Rightarrow> string \<Rightarrow> optimization_result \<Rightarrow> placement_entry list \<Rightarrow> refusal_entry list \<Rightarrow>
   (string \<times> string) list \<Rightarrow> (string, dict) fmap \<Rightarrow> outcome_request" where
  "outcome_request_of a generated_at result scheduled refused statuses explanations =
     \<lparr>or_attempt = a, or_completed_at = generated_at, or_solver_status = os_status result,
      or_placements = last_wins (map (\<lambda>e. (pe_job e, placement_dict e)) scheduled),
      or_refusals = last_wins (map (\<lambda>e. (rf_job e, rf_reason e)) refused),
      or_expected = Some (last_wins statuses), or_record_history = True, or_explanations = explanations\<rparr>"

text \<open>After the solver answered: the outcome of every job in one transaction.\<close>

definition write_outcome ::
  "occasion \<Rightarrow> actor \<Rightarrow> string list \<Rightarrow> outcome_request \<Rightarrow> db \<Rightarrow> unit res \<times> db" where
  "write_outcome oc who job_ids r d =
    (case bind_res (plan_optimization_outcome (wd_env (oc_world oc)) job_ids r) (\<lambda>plan.
            mutate_jobs d job_ids plan True) of
       Inr d' \<Rightarrow> (Inr (), d')
     | Inl e \<Rightarrow> (case refuse_inconsistent oc 2 who e d of (e', d') \<Rightarrow> (Inl e', d')))"

definition finish_run ::
  "occasion \<Rightarrow> actor \<Rightarrow> attempt \<Rightarrow> possession_inputs \<Rightarrow> optimization_request \<Rightarrow> block_candidate list \<Rightarrow>
   block_candidate list \<Rightarrow> (string \<times> string) list \<Rightarrow> provenance_profile \<Rightarrow> string \<Rightarrow> optimization_result \<Rightarrow>
   db \<Rightarrow> optimization_response res \<times> db" where
  "finish_run oc who a p q candidates committed statuses profile source result d =
    (let (scheduled, refused) = summarize_outcome result candidates;
         explanations = proposal_explanations scheduled candidates committed p in
     checked (event_timestamp (oc_clock oc 1)) (\<lambda>generated_at d.
     case write_outcome oc who (map bc_id candidates)
            (outcome_request_of a generated_at result scheduled refused statuses explanations) d of
       (Inl e, d') \<Rightarrow> (Inl e, d')
     | (Inr _, d') \<Rightarrow> (Inr
         \<lparr>op_corridor = at_corridor_id a, op_run_id = (case at_run_id a of None \<Rightarrow> [] | Some i \<Rightarrow> i),
          op_status = os_status result, op_solve_time = os_solve_time result, op_possession_source = source,
          op_possession_derivation = pi_derivation p, op_window_count = length (pi_windows p),
          op_provenance = profile, op_uncovered = uncovered_tracks q, op_generated_at = generated_at,
          op_considered = length candidates, op_committed = length committed, op_scheduled = scheduled,
          op_unscheduled = refused, op_infeasibility = os_infeasibility result\<rparr>, d')) d)"

text \<open>From the attempt on: inputs, audited solve, outcome.\<close>

definition run_attempt ::
  "service \<Rightarrow> planner \<Rightarrow> occasion \<Rightarrow> actor \<Rightarrow> attempt \<Rightarrow> block_candidate list \<Rightarrow> block_candidate list \<Rightarrow>
   (string \<times> string) list \<Rightarrow> run_state \<Rightarrow> optimization_response res \<times> run_state" where
  "run_attempt sv pl oc who a candidates committed statuses = (\<lambda>(d, runs).
    (let job_ids = map bc_id candidates in
     case possession_request sv pl (at_corridor_id a) candidates committed of
       Inl e \<Rightarrow> (Inl e, record_failure oc job_ids (a\<lparr>at_run_id := None\<rparr>) e OUTCOME_NOT_RUN d, runs)
     | Inr (p, q) \<Rightarrow>
        (case bind_res (build_provenance_profile p) (\<lambda>profile.
                bind_res (possession_source_of p profile) (\<lambda>source. Inr (profile, source))) of
           Inl e \<Rightarrow> (Inl e, d, runs)
         | Inr (profile, source) \<Rightarrow>
            (case record_run (oc_audit oc) runs q (solve (oc_solver oc) (oc_arrange oc)) (at_trigger a)
                    (actor_id who) (Some (provenance_snapshot p q profile source)) (at_run_id a) of
               (Inl e, runs') \<Rightarrow> (Inl e, record_failure oc job_ids a e OUTCOME_ERROR d, runs')
             | (Inr result, runs') \<Rightarrow>
                (case finish_run oc who a p q candidates committed statuses profile source result d of
                   (r, d') \<Rightarrow> (r, d', runs'))))))"

definition optimize_corridor ::
  "service \<Rightarrow> planner \<Rightarrow> occasion \<Rightarrow> string option \<Rightarrow> actor option \<Rightarrow> run_state \<Rightarrow>
   optimization_response res \<times> run_state" where
  "optimize_corridor sv pl oc corridor_id actor = (\<lambda>(d, runs).
    (let who = resolve_actor actor; own = crd_id (in_corridor (pl_intake pl));
         target = (case corridor_id of Some c \<Rightarrow> if c \<noteq> [] then c else own | None \<Rightarrow> own) in
     case bind_res (ask sv who REQUEST_OPTIMIZATION) (\<lambda>_.
          bind_res (if target \<noteq> own then Inl (KeyError target) else Inr ()) (\<lambda>_.
          authorize_corridor sv who REQUEST_OPTIMIZATION (Some target))) of
       Inl e \<Rightarrow> (Inl e, d, runs)
     | Inr _ \<Rightarrow>
        (case optimization_snapshot d of
           Inl e \<Rightarrow> (case refuse_inconsistent oc 0 who e d of (e', d') \<Rightarrow> (Inl e', d', runs))
         | Inr (candidates, committed, statuses) \<Rightarrow>
            if candidates = [] then (Inl NoEligibleJobsError, d, runs)
            else (case event_timestamp (oc_clock oc 0) of
               Inl e \<Rightarrow> (Inl e, d, runs)
             | Inr requested_at \<Rightarrow>
                run_attempt sv pl oc who
                  \<lparr>at_corridor_id = target, at_requester = Some who, at_requested_at = requested_at,
                   at_run_id = Some (oc_run_id oc), at_horizon_start = OPTIMIZATION_HORIZON_START,
                   at_trigger = DEFAULT_TRIGGER\<rparr> candidates committed statuses (d, runs)))))"

end
