(* ===== verification/Example_Optimization.thy ===== *)
theory Example_Optimization
  imports Optimization Service_Calls Lifecycle_Properties Intake_Properties
begin

text \<open>
  One optimization evaluated by the definitions themselves: two stored jobs, a commitment and a job too
  long for its window, on a corridor with one train in its timetable. The witnesses of the optimization properties read their inputs off it.
\<close>

section \<open>A run, evaluated\<close>

definition ex_dataset :: corridor_dataset where
  "ex_dataset = \<lparr>cds_corridor = in_corridor ex_intake, cds_topology = ex_topology, cds_registry = ex_registry,
     cds_records = [ex_train], cds_basis = SYNTHETIC_BASIS\<rparr>"

definition ex_planner :: planner where
  "ex_planner = \<lparr>pl_intake = ex_intake, pl_dataset = Some ex_dataset\<rparr>"

definition ex_kept :: block_candidate where
  "ex_kept = (cand_of ''J1'' 60 0 [])\<lparr>bc_mutex := None, bc_committed := True,
     bc_status := COMMITTED_BLOCK, bc_metadata := dict_of
       [(COMMITTED_START_KEY, JInt 60), (COMMITTED_END_KEY, JInt 120), (PROPOSAL_RUN_ID_KEY, JStr ''RUN-1'')]\<rparr>"

definition ex_long :: block_candidate where
  "ex_long = (cand_of ''J3'' 700 0 [])\<lparr>bc_mutex := None\<rparr>"

definition ex_kept_row :: job where
  "ex_kept_row = run_job\<lparr>job_status := NOTIFIED, job_start := Some 60, job_end := Some 120,
     job_block := candidate_to_dict ex_kept\<rparr>"

definition ex_run_db :: db where
  "ex_run_db = \<lparr>db_rows = [ex_kept_row, run_job\<lparr>job_id := ''J3'', job_block := candidate_to_dict ex_long\<rparr>],
     db_events = []\<rparr>"

fun ex_assignment :: assignment where
  "ex_assignment (Presence k) = (if k = 0 then 1 else 0)"
| "ex_assignment (Optimizer.Start k) = (if k = 0 then 60 else 0)"
| "ex_assignment (Optimizer.End k) = (if k = 0 then 120 else 0)"
| "ex_assignment (Selection k n) = (if n = 0 then 1 else 0)"
| "ex_assignment (Buffered k) = (if k = 0 then 135 else 0)"

definition ex_occasion :: occasion where
  "ex_occasion = \<lparr>oc_clock = (\<lambda>_. run_moment), oc_world = report_world, oc_run_id = ''RUN-2'',
     oc_audit = ex_context, oc_reason = (\<lambda>_. ''why''), oc_solver = offering ex_assignment, oc_arrange = (\<lambda>ids. ids)\<rparr>"

lemma ex_considered:
  "optimization_snapshot ex_run_db = Inr ([ex_kept, ex_long], [ex_kept], [(''J1'', NOTIFIED), (''J3'', REPORTED)])"
  by code_simp

lemma ex_occasion_id: "oc_run_id ex_occasion \<noteq> []" "oc_run_id ex_occasion = ''RUN-2''"
  by (simp_all add: ex_occasion_def)

lemma ex_ids: "bc_id ex_kept = ''J1''" "bc_id ex_long = ''J3''"
  by (simp_all add: ex_kept_def ex_long_def cand_of_def)

lemma ex_kept_stored:
  "get ex_run_db ''J1'' = Some ex_kept_row" "job_status ex_kept_row = NOTIFIED"
  "job_window ex_kept_row = (Some 60, Some 120)"
  by (simp_all add: ex_run_db_def ex_kept_row_def run_job_def get_def get_row_def job_window_def)

definition ex_inputs :: possession_inputs where
  "ex_inputs = fst (projr (possession_request open_service ex_planner ''C'' [ex_kept, ex_long] [ex_kept]))"
definition ex_question :: optimization_request where
  "ex_question = snd (projr (possession_request open_service ex_planner ''C'' [ex_kept, ex_long] [ex_kept]))"
definition ex_answer :: optimization_result where
  "ex_answer = projr (solve (offering ex_assignment) (\<lambda>ids. ids) ex_question)"

lemma ex_requested:
  "possession_request open_service ex_planner ''C'' [ex_kept, ex_long] [ex_kept] = Inr (ex_inputs, ex_question)"
  unfolding ex_inputs_def ex_question_def by code_simp

lemma ex_answered: "solve (offering ex_assignment) (\<lambda>ids. ids) ex_question = Inr ex_answer"
  unfolding ex_answer_def by code_simp

definition ex_attempt :: attempt where
  "ex_attempt = \<lparr>at_corridor_id = ''C'', at_requester = Some (resolve_actor None), at_requested_at = run_now,
     at_run_id = Some ''RUN-2'', at_horizon_start = OPTIMIZATION_HORIZON_START, at_trigger = DEFAULT_TRIGGER\<rparr>"

definition ex_profile :: provenance_profile where
  "ex_profile = \<lparr>pv_topology = SYNTHETIC, pv_timetable = SYNTHETIC, pv_asset_condition = SYNTHETIC,
     pv_possession = SYNTHETIC\<rparr>"

lemma ex_profiled: "build_provenance_profile ex_inputs = Inr ex_profile"
  "possession_source_of ex_inputs ex_profile = Inr ''GENERATED_STATIC''"
  by code_simp+

definition ex_placed :: "placement_entry list" where
  "ex_placed = [\<lparr>pe_job = ''J1'', pe_track = ''UP-1'', pe_start = 60, pe_end = 120, pe_committed = True\<rparr>]"
definition ex_refused :: "refusal_entry list" where
  "ex_refused = [\<lparr>rf_job = ''J3'', rf_track = ''UP-1'', rf_reason = reason_text Window_unfit\<rparr>]"

lemma ex_summary: "summarize_outcome ex_answer [ex_kept, ex_long] = (ex_placed, ex_refused)"
  by code_simp

definition ex_outcome :: outcome_request where
  "ex_outcome = outcome_request_of ex_attempt run_now ex_answer ex_placed ex_refused
     [(''J1'', NOTIFIED), (''J3'', REPORTED)]
     (proposal_explanations ex_placed [ex_kept, ex_long] [ex_kept] ex_inputs)"

lemma ex_written: "fst (write_outcome ex_occasion (resolve_actor None) [''J1'', ''J3''] ex_outcome ex_run_db) = Inr ()"
  by code_simp

lemma stamp_steps: "ymd_of_day 739868 = (2026, 9, 10)" "pad 2 10 = ''10''" "pad 2 3 = ''03''"
  by code_simp+

lemma ex_stamp: "event_timestamp run_moment = Inr run_now"
proof -
  have "instant run_moment = dt_local run_moment" "dt_local run_moment = (739868 * 1440 + 180) * 60000000"
    by (simp_all add: run_moment_def utc_def instant_def run_day_value)
  moreover have "isoformat_utc ((739868 * 1440 + 180) * 60000000) = run_now"
    by (simp add: isoformat_utc_def isoformat_steps stamp_steps Let_def run_now_def)
  ultimately show ?thesis
    by (simp add: event_timestamp_ok in_range_def LAST_DAY_def run_moment_def utc_def run_day_value)
qed

text \<open>When each of its steps succeeds, a run answers, with one more record.\<close>

definition attempt_of :: "occasion \<Rightarrow> planner \<Rightarrow> actor \<Rightarrow> string \<Rightarrow> attempt" where
  "attempt_of oc pl who requested_at =
     \<lparr>at_corridor_id = crd_id (in_corridor (pl_intake pl)), at_requester = Some who, at_requested_at = requested_at,
      at_run_id = Some (oc_run_id oc), at_horizon_start = OPTIMIZATION_HORIZON_START, at_trigger = DEFAULT_TRIGGER\<rparr>"

lemma run_answers:
  assumes "ask sv (resolve_actor a) REQUEST_OPTIMIZATION = Inr ()"
    and "authorize_corridor sv (resolve_actor a) REQUEST_OPTIMIZATION (Some (crd_id (in_corridor (pl_intake pl)))) = Inr ()"
    and "optimization_snapshot d = Inr (candidates, committed, statuses)" "candidates \<noteq> []"
    and "event_timestamp (oc_clock oc 0) = Inr t0" "event_timestamp (oc_clock oc 1) = Inr t1"
    and "possession_request sv pl (crd_id (in_corridor (pl_intake pl))) candidates committed = Inr (p, q)"
    and "build_provenance_profile p = Inr profile" "possession_source_of p profile = Inr source"
    and "solve (oc_solver oc) (oc_arrange oc) q = Inr result"
    and "oc_run_id oc \<noteq> []" "oc_run_id oc \<notin> run_id ` set runs"
    and "summarize_outcome result candidates = (placed, refused)"
    and "fst (write_outcome oc (resolve_actor a) (map bc_id candidates)
      (outcome_request_of (attempt_of oc pl (resolve_actor a) t0) t1 result placed refused statuses
        (proposal_explanations placed candidates committed p)) d) = Inr ()"
  shows "\<exists>resp d' row. optimize_corridor sv pl oc None a (d, runs) = (Inr resp, d', runs @ [row]) \<and>
    op_scheduled resp = placed \<and> op_unscheduled resp = refused \<and> run_id row = oc_run_id oc"
proof -
  let ?who = "resolve_actor a" and ?at = "attempt_of oc pl (resolve_actor a) t0"
  have at: "at_corridor_id ?at = crd_id (in_corridor (pl_intake pl))" "at_run_id ?at = Some (oc_run_id oc)"
    by (simp_all add: attempt_of_def)
  obtain d' where w: "write_outcome oc ?who (map bc_id candidates)
      (outcome_request_of ?at t1 result placed refused statuses (proposal_explanations placed candidates committed p)) d =
      (Inr (), d')" using assms(14) by (metis prod.collapse)
  have "\<exists>resp. finish_run oc ?who ?at p q candidates committed statuses profile source result d = (Inr resp, d') \<and>
      op_scheduled resp = placed \<and> op_unscheduled resp = refused"
    using w assms(6,13) by (simp add: finish_run_def checked_def)
  then obtain resp where resp: "finish_run oc ?who ?at p q candidates committed statuses profile source result d = (Inr resp, d')"
      "op_scheduled resp = placed" "op_unscheduled resp = refused" by blast
  have "\<exists>row. record_run (oc_audit oc) runs q (solve (oc_solver oc) (oc_arrange oc)) t who prov (Some (oc_run_id oc)) =
      (Inr result, runs @ [row]) \<and> run_id row = oc_run_id oc" for t who prov
    using assms(10-12) by (simp add: record_run_def Let_def record_row_def)
  then obtain row where row: "record_run (oc_audit oc) runs q (solve (oc_solver oc) (oc_arrange oc)) (at_trigger ?at)
      (actor_id ?who) (Some (provenance_snapshot p q profile source)) (Some (oc_run_id oc)) = (Inr result, runs @ [row])"
      "run_id row = oc_run_id oc" by blast
  have attempt: "run_attempt sv pl oc ?who ?at candidates committed statuses (d, runs) = (Inr resp, d', runs @ [row])"
    using assms(7-9) by (simp add: run_attempt_def Let_def at row resp)
  have "optimize_corridor sv pl oc None a (d, runs) = (Inr resp, d', runs @ [row])"
    using attempt assms(1-5) by (simp add: optimize_corridor_def Let_def attempt_of_def)
  with resp row(2) show ?thesis by blast
qed

lemma open_optimize:
  "ask open_service who REQUEST_OPTIMIZATION = Inr ()"
  "authorize_corridor open_service who REQUEST_OPTIMIZATION place = Inr ()"
  by (simp_all add: authorize_corridor_def authorize_resource_def open_service_def unenforced_policy_def)

text \<open>The run keeps the commitment, refuses the job that is too long and leaves one record.\<close>

lemma ex_run:
  "\<exists>resp d' row. optimize_corridor open_service ex_planner ex_occasion None None (ex_run_db, []) = (Inr resp, d', [row]) \<and>
     op_scheduled resp = ex_placed \<and> op_unscheduled resp = ex_refused \<and> run_id row = ''RUN-2''"
proof -
  have fields: "oc_run_id ex_occasion = ''RUN-2''" "oc_clock ex_occasion = (\<lambda>_. run_moment)"
    "oc_solver ex_occasion = offering ex_assignment" "oc_arrange ex_occasion = (\<lambda>ids. ids)"
    "crd_id (in_corridor (pl_intake ex_planner)) = ''C''"
    by (simp_all add: ex_occasion_def ex_planner_def ex_intake_def)
  have "attempt_of ex_occasion ex_planner (resolve_actor None) run_now = ex_attempt"
    by (simp add: attempt_of_def fields ex_attempt_def)
  then show ?thesis
    using run_answers [OF open_optimize ex_considered, where oc = ex_occasion and pl = ex_planner and a = None
        and runs = "[]" and ?t0.0 = run_now and ?t1.0 = run_now]
      ex_requested ex_profiled ex_answered ex_summary ex_written
    by (simp add: fields ex_stamp ex_ids ex_outcome_def)
qed

section \<open>The same timetable declared real, without a source label\<close>

definition ex_real_planner :: planner where
  "ex_real_planner = \<lparr>pl_intake = ex_intake, pl_dataset = Some (ex_dataset\<lparr>cds_basis :=
     SYNTHETIC_BASIS\<lparr>db_label := ''NDLS'', db_train_provenance := REAL_SCHEDULED_TRAINS,
       db_derived_possession := Some REAL_STATIC\<rparr>\<rparr>)\<rparr>"

lemma ex_real_requested:
  "case possession_request open_service ex_real_planner ''C'' [ex_kept, ex_long] [ex_kept] of
     Inl _ \<Rightarrow> False | Inr (p, q) \<Rightarrow> pi_possession p = REAL_STATIC \<and> pi_source_label p = None"
  by code_simp

end
