(* ===== verification/Optimization_Properties.thy ===== *)
theory Optimization_Properties
  imports Example_Optimization
begin

text \<open>
  What a run of the optimizer over the stored jobs guarantees: it writes at most one batch and one audit
  record, it never touches a commitment, it accounts for every job it considered, and the work it places
  keeps clear of the trains of the corridor's timetable.
\<close>

section \<open>What a run writes\<close>

text \<open>Nothing, an outcome batch, a failure batch, or recorded refusals.\<close>

definition run_writes :: "db \<Rightarrow> db \<Rightarrow> bool" where
  "run_writes d d' \<longleftrightarrow> d' = d \<or>
     (\<exists>env ids r p. plan_optimization_outcome env ids r = Inr p \<and> mutate_jobs d ids p True = Inr d') \<or>
     (\<exists>env ids a t reason label. mutate_jobs d ids (plan_optimization_failure env ids a t reason label) False = Inr d') \<or>
     (\<exists>es. append_events_tx d es = Inr d')"

lemma run_writes_refl [simp]: "run_writes d d"
  by (simp add: run_writes_def)

lemma run_writes_step: "run_writes d d' \<Longrightarrow> db_step\<^sup>*\<^sup>* d d'"
  by (auto simp: run_writes_def intro: db_step.intros)

lemma record_failure_writes: "run_writes d (record_failure oc ids a e label d)"
  by (auto simp: record_failure_def run_writes_def bind_res_Inr_iff split: sum.splits)

lemma record_rejected_writes:
  "record_rejected_transition w ids who attempted e d = (r, d') \<Longrightarrow> run_writes d d'"
  by (auto simp: record_rejected_transition_def checked_def run_writes_def split: sum.splits if_splits)

lemma refuse_inconsistent_writes: "refuse_inconsistent oc k who e d = (e', d') \<Longrightarrow> run_writes d d'"
  by (auto simp: refuse_inconsistent_def split: py_error.splits prod.splits sum.splits dest: record_rejected_writes)

lemma write_outcome_writes: "write_outcome oc who ids r d = (x, d') \<Longrightarrow> run_writes d d'"
  by (auto simp: write_outcome_def bind_res_Inr_iff split: sum.splits prod.splits dest: refuse_inconsistent_writes)
    (auto simp: run_writes_def)

lemma finish_run_writes:
  "finish_run oc who a p q candidates committed statuses profile source result d = (r, d') \<Longrightarrow> run_writes d d'"
  by (auto simp: finish_run_def Let_def checked_def split: sum.splits prod.splits dest: write_outcome_writes)

lemma record_run_runs:
  "record_run c runs q f trigger who prov (Some i) = (r, runs') \<Longrightarrow> i \<noteq> [] \<Longrightarrow>
     runs' = runs \<or> (\<exists>row. runs' = runs @ [row] \<and> run_id row = i \<and> run_actor row = who)"
  by (auto simp: record_run_def Let_def record_row_def split: sum.splits if_splits)

lemma run_attempt_writes:
  assumes "run_attempt sv pl oc who a candidates committed statuses (d, runs) = (r, d', runs')"
    and "at_run_id a = Some i" "i \<noteq> []"
  shows "run_writes d d' \<and>
    (runs' = runs \<or> (\<exists>row. runs' = runs @ [row] \<and> run_id row = i \<and> run_actor row = actor_id who))"
  using assms
  by (auto simp: run_attempt_def Let_def record_failure_writes split: sum.splits prod.splits
      dest: finish_run_writes record_run_runs)

lemma optimize_writes:
  assumes "optimize_corridor sv pl oc c a (d, runs) = (r, d', runs')" "oc_run_id oc \<noteq> []"
  shows "run_writes d d' \<and>
    (runs' = runs \<or> (\<exists>row. runs' = runs @ [row] \<and> run_id row = oc_run_id oc \<and> run_actor row = actor_id (resolve_actor a)))"
  using assms
  by (auto simp: optimize_corridor_def Let_def split: sum.splits prod.splits if_splits
      dest: refuse_inconsistent_writes run_attempt_writes)

text \<open>C3: However an optimization ends, what it leaves behind is reached from the stored jobs by steps of
  the repository, and the audit trail is the old one or the old one with a single record, which carries
  the minted run id and the actor who caused the run.\<close>

theorem optimization_is_steps:
  assumes "oc_run_id oc \<noteq> []"
  shows "case optimize_corridor sv pl oc c a (d, runs) of (r, d', runs') \<Rightarrow>
    db_step\<^sup>*\<^sup>* d d' \<and>
    (runs' = runs \<or> (\<exists>row. runs' = runs @ [row] \<and> run_id row = oc_run_id oc \<and> run_actor row = actor_id (resolve_actor a)))"
proof -
  obtain r d' runs' where run: "optimize_corridor sv pl oc c a (d, runs) = (r, d', runs')" by (rule prod_cases3)
  from optimize_writes [OF this assms] run_writes_step [of d d'] show ?thesis by (simp add: run)
qed

lemma optimization_is_steps_witness:
  "\<exists>resp d' row. optimize_corridor open_service ex_planner ex_occasion None None (ex_run_db, []) = (Inr resp, d', [row]) \<and>
     db_step\<^sup>*\<^sup>* ex_run_db d' \<and> run_id row = ''RUN-2'' \<and> run_actor row = actor_id (resolve_actor None)"
proof -
  from ex_run obtain resp d' row where
    run: "optimize_corridor open_service ex_planner ex_occasion None None (ex_run_db, []) = (Inr resp, d', [row])"
    by blast
  from optimization_is_steps [OF ex_occasion_id(1), where sv = open_service and pl = ex_planner and c = None
      and a = None and d = ex_run_db and runs = "[]"] run
  show ?thesis by (auto simp: ex_occasion_id(2))
qed

section \<open>Commitments\<close>

lemma run_writes_commitment:
  assumes "run_writes d d'" "get d jid = Some j" "job_status j \<in> {NOTIFIED, IN_PROGRESS}"
  shows "\<exists>j'. get d' jid = Some j' \<and> job_status j' = job_status j \<and> job_window j' = job_window j \<and> job_block j' = job_block j"
proof -
  consider "d' = d" | (outcome) env ids r p where "plan_optimization_outcome env ids r = Inr p" "mutate_jobs d ids p True = Inr d'"
    | (failure) env ids x t reason label where
      "mutate_jobs d ids (plan_optimization_failure env ids x t reason label) False = Inr d'"
    | (events) es where "append_events_tx d es = Inr d'"
    using assms(1) by (auto simp: run_writes_def)
  then show ?thesis
  proof cases
    case outcome
    then show ?thesis by (intro optimization_keeps_commitments [OF assms(2,3)]) blast
  next
    case failure
    then show ?thesis by (intro optimization_keeps_commitments [OF assms(2,3)]) blast
  next
    case events
    then show ?thesis using assms(2) by (auto simp: append_events_tx_Inr get_def)
  qed (use assms(2) in auto)
qed

text \<open>C4: No optimization touches a commitment. However a run ends, by an outcome, a refusal or a failure
  at any point, a job that was notified or in progress before it keeps its status, its window and its
  whole block.\<close>

theorem optimization_run_keeps_commitments:
  assumes "optimize_corridor sv pl oc c a (d, runs) = (r, d', runs')" "oc_run_id oc \<noteq> []"
    and "get d jid = Some j" "job_status j \<in> {NOTIFIED, IN_PROGRESS}"
  shows "\<exists>j'. get d' jid = Some j' \<and> job_status j' = job_status j \<and> job_window j' = job_window j \<and> job_block j' = job_block j"
  using optimize_writes [OF assms(1,2)] run_writes_commitment [OF _ assms(3,4)] by blast

lemma optimization_run_keeps_commitments_witness:
  "\<exists>resp d' runs' j'. optimize_corridor open_service ex_planner ex_occasion None None (ex_run_db, []) = (Inr resp, d', runs') \<and>
     get d' ''J1'' = Some j' \<and> job_status j' = NOTIFIED \<and> job_window j' = (Some 60, Some 120)"
proof -
  from ex_run obtain resp d' row where
    run: "optimize_corridor open_service ex_planner ex_occasion None None (ex_run_db, []) = (Inr resp, d', [row])"
    by blast
  from optimization_run_keeps_commitments [OF run ex_occasion_id(1) ex_kept_stored(1)] show ?thesis
    by (auto simp: run ex_kept_stored(2,3))
qed

section \<open>A run that answers\<close>

lemma optimize_Inr:
  assumes "optimize_corridor sv pl oc c a (d, runs) = (Inr resp, d', runs')"
  obtains candidates committed statuses p q result requested generated where
    "optimization_snapshot d = Inr (candidates, committed, statuses)" "candidates \<noteq> []"
    "possession_inputs_for sv pl OPTIMIZATION_HORIZON_START (Some (sv_horizon sv)) = Inr p"
    "oq_candidates q = candidates" "oq_windows q = pi_windows p" "pi_windows p \<noteq> []" "oq_committed q = committed"
    "oq_horizon_minutes q = sv_horizon sv"
    "solve (oc_solver oc) (oc_arrange oc) q = Inr result"
    "summarize_outcome result candidates = (op_scheduled resp, op_unscheduled resp)"
    "op_status resp = os_status result"
proof -
  from assms obtain candidates committed statuses x where
    s: "optimization_snapshot d = Inr (candidates, committed, statuses)" "candidates \<noteq> []"
      "run_attempt sv pl oc (resolve_actor a) x candidates committed statuses (d, runs) = (Inr resp, d', runs')"
    by (auto simp: optimize_corridor_def Let_def split: sum.splits prod.splits if_splits)
  then obtain p q profile source result where
    r: "possession_request sv pl (at_corridor_id x) candidates committed = Inr (p, q)"
      "record_run (oc_audit oc) runs q (solve (oc_solver oc) (oc_arrange oc)) (at_trigger x) (actor_id (resolve_actor a))
        (Some (provenance_snapshot p q profile source)) (at_run_id x) = (Inr result, runs')"
      "finish_run oc (resolve_actor a) x p q candidates committed statuses profile source result d = (Inr resp, d')"
    by (auto simp: run_attempt_def Let_def split: sum.splits prod.splits)
  from r(1) have "possession_inputs_for sv pl OPTIMIZATION_HORIZON_START (Some (sv_horizon sv)) = Inr p"
      "oq_candidates q = candidates" "oq_windows q = pi_windows p" "pi_windows p \<noteq> []" "oq_committed q = committed"
      "oq_horizon_minutes q = sv_horizon sv"
    by (auto simp: possession_request_def build_jobs_optimization_request_def make_request_def bind_res_Inr_iff
        split: if_splits)
  moreover from r(2) have "solve (oc_solver oc) (oc_arrange oc) q = Inr result"
    by (auto simp: record_run_def Let_def split: sum.splits)
  moreover from r(3) have "summarize_outcome result candidates = (op_scheduled resp, op_unscheduled resp)"
      "op_status resp = os_status result"
    by (auto simp: finish_run_def Let_def checked_def split: sum.splits prod.splits)
  ultimately show ?thesis using that s(1,2) by blast
qed

lemma solve_scheduled_ids:
  "solve cp arrange q = Inr result \<Longrightarrow> sb_id ` set (os_scheduled result) \<subseteq> bc_id ` set (oq_candidates q)"
  by (auto simp: solve_def bind_res_Inr_iff Let_def scheduled_entry_def split: if_splits)

lemma split_ids:
  "S \<subseteq> f ` B \<Longrightarrow> S \<union> f ` {b \<in> B. f b \<notin> S} = f ` B \<and> S \<inter> f ` {b \<in> B. f b \<notin> S} = {}"
  by auto

lemma summarize_outcome_jobs:
  assumes "summarize_outcome result candidates = (scheduled, refused)"
  shows "pe_job ` set scheduled = sb_id ` set (os_scheduled result)"
    and "rf_job ` set refused = bc_id ` {b \<in> set candidates. bc_id b \<notin> sb_id ` set (os_scheduled result)}"
  using assms [symmetric] by (simp_all add: summarize_outcome_def Let_def image_image)

text \<open>C6: A successful optimization accounts for every job it considered: each is answered either as
  scheduled or as unscheduled with a reason, never both, and no other job is answered.\<close>

theorem optimization_accounts_for_every_job:
  assumes "optimize_corridor sv pl oc c a (d, runs) = (Inr resp, d', runs')"
    and "optimization_snapshot d = Inr (candidates, committed, statuses)"
  shows "set (map pe_job (op_scheduled resp)) \<union> set (map rf_job (op_unscheduled resp)) = set (map bc_id candidates) \<and>
    set (map pe_job (op_scheduled resp)) \<inter> set (map rf_job (op_unscheduled resp)) = {}"
proof -
  from assms(1) obtain q result where q: "oq_candidates q = candidates"
      "solve (oc_solver oc) (oc_arrange oc) q = Inr result"
      "summarize_outcome result candidates = (op_scheduled resp, op_unscheduled resp)"
    by (rule optimize_Inr) (use assms(2) in auto)
  from split_ids [OF solve_scheduled_ids [OF q(2)]] q(1) show ?thesis
    by (simp add: summarize_outcome_jobs [OF q(3)])
qed

lemma optimization_accounts_for_every_job_witness:
  "\<exists>resp d' runs'. optimize_corridor open_service ex_planner ex_occasion None None (ex_run_db, []) = (Inr resp, d', runs') \<and>
     set (map pe_job (op_scheduled resp)) \<union> set (map rf_job (op_unscheduled resp)) = {''J1'', ''J3''}"
proof -
  from ex_run obtain resp d' row where
    run: "optimize_corridor open_service ex_planner ex_occasion None None (ex_run_db, []) = (Inr resp, d', [row])"
    by blast
  from optimization_accounts_for_every_job [OF run ex_considered] show ?thesis
    by (simp add: run ex_ids)
qed

section \<open>Work and trains\<close>

text \<open>How a run reads the timetable of a dataset, and the clearance it keeps from a train.\<close>

definition dataset_conversion :: "corridor_dataset \<Rightarrow> conversion" where
  "dataset_conversion ds =
     \<lparr>cv_prefer_actual = True, cv_max_rollover_days = DEFAULT_MAX_ROLLOVER_DAYS,
      cv_max_leg_minutes = DEFAULT_MAX_LEG_MINUTES, cv_provenance = db_train_provenance (cds_basis ds),
      cv_observed_at = None, cv_horizon_start = Some (As_text OPTIMIZATION_HORIZON_START)\<rparr>"

definition clearance :: "corridor_dataset \<Rightarrow> int" where
  "clearance ds = (case db_safety_buffer (cds_basis ds) of None \<Rightarrow> DEFAULT_SAFETY_BUFFER_MINUTES | Some m \<Rightarrow> m)"

lemma canonical_windows:
  assumes "possession_inputs_for sv pl OPTIMIZATION_HORIZON_START (Some n) = Inr p"
    and "pl_dataset pl = Some ds" "cds_records ds \<noteq> []"
  shows "\<exists>sn minimum. convert_timetable (dataset_conversion ds) (cds_topology ds) (cds_records ds) = Inr sn \<and>
    derive_section_possession_windows sn (cds_topology ds) n (clearance ds) minimum = Inr (pi_windows p)"
proof -
  from assms have "canonical_possession_inputs ds OPTIMIZATION_HORIZON_START n = Inr p"
    by (simp add: possession_inputs_for_def)
  then show ?thesis
    by (auto simp: canonical_possession_inputs_def bind_res_Inr_iff Let_def possession_windows_from_provider_def
        make_static_provider_def fetch_def dataset_conversion_def clearance_def split: if_splits)
qed

lemma scheduled_candidate:
  assumes "solve cp arrange q = Inr res" "cp_sound cp" "distinct_ids q" "x \<in> set (os_scheduled res)"
    and "b \<in> set (oq_candidates q)" "bc_id b = sb_id x"
  shows "sb_section x = bc_section b"
proof -
  from assms(4) have "os_scheduled res \<noteq> []" by auto
  from scheduled_block_index [OF assms(1-3) this] assms(4) obtain k where
    k: "k < size_of q" "sb_id x = bc_id (cand q k)" "sb_section x = bc_section (cand q k)" by metis
  from assms(5) obtain n where n: "n < size_of q" "b = cand q n" by (metis in_set_conv_nth)
  have "n = k" using assms(3,6) k(1,2) n by (simp add: distinct_ids_def distinct_conv_nth) metis
  with k(3) n(2) show ?thesis by simp
qed

lemma summary_scheduled:
  assumes "summarize_outcome res candidates = (placed, refused)" "e \<in> set placed"
  obtains x where "x \<in> set (os_scheduled res)" "sb_id x = pe_job e" "sb_track x = pe_track e"
    "sb_start x = pe_start e" "sb_end x = pe_end e"
  using assms(2) that unfolding summarize_outcome_def Let_def
  using assms(1) by (auto simp: summarize_outcome_def Let_def)

text \<open>C2: Optimized work keeps clear of the trains. On a corridor with a timetable, work a run places on a
  section ends the safety buffer before, or starts the safety buffer after, every passage the timetable
  states for that track and section: for every record of the timetable and every leg of it that crosses the
  section, the times of the leg are known and the work is clear of them.\<close>

theorem optimized_work_meets_no_train:
  assumes "optimize_corridor sv pl oc c a (d, runs) = (Inr resp, d', runs')" "cp_sound (oc_solver oc)"
    and "pl_dataset pl = Some ds" "cds_records ds \<noteq> []" "topology_from_stations stations = Inr (cds_topology ds)"
    and "optimization_snapshot d = Inr (candidates, committed, statuses)" "distinct (map bc_id candidates)"
    and "e \<in> set (op_scheduled resp)" "b \<in> set candidates" "bc_id b = pe_job e"
    and "r \<in> set (cds_records ds)" "map_res stop_station_id (trn_stops r) = Inr ids" "i + 1 < length ids"
    and "index_of (cds_topology ds) (ids ! i) = Inr x" "index_of (cds_topology ds) (ids ! (i + 1)) = Inr y"
    and "j \<in> {min x y..<max x y}" "bc_section b = Some (nth_section (cds_topology ds) j)"
  shows "\<exists>ms basis track. event_minutes (dataset_conversion ds) r = Inr (ms, basis) \<and> track_of r = Inr track \<and>
    (pe_track e = track \<longrightarrow>
       pe_end e + clearance ds \<le> departure_at ms i \<or> arrival_at ms (i + 1) + clearance ds \<le> pe_start e)"
proof -
  from assms(1) obtain p q result where
    p: "possession_inputs_for sv pl OPTIMIZATION_HORIZON_START (Some (sv_horizon sv)) = Inr p"
      "oq_candidates q = candidates" "oq_windows q = pi_windows p" "pi_windows p \<noteq> []"
      "solve (oc_solver oc) (oc_arrange oc) q = Inr result"
      "summarize_outcome result candidates = (op_scheduled resp, op_unscheduled resp)"
    by (rule optimize_Inr) (use assms(6) in auto)
  obtain s where s: "s \<in> set (os_scheduled result)" "sb_id s = pe_job e" "sb_track s = pe_track e"
      "sb_start s = pe_start e" "sb_end s = pe_end e"
    by (rule summary_scheduled [OF p(6) assms(8)])
  have q: "distinct_ids q" using assms(7) p(2) by (simp add: distinct_ids_def)
  have sec: "sb_section s = Some (nth_section (cds_topology ds) j)"
    using scheduled_candidate [OF p(5) assms(2) q s(1)] assms(9,10,17) p(2) s(2) by simp
  obtain sn minimum where "convert_timetable (dataset_conversion ds) (cds_topology ds) (cds_records ds) = Inr sn"
      "derive_section_possession_windows sn (cds_topology ds) (sv_horizon sv) (clearance ds) minimum = Inr (oq_windows q)"
    using canonical_windows [OF p(1) assms(3,4)] p(3) by auto
  from scheduled_work_meets_no_train [OF assms(5) this _ p(5) assms(2) q s(1) assms(11-16) sec] p(3,4) s show ?thesis
    by auto
qed

lemma ex_dataset_facts:
  "pl_dataset ex_planner = Some ex_dataset" "cds_records ex_dataset = [ex_train]"
  "cds_topology ex_dataset = ex_topology" "clearance ex_dataset = 10" "cp_sound (oc_solver ex_occasion)"
  "bc_section ex_kept = Some (nth_section ex_topology 0)"
  by (simp_all add: ex_planner_def ex_dataset_def clearance_def SYNTHETIC_BASIS_def ex_kept_def cand_of_def
      DEFAULT_SAFETY_BUFFER_MINUTES_def ex_occasion_def offering_sound ex_topology_def format_section_id_def)

lemma optimized_work_meets_no_train_witness:
  "\<exists>resp d' runs' ms basis. optimize_corridor open_service ex_planner ex_occasion None None (ex_run_db, []) =
       (Inr resp, d', runs') \<and> op_scheduled resp = ex_placed \<and>
     event_minutes (dataset_conversion ex_dataset) ex_train = Inr (ms, basis) \<and>
     (120 + 10 \<le> departure_at ms 0 \<or> arrival_at ms 1 + 10 \<le> 60)"
proof -
  from ex_run obtain resp d' row where
    run: "optimize_corridor open_service ex_planner ex_occasion None None (ex_run_db, []) = (Inr resp, d', [row])"
      "op_scheduled resp = ex_placed" by blast
  have "\<exists>ms basis track. event_minutes (dataset_conversion ex_dataset) ex_train = Inr (ms, basis) \<and>
    track_of ex_train = Inr track \<and> (pe_track (hd ex_placed) = track \<longrightarrow>
       pe_end (hd ex_placed) + clearance ex_dataset \<le> departure_at ms 0 \<or>
       arrival_at ms (0 + 1) + clearance ex_dataset \<le> pe_start (hd ex_placed))"
    by (rule optimized_work_meets_no_train [OF run(1) ex_dataset_facts(5) ex_dataset_facts(1) _ _ ex_considered,
          where stations = ex_stations and b = ex_kept and ids = "[''NDLS'', ''NZM'', ''FDB'']" and x = 0 and y = 1 and j = 0])
      (simp_all add: ex_dataset_facts ex_ids ex_topology_made ex_stop_ids run(2) ex_placed_def)
  then show ?thesis using run ex_stop_ids(4) by (auto simp: ex_dataset_facts ex_placed_def)
qed

section \<open>Where a run falls short\<close>

text \<open>C25: A dataset that settles its possession windows above synthetic and gives no source label makes
  every optimization fail after its inputs were resolved, and that failure is recorded nowhere: the stored
  jobs keep the proposals the failed attempt did not reaffirm, and the audit trail has no record.\<close>

theorem unlabelled_source_fails_unrecorded:
  assumes "possession_request sv pl (at_corridor_id x) candidates committed = Inr (p, q)"
    and "pi_possession p \<noteq> SYNTHETIC" "pi_source_label p = None"
  shows "run_attempt sv pl oc who x candidates committed statuses (d, runs) = (Inl ValueError, d, runs)"
  using assms
  by (simp add: run_attempt_def build_provenance_profile_def make_profile_def possession_source_of_def
      to_possession_source_def del: coerce_level.simps)

lemma unlabelled_source_fails_unrecorded_witness:
  "run_attempt open_service ex_real_planner ex_occasion (resolve_actor None) ex_attempt [ex_kept, ex_long] [ex_kept]
     [(''J1'', NOTIFIED), (''J3'', REPORTED)] (ex_run_db, []) = (Inl ValueError, ex_run_db, [])"
proof -
  obtain p q where "possession_request open_service ex_real_planner ''C'' [ex_kept, ex_long] [ex_kept] = Inr (p, q)"
      "pi_possession p = REAL_STATIC" "pi_source_label p = None"
    using ex_real_requested by (auto split: sum.splits)
  then show ?thesis by (intro unlabelled_source_fails_unrecorded) (simp_all add: ex_attempt_def)
qed

end
