(* ===== verification/Jose.thy ===== *)
theory Jose
  imports Prelude "HOL-Library.Word"
begin

unbundle bit_operations_syntax

text \<open>
  The strict encodings of identity tokens, \<^verbatim>\<open>backend/app/identity/_jose.py\<close>: unpadded canonical
  base64url and JSON objects that repeat no member. \<^verbatim>\<open>json.loads\<close> is the parameter \<open>loads\<close>, which reads
  bytes into a document with its members as they are written; the hooks the code hands it are
  modelled. Both refusals are the same exception.
\<close>

section \<open>Base64\<close>

type_synonym bytes = "8 word list"

definition B64_ALPHABET :: string where
  "B64_ALPHABET = ''ABCDEFGHIJKLMNOPQRSTUVWXYZabcdefghijklmnopqrstuvwxyz0123456789-_''"

text \<open>\<^verbatim>\<open>base64.urlsafe_b64encode\<close> without its padding: three bytes are four groups of six bits, the spare bits
  of a last group are zero.\<close>

fun sextets :: "bytes \<Rightarrow> 6 word list" where
  "sextets [] = []"
| "sextets [a] = [ucast (drop_bit 2 a), push_bit 4 (ucast a)]"
| "sextets [a, b] = [ucast (drop_bit 2 a), push_bit 4 (ucast a) OR ucast (drop_bit 4 b), push_bit 2 (ucast b)]"
| "sextets (a # b # c # bs) =
     ucast (drop_bit 2 a) # (push_bit 4 (ucast a) OR ucast (drop_bit 4 b)) #
     (push_bit 2 (ucast b) OR ucast (drop_bit 6 c)) # ucast c # sextets bs"

definition b64_char :: "6 word \<Rightarrow> char" where
  "b64_char w = B64_ALPHABET ! unat w"

definition b64url_encode :: "bytes \<Rightarrow> string" where
  "b64url_encode raw = map b64_char (sextets raw)"

text \<open>\<^verbatim>\<open>base64.urlsafe_b64decode\<close> on text of the alphabet and padding: other characters are skipped, the
  spare bits of the last group are dropped, a single spare group or short padding is an error.\<close>

fun octets :: "6 word list \<Rightarrow> bytes" where
  "octets (w # x # y # z # ws) =
     (push_bit 2 (ucast w) OR ucast (drop_bit 4 x)) # (push_bit 4 (ucast x) OR ucast (drop_bit 2 y)) #
     (push_bit 6 (ucast y) OR ucast z) # octets ws"
| "octets [w, x, y] = [push_bit 2 (ucast w) OR ucast (drop_bit 4 x), push_bit 4 (ucast x) OR ucast (drop_bit 2 y)]"
| "octets [w, x] = [push_bit 2 (ucast w) OR ucast (drop_bit 4 x)]"
| "octets _ = []"

fun place :: "char \<Rightarrow> string \<Rightarrow> nat" where
  "place c [] = 0"
| "place c (x # xs) = (if x = c then 0 else Suc (place c xs))"

definition b64_value :: "char \<Rightarrow> 6 word" where
  "b64_value c = of_nat (place c B64_ALPHABET)"

definition urlsafe_b64decode :: "string \<Rightarrow> bytes option" where
  "urlsafe_b64decode s =
    (let data = filter (\<lambda>c. c \<in> set B64_ALPHABET) s; spare = length data mod 4;
         pads = length (filter (\<lambda>c. c = CHR ''='') s) in
     if spare = 1 \<or> (spare \<noteq> 0 \<and> spare + pads < 4) then None else Some (octets (map b64_value data)))"

text \<open>\<^verbatim>\<open>_B64URL_ALPHABET.match\<close>, whose \<^verbatim>\<open>$\<close> also matches before a final newline.\<close>

definition matches_alphabet :: "string \<Rightarrow> bool" where
  "matches_alphabet s \<longleftrightarrow> anchored (list_all (\<lambda>c. c \<in> set B64_ALPHABET)) s"

definition b64url_decode_canonical :: "string \<Rightarrow> bytes res" where
  "b64url_decode_canonical segment =
    (let decoded =
       (if \<not> matches_alphabet segment then None
        else if length segment mod 4 = 1 then None
        else urlsafe_b64decode (segment @ replicate ((4 - length segment mod 4) mod 4) (CHR ''=''))) in
     case decoded of
       None \<Rightarrow> Inl MalformedEncodingError
     | Some raw \<Rightarrow> if b64url_encode raw \<noteq> segment then Inl MalformedEncodingError else Inr raw)"

section \<open>Strict JSON\<close>

text \<open>A parsed document: objects keep their members in order, repeated ones included; \<open>DConst\<close> is \<^verbatim>\<open>NaN\<close> or
  an infinity.\<close>

datatype document =
    DNull
  | DBool bool
  | DInt int
  | DFloat rat
  | DConst string
  | DStr string
  | DArr "document list"
  | DObj "(string \<times> document) list"

text \<open>\<^verbatim>\<open>_reject_duplicates\<close>, for members already read.\<close>

fun reject_duplicates :: "(string \<times> json) list \<Rightarrow> dict \<Rightarrow> dict res" where
  "reject_duplicates [] result = Inr result"
| "reject_duplicates ((k, v) # pairs) result =
    (if dhas result k then Inl MalformedEncodingError else reject_duplicates pairs (fmupd k v result))"

fun strict_value :: "document \<Rightarrow> json res"
  and strict_values :: "document list \<Rightarrow> json list res"
  and strict_members :: "(string \<times> document) list \<Rightarrow> (string \<times> json) list res" where
  "strict_value DNull = Inr JNull"
| "strict_value (DBool b) = Inr (JBool b)"
| "strict_value (DInt i) = Inr (JInt i)"
| "strict_value (DFloat r) = Inr (JFloat r)"
| "strict_value (DConst c) = Inl MalformedEncodingError"
| "strict_value (DStr s) = Inr (JStr s)"
| "strict_value (DArr ds) = bind_res (strict_values ds) (\<lambda>vs. Inr (JArr vs))"
| "strict_value (DObj ms) =
     bind_res (strict_members ms) (\<lambda>ps. bind_res (reject_duplicates ps fmempty) (\<lambda>d. Inr (JObj d)))"
| "strict_values [] = Inr []"
| "strict_values (d # ds) = bind_res (strict_value d) (\<lambda>v. bind_res (strict_values ds) (\<lambda>vs. Inr (v # vs)))"
| "strict_members [] = Inr []"
| "strict_members ((k, d) # ms) =
     bind_res (strict_value d) (\<lambda>v. bind_res (strict_members ms) (\<lambda>ps. Inr ((k, v) # ps)))"

definition strict_json_object :: "(bytes \<Rightarrow> document option) \<Rightarrow> bytes \<Rightarrow> dict res" where
  "strict_json_object loads raw =
    (case loads raw of
       None \<Rightarrow> Inl MalformedEncodingError
     | Some d \<Rightarrow> (case strict_value d of Inr (JObj members) \<Rightarrow> Inr members | _ \<Rightarrow> Inl MalformedEncodingError))"

section \<open>One spelling per value\<close>

lemma bit_past [simp]: "\<not> bit (a :: 8 word) (8 + n)"
  using bit_imp_le_length [of a "8 + n"] by auto

lemma Suc_Suc_minus [simp]: "2 \<le> n \<Longrightarrow> Suc (Suc (n - 2)) = n"
  by simp

lemma first_octet:
  fixes a b :: "8 word"
  shows "(push_bit 2 (ucast (ucast (drop_bit 2 a) :: 6 word)) OR
      ucast (drop_bit 4 (push_bit 4 (ucast a :: 6 word) OR ucast (drop_bit 4 b)))) = a"
    "(push_bit 2 (ucast (ucast (drop_bit 2 a) :: 6 word)) OR ucast (drop_bit 4 (push_bit 4 (ucast a :: 6 word)))) = a"
  by (rule bit_word_eqI, auto simp: bit_simps not_less)+

lemma second_octet:
  fixes a b c :: "8 word"
  shows "push_bit 4 (ucast (push_bit 4 (ucast a :: 6 word) OR ucast (drop_bit 4 b))) OR
      ucast (drop_bit 2 (push_bit 2 (ucast b :: 6 word) OR ucast (drop_bit 6 c))) = b"
    "push_bit 4 (ucast (push_bit 4 (ucast a :: 6 word) OR ucast (drop_bit 4 b))) OR
      ucast (drop_bit 2 (push_bit 2 (ucast b :: 6 word))) = b"
  by (rule bit_word_eqI, auto simp: bit_simps not_less)+

lemma third_octet:
  fixes b c :: "8 word"
  shows "push_bit 6 (ucast (push_bit 2 (ucast b :: 6 word) OR ucast (drop_bit 6 c))) OR ucast (ucast c :: 6 word) = c"
  by (rule bit_word_eqI, auto simp: bit_simps not_less)

lemma octets_sextets [simp]: "octets (sextets raw) = raw"
  by (induction raw rule: sextets.induct) (simp_all add: first_octet second_octet third_octet del: drop_bit_or)

lemma alphabet [simp]: "length B64_ALPHABET = 64" "distinct B64_ALPHABET" "CHR ''='' \<notin> set B64_ALPHABET"
  by code_simp+

lemma place_nth: "distinct xs \<Longrightarrow> i < length xs \<Longrightarrow> place (xs ! i) xs = i"
  by (induction xs arbitrary: i) (auto simp: nth_Cons split: nat.splits)

lemma unat_sextet [simp]: "unat (w :: 6 word) < 64"
  using unsigned_less [of w] by simp

lemma b64_value_char [simp]: "b64_value (b64_char w) = w"
  by (simp add: b64_value_def b64_char_def place_nth)

lemma b64_char_in [simp]: "b64_char w \<in> set B64_ALPHABET" "b64_char w \<noteq> CHR ''=''"
proof -
  show "b64_char w \<in> set B64_ALPHABET" by (simp add: b64_char_def)
  with alphabet(3) show "b64_char w \<noteq> CHR ''=''" by metis
qed

lemma sextets_length: "length (sextets raw) mod 4 \<noteq> 1"
  by (induction raw rule: sextets.induct) auto

lemma pads_of: "n \<noteq> (1 :: nat) \<Longrightarrow> n < 4 \<Longrightarrow> n \<noteq> 0 \<Longrightarrow> n + (4 - n) mod 4 = 4"
  by (simp add: mod_if)

lemma decode_encode [simp]: "b64url_decode_canonical (b64url_encode raw) = Inr raw"
proof -
  let ?s = "b64url_encode raw" and ?n = "length (sextets raw)"
  have s: "filter (\<lambda>c. c \<in> set B64_ALPHABET) ?s = ?s" "filter (\<lambda>c. c = CHR ''='') ?s = []"
    "length ?s = ?n" "map b64_value ?s = sextets raw"
    by (simp_all add: b64url_encode_def comp_def)
  have "matches_alphabet ?s"
    by (simp add: matches_alphabet_def anchored_def b64url_encode_def list_all_iff)
  moreover have "urlsafe_b64decode (?s @ replicate ((4 - ?n mod 4) mod 4) (CHR ''='')) = Some raw"
    using sextets_length [of raw] pads_of [of "?n mod 4"]
    by (auto simp: urlsafe_b64decode_def s Let_def)
  ultimately show ?thesis
    using sextets_length [of raw] by (simp add: b64url_decode_canonical_def s Let_def)
qed

text \<open>A value has one spelling: text decodes to some bytes exactly when it is the encoding of those bytes,
  so no two texts of a token segment carry the same value.\<close>

theorem base64_one_spelling: "b64url_decode_canonical s = Inr raw \<longleftrightarrow> s = b64url_encode raw"
proof
  assume "b64url_decode_canonical s = Inr raw"
  then show "s = b64url_encode raw"
    by (simp add: b64url_decode_canonical_def Let_def split: option.splits if_split_asm)
qed simp

text \<open>What strict parsing accepts repeats no member, at any depth.\<close>

fun no_repeats :: "document \<Rightarrow> bool"
  and no_repeats_list :: "document list \<Rightarrow> bool"
  and no_repeats_members :: "(string \<times> document) list \<Rightarrow> bool" where
  "no_repeats (DArr ds) = no_repeats_list ds"
| "no_repeats (DObj ms) = (distinct (map fst ms) \<and> no_repeats_members ms)"
| "no_repeats (DConst c) = False"
| "no_repeats _ = True"
| "no_repeats_list [] = True"
| "no_repeats_list (d # ds) = (no_repeats d \<and> no_repeats_list ds)"
| "no_repeats_members [] = True"
| "no_repeats_members ((k, d) # ms) = (no_repeats d \<and> no_repeats_members ms)"

lemma reject_duplicates_Inr:
  "(\<exists>d. reject_duplicates ps result = Inr d) \<longleftrightarrow>
     distinct (map fst ps) \<and> (\<forall>k \<in> set (map fst ps). \<not> dhas result k)"
  by (induction ps result rule: reject_duplicates.induct) (auto simp: dhas_def split: if_splits)

lemma strict_members_keys: "strict_members ms = Inr ps \<Longrightarrow> map fst ps = map fst ms"
  by (induction ms arbitrary: ps) (auto simp: bind_res_Inr_iff)

lemma strict_iff:
  "(\<exists>v. strict_value d = Inr v) \<longleftrightarrow> no_repeats d"
  "(\<exists>vs. strict_values ds = Inr vs) \<longleftrightarrow> no_repeats_list ds"
  "(\<exists>ps. strict_members ms = Inr ps) \<longleftrightarrow> no_repeats_members ms"
proof (induction d and ds and ms rule: strict_value_strict_values_strict_members.induct)
  case (8 ms)
  have "(\<exists>v. strict_value (DObj ms) = Inr v) \<longleftrightarrow>
      (\<exists>ps. strict_members ms = Inr ps \<and> (\<exists>d. reject_duplicates ps fmempty = Inr d))"
    by (auto simp: bind_res_Inr_iff)
  also have "\<dots> \<longleftrightarrow> (\<exists>ps. strict_members ms = Inr ps) \<and> distinct (map fst ms)"
    using strict_members_keys [of ms] by (auto simp: reject_duplicates_Inr dhas_def)
  finally show ?case using 8 by auto
qed (auto simp: bind_res_Inr_iff)

text \<open>Strict parsing accepts exactly the JSON objects in which no object, at any depth, names a member
  twice and no number is out of range; what it accepts keeps the members of the outermost object.\<close>

theorem strict_objects_exact:
  "(\<exists>d. strict_json_object loads raw = Inr d) \<longleftrightarrow>
     (\<exists>ms. loads raw = Some (DObj ms) \<and> no_repeats (DObj ms))"
proof -
  have "(\<exists>d. strict_json_object loads raw = Inr d) \<longleftrightarrow> (\<exists>ms. loads raw = Some (DObj ms) \<and> (\<exists>v. strict_value (DObj ms) = Inr v))"
  proof (cases "loads raw")
    case (Some d)
    then show ?thesis
      by (cases d) (auto simp: strict_json_object_def bind_res_Inr_iff split: sum.splits json.splits)
  qed (simp add: strict_json_object_def)
  then show ?thesis by (simp only: strict_iff)
qed

end
