(* ===== verification/Trusted_Keys.thy ===== *)
theory Trusted_Keys
  imports Jose Scopes
begin

text \<open>
  Trusted verification keys, \<^verbatim>\<open>backend/app/identity/trusted_keys.py\<close>: strict parsing of a key set, the
  static provider, and the caching provider as a state. The \<^verbatim>\<open>cryptography\<close> package answers one question
  here, whether a point is on the curve (\<open>on_curve\<close>); \<open>fetch k\<close> is what the \<open>k\<close>-th call of the injected fetch
  returns or raises, and a reading of the clock is an argument.
\<close>

section \<open>Keys\<close>

definition ES256 :: string where "ES256 = ''ES256''"
definition MAX_KEY_ID_LENGTH :: nat where "MAX_KEY_ID_LENGTH = 128"
definition MAX_JWKS_KEYS :: nat where "MAX_JWKS_KEYS = 32"
definition MAX_JWKS_DOCUMENT_BYTES :: nat where "MAX_JWKS_DOCUMENT_BYTES = 64 * 1024"
definition P256_COORDINATE_BYTES :: nat where "P256_COORDINATE_BYTES = 32"
definition ALLOWED_JWK_MEMBERS :: "string list" where
  "ALLOWED_JWK_MEMBERS = [''kty'', ''crv'', ''x'', ''y'', ''kid'', ''alg'', ''use'', ''key_ops'']"

type_synonym point = "int \<times> int"

record trusted_key =
  tk_id :: string
  tk_point :: point

text \<open>Printable ASCII without white space.\<close>

definition visible :: "char \<Rightarrow> bool" where
  "visible c \<longleftrightarrow> is_printable c \<and> c \<noteq> CHR '' ''"

fun validate_key_id :: "json \<Rightarrow> string res" where
  "validate_key_id (JStr kid) =
    (if kid = [] then Inl TrustedKeyError
     else if MAX_KEY_ID_LENGTH < length kid then Inl TrustedKeyError
     else if \<not> list_all visible kid then Inl TrustedKeyError else Inr kid)"
| "validate_key_id _ = Inl TrustedKeyError"

text \<open>\<^verbatim>\<open>int.from_bytes(raw, "big")\<close>\<close>

definition int_of_bytes :: "bytes \<Rightarrow> int" where
  "int_of_bytes raw = foldl (\<lambda>n b. n * 256 + uint b) 0 raw"

definition coordinate :: "dict \<Rightarrow> string \<Rightarrow> int res" where
  "coordinate jwk name =
    (case dget jwk name of
       JStr value \<Rightarrow>
        (case b64url_decode_canonical value of
           Inl _ \<Rightarrow> Inl TrustedKeyError
         | Inr raw \<Rightarrow> if length raw \<noteq> P256_COORDINATE_BYTES then Inl TrustedKeyError
                      else Inr (int_of_bytes raw))
     | _ \<Rightarrow> Inl TrustedKeyError)"

fun parse_jwk :: "(point \<Rightarrow> bool) \<Rightarrow> json \<Rightarrow> trusted_key res" where
  "parse_jwk on_curve (JObj jwk) =
    (if dhas jwk ''d'' then Inl TrustedKeyError
     else if \<not> fset (fmdom jwk) \<subseteq> set ALLOWED_JWK_MEMBERS then Inl TrustedKeyError
     else if dget jwk ''kty'' \<noteq> JStr ''EC'' \<or> dget jwk ''crv'' \<noteq> JStr ''P-256'' then Inl TrustedKeyError
     else if dhas jwk ''alg'' \<and> dget jwk ''alg'' \<noteq> JStr ES256 then Inl TrustedKeyError
     else if dhas jwk ''use'' \<and> dget jwk ''use'' \<noteq> JStr ''sig'' then Inl TrustedKeyError
     else if dhas jwk ''key_ops'' \<and> dget jwk ''key_ops'' \<noteq> JArr [JStr ''verify''] then Inl TrustedKeyError
     else bind_res (validate_key_id (dget jwk ''kid'')) (\<lambda>kid.
          bind_res (coordinate jwk ''x'') (\<lambda>x.
          bind_res (coordinate jwk ''y'') (\<lambda>y.
          if on_curve (x, y) then Inr \<lparr>tk_id = kid, tk_point = (x, y)\<rparr> else Inl TrustedKeyError))))"
| "parse_jwk on_curve _ = Inl TrustedKeyError"

type_synonym key_set = "(string, trusted_key) fmap"

fun parse_keys :: "(point \<Rightarrow> bool) \<Rightarrow> json list \<Rightarrow> key_set \<Rightarrow> key_set res" where
  "parse_keys on_curve [] result = Inr result"
| "parse_keys on_curve (entry # entries) result =
     bind_res (parse_jwk on_curve entry) (\<lambda>key.
     if fmlookup result (tk_id key) \<noteq> None then Inl TrustedKeyError
     else parse_keys on_curve entries (fmupd (tk_id key) key result))"

text \<open>Text arrives as its encoding; a decoded document may be any mapping.\<close>

datatype jwks_document = Encoded bytes | Decoded dict

record key_reader =
  kr_loads :: "bytes \<Rightarrow> document option"
  kr_on_curve :: "point \<Rightarrow> bool"

definition parse_jwks :: "key_reader \<Rightarrow> jwks_document \<Rightarrow> key_set res" where
  "parse_jwks kr doc =
     bind_res
      (case doc of
         Encoded raw \<Rightarrow>
           if MAX_JWKS_DOCUMENT_BYTES < length raw then Inl TrustedKeyError
           else (case strict_json_object (kr_loads kr) raw of Inl _ \<Rightarrow> Inl TrustedKeyError | Inr d \<Rightarrow> Inr d)
       | Decoded d \<Rightarrow> Inr d) (\<lambda>parsed.
     case dget parsed ''keys'' of
       JArr keys \<Rightarrow>
         if keys = [] then Inl TrustedKeyError
         else if MAX_JWKS_KEYS < length keys then Inl TrustedKeyError
         else parse_keys (kr_on_curve kr) keys fmempty
     | _ \<Rightarrow> Inl TrustedKeyError)"

section \<open>The static provider\<close>

definition static_get_key :: "key_set \<Rightarrow> string \<Rightarrow> trusted_key option" where
  "static_get_key keys kid = fmlookup keys kid"

section \<open>The caching provider\<close>

definition DEFAULT_JWKS_MAX_AGE_SECONDS :: rat where "DEFAULT_JWKS_MAX_AGE_SECONDS = 300"
definition DEFAULT_MIN_REFETCH_INTERVAL_SECONDS :: rat where "DEFAULT_MIN_REFETCH_INTERVAL_SECONDS = 60"

record cache_config =
  cc_max_age :: rat
  cc_min_refetch :: rat

definition make_cache_config :: "rat \<Rightarrow> rat \<Rightarrow> cache_config res" where
  "make_cache_config max_age min_refetch =
    (if \<not> (0 < max_age \<and> max_age \<le> 3600) then Inl ValueError
     else if \<not> (0 < min_refetch \<and> min_refetch \<le> max_age) then Inl ValueError
     else Inr \<lparr>cc_max_age = max_age, cc_min_refetch = min_refetch\<rparr>)"

text \<open>\<open>kc_fetches\<close> counts the calls of \<^verbatim>\<open>fetch\<close> made so far.\<close>

record key_cache =
  kc_keys :: "key_set option"
  kc_fetched_at :: "rat option"
  kc_last_attempt :: "rat option"
  kc_fetches :: nat

definition empty_cache :: key_cache where
  "empty_cache = \<lparr>kc_keys = None, kc_fetched_at = None, kc_last_attempt = None, kc_fetches = 0\<rparr>"

definition cache_is_fresh :: "cache_config \<Rightarrow> rat \<Rightarrow> key_cache \<Rightarrow> bool" where
  "cache_is_fresh cc now kc \<longleftrightarrow> kc_keys kc \<noteq> None \<and>
     (case kc_fetched_at kc of None \<Rightarrow> False | Some t \<Rightarrow> now - t \<le> cc_max_age cc)"

definition may_attempt :: "cache_config \<Rightarrow> rat \<Rightarrow> key_cache \<Rightarrow> bool" where
  "may_attempt cc now kc \<longleftrightarrow>
     (case kc_last_attempt kc of None \<Rightarrow> True | Some t \<Rightarrow> cc_min_refetch cc \<le> now - t)"

definition refresh :: "key_reader \<Rightarrow> (nat \<Rightarrow> jwks_document res) \<Rightarrow> rat \<Rightarrow> key_cache \<Rightarrow> key_cache" where
  "refresh kr fetch now kc =
    (let tried = kc\<lparr>kc_last_attempt := Some now, kc_fetches := kc_fetches kc + 1\<rparr> in
     case bind_res (fetch (kc_fetches kc)) (parse_jwks kr) of
       Inl _ \<Rightarrow> tried
     | Inr keys \<Rightarrow> tried\<lparr>kc_keys := Some keys, kc_fetched_at := Some now\<rparr>)"

definition cached_get_key ::
  "cache_config \<Rightarrow> key_reader \<Rightarrow> (nat \<Rightarrow> jwks_document res) \<Rightarrow> rat \<Rightarrow> key_cache \<Rightarrow> string \<Rightarrow>
   trusted_key option res \<times> key_cache" where
  "cached_get_key cc kr fetch now kc kid =
    (let kc1 = (if \<not> cache_is_fresh cc now kc \<and> may_attempt cc now kc then refresh kr fetch now kc else kc) in
     if \<not> cache_is_fresh cc now kc1 then (Inl KeySetUnavailable, kc1)
     else case fmlookup (the (kc_keys kc1)) kid of
       Some key \<Rightarrow> (Inr (Some key), kc1)
     | None \<Rightarrow>
        if may_attempt cc now kc1 then
          (let kc2 = refresh kr fetch now kc1 in
           if cache_is_fresh cc now kc2 then (Inr (fmlookup (the (kc_keys kc2)) kid), kc2) else (Inr None, kc2))
        else (Inr None, kc1))"

end
