(* ===== verification/Identity_Assertion.thy ===== *)
theory Identity_Assertion
  imports Trusted_Keys Role_Directory
begin

text \<open>
  Verification of signed identity assertions, \<^verbatim>\<open>backend/app/identity/identity_assertion.py\<close>: the pinned
  configuration, the replay guard, and every check on the way from an untrusted value to verified
  identity facts. The key provider is an argument, a function on its own state; the signature check of the
  \<^verbatim>\<open>cryptography\<close> package is \<open>cr_verifies\<close>, false where the package raises. A rejection carries its reason.
\<close>

section \<open>Configuration\<close>

definition ASSERTION_TYP :: string where "ASSERTION_TYP = ''nf-identity+jwt''"
definition TOKEN_USE :: string where "TOKEN_USE = ''identity_assertion''"
definition PRINCIPAL_TYPE_USER :: string where "PRINCIPAL_TYPE_USER = ''user''"
definition ACCOUNT_STATUS_ACTIVE :: string where "ACCOUNT_STATUS_ACTIVE = ''ACTIVE''"
definition DEFAULT_CLOCK_TOLERANCE_SECONDS :: int where "DEFAULT_CLOCK_TOLERANCE_SECONDS = 30"
definition DEFAULT_MAX_LIFETIME_SECONDS :: int where "DEFAULT_MAX_LIFETIME_SECONDS = 300"
definition DEFAULT_MAX_ASSERTION_LENGTH :: int where "DEFAULT_MAX_ASSERTION_LENGTH = 8192"
definition MAX_CLOCK_TOLERANCE_SECONDS :: int where "MAX_CLOCK_TOLERANCE_SECONDS = 60"
definition MAX_LIFETIME_CEILING_SECONDS :: int where "MAX_LIFETIME_CEILING_SECONDS = 300"
definition MAX_ISSUER_LENGTH :: nat where "MAX_ISSUER_LENGTH = 512"
definition MAX_AUDIENCE_LENGTH :: nat where "MAX_AUDIENCE_LENGTH = 256"
definition MAX_CLAIM_IDENTIFIER_LENGTH :: nat where "MAX_CLAIM_IDENTIFIER_LENGTH = 256"
definition ALLOWED_HEADER_MEMBERS :: "string list" where "ALLOWED_HEADER_MEMBERS = [''alg'', ''typ'', ''kid'']"
definition REQUIRED_CLAIMS :: "string list" where
  "REQUIRED_CLAIMS = [''iss'', ''aud'', ''sub'', ''jti'', ''iat'', ''exp'', ''sid'', ''token_use'', ''principal_type'',
     ''account_status'', ''auth_time'']"

fun is_bounded_token :: "json \<Rightarrow> nat \<Rightarrow> bool" where
  "is_bounded_token (JStr v) max_length \<longleftrightarrow> 0 < length v \<and> length v \<le> max_length \<and> list_all visible v"
| "is_bounded_token _ max_length \<longleftrightarrow> False"

record verifier_config =
  vc_issuer :: string
  vc_audience :: string
  vc_provider :: string
  vc_tolerance :: int
  vc_max_lifetime :: int
  vc_max_length :: int

definition make_verifier_config :: "verifier_config \<Rightarrow> verifier_config res" where
  "make_verifier_config c =
    (if \<not> is_bounded_token (JStr (vc_issuer c)) MAX_ISSUER_LENGTH then Inl ConfigError
     else if \<not> is_bounded_token (JStr (vc_audience c)) MAX_AUDIENCE_LENGTH then Inl ConfigError
     else case make_external_identity (JStr (vc_provider c)) (JStr ''probe'') of
       Inl _ \<Rightarrow> Inl ConfigError
     | Inr _ \<Rightarrow>
        if \<not> (0 \<le> vc_tolerance c \<and> vc_tolerance c \<le> MAX_CLOCK_TOLERANCE_SECONDS) then Inl ConfigError
        else if \<not> (0 < vc_max_lifetime c \<and> vc_max_lifetime c \<le> MAX_LIFETIME_CEILING_SECONDS) then Inl ConfigError
        else if \<not> (0 < vc_max_length c \<and> vc_max_length c \<le> DEFAULT_MAX_ASSERTION_LENGTH) then Inl ConfigError
        else Inr c)"

text \<open>What the injected clock answers: a finite number, something unusable (\<^verbatim>\<open>NaN\<close>, an infinity, no number), or
  an exception.\<close>

datatype reading = Reading rat | Unusable | Raises

fun clock_reading :: "reading \<Rightarrow> rat option res" where
  "clock_reading (Reading now) = Inr (if 0 < now then Some now else None)"
| "clock_reading Unusable = Inr None"
| "clock_reading Raises = Inl ValueError"

section \<open>Verified facts\<close>

record verified_assertion =
  va_identity :: external_identity
  va_issuer :: string
  va_audience :: string
  va_session :: string
  va_assertion :: string
  va_key :: string
  va_issued_at :: int
  va_expires_at :: int
  va_auth_time :: int

definition make_verified :: "verified_assertion \<Rightarrow> verified_assertion res" where
  "make_verified v =
    (if list_ex (\<lambda>s. s = []) [va_issuer v, va_audience v, va_session v, va_assertion v, va_key v] then Inl TypeError
     else if list_ex (\<lambda>i. i \<le> 0) [va_issued_at v, va_expires_at v, va_auth_time v] then Inl TypeError
     else if va_expires_at v \<le> va_issued_at v then Inl TypeError else Inr v)"

section \<open>The replay guard\<close>

type_synonym 'k spent = "('k, rat) fmap"

definition unexpired :: "rat \<Rightarrow> 'k spent \<Rightarrow> 'k spent" where
  "unexpired now m = fmfilter (\<lambda>k. case fmlookup m k of None \<Rightarrow> False | Some until \<Rightarrow> \<not> until \<le> now) m"

record replay_guard =
  rg_capacity :: nat
  rg_entries :: "(string \<times> string) spent"

datatype guard_answer = Recorded | Replay_Detected | Replay_Guard_Full

definition make_replay_guard :: "int \<Rightarrow> replay_guard res" where
  "make_replay_guard capacity =
    (if capacity \<le> 0 then Inl ValueError else Inr \<lparr>rg_capacity = nat capacity, rg_entries = fmempty\<rparr>)"

definition check_and_record ::
  "string \<times> string \<Rightarrow> rat \<Rightarrow> rat \<Rightarrow> replay_guard \<Rightarrow> guard_answer \<times> replay_guard" where
  "check_and_record key retain_until now g =
    (let live = unexpired now (rg_entries g); g' = g\<lparr>rg_entries := live\<rparr> in
     if fmlookup live key \<noteq> None then (Replay_Detected, g')
     else if rg_capacity g \<le> fcard (fmdom live) then (Replay_Guard_Full, g')
     else (Recorded, g\<lparr>rg_entries := fmupd key retain_until live\<rparr>))"

section \<open>The checks\<close>

abbreviation reject :: "string \<Rightarrow> 'a res" where
  "reject reason \<equiv> Inl (AssertionVerificationError reason)"

record crypto =
  cr_loads :: "bytes \<Rightarrow> document option"
  cr_verifies :: "point \<Rightarrow> string \<Rightarrow> int \<times> int \<Rightarrow> bool"

fun open_token :: "verifier_config \<Rightarrow> json \<Rightarrow> (string \<times> string \<times> string) res" where
  "open_token cfg (JStr s) =
    (if vc_max_length cfg < int (length s) then reject ''TOO_LARGE''
     else case split_on (CHR ''.'') s of
       [h, p, g] \<Rightarrow> if h = [] \<or> p = [] \<or> g = [] then reject ''MALFORMED'' else Inr (h, p, g)
     | _ \<Rightarrow> reject ''MALFORMED'')"
| "open_token cfg _ = reject ''MALFORMED''"

definition decode_object :: "crypto \<Rightarrow> string \<Rightarrow> dict res" where
  "decode_object cr segment =
    (case bind_res (b64url_decode_canonical segment) (strict_json_object (cr_loads cr)) of
       Inl _ \<Rightarrow> reject ''MALFORMED'' | Inr d \<Rightarrow> Inr d)"

definition check_header :: "dict \<Rightarrow> string res" where
  "check_header header =
    (if dget header ''alg'' \<noteq> JStr ES256 then reject ''UNSUPPORTED_ALGORITHM''
     else if \<not> fset (fmdom header) \<subseteq> set ALLOWED_HEADER_MEMBERS then reject ''UNSUPPORTED_HEADER''
     else if dget header ''typ'' \<noteq> JStr ASSERTION_TYP then reject ''WRONG_TOKEN_TYPE''
     else case validate_key_id (dget header ''kid'') of
       Inl _ \<Rightarrow> reject ''INVALID_KEY_ID'' | Inr kid \<Rightarrow> Inr kid)"

text \<open>The signing input is encoded as ASCII before anything else; text outside it raises.\<close>

definition check_signature :: "crypto \<Rightarrow> point \<Rightarrow> string \<Rightarrow> string \<Rightarrow> unit res" where
  "check_signature cr key signing_input signature =
    (if \<not> list_all (\<lambda>c. (of_char c :: nat) < 128) signing_input then Inl ValueError
     else case b64url_decode_canonical signature of
       Inl _ \<Rightarrow> reject ''INVALID_SIGNATURE''
     | Inr raw \<Rightarrow>
        if length raw \<noteq> 2 * P256_COORDINATE_BYTES then reject ''INVALID_SIGNATURE''
        else if cr_verifies cr key signing_input
            (int_of_bytes (take P256_COORDINATE_BYTES raw), int_of_bytes (drop P256_COORDINATE_BYTES raw))
          then Inr () else reject ''INVALID_SIGNATURE'')"

record claim_times =
  ct_iat :: int
  ct_exp :: int
  ct_auth :: int
  ct_nbf :: "int option"

definition claimed_principal :: "verifier_config \<Rightarrow> dict \<Rightarrow> unit res" where
  "claimed_principal cfg claims =
    (if list_ex (\<lambda>name. \<not> dhas claims name) REQUIRED_CLAIMS then reject ''MISSING_CLAIM''
     else if dget claims ''iss'' \<noteq> JStr (vc_issuer cfg) then reject ''WRONG_ISSUER''
     else if dget claims ''aud'' \<noteq> JStr (vc_audience cfg) then reject ''WRONG_AUDIENCE''
     else if dget claims ''token_use'' \<noteq> JStr TOKEN_USE then reject ''WRONG_TOKEN_USE''
     else if dget claims ''principal_type'' \<noteq> JStr PRINCIPAL_TYPE_USER \<or>
             dget claims ''account_status'' \<noteq> JStr ACCOUNT_STATUS_ACTIVE then reject ''INACTIVE_PRINCIPAL''
     else Inr ())"

definition claimed_times :: "verifier_config \<Rightarrow> dict \<Rightarrow> claim_times res" where
  "claimed_times cfg claims =
    (case (dget claims ''iat'', dget claims ''exp'', dget claims ''auth_time'') of
       (JInt iat, JInt until, JInt auth) \<Rightarrow>
         bind_res
          (if \<not> dhas claims ''nbf'' then Inr None
           else case dget claims ''nbf'' of JInt n \<Rightarrow> Inr (Some n) | _ \<Rightarrow> reject ''INVALID_TEMPORAL_CLAIMS'')
          (\<lambda>nbf.
         if iat \<le> 0 \<or> auth \<le> 0 \<or> until \<le> iat \<or> iat + vc_tolerance cfg < auth then reject ''INVALID_TEMPORAL_CLAIMS''
         else if (case nbf of None \<Rightarrow> False | Some n \<Rightarrow> \<not> (iat \<le> n \<and> n < until)) then reject ''INVALID_TEMPORAL_CLAIMS''
         else if vc_max_lifetime cfg < until - iat then reject ''LIFETIME_TOO_LONG''
         else Inr \<lparr>ct_iat = iat, ct_exp = until, ct_auth = auth, ct_nbf = nbf\<rparr>)
     | _ \<Rightarrow> reject ''INVALID_TEMPORAL_CLAIMS'')"

definition check_time :: "verifier_config \<Rightarrow> reading \<Rightarrow> claim_times \<Rightarrow> rat res" where
  "check_time cfg clk t =
     bind_res (clock_reading clk) (\<lambda>r.
     case r of None \<Rightarrow> reject ''CLOCK_UNAVAILABLE''
     | Some now \<Rightarrow>
        let tolerance = of_int (vc_tolerance cfg) in
        if now + tolerance < of_int (ct_iat t) then reject ''ISSUED_IN_FUTURE''
        else if (case ct_nbf t of None \<Rightarrow> False | Some n \<Rightarrow> now + tolerance < of_int n) then reject ''NOT_YET_VALID''
        else if of_int (ct_exp t) + tolerance \<le> now then reject ''EXPIRED''
        else Inr now)"

definition claimed_identity :: "verifier_config \<Rightarrow> dict \<Rightarrow> (external_identity \<times> string \<times> string) res" where
  "claimed_identity cfg claims =
    (if \<not> is_bounded_token (dget claims ''sub'') MAX_CLAIM_IDENTIFIER_LENGTH then reject ''MALFORMED_SUBJECT''
     else case make_external_identity (JStr (vc_provider cfg)) (dget claims ''sub'') of
       Inl _ \<Rightarrow> reject ''MALFORMED_SUBJECT''
     | Inr identity \<Rightarrow>
        (case (dget claims ''sid'', dget claims ''jti'') of
           (JStr sid, JStr jti) \<Rightarrow>
             if \<not> is_bounded_token (JStr sid) MAX_CLAIM_IDENTIFIER_LENGTH then reject ''INVALID_CLAIM''
             else if \<not> is_bounded_token (JStr jti) MAX_CLAIM_IDENTIFIER_LENGTH then reject ''INVALID_CLAIM''
             else Inr (identity, sid, jti)
         | _ \<Rightarrow> reject ''INVALID_CLAIM''))"

text \<open>The guard is asked last, so only an otherwise valid assertion is spent.\<close>

definition check_claims ::
  "verifier_config \<Rightarrow> reading \<Rightarrow> dict \<Rightarrow> string \<Rightarrow> replay_guard \<Rightarrow> verified_assertion res \<times> replay_guard" where
  "check_claims cfg clk claims kid g =
    (case bind_res (claimed_principal cfg claims) (\<lambda>_.
          bind_res (claimed_times cfg claims) (\<lambda>t.
          bind_res (check_time cfg clk t) (\<lambda>now.
          bind_res (claimed_identity cfg claims) (\<lambda>who. Inr (t, now, who))))) of
       Inl e \<Rightarrow> (Inl e, g)
     | Inr (t, now, identity, sid, jti) \<Rightarrow>
        (case check_and_record (vc_issuer cfg, jti) (of_int (ct_exp t + vc_tolerance cfg)) now g of
           (Replay_Detected, g') \<Rightarrow> (reject ''REPLAYED'', g')
         | (Replay_Guard_Full, g') \<Rightarrow> (reject ''REPLAY_GUARD_FULL'', g')
         | (Recorded, g') \<Rightarrow>
             (make_verified
               \<lparr>va_identity = identity, va_issuer = vc_issuer cfg, va_audience = vc_audience cfg, va_session = sid,
                va_assertion = jti, va_key = kid, va_issued_at = ct_iat t, va_expires_at = ct_exp t,
                va_auth_time = ct_auth t\<rparr>, g')))"

text \<open>Whatever is not a rejection becomes one.\<close>

definition sealed :: "'a res \<Rightarrow> 'a res" where
  "sealed r = (case r of Inr x \<Rightarrow> Inr x | Inl (AssertionVerificationError e) \<Rightarrow> reject e
     | Inl _ \<Rightarrow> reject ''INTERNAL_ERROR'')"

type_synonym 'k key_source = "'k \<Rightarrow> string \<Rightarrow> trusted_key option res \<times> 'k"

definition resolve_key :: "'k key_source \<Rightarrow> 'k \<Rightarrow> string \<Rightarrow> trusted_key res \<times> 'k" where
  "resolve_key get_key k kid =
    (case get_key k kid of
       (Inl e, k') \<Rightarrow> (Inl (if e = KeySetUnavailable then AssertionVerificationError ''KEY_SET_UNAVAILABLE'' else e), k')
     | (Inr None, k') \<Rightarrow> (reject ''UNKNOWN_KEY'', k')
     | (Inr (Some key), k') \<Rightarrow> (Inr key, k'))"

definition verify_raw ::
  "crypto \<Rightarrow> verifier_config \<Rightarrow> 'k key_source \<Rightarrow> reading \<Rightarrow> json \<Rightarrow> replay_guard \<times> 'k \<Rightarrow>
   verified_assertion res \<times> replay_guard \<times> 'k" where
  "verify_raw cr cfg get_key clk assertion = (\<lambda>(g, k).
    (case bind_res (open_token cfg assertion) (\<lambda>(h, p, s).
          bind_res (decode_object cr h) (\<lambda>header.
          bind_res (check_header header) (\<lambda>kid. Inr (h, p, s, kid)))) of
       Inl e \<Rightarrow> (Inl e, g, k)
     | Inr (h, p, s, kid) \<Rightarrow>
        (case resolve_key get_key k kid of
           (Inl e, k') \<Rightarrow> (Inl e, g, k')
         | (Inr key, k') \<Rightarrow>
            (case bind_res (check_signature cr (tk_point key) (h @ ''.'' @ p) s) (\<lambda>_. decode_object cr p) of
               Inl e \<Rightarrow> (Inl e, g, k')
             | Inr claims \<Rightarrow> (case check_claims cfg clk claims kid g of (r, g') \<Rightarrow> (r, g', k'))))))"

definition verify ::
  "crypto \<Rightarrow> verifier_config \<Rightarrow> 'k key_source \<Rightarrow> reading \<Rightarrow> json \<Rightarrow> replay_guard \<times> 'k \<Rightarrow>
   verified_assertion res \<times> replay_guard \<times> 'k" where
  "verify cr cfg get_key clk assertion gk =
    (case verify_raw cr cfg get_key clk assertion gk of (r, gk') \<Rightarrow> (sealed r, gk'))"

end
