(* ===== verification/Example_Token.thy ===== *)
theory Example_Token
  imports Identity_Assertion
begin

text \<open>
  A deployment to apply the properties of the verifier to: a pinned configuration, one trusted key, a reader
  and a signature check that know two tokens, and the two tokens, the second carrying the first's
  assertion id after its expiry.
\<close>

definition ex_cfg :: verifier_config where
  "ex_cfg = \<lparr>vc_issuer = ''https://nf.example'', vc_audience = ''pashupatastra'', vc_provider = ''novaforge'',
     vc_tolerance = 30, vc_max_lifetime = 300, vc_max_length = 8192\<rparr>"

definition ex_header :: document where
  "ex_header = DObj [(''alg'', DStr ''ES256''), (''typ'', DStr ''nf-identity+jwt''), (''kid'', DStr ''k1'')]"

definition ex_claims :: "int \<Rightarrow> document" where
  "ex_claims iat = DObj [(''iss'', DStr ''https://nf.example''), (''aud'', DStr ''pashupatastra''), (''sub'', DStr ''user-7''),
     (''jti'', DStr ''a1''), (''iat'', DInt iat), (''exp'', DInt (iat + 300)), (''sid'', DStr ''s1''),
     (''token_use'', DStr ''identity_assertion''), (''principal_type'', DStr ''user''),
     (''account_status'', DStr ''ACTIVE''), (''auth_time'', DInt 900), (''role'', DStr ''SUPER_ADMIN'')]"

definition ex_crypto :: crypto where
  "ex_crypto = \<lparr>cr_loads = (\<lambda>raw. if raw = [1] then Some ex_header else if raw = [2] then Some (ex_claims 990)
       else if raw = [3] then Some (ex_claims 1400) else None),
     cr_verifies = (\<lambda>p si _. p = (3, 4) \<and> (si = ''AQ.Ag'' \<or> si = ''AQ.Aw''))\<rparr>"

definition ex_keys :: "unit key_source" where
  "ex_keys k kid = (Inr (if kid = ''k1'' then Some \<lparr>tk_id = ''k1'', tk_point = (3, 4)\<rparr> else None), k)"

definition ex_signature :: string where
  "ex_signature = b64url_encode (replicate 64 7)"

definition ex_token :: json where "ex_token = JStr (''AQ.Ag.'' @ ex_signature)"
definition ex_later_token :: json where "ex_later_token = JStr (''AQ.Aw.'' @ ex_signature)"
definition ex_guard :: replay_guard where "ex_guard = \<lparr>rg_capacity = 2, rg_entries = fmempty\<rparr>"

definition ex_facts :: "int \<Rightarrow> verified_assertion" where
  "ex_facts iat = \<lparr>va_identity = \<lparr>ext_provider = ''novaforge'', ext_subject = ''user-7''\<rparr>, va_issuer = ''https://nf.example'',
     va_audience = ''pashupatastra'', va_session = ''s1'', va_assertion = ''a1'', va_key = ''k1'', va_issued_at = iat,
     va_expires_at = iat + 300, va_auth_time = 900\<rparr>"

lemma ex_cfg_ok: "make_verifier_config ex_cfg = Inr ex_cfg"
  by code_simp

lemma ex_segments: "''AQ'' = b64url_encode [1]" "''Ag'' = b64url_encode [2]" "''Aw'' = b64url_encode [3]"
  by code_simp+

lemma ex_decoded:
  "b64url_decode_canonical ''AQ'' = Inr [1]" "b64url_decode_canonical ''Ag'' = Inr [2]"
  "b64url_decode_canonical ''Aw'' = Inr [3]" "b64url_decode_canonical ex_signature = Inr (replicate 64 7)"
  unfolding ex_segments ex_signature_def by (rule decode_encode)+

lemma ex_signature_text: "length ex_signature = 86" "CHR ''.'' \<notin> set ex_signature"
  by code_simp+

lemma split_on_none: "c \<notin> set s \<Longrightarrow> split_on c s = [s]"
  by (induction s) auto

lemma ex_opened:
  "open_token ex_cfg ex_token = Inr (''AQ'', ''Ag'', ex_signature)"
  "open_token ex_cfg ex_later_token = Inr (''AQ'', ''Aw'', ex_signature)"
  using ex_signature_text split_on_none [OF ex_signature_text(2)]
  by (auto simp: ex_token_def ex_later_token_def ex_cfg_def)

definition ex_dict :: "int \<Rightarrow> dict" where
  "ex_dict iat = projr (strict_json_object (\<lambda>_. Some (ex_claims iat)) [])"

definition ex_head_dict :: dict where
  "ex_head_dict = projr (strict_json_object (\<lambda>_. Some ex_header) [])"

lemma ex_parsed: "strict_json_object (\<lambda>_. Some (ex_claims iat)) [] = Inr (ex_dict iat)"
  "strict_json_object (\<lambda>_. Some ex_header) [] = Inr ex_head_dict"
  by (simp_all add: ex_dict_def ex_head_dict_def strict_json_object_def ex_claims_def ex_header_def dhas_def)

lemma ex_objects:
  "decode_object ex_crypto ''AQ'' = Inr ex_head_dict"
  "decode_object ex_crypto ''Ag'' = Inr (ex_dict 990)" "decode_object ex_crypto ''Aw'' = Inr (ex_dict 1400)"
  using ex_parsed(1) [of 990] ex_parsed(1) [of 1400] ex_parsed(2)
  by (simp_all add: decode_object_def ex_decoded ex_crypto_def strict_json_object_def)

lemma ex_header_ok: "check_header ex_head_dict = Inr ''k1''"
  by code_simp

lemma ex_signed:
  "check_signature ex_crypto (3, 4) ''AQ.Ag'' ex_signature = Inr ()"
  "check_signature ex_crypto (3, 4) ''AQ.Aw'' ex_signature = Inr ()"
  by (simp_all add: check_signature_def ex_decoded P256_COORDINATE_BYTES_def ex_crypto_def)

end
