(* ===== verification/Key_Facts.thy ===== *)
theory Key_Facts
  imports Trusted_Keys Directory_Facts
begin

text \<open>
  What the key providers guarantee: a document becomes trusted keys whole or not at all, a served key was
  published by the last fetch that could be read and is not stale, and fetching is rate limited whatever
  key ids are asked for.
\<close>

section \<open>Key sets\<close>

lemma parse_keys_Inr:
  "parse_keys c entries acc = Inr ks \<longleftrightarrow>
     (\<exists>keys. map_res (parse_jwk c) entries = Inr keys \<and> distinct (map tk_id keys) \<and>
       set (map tk_id keys) \<inter> fset (fmdom acc) = {} \<and> ks = fold (\<lambda>k m. fmupd (tk_id k) k m) keys acc)"
proof (induction entries arbitrary: acc)
  case (Cons e es)
  have "parse_keys c (e # es) acc = Inr ks \<longleftrightarrow>
      (\<exists>key. parse_jwk c e = Inr key \<and> fmlookup acc (tk_id key) = None \<and>
        parse_keys c es (fmupd (tk_id key) key acc) = Inr ks)"
    by (auto simp: bind_res_Inr_iff)
  also have "\<dots> \<longleftrightarrow> (\<exists>keys. map_res (parse_jwk c) (e # es) = Inr keys \<and> distinct (map tk_id keys) \<and>
       set (map tk_id keys) \<inter> fset (fmdom acc) = {} \<and> ks = fold (\<lambda>k m. fmupd (tk_id k) k m) keys acc)"
    unfolding Cons.IH by (fastforce simp: bind_res_Inr_iff fmdom_notI fmdom_notD dest: fmdomI)
  finally show ?case .
qed auto

lemma fold_upd_lookup:
  assumes "distinct (map tk_id keys)" "set (map tk_id keys) \<inter> fset (fmdom acc) = {}"
  shows "fmlookup (fold (\<lambda>k m. fmupd (tk_id k) k m) keys acc) kid = Some key \<longleftrightarrow>
    (key \<in> set keys \<and> tk_id key = kid) \<or> fmlookup acc kid = Some key"
  using assms
proof (induction keys arbitrary: acc)
  case (Cons k ks)
  have "set (map tk_id ks) \<inter> fset (fmdom (fmupd (tk_id k) k acc)) = {}" using Cons.prems by auto
  with Cons.IH [OF _ this] Cons.prems show ?case by (auto simp: fmdomI)
qed simp

text \<open>What one entry of a published set must be.\<close>

definition acceptable_jwk :: "(point \<Rightarrow> bool) \<Rightarrow> json \<Rightarrow> trusted_key \<Rightarrow> bool" where
  "acceptable_jwk c e key \<longleftrightarrow> (\<exists>jwk. e = JObj jwk \<and> \<not> dhas jwk ''d'' \<and> fset (fmdom jwk) \<subseteq> set ALLOWED_JWK_MEMBERS \<and>
     dget jwk ''kty'' = JStr ''EC'' \<and> dget jwk ''crv'' = JStr ''P-256'' \<and>
     (dhas jwk ''alg'' \<longrightarrow> dget jwk ''alg'' = JStr ES256) \<and> (dhas jwk ''use'' \<longrightarrow> dget jwk ''use'' = JStr ''sig'') \<and>
     (dhas jwk ''key_ops'' \<longrightarrow> dget jwk ''key_ops'' = JArr [JStr ''verify'']) \<and>
     validate_key_id (dget jwk ''kid'') = Inr (tk_id key) \<and>
     coordinate jwk ''x'' = Inr (fst (tk_point key)) \<and> coordinate jwk ''y'' = Inr (snd (tk_point key)) \<and>
     c (tk_point key))"

lemma parse_jwk_Inr: "parse_jwk c e = Inr key \<longleftrightarrow> acceptable_jwk c e key"
  by (cases e; cases key) (auto simp: acceptable_jwk_def bind_res_Inr_iff)

text \<open>A decoded key document is trusted whole or not at all: it parses to a set exactly when it lists between one
  and 32 keys, every one of them an acceptable public P-256 key, under pairwise different ids, and then the
  set holds exactly those keys, each under its own id.\<close>

theorem key_set_whole_or_refused:
  "parse_jwks kr (Decoded d) = Inr ks \<longleftrightarrow>
     (\<exists>entries keys. dget d ''keys'' = JArr entries \<and> 0 < length entries \<and> length entries \<le> 32 \<and>
       list_all2 (acceptable_jwk (kr_on_curve kr)) entries keys \<and> distinct (map tk_id keys) \<and>
       ks = fmap_of_list (map (\<lambda>k. (tk_id k, k)) keys))"
proof -
  have fold_eq: "fold (\<lambda>k m. fmupd (tk_id k) k m) keys fmempty = fmap_of_list (map (\<lambda>k. (tk_id k, k)) keys)"
    if "distinct (map tk_id keys)" for keys
  proof (rule fmap_ext)
    fix kid
    have "distinct (map fst (map (\<lambda>k. (tk_id k, k)) keys))" using that by (simp add: comp_def)
    from map_of_eq_Some_iff [OF this]
    have "fmlookup (fmap_of_list (map (\<lambda>k. (tk_id k, k)) keys)) kid = Some key \<longleftrightarrow> key \<in> set keys \<and> tk_id key = kid" for key
      by (auto simp: fmlookup_of_list)
    with fold_upd_lookup [OF that, of fmempty kid]
    show "fmlookup (fold (\<lambda>k m. fmupd (tk_id k) k m) keys fmempty) kid =
        fmlookup (fmap_of_list (map (\<lambda>k. (tk_id k, k)) keys)) kid"
      by (intro option_eqI) simp
  qed
  have res: "map_res (parse_jwk c) entries = Inr keys \<longleftrightarrow> list_all2 (acceptable_jwk c) entries keys" for c entries keys
    by (simp add: map_res_Inr_iff parse_jwk_Inr)
  have "parse_jwks kr (Decoded d) = Inr ks \<longleftrightarrow>
      (\<exists>entries. dget d ''keys'' = JArr entries \<and> entries \<noteq> [] \<and> length entries \<le> 32 \<and>
        parse_keys (kr_on_curve kr) entries fmempty = Inr ks)"
    by (simp add: parse_jwks_def MAX_JWKS_KEYS_def not_less split: json.splits)
  also have "\<dots> \<longleftrightarrow> (\<exists>entries keys. dget d ''keys'' = JArr entries \<and> 0 < length entries \<and> length entries \<le> 32 \<and>
       list_all2 (acceptable_jwk (kr_on_curve kr)) entries keys \<and> distinct (map tk_id keys) \<and>
       ks = fmap_of_list (map (\<lambda>k. (tk_id k, k)) keys))"
    by (simp add: parse_keys_Inr res fold_eq cong: conj_cong)
  finally show ?thesis .
qed

section \<open>A provider at work\<close>

definition ex_jwk :: dict where
  "ex_jwk = fmap_of_list [(''kty'', JStr ''EC''), (''crv'', JStr ''P-256''), (''kid'', JStr ''k1''), (''alg'', JStr ''ES256''),
     (''x'', JStr (b64url_encode (replicate 32 1))), (''y'', JStr (b64url_encode (replicate 32 2)))]"

definition ex_key :: trusted_key where
  "ex_key = \<lparr>tk_id = ''k1'', tk_point = (int_of_bytes (replicate 32 1), int_of_bytes (replicate 32 2))\<rparr>"

definition ex_reader :: key_reader where
  "ex_reader = \<lparr>kr_loads = (\<lambda>_. None), kr_on_curve = (\<lambda>_. True)\<rparr>"

text \<open>The first fetch fails, every later one answers.\<close>

definition ex_fetch :: "nat \<Rightarrow> jwks_document res" where
  "ex_fetch n = (if n = 0 then Inl ValueError else Inr (Decoded (fmupd ''keys'' (JArr [JObj ex_jwk]) fmempty)))"

definition ex_limits :: cache_config where "ex_limits = \<lparr>cc_max_age = 300, cc_min_refetch = 60\<rparr>"

lemma ex_jwk_parsed: "parse_jwk c (JObj ex_jwk) = (if c (tk_point ex_key) then Inr ex_key else Inl TrustedKeyError)"
  by (auto simp: ex_jwk_def ex_key_def ALLOWED_JWK_MEMBERS_def dhas_def dget_def ES256_def coordinate_def
      P256_COORDINATE_BYTES_def MAX_KEY_ID_LENGTH_def visible_def is_printable_def)

lemma ex_set_parsed:
  "parse_jwks ex_reader (Decoded (fmupd ''keys'' (JArr [JObj ex_jwk]) fmempty)) = Inr (fmupd ''k1'' ex_key fmempty)"
  by (simp add: parse_jwks_def dget_def MAX_JWKS_KEYS_def ex_jwk_parsed ex_reader_def del: parse_jwk.simps) (simp add: ex_key_def)

section \<open>The cache\<close>

text \<open>What the cache holds was read from a fetch that no later readable fetch has replaced, and it is dated by
  the clock reading of that fetch; \<open>ts\<close> lists the readings of the fetches made so far.\<close>

definition cache_ok :: "key_reader \<Rightarrow> (nat \<Rightarrow> jwks_document res) \<Rightarrow> rat list \<Rightarrow> key_cache \<Rightarrow> bool" where
  "cache_ok kr fetch ts kc \<longleftrightarrow> length ts = kc_fetches kc \<and>
     (case kc_keys kc of None \<Rightarrow> \<forall>n < kc_fetches kc. \<nexists>ks. bind_res (fetch n) (parse_jwks kr) = Inr ks
      | Some ks \<Rightarrow> \<exists>n < kc_fetches kc. bind_res (fetch n) (parse_jwks kr) = Inr ks \<and>
          (\<forall>m. n < m \<and> m < kc_fetches kc \<longrightarrow> (\<nexists>ks. bind_res (fetch m) (parse_jwks kr) = Inr ks)) \<and>
          kc_fetched_at kc = Some (ts ! n))"

lemma empty_cache_ok: "cache_ok kr fetch [] empty_cache"
  by (simp add: cache_ok_def empty_cache_def)

lemma refresh_ok: "cache_ok kr fetch ts kc \<Longrightarrow> cache_ok kr fetch (ts @ [now]) (refresh kr fetch now kc)"
  by (cases "bind_res (fetch (kc_fetches kc)) (parse_jwks kr)")
    (auto simp: cache_ok_def refresh_def Let_def less_Suc_eq nth_append split: option.splits)

lemma refresh_fetches [simp]: "kc_fetches (refresh kr fetch now kc) = Suc (kc_fetches kc)"
  by (simp add: refresh_def Let_def split: sum.splits)

text \<open>A call dates every fetch it makes with its own reading of the clock.\<close>

lemma get_key_ok:
  assumes "cached_get_key cc kr fetch now kc kid = (r, kc')" "cache_ok kr fetch ts kc"
  shows "cache_ok kr fetch (ts @ replicate (kc_fetches kc' - kc_fetches kc) now) kc'"
proof -
  note one = refresh_ok [OF assms(2), of now]
  note two = refresh_ok [OF one, of now, simplified]
  from assms show ?thesis
    by (auto simp: cached_get_key_def Let_def one two numeral_2_eq_2 split: if_splits option.splits)
qed

text \<open>The calls made of one provider, with the clock reading of each, and the readings at which they fetched.\<close>

fun cached_calls ::
  "cache_config \<Rightarrow> key_reader \<Rightarrow> (nat \<Rightarrow> jwks_document res) \<Rightarrow> (rat \<times> string) list \<Rightarrow> key_cache \<Rightarrow> key_cache" where
  "cached_calls cc kr fetch [] kc = kc"
| "cached_calls cc kr fetch ((now, kid) # cs) kc =
     cached_calls cc kr fetch cs (snd (cached_get_key cc kr fetch now kc kid))"

fun fetch_times ::
  "cache_config \<Rightarrow> key_reader \<Rightarrow> (nat \<Rightarrow> jwks_document res) \<Rightarrow> (rat \<times> string) list \<Rightarrow> key_cache \<Rightarrow> rat list" where
  "fetch_times cc kr fetch [] kc = []"
| "fetch_times cc kr fetch ((now, kid) # cs) kc =
     (let kc' = snd (cached_get_key cc kr fetch now kc kid) in
      replicate (kc_fetches kc' - kc_fetches kc) now @ fetch_times cc kr fetch cs kc')"

lemma calls_ok:
  "cache_ok kr fetch ts kc \<Longrightarrow>
     cache_ok kr fetch (ts @ fetch_times cc kr fetch cs kc) (cached_calls cc kr fetch cs kc)"
proof (induction cs arbitrary: ts kc)
  case (Cons x cs)
  obtain now kid where x: "x = (now, kid)" by force
  from Cons.IH [OF get_key_ok [OF surjective_pairing Cons.prems]] show ?case by (simp add: x Let_def)
qed simp

lemma cached_calls_snoc:
  "cached_calls cc kr fetch (cs @ [(now, kid)]) kc = snd (cached_get_key cc kr fetch now (cached_calls cc kr fetch cs kc) kid)"
  by (induction cs arbitrary: kc) auto

lemma get_key_served:
  assumes "cached_get_key cc kr fetch now kc kid = (Inr (Some key), kc')"
  shows "\<exists>ks t. kc_keys kc' = Some ks \<and> fmlookup ks kid = Some key \<and> kc_fetched_at kc' = Some t \<and> now - t \<le> cc_max_age cc"
  using assms
  by (auto simp: cached_get_key_def Let_def cache_is_fresh_def split: if_splits option.splits)

definition ex_tried :: key_cache where
  "ex_tried = \<lparr>kc_keys = None, kc_fetched_at = None, kc_last_attempt = Some 100, kc_fetches = 1\<rparr>"

lemma ex_calls:
  "snd (cached_get_key ex_limits ex_reader ex_fetch 100 empty_cache ''k1'') = ex_tried"
  "snd (cached_get_key ex_limits ex_reader ex_fetch 110 ex_tried ''k1'') = ex_tried"
  "cached_get_key ex_limits ex_reader ex_fetch 200 ex_tried ''k1'' =
     (Inr (Some ex_key), \<lparr>kc_keys = Some (fmupd ''k1'' ex_key fmempty), kc_fetched_at = Some 200, kc_last_attempt = Some 200, kc_fetches = 2\<rparr>)"
  by (simp_all add: ex_tried_def cached_get_key_def cache_is_fresh_def may_attempt_def refresh_def empty_cache_def
      ex_limits_def ex_fetch_def ex_set_parsed Let_def)

lemma ex_served:
  "cached_get_key ex_limits ex_reader ex_fetch 200 (cached_calls ex_limits ex_reader ex_fetch [(100, ''k1''), (110, ''k1'')] empty_cache) ''k1'' =
     (Inr (Some ex_key), \<lparr>kc_keys = Some (fmupd ''k1'' ex_key fmempty), kc_fetched_at = Some 200, kc_last_attempt = Some 200, kc_fetches = 2\<rparr>)"
  by (simp add: ex_calls)

lemma ex_fetch_times:
  "fetch_times ex_limits ex_reader ex_fetch ([(100, ''k1''), (110, ''k1'')] @ [(200, ''k1'')]) empty_cache = [100, 200]"
proof -
  have "kc_fetches ex_tried = 1" "kc_fetches empty_cache = 0" by (simp_all add: ex_tried_def empty_cache_def)
  then show ?thesis by (simp add: ex_calls)
qed

text \<open>C15: A key the caching provider serves is current: it was published, under that id, by the last fetch that
  could be read, and the clock reading at which that fetch was made is no older than the configured age. A
  key id dropped by a later publication is not served, and a failed refresh never extends a stale set.\<close>

theorem served_key_is_current:
  assumes "cached_get_key cc kr fetch now (cached_calls cc kr fetch cs empty_cache) kid = (Inr (Some key), kc')"
  shows "\<exists>n ks. n < length (fetch_times cc kr fetch (cs @ [(now, kid)]) empty_cache) \<and>
     bind_res (fetch n) (parse_jwks kr) = Inr ks \<and> fmlookup ks kid = Some key \<and>
     (\<forall>m. n < m \<and> m < length (fetch_times cc kr fetch (cs @ [(now, kid)]) empty_cache) \<longrightarrow>
        (\<nexists>ks. bind_res (fetch m) (parse_jwks kr) = Inr ks)) \<and>
     now - fetch_times cc kr fetch (cs @ [(now, kid)]) empty_cache ! n \<le> cc_max_age cc"
proof -
  from get_key_served [OF assms] obtain ks t where ks: "kc_keys kc' = Some ks" "fmlookup ks kid = Some key"
      "kc_fetched_at kc' = Some t" "now - t \<le> cc_max_age cc" by blast
  from calls_ok [OF empty_cache_ok, of kr fetch cc "cs @ [(now, kid)]"] assms
  have "cache_ok kr fetch (fetch_times cc kr fetch (cs @ [(now, kid)]) empty_cache) kc'"
    by (simp add: cached_calls_snoc)
  with ks show ?thesis by (auto simp: cache_ok_def)
qed

lemma served_key_is_current_witness:
  "\<exists>n < 2. \<exists>ks. bind_res (ex_fetch n) (parse_jwks ex_reader) = Inr ks \<and> fmlookup ks ''k1'' = Some ex_key \<and>
     200 - [100, 200] ! n \<le> (300 :: rat)"
proof -
  from served_key_is_current [OF ex_served] obtain n ks where "n < length [100 :: rat, 200]"
      "bind_res (ex_fetch n) (parse_jwks ex_reader) = Inr ks" "fmlookup ks ''k1'' = Some ex_key"
      "200 - [100, 200] ! n \<le> cc_max_age ex_limits"
    unfolding ex_fetch_times by blast
  then show ?thesis by (intro exI [of _ n] conjI exI [of _ ks]) (simp_all add: ex_limits_def)
qed

section \<open>Rate limit\<close>

text \<open>One call fetches at most once, and not before the interval since the last attempt has passed.\<close>

lemma get_key_attempt:
  assumes "cached_get_key cc kr fetch now kc kid = (r, kc')" "0 < cc_min_refetch cc"
  shows "(kc_fetches kc' = kc_fetches kc \<and> kc_last_attempt kc' = kc_last_attempt kc) \<or>
    (kc_fetches kc' = kc_fetches kc + 1 \<and> kc_last_attempt kc' = Some now \<and> may_attempt cc now kc)"
proof -
  have once: "kc_fetches (refresh kr fetch now k) = kc_fetches k + 1" "kc_last_attempt (refresh kr fetch now k) = Some now" for k
    by (simp_all add: refresh_def Let_def split: sum.splits)
  have again: "\<not> may_attempt cc now (refresh kr fetch now k)" for k
    using assms(2) by (simp add: may_attempt_def once)
  from assms(1) show ?thesis
    by (auto simp: cached_get_key_def Let_def once again split: if_splits option.splits)
qed

lemma first_call_fetches:
  "0 < cc_min_refetch cc \<Longrightarrow> kc_fetches (snd (cached_get_key cc kr fetch now empty_cache kid)) \<noteq> 0"
  by (auto simp: cached_get_key_def Let_def cache_is_fresh_def may_attempt_def empty_cache_def refresh_def
      split: sum.splits option.splits)

lemma attempts_spaced:
  assumes "0 < cc_min_refetch cc" "kc_last_attempt kc = Some l"
  shows "\<exists>l'. kc_last_attempt (cached_calls cc kr fetch cs kc) = Some l' \<and> l' \<in> insert l (set (map fst cs)) \<and>
    of_nat (kc_fetches (cached_calls cc kr fetch cs kc) - kc_fetches kc) * cc_min_refetch cc \<le> l' - l \<and>
    kc_fetches kc \<le> kc_fetches (cached_calls cc kr fetch cs kc)"
  using assms(2)
proof (induction cs arbitrary: kc l)
  case (Cons x cs)
  obtain now kid where x: "x = (now, kid)" by force
  define kc1 where "kc1 = snd (cached_get_key cc kr fetch now kc kid)"
  from get_key_attempt [OF _ assms(1), of kr fetch now kc kid "fst (cached_get_key cc kr fetch now kc kid)" kc1]
  consider "kc_fetches kc1 = kc_fetches kc" "kc_last_attempt kc1 = Some l"
    | "kc_fetches kc1 = kc_fetches kc + 1" "kc_last_attempt kc1 = Some now" "cc_min_refetch cc \<le> now - l"
    using Cons.prems by (auto simp: kc1_def may_attempt_def)
  then show ?case
  proof cases
    case 1
    from Cons.IH [OF 1(2)] 1(1) show ?thesis by (auto simp: x kc1_def [symmetric])
  next
    case 2
    from Cons.IH [OF 2(2)] obtain l' where l': "kc_last_attempt (cached_calls cc kr fetch cs kc1) = Some l'"
        "l' \<in> insert now (set (map fst cs))"
        "of_nat (kc_fetches (cached_calls cc kr fetch cs kc1) - kc_fetches kc1) * cc_min_refetch cc \<le> l' - now"
        "kc_fetches kc1 \<le> kc_fetches (cached_calls cc kr fetch cs kc1)" by blast
    have "kc_fetches (cached_calls cc kr fetch cs kc1) - kc_fetches kc =
        Suc (kc_fetches (cached_calls cc kr fetch cs kc1) - kc_fetches kc1)"
      using 2(1) l'(4) by simp
    with l' 2 show ?thesis by (auto simp: x kc1_def [symmetric] algebra_simps)
  qed
qed simp

text \<open>Fetching is rate limited. However many calls are made and whatever key ids they ask for, a provider whose
  clock read between two times fetches at most once per interval in between, and once more: asking for
  random key ids does not turn it into a request amplifier.\<close>

theorem fetches_are_rate_limited:
  assumes "0 < cc_min_refetch cc" "\<forall>(now, kid) \<in> set cs. lo \<le> now \<and> now \<le> hi" "lo \<le> hi"
  shows "(of_nat (kc_fetches (cached_calls cc kr fetch cs empty_cache)) - 1) * cc_min_refetch cc \<le> hi - lo"
proof (cases cs)
  case Nil
  then show ?thesis using assms(1,3) by (simp add: empty_cache_def)
next
  case (Cons x rest)
  obtain now kid where x: "x = (now, kid)" by force
  define kc where "kc = snd (cached_get_key cc kr fetch now empty_cache kid)"
  have kc: "kc_fetches kc = 1" "kc_last_attempt kc = Some now"
    using get_key_attempt [OF _ assms(1), of kr fetch now empty_cache kid "fst (cached_get_key cc kr fetch now empty_cache kid)" kc]
      first_call_fetches [OF assms(1), of kr fetch now kid]
    by (auto simp: kc_def empty_cache_def)
  from attempts_spaced [OF assms(1) kc(2), of kr fetch rest] obtain l' where
    l': "l' \<in> insert now (set (map fst rest))"
      "of_nat (kc_fetches (cached_calls cc kr fetch rest kc) - kc_fetches kc) * cc_min_refetch cc \<le> l' - now"
      "kc_fetches kc \<le> kc_fetches (cached_calls cc kr fetch rest kc)" by blast
  have "lo \<le> now" "l' \<le> hi" using assms(2) l'(1) by (auto simp: Cons x)
  with l'(2,3) kc(1) show ?thesis by (simp add: Cons x kc_def [symmetric] of_nat_diff)
qed

lemma fetches_are_rate_limited_witness:
  "(of_nat (kc_fetches (cached_calls ex_limits ex_reader ex_fetch [(100, ''k1''), (110, ''k1'')] empty_cache)) - 1) * 60 \<le> (10 :: rat)"
  using fetches_are_rate_limited [where cc = ex_limits and cs = "[(100, ''k1''), (110, ''k1'')]" and lo = 100 and hi = 110
      and kr = ex_reader and fetch = ex_fetch]
  by (simp add: ex_limits_def)

end
