(* ===== verification/Assertion_Properties.thy ===== *)
theory Assertion_Properties
  imports Example_Token Key_Facts
begin

text \<open>
  What the assertion verifier guarantees: only a signed, pinned and timely token becomes verified facts,
  a refused one spends nothing, and no token is verified twice. The last rests on a contract for stores of
  spent keys, \<open>spend_once\<close>, which the verifier's replay guard keeps.
\<close>

section \<open>Stores of spent keys\<close>

text \<open>
  A store answers requests. \<open>when_of r\<close> is the time a request is made at, where its clock could be read. A
  live key is never forgotten, and accepting a value means its key was not live and is now.
\<close>

locale spend_once =
  fixes spends :: "'s \<Rightarrow> ('k, rat) fmap"
    and attempt :: "'r \<Rightarrow> 's \<Rightarrow> 'v option \<times> 's"
    and when_of :: "'r \<Rightarrow> rat option"
    and key_of :: "'v \<Rightarrow> 'k"
    and keep_until :: "'v \<Rightarrow> rat"
  assumes keeps: "attempt r s = (x, s') \<Longrightarrow> fmlookup (spends s) k = Some u \<Longrightarrow>
      (\<And>t. when_of r = Some t \<Longrightarrow> t < u) \<Longrightarrow> fmlookup (spends s') k = Some u"
    and accepts: "attempt r s = (Some v, s') \<Longrightarrow> \<exists>t. when_of r = Some t \<and> t < keep_until v \<and>
      fmlookup (spends s') (key_of v) = Some (keep_until v) \<and>
      (\<forall>u. fmlookup (spends s) (key_of v) = Some u \<longrightarrow> u \<le> t)"
begin

fun answers :: "'r list \<Rightarrow> 's \<Rightarrow> 'v option list" where
  "answers [] s = []"
| "answers (r # rs) s = (case attempt r s of (x, s') \<Rightarrow> x # answers rs s')"

lemma length_answers [simp]: "length (answers rs s) = length rs"
  by (induction rs arbitrary: s) (auto split: prod.splits)

text \<open>Readings do not go back.\<close>

definition forward :: "'r list \<Rightarrow> bool" where
  "forward rs \<longleftrightarrow> sorted (List.map_filter when_of rs)"

lemma forward_Cons:
  "forward (r # rs) \<longleftrightarrow> forward rs \<and> (\<forall>t. when_of r = Some t \<longrightarrow> (\<forall>r' \<in> set rs. \<forall>t'. when_of r' = Some t' \<longrightarrow> t \<le> t'))"
  by (cases "when_of r") (force simp: forward_def List.map_filter_def)+

text \<open>A key spent until \<open>u\<close> is accepted again only at \<open>u\<close> or later.\<close>

lemma spent_key_waits:
  assumes "forward rs" "fmlookup (spends s) k = Some u"
    "j < length rs" "answers rs s ! j = Some w" "key_of w = k"
  shows "\<exists>t. when_of (rs ! j) = Some t \<and> u \<le> t"
  using assms
proof (induction rs arbitrary: s j)
  case (Cons r rs)
  obtain x s' where rs: "attempt r s = (x, s')" by force
  show ?case
  proof (cases j)
    case 0
    then show ?thesis using accepts [of r s w s'] Cons.prems(2,4,5) rs by auto
  next
    case (Suc i)
    show ?thesis
    proof (cases "\<exists>t. when_of r = Some t \<and> u \<le> t")
      case True
      have "i < length rs" "answers rs s' ! i = Some w" using Cons.prems(3,4) rs Suc by auto
      then have "\<exists>t. when_of (rs ! i) = Some t"
        by (induction rs arbitrary: s' i)
          (force simp: nth_Cons split: prod.splits nat.splits dest: accepts)+
      then obtain t' where "when_of (rs ! i) = Some t'" ..
      then show ?thesis using True Cons.prems(1) \<open>i < length rs\<close> Suc by (force simp: forward_Cons)
    next
      case False
      then have "\<And>t. when_of r = Some t \<Longrightarrow> t < u" by force
      from keeps [OF rs Cons.prems(2) this] have "fmlookup (spends s') k = Some u" by blast
      from Cons.IH [OF _ this, of i] Cons.prems rs Suc show ?thesis by (auto simp: forward_Cons)
    qed
  qed
qed simp

lemma accepted_again:
  assumes "forward rs" "i < j" "j < length rs" "answers rs s ! i = Some v" "answers rs s ! j = Some w"
    "key_of w = key_of v"
  shows "\<exists>t. when_of (rs ! j) = Some t \<and> keep_until v \<le> t \<and> t < keep_until w"
  using assms
proof (induction rs arbitrary: s i j)
  case (Cons r rs)
  obtain x s' where rs: "attempt r s = (x, s')" by force
  obtain j' where j: "j = Suc j'" using Cons.prems(2) by (cases j) auto
  have later: "answers rs s' ! j' = Some w" "j' < length rs" "forward rs"
    using Cons.prems(1,3,5) rs j by (auto simp: forward_Cons)
  show ?case
  proof (cases i)
    case 0
    with Cons.prems(4) rs have "x = Some v" by simp
    with rs accepts have "fmlookup (spends s') (key_of v) = Some (keep_until v)" by blast
    from spent_key_waits [OF later(3) this later(2,1) Cons.prems(6)] obtain t where
      t: "when_of (rs ! j') = Some t" "keep_until v \<le> t" by blast
    have "\<exists>t. when_of (rs ! j') = Some t \<and> t < keep_until w"
      using later(1,2)
      by (induction rs arbitrary: s' j') (force simp: nth_Cons split: prod.splits nat.splits dest: accepts)+
    with t j show ?thesis by auto
  next
    case (Suc i')
    have "answers rs s' ! i' = Some v" using Cons.prems(4) rs Suc by simp
    from Cons.IH [OF later(3) _ later(2) this later(1) Cons.prems(6)] Cons.prems(2) Suc j
    show ?thesis by simp
  qed
qed simp

end

section \<open>The replay guard\<close>

lemma lookup_unexpired:
  "fmlookup (unexpired now m) k = Some u \<longleftrightarrow> fmlookup m k = Some u \<and> now < u"
  by (auto simp: unexpired_def not_le split: option.splits)

lemma unexpired_subset: "fmdom (unexpired now m) |\<subseteq>| fmdom m"
  by (auto simp: unexpired_def)

lemma check_and_record_cases:
  assumes "check_and_record key until now g = (a, g')"
  shows "rg_capacity g' = rg_capacity g"
    "a \<noteq> Recorded \<Longrightarrow> rg_entries g' = unexpired now (rg_entries g)"
    "a = Recorded \<Longrightarrow> rg_entries g' = fmupd key until (unexpired now (rg_entries g)) \<and>
       fmlookup (unexpired now (rg_entries g)) key = None \<and> fcard (fmdom (unexpired now (rg_entries g))) < rg_capacity g"
  using assms by (auto simp: check_and_record_def Let_def not_le split: if_splits)

lemma check_and_record_bound:
  assumes "check_and_record key until now g = (a, g')" "fcard (fmdom (rg_entries g)) \<le> rg_capacity g"
  shows "fcard (fmdom (rg_entries g')) \<le> rg_capacity g'"
proof -
  note c = check_and_record_cases [OF assms(1)]
  have "fcard (fmdom (unexpired now (rg_entries g))) \<le> rg_capacity g"
    using fcard_mono [OF unexpired_subset] assms(2) by (rule order_trans)
  with c show ?thesis
    by (cases "a = Recorded") (auto simp: fcard_finsert_if)
qed

section \<open>The steps of a verification\<close>

lemma split_on_ne [simp]: "split_on c s \<noteq> []"
  by (cases s) (auto split: list.splits)

lemma split_on_join: "split_on c s = p # ps \<Longrightarrow> s = p @ concat (map (\<lambda>q. c # q) ps)"
proof (induction s arbitrary: p ps)
  case (Cons x s)
  obtain q qs where q: "split_on c s = q # qs" by (cases "split_on c s") auto
  with Cons.prems have "x = c \<and> p = [] \<and> ps = q # qs \<or> p = x # q \<and> ps = qs" by (auto split: if_splits)
  with Cons.IH [OF q] show ?case by auto
qed simp

lemma open_token_Inr:
  "open_token cfg a = Inr (h, p, s) \<Longrightarrow>
     a = JStr (h @ ''.'' @ p @ ''.'' @ s) \<and> int (length (h @ ''.'' @ p @ ''.'' @ s)) \<le> vc_max_length cfg"
  by (cases a) (auto split: if_splits list.splits dest!: split_on_join)

lemma decode_object_Inr: "decode_object cr seg = Inr d \<longleftrightarrow>
    (\<exists>raw. b64url_decode_canonical seg = Inr raw \<and> strict_json_object (cr_loads cr) raw = Inr d)"
  by (auto simp: decode_object_def bind_res_Inr_iff split: sum.splits dest: bind_res_Inr_iff [THEN iffD1])

lemma validate_key_id_Inr:
  "validate_key_id v = Inr kid \<longleftrightarrow> v = JStr kid \<and> kid \<noteq> [] \<and> length kid \<le> MAX_KEY_ID_LENGTH \<and> list_all visible kid"
  by (cases v) auto

lemma check_header_Inr:
  "check_header d = Inr kid \<longleftrightarrow> dget d ''alg'' = JStr ES256 \<and> fset (fmdom d) \<subseteq> set ALLOWED_HEADER_MEMBERS \<and>
     dget d ''typ'' = JStr ASSERTION_TYP \<and> validate_key_id (dget d ''kid'') = Inr kid"
  by (auto simp: check_header_def split: sum.splits)

lemma resolve_key_Inr: "resolve_key gk k kid = (Inr key, k') \<longleftrightarrow> gk k kid = (Inr (Some key), k')"
  by (auto simp: resolve_key_def split: prod.splits sum.splits option.splits)

lemma check_signature_Inr:
  "check_signature cr key si sg = Inr () \<longleftrightarrow> list_all (\<lambda>c. (of_char c :: nat) < 128) si \<and>
     (\<exists>raw. b64url_decode_canonical sg = Inr raw \<and> length raw = 64 \<and>
       cr_verifies cr key si (int_of_bytes (take 32 raw), int_of_bytes (drop 32 raw)))"
  by (auto simp: check_signature_def P256_COORDINATE_BYTES_def split: sum.splits)

lemma claimed_principal_Inr:
  "claimed_principal cfg c = Inr () \<longleftrightarrow> (\<forall>n \<in> set REQUIRED_CLAIMS. dhas c n) \<and>
     dget c ''iss'' = JStr (vc_issuer cfg) \<and> dget c ''aud'' = JStr (vc_audience cfg) \<and>
     dget c ''token_use'' = JStr TOKEN_USE \<and> dget c ''principal_type'' = JStr PRINCIPAL_TYPE_USER \<and>
     dget c ''account_status'' = JStr ACCOUNT_STATUS_ACTIVE"
  by (auto simp: claimed_principal_def list_ex_iff)

lemma claimed_times_Inr:
  assumes "claimed_times cfg c = Inr t"
  shows "dget c ''iat'' = JInt (ct_iat t)" "dget c ''exp'' = JInt (ct_exp t)" "dget c ''auth_time'' = JInt (ct_auth t)"
    "0 < ct_iat t" "0 < ct_auth t" "ct_iat t < ct_exp t" "ct_exp t - ct_iat t \<le> vc_max_lifetime cfg"
    "ct_auth t \<le> ct_iat t + vc_tolerance cfg"
    "dhas c ''nbf'' \<longrightarrow> (\<exists>n. dget c ''nbf'' = JInt n \<and> ct_nbf t = Some n \<and> ct_iat t \<le> n \<and> n < ct_exp t)"
  using assms
  by (auto simp: claimed_times_def bind_res_Inr_iff not_le not_less split: if_splits json.splits)

lemma check_time_Inr:
  "check_time cfg clk t = Inr now \<longleftrightarrow> clk = Reading now \<and> 0 < now \<and>
     of_int (ct_iat t) \<le> now + of_int (vc_tolerance cfg) \<and>
     (\<forall>n. ct_nbf t = Some n \<longrightarrow> of_int n \<le> now + of_int (vc_tolerance cfg)) \<and>
     now < of_int (ct_exp t) + of_int (vc_tolerance cfg)"
  by (cases clk) (auto simp: check_time_def Let_def not_le not_less split: if_splits option.splits)

lemma bounded_token: "is_bounded_token v n \<Longrightarrow> \<exists>x. v = JStr x \<and> x \<noteq> []"
  by (cases v) auto

lemma make_external_identity_Inr:
  "make_external_identity (JStr p) v = Inr i \<Longrightarrow> ext_provider i = p \<and> v = JStr (ext_subject i)"
  by (cases v) (auto simp: make_external_identity_def bind_res_Inr_iff split: if_splits)

lemma claimed_identity_Inr:
  assumes "claimed_identity cfg c = Inr (i, sid, jti)"
  shows "ext_provider i = vc_provider cfg" "dget c ''sub'' = JStr (ext_subject i)"
    "dget c ''sid'' = JStr sid" "dget c ''jti'' = JStr jti" "sid \<noteq> []" "jti \<noteq> []"
  using assms
  by (auto simp: claimed_identity_def split: if_splits sum.splits json.splits dest!: make_external_identity_Inr)

lemma check_claims_Inr:
  assumes "check_claims cfg clk c kid g = (Inr v, g')"
  obtains t now where "claimed_principal cfg c = Inr ()" "claimed_times cfg c = Inr t" "check_time cfg clk t = Inr now"
    "claimed_identity cfg c = Inr (va_identity v, va_session v, va_assertion v)"
    "check_and_record (vc_issuer cfg, va_assertion v) (of_int (ct_exp t + vc_tolerance cfg)) now g = (Recorded, g')"
    "va_issuer v = vc_issuer cfg" "va_audience v = vc_audience cfg" "va_key v = kid" "va_issued_at v = ct_iat t"
    "va_expires_at v = ct_exp t" "va_auth_time v = ct_auth t"
proof -
  let ?b = "bind_res (claimed_principal cfg c) (\<lambda>_. bind_res (claimed_times cfg c) (\<lambda>t.
      bind_res (check_time cfg clk t) (\<lambda>now. bind_res (claimed_identity cfg c) (\<lambda>who. Inr (t, now, who)))))"
  from assms obtain t now i sid jti where b: "?b = Inr (t, now, i, sid, jti)"
    by (cases ?b) (auto simp: check_claims_def)
  obtain a g1 where a: "check_and_record (vc_issuer cfg, jti) (of_int (ct_exp t + vc_tolerance cfg)) now g = (a, g1)"
    by force
  have "a = Recorded" using assms b a by (cases a) (auto simp: check_claims_def)
  with assms b a have "g1 = g'" and "make_verified \<lparr>va_identity = i, va_issuer = vc_issuer cfg, va_audience = vc_audience cfg,
      va_session = sid, va_assertion = jti, va_key = kid, va_issued_at = ct_iat t, va_expires_at = ct_exp t,
      va_auth_time = ct_auth t\<rparr> = Inr v"
    by (auto simp: check_claims_def)
  with b a \<open>a = Recorded\<close> show ?thesis
    by (intro that [of t now]) (auto simp: bind_res_Inr_iff make_verified_def split: if_splits)
qed

text \<open>What became verified facts was in the token: its pieces, what they decode to, and what was checked.\<close>

definition proved_by ::
  "crypto \<Rightarrow> verifier_config \<Rightarrow> rat \<Rightarrow> trusted_key \<Rightarrow> json \<Rightarrow> verified_assertion \<Rightarrow> bool" where
  "proved_by cr cfg now key assertion v \<longleftrightarrow>
    (\<exists>h p s header claims raw t. open_token cfg assertion = Inr (h, p, s) \<and>
       decode_object cr h = Inr header \<and> check_header header = Inr (va_key v) \<and>
       b64url_decode_canonical s = Inr raw \<and> length raw = 64 \<and>
       cr_verifies cr (tk_point key) (h @ ''.'' @ p) (int_of_bytes (take 32 raw), int_of_bytes (drop 32 raw)) \<and>
       decode_object cr p = Inr claims \<and> claimed_principal cfg claims = Inr () \<and>
       claimed_times cfg claims = Inr t \<and> check_time cfg (Reading now) t = Inr now \<and>
       claimed_identity cfg claims = Inr (va_identity v, va_session v, va_assertion v) \<and>
       va_issuer v = vc_issuer cfg \<and> va_audience v = vc_audience cfg \<and>
       va_issued_at v = ct_iat t \<and> va_expires_at v = ct_exp t \<and> va_auth_time v = ct_auth t)"

lemma sealed_Inr [simp]: "sealed r = Inr x \<longleftrightarrow> r = Inr x"
  by (auto simp: sealed_def split: sum.splits py_error.splits)

lemma verify_Inr:
  assumes "verify cr cfg gk clk a (g, k) = (Inr v, g', k')"
  obtains key now where "proved_by cr cfg now key a v" "clk = Reading now" "0 < now"
    "gk k (va_key v) = (Inr (Some key), k')"
    "check_and_record (va_issuer v, va_assertion v) (of_int (va_expires_at v + vc_tolerance cfg)) now g = (Recorded, g')"
proof -
  let ?b = "bind_res (open_token cfg a) (\<lambda>(h, p, s). bind_res (decode_object cr h) (\<lambda>header.
      bind_res (check_header header) (\<lambda>kid. Inr (h, p, s, kid))))"
  from assms have raw: "verify_raw cr cfg gk clk a (g, k) = (Inr v, g', k')"
    by (auto simp: verify_def split: prod.splits)
  then obtain h p s kid where b: "?b = Inr (h, p, s, kid)"
    by (cases ?b) (auto simp: verify_raw_def)
  obtain rk k1 where rk: "resolve_key gk k kid = (rk, k1)" by force
  from raw b rk obtain key where key: "rk = Inr key" by (cases rk) (auto simp: verify_raw_def)
  let ?c = "bind_res (check_signature cr (tk_point key) (h @ ''.'' @ p) s) (\<lambda>_. decode_object cr p)"
  from raw b rk key obtain claims where c: "?c = Inr claims" by (cases ?c) (auto simp: verify_raw_def)
  from raw b rk key c have fin: "check_claims cfg clk claims kid g = (Inr v, g')" and k1: "k1 = k'"
    by (auto simp: verify_raw_def split: prod.splits)
  from check_claims_Inr [OF fin] obtain t now where
    v: "claimed_principal cfg claims = Inr ()" "claimed_times cfg claims = Inr t" "check_time cfg clk t = Inr now"
      "claimed_identity cfg claims = Inr (va_identity v, va_session v, va_assertion v)"
      "check_and_record (vc_issuer cfg, va_assertion v) (of_int (ct_exp t + vc_tolerance cfg)) now g = (Recorded, g')"
      "va_issuer v = vc_issuer cfg" "va_audience v = vc_audience cfg" "va_key v = kid" "va_issued_at v = ct_iat t"
      "va_expires_at v = ct_exp t" "va_auth_time v = ct_auth t" .
  from v(3) have clk: "clk = Reading now" "0 < now" by (auto simp: check_time_Inr)
  have "proved_by cr cfg now key a v"
    unfolding proved_by_def using v clk b c open_token_Inr [of cfg a h p s]
    by (auto simp: bind_res_Inr_iff check_signature_Inr)
  with v clk rk key k1 show ?thesis by (intro that [of now key]) (auto simp: resolve_key_Inr)
qed

lemma proved_by_functional:
  assumes "proved_by cr cfg now key a v" "proved_by cr cfg now' key' a v'"
  shows "va_assertion v' = va_assertion v \<and> va_issuer v' = va_issuer v \<and> va_expires_at v' = va_expires_at v"
  using assms by (auto simp: proved_by_def)

text \<open>A refusal by the verifier: what the guard was asked, if it was.\<close>

lemma check_claims_Inl:
  assumes "check_claims cfg clk c kid g = (Inl e, g')" "kid \<noteq> []"
  shows "g' = g \<or> (\<exists>key until now a. clk = Reading now \<and> check_and_record key until now g = (a, g') \<and>
    (vc_issuer cfg \<noteq> [] \<and> vc_audience cfg \<noteq> [] \<longrightarrow> a \<noteq> Recorded))"
proof -
  let ?b = "bind_res (claimed_principal cfg c) (\<lambda>_. bind_res (claimed_times cfg c) (\<lambda>t.
      bind_res (check_time cfg clk t) (\<lambda>now. bind_res (claimed_identity cfg c) (\<lambda>who. Inr (t, now, who)))))"
  show ?thesis
  proof (cases ?b)
    case (Inl e')
    then show ?thesis using assms(1) by (simp add: check_claims_def)
  next
    case (Inr x)
    obtain t now i sid jti where x: "x = (t, now, i, sid, jti)" by (cases x) auto
    from Inr x have ok: "claimed_times cfg c = Inr t" "check_time cfg clk t = Inr now" "claimed_identity cfg c = Inr (i, sid, jti)"
      by (auto simp: bind_res_Inr_iff)
    obtain a g1 where a: "check_and_record (vc_issuer cfg, jti) (of_int (ct_exp t + vc_tolerance cfg)) now g = (a, g1)"
      by force
    have "vc_issuer cfg \<noteq> [] \<and> vc_audience cfg \<noteq> [] \<longrightarrow> a \<noteq> Recorded"
      using assms Inr x a claimed_times_Inr [OF ok(1)] claimed_identity_Inr [OF ok(3)]
      by (auto simp: check_claims_def make_verified_def)
    moreover have "g1 = g'" using assms(1) Inr x a by (cases a) (auto simp: check_claims_def)
    ultimately show ?thesis using a ok(2) by (auto simp: check_time_Inr)
  qed
qed

lemma verify_Inl:
  assumes "verify cr cfg gk clk a (g, k) = (Inl e, g', k')"
  shows "g' = g \<or> (\<exists>key until now x. clk = Reading now \<and> check_and_record key until now g = (x, g') \<and>
    (vc_issuer cfg \<noteq> [] \<and> vc_audience cfg \<noteq> [] \<longrightarrow> x \<noteq> Recorded))"
proof -
  let ?b = "bind_res (open_token cfg a) (\<lambda>(h, p, s). bind_res (decode_object cr h) (\<lambda>header.
      bind_res (check_header header) (\<lambda>kid. Inr (h, p, s, kid))))"
  obtain e1 where raw: "verify_raw cr cfg gk clk a (g, k) = (Inl e1, g', k')"
    using assms(1) by (cases "verify_raw cr cfg gk clk a (g, k)"; cases "fst (verify_raw cr cfg gk clk a (g, k))")
      (auto simp: verify_def sealed_def)
  show ?thesis
  proof (cases ?b)
    case (Inl e')
    with raw show ?thesis by (simp add: verify_raw_def)
  next
    case (Inr x)
    obtain h p s kid where x: "x = (h, p, s, kid)" by (cases x) auto
    from Inr x have kid: "kid \<noteq> []" by (auto simp: bind_res_Inr_iff check_header_Inr validate_key_id_Inr)
    obtain rk k1 where rk: "resolve_key gk k kid = (rk, k1)" by force
    show ?thesis
    proof (cases rk)
      case (Inl e')
      with raw Inr rk x show ?thesis by (simp add: verify_raw_def)
    next
      case key: (Inr key)
      let ?c = "bind_res (check_signature cr (tk_point key) (h @ ''.'' @ p) s) (\<lambda>_. decode_object cr p)"
      show ?thesis
      proof (cases ?c)
        case (Inl e')
        with raw Inr rk x key show ?thesis by (simp add: verify_raw_def)
      next
        case claims: (Inr claims)
        with raw Inr rk x key have "check_claims cfg clk claims kid g = (Inl e1, g')"
          by (auto simp: verify_raw_def split: prod.splits)
        from check_claims_Inl [OF this kid] show ?thesis .
      qed
    qed
  qed
qed

section \<open>The verifier as a store of spent keys\<close>

fun reading_time :: "reading \<Rightarrow> rat option" where
  "reading_time (Reading now) = Some now"
| "reading_time _ = None"

definition verifying ::
  "crypto \<Rightarrow> verifier_config \<Rightarrow> 'k key_source \<Rightarrow> reading \<times> json \<Rightarrow> replay_guard \<times> 'k \<Rightarrow>
   verified_assertion option \<times> replay_guard \<times> 'k" where
  "verifying cr cfg gk call s =
    (case verify cr cfg gk (fst call) (snd call) s of (Inr v, s') \<Rightarrow> (Some v, s') | (Inl _, s') \<Rightarrow> (None, s'))"

lemma verifying_Some: "verifying cr cfg gk call s = (Some v, s') \<longleftrightarrow> verify cr cfg gk (fst call) (snd call) s = (Inr v, s')"
  by (auto simp: verifying_def split: prod.splits sum.splits)

lemma verifying_None: "verifying cr cfg gk call s = (None, s') \<longleftrightarrow> (\<exists>e. verify cr cfg gk (fst call) (snd call) s = (Inl e, s'))"
  by (auto simp: verifying_def split: prod.splits sum.splits)

lemma check_and_record_keeps:
  assumes "check_and_record key until now g = (a, g')" "fmlookup (rg_entries g) k = Some u" "now < u"
  shows "fmlookup (rg_entries g') k = Some u"
proof -
  have live: "fmlookup (unexpired now (rg_entries g)) k = Some u" using assms(2,3) by (simp add: lookup_unexpired)
  show ?thesis
  proof (cases "a = Recorded")
    case True
    with check_and_record_cases(3) [OF assms(1)] live show ?thesis by auto
  next
    case False
    with check_and_record_cases(2) [OF assms(1)] live show ?thesis by simp
  qed
qed

interpretation guard: spend_once "\<lambda>s :: replay_guard \<times> 'k. rg_entries (fst s)" "verifying cr cfg gk"
    "\<lambda>call. reading_time (fst call)" "\<lambda>v. (va_issuer v, va_assertion v)"
    "\<lambda>v. of_int (va_expires_at v + vc_tolerance cfg)"
  for cr cfg gk
proof (unfold_locales, goal_cases)
  case (1 call s x s' k u)
  obtain g ks g' ks' where s: "s = (g, ks)" "s' = (g', ks')" by (cases s; cases s') auto
  show ?case
  proof (cases x)
    case None
    with 1 s obtain e where "verify cr cfg gk (fst call) (snd call) (g, ks) = (Inl e, g', ks')"
      by (auto simp: verifying_None)
    from verify_Inl [OF this] consider "g' = g"
      | key until now a where "fst call = Reading now" "check_and_record key until now g = (a, g')" by blast
    then show ?thesis using 1(2,3) s by cases (auto intro: check_and_record_keeps)
  next
    case (Some v)
    with 1 s have "verify cr cfg gk (fst call) (snd call) (g, ks) = (Inr v, g', ks')"
      by (auto simp: verifying_Some)
    from verify_Inr [OF this] obtain now where "fst call = Reading now"
      "check_and_record (va_issuer v, va_assertion v) (of_int (va_expires_at v + vc_tolerance cfg)) now g = (Recorded, g')"
      by blast
    then show ?thesis using 1(2,3) s by (auto intro: check_and_record_keeps)
  qed
next
  case (2 call s v s')
  obtain g ks g' ks' where s: "s = (g, ks)" "s' = (g', ks')" by (cases s; cases s') auto
  from 2 s have "verify cr cfg gk (fst call) (snd call) (g, ks) = (Inr v, g', ks')" by (auto simp: verifying_Some)
  from verify_Inr [OF this] obtain key now where v: "proved_by cr cfg now key (snd call) v" "fst call = Reading now"
    "check_and_record (va_issuer v, va_assertion v) (of_int (va_expires_at v + vc_tolerance cfg)) now g = (Recorded, g')"
    by blast
  from v(1) have "now < of_int (va_expires_at v + vc_tolerance cfg)" by (auto simp: proved_by_def check_time_Inr)
  moreover from check_and_record_cases(3) [OF v(3)]
  have "\<forall>u. fmlookup (rg_entries g) (va_issuer v, va_assertion v) = Some u \<longrightarrow> u \<le> now"
    by (metis lookup_unexpired not_le option.distinct(1))
  ultimately show ?case using check_and_record_cases(3) [OF v(3)] v(2) s by auto
qed

section \<open>Properties\<close>

text \<open>Any number of calls, one after the other, of one verifier.\<close>

fun verify_all ::
  "crypto \<Rightarrow> verifier_config \<Rightarrow> 'k key_source \<Rightarrow> (reading \<times> json) list \<Rightarrow> replay_guard \<times> 'k \<Rightarrow>
   verified_assertion res list \<times> replay_guard \<times> 'k" where
  "verify_all cr cfg gk [] s = ([], s)"
| "verify_all cr cfg gk ((clk, a) # calls) s =
    (case verify cr cfg gk clk a s of (r, s1) \<Rightarrow>
     case verify_all cr cfg gk calls s1 of (rs, s2) \<Rightarrow> (r # rs, s2))"

lemma verify_all_answers:
  "guard.answers cr cfg gk calls s =
     map (\<lambda>r. case r of Inr v \<Rightarrow> Some v | Inl _ \<Rightarrow> None) (fst (verify_all cr cfg gk calls s))"
  by (induction calls arbitrary: s) (auto simp: verifying_def split: prod.splits sum.splits)

lemma length_verify_all [simp]: "length (fst (verify_all cr cfg gk calls s)) = length calls"
  by (metis length_map guard.length_answers verify_all_answers)

lemma verify_all_proved:
  assumes "i < length calls" "fst (verify_all cr cfg gk calls s) ! i = Inr v"
  shows "\<exists>key now. proved_by cr cfg now key (snd (calls ! i)) v"
  using assms
proof (induction calls arbitrary: s i)
  case (Cons c calls)
  obtain clk a where c: "c = (clk, a)" by force
  obtain g k where s: "s = (g, k)" by force
  obtain r g1 k1 where r: "verify cr cfg gk clk a s = (r, g1, k1)" by (metis prod_cases3)
  show ?case
  proof (cases i)
    case 0
    with Cons.prems c r have "r = Inr v" by (auto split: prod.splits)
    from verify_Inr [OF r [unfolded s, unfolded this]] obtain key now where "proved_by cr cfg now key a v" by blast
    with c 0 show ?thesis by auto
  next
    case (Suc j)
    with Cons.IH [of j "(g1, k1)"] Cons.prems c r show ?thesis by (auto split: prod.splits)
  qed
qed simp

lemma ex_verified:
  "verify ex_crypto ex_cfg ex_keys (Reading 1000) ex_token (ex_guard, ()) =
     (Inr (ex_facts 990), ex_guard\<lparr>rg_entries := fmupd (''https://nf.example'', ''a1'') 1320 fmempty\<rparr>, ())"
  "verify ex_crypto ex_cfg ex_keys (Reading 1400) ex_later_token
       (ex_guard\<lparr>rg_entries := fmupd (''https://nf.example'', ''a1'') 1320 fmempty\<rparr>, ()) =
     (Inr (ex_facts 1400), ex_guard\<lparr>rg_entries := fmupd (''https://nf.example'', ''a1'') 1730 fmempty\<rparr>, ())"
  "verify ex_crypto ex_cfg ex_keys (Reading 1100) ex_token
       (ex_guard\<lparr>rg_entries := fmupd (''https://nf.example'', ''a1'') 1320 fmempty\<rparr>, ()) =
     (Inl (AssertionVerificationError ''REPLAYED''),
       ex_guard\<lparr>rg_entries := fmupd (''https://nf.example'', ''a1'') 1320 fmempty\<rparr>, ())"
proof -
  have steps: "check_claims ex_cfg (Reading 1000) (ex_dict 990) ''k1'' ex_guard =
      (Inr (ex_facts 990), ex_guard\<lparr>rg_entries := fmupd (''https://nf.example'', ''a1'') 1320 fmempty\<rparr>)"
    "check_claims ex_cfg (Reading 1400) (ex_dict 1400) ''k1'' (ex_guard\<lparr>rg_entries := fmupd (''https://nf.example'', ''a1'') 1320 fmempty\<rparr>) =
      (Inr (ex_facts 1400), ex_guard\<lparr>rg_entries := fmupd (''https://nf.example'', ''a1'') 1730 fmempty\<rparr>)"
    "check_claims ex_cfg (Reading 1100) (ex_dict 990) ''k1'' (ex_guard\<lparr>rg_entries := fmupd (''https://nf.example'', ''a1'') 1320 fmempty\<rparr>) =
      (Inl (AssertionVerificationError ''REPLAYED''), ex_guard\<lparr>rg_entries := fmupd (''https://nf.example'', ''a1'') 1320 fmempty\<rparr>)"
    by code_simp+
  show "verify ex_crypto ex_cfg ex_keys (Reading 1000) ex_token (ex_guard, ()) =
     (Inr (ex_facts 990), ex_guard\<lparr>rg_entries := fmupd (''https://nf.example'', ''a1'') 1320 fmempty\<rparr>, ())"
    "verify ex_crypto ex_cfg ex_keys (Reading 1400) ex_later_token
       (ex_guard\<lparr>rg_entries := fmupd (''https://nf.example'', ''a1'') 1320 fmempty\<rparr>, ()) =
     (Inr (ex_facts 1400), ex_guard\<lparr>rg_entries := fmupd (''https://nf.example'', ''a1'') 1730 fmempty\<rparr>, ())"
    "verify ex_crypto ex_cfg ex_keys (Reading 1100) ex_token
       (ex_guard\<lparr>rg_entries := fmupd (''https://nf.example'', ''a1'') 1320 fmempty\<rparr>, ()) =
     (Inl (AssertionVerificationError ''REPLAYED''),
       ex_guard\<lparr>rg_entries := fmupd (''https://nf.example'', ''a1'') 1320 fmempty\<rparr>, ())"
    using ex_signed
    by (simp_all add: verify_def verify_raw_def ex_opened ex_objects ex_header_ok resolve_key_def ex_keys_def steps sealed_def)
qed

text \<open>C9: Only a signed and timely token becomes verified facts. The token has three parts, a key trusted under the
  recorded key id verifies its signature over the first two, issuer, audience and use are the pinned ones,
  the account is an active user's, the subject is taken verbatim under the configured provider, and the clock
  read a time within the token's life, which is within the configured one.\<close>

theorem verified_facts_were_signed:
  assumes "verify cr cfg get_key clk assertion (g, k) = (Inr v, g', k')"
  shows "\<exists>h p s key raw claims now. assertion = JStr (h @ ''.'' @ p @ ''.'' @ s) \<and>
     get_key k (va_key v) = (Inr (Some key), k') \<and> b64url_decode_canonical s = Inr raw \<and> length raw = 64 \<and>
     cr_verifies cr (tk_point key) (h @ ''.'' @ p) (int_of_bytes (take 32 raw), int_of_bytes (drop 32 raw)) \<and>
     decode_object cr p = Inr claims \<and>
     dget claims ''iss'' = JStr (vc_issuer cfg) \<and> va_issuer v = vc_issuer cfg \<and>
     dget claims ''aud'' = JStr (vc_audience cfg) \<and> dget claims ''token_use'' = JStr ''identity_assertion'' \<and>
     dget claims ''principal_type'' = JStr ''user'' \<and> dget claims ''account_status'' = JStr ''ACTIVE'' \<and>
     dget claims ''sub'' = JStr (ext_subject (va_identity v)) \<and> ext_provider (va_identity v) = vc_provider cfg \<and>
     dget claims ''jti'' = JStr (va_assertion v) \<and> dget claims ''exp'' = JInt (va_expires_at v) \<and>
     clk = Reading now \<and> of_int (va_issued_at v) \<le> now + of_int (vc_tolerance cfg) \<and>
     now < of_int (va_expires_at v) + of_int (vc_tolerance cfg) \<and>
     va_expires_at v - va_issued_at v \<le> vc_max_lifetime cfg"
proof -
  from verify_Inr [OF assms] obtain key now where v: "proved_by cr cfg now key assertion v" "clk = Reading now"
    "get_key k (va_key v) = (Inr (Some key), k')" by blast
  from v(1) obtain h p s header claims raw t where p: "open_token cfg assertion = Inr (h, p, s)"
      "b64url_decode_canonical s = Inr raw" "length raw = 64"
      "cr_verifies cr (tk_point key) (h @ ''.'' @ p) (int_of_bytes (take 32 raw), int_of_bytes (drop 32 raw))"
      "decode_object cr p = Inr claims" "claimed_principal cfg claims = Inr ()"
      "claimed_times cfg claims = Inr t" "check_time cfg (Reading now) t = Inr now"
      "claimed_identity cfg claims = Inr (va_identity v, va_session v, va_assertion v)"
      "va_issuer v = vc_issuer cfg" "va_issued_at v = ct_iat t" "va_expires_at v = ct_exp t"
    unfolding proved_by_def by blast
  from p(6) claimed_identity_Inr [OF p(9)] claimed_times_Inr [OF p(7)] p(8) open_token_Inr [OF p(1)] v p
  show ?thesis
    unfolding claimed_principal_Inr check_time_Inr TOKEN_USE_def PRINCIPAL_TYPE_USER_def ACCOUNT_STATUS_ACTIVE_def
    by metis
qed

lemma verified_facts_were_signed_witness:
  "\<exists>h p s claims. ex_token = JStr (h @ ''.'' @ p @ ''.'' @ s) \<and> decode_object ex_crypto p = Inr claims \<and>
     dget claims ''sub'' = JStr ''user-7''"
  using verified_facts_were_signed [OF ex_verified(1)] by (auto simp: ex_facts_def)

text \<open>C10: No token is verified twice, as long as the clock does not go back: of two verified calls the second was
  given another token, and if that carries the same assertion id, the first had expired by then, tolerance
  included, and the second expires later.\<close>

theorem assertion_verified_once:
  assumes "sorted (List.map_filter (\<lambda>call. reading_time (fst call)) calls)" "i < j" "j < length calls"
    "fst (verify_all cr cfg get_key calls s) ! i = Inr v" "fst (verify_all cr cfg get_key calls s) ! j = Inr w"
  shows "snd (calls ! j) \<noteq> snd (calls ! i) \<and>
    (va_assertion w = va_assertion v \<longrightarrow>
       (\<exists>t. fst (calls ! j) = Reading t \<and> of_int (va_expires_at v + vc_tolerance cfg) \<le> t \<and>
         t < of_int (va_expires_at w + vc_tolerance cfg)))"
proof -
  have issuer: "va_issuer w = va_issuer v"
    using verify_all_proved [OF _ assms(4)] verify_all_proved [OF assms(3,5)] assms(2,3) by (auto simp: proved_by_def)
  have again: "\<exists>t. reading_time (fst (calls ! j)) = Some t \<and> of_int (va_expires_at v + vc_tolerance cfg) \<le> t \<and>
      t < of_int (va_expires_at w + vc_tolerance cfg)" if "va_assertion w = va_assertion v"
    using guard.accepted_again [of calls i j cr cfg get_key s v w] assms that issuer
    by (simp add: guard.forward_def verify_all_answers)
  have "snd (calls ! j) \<noteq> snd (calls ! i)"
  proof
    assume "snd (calls ! j) = snd (calls ! i)"
    with verify_all_proved [OF _ assms(4)] verify_all_proved [OF assms(3,5)] assms(2,3)
    have "va_assertion w = va_assertion v \<and> va_expires_at w = va_expires_at v"
      by (metis less_trans proved_by_functional)
    with again show False by auto
  qed
  moreover have "\<exists>t. fst (calls ! j) = Reading t \<and> of_int (va_expires_at v + vc_tolerance cfg) \<le> t \<and>
      t < of_int (va_expires_at w + vc_tolerance cfg)" if "va_assertion w = va_assertion v"
  proof -
    from again [OF that] obtain t where t: "reading_time (fst (calls ! j)) = Some t"
      "of_int (va_expires_at v + vc_tolerance cfg) \<le> t" "t < of_int (va_expires_at w + vc_tolerance cfg)" by blast
    from t(1) have "fst (calls ! j) = Reading t" by (cases "fst (calls ! j)") auto
    with t show ?thesis by blast
  qed  ultimately show ?thesis by blast
qed

lemma assertion_verified_once_witness:
  "ex_later_token \<noteq> ex_token \<and> (\<exists>t :: rat. Reading 1400 = Reading t \<and> 1320 \<le> t \<and> t < 1730)"
proof -
  have run: "fst (verify_all ex_crypto ex_cfg ex_keys [(Reading 1000, ex_token), (Reading 1400, ex_later_token)] (ex_guard, ())) =
      [Inr (ex_facts 990), Inr (ex_facts 1400)]"
    by (simp add: ex_verified)
  have "vc_tolerance ex_cfg = 30" "va_expires_at (ex_facts 990) = 1290" "va_expires_at (ex_facts 1400) = 1700"
      "va_assertion (ex_facts 1400) = va_assertion (ex_facts 990)"
    by (simp_all add: ex_cfg_def ex_facts_def)
  then show ?thesis
    using assertion_verified_once [where calls = "[(Reading 1000, ex_token), (Reading 1400, ex_later_token)]" and i = 0 and j = 1
        and cr = ex_crypto and cfg = ex_cfg and get_key = ex_keys and s = "(ex_guard, ())" and v = "ex_facts 990" and w = "ex_facts 1400"]
    by (simp add: run List.map_filter_simps del: verify_all.simps)
qed

text \<open>C11: A refused token changes nothing that matters: the caller learns one reason code, no assertion id is
  spent, and no spent id that is still live is forgotten. So nobody can burn another's assertion, or fill
  the guard, with tokens that do not verify.\<close>

theorem refusal_spends_nothing:
  assumes "make_verifier_config cfg = Inr cfg" "verify cr cfg get_key clk assertion (g, k) = (Inl e, g', k')"
  shows "(\<exists>reason. e = AssertionVerificationError reason) \<and>
    (\<forall>key until. fmlookup (rg_entries g') key = Some until \<longrightarrow> fmlookup (rg_entries g) key = Some until) \<and>
    (\<forall>key until. fmlookup (rg_entries g) key = Some until \<longrightarrow> fmlookup (rg_entries g') key = None \<longrightarrow>
       (\<exists>now. clk = Reading now \<and> until \<le> now))"
proof -
  from assms(2) have reason: "\<exists>reason. e = AssertionVerificationError reason"
    by (auto simp: verify_def sealed_def split: prod.splits sum.splits py_error.splits)
  have cfg: "vc_issuer cfg \<noteq> []" "vc_audience cfg \<noteq> []"
    using assms(1) by (auto simp: make_verifier_config_def split: if_splits)
  from verify_Inl [OF assms(2)] cfg consider "g' = g"
    | k now u x where "clk = Reading now" "check_and_record k u now g = (x, g')" "x \<noteq> Recorded" by blast
  note split = this
  have kept: "fmlookup (rg_entries g) key = Some until" if "fmlookup (rg_entries g') key = Some until"
    for key until
    using split that by cases (auto dest!: check_and_record_cases(2) simp: lookup_unexpired)
  have live: "\<exists>now. clk = Reading now \<and> until \<le> now"
    if "fmlookup (rg_entries g) key = Some until" "fmlookup (rg_entries g') key = None" for key until
    using split
  proof cases
    case (2 k now u x)
    have "\<not> now < until" using check_and_record_keeps [OF 2(2) that(1)] that(2) by auto
    with 2(1) show ?thesis by auto
  qed (use that in simp)
  show ?thesis by (intro conjI allI impI reason) (rule kept live, assumption+)+
qed

lemma refusal_spends_nothing_witness:
  "\<exists>reason. AssertionVerificationError ''REPLAYED'' = AssertionVerificationError reason"
  using refusal_spends_nothing [OF ex_cfg_ok ex_verified(3)] by blast

end
