(* ===== verification/Sessions.thy ===== *)
theory Sessions
  imports Identity_Assertion Authorization
begin

text \<open>
  The in-memory session store, \<^verbatim>\<open>backend/app/identity/session.py\<close>: the configuration, the store as a
  state, and its four operations, each one step under the lock. SHA-256 and the random source are
  parameters; the draw of a new handle repeats until its digest is free, so an operation that draws
  is optional, and \<open>None\<close> is that it never returns.
\<close>

section \<open>Configuration\<close>

definition DEFAULT_IDLE_TIMEOUT_SECONDS :: int where "DEFAULT_IDLE_TIMEOUT_SECONDS = 30 * 60"
definition DEFAULT_ABSOLUTE_LIFETIME_SECONDS :: int where "DEFAULT_ABSOLUTE_LIFETIME_SECONDS = 12 * 60 * 60"
definition MAX_IDLE_TIMEOUT_SECONDS :: int where "MAX_IDLE_TIMEOUT_SECONDS = 24 * 60 * 60"
definition MAX_ABSOLUTE_LIFETIME_SECONDS :: int where "MAX_ABSOLUTE_LIFETIME_SECONDS = 12 * 60 * 60"
definition MAX_AUTH_AGE_CEILING_SECONDS :: int where "MAX_AUTH_AGE_CEILING_SECONDS = 30 * 24 * 60 * 60"
definition MAX_SESSIONS_CEILING :: int where "MAX_SESSIONS_CEILING = 100000"
definition HANDLE_BYTES :: nat where "HANDLE_BYTES = 32"
definition SESSION_REF_BYTES :: nat where "SESSION_REF_BYTES = 16"
definition HANDLE_LENGTH :: nat where "HANDLE_LENGTH = 43"
definition HANDLE_ALPHABET :: string where
  "HANDLE_ALPHABET = ''ABCDEFGHIJKLMNOPQRSTUVWXYZabcdefghijklmnopqrstuvwxyz0123456789-_''"

record session_config =
  xc_max_auth_age :: int
  xc_max_sessions :: int
  xc_per_person :: int
  xc_idle :: int
  xc_absolute :: int

definition make_session_config :: "session_config \<Rightarrow> session_config res" where
  "make_session_config c =
    (if \<not> (0 < xc_max_auth_age c \<and> xc_max_auth_age c \<le> MAX_AUTH_AGE_CEILING_SECONDS) then Inl ConfigError
     else if \<not> (0 < xc_max_sessions c \<and> xc_max_sessions c \<le> MAX_SESSIONS_CEILING) then Inl ConfigError
     else if \<not> (0 < xc_per_person c \<and> xc_per_person c \<le> xc_max_sessions c) then Inl ConfigError
     else if \<not> (0 < xc_idle c \<and> xc_idle c \<le> MAX_IDLE_TIMEOUT_SECONDS) then Inl ConfigError
     else if \<not> (0 < xc_absolute c \<and> xc_absolute c \<le> MAX_ABSOLUTE_LIFETIME_SECONDS) then Inl ConfigError
     else Inr c)"

section \<open>The store\<close>

record session =
  se_digest :: string
  se_ref :: string
  se_verified :: verified_assertion
  se_person :: string
  se_role :: "actor_role option"
  se_created :: rat
  se_seen :: rat
  se_absolute :: rat
  se_fresh :: rat

record session_handle =
  sh_handle :: string
  sh_ref :: string
  sh_expires :: rat

text \<open>\<open>sm_draws\<close> counts the calls of the random source made so far.\<close>

record session_manager =
  sm_sessions :: "(string, session) fmap"
  sm_used :: "(string \<times> string) spent"
  sm_draws :: nat

definition empty_manager :: session_manager where
  "empty_manager = \<lparr>sm_sessions = fmempty, sm_used = fmempty, sm_draws = 0\<rparr>"

text \<open>\<open>en_token n bytes\<close> is what the \<open>n\<close>-th call of \<^verbatim>\<open>secrets.token_urlsafe\<close> returns.\<close>

record entropy =
  en_sha :: "string \<Rightarrow> string"
  en_token :: "nat \<Rightarrow> nat \<Rightarrow> string"

fun handle_digest :: "entropy \<Rightarrow> json \<Rightarrow> string option" where
  "handle_digest en (JStr h) =
    (if length h \<noteq> HANDLE_LENGTH \<or> \<not> set h \<subseteq> set HANDLE_ALPHABET then None else Some (en_sha en h))"
| "handle_digest en _ = None"

abbreviation refused :: "string \<Rightarrow> 'a res" where
  "refused reason \<equiv> Inl (SessionError reason)"

fun session_now :: "reading \<Rightarrow> rat res" where
  "session_now (Reading now) = (if 0 < now then Inr now else refused ''CLOCK_UNAVAILABLE'')"
| "session_now _ = refused ''CLOCK_UNAVAILABLE''"

definition is_live :: "session_config \<Rightarrow> session \<Rightarrow> rat \<Rightarrow> bool" where
  "is_live cfg s now \<longleftrightarrow> now < se_fresh s \<and> now < se_absolute s \<and> now - se_seen s < of_int (xc_idle cfg)"

definition purge :: "session_config \<Rightarrow> rat \<Rightarrow> session_manager \<Rightarrow> session_manager" where
  "purge cfg now m =
     m\<lparr>sm_sessions := fmfilter (\<lambda>k. case fmlookup (sm_sessions m) k of None \<Rightarrow> False | Some s \<Rightarrow> is_live cfg s now) (sm_sessions m),
       sm_used := unexpired now (sm_used m)\<rparr>"

definition drop_session :: "string \<Rightarrow> session_manager \<Rightarrow> session_manager" where
  "drop_session dg m = m\<lparr>sm_sessions := fmdrop dg (sm_sessions m)\<rparr>"

definition live_session ::
  "entropy \<Rightarrow> session_config \<Rightarrow> json \<Rightarrow> rat \<Rightarrow> session_manager \<Rightarrow> session res \<times> session_manager" where
  "live_session en cfg handle now m =
    (case Option.bind (handle_digest en handle) (fmlookup (sm_sessions m)) of
       None \<Rightarrow> (refused ''INVALID_SESSION'', m)
     | Some s \<Rightarrow>
        if \<not> is_live cfg s now then (refused ''INVALID_SESSION'', drop_session (se_digest s) m) else (Inr s, m))"

text \<open>The drawn handle, its digest, and the number of draws made by then.\<close>

partial_function (option) new_handle ::
  "entropy \<Rightarrow> (string, session) fmap \<Rightarrow> nat \<Rightarrow> (string \<times> string \<times> nat) option" where
  "new_handle en sessions n =
    (let handle = en_token en n HANDLE_BYTES in
     case handle_digest en (JStr handle) of
       None \<Rightarrow> new_handle en sessions (Suc n)
     | Some dg \<Rightarrow>
        if fmlookup sessions dg = None then Some (handle, dg, Suc n) else new_handle en sessions (Suc n))"

definition require_directory :: "scope_directory \<Rightarrow> directory res" where
  "require_directory d =
    (case d of Identity_Directory dir \<Rightarrow> Inr dir | Static_Directory _ \<Rightarrow> refused ''UNTRUSTED_DIRECTORY'')"

definition resolve ::
  "verified_assertion \<Rightarrow> directory \<Rightarrow> json \<Rightarrow> (string \<times> actor_role option) res" where
  "resolve v dir role =
    (case bind_res (person_for dir (va_identity v)) (\<lambda>p.
          if role = JNull then Inr (person_id p, None)
          else bind_res (dir_select_role dir p role) (\<lambda>a. Inr (person_id p, Some (ra_role a)))) of
       Inr x \<Rightarrow> Inr x
     | Inl (AssignmentError e) \<Rightarrow>
        refused (if e = INVALID_ROLE then ''INVALID_ROLE'' else if e = ROLE_NOT_ASSIGNED then ''ROLE_NOT_ASSIGNED''
                 else ''ACCESS_DENIED'')
     | Inl _ \<Rightarrow> refused ''ACCESS_DENIED'')"

section \<open>Operations\<close>

definition person_sessions :: "string \<Rightarrow> (string, session) fmap \<Rightarrow> nat" where
  "person_sessions pid sessions =
     fcard (ffilter (\<lambda>k. case fmlookup sessions k of None \<Rightarrow> False | Some s \<Rightarrow> se_person s = pid) (fmdom sessions))"

definition admit ::
  "session_config \<Rightarrow> verified_assertion \<Rightarrow> directory \<Rightarrow> json \<Rightarrow> rat \<Rightarrow> session_manager \<Rightarrow>
   (string \<times> actor_role option) res" where
  "admit cfg v dir role now m =
    (if of_int (va_expires_at v) \<le> now then refused ''ASSERTION_EXPIRED''
     else if of_int (xc_max_auth_age cfg) < now - of_int (va_auth_time v) then refused ''AUTH_TOO_OLD''
     else if fmlookup (sm_used m) (va_issuer v, va_assertion v) \<noteq> None then refused ''ASSERTION_ALREADY_USED''
     else bind_res (resolve v dir role) (\<lambda>(pid, r).
          if xc_max_sessions cfg \<le> int (fcard (fmdom (sm_sessions m))) then refused ''SESSION_STORE_FULL''
          else if xc_per_person cfg \<le> int (person_sessions pid (sm_sessions m)) then refused ''PERSON_SESSION_LIMIT''
          else Inr (pid, r)))"

definition open_session ::
  "entropy \<Rightarrow> session_config \<Rightarrow> verified_assertion \<Rightarrow> string \<times> actor_role option \<Rightarrow> rat \<Rightarrow> session_manager \<Rightarrow>
   (session_handle res \<times> session_manager) option" where
  "open_session en cfg v who now m =
     Option.bind (new_handle en (sm_sessions m) (sm_draws m)) (\<lambda>(handle, dg, n).
     let ref = en_token en n SESSION_REF_BYTES;
         absolute = min (now + of_int (xc_absolute cfg)) (of_int (va_auth_time v + xc_max_auth_age cfg));
         s = \<lparr>se_digest = dg, se_ref = ref, se_verified = v, se_person = fst who, se_role = snd who, se_created = now,
              se_seen = now, se_absolute = absolute, se_fresh = of_int (va_expires_at v)\<rparr> in
     Some (Inr \<lparr>sh_handle = handle, sh_ref = ref, sh_expires = min absolute (se_fresh s)\<rparr>,
           \<lparr>sm_sessions = fmupd dg s (sm_sessions m),
            sm_used = fmupd (va_issuer v, va_assertion v) (of_int (va_expires_at v)) (sm_used m),
            sm_draws = Suc n\<rparr>))"

text \<open>An argument that no verifier produced is \<open>None\<close>.\<close>

definition create_session ::
  "entropy \<Rightarrow> session_config \<Rightarrow> reading \<Rightarrow> verified_assertion option \<Rightarrow> scope_directory \<Rightarrow> json \<Rightarrow> session_manager \<Rightarrow>
   (session_handle res \<times> session_manager) option" where
  "create_session en cfg clk presented d role m =
    (case presented of
       None \<Rightarrow> Some (refused ''UNTRUSTED_ASSERTION'', m)
     | Some v \<Rightarrow>
        (case bind_res (require_directory d) (\<lambda>dir. bind_res (session_now clk) (\<lambda>now. Inr (dir, now))) of
           Inl e \<Rightarrow> Some (Inl e, m)
         | Inr (dir, now) \<Rightarrow>
            let m1 = purge cfg now m in
            case admit cfg v dir role now m1 of
              Inl e \<Rightarrow> Some (Inl e, m1)
            | Inr who \<Rightarrow> open_session en cfg v who now m1))"

text \<open>The stored role as the code hands it on: \<^verbatim>\<open>None\<close> or a role.\<close>

definition role_selector :: "actor_role option \<Rightarrow> json" where
  "role_selector r = (case r of None \<Rightarrow> JNull | Some x \<Rightarrow> JStr (role_value x))"

definition actor_for ::
  "entropy \<Rightarrow> session_config \<Rightarrow> reading \<Rightarrow> json \<Rightarrow> scope_directory \<Rightarrow> session_manager \<Rightarrow> actor res \<times> session_manager" where
  "actor_for en cfg clk handle d m =
    (case bind_res (require_directory d) (\<lambda>_. session_now clk) of
       Inl e \<Rightarrow> (Inl e, m)
     | Inr now \<Rightarrow>
        (case live_session en cfg handle now m of
           (Inl e, m1) \<Rightarrow> (Inl e, m1)
         | (Inr s, m1) \<Rightarrow>
            (case authenticated_actor (Verified (va_identity (se_verified s))) d (role_selector (se_role s)) of
               Inr a \<Rightarrow>
                 if actor_id a \<noteq> se_person s then (refused ''ACCESS_DENIED'', drop_session (se_digest s) m1)
                 else (Inr a, m1\<lparr>sm_sessions := fmupd (se_digest s) (s\<lparr>se_seen := now\<rparr>) (sm_sessions m1)\<rparr>)
             | Inl (AssignmentError e) \<Rightarrow>
                 (refused (if e = ROLE_SELECTION_REQUIRED then ''ROLE_SELECTION_REQUIRED'' else ''ACCESS_DENIED''), m1)
             | Inl (DirectoryError e) \<Rightarrow>
                 (refused ''ACCESS_DENIED'',
                  if e \<in> {IDENTITY_NOT_ENROLLED, PERSON_NOT_ENROLLED} then drop_session (se_digest s) m1 else m1)
             | Inl _ \<Rightarrow> (refused ''ACCESS_DENIED'', m1))))"

definition rotate ::
  "entropy \<Rightarrow> session \<Rightarrow> actor_role option \<Rightarrow> rat \<Rightarrow> session_manager \<Rightarrow> (session_handle res \<times> session_manager) option" where
  "rotate en s role now m =
     Option.bind (new_handle en (sm_sessions m) (sm_draws m)) (\<lambda>(handle, dg, n).
     let rotated = s\<lparr>se_digest := dg, se_role := role, se_seen := now\<rparr> in
     Some (Inr \<lparr>sh_handle = handle, sh_ref = se_ref rotated, sh_expires = min (se_absolute rotated) (se_fresh rotated)\<rparr>,
           m\<lparr>sm_sessions := fmupd dg rotated (fmdrop (se_digest s) (sm_sessions m)), sm_draws := n\<rparr>))"

definition set_role ::
  "entropy \<Rightarrow> session_config \<Rightarrow> reading \<Rightarrow> json \<Rightarrow> json \<Rightarrow> scope_directory \<Rightarrow> session_manager \<Rightarrow>
   (session_handle res \<times> session_manager) option" where
  "set_role en cfg clk handle role d m =
    (case bind_res (require_directory d) (\<lambda>dir.
          if role = JNull then refused ''INVALID_ROLE'' else bind_res (session_now clk) (\<lambda>now. Inr (dir, now))) of
       Inl e \<Rightarrow> Some (Inl e, m)
     | Inr (dir, now) \<Rightarrow>
        (case live_session en cfg handle now m of
           (Inl e, m1) \<Rightarrow> Some (Inl e, m1)
         | (Inr s, m1) \<Rightarrow>
            (case resolve (se_verified s) dir role of
               Inl e \<Rightarrow> Some (Inl e, if e = SessionError ''ACCESS_DENIED'' then drop_session (se_digest s) m1 else m1)
             | Inr (pid, selected) \<Rightarrow>
                 if pid \<noteq> se_person s then Some (refused ''ACCESS_DENIED'', drop_session (se_digest s) m1)
                 else rotate en s selected now m1)))"

definition logout :: "entropy \<Rightarrow> json \<Rightarrow> session_manager \<Rightarrow> session_manager" where
  "logout en handle m = (case handle_digest en handle of None \<Rightarrow> m | Some dg \<Rightarrow> drop_session dg m)"

end
