(* ===== verification/Session_Properties.thy ===== *)
theory Session_Properties
  imports Sessions Assertion_Properties Authorization_Properties
begin

text \<open>
  What the session store guarantees: it stays within its limits, an actor is derived from the current
  directory and a live session only, one assertion starts one session, a handle that was rotated or
  logged out is dead, and the draw of a handle ends.
\<close>

section \<open>Drawing a handle\<close>

lemma new_handle_Some:
  assumes "new_handle en ss n = Some r"
  shows "handle_digest en (JStr (fst r)) = Some (fst (snd r)) \<and> fmlookup ss (fst (snd r)) = None"
proof (rule new_handle.raw_induct [where P = "\<lambda>en ss n r.
    handle_digest en (JStr (fst r)) = Some (fst (snd r)) \<and> fmlookup ss (fst (snd r)) = None", OF _ assms])
  fix f en ss n r
  assume "\<And>en ss n r. f en ss n = Some r \<Longrightarrow>
      handle_digest en (JStr (fst r)) = Some (fst (snd r)) \<and> fmlookup ss (fst (snd r)) = None"
    and "(let handle = en_token en n HANDLE_BYTES in
      case handle_digest en (JStr handle) of None \<Rightarrow> f en ss (Suc n)
      | Some dg \<Rightarrow> if fmlookup ss dg = None then Some (handle, dg, Suc n) else f en ss (Suc n)) = Some r"
  then show "handle_digest en (JStr (fst r)) = Some (fst (snd r)) \<and> fmlookup ss (fst (snd r)) = None"
    by (auto simp: Let_def simp del: handle_digest.simps split: option.splits if_splits)
qed

lemma new_handle_returns:
  assumes "n \<le> m" "handle_digest en (JStr (en_token en m HANDLE_BYTES)) = Some dg" "fmlookup ss dg = None"
  shows "\<exists>r. new_handle en ss n = Some r"
  using assms
proof (induction n rule: inc_induct)
  case base
  then show ?case by (subst new_handle.simps) (simp add: Let_def del: handle_digest.simps)
next
  case (step n)
  from step.IH [OF step.prems] obtain r where "new_handle en ss (Suc n) = Some r" by blast
  then show ?case
    by (subst new_handle.simps) (cases r, auto simp: Let_def split: option.splits simp del: handle_digest.simps)
qed

section \<open>Counting sessions\<close>

definition counted :: "(session \<Rightarrow> bool) \<Rightarrow> (string, session) fmap \<Rightarrow> nat" where
  "counted P ss = card {k. \<exists>s. fmlookup ss k = Some s \<and> P s}"

lemma finite_counted [simp]: "finite {k. \<exists>s. fmlookup ss k = Some s \<and> P s}"
  by (rule finite_subset [of _ "fset (fmdom ss)"]) (auto intro: fmdomI)

lemma fcard_counted: "fcard (fmdom ss) = counted (\<lambda>_. True) ss"
  by (simp add: counted_def fcard.rep_eq) (rule arg_cong [where f = card], auto simp: fmlookup_dom_iff)

lemma person_sessions_counted: "person_sessions pid ss = counted (\<lambda>s. se_person s = pid) ss"
  unfolding person_sessions_def counted_def fcard.rep_eq
  by (rule arg_cong [where f = card]) (auto simp: fmlookup_dom_iff)

lemma counted_mono: "(\<And>k s. fmlookup ss' k = Some s \<Longrightarrow> fmlookup ss k = Some s) \<Longrightarrow> counted P ss' \<le> counted P ss"
  unfolding counted_def by (rule card_mono) auto

lemma counted_new:
  assumes "fmlookup ss dg = None"
  shows "counted P (fmupd dg s ss) = counted P ss + (if P s then 1 else 0)"
proof -
  have "{k. \<exists>x. fmlookup (fmupd dg s ss) k = Some x \<and> P x} =
      (if P s then insert dg {k. \<exists>x. fmlookup ss k = Some x \<and> P x} else {k. \<exists>x. fmlookup ss k = Some x \<and> P x})"
    using assms by auto
  then show ?thesis using assms by (simp add: counted_def)
qed

lemma counted_moved:
  assumes "fmlookup ss old = Some s" "fmlookup ss dg = None \<or> dg = old" "P s' = P s"
  shows "counted P (fmupd dg s' (fmdrop old ss)) = counted P ss"
proof -
  have "counted P (fmupd dg s' (fmdrop old ss)) = counted P (fmdrop old ss) + (if P s then 1 else 0)"
    using counted_new [of "fmdrop old ss" dg P s'] assms by auto
  also have "\<dots> = counted P (fmupd old s (fmdrop old ss))" using counted_new [of "fmdrop old ss" old P s] by simp
  also have "fmupd old s (fmdrop old ss) = ss" by (rule fmap_ext) (use assms(1) in auto)
  finally show ?thesis .
qed

section \<open>The invariant\<close>

definition assertion_key :: "verified_assertion \<Rightarrow> string \<times> string" where
  "assertion_key v = (va_issuer v, va_assertion v)"

text \<open>A stored session stands under its digest, ends with its assertion, and holds the only use of it.\<close>

definition session_ok :: "session_config \<Rightarrow> verified_assertion set \<Rightarrow> (string \<times> string) spent \<Rightarrow> string \<Rightarrow> session \<Rightarrow> bool" where
  "session_ok cfg vs used dg s \<longleftrightarrow> se_digest s = dg \<and> se_verified s \<in> vs \<and>
     se_fresh s = of_int (va_expires_at (se_verified s)) \<and>
     se_absolute s \<le> se_created s + of_int (xc_absolute cfg) \<and>
     se_absolute s \<le> of_int (va_auth_time (se_verified s) + xc_max_auth_age cfg) \<and>
     fmlookup used (assertion_key (se_verified s)) = Some (se_fresh s)"

definition store_ok :: "session_config \<Rightarrow> verified_assertion set \<Rightarrow> session_manager \<Rightarrow> bool" where
  "store_ok cfg vs m \<longleftrightarrow>
     (\<forall>dg s. fmlookup (sm_sessions m) dg = Some s \<longrightarrow> session_ok cfg vs (sm_used m) dg s) \<and>
     (\<forall>dg dg' s s'. fmlookup (sm_sessions m) dg = Some s \<longrightarrow> fmlookup (sm_sessions m) dg' = Some s' \<longrightarrow>
        assertion_key (se_verified s) = assertion_key (se_verified s') \<longrightarrow> dg = dg') \<and>
     int (counted (\<lambda>_. True) (sm_sessions m)) \<le> xc_max_sessions cfg \<and>
     (\<forall>pid. int (counted (\<lambda>s. se_person s = pid) (sm_sessions m)) \<le> xc_per_person cfg)"

lemma store_ok_mono: "store_ok cfg vs m \<Longrightarrow> vs \<subseteq> vs' \<Longrightarrow> store_ok cfg vs' m"
  unfolding store_ok_def session_ok_def by blast

text \<open>Taking sessions out, and keys no remaining session stands on, keeps the store in order.\<close>

lemma shrunk_ok:
  assumes "store_ok cfg vs m"
    and sub: "\<And>k s. fmlookup (sm_sessions m') k = Some s \<Longrightarrow> fmlookup (sm_sessions m) k = Some s"
    and used: "\<And>k s. fmlookup (sm_sessions m') k = Some s \<Longrightarrow> fmlookup (sm_used m) (assertion_key (se_verified s)) = Some (se_fresh s) \<Longrightarrow>
      fmlookup (sm_used m') (assertion_key (se_verified s)) = Some (se_fresh s)"
  shows "store_ok cfg vs m'"
proof -
  have "counted P (sm_sessions m') \<le> counted P (sm_sessions m)" for P by (rule counted_mono) (rule sub)
  then have "int (counted (\<lambda>_. True) (sm_sessions m')) \<le> xc_max_sessions cfg"
    "int (counted (\<lambda>s. se_person s = pid) (sm_sessions m')) \<le> xc_per_person cfg" for pid
    using assms(1) unfolding store_ok_def by (meson order_trans zle_int)+
  moreover have "session_ok cfg vs (sm_used m') k s" if "fmlookup (sm_sessions m') k = Some s" for k s
    using assms(1) sub [OF that] used [OF that] unfolding store_ok_def session_ok_def by blast
  moreover have "k = k'" if "fmlookup (sm_sessions m') k = Some s" "fmlookup (sm_sessions m') k' = Some s'"
      "assertion_key (se_verified s) = assertion_key (se_verified s')" for k k' s s'
    using assms(1) sub [OF that(1)] sub [OF that(2)] that(3) unfolding store_ok_def by blast
  ultimately show ?thesis unfolding store_ok_def by blast
qed

lemma purge_ok: "store_ok cfg vs m \<Longrightarrow> store_ok cfg vs (purge cfg now m)"
  by (rule shrunk_ok) (auto simp: purge_def is_live_def lookup_unexpired split: if_splits option.splits)

lemma drop_ok: "store_ok cfg vs m \<Longrightarrow> store_ok cfg vs (drop_session dg m)"
  by (rule shrunk_ok) (auto simp: drop_session_def split: if_splits)

lemma live_ok: "live_session en cfg h now m = (r, m') \<Longrightarrow> store_ok cfg vs m \<Longrightarrow> store_ok cfg vs m'"
  by (auto simp: live_session_def drop_ok split: option.splits if_splits)

lemma live_session_Inr:
  assumes "live_session en cfg h now m = (Inr s, m')"
  shows "m' = m \<and> (\<exists>dg. handle_digest en h = Some dg \<and> fmlookup (sm_sessions m) dg = Some s) \<and> is_live cfg s now"
  using assms by (auto simp: live_session_def split: option.splits if_splits bind_splits)

lemma moved_ok:
  assumes ok: "store_ok cfg vs m" and old: "fmlookup (sm_sessions m) old = Some s"
    and dg: "fmlookup (sm_sessions m) dg = None \<or> dg = old" and s': "se_digest s' = dg" "se_verified s' = se_verified s"
      "se_fresh s' = se_fresh s" "se_absolute s' = se_absolute s" "se_created s' = se_created s" "se_person s' = se_person s"
  shows "store_ok cfg vs (m\<lparr>sm_sessions := fmupd dg s' (fmdrop old (sm_sessions m)), sm_draws := n\<rparr>)"
proof -
  let ?ss = "fmupd dg s' (fmdrop old (sm_sessions m))"
  let ?m = "m\<lparr>sm_sessions := ?ss, sm_draws := n\<rparr>"
  have at: "fmlookup ?ss k = Some x \<Longrightarrow> (k = dg \<and> x = s') \<or> (k \<noteq> dg \<and> k \<noteq> old \<and> fmlookup (sm_sessions m) k = Some x)" for k x
    by (auto split: if_splits)
  have good: "session_ok cfg vs (sm_used m) k x" if "fmlookup ?ss k = Some x" for k x
    using at [OF that] ok old s' by (auto simp: store_ok_def session_ok_def)
  have one: "k = k'" if "fmlookup ?ss k = Some x" "fmlookup ?ss k' = Some x'"
      "assertion_key (se_verified x) = assertion_key (se_verified x')" for k k' x x'
    using at [OF that(1)] at [OF that(2)] ok old s'(2) that(3) unfolding store_ok_def by metis
  have "counted (\<lambda>_. True) ?ss = counted (\<lambda>_. True) (sm_sessions m)"
    "counted (\<lambda>x. se_person x = pid) ?ss = counted (\<lambda>x. se_person x = pid) (sm_sessions m)" for pid
    using counted_moved [OF old dg] s'(6) by auto
  with ok have sizes: "int (counted (\<lambda>_. True) ?ss) \<le> xc_max_sessions cfg"
    "int (counted (\<lambda>s. se_person s = pid) ?ss) \<le> xc_per_person cfg" for pid
    unfolding store_ok_def by metis+
  have m: "sm_sessions ?m = ?ss" "sm_used ?m = sm_used m" by simp_all
  show ?thesis unfolding store_ok_def m using good one sizes by blast
qed

section \<open>The operations keep the store in order\<close>

lemma opened_ok:
  assumes ok: "store_ok cfg vs m" and adm: "admit cfg v dir role now m = Inr who"
    and opn: "open_session en cfg v who now m = Some (r, m')"
  shows "store_ok cfg (insert v vs) m'"
    "fmlookup (sm_used m') (assertion_key v) = Some (of_int (va_expires_at v))"
    "fmlookup (sm_used m) (assertion_key v) = None" "now < of_int (va_expires_at v)" "\<exists>h. r = Inr h"
    "fmlookup (sm_used m) k = Some u \<Longrightarrow> fmlookup (sm_used m') k = Some u"
proof -
  from opn obtain h dg n where new: "new_handle en (sm_sessions m) (sm_draws m) = Some (h, dg, n)"
    by (auto simp: open_session_def bind_eq_Some_conv)
  define s where "s = \<lparr>se_digest = dg, se_ref = en_token en n SESSION_REF_BYTES, se_verified = v, se_person = fst who,
      se_role = snd who, se_created = now, se_seen = now,
      se_absolute = min (now + of_int (xc_absolute cfg)) (of_int (va_auth_time v + xc_max_auth_age cfg)),
      se_fresh = of_int (va_expires_at v)\<rparr>"
  have s: "se_digest s = dg" "se_verified s = v" "se_fresh s = of_int (va_expires_at v)" "se_person s = fst who"
      "se_created s = now" "se_absolute s = min (now + of_int (xc_absolute cfg)) (of_int (va_auth_time v + xc_max_auth_age cfg))"
    by (simp_all add: s_def)
  have m': "sm_sessions m' = fmupd dg s (sm_sessions m)"
      "sm_used m' = fmupd (assertion_key v) (of_int (va_expires_at v)) (sm_used m)" and r: "\<exists>h. r = Inr h"
    using opn new by (auto simp: open_session_def Let_def assertion_key_def s_def)
  from adm have fresh: "fmlookup (sm_used m) (assertion_key v) = None" "now < of_int (va_expires_at v)"
    and room: "int (counted (\<lambda>_. True) (sm_sessions m)) < xc_max_sessions cfg"
      "int (counted (\<lambda>s. se_person s = fst who) (sm_sessions m)) < xc_per_person cfg"
    by (auto simp: admit_def assertion_key_def bind_res_Inr_iff fcard_counted person_sessions_counted not_le split: if_splits)
  from new_handle_Some [OF new] have dg: "fmlookup (sm_sessions m) dg = None" by simp
  note old = ok [unfolded store_ok_def]
  have at: "(k = dg \<and> x = s) \<or> fmlookup (sm_sessions m) k = Some x" if "fmlookup (sm_sessions m') k = Some x" for k x
    using that unfolding m' by (auto split: if_splits)
  have keys: "assertion_key (se_verified x) \<noteq> assertion_key v" if "fmlookup (sm_sessions m) k = Some x" for k x
    using old that fresh(1) unfolding session_ok_def by force
  have good: "session_ok cfg (insert v vs) (sm_used m') k x" if "fmlookup (sm_sessions m') k = Some x" for k x
    using at [OF that]
  proof
    assume "k = dg \<and> x = s"
    then show ?thesis using s unfolding session_ok_def m' by simp
  next
    assume x: "fmlookup (sm_sessions m) k = Some x"
    then have "session_ok cfg vs (sm_used m) k x" using old by blast
    with keys [OF x] show ?thesis unfolding session_ok_def m' by auto
  qed
  have one: "k = k'" if "fmlookup (sm_sessions m') k = Some x" "fmlookup (sm_sessions m') k' = Some x'"
      "assertion_key (se_verified x) = assertion_key (se_verified x')" for k k' x x'
    using at [OF that(1)] at [OF that(2)] old s(2) that(3) keys by metis
  have sizes: "int (counted (\<lambda>_. True) (sm_sessions m')) \<le> xc_max_sessions cfg"
    "int (counted (\<lambda>s. se_person s = pid) (sm_sessions m')) \<le> xc_per_person cfg" for pid
    using old room s(4) unfolding m' by (auto simp: counted_new [OF dg])
  show "store_ok cfg (insert v vs) m'" unfolding store_ok_def using good one sizes by blast
  show "fmlookup (sm_used m') (assertion_key v) = Some (of_int (va_expires_at v))" unfolding m' by simp
  show "fmlookup (sm_used m) (assertion_key v) = None" "now < of_int (va_expires_at v)" "\<exists>h. r = Inr h" by fact+
  show "fmlookup (sm_used m') k = Some u" if "fmlookup (sm_used m) k = Some u"
    using that fresh(1) unfolding m' by auto
qed

lemma create_cases:
  assumes "create_session en cfg clk pv d role m = Some (r, m')"
  obtains "m' = m" "\<nexists>h. r = Inr h"
    | now where "clk = Reading now" "m' = purge cfg now m" "\<nexists>h. r = Inr h"
    | v dir now who where "pv = Some v" "d = Identity_Directory dir" "clk = Reading now"
      "admit cfg v dir role now (purge cfg now m) = Inr who" "open_session en cfg v who now (purge cfg now m) = Some (r, m')"
proof -
  show thesis
  proof (cases pv)
    case None
    then show thesis using assms that(1) by (auto simp: create_session_def)
  next
    case (Some v)
    show thesis
    proof (cases "bind_res (require_directory d) (\<lambda>dir. bind_res (session_now clk) (\<lambda>now. Inr (dir, now)))")
      case (Inl e)
      then show thesis using assms that(1) Some by (auto simp: create_session_def)
    next
      case (Inr x)
      obtain dir now where x: "x = (dir, now)" by force
      from Inr x have d: "d = Identity_Directory dir" "clk = Reading now"
        by (auto simp: bind_res_Inr_iff require_directory_def split: scope_directory.splits)
          (cases clk; auto split: if_splits)
      show thesis
      proof (cases "admit cfg v dir role now (purge cfg now m)")
        case (Inl e)
        then show thesis using assms Some Inr x d that(2) by (auto simp: create_session_def Let_def \<open>bind_res _ _ = Inr x\<close>)
      next
        case who: (Inr who)
        then show thesis using assms Some Inr x d that(3) [OF Some d(1,2) who]
          by (auto simp: create_session_def Let_def \<open>bind_res _ _ = Inr x\<close>)
      qed
    qed
  qed
qed

lemma upd_again: "fmupd dg x (fmdrop dg ss) = fmupd dg x ss"
  by (rule fmap_ext) simp

lemma seen_ok:
  assumes "store_ok cfg vs m" "fmlookup (sm_sessions m) dg = Some s" "se_digest s = dg"
  shows "store_ok cfg vs (m\<lparr>sm_sessions := fmupd dg (s\<lparr>se_seen := now\<rparr>) (sm_sessions m)\<rparr>)"
  using moved_ok [OF assms(1,2), of dg "s\<lparr>se_seen := now\<rparr>" "sm_draws m"] assms(3) by (simp add: upd_again)

lemma stored_digest: "store_ok cfg vs m \<Longrightarrow> fmlookup (sm_sessions m) dg = Some s \<Longrightarrow> se_digest s = dg"
  unfolding store_ok_def session_ok_def by blast

lemma actor_for_cases:
  assumes "actor_for en cfg clk h d m = (r, m')"
  obtains "m' = m" "\<nexists>a. r = Inr a"
    | dg where "m' = drop_session dg m" "\<nexists>a. r = Inr a"
    | now dg s a where "clk = Reading now" "handle_digest en h = Some dg" "fmlookup (sm_sessions m) dg = Some s"
      "is_live cfg s now" "r = Inr a" "actor_id a = se_person s"
      "authenticated_actor (Verified (va_identity (se_verified s))) d (role_selector (se_role s)) = Inr a"
      "m' = m\<lparr>sm_sessions := fmupd (se_digest s) (s\<lparr>se_seen := now\<rparr>) (sm_sessions m)\<rparr>"
proof (cases "bind_res (require_directory d) (\<lambda>_. session_now clk)")
  case (Inl e)
  then show thesis using assms that(1) by (auto simp: actor_for_def)
next
  case now: (Inr now)
  then have clk: "clk = Reading now" by (cases clk) (auto simp: bind_res_Inr_iff split: if_splits)
  obtain x m1 where live: "live_session en cfg h now m = (x, m1)" by force
  show thesis
  proof (cases x)
    case (Inl e)
    with live have "m1 = m \<or> (\<exists>dg. m1 = drop_session dg m)"
      by (auto simp: live_session_def split: option.splits if_splits)
    with assms now live Inl that(1,2) show thesis by (auto simp: actor_for_def)
  next
    case (Inr s)
    with live_session_Inr live obtain dg where s: "m1 = m" "handle_digest en h = Some dg"
      "fmlookup (sm_sessions m) dg = Some s" "is_live cfg s now" by metis
    show thesis
    proof (cases "authenticated_actor (Verified (va_identity (se_verified s))) d (role_selector (se_role s))")
      case (Inl e)
      with assms now live Inr s(1) have "(m' = m \<or> m' = drop_session (se_digest s) m) \<and> (\<nexists>a. r = Inr a)"
        by (cases e) (auto simp: actor_for_def split: if_splits)
      with that(1,2) show thesis by blast
    next
      case a: (Inr a)
      show thesis
      proof (cases "actor_id a = se_person s")
        case True
        with assms now live Inr s(1) a have "r = Inr a"
          "m' = m\<lparr>sm_sessions := fmupd (se_digest s) (s\<lparr>se_seen := now\<rparr>) (sm_sessions m)\<rparr>"
          by (auto simp: actor_for_def)
        with that(3) [OF clk s(2-4) _ True a] show thesis by blast
      next
        case False
        with assms now live Inr s(1) a that(2) show thesis by (auto simp: actor_for_def)
      qed
    qed
  qed
qed

lemma set_role_cases:
  assumes "set_role en cfg clk h role d m = Some (r, m')"
  obtains "m' = m" "\<nexists>x. r = Inr x"
    | dg where "m' = drop_session dg m" "\<nexists>x. r = Inr x"
    | now dg s sel where "clk = Reading now" "handle_digest en h = Some dg" "fmlookup (sm_sessions m) dg = Some s"
      "is_live cfg s now" "rotate en s sel now m = Some (r, m')"
proof (cases "bind_res (require_directory d) (\<lambda>dir.
    if role = JNull then refused ''INVALID_ROLE'' else bind_res (session_now clk) (\<lambda>now. Inr (dir, now)))")
  case (Inl e)
  then show thesis using assms that(1) by (auto simp: set_role_def)
next
  case x: (Inr x)
  obtain dir now where dn: "x = (dir, now)" by force
  with x have clk: "clk = Reading now" by (cases clk) (auto simp: bind_res_Inr_iff split: if_splits)
  obtain y m1 where live: "live_session en cfg h now m = (y, m1)" by force
  show thesis
  proof (cases y)
    case (Inl e)
    with live have "m1 = m \<or> (\<exists>dg. m1 = drop_session dg m)"
      by (auto simp: live_session_def split: option.splits if_splits)
    with assms x dn live Inl that(1,2) show thesis by (auto simp: set_role_def)
  next
    case (Inr s)
    with live_session_Inr live obtain dg where s: "m1 = m" "handle_digest en h = Some dg"
      "fmlookup (sm_sessions m) dg = Some s" "is_live cfg s now" by metis
    show thesis
    proof (cases "resolve (se_verified s) dir role")
      case (Inl e)
      with assms x dn live Inr s(1) that(1,2) show thesis by (auto simp: set_role_def split: if_splits)
    next
      case who: (Inr who)
      obtain pid sel where "who = (pid, sel)" by force
      with assms x dn live Inr s that who show thesis
        by (cases "pid = se_person s") (auto simp: set_role_def intro: that(3) [OF clk s(2-4)])
    qed
  qed
qed

lemma rotated:
  assumes ok: "store_ok cfg vs m" and old: "fmlookup (sm_sessions m) old = Some s"
    and rot: "rotate en s sel now m = Some (r, m')"
  shows "store_ok cfg vs m'" "fmlookup (sm_sessions m') old = None" "sm_used m' = sm_used m"
    "\<exists>hd dg. r = Inr hd \<and> handle_digest en (JStr (sh_handle hd)) = Some dg \<and>
       fmlookup (sm_sessions m') dg = Some (s\<lparr>se_digest := dg, se_role := sel, se_seen := now\<rparr>)"
proof -
  from rot obtain h dg n where new: "new_handle en (sm_sessions m) (sm_draws m) = Some (h, dg, n)"
    by (auto simp: rotate_def bind_eq_Some_conv)
  note dg = new_handle_Some [OF new]
  let ?s = "s\<lparr>se_digest := dg, se_role := sel, se_seen := now\<rparr>"
  from rot new stored_digest [OF ok old]
  have m': "m' = m\<lparr>sm_sessions := fmupd dg ?s (fmdrop old (sm_sessions m)), sm_draws := n\<rparr>"
    and r: "\<exists>hd. r = Inr hd \<and> sh_handle hd = h"
    by (auto simp: rotate_def Let_def)
  show "store_ok cfg vs m'" unfolding m' using dg by (intro moved_ok [OF ok old]) simp_all
  show "fmlookup (sm_sessions m') old = None" unfolding m' using dg old by auto
  show "sm_used m' = sm_used m" unfolding m' by simp
  show "\<exists>hd dg. r = Inr hd \<and> handle_digest en (JStr (sh_handle hd)) = Some dg \<and>
       fmlookup (sm_sessions m') dg = Some (s\<lparr>se_digest := dg, se_role := sel, se_seen := now\<rparr>)"
    using r dg unfolding m' by (auto simp del: handle_digest.simps)
qed

section \<open>Runs\<close>

datatype session_call =
    Create_Session reading "verified_assertion option" scope_directory json
  | Actor_For reading json scope_directory
  | Set_Role reading json json scope_directory
  | Log_Out json

datatype session_answer = Handed session_handle | Acting actor | Refused py_error | Logged_Out

definition handed :: "session_handle res \<Rightarrow> session_answer" where
  "handed r = (case r of Inr h \<Rightarrow> Handed h | Inl e \<Rightarrow> Refused e)"

fun session_step ::
  "entropy \<Rightarrow> session_config \<Rightarrow> session_call \<Rightarrow> session_manager \<Rightarrow> (session_answer \<times> session_manager) option" where
  "session_step en cfg (Create_Session clk v d role) m =
     map_option (map_prod handed id) (create_session en cfg clk v d role m)"
| "session_step en cfg (Actor_For clk h d) m =
     Some (map_prod (\<lambda>r. case r of Inr a \<Rightarrow> Acting a | Inl e \<Rightarrow> Refused e) id (actor_for en cfg clk h d m))"
| "session_step en cfg (Set_Role clk h role d) m = map_option (map_prod handed id) (set_role en cfg clk h role d m)"
| "session_step en cfg (Log_Out h) m = Some (Logged_Out, logout en h m)"

fun presented_to :: "session_call \<Rightarrow> verified_assertion set" where
  "presented_to (Create_Session clk v d role) = set_option v"
| "presented_to _ = {}"

text \<open>A store reached by calls that have returned, with the assertions they were given.\<close>

inductive session_reach :: "entropy \<Rightarrow> session_config \<Rightarrow> verified_assertion set \<Rightarrow> session_manager \<Rightarrow> bool" for en cfg where
  start: "session_reach en cfg {} empty_manager"
| step: "session_reach en cfg vs m \<Longrightarrow> session_step en cfg c m = Some (x, m') \<Longrightarrow>
    session_reach en cfg (presented_to c \<union> vs) m'"

lemma step_ok:
  assumes ok: "store_ok cfg vs m" and st: "session_step en cfg c m = Some (x, m')"
  shows "store_ok cfg (presented_to c \<union> vs) m'"
proof (cases c)
  case (Create_Session clk v d role)
  then obtain r where "create_session en cfg clk v d role m = Some (r, m')" using st by auto
  then show ?thesis
  proof (cases rule: create_cases)
    case 1
    then show ?thesis using store_ok_mono [OF ok] by blast
  next
    case (2 now)
    then show ?thesis using store_ok_mono [OF purge_ok [OF ok]] by blast
  next
    case (3 w dir now who)
    from opened_ok(1) [OF purge_ok [OF ok] 3(4,5)] 3(1) Create_Session show ?thesis by simp
  qed
next
  case (Actor_For clk h d)
  then obtain r where "actor_for en cfg clk h d m = (r, m')" using st by (auto simp: map_prod_def split: prod.splits)
  then have "store_ok cfg vs m'"
    by (cases rule: actor_for_cases) (auto intro: ok drop_ok [OF ok] seen_ok [OF ok] dest: stored_digest [OF ok])
  then show ?thesis using Actor_For by simp
next
  case (Set_Role clk h role d)
  then obtain r where "set_role en cfg clk h role d m = Some (r, m')" using st by auto
  then have "store_ok cfg vs m'"
    by (cases rule: set_role_cases) (auto intro: ok drop_ok [OF ok] rotated(1) [OF ok])
  then show ?thesis using Set_Role by simp
next
  case (Log_Out h)
  with st have "m' = logout en h m" by simp
  then have "store_ok cfg vs m'" by (auto simp: logout_def ok drop_ok [OF ok] split: option.splits)
  then show ?thesis using Log_Out by simp
qed

lemma reach_ok:
  assumes "session_reach en cfg vs m" "0 \<le> xc_max_sessions cfg" "0 \<le> xc_per_person cfg"
  shows "store_ok cfg vs m"
  using assms(1)
proof induction
  case start
  show ?case using assms(2,3) by (simp add: store_ok_def empty_manager_def counted_def)
qed (rule step_ok)

section \<open>Sessions as uses of assertions\<close>

text \<open>The session a call began, if it did; a call that never returns begins none.\<close>

definition starting :: "entropy \<Rightarrow> session_config \<Rightarrow> session_call \<Rightarrow> session_manager \<Rightarrow> verified_assertion option \<times> session_manager" where
  "starting en cfg c m =
    (case session_step en cfg c m of
       None \<Rightarrow> (None, m)
     | Some (x, m') \<Rightarrow> (case (c, x) of (Create_Session _ v _ _, Handed _) \<Rightarrow> v | _ \<Rightarrow> None, m'))"

fun call_time :: "session_call \<Rightarrow> rat option" where
  "call_time (Create_Session clk v d role) = reading_time clk"
| "call_time _ = None"

fun sessions_started :: "entropy \<Rightarrow> session_config \<Rightarrow> session_call list \<Rightarrow> session_manager \<Rightarrow> verified_assertion option list" where
  "sessions_started en cfg [] m = []"
| "sessions_started en cfg (c # cs) m = (case starting en cfg c m of (v, m') \<Rightarrow> v # sessions_started en cfg cs m')"

lemma other_calls_keep:
  assumes "session_step en cfg c m = Some (x, m')" "\<And>clk v d role. c \<noteq> Create_Session clk v d role"
  shows "sm_used m' = sm_used m"
proof (cases c)
  case (Actor_For clk h d)
  then obtain r where "actor_for en cfg clk h d m = (r, m')" using assms(1) by (auto simp: map_prod_def split: prod.splits)
  then show ?thesis by (cases rule: actor_for_cases) (auto simp: drop_session_def)
next
  case (Set_Role clk h role d)
  then obtain r where "set_role en cfg clk h role d m = Some (r, m')" using assms(1) by auto
  then show ?thesis
    by (cases rule: set_role_cases) (auto simp: drop_session_def rotate_def Let_def bind_eq_Some_conv)
next
  case (Log_Out h)
  then show ?thesis using assms(1) by (auto simp: logout_def drop_session_def split: option.splits)
qed (use assms(2) in blast)

lemma opened_used:
  assumes "admit cfg v dir role now m = Inr who" "open_session en cfg v who now m = Some (r, m')"
  shows "fmlookup (sm_used m) (assertion_key v) = None" "now < of_int (va_expires_at v)"
    "sm_used m' = fmupd (assertion_key v) (of_int (va_expires_at v)) (sm_used m)" "\<exists>h. r = Inr h"
  using assms
  by (auto simp: admit_def open_session_def Let_def assertion_key_def bind_eq_Some_conv bind_res_Inr_iff not_le
      split: if_splits)

interpretation assertions: spend_once sm_used "starting en cfg" call_time assertion_key "\<lambda>v. of_int (va_expires_at v)"
  for en cfg
proof (unfold_locales, goal_cases)
  case (1 c m x m' k u)
  show ?case
  proof (cases "session_step en cfg c m")
    case None
    with 1 show ?thesis by (simp add: starting_def)
  next
    case (Some y)
    obtain ans where st: "session_step en cfg c m = Some (ans, m')" using 1(1) Some
      by (cases y) (auto simp: starting_def)
    show ?thesis
    proof (cases c)
      case (Create_Session clk v d role)
      then obtain r where "create_session en cfg clk v d role m = Some (r, m')" using st by auto
      then show ?thesis
      proof (cases rule: create_cases)
        case (2 now)
        with 1(2,3) Create_Session show ?thesis by (auto simp: purge_def lookup_unexpired)
      next
        case (3 w dir now who)
        have "fmlookup (sm_used (purge cfg now m)) k = Some u"
          using 1(2,3) Create_Session 3(3) by (auto simp: purge_def lookup_unexpired)
        with opened_used [OF 3(4,5)] show ?thesis by auto
      qed (use 1(2) in simp)
    qed (use other_calls_keep [OF st] 1(2) in auto)
  qed
next
  case (2 c m v m')
  then obtain clk w d role h where c: "c = Create_Session clk w d role" "w = Some v"
      and st: "session_step en cfg c m = Some (Handed h, m')"
    by (auto simp: starting_def split: option.splits prod.splits session_call.splits session_answer.splits)
  then obtain r where r: "create_session en cfg clk w d role m = Some (r, m')" "handed r = Handed h" by auto
  then have "\<exists>x. r = Inr x" by (auto simp: handed_def split: sum.splits)
  from r(1) show ?case
  proof (cases rule: create_cases)
    case (3 u dir now who)
    from 3(1) c(2) have [simp]: "u = v" by simp
    note use = opened_used [OF 3(4,5)]
    have "t \<le> now" if "fmlookup (sm_used m) (assertion_key v) = Some t" for t
    proof (rule ccontr)
      assume "\<not> t \<le> now"
      with that have "fmlookup (unexpired now (sm_used m)) (assertion_key v) = Some t"
        by (simp add: lookup_unexpired)
      with use(1) show False by (simp add: purge_def)
    qed
    with use 3(3) c(1) show ?thesis by auto
  qed (use \<open>\<exists>x. r = Inr x\<close> in auto)
qed

lemma started_answers: "assertions.answers en cfg cs m = sessions_started en cfg cs m"
  by (induction cs arbitrary: m) (auto split: prod.splits)

section \<open>A session at work\<close>

text \<open>A random source that repeats one character, another at each draw, and the identity as digest.\<close>

definition ex_entropy :: entropy where
  "ex_entropy = \<lparr>en_sha = (\<lambda>s. s), en_token = (\<lambda>n b. replicate 43 (HANDLE_ALPHABET ! n))\<rparr>"

definition ex_session_cfg :: session_config where
  "ex_session_cfg = \<lparr>xc_max_auth_age = 86400, xc_max_sessions = 10, xc_per_person = 2, xc_idle = 1800, xc_absolute = 43200\<rparr>"

definition ex_signed_in :: "int \<Rightarrow> verified_assertion" where
  "ex_signed_in iat = (ex_facts iat)\<lparr>va_identity := \<lparr>ext_provider = ''novaforge'', ext_subject = ''u1''\<rparr>\<rparr>"

definition ex_session :: session where
  "ex_session = \<lparr>se_digest = replicate 43 (CHR ''A''), se_ref = replicate 43 (CHR ''B''), se_verified = ex_signed_in 990,
     se_person = ''P-7'', se_role = Some WORKER, se_created = 1000, se_seen = 1000, se_absolute = 44200, se_fresh = 1290\<rparr>"

definition ex_manager :: session_manager where
  "ex_manager = \<lparr>sm_sessions = fmupd (replicate 43 (CHR ''A'')) ex_session fmempty,
     sm_used = fmupd (''https://nf.example'', ''a1'') 1290 fmempty, sm_draws = 2\<rparr>"

lemma ex_session_cfg_ok: "make_session_config ex_session_cfg = Inr ex_session_cfg"
  by code_simp

lemma ex_drawn:
  "new_handle ex_entropy fmempty 0 = Some (replicate 43 (CHR ''A''), replicate 43 (CHR ''A''), 1)"
  "new_handle ex_entropy (fmupd (replicate 43 (CHR ''A'')) s fmempty) 2 = Some (replicate 43 (CHR ''C''), replicate 43 (CHR ''C''), 3)"
  by (subst new_handle.simps, simp add: ex_entropy_def HANDLE_LENGTH_def HANDLE_ALPHABET_def Let_def numeral_eq_Suc del: replicate_Suc)+

lemma ex_resolved: "resolve (ex_signed_in iat) ex_directory (JStr ''WORKER'') = Inr (''P-7'', Some WORKER)"
proof -
  have "person_for ex_directory \<lparr>ext_provider = ''novaforge'', ext_subject = ''u1''\<rparr> = Inr ex_person"
      "check_enrolled ex_directory ex_person = Inr ex_person"
    using directory_person(1) [OF ex_directory_built, of "''P-7''" ex_person]
      directory_person(2) [OF ex_directory_built, of "(''novaforge'', ''u1'')" ex_person]
    by (simp_all add: person_for_def check_enrolled_def enrolled_person_def bind_res_Inr_iff identity_key_def ex_person_def)
  moreover have "select_role ex_person (dir_roles ex_directory) (JStr (role_value WORKER)) =
      Inr \<lparr>ra_person = person_id ex_person, ra_role = WORKER\<rparr>"
    using directory_roles [OF ex_directory_built]
    by (intro select_role_held) (simp_all add: ex_roles_def ex_person_def HUMAN_ROLES_def)
  ultimately show ?thesis by (simp add: resolve_def ex_signed_in_def dir_select_role_def ex_person_def)
qed

lemma ex_created:
  "create_session ex_entropy ex_session_cfg (Reading 1000) (Some (ex_signed_in 990)) (Identity_Directory ex_directory)
     (JStr ''WORKER'') empty_manager =
   Some (Inr \<lparr>sh_handle = replicate 43 (CHR ''A''), sh_ref = replicate 43 (CHR ''B''), sh_expires = 1290\<rparr>, ex_manager)"
proof -
  have p: "purge ex_session_cfg 1000 empty_manager = empty_manager"
    by (simp add: purge_def empty_manager_def unexpired_def)
  have a: "admit ex_session_cfg (ex_signed_in 990) ex_directory (JStr ''WORKER'') 1000 empty_manager = Inr (''P-7'', Some WORKER)"
    by (simp add: admit_def ex_resolved empty_manager_def person_sessions_counted counted_def)
      (simp add: fcard.rep_eq ex_signed_in_def ex_facts_def ex_session_cfg_def)
  show ?thesis
    by (simp add: create_session_def require_directory_def p a Let_def open_session_def)
      (simp add: empty_manager_def ex_drawn ex_manager_def ex_session_def ex_session_cfg_def ex_signed_in_def ex_facts_def,
       simp add: ex_entropy_def HANDLE_ALPHABET_def)
qed

lemma ex_created_again:
  "\<exists>h m'. create_session ex_entropy ex_session_cfg (Reading 1400) (Some (ex_signed_in 1400)) (Identity_Directory ex_directory)
     (JStr ''WORKER'') ex_manager = Some (Inr h, m')"
proof -
  have p: "purge ex_session_cfg 1400 ex_manager = \<lparr>sm_sessions = fmempty, sm_used = fmempty, sm_draws = 2\<rparr>"
    by (simp add: purge_def ex_manager_def unexpired_def is_live_def ex_session_def)
  have a: "admit ex_session_cfg (ex_signed_in 1400) ex_directory (JStr ''WORKER'') 1400 \<lparr>sm_sessions = fmempty, sm_used = fmempty, sm_draws = 2\<rparr> =
      Inr (''P-7'', Some WORKER)"
    by (simp add: admit_def ex_resolved person_sessions_counted counted_def)
      (simp add: fcard.rep_eq ex_signed_in_def ex_facts_def ex_session_cfg_def)
  have "new_handle ex_entropy fmempty 2 = Some (replicate 43 (CHR ''C''), replicate 43 (CHR ''C''), 3)"
    by (subst new_handle.simps)
      (simp add: ex_entropy_def HANDLE_LENGTH_def HANDLE_ALPHABET_def Let_def numeral_eq_Suc del: replicate_Suc)
  then show ?thesis
    by (simp add: create_session_def require_directory_def p a Let_def open_session_def)
qed

lemma ex_reached: "session_reach ex_entropy ex_session_cfg {ex_signed_in 990} ex_manager"
  using session_reach.step [OF session_reach.start, of ex_entropy ex_session_cfg
      "Create_Session (Reading 1000) (Some (ex_signed_in 990)) (Identity_Directory ex_directory) (JStr ''WORKER'')"]
  by (simp add: ex_created)

lemma ex_handle: "handle_digest ex_entropy (JStr (replicate 43 (CHR ''A''))) = Some (replicate 43 (CHR ''A''))"
  by (simp add: ex_entropy_def HANDLE_LENGTH_def HANDLE_ALPHABET_def del: replicate_Suc)

lemma ex_live: "live_session ex_entropy ex_session_cfg (JStr (replicate 43 (CHR ''A''))) 1100 ex_manager = (Inr ex_session, ex_manager)"
proof -
  have "is_live ex_session_cfg ex_session 1100" by (simp add: is_live_def ex_session_def ex_session_cfg_def)
  moreover have "fmlookup (sm_sessions ex_manager) (replicate 43 (CHR ''A'')) = Some ex_session" by (simp add: ex_manager_def)
  ultimately show ?thesis by (simp add: live_session_def ex_handle del: handle_digest.simps)
qed

lemma ex_acting:
  "\<exists>m'. actor_for ex_entropy ex_session_cfg (Reading 1100) (JStr (replicate 43 (CHR ''A''))) (Identity_Directory ex_directory)
     ex_manager = (Inr ex_actor, m')"
  using conjunct1 [OF authenticated_actor_sound_witness]
  by (simp add: actor_for_def require_directory_def ex_live role_selector_def)
    (simp add: ex_session_def ex_signed_in_def ex_actor_def)

lemma ex_rotated:
  "\<exists>h m'. set_role ex_entropy ex_session_cfg (Reading 1100) (JStr (replicate 43 (CHR ''A''))) (JStr ''WORKER'')
     (Identity_Directory ex_directory) ex_manager = Some (Inr h, m')"
  by (simp add: set_role_def require_directory_def ex_live)
    (simp add: ex_session_def ex_resolved rotate_def ex_manager_def ex_drawn Let_def)

section \<open>Properties\<close>

text \<open>C13: The store stays within its limits whatever calls are made of it: at most the configured number of sessions,
  at most the configured number of them for one person, no two for one assertion, and none that lasts longer
  than its assertion, the configured lifetime or the configured age of the authentication.\<close>

theorem sessions_within_limits:
  assumes "make_session_config cfg = Inr cfg" "session_reach en cfg vs m"
  shows "int (fcard (fmdom (sm_sessions m))) \<le> xc_max_sessions cfg \<and>
    (\<forall>pid. int (person_sessions pid (sm_sessions m)) \<le> xc_per_person cfg) \<and>
    (\<forall>dg dg' s s'. fmlookup (sm_sessions m) dg = Some s \<longrightarrow> fmlookup (sm_sessions m) dg' = Some s' \<longrightarrow>
       va_issuer (se_verified s) = va_issuer (se_verified s') \<longrightarrow>
       va_assertion (se_verified s) = va_assertion (se_verified s') \<longrightarrow> dg = dg') \<and>
    (\<forall>dg s now. fmlookup (sm_sessions m) dg = Some s \<longrightarrow> is_live cfg s now \<longrightarrow>
       now < of_int (va_expires_at (se_verified s)) \<and> now < se_created s + of_int (xc_absolute cfg) \<and>
       now < of_int (va_auth_time (se_verified s) + xc_max_auth_age cfg))"
proof -
  have "0 \<le> xc_max_sessions cfg" "0 \<le> xc_per_person cfg"
    using assms(1) by (auto simp: make_session_config_def split: if_splits)
  from reach_ok [OF assms(2) this] have ok: "store_ok cfg vs m" .
  have "now < of_int (va_expires_at (se_verified s)) \<and> now < se_created s + of_int (xc_absolute cfg) \<and>
      now < of_int (va_auth_time (se_verified s) + xc_max_auth_age cfg)"
    if "fmlookup (sm_sessions m) dg = Some s" "is_live cfg s now" for dg s now
  proof -
    have "session_ok cfg vs (sm_used m) dg s" using ok that(1) unfolding store_ok_def by blast
    then show ?thesis using that(2) unfolding session_ok_def is_live_def by linarith
  qed
  with ok show ?thesis
    unfolding store_ok_def fcard_counted person_sessions_counted assertion_key_def by blast
qed

lemma sessions_within_limits_witness:
  "int (fcard (fmdom (sm_sessions ex_manager))) \<le> 10 \<and> int (person_sessions ''P-7'' (sm_sessions ex_manager)) \<le> 2"
proof -
  have "xc_max_sessions ex_session_cfg = 10" "xc_per_person ex_session_cfg = 2" by (simp_all add: ex_session_cfg_def)
  with sessions_within_limits [OF ex_session_cfg_ok ex_reached] show ?thesis by metis
qed

text \<open>C12: An actor derived from a session is the person of today's directory. The handle is one of a stored, live
  session: begun with a verified assertion that has not expired, within the longest time the configuration
  gives a session and an authentication, and used since less than the idle limit; the use is noted in the
  session, and nothing else changes. The directory passed in now enrols exactly that identity as the person
  the session was made for, and gives the person the role acted in. So a person or role removed from the
  directory is denied on the next call.\<close>

theorem session_actor_is_current:
  assumes "make_session_config cfg = Inr cfg" "session_reach en cfg vs m" "build_directory ps rs ss = Inr d"
    "actor_for en cfg clk handle (Identity_Directory d) m = (Inr a, m')"
  shows "\<exists>dg s now p. handle_digest en handle = Some dg \<and> fmlookup (sm_sessions m) dg = Some s \<and> se_verified s \<in> vs \<and>
    clk = Reading now \<and> now < of_int (va_expires_at (se_verified s)) \<and>
    now < se_created s + of_int (xc_absolute cfg) \<and>
    now < of_int (va_auth_time (se_verified s) + xc_max_auth_age cfg) \<and>
    now < se_seen s + of_int (xc_idle cfg) \<and>
    m' = m\<lparr>sm_sessions := fmupd dg (s\<lparr>se_seen := now\<rparr>) (sm_sessions m)\<rparr> \<and>
    p \<in> set ps \<and> person_identity p = va_identity (se_verified s) \<and> actor_id a = person_id p \<and> se_person s = person_id p \<and>
    actor_assurance a = AUTHENTICATED \<and> \<lparr>ra_person = person_id p, ra_role = actor_role a\<rparr> \<in> set rs \<and>
    (\<forall>r. se_role s = Some r \<longrightarrow> actor_role a = r)"
proof -
  have "0 \<le> xc_max_sessions cfg" "0 \<le> xc_per_person cfg"
    using assms(1) by (auto simp: make_session_config_def split: if_splits)
  from reach_ok [OF assms(2) this] have ok: "store_ok cfg vs m" .
  from assms(4) show ?thesis
  proof (cases rule: actor_for_cases)
    case (3 now dg s b)
    then have a: "b = a" by simp
    have sok: "session_ok cfg vs (sm_used m) dg s" using ok 3(3) unfolding store_ok_def by blast
    from authenticated_actor_sound [OF assms(3) 3(7)] a obtain p where p: "p \<in> set ps"
        "person_identity p = va_identity (se_verified s)" "actor_id a = person_id p" "actor_assurance a = AUTHENTICATED"
        "\<lparr>ra_person = person_id p, ra_role = actor_role a\<rparr> \<in> set rs"
      and role: "role_selector (se_role s) \<noteq> JNull \<Longrightarrow> role_selector (se_role s) = JStr (role_value (actor_role a))"
      by (auto split: if_splits)
    have "\<forall>r. se_role s = Some r \<longrightarrow> actor_role a = r" using role by (auto simp: role_selector_def)
    moreover have "now < of_int (va_expires_at (se_verified s))" "now < se_created s + of_int (xc_absolute cfg)"
      "now < of_int (va_auth_time (se_verified s) + xc_max_auth_age cfg)" "now < se_seen s + of_int (xc_idle cfg)"
      "se_digest s = dg" "se_verified s \<in> vs"
      using sok 3(4) unfolding session_ok_def is_live_def by linarith+
    ultimately show ?thesis using p 3 a
      by (intro exI [of _ dg] exI [of _ s] exI [of _ now] exI [of _ p]) simp
  qed auto
qed

lemma session_actor_is_current_witness:
  "\<exists>p. p \<in> set [ex_person] \<and> actor_id ex_actor = person_id p \<and> \<lparr>ra_person = person_id p, ra_role = WORKER\<rparr> \<in> set ex_roles"
proof -
  from ex_acting obtain m' where "actor_for ex_entropy ex_session_cfg (Reading 1100) (JStr (replicate 43 (CHR ''A'')))
      (Identity_Directory ex_directory) ex_manager = (Inr ex_actor, m')" ..
  from session_actor_is_current [OF ex_session_cfg_ok ex_reached ex_directory_built this]
  show ?thesis by (auto simp: ex_actor_def)
qed

text \<open>One assertion starts one session, as long as the clock does not go back: two sessions begun at different
  calls come from different assertions, and if these share their issuer and id, the first had expired when
  the second session was begun.\<close>

theorem assertion_starts_one_session:
  assumes "sorted (List.map_filter call_time calls)" "i < j" "j < length calls"
    "sessions_started en cfg calls m ! i = Some v" "sessions_started en cfg calls m ! j = Some w"
  shows "w \<noteq> v \<and> (va_issuer w = va_issuer v \<and> va_assertion w = va_assertion v \<longrightarrow>
    (\<exists>t. call_time (calls ! j) = Some t \<and> of_int (va_expires_at v) \<le> t \<and> t < of_int (va_expires_at w)))"
proof -
  have again: "\<exists>t. call_time (calls ! j) = Some t \<and> of_int (va_expires_at v) \<le> t \<and> t < of_int (va_expires_at w)"
    if "assertion_key w = assertion_key v"
    using assertions.accepted_again [of calls i j en cfg m v w] assms that
    by (simp add: assertions.forward_def started_answers)
  then show ?thesis unfolding assertion_key_def by fastforce
qed

lemma assertion_starts_one_session_witness:
  "ex_signed_in 1400 \<noteq> ex_signed_in 990 \<and> (1290 :: rat) \<le> 1400"
proof -
  let ?c = "\<lambda>clk v. Create_Session clk (Some v) (Identity_Directory ex_directory) (JStr ''WORKER'')"
  let ?calls = "[?c (Reading 1000) (ex_signed_in 990), ?c (Reading 1400) (ex_signed_in 1400)]"
  from ex_created_again obtain h m' where again: "create_session ex_entropy ex_session_cfg (Reading 1400) (Some (ex_signed_in 1400))
      (Identity_Directory ex_directory) (JStr ''WORKER'') ex_manager = Some (Inr h, m')" by blast
  have "sessions_started ex_entropy ex_session_cfg ?calls empty_manager = [Some (ex_signed_in 990), Some (ex_signed_in 1400)]"
    by (simp add: starting_def ex_created again handed_def)
  moreover have "va_issuer (ex_signed_in 1400) = va_issuer (ex_signed_in 990)"
    "va_assertion (ex_signed_in 1400) = va_assertion (ex_signed_in 990)" "va_expires_at (ex_signed_in 990) = 1290"
    by (simp_all add: ex_signed_in_def ex_facts_def)
  ultimately show ?thesis
    using assertion_starts_one_session [where calls = ?calls and i = 0 and j = 1 and en = ex_entropy and cfg = ex_session_cfg
        and m = empty_manager and v = "ex_signed_in 990" and w = "ex_signed_in 1400"]
    by (simp add: List.map_filter_simps del: sessions_started.simps)
qed

text \<open>A handle that was rotated or logged out is dead at once: no actor is derived from it, at any time and from
  any directory. After a rotation the new handle stands for the same session of the same person and
  assertion, with the same end, under the role the directory confirmed.\<close>

theorem ended_handle_is_dead:
  assumes "make_session_config cfg = Inr cfg" "session_reach en cfg vs m"
    "m' = logout en handle m \<or> set_role en cfg clk handle role d m = Some (Inr h, m')"
  shows "(\<nexists>a. fst (actor_for en cfg clk' handle d' m') = Inr a) \<and>
    (m' \<noteq> logout en handle m \<longrightarrow> (\<exists>dg dg' s s'. handle_digest en handle = Some dg \<and> fmlookup (sm_sessions m) dg = Some s \<and>
       handle_digest en (JStr (sh_handle h)) = Some dg' \<and> fmlookup (sm_sessions m') dg' = Some s' \<and>
       se_verified s' = se_verified s \<and> se_person s' = se_person s \<and> se_absolute s' = se_absolute s))"
proof -
  have "0 \<le> xc_max_sessions cfg" "0 \<le> xc_per_person cfg"
    using assms(1) by (auto simp: make_session_config_def split: if_splits)
  from reach_ok [OF assms(2) this] have ok: "store_ok cfg vs m" .
  have rot: "\<exists>dg s dg' s'. handle_digest en handle = Some dg \<and> fmlookup (sm_sessions m') dg = None \<and>
      fmlookup (sm_sessions m) dg = Some s \<and> handle_digest en (JStr (sh_handle h)) = Some dg' \<and>
      fmlookup (sm_sessions m') dg' = Some s' \<and> se_verified s' = se_verified s \<and> se_person s' = se_person s \<and>
      se_absolute s' = se_absolute s"
    if "set_role en cfg clk handle role d m = Some (Inr h, m')"
    using that
  proof (cases rule: set_role_cases)
    case (3 now dg s sel)
    from rotated [OF ok 3(3,5)] 3(2,3) show ?thesis by fastforce
  qed auto
  have "\<forall>dg. handle_digest en handle = Some dg \<longrightarrow> fmlookup (sm_sessions m') dg = None"
    using assms(3) rot by (auto simp: logout_def drop_session_def split: option.splits)
  note dead = this
  have "\<nexists>a. fst (actor_for en cfg clk' handle d' m') = Inr a"
  proof
    assume "\<exists>a. fst (actor_for en cfg clk' handle d' m') = Inr a"
    then obtain a m2 where "actor_for en cfg clk' handle d' m' = (Inr a, m2)" by (metis prod.collapse)
    then show False by (cases rule: actor_for_cases) (use dead in auto)
  qed
  with assms(3) rot show ?thesis by blast
qed

lemma ended_handle_is_dead_witness:
  "\<exists>h m'. set_role ex_entropy ex_session_cfg (Reading 1100) (JStr (replicate 43 (CHR ''A''))) (JStr ''WORKER'')
      (Identity_Directory ex_directory) ex_manager = Some (Inr h, m') \<and>
     (\<nexists>a. fst (actor_for ex_entropy ex_session_cfg (Reading 1100) (JStr (replicate 43 (CHR ''A'')))
        (Identity_Directory ex_directory) m') = Inr a)"
proof -
  from ex_rotated obtain h m' where r: "set_role ex_entropy ex_session_cfg (Reading 1100) (JStr (replicate 43 (CHR ''A'')))
      (JStr ''WORKER'') (Identity_Directory ex_directory) ex_manager = Some (Inr h, m')" by blast
  from ended_handle_is_dead [OF ex_session_cfg_ok ex_reached disjI2 [OF r]] r show ?thesis by blast
qed

text \<open>The draw of a handle ends: a session is opened or refused whenever the random source has yet to give
  well-formed handles with more different digests than there are sessions.\<close>

theorem session_creation_returns:
  assumes "finite I" "\<forall>i \<in> I. sm_draws m \<le> i \<and> handle_digest en (JStr (en_token en i 32)) = Some (en_sha en (en_token en i 32))"
    "fcard (fmdom (sm_sessions m)) < card ((\<lambda>i. en_sha en (en_token en i 32)) ` I)"
  shows "\<exists>r m'. create_session en cfg clk presented d role m = Some (r, m')"
proof -
  have drawn: "\<exists>x. new_handle en (sm_sessions (purge cfg now m)) (sm_draws m) = Some x" for now
  proof -
    have "\<not> (\<lambda>i. en_sha en (en_token en i 32)) ` I \<subseteq> fset (fmdom (sm_sessions m))"
    proof
      assume "(\<lambda>i. en_sha en (en_token en i 32)) ` I \<subseteq> fset (fmdom (sm_sessions m))"
      from card_mono [OF finite_fset this] assms(3) show False by (simp add: fcard.rep_eq)
    qed
    then obtain i where i: "i \<in> I" "fmlookup (sm_sessions m) (en_sha en (en_token en i 32)) = None"
      by (auto simp: fmdom_notD)
    with assms(2) show ?thesis
      by (intro new_handle_returns [of _ i]) (auto simp: HANDLE_BYTES_def purge_def simp del: handle_digest.simps)
  qed
  have "sm_draws (purge cfg now m) = sm_draws m" for now by (simp add: purge_def)
  then have "\<exists>r m'. open_session en cfg v who now (purge cfg now m) = Some (r, m')" for v who now
    using drawn [of now] by (auto simp: open_session_def Let_def)
  then show ?thesis
    by (auto simp: create_session_def Let_def split: option.splits sum.splits)
qed

lemma session_creation_returns_witness:
  "\<exists>r m'. create_session ex_entropy ex_session_cfg (Reading 1000) None (Identity_Directory ex_directory) JNull empty_manager = Some (r, m')"
  by (rule session_creation_returns [where I = "{0}"])
    (simp_all add: empty_manager_def ex_entropy_def HANDLE_LENGTH_def HANDLE_ALPHABET_def fcard.rep_eq del: replicate_Suc)

end
