(* ===== verification/Directory_File.thy ===== *)
theory Directory_File
  imports Jose Directory_Facts Possession_Windows
begin

text \<open>
  The loader of the enrolment file, \<^verbatim>\<open>backend/app/identity/directory_file.py\<close>: one read of a regular
  file, strict parsing, and the constructors of \<open>Role_Directory\<close>. An error is a reason and a structural
  location. What the operating system answers for a path is a parameter.
\<close>

section \<open>Vocabulary\<close>

definition SCHEMA_MARKER :: string where "SCHEMA_MARKER = ''pashupatastra.identity-directory''"
definition SUPPORTED_VERSION :: int where "SUPPORTED_VERSION = 1"
definition MAX_DIRECTORY_FILE_BYTES :: nat where "MAX_DIRECTORY_FILE_BYTES = 1024 * 1024"
definition DIRECTORY_PATH_NOT_ABSOLUTE :: string where "DIRECTORY_PATH_NOT_ABSOLUTE = ''DIRECTORY_PATH_NOT_ABSOLUTE''"
definition DIRECTORY_FILE_UNREADABLE :: string where "DIRECTORY_FILE_UNREADABLE = ''DIRECTORY_FILE_UNREADABLE''"
definition DIRECTORY_FILE_EMPTY :: string where "DIRECTORY_FILE_EMPTY = ''DIRECTORY_FILE_EMPTY''"
definition DIRECTORY_FILE_TOO_LARGE :: string where "DIRECTORY_FILE_TOO_LARGE = ''DIRECTORY_FILE_TOO_LARGE''"
definition DIRECTORY_FILE_MALFORMED :: string where "DIRECTORY_FILE_MALFORMED = ''DIRECTORY_FILE_MALFORMED''"
definition UNSUPPORTED_DIRECTORY_SCHEMA :: string where "UNSUPPORTED_DIRECTORY_SCHEMA = ''UNSUPPORTED_DIRECTORY_SCHEMA''"
definition UTF8_BOM :: bytes where "UTF8_BOM = [0xef, 0xbb, 0xbf]"
definition TOP_KEYS :: "string list" where
  "TOP_KEYS = [''schema'', ''version'', ''people'', ''role_assignments'', ''scope_assignments'']"
definition PERSON_KEYS :: "string list" where "PERSON_KEYS = [''person_id'', ''identity'']"
definition IDENTITY_KEYS :: "string list" where "IDENTITY_KEYS = [''identity_provider'', ''subject'']"
definition ROLE_KEYS :: "string list" where "ROLE_KEYS = [''person_id'', ''role'']"
definition SCOPE_KEYS :: "string list" where "SCOPE_KEYS = [''person_id'', ''role'', ''corridor_id'', ''section_ids'']"

abbreviation malformed :: "string \<Rightarrow> 'a res" where
  "malformed location \<equiv> Inl (DirectoryFileError DIRECTORY_FILE_MALFORMED location)"

fun an_object :: "json \<Rightarrow> string list \<Rightarrow> string \<Rightarrow> dict res" where
  "an_object (JObj d) keys location = (if fset (fmdom d) \<noteq> set keys then malformed location else Inr d)"
| "an_object _ keys location = malformed location"

fun an_array :: "json \<Rightarrow> string \<Rightarrow> json list res" where
  "an_array (JArr vs) location = Inr vs"
| "an_array _ location = malformed location"

fun a_string :: "json \<Rightarrow> string \<Rightarrow> string res" where
  "a_string (JStr s) location = Inr s"
| "a_string _ location = malformed location"

text \<open>\<^verbatim>\<open>getattr(exc, "reason", None)\<close>\<close>

fun reason_of :: "py_error \<Rightarrow> string" where
  "reason_of (AssignmentError r) = r"
| "reason_of (ScopeError r) = r"
| "reason_of (DirectoryError r) = r"
| "reason_of _ = []"

definition construct :: "string \<Rightarrow> 'a res \<Rightarrow> 'a res" where
  "construct location build =
    (case build of Inr x \<Rightarrow> Inr x
     | Inl e \<Rightarrow> Inl (DirectoryFileError (if reason_of e \<noteq> [] then reason_of e else DIRECTORY_FILE_MALFORMED) location))"

definition spot :: "string \<Rightarrow> nat \<Rightarrow> string" where
  "spot name index = name @ ''['' @ decimal index @ '']''"

text \<open>A loop over \<^verbatim>\<open>enumerate(entries)\<close>, from an index on.\<close>

fun each_entry :: "(nat \<Rightarrow> json \<Rightarrow> 'a res) \<Rightarrow> nat \<Rightarrow> json list \<Rightarrow> 'a list res" where
  "each_entry f index [] = Inr []"
| "each_entry f index (e # es) =
     bind_res (f index e) (\<lambda>x. bind_res (each_entry f (Suc index) es) (\<lambda>xs. Inr (x # xs)))"

section \<open>Entries\<close>

definition read_person :: "nat \<Rightarrow> json \<Rightarrow> person res" where
  "read_person index entry =
    (let place = spot ''people'' index; inner = place @ ''.identity'' in
     bind_res (an_object entry PERSON_KEYS place) (\<lambda>item.
     bind_res (an_object (dget item ''identity'') IDENTITY_KEYS inner) (\<lambda>ident.
     bind_res (a_string (dget ident ''identity_provider'') inner) (\<lambda>provider.
     bind_res (a_string (dget ident ''subject'') inner) (\<lambda>subject.
     bind_res (a_string (dget item ''person_id'') place) (\<lambda>pid.
     construct place (bind_res (make_external_identity (JStr provider) (JStr subject)) (\<lambda>i. make_person (JStr pid) i))))))))"

definition read_role :: "nat \<Rightarrow> json \<Rightarrow> role_assignment res" where
  "read_role index entry =
    (let place = spot ''role_assignments'' index in
     bind_res (an_object entry ROLE_KEYS place) (\<lambda>item.
     bind_res (a_string (dget item ''person_id'') place) (\<lambda>pid.
     bind_res (a_string (dget item ''role'') place) (\<lambda>role.
     construct place (make_role_assignment (JStr pid) (JStr role))))))"

definition read_scope :: "nat \<Rightarrow> json \<Rightarrow> role_scope res" where
  "read_scope index entry =
    (let place = spot ''scope_assignments'' index in
     bind_res (an_object entry SCOPE_KEYS place) (\<lambda>item.
     bind_res (a_string (dget item ''person_id'') place) (\<lambda>pid.
     bind_res (a_string (dget item ''role'') place) (\<lambda>role.
     bind_res (a_string (dget item ''corridor_id'') place) (\<lambda>corridor.
     bind_res (an_array (dget item ''section_ids'') (place @ ''.section_ids'')) (\<lambda>sections.
     bind_res (each_entry (\<lambda>i s. a_string s (spot (place @ ''.section_ids'') i)) 0 sections) (\<lambda>_.
     bind_res (construct (place @ ''.scope'') (make_scope (JStr corridor) (JArr sections))) (\<lambda>scope.
     construct place (make_role_scope (JStr pid) (JStr role) scope)))))))))"

section \<open>The document\<close>

definition read_directory :: "dict \<Rightarrow> directory res" where
  "read_directory document =
     bind_res (bind_res (an_array (dget document ''people'') ''people'') (each_entry read_person 0)) (\<lambda>people.
     bind_res (bind_res (an_array (dget document ''role_assignments'') ''role_assignments'') (each_entry read_role 0)) (\<lambda>roles.
     bind_res (bind_res (an_array (dget document ''scope_assignments'') ''scope_assignments'') (each_entry read_scope 0)) (\<lambda>scopes.
     construct ''directory'' (build_directory people roles scopes))))"

definition parse_identity_directory :: "(bytes \<Rightarrow> document option) \<Rightarrow> bytes \<Rightarrow> directory res" where
  "parse_identity_directory loads raw =
    (if MAX_DIRECTORY_FILE_BYTES < length raw then Inl (DirectoryFileError DIRECTORY_FILE_TOO_LARGE ''document'')
     else if raw = [] then Inl (DirectoryFileError DIRECTORY_FILE_EMPTY ''document'')
     else if take 3 raw = UTF8_BOM then malformed ''document''
     else case strict_json_object loads raw of
       Inl _ \<Rightarrow> malformed ''document''
     | Inr document \<Rightarrow>
        if dget document ''schema'' \<noteq> JStr SCHEMA_MARKER
          then Inl (DirectoryFileError UNSUPPORTED_DIRECTORY_SCHEMA ''schema'')
        else if dget document ''version'' \<noteq> JInt SUPPORTED_VERSION
          then Inl (DirectoryFileError UNSUPPORTED_DIRECTORY_SCHEMA ''version'')
        else bind_res (an_object (JObj document) TOP_KEYS ''document'') read_directory)"

section \<open>The file\<close>

text \<open>What opening a path gives: an operating system error, something that is not a regular file, or a file of
  some size whose first bytes, at most one more than the limit, are read.\<close>

datatype file_answer = OS_Error | Not_Regular | Regular_File nat bytes

definition read_regular_file :: "(string \<Rightarrow> file_answer) \<Rightarrow> json \<Rightarrow> bytes res" where
  "read_regular_file open_path path =
    (case path of
       JStr p \<Rightarrow>
         if p = [] then Inl (DirectoryFileError DIRECTORY_FILE_UNREADABLE ''path'')
         else if \<not> starts_with ''/'' p then Inl (DirectoryFileError DIRECTORY_PATH_NOT_ABSOLUTE ''path'')
         else (case open_path p of
           OS_Error \<Rightarrow> Inl (DirectoryFileError DIRECTORY_FILE_UNREADABLE ''path'')
         | Not_Regular \<Rightarrow> Inl (DirectoryFileError DIRECTORY_FILE_UNREADABLE ''path'')
         | Regular_File st_size raw \<Rightarrow>
             if MAX_DIRECTORY_FILE_BYTES < st_size then Inl (DirectoryFileError DIRECTORY_FILE_TOO_LARGE ''path'')
             else Inr (take (MAX_DIRECTORY_FILE_BYTES + 1) raw))
     | _ \<Rightarrow> Inl (DirectoryFileError DIRECTORY_FILE_UNREADABLE ''path''))"

definition load_identity_directory :: "(bytes \<Rightarrow> document option) \<Rightarrow> (string \<Rightarrow> file_answer) \<Rightarrow> json \<Rightarrow> directory res" where
  "load_identity_directory loads open_path path =
     bind_res (read_regular_file open_path path) (parse_identity_directory loads)"

section \<open>What a file says\<close>

lemma object_iff:
  "distinct (map fst kvs) \<Longrightarrow>
     fset (fmdom d) = set (map fst kvs) \<and> (\<forall>(k, v) \<in> set kvs. dget d k = v) \<longleftrightarrow> d = fmap_of_list kvs"
proof (intro iffI, goal_cases)
  case 1
  show ?case
  proof (rule fmap_ext)
    fix k
    show "fmlookup d k = fmlookup (fmap_of_list kvs) k"
    proof (cases "k \<in> set (map fst kvs)")
      case True
      then obtain v where v: "(k, v) \<in> set kvs" by auto
      from True 1(2) have "k |\<in>| fmdom d" by simp
      then obtain x where x: "fmlookup d k = Some x" by (auto simp: fmlookup_dom_iff)
      from 1(2) v have "dget d k = v" by auto
      with x have "x = v" by (simp add: dget_def)
      with x v 1(1) show ?thesis by (simp add: fmlookup_of_list map_of_is_SomeI)
    next
      case False
      with 1(2) have "k |\<notin>| fmdom d" by simp
      moreover have "map_of kvs k = None" using False by (simp add: map_of_eq_None_iff)
      ultimately show ?thesis by (simp add: fmdom_notD fmlookup_of_list)
    qed
  qed
next
  case 2
  have "dget d k = v" if "(k, v) \<in> set kvs" for k v
    using 2 that by (simp add: dget_def fmlookup_of_list map_of_is_SomeI)
  moreover have "fset (fmdom d) = set (map fst kvs)" using 2(2) by (simp add: fset_of_list.rep_eq)
  ultimately show ?case by auto
qed

lemma an_object_Inr: "an_object v keys l = Inr d \<longleftrightarrow> v = JObj d \<and> fset (fmdom d) = set keys"
  by (cases v) auto

lemma an_array_Inr [simp]: "an_array v l = Inr vs \<longleftrightarrow> v = JArr vs"
  by (cases v) auto

lemma a_string_Inr [simp]: "a_string v l = Inr s \<longleftrightarrow> v = JStr s"
  by (cases v) auto

lemma construct_Inr [simp]: "construct l r = Inr x \<longleftrightarrow> r = Inr x"
  by (simp add: construct_def split: sum.splits)

lemma each_entry_Inr: "(\<And>i e x. f i e = Inr x \<longleftrightarrow> R e x) \<Longrightarrow> each_entry f i es = Inr xs \<longleftrightarrow> list_all2 R es xs"
  by (induction es arbitrary: i xs) (auto simp: bind_res_Inr_iff list_all2_Cons1)

definition describes_person :: "json \<Rightarrow> person \<Rightarrow> bool" where
  "describes_person e p \<longleftrightarrow>
     e = JObj (fmap_of_list [(''person_id'', JStr (person_id p)), (''identity'', JObj (fmap_of_list
       [(''identity_provider'', JStr (ext_provider (person_identity p))), (''subject'', JStr (ext_subject (person_identity p)))]))]) \<and>
     make_external_identity (JStr (ext_provider (person_identity p))) (JStr (ext_subject (person_identity p))) = Inr (person_identity p) \<and>
     make_person (JStr (person_id p)) (person_identity p) = Inr p"

definition describes_role :: "json \<Rightarrow> role_assignment \<Rightarrow> bool" where
  "describes_role e a \<longleftrightarrow>
     e = JObj (fmap_of_list [(''person_id'', JStr (ra_person a)), (''role'', JStr (role_value (ra_role a)))]) \<and>
     make_role_assignment (JStr (ra_person a)) (JStr (role_value (ra_role a))) = Inr a"

definition describes_scope :: "json \<Rightarrow> role_scope \<Rightarrow> bool" where
  "describes_scope e s \<longleftrightarrow> (\<exists>sections.
     e = JObj (fmap_of_list [(''person_id'', JStr (rs_person s)), (''role'', JStr (role_value (rs_role s))),
       (''corridor_id'', JStr (sc_corridor (rs_scope s))), (''section_ids'', JArr (map JStr sections))]) \<and>
     make_scope (JStr (sc_corridor (rs_scope s))) (JArr (map JStr sections)) = Inr (rs_scope s) \<and>
     make_role_scope (JStr (rs_person s)) (JStr (role_value (rs_role s))) (rs_scope s) = Inr s)"

lemma identity_part_Inr: "validate_identity_part (JStr v) n = Inr w \<Longrightarrow> w = v"
  by (simp split: if_splits)

lemma person_id_Inr: "validate_person_id (JStr v) = Inr w \<Longrightarrow> w = v"
  by (simp split: sum.splits)

lemma fields2:
  "k1 \<noteq> k2 \<Longrightarrow> fset (fmdom d) = {k1, k2} \<and> dget d k1 = v1 \<and> dget d k2 = v2 \<longleftrightarrow> d = fmap_of_list [(k1, v1), (k2, v2)]"
  using object_iff [of "[(k1, v1), (k2, v2)]" d] by simp

lemma read_person_Inr: "read_person i e = Inr p \<longleftrightarrow> describes_person e p"
proof -
  have item: "fset (fmdom d) = {''person_id'', ''identity''} \<and> dget d ''person_id'' = v \<and> dget d ''identity'' = w \<longleftrightarrow>
      d = fmap_of_list [(''person_id'', v), (''identity'', w)]" for d v w by (rule fields2) simp
  have ident: "fset (fmdom d) = {''identity_provider'', ''subject''} \<and> dget d ''identity_provider'' = v \<and> dget d ''subject'' = w \<longleftrightarrow>
      d = fmap_of_list [(''identity_provider'', v), (''subject'', w)]" for d v w by (rule fields2) simp
  have "read_person i e = Inr p \<longleftrightarrow> (\<exists>item ident provider subject pid x. e = JObj item \<and>
      (fset (fmdom item) = {''person_id'', ''identity''} \<and> dget item ''person_id'' = JStr pid \<and> dget item ''identity'' = JObj ident) \<and>
      (fset (fmdom ident) = {''identity_provider'', ''subject''} \<and> dget ident ''identity_provider'' = JStr provider \<and>
        dget ident ''subject'' = JStr subject) \<and>
      make_external_identity (JStr provider) (JStr subject) = Inr x \<and> make_person (JStr pid) x = Inr p)"
    unfolding read_person_def Let_def bind_res_Inr_iff an_object_Inr construct_Inr a_string_Inr
      PERSON_KEYS_def IDENTITY_KEYS_def list.set
    by (intro iffI; elim exE conjE; intro exI conjI; assumption)
  also have "\<dots> \<longleftrightarrow> (\<exists>provider subject pid x. e = JObj (fmap_of_list [(''person_id'', JStr pid), (''identity'', JObj (fmap_of_list
      [(''identity_provider'', JStr provider), (''subject'', JStr subject)]))]) \<and>
      make_external_identity (JStr provider) (JStr subject) = Inr x \<and> make_person (JStr pid) x = Inr p)"
    unfolding item ident by (simp del: fmap_of_list_simps) blast
  also have "\<dots> \<longleftrightarrow> describes_person e p"
  proof
    assume "\<exists>provider subject pid x. e = JObj (fmap_of_list [(''person_id'', JStr pid), (''identity'', JObj (fmap_of_list
      [(''identity_provider'', JStr provider), (''subject'', JStr subject)]))]) \<and>
      make_external_identity (JStr provider) (JStr subject) = Inr x \<and> make_person (JStr pid) x = Inr p"
    then obtain provider subject pid x where h: "e = JObj (fmap_of_list [(''person_id'', JStr pid), (''identity'', JObj (fmap_of_list
        [(''identity_provider'', JStr provider), (''subject'', JStr subject)]))])"
      "make_external_identity (JStr provider) (JStr subject) = Inr x" "make_person (JStr pid) x = Inr p" by blast
    have "ext_provider x = provider" "ext_subject x = subject" "person_id p = pid" "person_identity p = x"
      using h(2,3) by (auto simp: make_external_identity_def make_person_def bind_res_Inr_iff
        simp del: validate_identity_part.simps validate_person_id.simps dest!: identity_part_Inr person_id_Inr)
    with h show "describes_person e p" unfolding describes_person_def by blast
  qed (unfold describes_person_def, blast)
  finally show ?thesis .
qed

lemma make_role_assignment_Inr:
  "make_role_assignment (JStr pid) (JStr r) = Inr a \<Longrightarrow> ra_person a = pid \<and> role_value (ra_role a) = r"
  by (auto simp: make_role_assignment_def bind_res_Inr_iff human_role_Inr split: sum.splits
      simp del: validate_person_id.simps human_role.simps dest!: person_id_Inr)

lemma read_role_Inr: "read_role i e = Inr a \<longleftrightarrow> describes_role e a"
proof -
  have item: "fset (fmdom d) = {''person_id'', ''role''} \<and> dget d ''person_id'' = v \<and> dget d ''role'' = w \<longleftrightarrow>
      d = fmap_of_list [(''person_id'', v), (''role'', w)]" for d v w by (rule fields2) simp
  have "read_role i e = Inr a \<longleftrightarrow> (\<exists>item pid role. e = JObj item \<and>
      (fset (fmdom item) = {''person_id'', ''role''} \<and> dget item ''person_id'' = JStr pid \<and> dget item ''role'' = JStr role) \<and>
      make_role_assignment (JStr pid) (JStr role) = Inr a)"
    unfolding read_role_def Let_def bind_res_Inr_iff an_object_Inr construct_Inr a_string_Inr ROLE_KEYS_def list.set
    by (intro iffI; elim exE conjE; intro exI conjI; assumption)
  also have "\<dots> \<longleftrightarrow> describes_role e a"
    unfolding item describes_role_def using make_role_assignment_Inr by blast
  finally show ?thesis .
qed

lemma make_scope_Inr: "make_scope (JStr c) v = Inr s \<Longrightarrow> sc_corridor s = c"
  by (auto simp: make_scope_def bind_res_Inr_iff split: if_splits)

lemma make_role_scope_Inr:
  "make_role_scope (JStr pid) (JStr r) sc = Inr s \<Longrightarrow> rs_person s = pid \<and> role_value (rs_role s) = r \<and> rs_scope s = sc"
  by (auto simp: make_role_scope_def bind_res_Inr_iff split: if_splits dest: make_role_assignment_Inr)

lemma each_string_Inr: "each_entry (\<lambda>i s. a_string s (f i)) n vs = Inr ss \<longleftrightarrow> vs = map JStr ss"
proof -
  have "each_entry (\<lambda>i s. a_string s (f i)) n vs = Inr ss \<longleftrightarrow> list_all2 (\<lambda>v s. v = JStr s) vs ss"
    by (rule each_entry_Inr) simp
  also have "\<dots> \<longleftrightarrow> vs = map JStr ss"
    by (induction ss arbitrary: vs) (auto simp: list_all2_Cons2)
  finally show ?thesis .
qed

lemma read_scope_Inr: "read_scope i e = Inr s \<longleftrightarrow> describes_scope e s"
proof -
  have item: "fset (fmdom d) = {''person_id'', ''role'', ''corridor_id'', ''section_ids''} \<and> dget d ''person_id'' = v1 \<and>
      dget d ''role'' = v2 \<and> dget d ''corridor_id'' = v3 \<and> dget d ''section_ids'' = v4 \<longleftrightarrow>
      d = fmap_of_list [(''person_id'', v1), (''role'', v2), (''corridor_id'', v3), (''section_ids'', v4)]" for d v1 v2 v3 v4
    using object_iff [of "[(''person_id'', v1), (''role'', v2), (''corridor_id'', v3), (''section_ids'', v4)]" d]
    by (simp del: fmap_of_list_simps)
  have "read_scope i e = Inr s \<longleftrightarrow> (\<exists>item pid role c sections ss sc. e = JObj item \<and>
      (fset (fmdom item) = {''person_id'', ''role'', ''corridor_id'', ''section_ids''} \<and> dget item ''person_id'' = JStr pid \<and>
        dget item ''role'' = JStr role \<and> dget item ''corridor_id'' = JStr c \<and> dget item ''section_ids'' = JArr sections) \<and>
      sections = map JStr ss \<and>
      make_scope (JStr c) (JArr sections) = Inr sc \<and> make_role_scope (JStr pid) (JStr role) sc = Inr s)"
    unfolding read_scope_def Let_def bind_res_Inr_iff an_object_Inr an_array_Inr construct_Inr a_string_Inr each_string_Inr
      SCOPE_KEYS_def list.set
    by (intro iffI; elim exE conjE; intro exI conjI; assumption)
  also have "\<dots> \<longleftrightarrow> (\<exists>pid role c ss sc. e = JObj (fmap_of_list [(''person_id'', JStr pid), (''role'', JStr role),
      (''corridor_id'', JStr c), (''section_ids'', JArr (map JStr ss))]) \<and>
      make_scope (JStr c) (JArr (map JStr ss)) = Inr sc \<and> make_role_scope (JStr pid) (JStr role) sc = Inr s)"
    unfolding item by (simp del: fmap_of_list_simps) blast
  also have "\<dots> \<longleftrightarrow> describes_scope e s"
    unfolding describes_scope_def using make_scope_Inr make_role_scope_Inr by blast
  finally show ?thesis .
qed

lemma read_directory_Inr:
  "read_directory doc = Inr d \<longleftrightarrow> (\<exists>people ps roles rs scopes ss.
     dget doc ''people'' = JArr people \<and> list_all2 describes_person people ps \<and>
     dget doc ''role_assignments'' = JArr roles \<and> list_all2 describes_role roles rs \<and>
     dget doc ''scope_assignments'' = JArr scopes \<and> list_all2 describes_scope scopes ss \<and>
     build_directory ps rs ss = Inr d)"
  unfolding read_directory_def bind_res_Inr_iff an_array_Inr construct_Inr
    each_entry_Inr [where f = read_person and R = describes_person, OF read_person_Inr]
    each_entry_Inr [where f = read_role and R = describes_role, OF read_role_Inr]
    each_entry_Inr [where f = read_scope and R = describes_scope, OF read_scope_Inr]
  by blast

text \<open>C14: An enrolment file is loaded whole and exactly or refused: bytes parse to a directory exactly when they are at
  most a megabyte, start with no byte order mark, and spell one JSON object with the schema marker, version 1
  and three arrays and nothing else, every entry spells a valid person, role or scope with no member more or
  less, and these people, roles and scopes build the directory.\<close>

theorem enrolment_file_exact:
  "parse_identity_directory loads raw = Inr d \<longleftrightarrow>
     0 < length raw \<and> length raw \<le> 1048576 \<and> take 3 raw \<noteq> [0xef, 0xbb, 0xbf] \<and>
     (\<exists>people ps roles rs scopes ss.
        strict_json_object loads raw = Inr (fmap_of_list [(''schema'', JStr ''pashupatastra.identity-directory''),
          (''version'', JInt 1), (''people'', JArr people), (''role_assignments'', JArr roles), (''scope_assignments'', JArr scopes)]) \<and>
        list_all2 describes_person people ps \<and> list_all2 describes_role roles rs \<and> list_all2 describes_scope scopes ss \<and>
        build_directory ps rs ss = Inr d)"
proof -
  have doc: "dget m ''schema'' = JStr SCHEMA_MARKER \<and> dget m ''version'' = JInt SUPPORTED_VERSION \<and> fset (fmdom m) = set TOP_KEYS \<and>
      dget m ''people'' = v1 \<and> dget m ''role_assignments'' = v2 \<and> dget m ''scope_assignments'' = v3 \<longleftrightarrow>
      m = fmap_of_list [(''schema'', JStr ''pashupatastra.identity-directory''), (''version'', JInt 1), (''people'', v1),
        (''role_assignments'', v2), (''scope_assignments'', v3)]" (is "?fields \<longleftrightarrow> ?object") for m v1 v2 v3
  proof -
    have "?fields \<longleftrightarrow> fset (fmdom m) = set TOP_KEYS \<and> dget m ''schema'' = JStr SCHEMA_MARKER \<and>
        dget m ''version'' = JInt SUPPORTED_VERSION \<and> dget m ''people'' = v1 \<and> dget m ''role_assignments'' = v2 \<and>
        dget m ''scope_assignments'' = v3" by blast
    also have "\<dots> \<longleftrightarrow> ?object"
    using object_iff [of "[(''schema'', JStr SCHEMA_MARKER), (''version'', JInt SUPPORTED_VERSION), (''people'', v1),
        (''role_assignments'', v2), (''scope_assignments'', v3)]" m]
    by (simp add: TOP_KEYS_def SCHEMA_MARKER_def SUPPORTED_VERSION_def del: fmap_of_list_simps)
    finally show ?thesis .
  qed
  have "parse_identity_directory loads raw = Inr d \<longleftrightarrow>
      0 < length raw \<and> length raw \<le> 1048576 \<and> take 3 raw \<noteq> [0xef, 0xbb, 0xbf] \<and> (\<exists>m. strict_json_object loads raw = Inr m \<and>
        dget m ''schema'' = JStr SCHEMA_MARKER \<and> dget m ''version'' = JInt SUPPORTED_VERSION \<and> fset (fmdom m) = set TOP_KEYS \<and>
        read_directory m = Inr d)"
    unfolding parse_identity_directory_def MAX_DIRECTORY_FILE_BYTES_def UTF8_BOM_def
    by (cases "strict_json_object loads raw") (auto simp: not_less)
  also have "\<dots> \<longleftrightarrow> 0 < length raw \<and> length raw \<le> 1048576 \<and> take 3 raw \<noteq> [0xef, 0xbb, 0xbf] \<and>
      (\<exists>m people ps roles rs scopes ss. strict_json_object loads raw = Inr m \<and>
        (dget m ''schema'' = JStr SCHEMA_MARKER \<and> dget m ''version'' = JInt SUPPORTED_VERSION \<and> fset (fmdom m) = set TOP_KEYS \<and>
         dget m ''people'' = JArr people \<and> dget m ''role_assignments'' = JArr roles \<and> dget m ''scope_assignments'' = JArr scopes) \<and>
        list_all2 describes_person people ps \<and> list_all2 describes_role roles rs \<and> list_all2 describes_scope scopes ss \<and>
        build_directory ps rs ss = Inr d)"
    unfolding read_directory_Inr by (intro iffI; elim exE conjE; intro exI conjI; assumption)
  finally show ?thesis unfolding doc by (simp del: fmap_of_list_simps) blast
qed

text \<open>Loading names a path only once and no value: a refusal carries a reason and a place, and an accepted file is
  a regular file at an absolute path that no more than the limit was read of.\<close>

theorem load_reads_regular_file:
  "load_identity_directory loads open_path path = Inr d \<longleftrightarrow>
     (\<exists>p n raw. path = JStr p \<and> starts_with ''/'' p \<and> open_path p = Regular_File n raw \<and> n \<le> 1048576 \<and>
        parse_identity_directory loads (take 1048577 raw) = Inr d)"
proof -
  have root: "starts_with ''/'' p \<Longrightarrow> p \<noteq> []" for p by (auto simp: starts_with_def)
  show ?thesis
    by (cases path) (auto simp: load_identity_directory_def read_regular_file_def bind_res_Inr_iff MAX_DIRECTORY_FILE_BYTES_def
        not_less dest: root split: file_answer.splits if_splits)
qed

end
