(* ===== verification/Spec2Isabelle.thy ===== *)
theory Spec2Isabelle
  imports Lifecycle_Properties Record_Properties Recovery_Properties Paging Proposal_Properties Service_Writes Scoped_Scan
    Section_Facts Scoring_Properties Intake_Properties Optimization_Properties Assertion_Properties Session_Properties
    Directory_File
begin

text \<open>
  Pashupatastra plans maintenance blocks on a railway corridor. A worker reports a job; an
  optimizer proposes a time window for it that keeps clear of the trains; an authority commits,
  rejects, postpones or releases the proposal; a worker starts the committed work, and ends it with
  evidence or reports why it was not completed. This development models the Python of
  \<^verbatim>\<open>src/backend/app\<close> and \<^verbatim>\<open>src/contracts\<close> that decides these things, and proves what the decisions
  guarantee.

  \<^bold>\<open>How the parts interact.\<close> Every call of the service asks two questions of the authorization
  policy, whether the role may act and whether the resource is in scope, and then changes a job by a
  plan: a function from the rows a transaction read to the mutations and events it wants written. The
  repository runs a plan in one transaction, checks every mutation against the lifecycle guards and
  every token against the events of the batch, and writes rows and events together or not at all.
  Reporting a job resolves the span of the work to one section, picks an asset and scores the block.
  An optimization reads the active jobs, derives possession windows from the train timetable, turns
  both into constraints, hands them to CP-SAT under an audit record, and writes the outcome of all
  jobs in one transaction. Obligations, execution records, proposals and notification intents are
  never stored: they are derived from the row and its history. A disruption rewrites the request and
  solves again.

  \<^bold>\<open>Which theory models what.\<close>
  \<^item> \<open>Prelude\<close>: Python's dictionaries as finite maps, JSON values, exceptions as the type
    \<open>py_error\<close>, fallible operations as sums, string and number helpers.
  \<^item> \<open>Actors\<close> (\<^verbatim>\<open>identity/actor.py\<close>, \<^verbatim>\<open>identity/recorded_actor.py\<close>), \<open>Job_Model\<close> (statuses,
    metadata keys, the columns of \<^verbatim>\<open>maintenance_jobs\<close>), \<open>Job_Events\<close> (\<^verbatim>\<open>jobs/events.py\<close>), \<open>Moments\<close>
    (\<^verbatim>\<open>data/horizon_anchor.py\<close>, with the part of \<^verbatim>\<open>datetime\<close> it uses): the data.
  \<^item> \<open>Execution\<close> and \<open>Execution_Records\<close> (\<^verbatim>\<open>jobs/execution.py\<close>): evidence, observed time, digests,
    and the execution records read from a history.
  \<^item> \<open>Lifecycle\<close>, \<open>Lifecycle_Plans\<close>, \<open>Execution_Plans\<close> (\<^verbatim>\<open>jobs/lifecycle.py\<close>): the transition
    graph and guards, and every \<^verbatim>\<open>plan_*\<close> function.
  \<^item> \<open>Repository\<close> (\<^verbatim>\<open>jobs/repository.py\<close>, \<^verbatim>\<open>append_events\<close> of \<^verbatim>\<open>jobs/history.py\<close>): the database is
    a list of rows and a list of events, every repository operation a function on it. \<open>History\<close>
    is the read side of \<^verbatim>\<open>jobs/history.py\<close>. \<open>Service_Path\<close> is the step relation of the three
    calls through which the service layer writes.
  \<^item> \<open>Contracts\<close> (\<^verbatim>\<open>contracts/schemas.py\<close>), \<open>Optimizer\<close> (\<^verbatim>\<open>optimizer/solver.py\<close>), \<open>Disruptions\<close>
    (\<^verbatim>\<open>simulation/disruptions.py\<close>, \<^verbatim>\<open>simulation/simulator.py\<close>): scheduling and recovery.
  \<^item> \<open>Sla\<close> (\<^verbatim>\<open>jobs/sla_policy.py\<close>), \<open>Obligations\<close> (\<^verbatim>\<open>jobs/obligations.py\<close>), \<open>Notifications\<close>
    (\<^verbatim>\<open>jobs/notifications.py\<close>): who owes what, by when, and what would be said about it.
  \<^item> \<open>Scopes\<close>, \<open>Role_Directory\<close>, \<open>Authorization\<close> (\<^verbatim>\<open>identity/scope.py\<close>, \<^verbatim>\<open>directory.py\<close>,
    \<^verbatim>\<open>policy.py\<close>, \<^verbatim>\<open>authenticated_policy.py\<close> and their neighbours): people, roles, railway scope, and
    the policies that decide.
  \<^item> \<open>Service\<close>, \<open>Field_Service\<close>, \<open>Scoped_Scan\<close> (\<^verbatim>\<open>jobs/service.py\<close>): the calls of \<^verbatim>\<open>JobService\<close>, on
    the database as state, with \<open>Proposals\<close> (\<^verbatim>\<open>jobs/proposal.py\<close>) as what a reviewer sees;
    \<open>Service_Calls\<close> makes the calls on an existing job one type and states what each may do, and
    \<open>Service_Writes\<close> makes all writes of \<^verbatim>\<open>jobs/service.py\<close> one type of requests: those calls, the
    report of a job, and the recorder of refused transitions.
  \<^item> \<open>Section_Registry\<close> (\<^verbatim>\<open>data/section_registry.py\<close>, \<^verbatim>\<open>data/models.py\<close>), \<open>Field_Location\<close>
    (\<^verbatim>\<open>jobs/resource_resolution.py\<close>, \<^verbatim>\<open>jobs/field_location.py\<close>), \<open>Asset_Association\<close>, \<open>Duplicates\<close>
    (the files of these names under \<^verbatim>\<open>jobs/\<close>), \<open>Scoring\<close> (\<^verbatim>\<open>ml/features.py\<close>, \<^verbatim>\<open>ml/scorer.py\<close>,
    \<^verbatim>\<open>data/feature_adapter.py\<close>) and \<open>Intake\<close> (job creation in \<^verbatim>\<open>jobs/service.py\<close>, \<^verbatim>\<open>jobs/models.py\<close>,
    \<^verbatim>\<open>jobs/idempotency.py\<close>): how a report becomes a job.
  \<^item> \<open>Train_State\<close> (\<^verbatim>\<open>data/canonical_train.py\<close>), \<open>Timetable\<close> and \<open>Possession_Windows\<close>
    (\<^verbatim>\<open>data/timetable_adapter.py\<close>, \<^verbatim>\<open>data/train_provider.py\<close>), \<open>Timetable_Coverage\<close>
    (\<^verbatim>\<open>data/timetable_coverage.py\<close>), \<open>Provenance\<close> (\<^verbatim>\<open>data/provenance.py\<close>), \<open>Possession_Inputs\<close> (the
    sources of windows in \<^verbatim>\<open>jobs/service.py\<close>, \<^verbatim>\<open>data/corridor_dataset.py\<close> and \<^verbatim>\<open>data/generator.py\<close>):
    from a timetable to possession windows.
  \<^item> \<open>Run_Audit\<close> (\<^verbatim>\<open>audit/\<close>) and \<open>Optimization\<close> (\<^verbatim>\<open>jobs/optimization.py\<close>): one run of the optimizer on
    the pair of database and audit table, failures and refusals included.
  \<^item> \<open>Jose\<close> (\<^verbatim>\<open>identity/_jose.py\<close>), \<open>Trusted_Keys\<close> (\<^verbatim>\<open>trusted_keys.py\<close>) and \<open>Identity_Assertion\<close>
    (\<^verbatim>\<open>identity_assertion.py\<close>): from an untrusted token to verified identity facts, which the
    directory of \<open>Role_Directory\<close> turns into an authenticated actor. The key cache and the replay
    guard are states, a clock reading is an argument of each call.
  \<^item> \<open>Sessions\<close> (\<^verbatim>\<open>identity/session.py\<close>): the session store as a state, with its random source, and
    the four operations on it; \<open>Directory_File\<close> (\<^verbatim>\<open>identity/directory_file.py\<close>): the enrolment file,
    parsed into the directory or refused with the place of the first fault.
  \<^item> The theories named \<open>_Facts\<close>, with \<open>Lifecycle_Guards\<close> and \<open>Transactions\<close>, hold the lemmas of
    their component; \<open>Stores\<close> the interfaces of the job table (\<open>row_store\<close>, \<open>step_log\<close>,
    \<open>step_invariant\<close>), interpreted in \<open>Repository_Facts\<close> and \<open>Service_Path\<close>; \<open>exclusive_groups\<close>,
    \<open>scope_source\<close> and \<open>possession_source\<close> are the contracts of the optimizer's resources, of a scope
    directory and of a source of windows, \<open>spend_once\<close> that of a store of spent keys. \<open>Example_Run\<close>,
    \<open>Example_Optimization\<close> and \<open>Example_Token\<close> evaluate the definitions on one job, one optimization
    and two tokens.

  \<^bold>\<open>What the lemmas show.\<close> \<open>Lifecycle_Properties\<close>: transactions refine the abstract lifecycle of
  \<open>Lifecycle_Guards\<close>, committed and completed work is protected, history only grows, decisions
  bind to the proposal that was reviewed. \<open>Record_Properties\<close>: what is stored reads back, and the
  execution records agree with the operations. \<open>Scheduling_Properties\<close> and
  \<open>Recovery_Properties\<close>: every schedule the optimizer returns respects possession windows,
  resources, commitments, dependencies and disruptions. \<open>Paging\<close> and \<open>Scoped_Scan\<close>: pages are the
  listing, scoped pages the part of it the reader may see, and the scan returns.
  \<open>Accountability\<close> and \<open>Obligation_Path\<close>: obligations follow the status, are late exactly from
  their deadline on, only escalate, and move on with each decision. \<open>Authorization_Properties\<close>,
  \<open>Service_Calls\<close> and \<open>Proposal_Properties\<close>: what the policies decide, that every call stays inside
  them and writes only steps of the job table, and that what is approved is what was reviewed.
  \<open>Section_Facts\<close>, \<open>Scoring_Properties\<close> and \<open>Intake_Properties\<close>: chainages partition into sections,
  scores are bounded and monotone in severity, and a report is written once, whole, in the section it
  is in. \<open>Timetable_Facts\<close> and \<open>Possession_Properties\<close>: the reading of day-less times is the only
  plausible one, and the windows are exactly the gaps between the trains, for the work scheduled in
  them to keep clear of every train. \<open>Optimization_Properties\<close>: a run is made of steps of the job
  table, keeps every commitment, accounts for every job and places no work in the way of a train.
  \<open>Key_Facts\<close> and \<open>Assertion_Properties\<close>: key sets are trusted whole, served keys are current, fetching
  is rate limited, only signed and timely tokens verify, none verifies twice while the clock does not
  go back, and a refused one spends nothing. \<open>Session_Properties\<close>: the store keeps its limits, an actor
  is derived only from a live session and the directory of the moment, an assertion starts one session,
  and a handle that was rotated or logged out is dead. \<open>Directory_File\<close>: which documents are an
  enrolment, exactly. \<open>Service_Writes\<close>: every write is a step of the job table, and a successful one was
  authorized for the place of the work.

  \<^bold>\<open>Parameters.\<close> CP-SAT is an argument \<open>cp_solver\<close>; the facts that need it assume its documented
  contract, \<open>cp_sound\<close> (a claimed assignment satisfies the constraints) and \<open>cp_complete\<close> (a model
  it calls infeasible has no solution), and a concrete solver in \<open>Recovery_Properties\<close> meets both
  on the examples. \<open>arrange\<close> is the order in which Python iterates a set of ids. \<open>sha\<close> is the digest
  of a dictionary's canonical JSON, \<open>hex\<close> and \<open>ambient\<close> the random ids and the clock; \<open>world\<close> and
  \<open>occasion\<close> collect them for one call and one run. Of the libraries under the tokens, \<open>loads\<close> is
  \<^verbatim>\<open>json.loads\<close>, \<open>cr_verifies\<close> the ECDSA check, \<open>kr_on_curve\<close> the membership of a point in P-256 and
  \<open>fetch\<close> the transport of the key set; \<open>en_sha\<close> and \<open>en_token\<close> are the digest and the random bytes of the
  session store, and \<open>open_path\<close> is what the operating system answers for a file; nothing is assumed of
  them. Floats are exact rationals, JSON text is the
  dictionary it denotes, exception messages and other prose are left out.

  \<^bold>\<open>Loops.\<close> Every loop of the modelled code runs over a list and is structural recursion, with three
  exceptions: the chunking of the bulk history read, whose termination is proved; the scan of the
  scoped pages, a partial function proved to return on every input (\<open>scoped_scan_returns\<close>); and the draw
  of a session handle, a partial function that returns when some later draw is a fresh handle
  (\<open>session_creation_returns\<close>). There is no fuel.

  \<^bold>\<open>What modelling showed.\<close> A committed block whose covering windows are all empty within the
  horizon makes the whole model infeasible (\<open>contradicted_pin_empties_plan\<close>); \<open>update_schedule\<close>
  stores windows that end before they start (\<open>schedule_primitive_unchecked\<close>); a horizon with seconds
  makes every observed minute a refusal (\<open>horizon_off_the_minute_unusable\<close>); equal consecutive times of a
  train stay on one day, where a docstring says they cross midnight (\<open>rollover_is_the_only_reading\<close>); the \<open>$\<close> of the id
  and timestamp patterns admits one trailing newline; one observed time cancels the delay of a whole
  train (\<open>observed_stop_silences_delay\<close>); a compound track id aborts the conversion of a whole timetable
  (\<open>unrejectable_record_aborts_timetable\<close>); and a dataset of real trains without a source label makes
  every run fail with no record of it (\<open>unlabelled_source_fails_unrecorded\<close>).

  \<^bold>\<open>Not modelled.\<close> The HTTP layer and its request and response shapes, the data files on
  disk with the choice among them, the SQL text and its triggers, the random generation of demo data, the
  in-process locks (every call and every run is one step here), and the scripts, which prepare data and
  demos.
\<close>

end
